(* ===== verification/Prelude.thy ===== *)
theory Prelude
  imports Complex_Main "HOL-Library.Sublist"
begin

text \<open>
  Shared vocabulary of the development: the types the model gives to the values of the
  program (decimal amounts, identifiers, time stamps, JSON metadata, exceptions), the
  exception plumbing (\<open>bindE\<close>, \<open>guardE\<close>), the string functions of the JavaScript
  standard library that the sources use, and generic facts on lists and sums.

  \<^item> \<open>Prisma.Decimal\<close> values are exact rationals. The database columns are
    \<open>Decimal(19,4)\<close> and the decimal library keeps 20 significant digits, so every sum,
    difference and comparison of stored amounts is exact.
  \<^item> Time stamps are milliseconds since the epoch, as \<open>Date.getTime\<close> returns them.
  \<^item> Strings are lists of bytes; a non-ASCII character of the source is its UTF-8 bytes.
\<close>

subsection \<open>Collections of simplification rules\<close>

named_theorems money_simps \<open>facts about sums and rounding of amounts\<close>
named_theorems result_simps \<open>facts about computations that may throw\<close>
named_theorems table_simps \<open>facts about lookups in, and updates of, tables\<close>

subsection \<open>Types\<close>

type_synonym decimal = rat
type_synonym uuid = string
type_synonym timestamp = int

datatype json =
    JNull
  | JBool bool
  | JString string
  | JDecimal decimal
  | JObject "(string \<times> json) list"

datatype error =
    Error string
  | ConflictException string
  | BadRequestException string
  | ForbiddenException string
  | NotFoundException string
  | KnownRequestError string string
  | ServiceUnavailableException string
  | InternalServerErrorException string
  | CriticalJournalFailureError uuid nat int

fun error_message :: "error \<Rightarrow> string" where
  "error_message (Error m) = m"
| "error_message (ConflictException m) = m"
| "error_message (BadRequestException m) = m"
| "error_message (ForbiddenException m) = m"
| "error_message (NotFoundException m) = m"
| "error_message (KnownRequestError c m) = m"
| "error_message (ServiceUnavailableException m) = m"
| "error_message (InternalServerErrorException m) = m"
| "error_message (CriticalJournalFailureError c n w) = ''CRITICAL_JOURNAL_FAILURE''"

type_synonym 'a result = "error + 'a"

subsection \<open>Computations that may throw\<close>

fun bindE :: "'e + 'a \<Rightarrow> ('a \<Rightarrow> 'e + 'b) \<Rightarrow> 'e + 'b" where
  "bindE (Inl e) f = Inl e"
| "bindE (Inr x) f = f x"

definition guardE :: "bool \<Rightarrow> 'e \<Rightarrow> 'e + unit" where
  "guardE ok e = (if ok then Inr () else Inl e)"

lemma bindE_Inr_iff [result_simps]:
  "bindE m f = Inr y \<longleftrightarrow> (\<exists>x. m = Inr x \<and> f x = Inr y)"
  by (cases m) auto

lemma bindE_Inl_iff [result_simps]:
  "bindE m f = Inl e \<longleftrightarrow> m = Inl e \<or> (\<exists>x. m = Inr x \<and> f x = Inl e)"
  by (cases m) auto

lemma guardE_Inr_iff [result_simps]: "guardE ok e = Inr u \<longleftrightarrow> ok"
  by (simp add: guardE_def)

lemma guardE_Inl_iff [result_simps]: "guardE ok e = Inl e' \<longleftrightarrow> \<not> ok \<and> e' = e"
  by (auto simp: guardE_def)

lemma bindE_guardE [simp]:
  "bindE (guardE ok e) f = (if ok then f () else Inl e)"
  by (simp add: guardE_def)

lemma bindE_assoc: "bindE (bindE m f) g = bindE m (\<lambda>x. bindE (f x) g)"
  by (cases m) auto

text \<open>\<open>Array.map\<close> with a callback that may throw: the first throw wins.\<close>

fun mapE :: "('a \<Rightarrow> 'e + 'b) \<Rightarrow> 'a list \<Rightarrow> 'e + 'b list" where
  "mapE f [] = Inr []"
| "mapE f (x # xs) = bindE (f x) (\<lambda>y. bindE (mapE f xs) (\<lambda>ys. Inr (y # ys)))"

text \<open>Sorting the rows of a table does not change what a selection of them adds up to.\<close>

lemma sum_sort_key_filter:
  "(\<Sum>x\<leftarrow>filter P (sort_key k xs). f x) = (\<Sum>x\<leftarrow>filter P xs. f x)" for f :: "'a \<Rightarrow> 'b::comm_monoid_add"
proof -
  have "(\<Sum>x\<leftarrow>filter P (insort_key k a ys). f x) = (\<Sum>x\<leftarrow>filter P (a # ys). f x)" for a ys
    by (induction ys) (auto simp: add.left_commute)
  then show ?thesis by (induction xs) simp_all
qed

lemma sum_sort_key: "(\<Sum>x\<leftarrow>sort_key k xs. f x) = (\<Sum>x\<leftarrow>xs. f x)" for f :: "'a \<Rightarrow> 'b::comm_monoid_add"
  using sum_sort_key_filter [where P = "\<lambda>_. True"] by simp

lemma sort_key_map: "(\<And>x. k (g x) = k x) \<Longrightarrow> sort_key k (map g xs) = map g (sort_key k xs)"
proof -
  assume k: "\<And>x. k (g x) = k x"
  have "insort_key k (g a) (map g ys) = map g (insort_key k a ys)" for a ys
    by (induction ys) (auto simp: k)
  then show ?thesis by (induction xs) simp_all
qed

lemma mapE_total: "(\<And>x. x \<in> set xs \<Longrightarrow> f x = Inr (g x)) \<Longrightarrow> mapE f xs = Inr (map g xs)"
  by (induction xs) auto

lemma mapE_Inr_length: "mapE f xs = Inr ys \<Longrightarrow> length ys = length xs"
  by (induction xs arbitrary: ys) (auto simp: result_simps)

lemma mapE_Inr_list_all2: "mapE f xs = Inr ys \<longleftrightarrow> list_all2 (\<lambda>x y. f x = Inr y) xs ys"
proof (induction xs arbitrary: ys)
  case Nil
  then show ?case by (cases ys) auto
next
  case (Cons x xs)
  then show ?case by (cases ys) (auto simp: result_simps)
qed

subsection \<open>JavaScript's \<open>??\<close>\<close>

fun nullish :: "'a option \<Rightarrow> 'a \<Rightarrow> 'a" where
  "nullish None d = d"
| "nullish (Some x) d = x"

subsection \<open>Strings\<close>

definition is_ws :: "char \<Rightarrow> bool" where
  "is_ws c \<longleftrightarrow> c = CHR '' '' \<or> c = CHR 0x09 \<or> c = CHR 0x0A \<or> c = CHR 0x0B
     \<or> c = CHR 0x0C \<or> c = CHR 0x0D"

definition js_trim :: "string \<Rightarrow> string" where
  "js_trim s = rev (dropWhile is_ws (rev (dropWhile is_ws s)))"

definition lower_char :: "char \<Rightarrow> char" where
  "lower_char c = (let n = (of_char c :: nat)
     in if 65 \<le> n \<and> n \<le> 90 then char_of (n + 32) else c)"

definition to_lower :: "string \<Rightarrow> string" where
  "to_lower = map lower_char"

fun starts_with :: "string \<Rightarrow> string \<Rightarrow> bool" where
  "starts_with s [] = True"
| "starts_with [] (p # ps) = False"
| "starts_with (c # s) (p # ps) = (c = p \<and> starts_with s ps)"

fun str_includes :: "string \<Rightarrow> string \<Rightarrow> bool" where
  "str_includes [] p = (p = [])"
| "str_includes (c # s) p = (starts_with (c # s) p \<or> str_includes s p)"

lemma starts_with_iff: "starts_with s p \<longleftrightarrow> (\<exists>t. s = p @ t)"
  by (induction s p rule: starts_with.induct) auto

lemma starts_with_append [simp]: "starts_with (p @ t) p"
  by (auto simp: starts_with_iff)

lemma includes_iff: "str_includes s p \<longleftrightarrow> (\<exists>u t. s = u @ p @ t)"
proof (induction s)
  case Nil
  then show ?case by auto
next
  case (Cons c s)
  show ?case
  proof
    assume "str_includes (c # s) p"
    then consider "starts_with (c # s) p" | "str_includes s p" by auto
    then show "\<exists>u t. c # s = u @ p @ t"
    proof cases
      case 1
      then show ?thesis by (metis starts_with_iff append_Nil)
    next
      case 2
      then show ?thesis using Cons.IH by (metis append_Cons)
    qed
  next
    assume "\<exists>u t. c # s = u @ p @ t"
    then obtain u t where ut: "c # s = u @ p @ t" by blast
    show "str_includes (c # s) p"
    proof (cases u)
      case Nil
      with ut have "starts_with (c # s) p" by (auto simp: starts_with_iff)
      then show ?thesis by simp
    next
      case u: (Cons d v)
      with ut u have "s = v @ p @ t" by simp
      with Cons.IH have "str_includes s p" by blast
      then show ?thesis by simp
    qed
  qed
qed

lemma includes_append_left: "str_includes t p \<Longrightarrow> str_includes (s @ t) p"
  by (auto simp: includes_iff) (metis append_assoc)

lemma includes_append_right: "str_includes s p \<Longrightarrow> str_includes (s @ t) p"
  by (auto simp: includes_iff) blast

subsection \<open>Decimal digits\<close>

definition digit_char :: "nat \<Rightarrow> char" where
  "digit_char d = char_of (48 + d)"

definition is_digit :: "char \<Rightarrow> bool" where
  "is_digit c \<longleftrightarrow> 48 \<le> (of_char c :: nat) \<and> (of_char c :: nat) \<le> 57"

definition digit_val :: "char \<Rightarrow> nat" where
  "digit_val c = of_char c - 48"

fun show_nat :: "nat \<Rightarrow> string" where
  "show_nat n = (if n < 10 then [digit_char n]
     else show_nat (n div 10) @ [digit_char (n mod 10)])"

declare show_nat.simps [simp del]

definition show_int :: "int \<Rightarrow> string" where
  "show_int i = (if i < 0 then CHR ''-'' # show_nat (nat (- i)) else show_nat (nat i))"

definition digits_val :: "string \<Rightarrow> nat" where
  "digits_val s = foldl (\<lambda>a c. a * 10 + digit_val c) 0 s"

text \<open>\<open>padStart\<close> and \<open>padEnd\<close> with a one-character filler.\<close>

definition pad_start :: "nat \<Rightarrow> char \<Rightarrow> string \<Rightarrow> string" where
  "pad_start n c s = replicate (n - length s) c @ s"

definition pad_end :: "nat \<Rightarrow> char \<Rightarrow> string \<Rightarrow> string" where
  "pad_end n c s = s @ replicate (n - length s) c"

lemma of_char_digit_char: "d < 10 \<Longrightarrow> (of_char (digit_char d) :: nat) = 48 + d"
  by (simp add: digit_char_def)

lemma is_digit_digit_char [simp]: "d < 10 \<Longrightarrow> is_digit (digit_char d)"
  by (simp add: is_digit_def of_char_digit_char)

lemma digit_val_digit_char [simp]: "d < 10 \<Longrightarrow> digit_val (digit_char d) = d"
  by (simp add: digit_val_def of_char_digit_char)

lemma digits_val_Nil [simp]: "digits_val [] = 0"
  by (simp add: digits_val_def)

lemma digits_val_snoc [simp]: "digits_val (s @ [c]) = digits_val s * 10 + digit_val c"
  by (simp add: digits_val_def)

lemma digits_val_show_nat [simp]: "digits_val (show_nat n) = n"
proof (induction n rule: show_nat.induct)
  case (1 n)
  show ?case
  proof (cases "n < 10")
    case True
    then show ?thesis
      by (subst show_nat.simps) (simp add: digits_val_def)
  next
    case False
    then have "digits_val (show_nat n) = digits_val (show_nat (n div 10)) * 10 + n mod 10"
      by (subst show_nat.simps) simp
    with 1 False show ?thesis by simp
  qed
qed

lemma show_nat_digits: "c \<in> set (show_nat n) \<Longrightarrow> is_digit c"
proof (induction n rule: show_nat.induct)
  case (1 n)
  then show ?case
    by (cases "n < 10") (subst (asm) (2) show_nat.simps; auto)+
qed

lemma show_nat_nonempty [simp]: "show_nat n \<noteq> []"
  by (subst show_nat.simps) simp

lemma show_nat_inj: "show_nat m = show_nat n \<longleftrightarrow> m = n"
  by (metis digits_val_show_nat)

lemma digits_val_pad_start [simp]: "digits_val (pad_start n (CHR ''0'') s) = digits_val s"
proof -
  have "digits_val (replicate k (CHR ''0'') @ s) = digits_val s" for k
    by (induction k) (simp_all add: digits_val_def digit_val_def)
  then show ?thesis by (simp add: pad_start_def)
qed

lemma length_show_nat_le: "n < 10 ^ k \<Longrightarrow> 0 < k \<Longrightarrow> length (show_nat n) \<le> k"
proof (induction n arbitrary: k rule: show_nat.induct)
  case (1 n)
  show ?case
  proof (cases "n < 10")
    case True
    then show ?thesis using "1.prems" by (subst show_nat.simps) simp
  next
    case False
    with "1.prems" obtain j where k: "k = Suc j" "0 < j"
      by (cases k) (auto, cases "k - 1", auto)
    with "1.prems" False have "n div 10 < 10 ^ j" by (simp add: less_mult_imp_div_less mult.commute)
    then have "length (show_nat (n div 10)) \<le> j" using "1.IH" False k by blast
    then show ?thesis using False k by (subst show_nat.simps) simp
  qed
qed

lemma digit_chars: "digit_char 0 = CHR ''0''" "digit_char 1 = CHR ''1''" "digit_char 2 = CHR ''2''"
  "digit_char 3 = CHR ''3''" "digit_char 4 = CHR ''4''" "digit_char 5 = CHR ''5''" "digit_char 6 = CHR ''6''"
  "digit_char 7 = CHR ''7''" "digit_char 8 = CHR ''8''" "digit_char 9 = CHR ''9''"
  by code_simp+

text \<open>Printing a concrete number by rewriting.\<close>

lemma show_nat_step:
  "10 \<le> n \<Longrightarrow> show_nat n = show_nat (n div 10) @ [digit_char (n mod 10)]"
  "n < 10 \<Longrightarrow> show_nat n = [digit_char n]"
  by (subst show_nat.simps; simp)+

lemmas show_nat_eval = show_nat_step digit_chars

subsection \<open>Lists and sums\<close>

lemma sum_list_filter_split:
  "sum_list (map f xs) = sum_list (map f (filter P xs)) + sum_list (map f (filter (\<lambda>x. \<not> P x) xs))"
  for f :: "'a \<Rightarrow> 'b::comm_monoid_add"
  by (induction xs) (auto simp: ac_simps)

lemma sum_list_nonneg_rat:
  "(\<And>x. x \<in> set xs \<Longrightarrow> 0 \<le> f x) \<Longrightarrow> 0 \<le> (\<Sum>x\<leftarrow>xs. f x :: rat)"
  by (induction xs) auto

lemma find_append: "find P (xs @ ys) = (case find P xs of Some x \<Rightarrow> Some x | None \<Rightarrow> find P ys)"
  by (induction xs) auto

lemma find_Some_in: "find P xs = Some x \<Longrightarrow> x \<in> set xs \<and> P x"
  by (induction xs) (auto split: if_splits)

lemma find_None_iff': "find P xs = None \<longleftrightarrow> (\<forall>x\<in>set xs. \<not> P x)"
  by (induction xs) auto

lemma find_map_update:
  assumes "\<And>x. P (f x) = P x"
  shows "find P (map f xs) = map_option f (find P xs)"
  using assms by (induction xs) auto

end
