(* ===== verification/Clock.thy ===== *)
theory Clock
  imports Prelude
begin

text \<open>
  The calendar functions of JavaScript's \<open>Date\<close> that the sources use
  (\<open>getUTCFullYear\<close>, \<open>getUTCMonth\<close>), written as ECMAScript defines them on milliseconds
  since the epoch. The year is found by an estimate corrected by one;
  \<open>year_from_day_correct\<close> shows that it is the year whose first day is the last one not
  after the given day.
\<close>

definition MS_PER_DAY :: int where "MS_PER_DAY = 86400000"

definition day_of :: "timestamp \<Rightarrow> int" where "day_of t = t div MS_PER_DAY"

definition day_from_year :: "int \<Rightarrow> int" where
  "day_from_year y = 365 * (y - 1970) + (y - 1969) div 4 - (y - 1901) div 100 + (y - 1601) div 400"

definition year_from_day :: "int \<Rightarrow> int" where
  "year_from_day d = (let y = 1970 + d * 400 div 146097 in
     if day_from_year (y + 1) \<le> d then y + 1 else if d < day_from_year y then y - 1 else y)"

definition leap_year :: "int \<Rightarrow> bool" where
  "leap_year y \<longleftrightarrow> y mod 4 = 0 \<and> (y mod 100 \<noteq> 0 \<or> y mod 400 = 0)"

definition month_starts :: "bool \<Rightarrow> int list" where
  "month_starts leap = 31 # map (\<lambda>n. if leap then n + 1 else n)
     [59, 90, 120, 151, 181, 212, 243, 273, 304, 334]"

definition getUTCFullYear :: "timestamp \<Rightarrow> int" where
  "getUTCFullYear t = year_from_day (day_of t)"

definition getUTCMonth :: "timestamp \<Rightarrow> int" where
  "getUTCMonth t = (let y = getUTCFullYear t; d = day_of t - day_from_year y
     in int (length (filter (\<lambda>s. s \<le> d) (month_starts (leap_year y)))))"

definition getUTCDate :: "timestamp \<Rightarrow> int" where
  "getUTCDate t = (let y = getUTCFullYear t; d = day_of t - day_from_year y;
       before = filter (\<lambda>s. s \<le> d) (month_starts (leap_year y))
     in d - (if before = [] then 0 else last before) + 1)"

text \<open>\<open>toISOString().slice(0, 10)\<close> for the years 0 to 9999.\<close>

definition iso_date :: "timestamp \<Rightarrow> string" where
  "iso_date t = pad_start 4 (CHR ''0'') (show_int (getUTCFullYear t)) @ ''-''
     @ pad_start 2 (CHR ''0'') (show_int (getUTCMonth t + 1)) @ ''-''
     @ pad_start 2 (CHR ''0'') (show_int (getUTCDate t))"

lemma div_lower: "numeral k * (x div numeral k) \<le> (x :: int)"
proof -
  have "0 \<le> x mod numeral k" by simp
  then show ?thesis using mult_div_mod_eq [of "numeral k" x] by linarith
qed

lemma div_upper: "(x :: int) < numeral k * (x div numeral k) + numeral k"
proof -
  have "x mod numeral k < numeral k" by simp
  then show ?thesis using mult_div_mod_eq [of "numeral k" x] by linarith
qed

lemma calendar_arith:
  fixes y a b c :: int
  assumes "4 * a \<le> y - 1969" "y - 1969 < 4 * a + 4"
    and "100 * b \<le> y - 1901" "y - 1901 < 100 * b + 100"
    and "400 * c \<le> y - 1601" "y - 1601 < 400 * c + 400"
  shows "400 * (365 * (y - 1970) + a - b + c) \<le> 146097 * (y - 1970) + 600"
    and "146097 * (y - 1970) - 700 \<le> 400 * (365 * (y - 1970) + a - b + c)"
  using assms by (simp_all add: algebra_simps)

lemma day_from_year_bounds:
  "400 * day_from_year y \<le> 146097 * (y - 1970) + 600"
  "146097 * (y - 1970) - 700 \<le> 400 * day_from_year y"
  unfolding day_from_year_def by (rule calendar_arith; rule div_lower div_upper)+

lemma year_from_day_correct:
  "day_from_year (year_from_day d) \<le> d \<and> d < day_from_year (year_from_day d + 1)"
proof -
  define y where "y = 1970 + d * 400 div 146097"
  have y: "146097 * (y - 1970) \<le> d * 400" "d * 400 < 146097 * (y - 1970) + 146097"
    using div_lower [of _ "d * 400"] div_upper [of "d * 400"] unfolding y_def by simp_all
  have lo: "day_from_year (y - 1) \<le> d"
    using y(1) day_from_year_bounds(1) [of "y - 1"] by simp
  have hi: "d < day_from_year (y + 2)"
    using y(2) day_from_year_bounds(2) [of "y + 2"] by simp
  show ?thesis
    unfolding year_from_day_def y_def [symmetric] Let_def using lo hi by (auto simp: add.assoc)
qed

lemma getUTCMonth_range: "0 \<le> getUTCMonth t \<and> getUTCMonth t \<le> 11"
proof -
  have "length (filter P (month_starts l)) \<le> 11" for P l
    by (rule order_trans [OF length_filter_le]) (simp add: month_starts_def)
  then have "int (length (filter P (month_starts l))) \<le> int 11" for P l
    by (simp only: of_nat_le_iff)
  then show ?thesis by (simp add: getUTCMonth_def Let_def)
qed

end
