(* ===== verification/Journal_Store.thy ===== *)
theory Journal_Store
  imports Clock
begin

text \<open>
  The tables behind the double-entry journal (\<open>prisma/schema.prisma\<close>: Account, JournalEntry,
  JournalLine, JournalFailureLog, FinancialPeriod, FinancialPeriodViolation), the part of the
  process environment and of the database client that the services read, and the interface
  \<open>keyed_ledger\<close>: a ledger whose entries are written once under a key.

  A table is the list of its rows in the order of creation. Row identifiers are drawn by the
  database (\<open>@default(uuid())\<close>): \<open>new_uuid\<close> of the environment, a parameter. What a create
  statement raises instead of succeeding (a lost connection, a unique violation caused by a
  concurrent writer) is a parameter too: \<open>create_fault\<close>, \<open>None\<close> when the statement succeeds.
\<close>

record account =
  acc_id :: uuid
  acc_code :: string
  acc_isActive :: bool

record journal_line =
  jl_accountId :: uuid
  jl_debit :: decimal
  jl_credit :: decimal
  jl_meta :: "json option"

record journal_entry =
  je_id :: uuid
  je_source :: string
  je_sourceRef :: string
  je_actorUserId :: uuid
  je_customerId :: "uuid option"
  je_orderId :: "uuid option"
  je_branchId :: "uuid option"
  je_createdAt :: timestamp
  je_lines :: "journal_line list"

record journal_failure =
  jf_customerId :: "uuid option"
  jf_orderId :: "uuid option"
  jf_source :: string
  jf_sourceRef :: "string option"
  jf_amount :: decimal
  jf_errorCode :: "string option"
  jf_errorMessage :: string
  jf_context :: json
  jf_createdAt :: timestamp

datatype period_status = OPEN | CLOSED

record financial_period =
  fp_id :: uuid
  fp_year :: int
  fp_month :: int
  fp_status :: period_status
  fp_lockedAt :: "timestamp option"
  fp_lockedById :: "uuid option"
  fp_lockNotes :: "string option"
  fp_reopenedAt :: "timestamp option"
  fp_reopenedById :: "uuid option"
  fp_reopenReason :: "string option"

record period_violation =
  pv_periodId :: uuid
  pv_attemptedAt :: timestamp
  pv_actorUserId :: "uuid option"
  pv_writerName :: string
  pv_sourceRef :: "string option"
  pv_payload :: json

record journal_db =
  accounts :: "account list"
  journalEntries :: "journal_entry list"
  journalFailureLog :: "journal_failure list"
  financialPeriods :: "financial_period list"
  financialPeriodViolations :: "period_violation list"

record env =
  PERIOD_LOCK_ENFORCE :: "string option"
  JOURNAL_FAIL_CLOSED_CRITICAL :: "string option"
  USE_JOURNAL_AS_SOURCE :: "string option"
  V20_4_FINAL_LEDGER :: "string option"
  V20_3_TRUE_ACCOUNTING :: "string option"
  now :: timestamp
  new_uuid :: "nat \<Rightarrow> uuid"
  period_guard_wired :: bool
  create_fault :: "string \<Rightarrow> error option"
  violation_log_fault :: bool
  failure_log_fault :: bool
  breaker_read_fault :: bool

subsection \<open>Lookups\<close>

text \<open>\<open>journalEntry.findUnique({ where: { sourceRef } })\<close>\<close>

definition find_entry :: "'z journal_db_scheme \<Rightarrow> string \<Rightarrow> journal_entry option" where
  "find_entry db ref = find (\<lambda>e. je_sourceRef e = ref) (journalEntries db)"

definition find_entry_id :: "'z journal_db_scheme \<Rightarrow> string \<Rightarrow> uuid option" where
  "find_entry_id db ref = map_option je_id (find_entry db ref)"

text \<open>\<open>account.findMany({ where: { code, isActive: true } })\<close>; the code is unique.\<close>

definition active_account :: "'z journal_db_scheme \<Rightarrow> string \<Rightarrow> uuid option" where
  "active_account db code =
     map_option acc_id (find (\<lambda>a. acc_code a = code \<and> acc_isActive a) (accounts db))"

text \<open>The code of the account a journal line belongs to (the join \<open>account: { code }\<close>).\<close>

definition code_of_account :: "'z journal_db_scheme \<Rightarrow> uuid \<Rightarrow> string option" where
  "code_of_account db i = map_option acc_code (find (\<lambda>a. acc_id a = i) (accounts db))"

definition line_on :: "'z journal_db_scheme \<Rightarrow> string \<Rightarrow> journal_line \<Rightarrow> bool" where
  "line_on db code l \<longleftrightarrow> code_of_account db (jl_accountId l) = Some code"

definition line_amount :: "journal_line \<Rightarrow> decimal" where
  "line_amount l = jl_debit l - jl_credit l"

definition entry_debit :: "journal_entry \<Rightarrow> decimal" where
  "entry_debit e = (\<Sum>l\<leftarrow>je_lines e. jl_debit l)"

definition entry_credit :: "journal_entry \<Rightarrow> decimal" where
  "entry_credit e = (\<Sum>l\<leftarrow>je_lines e. jl_credit l)"

text \<open>The seeded chart of accounts: identifiers and codes are unique.\<close>

definition accounts_ok :: "'z journal_db_scheme \<Rightarrow> bool" where
  "accounts_ok db \<longleftrightarrow> distinct (map acc_id (accounts db)) \<and> distinct (map acc_code (accounts db))"

lemma find_distinct_key:
  assumes "distinct (map f xs)" and "x \<in> set xs"
  shows "find (\<lambda>y. f y = f x) xs = Some x"
  using assms by (induction xs) force+

lemma active_account_code:
  assumes "accounts_ok db" and "active_account db code = Some i"
  shows "code_of_account db i = Some code"
proof -
  from assms(2) obtain a where a: "find (\<lambda>a. acc_code a = code \<and> acc_isActive a) (accounts db) = Some a"
      and i: "i = acc_id a"
    by (auto simp: active_account_def)
  from a have "a \<in> set (accounts db)" and "acc_code a = code" by (auto dest: find_Some_in)
  moreover from this assms(1) have "find (\<lambda>y. acc_id y = acc_id a) (accounts db) = Some a"
    by (intro find_distinct_key) (simp_all add: accounts_ok_def)
  ultimately show ?thesis by (simp add: code_of_account_def i)
qed

lemma find_entry_snoc [table_simps]:
  "find_entry (db\<lparr>journalEntries := journalEntries db @ [e]\<rparr>) ref =
     (case find_entry db ref of Some x \<Rightarrow> Some x
      | None \<Rightarrow> if je_sourceRef e = ref then Some e else None)"
  by (simp add: find_entry_def find_append split: option.split)

lemma find_entry_id_snoc [table_simps]:
  "find_entry_id (db\<lparr>journalEntries := journalEntries db @ [e]\<rparr>) ref =
     (case find_entry_id db ref of Some x \<Rightarrow> Some x
      | None \<Rightarrow> if je_sourceRef e = ref then Some (je_id e) else None)"
  by (simp add: find_entry_id_def table_simps split: option.split)

lemma find_entry_frame [table_simps]:
  "find_entry (db\<lparr>financialPeriodViolations := v\<rparr>) ref = find_entry db ref"
  "find_entry (db\<lparr>journalFailureLog := f\<rparr>) ref = find_entry db ref"
  "find_entry (db\<lparr>financialPeriods := p\<rparr>) ref = find_entry db ref"
  by (simp_all add: find_entry_def)

lemma active_account_frame [table_simps]:
  "active_account (db\<lparr>financialPeriodViolations := v\<rparr>) c = active_account db c"
  "active_account (db\<lparr>journalFailureLog := f\<rparr>) c = active_account db c"
  "active_account (db\<lparr>journalEntries := e\<rparr>) c = active_account db c"
  by (simp_all add: active_account_def)

lemma code_of_account_frame [table_simps]:
  "code_of_account (db\<lparr>financialPeriodViolations := v\<rparr>) i = code_of_account db i"
  "code_of_account (db\<lparr>journalFailureLog := f\<rparr>) i = code_of_account db i"
  "code_of_account (db\<lparr>journalEntries := e\<rparr>) i = code_of_account db i"
  by (simp_all add: code_of_account_def)

subsection \<open>The interface of a write-once ledger\<close>

text \<open>
  What the callers of the journal rely on. \<open>post\<close> writes an entry under the key of its
  input; \<open>accepts\<close> is the part of the input check that comes before the key is looked up.
  The laws: a successful post is visible under its key; posting under a key that exists
  returns the entry and writes nothing; no post removes or changes an entry, nor creates one
  under another key.
\<close>

locale keyed_ledger =
  fixes lookup :: "'s \<Rightarrow> 'k \<Rightarrow> 'r option"
    and post :: "'s \<Rightarrow> 'i \<Rightarrow> 'r result \<times> 's"
    and key :: "'i \<Rightarrow> 'k"
    and accepts :: "'i \<Rightarrow> bool"
  assumes post_visible: "post s i = (Inr r, s') \<Longrightarrow> lookup s' (key i) = Some r"
    and post_accepted: "post s i = (Inr r, s') \<Longrightarrow> accepts i"
    and post_existing: "accepts i \<Longrightarrow> lookup s (key i) = Some r \<Longrightarrow> post s i = (Inr r, s)"
    and post_keeps: "lookup s k = Some r \<Longrightarrow> lookup (snd (post s i)) k = Some r"
    and post_other: "k \<noteq> key i \<Longrightarrow> lookup (snd (post s i)) k = lookup s k"
begin

text \<open>A retry of a successful post returns the same entry and changes nothing.\<close>

lemma post_retry: "post s i = (Inr r, s') \<Longrightarrow> post s' i = (Inr r, s')"
  by (rule post_existing) (auto dest: post_accepted post_visible)

text \<open>Several posts in order; a post that throws leaves the state the throw left.\<close>

fun post_all :: "'s \<Rightarrow> 'i list \<Rightarrow> 's" where
  "post_all s [] = s"
| "post_all s (i # is) = post_all (snd (post s i)) is"

lemma post_all_keeps: "lookup s k = Some r \<Longrightarrow> lookup (post_all s is) k = Some r"
  by (induction "is" arbitrary: s) (simp_all add: post_keeps)

lemma post_all_other: "k \<notin> key ` set is \<Longrightarrow> lookup (post_all s is) k = lookup s k"
  by (induction "is" arbitrary: s) (simp_all add: post_other)

text \<open>A post that succeeded once succeeds for ever after with the same entry.\<close>

lemma post_stable:
  assumes "post s i = (Inr r, s')"
  shows "post (post_all s' is) i = (Inr r, post_all s' is)"
  using assms by (intro post_existing post_all_keeps) (auto dest: post_accepted post_visible)

text \<open>Two inputs with one key share one entry: the second is a replay of the first.\<close>

lemma post_same_key:
  assumes "post s i = (Inr r, s')" and "accepts j" and "key j = key i"
  shows "post (post_all s' is) j = (Inr r, post_all s' is)"
  using assms post_visible [OF assms(1)] by (intro post_existing post_all_keeps) simp_all

end

subsection \<open>A concrete environment and chart of accounts\<close>

text \<open>
  The seeded accounts (identifiers made of the code) and an environment without faults in
  which the period lock is enforced; the witnesses of the properties evaluate the code there.
\<close>

definition example_accounts :: "account list" where
  "example_accounts = map (\<lambda>c. \<lparr>acc_id = ''acc-'' @ c, acc_code = c, acc_isActive = True\<rparr>)
     [''1100'', ''1200'', ''1210'', ''1300'', ''2100'', ''4100'', ''4200'', ''5100'', ''5200'', ''5300'']"

definition example_db :: journal_db where
  "example_db = \<lparr>accounts = example_accounts, journalEntries = [], journalFailureLog = [],
     financialPeriods = [], financialPeriodViolations = []\<rparr>"

definition example_env :: env where
  "example_env = \<lparr>PERIOD_LOCK_ENFORCE = Some ''true'', JOURNAL_FAIL_CLOSED_CRITICAL = None,
     USE_JOURNAL_AS_SOURCE = None, V20_4_FINAL_LEDGER = None, V20_3_TRUE_ACCOUNTING = None, now = 1772668800000,
     new_uuid = (\<lambda>n. ''row-'' @ show_nat n), period_guard_wired = True,
     create_fault = (\<lambda>_. None), violation_log_fault = False, failure_log_fault = False,
     breaker_read_fault = False\<rparr>"

lemma example_accounts_ok: "accounts_ok example_db"
  by (simp add: accounts_ok_def example_db_def example_accounts_def)

end
