(* ===== verification/Periods.thy ===== *)
theory Periods
  imports Journal_Store "HOL-Library.Multiset"
begin

text \<open>
  \<open>src/finance/periods/financial-periods.service.ts\<close> and \<open>period-lock-monitor.ts\<close>: the
  accounting months. A month without a row is implicitly open; closing and reopening take a
  typed confirmation; \<open>assertWriteAllowed\<close> is the guard every journal write passes when the
  lock is enforced. The month of a write is the one of Kuwait local time (UTC+3).
\<close>

subsection \<open>Periods\<close>

definition KUWAIT_OFFSET_MS :: int where "KUWAIT_OFFSET_MS = 3 * 60 * 60 * 1000"

definition pad :: "int \<Rightarrow> string" where
  "pad n = pad_start 2 (CHR ''0'') (show_int n)"

definition find_period :: "'z journal_db_scheme \<Rightarrow> int \<Rightarrow> int \<Rightarrow> financial_period option" where
  "find_period db y m = find (\<lambda>p. fp_year p = y \<and> fp_month p = m) (financialPeriods db)"

definition update_period ::
  "'z journal_db_scheme \<Rightarrow> uuid \<Rightarrow> (financial_period \<Rightarrow> financial_period) \<Rightarrow> 'z journal_db_scheme" where
  "update_period db i f = db\<lparr>financialPeriods :=
     map (\<lambda>p. if fp_id p = i then f p else p) (financialPeriods db)\<rparr>"

text \<open>A JavaScript number that is an integer: the decimal is its own floor.\<close>

definition is_integer :: "decimal \<Rightarrow> bool" where
  "is_integer x \<longleftrightarrow> of_int (floor x) = x"

definition assertValidPeriod :: "decimal \<Rightarrow> decimal \<Rightarrow> unit result" where
  "assertValidPeriod year month =
     (if \<not> is_integer year \<or> year < 2020 \<or> year > 2100
      then Inl (BadRequestException ''year out of range (2020..2100)'')
      else if \<not> is_integer month \<or> month < 1 \<or> month > 12
      then Inl (BadRequestException ''month must be 1..12'')
      else Inr ())"

text \<open>\<open>getStatus\<close>: the status with the open default, and the four stamps.\<close>

definition getStatus :: "'z journal_db_scheme \<Rightarrow> decimal \<Rightarrow> decimal \<Rightarrow>
    (period_status \<times> timestamp option \<times> uuid option \<times> timestamp option \<times> uuid option) result" where
  "getStatus db year month = bindE (assertValidPeriod year month) (\<lambda>_.
     case find_period db (floor year) (floor month) of
       None \<Rightarrow> Inr (OPEN, None, None, None, None)
     | Some row \<Rightarrow> Inr (fp_status row, fp_lockedAt row, fp_lockedById row,
         fp_reopenedAt row, fp_reopenedById row))"

record close_input =
  ci_year :: decimal
  ci_month :: decimal
  ci_actorId :: uuid
  ci_notes :: "string option"
  ci_confirmation :: string

text \<open>
  \<open>race\<close> is what the create statement meets: \<open>None\<close> when it succeeds, or the error it
  raises and the row, if any, a concurrent transaction has committed for the month by then.
\<close>

definition closePeriod :: "env \<Rightarrow> 'z journal_db_scheme \<Rightarrow> (error \<times> financial_period option) option \<Rightarrow>
    close_input \<Rightarrow> (financial_period \<times> 'z journal_db_scheme) result" where
  "closePeriod env db race inp =
     bindE (assertValidPeriod (ci_year inp) (ci_month inp)) (\<lambda>_.
       let y = floor (ci_year inp); m = floor (ci_month inp);
           expected = ''CLOSE-'' @ show_int y @ ''-'' @ pad m
       in if ci_confirmation inp \<noteq> expected
          then Inl (BadRequestException (''confirmation must equal \"'' @ expected @ ''\" (double-confirmation)''))
          else (case find_period db y m of
              Some existing \<Rightarrow>
                if fp_status existing = CLOSED then Inr (existing, db)
                else let f = (\<lambda>p. p\<lparr>fp_status := CLOSED, fp_lockedAt := Some (now env),
                         fp_lockedById := Some (ci_actorId inp), fp_lockNotes := ci_notes inp,
                         fp_reopenedAt := None, fp_reopenedById := None, fp_reopenReason := None\<rparr>)
                     in Inr (f existing, update_period db (fp_id existing) f)
            | None \<Rightarrow>
                (case race of
                   None \<Rightarrow>
                     let row = \<lparr>fp_id = new_uuid env (length (financialPeriods db)), fp_year = y, fp_month = m,
                           fp_status = CLOSED, fp_lockedAt = Some (now env),
                           fp_lockedById = Some (ci_actorId inp), fp_lockNotes = ci_notes inp,
                           fp_reopenedAt = None, fp_reopenedById = None, fp_reopenReason = None\<rparr>
                     in Inr (row, db\<lparr>financialPeriods := financialPeriods db @ [row]\<rparr>)
                 | Some (err, winner) \<Rightarrow>
                     (case (err, winner) of
                        (KnownRequestError code _, Some w) \<Rightarrow>
                          if code = ''P2002'' \<and> fp_year w = y \<and> fp_month w = m
                          then Inr (w, db\<lparr>financialPeriods := financialPeriods db @ [w]\<rparr>) else Inl err
                      | _ \<Rightarrow> Inl err))))"

record reopen_input =
  ri_year :: decimal
  ri_month :: decimal
  ri_actorId :: uuid
  ri_reason :: string
  ri_confirmation :: string

definition reopenPeriod :: "env \<Rightarrow> 'z journal_db_scheme \<Rightarrow> reopen_input \<Rightarrow>
    (financial_period \<times> 'z journal_db_scheme) result" where
  "reopenPeriod env db inp =
     bindE (assertValidPeriod (ri_year inp) (ri_month inp)) (\<lambda>_.
       let y = floor (ri_year inp); m = floor (ri_month inp);
           expected = ''REOPEN-'' @ show_int y @ ''-'' @ pad m
       in if ri_confirmation inp \<noteq> expected
          then Inl (BadRequestException (''confirmation must equal \"'' @ expected @ ''\" (double-confirmation)''))
          else if js_trim (ri_reason inp) = ''''
          then Inl (BadRequestException ''reason is required to reopen a closed period'')
          else (case find_period db y m of
              None \<Rightarrow> Inl (BadRequestException
                (''Period is implicitly OPEN '' @ [CHR 0xE2, CHR 0x80, CHR 0x94] @ '' nothing to reopen''))
            | Some existing \<Rightarrow>
                if fp_status existing = OPEN then Inr (existing, db)
                else let f = (\<lambda>p. p\<lparr>fp_status := OPEN, fp_reopenedAt := Some (now env),
                         fp_reopenedById := Some (ri_actorId inp),
                         fp_reopenReason := Some (js_trim (ri_reason inp))\<rparr>)
                     in Inr (f existing, update_period db (fp_id existing) f)))"

subsection \<open>The guard of journal writes\<close>

record write_request =
  wr_effectiveAt :: timestamp
  wr_actorUserId :: "uuid option"
  wr_writerName :: string
  wr_sourceRef :: "string option"
  wr_allowReversal :: bool
  wr_payload :: "(string \<times> json) list"

definition kuwait_period :: "timestamp \<Rightarrow> int \<times> int" where
  "kuwait_period t = (getUTCFullYear (t + KUWAIT_OFFSET_MS), getUTCMonth (t + KUWAIT_OFFSET_MS) + 1)"

definition period_closed_message :: "int \<Rightarrow> int \<Rightarrow> string" where
  "period_closed_message year month = ''Financial period '' @ show_int year @ ''-'' @ pad month
     @ '' is CLOSED '' @ [CHR 0xE2, CHR 0x80, CHR 0x94] @ '' write rejected by PeriodLockGuard''"

text \<open>
  The violation row is written on a connection of its own and survives the throw, so the
  state is returned in both cases. \<open>toISOString\<close> of the effective time is kept as the
  number of milliseconds it prints.
\<close>

definition violation_row :: "env \<Rightarrow> financial_period \<Rightarrow> write_request \<Rightarrow> period_violation" where
  "violation_row env period inp = \<lparr>pv_periodId = fp_id period, pv_attemptedAt = now env,
     pv_actorUserId = wr_actorUserId inp, pv_writerName = wr_writerName inp,
     pv_sourceRef = wr_sourceRef inp,
     pv_payload = JObject ([(''allowedAsReversal'', JBool (wr_allowReversal inp)),
       (''effectiveAtIso'', JDecimal (of_int (wr_effectiveAt inp)))] @ wr_payload inp)\<rparr>"

definition assertWriteAllowed :: "env \<Rightarrow> 'z journal_db_scheme \<Rightarrow> write_request \<Rightarrow>
    (uuid option) result \<times> 'z journal_db_scheme" where
  "assertWriteAllowed env db inp =
     (let (year, month) = kuwait_period (wr_effectiveAt inp)
      in case find_period db year month of
           None \<Rightarrow> (Inr None, db)
         | Some period \<Rightarrow>
             if fp_status period = OPEN then (Inr (Some (fp_id period)), db)
             else
               let db1 = (if violation_log_fault env then db
                     else db\<lparr>financialPeriodViolations :=
                       financialPeriodViolations db @ [violation_row env period inp]\<rparr>)
               in if \<not> wr_allowReversal inp
                  then (Inl (ConflictException (period_closed_message year month)), db1)
                  else (Inr (Some (fp_id period)), db1))"

definition listViolations :: "'z journal_db_scheme \<Rightarrow> uuid option \<Rightarrow> int option \<Rightarrow> period_violation list" where
  "listViolations db periodId limit_opt =
     (let limit = min (max (nullish limit_opt 100) 1) 500
      in take (nat limit) (sort_key (\<lambda>v. - pv_attemptedAt v)
           (filter (\<lambda>v. case periodId of None \<Rightarrow> True | Some p \<Rightarrow> pv_periodId v = p)
             (financialPeriodViolations db))))"

definition periodForDate :: "timestamp \<Rightarrow> int \<times> int" where
  "periodForDate d = (getUTCFullYear d, getUTCMonth d + 1)"


subsection \<open>The monitor\<close>

datatype enforcement_mode = Enforcing | Monitoring
datatype health = Green | Amber | Red

record period_health =
  ph_enforcementMode :: enforcement_mode
  ph_closedPeriods :: nat
  ph_openPeriods :: nat
  ph_recentViolations :: nat
  ph_recentReversalViolations :: nat
  ph_recentRejectedViolations :: nat
  ph_rejectionsByWriter :: "(string \<times> nat) list"
  ph_health :: health

fun isReversal :: "json \<Rightarrow> bool" where
  "isReversal (JObject kvs) = (map_of (rev kvs) ''allowedAsReversal'' = Some (JBool True))"
| "isReversal _ = False"

text \<open>\<open>Map.set(k, (Map.get(k) ?? 0) + 1)\<close>: a new key goes to the end, as in a JavaScript map.\<close>

fun bump_count :: "string \<Rightarrow> (string \<times> nat) list \<Rightarrow> (string \<times> nat) list" where
  "bump_count k [] = [(k, 1)]"
| "bump_count k ((k', n) # m) = (if k = k' then (k', Suc n) # m else (k', n) # bump_count k m)"

definition count_rejections :: "period_violation list \<Rightarrow> (string \<times> nat) list" where
  "count_rejections vs = foldl (\<lambda>m v. if isReversal (pv_payload v) then m
     else bump_count (pv_writerName v) m) [] vs"

definition projectPeriodHealth ::
  "enforcement_mode \<Rightarrow> (nat \<times> nat) option \<Rightarrow> period_status list \<Rightarrow> period_violation list \<Rightarrow> period_health" where
  "projectPeriodHealth mode thresholds periods violations =
     (let (amber, red) = nullish thresholds (5, 20);
          closed = length (filter (\<lambda>p. p = CLOSED) periods);
          opened = length (filter (\<lambda>p. p = OPEN) periods);
          reversal = length (filter (\<lambda>v. isReversal (pv_payload v)) violations);
          rejected = length (filter (\<lambda>v. \<not> isReversal (pv_payload v)) violations);
          h = (if rejected \<ge> red then Red else if rejected \<ge> amber then Amber else Green);
          h' = (if mode = Monitoring \<and> rejected + reversal > 0 \<and> h = Green then Amber else h)
      in \<lparr>ph_enforcementMode = mode, ph_closedPeriods = closed, ph_openPeriods = opened,
          ph_recentViolations = length violations, ph_recentReversalViolations = reversal,
          ph_recentRejectedViolations = rejected,
          ph_rejectionsByWriter = sort_key (\<lambda>(w, n). - int n) (count_rejections violations),
          ph_health = h'\<rparr>)"

subsection \<open>The period table\<close>

text \<open>Identifiers are unique, a month has one row, and every row is of a calendar month.\<close>

definition periods_ok :: "'z journal_db_scheme \<Rightarrow> bool" where
  "periods_ok db \<longleftrightarrow> distinct (map fp_id (financialPeriods db))
     \<and> distinct (map (\<lambda>p. (fp_year p, fp_month p)) (financialPeriods db))
     \<and> (\<forall>p\<in>set (financialPeriods db). 1 \<le> fp_month p \<and> fp_month p \<le> 12)"

definition status_of :: "'z journal_db_scheme \<Rightarrow> int \<Rightarrow> int \<Rightarrow> period_status" where
  "status_of db y m = (case find_period db y m of None \<Rightarrow> OPEN | Some p \<Rightarrow> fp_status p)"

lemma find_period_frame [table_simps]:
  "find_period (db\<lparr>financialPeriodViolations := v\<rparr>) y m = find_period db y m"
  "find_period (db\<lparr>journalEntries := e\<rparr>) y m = find_period db y m"
  "find_period (db\<lparr>journalFailureLog := f\<rparr>) y m = find_period db y m"
  by (simp_all add: find_period_def)

lemma find_period_snoc [table_simps]:
  "find_period (db\<lparr>financialPeriods := financialPeriods db @ [p]\<rparr>) y m =
     (case find_period db y m of Some x \<Rightarrow> Some x
      | None \<Rightarrow> if fp_year p = y \<and> fp_month p = m then Some p else None)"
  by (simp add: find_period_def find_append split: option.split)

lemma find_period_SomeD:
  "find_period db y m = Some p \<Longrightarrow> p \<in> set (financialPeriods db) \<and> fp_year p = y \<and> fp_month p = m"
  by (auto simp: find_period_def dest: find_Some_in)

lemma find_update_period:
  assumes ids: "distinct (map fp_id ps)" and p: "find P ps = Some p"
    and key: "\<And>q. P (f q) = P q"
  shows "find P (map (\<lambda>q. if fp_id q = fp_id p then f q else q) ps) = Some (f p)"
  using ids p
proof (induction ps)
  case Nil
  then show ?case by simp
next
  case (Cons q ps)
  show ?case
  proof (cases "P q")
    case True
    with Cons.prems show ?thesis by (simp add: key)
  next
    case False
    with Cons.prems have "find P ps = Some p" by simp
    moreover from this have "p \<in> set ps" by (auto dest: find_Some_in)
    with Cons.prems have "fp_id q \<noteq> fp_id p" by auto
    ultimately show ?thesis using Cons False by simp
  qed
qed

lemma find_update_period_other:
  assumes "\<And>q. P (f q) = P q" and "\<And>q. q \<in> set ps \<Longrightarrow> fp_id q = i \<Longrightarrow> \<not> P q"
  shows "find P (map (\<lambda>q. if fp_id q = i then f q else q) ps) = find P ps"
  using assms by (induction ps) auto

lemma find_period_update:
  assumes "periods_ok db" and "find_period db y m = Some p"
    and "\<And>q. fp_year (f q) = fp_year q" "\<And>q. fp_month (f q) = fp_month q"
  shows "find_period (update_period db (fp_id p) f) y m = Some (f p)"
  using assms unfolding find_period_def update_period_def periods_ok_def
  by (simp add: find_update_period)

lemma status_of_update_other:
  assumes ok: "periods_ok db" and p: "find_period db y m = Some p"
    and f: "\<And>q. fp_year (f q) = fp_year q" "\<And>q. fp_month (f q) = fp_month q"
    and other: "(y', m') \<noteq> (y, m)"
  shows "find_period (update_period db (fp_id p) f) y' m' = find_period db y' m'"
proof -
  from p have "p \<in> set (financialPeriods db)" and pk: "fp_year p = y" "fp_month p = m"
    by (auto dest: find_period_SomeD)
  with ok have "q = p" if "q \<in> set (financialPeriods db)" "fp_id q = fp_id p" for q
    using that unfolding periods_ok_def by (auto simp: distinct_map dest: inj_onD)
  with pk other show ?thesis
    unfolding find_period_def update_period_def
    by (auto intro!: find_update_period_other simp: f)
qed

lemma update_period_ok:
  assumes "periods_ok db"
    and "\<And>q. fp_id (f q) = fp_id q" "\<And>q. fp_year (f q) = fp_year q" "\<And>q. fp_month (f q) = fp_month q"
  shows "periods_ok (update_period db i f)"
proof -
  have "map g (map (\<lambda>q. if fp_id q = i then f q else q) ps) = map g ps"
    if "\<And>q. g (f q) = g q" for g :: "financial_period \<Rightarrow> 'c" and ps
    using that by (induction ps) auto
  note m = this
  have "map fp_id (financialPeriods (update_period db i f)) = map fp_id (financialPeriods db)"
    "map (\<lambda>p. (fp_year p, fp_month p)) (financialPeriods (update_period db i f))
      = map (\<lambda>p. (fp_year p, fp_month p)) (financialPeriods db)"
    using assms(2-4) by (simp_all add: update_period_def m del: map_map)
  moreover have "\<forall>p\<in>set (financialPeriods (update_period db i f)). 1 \<le> fp_month p \<and> fp_month p \<le> 12"
    using assms unfolding periods_ok_def by (auto simp: update_period_def)
  ultimately show ?thesis using assms(1) unfolding periods_ok_def by simp
qed


lemma assertValidPeriod_Inr:
  "assertValidPeriod y m = Inr u \<longleftrightarrow>
     is_integer y \<and> 2020 \<le> y \<and> y \<le> 2100 \<and> is_integer m \<and> 1 \<le> m \<and> m \<le> 12"
  by (auto simp: assertValidPeriod_def)

lemma floor_month_range: "1 \<le> m \<Longrightarrow> m \<le> 12 \<Longrightarrow> 1 \<le> floor m \<and> floor m \<le> (12 :: int)"
  for m :: decimal
  by (simp add: floor_le_iff le_floor_iff)

lemma periods_ok_snoc:
  assumes "periods_ok db" and "fp_id p \<notin> fp_id ` set (financialPeriods db)"
    and "find_period db (fp_year p) (fp_month p) = None" and "1 \<le> fp_month p" "fp_month p \<le> 12"
  shows "periods_ok (db\<lparr>financialPeriods := financialPeriods db @ [p]\<rparr>)"
  using assms unfolding periods_ok_def find_period_def by (auto simp: find_None_iff')

lemma periods_ok_frame [table_simps]:
  "periods_ok (db\<lparr>financialPeriodViolations := v\<rparr>) = periods_ok db"
  "periods_ok (db\<lparr>journalEntries := e\<rparr>) = periods_ok db"
  "periods_ok (db\<lparr>journalFailureLog := f\<rparr>) = periods_ok db"
  by (simp_all add: periods_ok_def)

text \<open>The cases of a successful close: already closed, an existing row, a new row.\<close>

lemma closePeriod_cases:
  assumes "closePeriod env db None inp = Inr (p, db')"
  defines "y \<equiv> floor (ci_year inp)" and "m \<equiv> floor (ci_month inp)"
  obtains "find_period db y m = Some p" "fp_status p = CLOSED" "db' = db"
  | q f where "find_period db y m = Some q" "p = f q" "db' = update_period db (fp_id q) f"
      "\<And>x. fp_id (f x) = fp_id x" "\<And>x. fp_year (f x) = fp_year x" "\<And>x. fp_month (f x) = fp_month x"
      "\<And>x. fp_status (f x) = CLOSED"
  | "find_period db y m = None" "fp_id p = new_uuid env (length (financialPeriods db))"
      "fp_year p = y" "fp_month p = m" "fp_status p = CLOSED" "1 \<le> m" "m \<le> 12"
      "db' = db\<lparr>financialPeriods := financialPeriods db @ [p]\<rparr>"
proof -
  from assms(1) have v: "assertValidPeriod (ci_year inp) (ci_month inp) = Inr ()"
    by (auto simp: closePeriod_def result_simps)
  then have m: "1 \<le> m" "m \<le> 12"
    using floor_month_range by (auto simp: assertValidPeriod_Inr m_def)
  show ?thesis
  proof (cases "find_period db y m")
    case None
    then show ?thesis using assms(1) v m that(3)
      by (auto simp: closePeriod_def y_def m_def Let_def split: if_splits)
  next
    case (Some q)
    show ?thesis
    proof (cases "fp_status q = CLOSED")
      case True
      then show ?thesis using Some assms(1) v that(1)
        by (auto simp: closePeriod_def y_def m_def Let_def split: if_splits)
    next
      case False
      let ?f = "\<lambda>p. p\<lparr>fp_status := CLOSED, fp_lockedAt := Some (now env),
         fp_lockedById := Some (ci_actorId inp), fp_lockNotes := ci_notes inp,
         fp_reopenedAt := None, fp_reopenedById := None, fp_reopenReason := None\<rparr>"
      have "p = ?f q" "db' = update_period db (fp_id q) ?f"
        using False Some assms(1) v by (auto simp: closePeriod_def y_def m_def Let_def split: if_splits)
      then show ?thesis using Some by (intro that(2) [of q ?f]) simp_all
    qed
  qed
qed

text \<open>
  a successful close (no concurrent close of the same month in between) leaves the period
  table well formed and the month closed, returns the closed row, and does not change the
  status of any other month.
\<close>

theorem closePeriod_closes:
  assumes ok: "periods_ok db"
    and fresh: "new_uuid env (length (financialPeriods db)) \<notin> fp_id ` set (financialPeriods db)"
    and close: "closePeriod env db None inp = Inr (p, db')"
  shows "periods_ok db' \<and> fp_status p = CLOSED
    \<and> find_period db' (floor (ci_year inp)) (floor (ci_month inp)) = Some p
    \<and> ((y', m') \<noteq> (floor (ci_year inp), floor (ci_month inp)) \<longrightarrow> status_of db' y' m' = status_of db y' m')"
proof (rule closePeriod_cases [OF close])
  assume "find_period db (floor (ci_year inp)) (floor (ci_month inp)) = Some p"
    "fp_status p = CLOSED" "db' = db"
  then show ?thesis using ok by simp
next
  fix q f
  assume "find_period db (floor (ci_year inp)) (floor (ci_month inp)) = Some q" "p = f q"
    "db' = update_period db (fp_id q) f" "\<And>x. fp_id (f x) = fp_id x" "\<And>x. fp_year (f x) = fp_year x"
    "\<And>x. fp_month (f x) = fp_month x" "\<And>x. fp_status (f x) = CLOSED"
  then show ?thesis using ok
    by (simp add: update_period_ok find_period_update status_of_update_other status_of_def)
next
  assume "find_period db (floor (ci_year inp)) (floor (ci_month inp)) = None"
    "fp_id p = new_uuid env (length (financialPeriods db))"
    "fp_year p = floor (ci_year inp)" "fp_month p = floor (ci_month inp)" "fp_status p = CLOSED"
    "1 \<le> floor (ci_month inp)" "floor (ci_month inp) \<le> 12"
    "db' = db\<lparr>financialPeriods := financialPeriods db @ [p]\<rparr>"
  then show ?thesis using ok fresh
    by (auto simp: periods_ok_snoc table_simps status_of_def split: option.split)
qed

definition example_close :: close_input where
  "example_close = \<lparr>ci_year = 2026, ci_month = 3, ci_actorId = ''u1'', ci_notes = None,
     ci_confirmation = ''CLOSE-2026-03''\<rparr>"

definition example_closed_db :: journal_db where
  "example_closed_db = (case closePeriod example_env example_db None example_close of
     Inr (p, db) \<Rightarrow> db | Inl e \<Rightarrow> example_db)"

lemma show_2026: "show_int 2026 = ''2026''"
  by code_simp

lemma pad_3: "pad 3 = ''03''"
  by code_simp

lemma example_close_result:
  "\<exists>p. closePeriod example_env example_db None example_close = Inr (p, example_closed_db)"
  by (simp add: example_closed_db_def closePeriod_def example_close_def assertValidPeriod_def
      is_integer_def show_2026 pad_3 find_period_def example_db_def Let_def)

lemma example_db_periods: "financialPeriods example_db = []" "periods_ok example_db"
  by (simp_all add: example_db_def periods_ok_def)

theorem closePeriod_closes_witness:
  "\<exists>p. closePeriod example_env example_db None example_close = Inr (p, example_closed_db)
     \<and> periods_ok example_closed_db \<and> find_period example_closed_db 2026 3 = Some p
     \<and> fp_status p = CLOSED \<and> status_of example_closed_db 2026 4 = OPEN"
proof -
  obtain p where c: "closePeriod example_env example_db None example_close = Inr (p, example_closed_db)"
    using example_close_result by blast
  have "status_of example_db 2026 4 = OPEN"
    by (simp add: status_of_def find_period_def example_db_periods)
  then show ?thesis
    using closePeriod_closes [OF example_db_periods(2) _ c, of 2026 4] c
    by (simp add: example_db_periods example_close_def)
qed

definition guard_status :: "'z journal_db_scheme \<Rightarrow> timestamp \<Rightarrow> period_status" where
  "guard_status db t = (case kuwait_period t of (y, m) \<Rightarrow> status_of db y m)"

lemma not_open: "s \<noteq> OPEN \<longleftrightarrow> s = CLOSED"
  by (cases s) auto

lemma assertWriteAllowed_open:
  "guard_status db (wr_effectiveAt inp) = OPEN \<Longrightarrow>
     (\<exists>i. fst (assertWriteAllowed env db inp) = Inr i) \<and> snd (assertWriteAllowed env db inp) = db"
  by (auto simp: guard_status_def status_of_def assertWriteAllowed_def Let_def
      split: prod.splits option.splits)

lemma assertWriteAllowed_closed:
  assumes "guard_status db (wr_effectiveAt inp) = CLOSED"
  shows "\<exists>p y m. kuwait_period (wr_effectiveAt inp) = (y, m) \<and> find_period db y m = Some p
      \<and> assertWriteAllowed env db inp =
         (if wr_allowReversal inp then Inr (Some (fp_id p))
          else Inl (ConflictException (period_closed_message y m)),
          if violation_log_fault env then db
          else db\<lparr>financialPeriodViolations :=
            financialPeriodViolations db @ [violation_row env p inp]\<rparr>)"
proof -
  obtain y m where ym: "kuwait_period (wr_effectiveAt inp) = (y, m)" by (cases "kuwait_period (wr_effectiveAt inp)")
  with assms obtain p where "find_period db y m = Some p" "fp_status p = CLOSED"
    by (auto simp: guard_status_def status_of_def split: option.splits)
  with ym show ?thesis by (simp add: assertWriteAllowed_def Let_def)
qed

lemma assertWriteAllowed_state:
  "\<exists>v. snd (assertWriteAllowed env db inp) = db\<lparr>financialPeriodViolations := v\<rparr>"
proof (cases "guard_status db (wr_effectiveAt inp)")
  case OPEN
  then have "snd (assertWriteAllowed env db inp) = db" using assertWriteAllowed_open by blast
  then show ?thesis by (intro exI [of _ "financialPeriodViolations db"]) simp
next
  case CLOSED
  have same: "\<exists>v. db = db\<lparr>financialPeriodViolations := v\<rparr>"
    by (rule exI [of _ "financialPeriodViolations db"]) simp
  obtain p where "snd (assertWriteAllowed env db inp) =
      (if violation_log_fault env then db
       else db\<lparr>financialPeriodViolations := financialPeriodViolations db @ [violation_row env p inp]\<rparr>)"
    using assertWriteAllowed_closed [OF CLOSED, of env] by auto
  then show ?thesis using same by (cases "violation_log_fault env") auto
qed

text \<open>
  The guard on a write. In an open month it allows the write and logs nothing; in a closed
  month it allows exactly the writes that opted into a reversal and rejects the others with a
  conflict, and in both cases one violation row naming the writer is added (unless the log
  itself fails), and no other table changes.
\<close>

theorem period_guard_decides:
  "((\<exists>i. fst (assertWriteAllowed env db inp) = Inr i)
      \<longleftrightarrow> guard_status db (wr_effectiveAt inp) = OPEN \<or> wr_allowReversal inp)
   \<and> (\<exists>v. pv_writerName v = wr_writerName inp \<and> pv_sourceRef v = wr_sourceRef inp
        \<and> snd (assertWriteAllowed env db inp) =
           (if guard_status db (wr_effectiveAt inp) = OPEN \<or> violation_log_fault env then db
            else db\<lparr>financialPeriodViolations := financialPeriodViolations db @ [v]\<rparr>))"
proof (cases "guard_status db (wr_effectiveAt inp) = OPEN")
  case True
  have "\<exists>v :: period_violation. pv_writerName v = wr_writerName inp \<and> pv_sourceRef v = wr_sourceRef inp"
    by (rule exI [of _ "\<lparr>pv_periodId = [], pv_attemptedAt = 0, pv_actorUserId = None,
      pv_writerName = wr_writerName inp, pv_sourceRef = wr_sourceRef inp, pv_payload = JNull\<rparr>"]) simp
  then show ?thesis using True assertWriteAllowed_open [OF True] by auto
next
  case False
  then obtain p y m where "assertWriteAllowed env db inp =
         (if wr_allowReversal inp then Inr (Some (fp_id p))
          else Inl (ConflictException (period_closed_message y m)),
          if violation_log_fault env then db
          else db\<lparr>financialPeriodViolations :=
            financialPeriodViolations db @ [violation_row env p inp]\<rparr>)"
    using assertWriteAllowed_closed [of db inp env] by (auto simp: not_open)
  then show ?thesis using False
    by (auto intro!: exI [of _ "violation_row env p inp"] simp: violation_row_def)
qed

lemma reopenPeriod_cases:
  assumes "reopenPeriod env db inp = Inr (p, db')"
  defines "y \<equiv> floor (ri_year inp)" and "m \<equiv> floor (ri_month inp)"
  obtains "find_period db y m = Some p" "fp_status p = OPEN" "db' = db"
  | q f where "find_period db y m = Some q" "fp_status q = CLOSED" "p = f q"
      "db' = update_period db (fp_id q) f"
      "\<And>x. fp_id (f x) = fp_id x" "\<And>x. fp_year (f x) = fp_year x" "\<And>x. fp_month (f x) = fp_month x"
      "\<And>x. fp_status (f x) = OPEN"
proof -
  from assms(1) obtain q where q: "find_period db y m = Some q"
    by (auto simp: reopenPeriod_def y_def m_def result_simps Let_def split: if_splits option.splits)
  show ?thesis
  proof (cases "fp_status q = OPEN")
    case True
    then show ?thesis using q assms(1) that(1)
      by (auto simp: reopenPeriod_def y_def m_def result_simps Let_def split: if_splits)
  next
    case False
    let ?f = "\<lambda>p. p\<lparr>fp_status := OPEN, fp_reopenedAt := Some (now env),
       fp_reopenedById := Some (ri_actorId inp), fp_reopenReason := Some (js_trim (ri_reason inp))\<rparr>"
    have "p = ?f q" "db' = update_period db (fp_id q) ?f"
      using q False assms(1)
      by (auto simp: reopenPeriod_def y_def m_def result_simps Let_def split: if_splits)
    then show ?thesis using q False by (intro that(2) [of q ?f]) (simp_all add: not_open)
  qed
qed

text \<open>
  Reopening a month leaves the period table well formed and the month open, so the guard
  accepts every write of that month again without logging a violation, and every month other
  than the reopened one keeps its status.
\<close>

theorem reopenPeriod_opens:
  assumes ok: "periods_ok db" and reopen: "reopenPeriod env db inp = Inr (p, db')"
  shows "periods_ok db' \<and> status_of db' (floor (ri_year inp)) (floor (ri_month inp)) = OPEN
    \<and> ((y', m') \<noteq> (floor (ri_year inp), floor (ri_month inp)) \<longrightarrow> status_of db' y' m' = status_of db y' m')
    \<and> (kuwait_period (wr_effectiveAt w) = (floor (ri_year inp), floor (ri_month inp))
         \<longrightarrow> (\<exists>i. assertWriteAllowed env db' w = (Inr i, db')))"
proof -
  have "periods_ok db' \<and> status_of db' (floor (ri_year inp)) (floor (ri_month inp)) = OPEN
    \<and> ((y', m') \<noteq> (floor (ri_year inp), floor (ri_month inp)) \<longrightarrow> status_of db' y' m' = status_of db y' m')"
    using reopen
    by (rule reopenPeriod_cases)
      (use ok in \<open>simp_all add: update_period_ok find_period_update status_of_update_other status_of_def\<close>)
  moreover from this have "\<exists>i. assertWriteAllowed env db' w = (Inr i, db')"
    if "kuwait_period (wr_effectiveAt w) = (floor (ri_year inp), floor (ri_month inp))"
  proof -
    have "guard_status db' (wr_effectiveAt w) = OPEN"
      using that calculation by (simp add: guard_status_def)
    then show ?thesis using assertWriteAllowed_open [of db' w env] by (metis prod.collapse)
  qed
  ultimately show ?thesis by blast
qed

definition example_reopen :: reopen_input where
  "example_reopen = \<lparr>ri_year = 2026, ri_month = 3, ri_actorId = ''u1'', ri_reason = ''late invoice'',
     ri_confirmation = ''REOPEN-2026-03''\<rparr>"

definition example_write :: write_request where
  "example_write = \<lparr>wr_effectiveAt = 1774900800000, wr_actorUserId = None, wr_writerName = ''w'',
     wr_sourceRef = None, wr_allowReversal = False, wr_payload = []\<rparr>"

lemma example_write_period: "kuwait_period (wr_effectiveAt example_write) = (2026, 3)"
  by code_simp

lemma example_closed: "periods_ok example_closed_db" "\<exists>p. find_period example_closed_db 2026 3 = Some p \<and> fp_status p = CLOSED"
  by (auto simp: example_closed_db_def closePeriod_def example_close_def assertValidPeriod_def
      is_integer_def show_2026 pad_3 find_period_def example_db_def periods_ok_def Let_def)

theorem reopenPeriod_opens_witness:
  "\<exists>p db'. reopenPeriod example_env example_closed_db example_reopen = Inr (p, db')
     \<and> periods_ok db' \<and> status_of db' 2026 3 = OPEN
     \<and> (\<exists>i. assertWriteAllowed example_env db' example_write = (Inr i, db'))"
proof -
  have trim: "js_trim ''late invoice'' = ''late invoice''" by (simp add: js_trim_def is_ws_def)
  obtain q where q: "find_period example_closed_db 2026 3 = Some q" "fp_status q = CLOSED"
    using example_closed(2) by blast
  then obtain p db' where r: "reopenPeriod example_env example_closed_db example_reopen = Inr (p, db')"
    by (auto simp: reopenPeriod_def example_reopen_def assertValidPeriod_def is_integer_def
        show_2026 pad_3 trim Let_def)
  show ?thesis
    using reopenPeriod_opens [OF example_closed(1) r, of 0 0 example_write] r
    by (auto simp: example_reopen_def example_write_period)
qed

subsection \<open>The monitor's counts\<close>

lemma sum_bump_count: "(\<Sum>(w, n)\<leftarrow>bump_count k m. n) = Suc (\<Sum>(w, n)\<leftarrow>m. n)"
  by (induction k m rule: bump_count.induct) auto

lemma sum_count_rejections_aux:
  "(\<Sum>(w, n)\<leftarrow>foldl (\<lambda>m v. if isReversal (pv_payload v) then m else bump_count (pv_writerName v) m) m vs. n)
     = (\<Sum>(w, n)\<leftarrow>m. n) + length (filter (\<lambda>v. \<not> isReversal (pv_payload v)) vs)"
  by (induction vs arbitrary: m) (simp_all add: sum_bump_count)

lemma sum_list_sort_key: "sum_list (map f (sort_key k xs)) = sum_list (map f xs)"
  for f :: "'a \<Rightarrow> nat"
  by (metis mset_map mset_sort sum_mset_sum_list)

text \<open>
  The monitor's figures are consistent: every violation is counted once, as a reversal or
  as a rejection, the counts per writer add up to the rejections, and the alert level is the
  one of the thresholds, raised from green to amber when enforcement is off and any
  violation was recorded.
\<close>

theorem projectPeriodHealth_counts:
  "let h = projectPeriodHealth mode (Some (amber, red)) ps vs
   in ph_recentReversalViolations h + ph_recentRejectedViolations h = ph_recentViolations h
      \<and> (\<Sum>(w, n)\<leftarrow>ph_rejectionsByWriter h. n) = ph_recentRejectedViolations h
      \<and> ph_closedPeriods h + ph_openPeriods h = length ps
      \<and> (ph_health h = Red \<longleftrightarrow> red \<le> ph_recentRejectedViolations h)
      \<and> (ph_health h = Green \<longleftrightarrow> ph_recentRejectedViolations h < min amber red
           \<and> (mode = Enforcing \<or> vs = []))"
proof -
  have b: "length (filter (\<lambda>p. p = CLOSED) ps) + length (filter (\<lambda>p. p = OPEN) ps) = length ps"
    by (induction ps) (auto simp: not_open)
  have c: "(\<Sum>(w, n)\<leftarrow>count_rejections vs. n) = length (filter (\<lambda>v. \<not> isReversal (pv_payload v)) vs)"
    by (simp add: count_rejections_def sum_count_rejections_aux)
  have d: "length (filter (\<lambda>v. isReversal (pv_payload v)) vs)
      + length (filter (\<lambda>v. \<not> isReversal (pv_payload v)) vs) = length vs"
    by (rule sum_length_filter_compl)
  then have "vs = [] \<longleftrightarrow> length (filter (\<lambda>v. isReversal (pv_payload v)) vs) = 0
      \<and> length (filter (\<lambda>v. \<not> isReversal (pv_payload v)) vs) = 0" by auto
  then show ?thesis
    using b c d by (cases mode) (auto simp: projectPeriodHealth_def Let_def sum_list_sort_key)
qed

end
