(* ===== verification/Journal.thy ===== *)
theory Journal
  imports Periods
begin

text \<open>
  \<open>src/general-ledger/double-entry-journal.service.ts\<close>, the writers: \<open>appendBalanced\<close>, the one
  place where a journal entry is created, the entry types built on it, and the \<open>Safe\<close>
  wrappers with their failure log and circuit breaker. A write returns its result together
  with the state, because the violation log and the failure log are written on a connection
  of their own and survive a throw. Amounts arrive as decimals (\<open>this.decimal\<close> converts
  strings and numbers).
\<close>

subsection \<open>Accounts and inputs\<close>

definition CASH :: string where "CASH = ''1100''"
definition BANK_KNET :: string where "BANK_KNET = ''1200''"
definition BANK_ONLINE :: string where "BANK_ONLINE = ''1210''"
definition ACCOUNTS_RECEIVABLE :: string where "ACCOUNTS_RECEIVABLE = ''1300''"
definition WALLET_LIABILITY :: string where "WALLET_LIABILITY = ''2100''"
definition REVENUE :: string where "REVENUE = ''4100''"
definition REVENUE_RETURNS :: string where "REVENUE_RETURNS = ''4200''"
definition ADJUSTMENTS :: string where "ADJUSTMENTS = ''5100''"
definition DEBT_DISCOUNTS :: string where "DEBT_DISCOUNTS = ''5200''"
definition PROMOTIONAL_EXPENSE :: string where "PROMOTIONAL_EXPENSE = ''5300''"

lemmas account_codes = CASH_def BANK_KNET_def BANK_ONLINE_def ACCOUNTS_RECEIVABLE_def
  WALLET_LIABILITY_def REVENUE_def REVENUE_RETURNS_def ADJUSTMENTS_def DEBT_DISCOUNTS_def
  PROMOTIONAL_EXPENSE_def

record line_input =
  li_accountCode :: string
  li_debit :: "decimal option"
  li_credit :: "decimal option"
  li_meta :: "json option"

record append_input =
  ai_source :: string
  ai_sourceRef :: string
  ai_actorUserId :: uuid
  ai_customerId :: "uuid option"
  ai_orderId :: "uuid option"
  ai_branchId :: "uuid option"
  ai_effectiveAt :: "timestamp option"
  ai_allowReversal :: bool
  ai_lines :: "line_input list"

record mirror_input =
  mi_source :: string
  mi_amount :: decimal
  mi_sourceRef :: "string option"
  mi_actorUserId :: "uuid option"
  mi_customerId :: uuid
  mi_orderId :: "uuid option"
  mi_paymentMethod :: "string option"
  mi_note :: "string option"

abbreviation debit_line :: "string \<Rightarrow> decimal \<Rightarrow> json \<Rightarrow> line_input" where
  "debit_line code amount meta \<equiv>
     \<lparr>li_accountCode = code, li_debit = Some amount, li_credit = None, li_meta = Some meta\<rparr>"

abbreviation credit_line :: "string \<Rightarrow> decimal \<Rightarrow> json \<Rightarrow> line_input" where
  "credit_line code amount meta \<equiv>
     \<lparr>li_accountCode = code, li_debit = None, li_credit = Some amount, li_meta = Some meta\<rparr>"

fun json_opt :: "string option \<Rightarrow> json" where
  "json_opt None = JNull"
| "json_opt (Some s) = JString s"

subsection \<open>appendBalanced\<close>

definition isPeriodLockEnforced :: "env \<Rightarrow> bool" where
  "isPeriodLockEnforced env \<longleftrightarrow> PERIOD_LOCK_ENFORCE env = Some ''true''"

definition isFailClosedCriticalEnabled :: "env \<Rightarrow> bool" where
  "isFailClosedCriticalEnabled env \<longleftrightarrow> JOURNAL_FAIL_CLOSED_CRITICAL env = Some ''true''"

definition debit_of :: "line_input \<Rightarrow> decimal" where "debit_of l = nullish (li_debit l) 0"
definition credit_of :: "line_input \<Rightarrow> decimal" where "credit_of l = nullish (li_credit l) 0"

text \<open>The loop over the normalised lines: the three checks, then the running totals.\<close>

fun check_lines :: "line_input list \<Rightarrow> decimal \<Rightarrow> decimal \<Rightarrow> (decimal \<times> decimal) result" where
  "check_lines [] totalDebit totalCredit = Inr (totalDebit, totalCredit)"
| "check_lines (l # ls) totalDebit totalCredit =
     (if debit_of l < 0 \<or> credit_of l < 0 then Inl (Error ''NEGATIVE_JOURNAL_LINE'')
      else if debit_of l > 0 \<and> credit_of l > 0 then Inl (Error ''AMBIGUOUS_JOURNAL_LINE'')
      else if debit_of l = 0 \<and> credit_of l = 0 then Inl (Error ''EMPTY_JOURNAL_LINE'')
      else check_lines ls (totalDebit + debit_of l) (totalCredit + credit_of l))"

definition journal_tolerance :: decimal where "journal_tolerance = 1 / 1000"

definition check_balance :: "line_input list \<Rightarrow> unit result" where
  "check_balance ls = bindE (check_lines ls 0 0) (\<lambda>(totalDebit, totalCredit).
     if \<bar>totalDebit - totalCredit\<bar> > journal_tolerance then Inl (Error ''UNBALANCED_JOURNAL'')
     else Inr ())"

text \<open>The account of each line; the first code without an active account is reported.\<close>

definition resolve_line :: "'z journal_db_scheme \<Rightarrow> line_input \<Rightarrow> journal_line result" where
  "resolve_line db l = (case active_account db (li_accountCode l) of
       None \<Rightarrow> Inl (Error (''JOURNAL_ACCOUNT_NOT_FOUND:'' @ li_accountCode l))
     | Some i \<Rightarrow> Inr \<lparr>jl_accountId = i, jl_debit = debit_of l, jl_credit = credit_of l, jl_meta = li_meta l\<rparr>)"

definition write_request_of :: "env \<Rightarrow> append_input \<Rightarrow> write_request" where
  "write_request_of env inp = \<lparr>wr_effectiveAt = nullish (ai_effectiveAt inp) (now env),
     wr_actorUserId = Some (ai_actorUserId inp),
     wr_writerName = ''DoubleEntryJournalService.'' @ ai_source inp,
     wr_sourceRef = Some (ai_sourceRef inp), wr_allowReversal = ai_allowReversal inp,
     wr_payload = [(''customerId'', json_opt (ai_customerId inp)),
       (''orderId'', json_opt (ai_orderId inp)), (''branchId'', json_opt (ai_branchId inp))]\<rparr>"

definition check_period :: "env \<Rightarrow> 'z journal_db_scheme \<Rightarrow> append_input \<Rightarrow>
    unit result \<times> 'z journal_db_scheme" where
  "check_period env db inp =
     (if isPeriodLockEnforced env \<and> period_guard_wired env
      then (case assertWriteAllowed env db (write_request_of env inp) of
              (Inl e, db') \<Rightarrow> (Inl e, db') | (Inr _, db') \<Rightarrow> (Inr (), db'))
      else (Inr (), db))"

definition entry_of :: "env \<Rightarrow> 'z journal_db_scheme \<Rightarrow> append_input \<Rightarrow> journal_line list \<Rightarrow> journal_entry" where
  "entry_of env db inp ls = \<lparr>je_id = new_uuid env (length (journalEntries db)), je_source = ai_source inp,
     je_sourceRef = ai_sourceRef inp, je_actorUserId = ai_actorUserId inp,
     je_customerId = ai_customerId inp, je_orderId = ai_orderId inp, je_branchId = ai_branchId inp,
     je_createdAt = now env, je_lines = ls\<rparr>"

definition appendBalanced :: "env \<Rightarrow> 'z journal_db_scheme \<Rightarrow> append_input \<Rightarrow>
    uuid result \<times> 'z journal_db_scheme" where
  "appendBalanced env db inp =
     (if ai_actorUserId inp = [] then (Inl (Error ''JOURNAL_ACTOR_REQUIRED''), db)
      else if js_trim (ai_sourceRef inp) = [] then (Inl (Error ''JOURNAL_SOURCE_REF_REQUIRED''), db)
      else if length (ai_lines inp) < 2 then (Inl (Error ''JOURNAL_MINIMUM_TWO_LINES''), db)
      else case find_entry_id db (ai_sourceRef inp) of
        Some i \<Rightarrow> (Inr i, db)
      | None \<Rightarrow>
          (case check_period env db inp of
             (Inl e, db1) \<Rightarrow> (Inl e, db1)
           | (Inr _, db1) \<Rightarrow>
               (case bindE (check_balance (ai_lines inp)) (\<lambda>_. mapE (resolve_line db1) (ai_lines inp)) of
                  Inl e \<Rightarrow> (Inl e, db1)
                | Inr ls \<Rightarrow>
                    (case create_fault env (ai_sourceRef inp) of
                       Some e \<Rightarrow> (Inl e, db1)
                     | None \<Rightarrow>
                         let row = entry_of env db1 inp ls
                         in (Inr (je_id row), db1\<lparr>journalEntries := journalEntries db1 @ [row]\<rparr>)))))"

subsection \<open>The failure log and the circuit breaker\<close>

definition CRITICAL_FAILURE_THRESHOLD :: nat where "CRITICAL_FAILURE_THRESHOLD = 3"
definition CRITICAL_FAILURE_WINDOW_MS :: int where "CRITICAL_FAILURE_WINDOW_MS = 5 * 60 * 1000"

fun is_period_lock_error :: "error \<Rightarrow> bool" where
  "is_period_lock_error (ConflictException m) =
     (let msg = to_lower m in str_includes msg ''closed'' \<or> str_includes msg ''period'')"
| "is_period_lock_error _ = False"

definition persistFailure :: "env \<Rightarrow> 'z journal_db_scheme \<Rightarrow> mirror_input \<Rightarrow> string \<Rightarrow> string option \<Rightarrow>
    'z journal_db_scheme" where
  "persistFailure env db inp message errorCode =
     (if failure_log_fault env then db
      else db\<lparr>journalFailureLog := journalFailureLog db @ [\<lparr>jf_customerId = Some (mi_customerId inp),
         jf_orderId = mi_orderId inp, jf_source = mi_source inp, jf_sourceRef = mi_sourceRef inp,
         jf_amount = mi_amount inp, jf_errorCode = errorCode, jf_errorMessage = message,
         jf_context = JObject [(''paymentMethod'', json_opt (mi_paymentMethod inp)),
           (''note'', json_opt (mi_note inp))],
         jf_createdAt = now env\<rparr>]\<rparr>)"

definition recent_failures :: "env \<Rightarrow> 'z journal_db_scheme \<Rightarrow> uuid \<Rightarrow> nat" where
  "recent_failures env db c = length (filter (\<lambda>f. jf_customerId f = Some c
     \<and> now env - CRITICAL_FAILURE_WINDOW_MS \<le> jf_createdAt f) (journalFailureLog db))"

definition tripBreakerIfNeeded :: "env \<Rightarrow> 'z journal_db_scheme \<Rightarrow> uuid \<Rightarrow> unit result" where
  "tripBreakerIfNeeded env db c =
     (if c = [] then Inr ()
      else if breaker_read_fault env then Inr ()
      else if recent_failures env db c > CRITICAL_FAILURE_THRESHOLD
      then Inl (CriticalJournalFailureError c (recent_failures env db c) CRITICAL_FAILURE_WINDOW_MS)
      else Inr ())"

fun error_code :: "error \<Rightarrow> string option" where
  "error_code (KnownRequestError c m) = Some c"
| "error_code _ = None"

definition handleCriticalSafeFailure :: "env \<Rightarrow> 'z journal_db_scheme \<Rightarrow> error \<Rightarrow> mirror_input \<Rightarrow>
    uuid option result \<times> 'z journal_db_scheme" where
  "handleCriticalSafeFailure env db err inp =
     (if is_period_lock_error err then (Inl err, db)
      else
        let ref = js_trim (nullish (mi_sourceRef inp) []);
            existing = (if ref \<noteq> [] \<and> error_code err = Some ''P2002'' then find_entry_id db ref else None)
        in case existing of
             Some i \<Rightarrow> (Inr (Some i), db)
           | None \<Rightarrow>
               let db1 = persistFailure env db inp (error_message err) (error_code err)
               in if isFailClosedCriticalEnabled env then (Inl err, db1)
                  else (case tripBreakerIfNeeded env db1 (mi_customerId inp) of
                          Inl e \<Rightarrow> (Inl e, db1) | Inr _ \<Rightarrow> (Inr None, db1)))"

text \<open>\<open>try { return await write } catch (err) { return this.handleCriticalSafeFailure(...) }\<close>\<close>

fun catch_with :: "uuid option result \<times> 's \<Rightarrow> ('s \<Rightarrow> error \<Rightarrow> uuid option result \<times> 's) \<Rightarrow>
    uuid option result \<times> 's" where
  "catch_with (Inr r, db) h = (Inr r, db)"
| "catch_with (Inl e, db) h = h db e"

fun some_id :: "uuid result \<times> 's \<Rightarrow> uuid option result \<times> 's" where
  "some_id (Inr i, db) = (Inr (Some i), db)"
| "some_id (Inl e, db) = (Inl e, db)"

subsection \<open>Invoice issuance, wallet absorption, external payment\<close>

definition event_meta :: "string \<Rightarrow> (string \<times> json) list \<Rightarrow> json" where
  "event_meta event kvs = JObject ((''event'', JString event) # kvs)"

definition failure_input :: "string \<Rightarrow> string \<Rightarrow> uuid \<Rightarrow> uuid option \<Rightarrow> decimal \<Rightarrow> uuid \<Rightarrow> string option \<Rightarrow> mirror_input" where
  "failure_input source sourceRef customerId orderId amount actorUserId paymentMethod =
     \<lparr>mi_source = source, mi_amount = amount, mi_sourceRef = Some sourceRef,
      mi_actorUserId = Some actorUserId, mi_customerId = customerId, mi_orderId = orderId,
      mi_paymentMethod = paymentMethod, mi_note = None\<rparr>"

record order_amount_input =
  oi_customerId :: uuid
  oi_orderId :: uuid
  oi_actorUserId :: uuid
  oi_amount :: decimal

definition appendInvoiceIssuanceEntry :: "env \<Rightarrow> 'z journal_db_scheme \<Rightarrow> order_amount_input \<Rightarrow>
    uuid option result \<times> 'z journal_db_scheme" where
  "appendInvoiceIssuanceEntry env db inp =
     (let amount = oi_amount inp;
          meta = event_meta ''INVOICE_ISSUED'' [(''orderId'', JString (oi_orderId inp))]
      in if amount \<le> 0 then (Inr None, db)
         else some_id (appendBalanced env db
           \<lparr>ai_source = ''INVOICE_ISSUED'', ai_sourceRef = ''JOURNAL:INVOICE_ISSUED:'' @ oi_orderId inp,
            ai_actorUserId = oi_actorUserId inp, ai_customerId = Some (oi_customerId inp),
            ai_orderId = Some (oi_orderId inp), ai_branchId = None, ai_effectiveAt = None,
            ai_allowReversal = False,
            ai_lines = [debit_line ACCOUNTS_RECEIVABLE amount meta, credit_line REVENUE amount meta]\<rparr>))"

definition appendInvoiceIssuanceEntrySafe :: "env \<Rightarrow> 'z journal_db_scheme \<Rightarrow> order_amount_input \<Rightarrow>
    uuid option result \<times> 'z journal_db_scheme" where
  "appendInvoiceIssuanceEntrySafe env db inp =
     catch_with (appendInvoiceIssuanceEntry env db inp) (\<lambda>db1 err.
       handleCriticalSafeFailure env db1 err (failure_input ''INVOICE_ISSUED''
         (''JOURNAL:INVOICE_ISSUED:'' @ oi_orderId inp) (oi_customerId inp) (Some (oi_orderId inp))
         (oi_amount inp) (oi_actorUserId inp) None))"

definition appendWalletAbsorptionEntryV3 :: "env \<Rightarrow> 'z journal_db_scheme \<Rightarrow> order_amount_input \<Rightarrow>
    uuid option result \<times> 'z journal_db_scheme" where
  "appendWalletAbsorptionEntryV3 env db inp =
     (let amount = oi_amount inp;
          meta = event_meta ''WALLET_ABSORPTION_V3'' [(''orderId'', JString (oi_orderId inp))]
      in if amount \<le> 0 then (Inr None, db)
         else some_id (appendBalanced env db
           \<lparr>ai_source = ''WALLET_ABSORPTION_V3'',
            ai_sourceRef = ''JOURNAL:WALLET_ABSORPTION_V3:'' @ oi_orderId inp @ '':APPLIED'',
            ai_actorUserId = oi_actorUserId inp, ai_customerId = Some (oi_customerId inp),
            ai_orderId = Some (oi_orderId inp), ai_branchId = None, ai_effectiveAt = None,
            ai_allowReversal = False,
            ai_lines = [debit_line WALLET_LIABILITY amount meta,
              credit_line ACCOUNTS_RECEIVABLE amount meta]\<rparr>))"

definition appendWalletAbsorptionEntryV3Safe :: "env \<Rightarrow> 'z journal_db_scheme \<Rightarrow> order_amount_input \<Rightarrow>
    uuid option result \<times> 'z journal_db_scheme" where
  "appendWalletAbsorptionEntryV3Safe env db inp =
     catch_with (appendWalletAbsorptionEntryV3 env db inp) (\<lambda>db1 err.
       handleCriticalSafeFailure env db1 err (failure_input ''WALLET_ABSORPTION_V3''
         (''JOURNAL:WALLET_ABSORPTION_V3:'' @ oi_orderId inp @ '':APPLIED'') (oi_customerId inp)
         (Some (oi_orderId inp)) (oi_amount inp) (oi_actorUserId inp) None))"

definition appendWalletAbsorptionEntry :: "env \<Rightarrow> 'z journal_db_scheme \<Rightarrow> order_amount_input \<Rightarrow>
    uuid option result \<times> 'z journal_db_scheme" where
  "appendWalletAbsorptionEntry env db inp =
     (let amount = oi_amount inp;
          meta = event_meta ''WALLET_ABSORPTION'' [(''orderId'', JString (oi_orderId inp))]
      in if amount \<le> 0 then (Inr None, db)
         else some_id (appendBalanced env db
           \<lparr>ai_source = ''WALLET_ABSORPTION'',
            ai_sourceRef = ''JOURNAL:WALLET_ABSORPTION:'' @ oi_orderId inp @ '':APPLIED'',
            ai_actorUserId = oi_actorUserId inp, ai_customerId = Some (oi_customerId inp),
            ai_orderId = Some (oi_orderId inp), ai_branchId = None, ai_effectiveAt = None,
            ai_allowReversal = False,
            ai_lines = [debit_line WALLET_LIABILITY amount meta, credit_line REVENUE amount meta]\<rparr>))"

definition appendWalletAbsorptionEntrySafe :: "env \<Rightarrow> 'z journal_db_scheme \<Rightarrow> order_amount_input \<Rightarrow>
    uuid option result \<times> 'z journal_db_scheme" where
  "appendWalletAbsorptionEntrySafe env db inp =
     catch_with (appendWalletAbsorptionEntry env db inp) (\<lambda>db1 err.
       handleCriticalSafeFailure env db1 err (failure_input ''WALLET_ABSORPTION''
         (''JOURNAL:WALLET_ABSORPTION:'' @ oi_orderId inp @ '':APPLIED'') (oi_customerId inp)
         (Some (oi_orderId inp)) (oi_amount inp) (oi_actorUserId inp) None))"

record external_payment_input =
  ep_customerId :: uuid
  ep_orderId :: "uuid option"
  ep_actorUserId :: uuid
  ep_amount :: decimal
  ep_paymentMethod :: string
  ep_paymentRef :: string
  ep_note :: "string option"

definition externalPaymentAssetAccount :: "string \<Rightarrow> string result" where
  "externalPaymentAssetAccount method =
     (if method = ''KNET'' then Inr BANK_KNET
      else if method = ''ONLINE'' \<or> method = ''PAYMENT_LINK'' then Inr BANK_ONLINE
      else if method = ''CASH'' then Inr CASH
      else Inl (Error (''UNKNOWN_PAYMENT_ASSET_ACCOUNT:'' @ method)))"

definition appendExternalPaymentEntry :: "env \<Rightarrow> 'z journal_db_scheme \<Rightarrow> external_payment_input \<Rightarrow>
    uuid option result \<times> 'z journal_db_scheme" where
  "appendExternalPaymentEntry env db inp =
     (let amount = ep_amount inp
      in if amount \<le> 0 then (Inr None, db)
         else if js_trim (ep_paymentRef inp) = []
         then (Inl (Error ''JOURNAL_EXTERNAL_PAYMENT_REF_REQUIRED''), db)
         else (case externalPaymentAssetAccount (ep_paymentMethod inp) of
            Inl e \<Rightarrow> (Inl e, db)
          | Inr debitAccount \<Rightarrow> some_id (appendBalanced env db
              \<lparr>ai_source = ''EXTERNAL_PAYMENT'',
               ai_sourceRef = ''JOURNAL:EXTERNAL_PAYMENT:'' @ ep_paymentRef inp,
               ai_actorUserId = ep_actorUserId inp, ai_customerId = Some (ep_customerId inp),
               ai_orderId = ep_orderId inp, ai_branchId = None, ai_effectiveAt = None,
               ai_allowReversal = False,
               ai_lines = [debit_line debitAccount amount (event_meta ''EXTERNAL_PAYMENT''
                     [(''paymentMethod'', JString (ep_paymentMethod inp)), (''note'', json_opt (ep_note inp))]),
                 credit_line ACCOUNTS_RECEIVABLE amount (event_meta ''EXTERNAL_PAYMENT''
                     [(''paymentRef'', JString (ep_paymentRef inp))])]\<rparr>)))"

definition appendExternalPaymentEntrySafe :: "env \<Rightarrow> 'z journal_db_scheme \<Rightarrow> external_payment_input \<Rightarrow>
    uuid option result \<times> 'z journal_db_scheme" where
  "appendExternalPaymentEntrySafe env db inp =
     catch_with (appendExternalPaymentEntry env db inp) (\<lambda>db1 err.
       handleCriticalSafeFailure env db1 err (failure_input ''EXTERNAL_PAYMENT''
         (''JOURNAL:EXTERNAL_PAYMENT:'' @ ep_paymentRef inp) (ep_customerId inp) (ep_orderId inp)
         (ep_amount inp) (ep_actorUserId inp) (Some (ep_paymentMethod inp))))"

subsection \<open>The mirror of the debt ledger\<close>

definition paymentAssetAccount :: "mirror_input \<Rightarrow> string result" where
  "paymentAssetAccount inp =
     (let ref = nullish (mi_sourceRef inp) [];
          method = nullish (mi_paymentMethod inp) [];
          note = to_lower (nullish (mi_note inp) [])
      in if str_includes ref '':KNET:'' \<or> method = ''KNET'' then Inr BANK_KNET
         else if str_includes ref '':ONLINE:'' \<or> str_includes ref '':PAYMENT_LINK:''
           \<or> method = ''ONLINE'' \<or> method = ''PAYMENT_LINK'' then Inr BANK_ONLINE
         else if str_includes ref '':CASH:'' \<or> method = ''CASH'' then Inr CASH
         else if starts_with ref ''ADJUSTMENT:'' \<or> str_includes note ''void'' \<or> str_includes note ''edit''
         then Inr ADJUSTMENTS
         else Inl (Error (''UNKNOWN_PAYMENT_ASSET_ACCOUNT:'' @ (if method = [] then ''NONE'' else method))))"

definition mirrorDebtLedgerEntry :: "env \<Rightarrow> 'z journal_db_scheme \<Rightarrow> mirror_input \<Rightarrow>
    uuid option result \<times> 'z journal_db_scheme" where
  "mirrorDebtLedgerEntry env db inp =
     (let actor = nullish (mi_actorUserId inp) [];
          amount = mi_amount inp;
          sourceRef = js_trim (nullish (mi_sourceRef inp) [])
      in if actor = [] then (Inl (Error ''JOURNAL_ACTOR_REQUIRED''), db)
         else if amount \<le> 0 then (Inr None, db)
         else if sourceRef = [] then (Inl (Error ''JOURNAL_SOURCE_REF_REQUIRED''), db)
         else if mi_source inp = ''PAYMENT'' then
           (if starts_with sourceRef ''PAYMENT:WALLET:'' then (Inr None, db)
            else (case paymentAssetAccount inp of
               Inl e \<Rightarrow> (Inl e, db)
             | Inr assetAccount \<Rightarrow>
                 let payMeta = JObject ((case mi_paymentMethod inp of None \<Rightarrow> []
                         | Some m \<Rightarrow> [(''posPaymentMethod'', JString m)]) @ [(''note'', json_opt (mi_note inp))]);
                     arMeta = JObject ((''debtSource'', JString (mi_source inp))
                         # (case mi_paymentMethod inp of None \<Rightarrow> []
                            | Some m \<Rightarrow> [(''posPaymentMethod'', JString m)]))
                 in some_id (appendBalanced env db
                   \<lparr>ai_source = (if assetAccount = ADJUSTMENTS then ''ADJUSTMENT'' else ''PAYMENT''),
                    ai_sourceRef = sourceRef, ai_actorUserId = actor,
                    ai_customerId = Some (mi_customerId inp), ai_orderId = mi_orderId inp,
                    ai_branchId = None, ai_effectiveAt = None, ai_allowReversal = False,
                    ai_lines = [debit_line assetAccount amount payMeta,
                      credit_line ACCOUNTS_RECEIVABLE amount arMeta]\<rparr>)))
         else if mi_source inp = ''INVOICE_SHORTFALL'' \<or> mi_source inp = ''SUBSCRIPTION_OVERUSE'' then
           some_id (appendBalanced env db
             \<lparr>ai_source = ''INVOICE'', ai_sourceRef = sourceRef, ai_actorUserId = actor,
              ai_customerId = Some (mi_customerId inp), ai_orderId = mi_orderId inp,
              ai_branchId = None, ai_effectiveAt = None, ai_allowReversal = False,
              ai_lines = [debit_line ACCOUNTS_RECEIVABLE amount
                   (JObject [(''debtSource'', JString (mi_source inp))]),
                credit_line REVENUE amount (JObject [(''note'', json_opt (mi_note inp))])]\<rparr>)
         else (Inr None, db))"

definition mirrorDebtLedgerEntrySafe :: "env \<Rightarrow> 'z journal_db_scheme \<Rightarrow> mirror_input \<Rightarrow>
    uuid option result \<times> 'z journal_db_scheme" where
  "mirrorDebtLedgerEntrySafe env db inp =
     catch_with (mirrorDebtLedgerEntry env db inp) (\<lambda>db1 err. handleCriticalSafeFailure env db1 err inp)"

subsection \<open>Cancellation, discount, subscription refund\<close>

record cancellation_input =
  cn_customerId :: uuid
  cn_orderId :: uuid
  cn_actorUserId :: uuid
  cn_remainingArAmount :: decimal
  cn_reason :: "string option"

definition appendInvoiceCancellationEntry :: "env \<Rightarrow> 'z journal_db_scheme \<Rightarrow> cancellation_input \<Rightarrow>
    uuid option result \<times> 'z journal_db_scheme" where
  "appendInvoiceCancellationEntry env db inp =
     (let amount = cn_remainingArAmount inp
      in if amount \<le> 0 then (Inr None, db)
         else some_id (appendBalanced env db
           \<lparr>ai_source = ''INVOICE_CANCELED'', ai_sourceRef = ''JOURNAL:INVOICE_CANCELED:'' @ cn_orderId inp,
            ai_actorUserId = cn_actorUserId inp, ai_customerId = Some (cn_customerId inp),
            ai_orderId = Some (cn_orderId inp), ai_branchId = None, ai_effectiveAt = None,
            ai_allowReversal = True,
            ai_lines = [debit_line REVENUE_RETURNS amount (event_meta ''INVOICE_CANCELED''
                  [(''orderId'', JString (cn_orderId inp)), (''reason'', json_opt (cn_reason inp))]),
              credit_line ACCOUNTS_RECEIVABLE amount (event_meta ''INVOICE_CANCELED''
                  [(''orderId'', JString (cn_orderId inp))])]\<rparr>))"

definition appendInvoiceCancellationEntrySafe :: "env \<Rightarrow> 'z journal_db_scheme \<Rightarrow> cancellation_input \<Rightarrow>
    uuid option result \<times> 'z journal_db_scheme" where
  "appendInvoiceCancellationEntrySafe env db inp =
     catch_with (appendInvoiceCancellationEntry env db inp) (\<lambda>db1 err.
       handleCriticalSafeFailure env db1 err (failure_input ''INVOICE_CANCELED''
         (''JOURNAL:INVOICE_CANCELED:'' @ cn_orderId inp) (cn_customerId inp) (Some (cn_orderId inp))
         (cn_remainingArAmount inp) (cn_actorUserId inp) None))"

record discount_input =
  di_customerId :: uuid
  di_orderId :: "uuid option"
  di_actorUserId :: uuid
  di_amount :: decimal
  di_discountRef :: string
  di_note :: "string option"

definition appendDebtDiscountEntry :: "env \<Rightarrow> 'z journal_db_scheme \<Rightarrow> discount_input \<Rightarrow>
    uuid option result \<times> 'z journal_db_scheme" where
  "appendDebtDiscountEntry env db inp =
     (let amount = di_amount inp
      in if amount \<le> 0 then (Inr None, db)
         else if js_trim (di_discountRef inp) = []
         then (Inl (Error ''JOURNAL_DEBT_DISCOUNT_REF_REQUIRED''), db)
         else some_id (appendBalanced env db
           \<lparr>ai_source = ''DEBT_DISCOUNT'', ai_sourceRef = ''JOURNAL:DEBT_DISCOUNT:'' @ di_discountRef inp,
            ai_actorUserId = di_actorUserId inp, ai_customerId = Some (di_customerId inp),
            ai_orderId = di_orderId inp, ai_branchId = None, ai_effectiveAt = None,
            ai_allowReversal = False,
            ai_lines = [debit_line DEBT_DISCOUNTS amount (event_meta ''DEBT_DISCOUNT''
                  [(''note'', json_opt (di_note inp))]),
              credit_line ACCOUNTS_RECEIVABLE amount (event_meta ''DEBT_DISCOUNT''
                  [(''discountRef'', JString (di_discountRef inp))])]\<rparr>))"

definition appendDebtDiscountEntrySafe :: "env \<Rightarrow> 'z journal_db_scheme \<Rightarrow> discount_input \<Rightarrow>
    uuid option result \<times> 'z journal_db_scheme" where
  "appendDebtDiscountEntrySafe env db inp =
     catch_with (appendDebtDiscountEntry env db inp) (\<lambda>db1 err.
       handleCriticalSafeFailure env db1 err (failure_input ''DEBT_DISCOUNT''
         (''JOURNAL:DEBT_DISCOUNT:'' @ di_discountRef inp) (di_customerId inp) (di_orderId inp)
         (di_amount inp) (di_actorUserId inp) None))"

record refund_input =
  rf_customerId :: uuid
  rf_subscriptionId :: uuid
  rf_actorUserId :: uuid
  rf_giftRemovalAmount :: decimal
  rf_cashRefundAmount :: decimal
  rf_reason :: "string option"

definition refund_lines :: "refund_input \<Rightarrow> string \<Rightarrow> string \<Rightarrow> decimal \<Rightarrow> line_input list" where
  "refund_lines inp event creditAccount amount =
     (if amount > 0
      then [debit_line WALLET_LIABILITY amount
              (event_meta event [(''subscriptionId'', JString (rf_subscriptionId inp))]),
            credit_line creditAccount amount
              (event_meta event [(''subscriptionId'', JString (rf_subscriptionId inp)),
                 (''reason'', json_opt (rf_reason inp))])]
      else [])"

definition appendSubscriptionRefundEntry :: "env \<Rightarrow> 'z journal_db_scheme \<Rightarrow> refund_input \<Rightarrow>
    uuid option result \<times> 'z journal_db_scheme" where
  "appendSubscriptionRefundEntry env db inp =
     (let giftAmount = rf_giftRemovalAmount inp; cashAmount = rf_cashRefundAmount inp
      in if giftAmount \<le> 0 \<and> cashAmount \<le> 0 then (Inr None, db)
         else some_id (appendBalanced env db
           \<lparr>ai_source = ''SUBSCRIPTION_REFUND'',
            ai_sourceRef = ''JOURNAL:SUBSCRIPTION_REFUND:'' @ rf_subscriptionId inp,
            ai_actorUserId = rf_actorUserId inp, ai_customerId = Some (rf_customerId inp),
            ai_orderId = None, ai_branchId = None, ai_effectiveAt = None, ai_allowReversal = True,
            ai_lines = refund_lines inp ''SUBSCRIPTION_REFUND_GIFT'' PROMOTIONAL_EXPENSE giftAmount
              @ refund_lines inp ''SUBSCRIPTION_REFUND_CASH'' CASH cashAmount\<rparr>))"

definition appendSubscriptionRefundEntrySafe :: "env \<Rightarrow> 'z journal_db_scheme \<Rightarrow> refund_input \<Rightarrow>
    uuid option result \<times> 'z journal_db_scheme" where
  "appendSubscriptionRefundEntrySafe env db inp =
     catch_with (appendSubscriptionRefundEntry env db inp) (\<lambda>db1 err.
       handleCriticalSafeFailure env db1 err (failure_input ''SUBSCRIPTION_REFUND''
         (''JOURNAL:SUBSCRIPTION_REFUND:'' @ rf_subscriptionId inp) (rf_customerId inp) None
         (rf_giftRemovalAmount inp + rf_cashRefundAmount inp) (rf_actorUserId inp) None))"

subsection \<open>What appendBalanced does\<close>

lemma check_lines_Inr:
  "check_lines ls d c = Inr (d', c') \<longleftrightarrow>
     list_all (\<lambda>l. 0 \<le> debit_of l \<and> 0 \<le> credit_of l \<and> (debit_of l = 0) \<noteq> (credit_of l = 0)) ls
     \<and> d' = d + (\<Sum>l\<leftarrow>ls. debit_of l) \<and> c' = c + (\<Sum>l\<leftarrow>ls. credit_of l)"
  by (induction ls d c rule: check_lines.induct) auto

lemma check_balance_Inr:
  "check_balance ls = Inr u \<longleftrightarrow>
     list_all (\<lambda>l. 0 \<le> debit_of l \<and> 0 \<le> credit_of l \<and> (debit_of l = 0) \<noteq> (credit_of l = 0)) ls
     \<and> \<bar>(\<Sum>l\<leftarrow>ls. debit_of l) - (\<Sum>l\<leftarrow>ls. credit_of l)\<bar> \<le> journal_tolerance"
  by (auto simp: check_balance_def result_simps check_lines_Inr)

lemma resolve_line_Inr:
  "resolve_line db l = Inr jl \<longleftrightarrow>
     active_account db (li_accountCode l) = Some (jl_accountId jl)
     \<and> jl = \<lparr>jl_accountId = jl_accountId jl, jl_debit = debit_of l, jl_credit = credit_of l, jl_meta = li_meta l\<rparr>"
  by (auto simp: resolve_line_def split: option.split)

lemma check_period_state:
  "\<exists>v. snd (check_period env db inp) = db\<lparr>financialPeriodViolations := v\<rparr>"
proof -
  have same: "\<exists>v. db = db\<lparr>financialPeriodViolations := v\<rparr>"
    by (rule exI [of _ "financialPeriodViolations db"]) simp
  show ?thesis
  proof (cases "isPeriodLockEnforced env \<and> period_guard_wired env")
    case False
    then have "check_period env db inp = (Inr (), db)" by (auto simp: check_period_def)
    then show ?thesis using same by simp
  next
    case True
    have "\<exists>v. snd (assertWriteAllowed env db w) = db\<lparr>financialPeriodViolations := v\<rparr>" for w
      by (rule assertWriteAllowed_state)
    with True show ?thesis
      by (auto simp: check_period_def split: prod.splits sum.splits) (metis snd_conv)+
  qed
qed

lemma check_period_obtain:
  obtains r v where "check_period env db inp = (r, db\<lparr>financialPeriodViolations := v\<rparr>)"
  using check_period_state [of env db inp] by (metis prod.collapse)

text \<open>The two ways a write succeeds: the reference exists, or a new balanced row is created.\<close>

lemma appendBalanced_cases:
  assumes "appendBalanced env db inp = (Inr i, db')"
  obtains (existing) "find_entry_id db (ai_sourceRef inp) = Some i" "db' = db"
  | (created) v ls where "find_entry_id db (ai_sourceRef inp) = None"
      "check_period env db inp = (Inr (), db\<lparr>financialPeriodViolations := v\<rparr>)"
      "check_balance (ai_lines inp) = Inr ()" "mapE (resolve_line db) (ai_lines inp) = Inr ls"
      "2 \<le> length (ai_lines inp)"
      "i = new_uuid env (length (journalEntries db))"
      "db' = db\<lparr>financialPeriodViolations := v, journalEntries := journalEntries db @ [entry_of env db inp ls]\<rparr>"
proof (cases "find_entry_id db (ai_sourceRef inp)")
  case (Some j)
  then show ?thesis using assms existing by (auto simp: appendBalanced_def split: if_splits)
next
  case None
  obtain r v where cp: "check_period env db inp = (r, db\<lparr>financialPeriodViolations := v\<rparr>)"
    by (rule check_period_obtain)
  have rl: "resolve_line (db\<lparr>financialPeriodViolations := v\<rparr>) = resolve_line db"
    by (simp add: fun_eq_iff resolve_line_def table_simps)
  have eo: "entry_of env (db\<lparr>financialPeriodViolations := v\<rparr>) inp = entry_of env db inp"
    by (simp add: fun_eq_iff entry_of_def)
  from assms None cp show ?thesis
    by (auto simp: appendBalanced_def rl eo Let_def result_simps entry_of_def
        split: if_splits sum.splits option.splits intro!: created)
qed

lemma appendBalanced_fails:
  assumes "appendBalanced env db inp = (Inl e, db')"
  obtains v where "db' = db\<lparr>financialPeriodViolations := v\<rparr>"
proof -
  obtain r v where cp: "check_period env db inp = (r, db\<lparr>financialPeriodViolations := v\<rparr>)"
    by (rule check_period_obtain)
  have "db' = db \<or> db' = db\<lparr>financialPeriodViolations := v\<rparr>"
    using assms cp by (auto simp: appendBalanced_def Let_def split: if_splits option.splits sum.splits)
  then show ?thesis using that that [of "financialPeriodViolations db"] by auto
qed

definition accepts_append :: "append_input \<Rightarrow> bool" where
  "accepts_append inp \<longleftrightarrow> ai_actorUserId inp \<noteq> [] \<and> js_trim (ai_sourceRef inp) \<noteq> []
     \<and> 2 \<le> length (ai_lines inp)"

lemma appendBalanced_accepted: "appendBalanced env db inp = (Inr i, db') \<Longrightarrow> accepts_append inp"
  by (auto simp: appendBalanced_def accepts_append_def split: if_splits)

lemma appendBalanced_existing:
  "accepts_append inp \<Longrightarrow> find_entry_id db (ai_sourceRef inp) = Some i \<Longrightarrow>
     appendBalanced env db inp = (Inr i, db)"
  by (simp add: appendBalanced_def accepts_append_def)

lemma find_entry_id_frame [table_simps]:
  "find_entry_id (db\<lparr>financialPeriodViolations := v\<rparr>) ref = find_entry_id db ref"
  "find_entry_id (db\<lparr>journalFailureLog := f\<rparr>) ref = find_entry_id db ref"
  by (simp_all add: find_entry_id_def table_simps)

lemma find_entry_id_create:
  "find_entry_id (db\<lparr>financialPeriodViolations := v, journalEntries := journalEntries db @ [e]\<rparr>) ref =
     (case find_entry_id db ref of Some x \<Rightarrow> Some x
      | None \<Rightarrow> if je_sourceRef e = ref then Some (je_id e) else None)"
  using find_entry_id_snoc [of "db\<lparr>financialPeriodViolations := v\<rparr>" e ref]
  by (simp add: table_simps)

lemma find_entry_id_append:
  "find_entry_id (snd (appendBalanced env db inp)) ref =
     (case find_entry_id db ref of Some x \<Rightarrow> Some x
      | None \<Rightarrow> (case fst (appendBalanced env db inp) of
            Inr i \<Rightarrow> if ref = ai_sourceRef inp then Some i else None | Inl _ \<Rightarrow> None))"
proof (cases "appendBalanced env db inp")
  case (Pair r db')
  show ?thesis
  proof (cases r)
    case (Inl e)
    then obtain v where "db' = db\<lparr>financialPeriodViolations := v\<rparr>"
      using Pair by (auto elim: appendBalanced_fails)
    then show ?thesis using Pair Inl by (simp add: table_simps split: option.split)
  next
    case (Inr i)
    with Pair have "appendBalanced env db inp = (Inr i, db')" by simp
    then show ?thesis
      by (cases rule: appendBalanced_cases)
        (use Pair Inr in \<open>auto simp: find_entry_id_create entry_of_def split: option.split\<close>)
  qed
qed

interpretation journal: keyed_ledger find_entry_id "appendBalanced env" ai_sourceRef accepts_append
  for env :: env
proof unfold_locales
  fix s s' :: "'a journal_db_scheme" and i r k
  show "appendBalanced env s i = (Inr r, s') \<Longrightarrow> find_entry_id s' (ai_sourceRef i) = Some r"
    by (erule appendBalanced_cases) (simp_all add: find_entry_id_create entry_of_def)
  show "appendBalanced env s i = (Inr r, s') \<Longrightarrow> accepts_append i"
    by (rule appendBalanced_accepted)
  show "accepts_append i \<Longrightarrow> find_entry_id s (ai_sourceRef i) = Some r \<Longrightarrow> appendBalanced env s i = (Inr r, s)"
    by (rule appendBalanced_existing)
  show "find_entry_id s k = Some r \<Longrightarrow> find_entry_id (snd (appendBalanced env s i)) k = Some r"
    by (simp add: find_entry_id_append)
  show "k \<noteq> ai_sourceRef i \<Longrightarrow> find_entry_id (snd (appendBalanced env s i)) k = find_entry_id s k"
    by (auto simp: find_entry_id_append split: option.split sum.split)
qed

subsection \<open>The journal invariant\<close>

text \<open>
  A well-formed line carries a positive amount on exactly one side and belongs to an account of
  the chart; an entry has at least two such lines and its sides agree within the tolerance.
\<close>

definition line_ok :: "'z journal_db_scheme \<Rightarrow> journal_line \<Rightarrow> bool" where
  "line_ok db l \<longleftrightarrow> 0 \<le> jl_debit l \<and> 0 \<le> jl_credit l \<and> (jl_debit l = 0) \<noteq> (jl_credit l = 0)
     \<and> code_of_account db (jl_accountId l) \<noteq> None"

definition entry_ok :: "'z journal_db_scheme \<Rightarrow> journal_entry \<Rightarrow> bool" where
  "entry_ok db e \<longleftrightarrow> 2 \<le> length (je_lines e) \<and> list_all (line_ok db) (je_lines e)
     \<and> \<bar>entry_debit e - entry_credit e\<bar> \<le> journal_tolerance
     \<and> je_actorUserId e \<noteq> [] \<and> js_trim (je_sourceRef e) \<noteq> []"

definition journal_ok :: "'z journal_db_scheme \<Rightarrow> bool" where
  "journal_ok db \<longleftrightarrow> accounts_ok db \<and> distinct (map je_sourceRef (journalEntries db))
     \<and> list_all (entry_ok db) (journalEntries db)"

lemma mapE_resolve_sums:
  assumes "mapE (resolve_line db) ls = Inr jls"
  shows "(\<Sum>l\<leftarrow>jls. jl_debit l) = (\<Sum>l\<leftarrow>ls. debit_of l)"
    and "(\<Sum>l\<leftarrow>jls. jl_credit l) = (\<Sum>l\<leftarrow>ls. credit_of l)"
    and "length jls = length ls"
proof -
  have "list_all2 (\<lambda>l jl. resolve_line db l = Inr jl) ls jls"
    using assms by (simp add: mapE_Inr_list_all2)
  then show "(\<Sum>l\<leftarrow>jls. jl_debit l) = (\<Sum>l\<leftarrow>ls. debit_of l)"
    and "(\<Sum>l\<leftarrow>jls. jl_credit l) = (\<Sum>l\<leftarrow>ls. credit_of l)"
    and "length jls = length ls"
    by (induction rule: list_all2_induct) (auto simp: resolve_line_def split: option.splits)
qed

lemma mapE_resolve_lines_ok:
  assumes "accounts_ok db" and "mapE (resolve_line db) ls = Inr jls"
    and "list_all (\<lambda>l. 0 \<le> debit_of l \<and> 0 \<le> credit_of l \<and> (debit_of l = 0) \<noteq> (credit_of l = 0)) ls"
  shows "list_all (line_ok db) jls"
proof -
  have "list_all2 (\<lambda>l jl. resolve_line db l = Inr jl) ls jls"
    using assms by (simp add: mapE_Inr_list_all2)
  then show ?thesis using assms(3)
    by (induction rule: list_all2_induct)
      (auto simp: resolve_line_def line_ok_def active_account_code [OF assms(1)] split: option.splits)
qed

lemma line_ok_frame [table_simps]:
  "line_ok (db\<lparr>financialPeriodViolations := v\<rparr>) = line_ok db"
  "line_ok (db\<lparr>journalFailureLog := f\<rparr>) = line_ok db"
  "line_ok (db\<lparr>journalEntries := e\<rparr>) = line_ok db"
  by (simp_all add: fun_eq_iff line_ok_def table_simps)

lemma entry_ok_frame [table_simps]:
  "entry_ok (db\<lparr>financialPeriodViolations := v\<rparr>) = entry_ok db"
  "entry_ok (db\<lparr>journalFailureLog := f\<rparr>) = entry_ok db"
  "entry_ok (db\<lparr>journalEntries := e\<rparr>) = entry_ok db"
  by (simp_all add: fun_eq_iff entry_ok_def table_simps)

lemma accounts_ok_frame [table_simps]:
  "accounts_ok (db\<lparr>financialPeriodViolations := v\<rparr>) = accounts_ok db"
  "accounts_ok (db\<lparr>journalFailureLog := f\<rparr>) = accounts_ok db"
  "accounts_ok (db\<lparr>journalEntries := e\<rparr>) = accounts_ok db"
  by (simp_all add: accounts_ok_def)

lemma journal_ok_frame [table_simps]:
  "journal_ok (db\<lparr>financialPeriodViolations := v\<rparr>) = journal_ok db"
  "journal_ok (db\<lparr>journalFailureLog := f\<rparr>) = journal_ok db"
  by (simp_all add: journal_ok_def table_simps)

lemma find_entry_id_None:
  "find_entry_id db ref = None \<longleftrightarrow> ref \<notin> je_sourceRef ` set (journalEntries db)"
  by (auto simp: find_entry_id_def find_entry_def find_None_iff')

lemma appendBalanced_journal_ok:
  assumes ok: "journal_ok db"
  shows "journal_ok (snd (appendBalanced env db inp))"
proof (cases "appendBalanced env db inp")
  case (Pair r db')
  show ?thesis
  proof (cases r)
    case (Inl e)
    with Pair show ?thesis using ok by (auto elim!: appendBalanced_fails simp: table_simps)
  next
    case (Inr i)
    with Pair have ap: "appendBalanced env db inp = (Inr i, db')" by simp
    then have "accepts_append inp" by (rule appendBalanced_accepted)
    from ap show ?thesis
    proof (cases rule: appendBalanced_cases)
      case existing
      then show ?thesis using ok Pair by simp
    next
      case (created v ls)
      then have "entry_ok db (entry_of env db inp ls)"
        using ok \<open>accepts_append inp\<close>
        by (auto simp: entry_ok_def entry_of_def entry_debit_def entry_credit_def mapE_resolve_sums
            check_balance_Inr journal_ok_def accepts_append_def intro: mapE_resolve_lines_ok)
      then show ?thesis using created ok Pair
        by (auto simp: journal_ok_def table_simps entry_of_def find_entry_id_None)
    qed
  qed
qed

text \<open>A sequence of writes, each one going on from the state the one before left.\<close>

definition append_all :: "env \<Rightarrow> 'z journal_db_scheme \<Rightarrow> append_input list \<Rightarrow> 'z journal_db_scheme" where
  "append_all env db inps = foldl (\<lambda>s i. snd (appendBalanced env s i)) db inps"

lemma append_all_Cons [simp]:
  "append_all env db [] = db"
  "append_all env db (i # is) = append_all env (snd (appendBalanced env db i)) is"
  by (simp_all add: append_all_def)

lemma append_all_eq_post_all: "append_all env db inps = journal.post_all env db inps"
  by (induction inps arbitrary: db) simp_all

lemma append_all_journal_ok: "journal_ok db \<Longrightarrow> journal_ok (append_all env db inps)"
  by (induction inps arbitrary: db) (simp_all add: appendBalanced_journal_ok)

definition total_debit :: "'z journal_db_scheme \<Rightarrow> decimal" where
  "total_debit db = (\<Sum>e\<leftarrow>journalEntries db. entry_debit e)"

definition total_credit :: "'z journal_db_scheme \<Rightarrow> decimal" where
  "total_credit db = (\<Sum>e\<leftarrow>journalEntries db. entry_credit e)"

lemma sum_list_diff_bound:
  assumes "\<And>x. x \<in> set xs \<Longrightarrow> \<bar>f x - g x\<bar> \<le> (b :: rat)"
  shows "\<bar>(\<Sum>x\<leftarrow>xs. f x) - (\<Sum>x\<leftarrow>xs. g x)\<bar> \<le> of_nat (length xs) * b"
  using assms
proof (induction xs)
  case Nil
  then show ?case by simp
next
  case (Cons x xs)
  then have "\<bar>f x - g x\<bar> \<le> b"
    and "\<bar>(\<Sum>x\<leftarrow>xs. f x) - (\<Sum>x\<leftarrow>xs. g x)\<bar> \<le> of_nat (length xs) * b" by simp_all
  then show ?case by (simp add: algebra_simps abs_le_iff)
qed

lemma trial_balance_bound:
  "journal_ok db \<Longrightarrow> \<bar>total_debit db - total_credit db\<bar> \<le> of_nat (length (journalEntries db)) / 1000"
  unfolding total_debit_def total_credit_def
  using sum_list_diff_bound [of "journalEntries db" entry_debit entry_credit "1 / 1000", simplified]
  by (simp add: journal_ok_def list_all_iff entry_ok_def journal_tolerance_def)

text \<open>
  C2: whatever the inputs and the environment, and whether the single writes succeed or throw,
  a sequence of writes keeps the journal well formed (source references unique, every entry
  with two or more one-sided positive lines on accounts of the chart that balance within
  0.001 KD), so the trial balance is off by at most 0.001 KD for each entry.
\<close>

theorem journal_stays_balanced:
  assumes "journal_ok db"
  shows "journal_ok (append_all env db inps)
    \<and> \<bar>total_debit (append_all env db inps) - total_credit (append_all env db inps)\<bar>
        \<le> of_nat (length (journalEntries (append_all env db inps))) / 1000"
  using assms by (intro conjI trial_balance_bound append_all_journal_ok)

definition example_issue :: order_amount_input where
  "example_issue = \<lparr>oi_customerId = ''c1'', oi_orderId = ''o1'', oi_actorUserId = ''u1'', oi_amount = 25 / 2\<rparr>"

definition example_append :: append_input where
  "example_append = \<lparr>ai_source = ''PAYMENT'', ai_sourceRef = ''PAYMENT:CASH:1'', ai_actorUserId = ''u1'',
     ai_customerId = Some ''c1'', ai_orderId = None, ai_branchId = None, ai_effectiveAt = None,
     ai_allowReversal = False,
     ai_lines = [\<lparr>li_accountCode = CASH, li_debit = Some (25 / 2), li_credit = None, li_meta = None\<rparr>,
       \<lparr>li_accountCode = ACCOUNTS_RECEIVABLE, li_debit = None, li_credit = Some (25 / 2), li_meta = None\<rparr>]\<rparr>"

lemma example_db_ok: "journal_ok example_db"
  using example_accounts_ok by (simp add: journal_ok_def example_db_def)

lemma example_active:
  "code \<in> set (map acc_code example_accounts) \<Longrightarrow> active_account example_db code = Some (''acc-'' @ code)"
  by (auto simp: active_account_def example_db_def example_accounts_def)

lemma example_env_faults [simp]:
  "create_fault example_env r = None" "new_uuid example_env 0 = ''row-0''"
  "isFailClosedCriticalEnabled example_env = False"
proof -
  have "show_nat 0 = ''0''" by code_simp
  then show "new_uuid example_env 0 = ''row-0''" by (simp add: example_env_def)
qed (simp_all add: example_env_def isFailClosedCriticalEnabled_def)

lemma example_period: "kuwait_period 1772668800000 = (2026, 3)"
  by code_simp

lemma example_check_period:
  "ai_effectiveAt inp = None \<Longrightarrow> financialPeriods db = [] \<Longrightarrow> check_period example_env db inp = (Inr (), db)"
  by (simp add: check_period_def assertWriteAllowed_def write_request_of_def example_env_def
      example_period find_period_def)

lemma example_append_result:
  "\<exists>db'. appendBalanced example_env example_db example_append = (Inr ''row-0'', db')
     \<and> length (journalEntries db') = 1"
proof -
  have "find_entry_id example_db ''PAYMENT:CASH:1'' = None"
    by (simp add: find_entry_id_None example_db_def)
  moreover have "js_trim ''PAYMENT:CASH:1'' = ''PAYMENT:CASH:1''"
    by (simp add: js_trim_def is_ws_def)
  moreover have "active_account example_db CASH = Some ''acc-1100''"
    "active_account example_db ACCOUNTS_RECEIVABLE = Some ''acc-1300''"
    by (simp_all add: example_active account_codes example_accounts_def)
  moreover have "financialPeriods example_db = []" "journalEntries example_db = []"
    by (simp_all add: example_db_def)
  ultimately show ?thesis
    by (simp add: appendBalanced_def example_append_def example_check_period
        check_balance_def debit_of_def credit_of_def journal_tolerance_def resolve_line_def
        example_env_faults entry_of_def Let_def)
qed

theorem journal_stays_balanced_witness:
  "journal_ok (append_all example_env example_db [example_append, example_append])
     \<and> length (journalEntries (append_all example_env example_db [example_append])) = 1"
proof -
  have "length (journalEntries (append_all example_env example_db [example_append])) = 1"
    using example_append_result by auto
  then show ?thesis
    using journal_stays_balanced [OF example_db_ok, of example_env "[example_append, example_append]"]
    by blast
qed

end
