(* ===== verification/Journal_Effects.thy ===== *)
theory Journal_Effects
  imports Journal
begin

text \<open>
  What the writers of \<open>src/general-ledger/double-entry-journal.service.ts\<close> do to the balances
  of a customer, how the period lock and the retry by source reference act together, and what
  the \<open>Safe\<close> wrappers return. The events of a customer's life with an order (issue, absorb
  from the wallet, pay, discount, cancel, refund) are a datatype here, so that any history of
  calls can be stated as a list.
\<close>

subsection \<open>Balances\<close>

definition account_balance :: "'z journal_db_scheme \<Rightarrow> uuid \<Rightarrow> string \<Rightarrow> decimal" where
  "account_balance db c code =
     (\<Sum>e\<leftarrow>filter (\<lambda>e. je_customerId e = Some c) (journalEntries db).
        \<Sum>l\<leftarrow>filter (line_on db code) (je_lines e). line_amount l)"

definition lines_effect :: "string \<Rightarrow> line_input list \<Rightarrow> decimal" where
  "lines_effect code ls = (\<Sum>l\<leftarrow>filter (\<lambda>l. li_accountCode l = code) ls. debit_of l - credit_of l)"

definition created_row :: "'z journal_db_scheme \<Rightarrow> 'z journal_db_scheme \<Rightarrow> bool" where
  "created_row db db' \<longleftrightarrow> length (journalEntries db) < length (journalEntries db')"

lemma line_on_frame [table_simps]:
  "line_on (db\<lparr>financialPeriodViolations := v\<rparr>) = line_on db"
  "line_on (db\<lparr>journalFailureLog := f\<rparr>) = line_on db"
  "line_on (db\<lparr>journalEntries := e\<rparr>) = line_on db"
  by (simp_all add: fun_eq_iff line_on_def table_simps)

lemma account_balance_frame [table_simps]:
  "account_balance (db\<lparr>financialPeriodViolations := v\<rparr>) c code = account_balance db c code"
  "account_balance (db\<lparr>journalFailureLog := f\<rparr>) c code = account_balance db c code"
  by (simp_all add: account_balance_def table_simps)

lemma account_balance_snoc [table_simps]:
  "account_balance (db\<lparr>journalEntries := journalEntries db @ [e]\<rparr>) c code = account_balance db c code
     + (if je_customerId e = Some c then \<Sum>l\<leftarrow>filter (line_on db code) (je_lines e). line_amount l else 0)"
  by (simp add: account_balance_def table_simps)

lemma resolve_lines_effect:
  assumes "accounts_ok db" and "mapE (resolve_line db) ls = Inr jls"
  shows "(\<Sum>l\<leftarrow>filter (line_on db code) jls. line_amount l) = lines_effect code ls"
proof -
  have "list_all2 (\<lambda>l jl. resolve_line db l = Inr jl) ls jls"
    using assms by (simp add: mapE_Inr_list_all2)
  then show ?thesis
    by (induction rule: list_all2_induct)
      (auto simp: resolve_line_def line_on_def active_account_code [OF assms(1)] lines_effect_def
        line_amount_def split: option.splits)
qed

lemma appendBalanced_accounts: "accounts (snd (appendBalanced env db inp)) = accounts db"
  by (cases "appendBalanced env db inp"; cases "fst (appendBalanced env db inp)")
    (auto elim!: appendBalanced_fails appendBalanced_cases)

text \<open>Every write either leaves the journal alone or adds exactly the row of its input.\<close>

lemma appendBalanced_effect:
  assumes ok: "accounts_ok db" and ap: "appendBalanced env db inp = (r, db')"
  shows "account_balance db' c code = account_balance db c code
     + (if created_row db db' \<and> ai_customerId inp = Some c then lines_effect code (ai_lines inp) else 0)"
proof (cases r)
  case (Inl e)
  with ap show ?thesis by (auto elim!: appendBalanced_fails simp: table_simps created_row_def)
next
  case (Inr i)
  with ap have "appendBalanced env db inp = (Inr i, db')" by simp
  then show ?thesis
  proof (cases rule: appendBalanced_cases)
    case existing
    then show ?thesis by (simp add: created_row_def)
  next
    case (created v ls)
    have "account_balance db' c code = account_balance (db\<lparr>financialPeriodViolations := v\<rparr>) c code
        + (if ai_customerId inp = Some c then \<Sum>l\<leftarrow>filter (line_on db code) ls. line_amount l else 0)"
      using account_balance_snoc [of "db\<lparr>financialPeriodViolations := v\<rparr>" "entry_of env db inp ls"] created
      by (simp add: entry_of_def table_simps)
    with created ok show ?thesis
      by (simp add: table_simps created_row_def resolve_lines_effect)
  qed
qed

lemma appendBalanced_created:
  assumes "appendBalanced env db inp = (r, db')" and "created_row db db'"
  shows "find_entry_id db (ai_sourceRef inp) = None \<and> (\<exists>i. find_entry_id db' (ai_sourceRef inp) = Some i)"
proof (cases r)
  case (Inl e)
  with assms show ?thesis by (auto elim!: appendBalanced_fails simp: created_row_def)
next
  case (Inr i)
  with assms have ap: "appendBalanced env db inp = (Inr i, db')" by simp
  then show ?thesis using assms(2) journal.post_visible [OF ap]
    by (cases rule: appendBalanced_cases) (auto simp: created_row_def)
qed

subsection \<open>A history of calls\<close>

datatype ledger_event =
    Issue order_amount_input
  | AbsorbV3 order_amount_input
  | Absorb order_amount_input
  | Pay external_payment_input
  | Discount discount_input
  | Cancel cancellation_input
  | Refund refund_input

fun run_event :: "env \<Rightarrow> 'z journal_db_scheme \<Rightarrow> ledger_event \<Rightarrow> uuid option result \<times> 'z journal_db_scheme" where
  "run_event env db (Issue i) = appendInvoiceIssuanceEntrySafe env db i"
| "run_event env db (AbsorbV3 i) = appendWalletAbsorptionEntryV3Safe env db i"
| "run_event env db (Absorb i) = appendWalletAbsorptionEntrySafe env db i"
| "run_event env db (Pay i) = appendExternalPaymentEntrySafe env db i"
| "run_event env db (Discount i) = appendDebtDiscountEntrySafe env db i"
| "run_event env db (Cancel i) = appendInvoiceCancellationEntrySafe env db i"
| "run_event env db (Refund i) = appendSubscriptionRefundEntrySafe env db i"

fun event_ref :: "ledger_event \<Rightarrow> string" where
  "event_ref (Issue i) = ''JOURNAL:INVOICE_ISSUED:'' @ oi_orderId i"
| "event_ref (AbsorbV3 i) = ''JOURNAL:WALLET_ABSORPTION_V3:'' @ oi_orderId i @ '':APPLIED''"
| "event_ref (Absorb i) = ''JOURNAL:WALLET_ABSORPTION:'' @ oi_orderId i @ '':APPLIED''"
| "event_ref (Pay i) = ''JOURNAL:EXTERNAL_PAYMENT:'' @ ep_paymentRef i"
| "event_ref (Discount i) = ''JOURNAL:DEBT_DISCOUNT:'' @ di_discountRef i"
| "event_ref (Cancel i) = ''JOURNAL:INVOICE_CANCELED:'' @ cn_orderId i"
| "event_ref (Refund i) = ''JOURNAL:SUBSCRIPTION_REFUND:'' @ rf_subscriptionId i"

fun event_customer :: "ledger_event \<Rightarrow> uuid" where
  "event_customer (Issue i) = oi_customerId i"
| "event_customer (AbsorbV3 i) = oi_customerId i"
| "event_customer (Absorb i) = oi_customerId i"
| "event_customer (Pay i) = ep_customerId i"
| "event_customer (Discount i) = di_customerId i"
| "event_customer (Cancel i) = cn_customerId i"
| "event_customer (Refund i) = rf_customerId i"

text \<open>The event as (account, debit minus credit) moves.\<close>

definition transfer :: "string \<Rightarrow> string \<Rightarrow> decimal \<Rightarrow> (string \<times> decimal) list" where
  "transfer debited credited amount = [(debited, amount), (credited, - amount)]"

fun event_moves :: "ledger_event \<Rightarrow> (string \<times> decimal) list" where
  "event_moves (Issue i) = transfer ACCOUNTS_RECEIVABLE REVENUE (oi_amount i)"
| "event_moves (AbsorbV3 i) = transfer WALLET_LIABILITY ACCOUNTS_RECEIVABLE (oi_amount i)"
| "event_moves (Absorb i) = transfer WALLET_LIABILITY REVENUE (oi_amount i)"
| "event_moves (Pay i) = (case externalPaymentAssetAccount (ep_paymentMethod i) of
       Inl _ \<Rightarrow> [] | Inr asset \<Rightarrow> transfer asset ACCOUNTS_RECEIVABLE (ep_amount i))"
| "event_moves (Discount i) = transfer DEBT_DISCOUNTS ACCOUNTS_RECEIVABLE (di_amount i)"
| "event_moves (Cancel i) = transfer REVENUE_RETURNS ACCOUNTS_RECEIVABLE (cn_remainingArAmount i)"
| "event_moves (Refund i) =
     (if rf_giftRemovalAmount i > 0
      then transfer WALLET_LIABILITY PROMOTIONAL_EXPENSE (rf_giftRemovalAmount i) else [])
   @ (if rf_cashRefundAmount i > 0
      then transfer WALLET_LIABILITY CASH (rf_cashRefundAmount i) else [])"

definition move_of :: "ledger_event \<Rightarrow> string \<Rightarrow> decimal" where
  "move_of ev code = (\<Sum>m\<leftarrow>filter (\<lambda>m. fst m = code) (event_moves ev). snd m)"

fun run_events :: "env \<Rightarrow> 'z journal_db_scheme \<Rightarrow> ledger_event list \<Rightarrow> 'z journal_db_scheme" where
  "run_events env db [] = db"
| "run_events env db (ev # evs) = run_events env (snd (run_event env db ev)) evs"

text \<open>The events of the history that created a row.\<close>

fun posted_events :: "env \<Rightarrow> 'z journal_db_scheme \<Rightarrow> ledger_event list \<Rightarrow> ledger_event list" where
  "posted_events env db [] = []"
| "posted_events env db (ev # evs) =
     (let db' = snd (run_event env db ev)
      in (if created_row db db' then [ev] else []) @ posted_events env db' evs)"

lemma persistFailure_state: "\<exists>f. persistFailure env db inp m c = db\<lparr>journalFailureLog := f\<rparr>"
proof (cases "failure_log_fault env")
  case True
  then show ?thesis by (intro exI [of _ "journalFailureLog db"]) (simp add: persistFailure_def)
qed (auto simp: persistFailure_def)

lemma handleCriticalSafeFailure_state:
  "\<exists>f. snd (handleCriticalSafeFailure env db e inp) = db\<lparr>journalFailureLog := f\<rparr>"
proof -
  have same: "\<exists>f. db = db\<lparr>journalFailureLog := f\<rparr>"
    by (rule exI [of _ "journalFailureLog db"]) simp
  show ?thesis
    using same persistFailure_state [of env db inp "error_message e" "error_code e"]
    by (auto simp: handleCriticalSafeFailure_def Let_def split: option.splits sum.splits)
qed

text \<open>
  What a wrapper's run is, seen from the journal: nothing, or an \<open>appendBalanced\<close> of an input
  with the event's reference, customer and moves, and in either case a possible failure row.
\<close>

definition wraps :: "env \<Rightarrow> 'z journal_db_scheme \<Rightarrow> ledger_event \<Rightarrow>
    uuid option result \<times> 'z journal_db_scheme \<Rightarrow> bool" where
  "wraps env db ev w \<longleftrightarrow> snd w = db
     \<or> (\<exists>inp. w = some_id (appendBalanced env db inp) \<and> ai_sourceRef inp = event_ref ev
          \<and> ai_customerId inp = Some (event_customer ev)
          \<and> (\<forall>code. lines_effect code (ai_lines inp) = move_of ev code))"

lemma snd_some_id [simp]: "snd (some_id w) = snd w"
  by (cases w; cases "fst w") auto

lemma catch_with_state:
  "\<exists>f. snd (catch_with w (\<lambda>db e. handleCriticalSafeFailure env db e inp)) = (snd w)\<lparr>journalFailureLog := f\<rparr>"
proof (cases w)
  case (Pair r s)
  have same: "\<exists>f. s = s\<lparr>journalFailureLog := f\<rparr>"
    by (rule exI [of _ "journalFailureLog s"]) simp
  show ?thesis using Pair same handleCriticalSafeFailure_state [of env s _ inp] by (cases r) auto
qed

lemma refund_lines_effect:
  "lines_effect code (refund_lines inp ev acct a) =
     (if 0 < a then (\<Sum>m\<leftarrow>filter (\<lambda>m. fst m = code) (transfer WALLET_LIABILITY acct a). snd m) else 0)"
  by (simp add: lines_effect_def refund_lines_def transfer_def debit_of_def credit_of_def)

lemma lines_effect_append: "lines_effect code (xs @ ys) = lines_effect code xs + lines_effect code ys"
  by (simp add: lines_effect_def)

lemma event_wraps:
  obtains w f where "wraps env db ev w" "snd (run_event env db ev) = (snd w)\<lparr>journalFailureLog := f\<rparr>"
proof -
  have pair: "lines_effect code [debit_line a x m, credit_line b x m'] =
      (\<Sum>m\<leftarrow>filter (\<lambda>m. fst m = code) (transfer a b x). snd m)" for code a b x m m'
    by (simp add: lines_effect_def transfer_def debit_of_def credit_of_def)
  have safe: "wraps env db ev w \<Longrightarrow>
      run_event env db ev = catch_with w (\<lambda>db e. handleCriticalSafeFailure env db e inp) \<Longrightarrow>
      \<exists>w inp. wraps env db ev w
      \<and> run_event env db ev = catch_with w (\<lambda>db e. handleCriticalSafeFailure env db e inp)" for w inp
    by blast
  have "\<exists>w inp. wraps env db ev w
      \<and> run_event env db ev = catch_with w (\<lambda>db e. handleCriticalSafeFailure env db e inp)"
  proof (cases ev)
    case (Issue i)
    have "wraps env db ev (appendInvoiceIssuanceEntry env db i)"
      by (auto simp: Issue wraps_def appendInvoiceIssuanceEntry_def Let_def pair move_of_def)
    then show ?thesis by (rule safe) (simp only: Issue run_event.simps appendInvoiceIssuanceEntrySafe_def)
  next
    case (AbsorbV3 i)
    have "wraps env db ev (appendWalletAbsorptionEntryV3 env db i)"
      by (auto simp: AbsorbV3 wraps_def appendWalletAbsorptionEntryV3_def Let_def pair move_of_def)
    then show ?thesis by (rule safe) (simp only: AbsorbV3 run_event.simps appendWalletAbsorptionEntryV3Safe_def)
  next
    case (Absorb i)
    have "wraps env db ev (appendWalletAbsorptionEntry env db i)"
      by (auto simp: Absorb wraps_def appendWalletAbsorptionEntry_def Let_def pair move_of_def)
    then show ?thesis by (rule safe) (simp only: Absorb run_event.simps appendWalletAbsorptionEntrySafe_def)
  next
    case (Pay i)
    have "wraps env db ev (appendExternalPaymentEntry env db i)"
      by (auto simp: Pay wraps_def appendExternalPaymentEntry_def Let_def pair move_of_def split: sum.split)
    then show ?thesis by (rule safe) (simp only: Pay run_event.simps appendExternalPaymentEntrySafe_def)
  next
    case (Discount i)
    have "wraps env db ev (appendDebtDiscountEntry env db i)"
      by (auto simp: Discount wraps_def appendDebtDiscountEntry_def Let_def pair move_of_def)
    then show ?thesis by (rule safe) (simp only: Discount run_event.simps appendDebtDiscountEntrySafe_def)
  next
    case (Cancel i)
    have "wraps env db ev (appendInvoiceCancellationEntry env db i)"
      by (auto simp: Cancel wraps_def appendInvoiceCancellationEntry_def Let_def pair move_of_def)
    then show ?thesis by (rule safe) (simp only: Cancel run_event.simps appendInvoiceCancellationEntrySafe_def)
  next
    case (Refund i)
    have "wraps env db ev (appendSubscriptionRefundEntry env db i)"
      by (auto simp: Refund wraps_def appendSubscriptionRefundEntry_def Let_def lines_effect_append
          refund_lines_effect move_of_def)
    then show ?thesis by (rule safe) (simp only: Refund run_event.simps appendSubscriptionRefundEntrySafe_def)
  qed
  then obtain w inp where w: "wraps env db ev w"
      "run_event env db ev = catch_with w (\<lambda>db e. handleCriticalSafeFailure env db e inp)" by blast
  moreover obtain f where "snd (catch_with w (\<lambda>db e. handleCriticalSafeFailure env db e inp)) =
      (snd w)\<lparr>journalFailureLog := f\<rparr>" using catch_with_state by blast
  ultimately show ?thesis by (intro that [of w f]) simp_all
qed

lemma created_row_frame [table_simps]:
  "created_row db (db'\<lparr>journalFailureLog := f\<rparr>) = created_row db db'"
  by (simp add: created_row_def)

lemma not_created_row_refl [simp]: "\<not> created_row db db"
  by (simp add: created_row_def)

lemma run_event_effect:
  assumes ok: "accounts_ok db" and db': "db' = snd (run_event env db ev)"
  shows "account_balance db' c code = account_balance db c code
     + (if created_row db db' \<and> event_customer ev = c then move_of ev code else 0)"
    and "created_row db db' \<Longrightarrow>
      find_entry_id db (event_ref ev) = None \<and> (\<exists>i. find_entry_id db' (event_ref ev) = Some i)"
    and "accounts_ok db'"
    and "find_entry_id db k = Some i \<Longrightarrow> find_entry_id db' k = Some i"
proof -
  obtain w f where w: "wraps env db ev w" and s: "db' = (snd w)\<lparr>journalFailureLog := f\<rparr>"
    using event_wraps [of env db ev] db' by metis
  from w consider "snd w = db"
    | inp where "snd w = snd (appendBalanced env db inp)" "ai_sourceRef inp = event_ref ev"
        "ai_customerId inp = Some (event_customer ev)"
        "\<And>code. lines_effect code (ai_lines inp) = move_of ev code"
    by (auto simp: wraps_def)
  then have "account_balance db' c code = account_balance db c code
     + (if created_row db db' \<and> event_customer ev = c then move_of ev code else 0)
     \<and> (created_row db db' \<longrightarrow>
          find_entry_id db (event_ref ev) = None \<and> (\<exists>i. find_entry_id db' (event_ref ev) = Some i))
     \<and> accounts_ok db' \<and> (find_entry_id db k = Some i \<longrightarrow> find_entry_id db' k = Some i)"
  proof cases
    case 1
    with s ok show ?thesis by (simp add: table_simps)
  next
    case (2 inp)
    obtain r t where ap: "appendBalanced env db inp = (r, t)" by (cases "appendBalanced env db inp")
    have "accounts t = accounts db" using appendBalanced_accounts [of env db inp] ap by simp
    then have "accounts_ok t" using ok by (simp add: accounts_ok_def)
    moreover have "find_entry_id db k = Some i \<longrightarrow> find_entry_id t k = Some i"
      using journal.post_keeps [of db k i env inp] ap by simp
    ultimately show ?thesis
      using s 2 ap appendBalanced_effect [OF ok ap, of c code] appendBalanced_created [OF ap]
      by (simp add: table_simps)
  qed
  then show "account_balance db' c code = account_balance db c code
     + (if created_row db db' \<and> event_customer ev = c then move_of ev code else 0)"
    and "created_row db db' \<Longrightarrow>
      find_entry_id db (event_ref ev) = None \<and> (\<exists>i. find_entry_id db' (event_ref ev) = Some i)"
    and "accounts_ok db'"
    and "find_entry_id db k = Some i \<Longrightarrow> find_entry_id db' k = Some i"
    by simp_all
qed

lemma posted_events_fresh:
  "accounts_ok db \<Longrightarrow> ev \<in> set (posted_events env db evs) \<Longrightarrow> find_entry_id db (event_ref ev) = None"
proof (induction evs arbitrary: db)
  case Nil
  then show ?case by simp
next
  case (Cons x evs)
  note eff = run_event_effect [where env = env and ev = x, OF Cons.prems(1) refl]
  from Cons.prems(2) consider "ev = x" "created_row db (snd (run_event env db x))"
    | "ev \<in> set (posted_events env (snd (run_event env db x)) evs)"
    by (auto simp: Let_def split: if_splits)
  then show ?case
  proof cases
    case 1
    then show ?thesis using eff(2) by simp
  next
    case 2
    then have none: "find_entry_id (snd (run_event env db x)) (event_ref ev) = None"
      using Cons.IH eff(3) by blast
    show ?thesis
    proof (cases "find_entry_id db (event_ref ev)")
      case (Some i)
      then show ?thesis using eff(4) [of "event_ref ev" i] none by simp
    qed
  qed
qed

text \<open>
  C1: the journal refines a ledger of signed moves. After any history of issuances, wallet
  absorptions, payments, discounts, cancellations and refunds, in any order and with any
  failures in between, the balance of every customer on every account is the balance before
  plus the moves of the events that created an entry, and each source reference is counted
  at most once and only when the journal did not hold it before, so retries change nothing.
\<close>

theorem history_refines_moves:
  assumes "accounts_ok db"
  shows "account_balance (run_events env db evs) c code = account_balance db c code
       + (\<Sum>ev\<leftarrow>filter (\<lambda>ev. event_customer ev = c) (posted_events env db evs). move_of ev code)
    \<and> distinct (map event_ref (posted_events env db evs))
    \<and> list_all (\<lambda>ev. find_entry_id db (event_ref ev) = None) (posted_events env db evs)"
  using assms
proof (induction evs arbitrary: db)
  case Nil
  then show ?case by simp
next
  case (Cons ev evs)
  define db' where "db' = snd (run_event env db ev)"
  note eff = run_event_effect [OF Cons.prems db'_def]
  have "event_ref ev \<notin> event_ref ` set (posted_events env db' evs)" if "created_row db db'"
    using eff(2) [OF that] posted_events_fresh [OF eff(3)] by force
  moreover have "list_all (\<lambda>ev. find_entry_id db (event_ref ev) = None) (posted_events env db (ev # evs))"
    using posted_events_fresh [OF Cons.prems] unfolding list_all_iff by blast
  ultimately show ?case
    using Cons.IH [OF eff(3)] eff(1) [of c code] by (simp add: Let_def db'_def [symmetric])
qed

text \<open>The double entry of each event: its moves cancel out over the accounts.\<close>

lemma event_moves_zero: "(\<Sum>m\<leftarrow>event_moves ev. snd m) = 0"
  by (cases ev) (simp_all add: transfer_def split: sum.split)

definition example_pay :: external_payment_input where
  "example_pay = \<lparr>ep_customerId = ''c1'', ep_orderId = Some ''o1'', ep_actorUserId = ''u1'',
     ep_amount = 10, ep_paymentMethod = ''KNET'', ep_paymentRef = ''p1'', ep_note = None\<rparr>"

lemma example_posted:
  "posted_events example_env example_db [Issue example_issue, Issue example_issue, Pay example_pay]
     = [Issue example_issue, Pay example_pay]"
  by code_simp

theorem history_refines_moves_witness:
  "account_balance (run_events example_env example_db
     [Issue example_issue, Issue example_issue, Pay example_pay]) ''c1'' ACCOUNTS_RECEIVABLE = 5 / 2"
  using history_refines_moves [OF example_accounts_ok, of example_env
      "[Issue example_issue, Issue example_issue, Pay example_pay]" "''c1''" ACCOUNTS_RECEIVABLE]
  unfolding example_posted
  by (simp add: example_issue_def example_pay_def move_of_def transfer_def account_codes
      externalPaymentAssetAccount_def account_balance_def example_db_def)

subsection \<open>Source references\<close>

fun event_key :: "ledger_event \<Rightarrow> string \<times> string" where
  "event_key (Issue i) = (''INVOICE_ISSUED'', oi_orderId i)"
| "event_key (AbsorbV3 i) = (''WALLET_ABSORPTION_V3'', oi_orderId i)"
| "event_key (Absorb i) = (''WALLET_ABSORPTION'', oi_orderId i)"
| "event_key (Pay i) = (''EXTERNAL_PAYMENT'', ep_paymentRef i)"
| "event_key (Discount i) = (''DEBT_DISCOUNT'', di_discountRef i)"
| "event_key (Cancel i) = (''INVOICE_CANCELED'', cn_orderId i)"
| "event_key (Refund i) = (''SUBSCRIPTION_REFUND'', rf_subscriptionId i)"

text \<open>
  the source references of the entry types never collide: two events share a reference
  exactly when they are of one kind and name one order, payment, discount or subscription.
  The uniqueness of \<open>sourceRef\<close> therefore deduplicates retries and nothing else.
\<close>

theorem event_refs_identify: "event_ref e = event_ref f \<longleftrightarrow> event_key e = event_key f"
  by (cases e; cases f) auto

subsection \<open>Period lock and retries\<close>

lemma closePeriod_entries:
  "closePeriod env db race inp = Inr (p, db') \<Longrightarrow> journalEntries db' = journalEntries db"
  by (auto simp: closePeriod_def result_simps Let_def update_period_def
      split: if_splits option.splits error.splits)

text \<open>
  A write that succeeded is never refused later. After any further writes and after the
  month has been closed, under any environment (the lock enforced or not), posting the same
  input again returns the identifier of the first entry and leaves every table as it is.
\<close>

theorem retry_survives_close:
  assumes "appendBalanced env db inp = (Inr i, db1)"
    and "closePeriod env1 (append_all env2 db1 inps) race ci = Inr (p, db2)"
  shows "appendBalanced env3 db2 inp = (Inr i, db2)"
proof -
  have "find_entry_id db1 (ai_sourceRef inp) = Some i"
    using journal.post_visible [OF assms(1)] .
  then have "find_entry_id (append_all env2 db1 inps) (ai_sourceRef inp) = Some i"
    by (simp add: append_all_eq_post_all journal.post_all_keeps)
  then have "find_entry_id db2 (ai_sourceRef inp) = Some i"
    using closePeriod_entries [OF assms(2)] by (simp add: find_entry_id_def find_entry_def)
  then show ?thesis
    using appendBalanced_accepted [OF assms(1)] by (rule appendBalanced_existing [rotated])
qed

lemma example_close_after:
  "\<exists>db1 p db2. appendBalanced example_env example_db example_append = (Inr ''row-0'', db1)
     \<and> closePeriod example_env (append_all example_env db1 [example_append]) None example_close = Inr (p, db2)"
proof -
  have "case appendBalanced example_env example_db example_append of
      (Inr i, db1) \<Rightarrow> i = ''row-0'' \<and>
        (case closePeriod example_env (append_all example_env db1 [example_append]) None example_close of
           Inr _ \<Rightarrow> True | Inl _ \<Rightarrow> False)
    | _ \<Rightarrow> False"
    by code_simp
  then show ?thesis by (auto split: prod.splits sum.splits)
qed

theorem retry_survives_close_witness:
  "\<exists>db1 p db2. appendBalanced example_env example_db example_append = (Inr ''row-0'', db1)
     \<and> closePeriod example_env (append_all example_env db1 [example_append]) None example_close = Inr (p, db2)
     \<and> appendBalanced example_env db2 example_append = (Inr ''row-0'', db2)"
  using example_close_after retry_survives_close by metis

fun is_reversal :: "ledger_event \<Rightarrow> bool" where
  "is_reversal (Cancel i) = True"
| "is_reversal (Refund i) = True"
| "is_reversal _ = False"

text \<open>What the writers check before they reach the guard: amount, actor, method, reference.\<close>

fun event_ready :: "ledger_event \<Rightarrow> bool" where
  "event_ready (Issue i) = (0 < oi_amount i \<and> oi_actorUserId i \<noteq> [])"
| "event_ready (AbsorbV3 i) = (0 < oi_amount i \<and> oi_actorUserId i \<noteq> [])"
| "event_ready (Absorb i) = (0 < oi_amount i \<and> oi_actorUserId i \<noteq> [])"
| "event_ready (Pay i) = (0 < ep_amount i \<and> ep_actorUserId i \<noteq> [] \<and> js_trim (ep_paymentRef i) \<noteq> []
     \<and> ep_paymentMethod i \<in> {''KNET'', ''ONLINE'', ''PAYMENT_LINK'', ''CASH''})"
| "event_ready (Discount i) = (0 < di_amount i \<and> di_actorUserId i \<noteq> [] \<and> js_trim (di_discountRef i) \<noteq> [])"
| "event_ready (Cancel i) = (0 < cn_remainingArAmount i \<and> cn_actorUserId i \<noteq> [])"
| "event_ready (Refund i) = ((0 < rf_giftRemovalAmount i \<or> 0 < rf_cashRefundAmount i) \<and> rf_actorUserId i \<noteq> [])"

lemma period_closed_is_lock_error: "is_period_lock_error (ConflictException (period_closed_message y m))"
proof -
  have "str_includes (to_lower ''Financial period '') ''period''" by code_simp
  then have "str_includes (to_lower (''Financial period '' @ t)) ''period''" for t
    unfolding to_lower_def map_append by (rule includes_append_right)
  then show ?thesis by (simp only: is_period_lock_error.simps period_closed_message_def Let_def simp_thms)
qed

lemma check_period_closed:
  assumes "isPeriodLockEnforced env" "period_guard_wired env" "\<not> ai_allowReversal inp"
    "guard_status db (nullish (ai_effectiveAt inp) (now env)) = CLOSED"
  obtains y m v where "kuwait_period (nullish (ai_effectiveAt inp) (now env)) = (y, m)"
    "check_period env db inp =
       (Inl (ConflictException (period_closed_message y m)), db\<lparr>financialPeriodViolations := v\<rparr>)"
proof -
  obtain p y m where "kuwait_period (nullish (ai_effectiveAt inp) (now env)) = (y, m)"
    and f: "fst (assertWriteAllowed env db (write_request_of env inp))
      = Inl (ConflictException (period_closed_message y m))"
    using assertWriteAllowed_closed [of db "write_request_of env inp" env] assms
    by (auto simp: write_request_of_def)
  moreover obtain v where "snd (assertWriteAllowed env db (write_request_of env inp))
      = db\<lparr>financialPeriodViolations := v\<rparr>" using assertWriteAllowed_state by blast
  ultimately show ?thesis using assms that
    by (cases "assertWriteAllowed env db (write_request_of env inp)") (auto simp: check_period_def)
qed

lemma appendBalanced_closed:
  assumes "isPeriodLockEnforced env" "period_guard_wired env" "\<not> ai_allowReversal inp"
    "guard_status db (nullish (ai_effectiveAt inp) (now env)) = CLOSED"
    "find_entry_id db (ai_sourceRef inp) = None" "accepts_append inp"
  obtains y m v where "kuwait_period (nullish (ai_effectiveAt inp) (now env)) = (y, m)"
    "appendBalanced env db inp =
       (Inl (ConflictException (period_closed_message y m)), db\<lparr>financialPeriodViolations := v\<rparr>)"
proof -
  obtain y m v where "kuwait_period (nullish (ai_effectiveAt inp) (now env)) = (y, m)"
    "check_period env db inp =
       (Inl (ConflictException (period_closed_message y m)), db\<lparr>financialPeriodViolations := v\<rparr>)"
    using check_period_closed [OF assms(1-4)] by blast
  with assms(5,6) show ?thesis by (intro that) (simp_all add: appendBalanced_def accepts_append_def)
qed

lemma appendBalanced_not_created:
  assumes "isPeriodLockEnforced env" "period_guard_wired env" "\<not> ai_allowReversal inp"
    "guard_status db (nullish (ai_effectiveAt inp) (now env)) = CLOSED"
  shows "\<not> created_row db (snd (appendBalanced env db inp))"
proof (cases "find_entry_id db (ai_sourceRef inp) = None \<and> accepts_append inp")
  case True
  then obtain y m v where "appendBalanced env db inp =
      (Inl (ConflictException (period_closed_message y m)), db\<lparr>financialPeriodViolations := v\<rparr>)"
    using appendBalanced_closed [OF assms] by metis
  then show ?thesis by (simp add: created_row_def)
next
  case False
  then show ?thesis by (auto simp: appendBalanced_def accepts_append_def created_row_def)
qed

text \<open>The input an event posts, when its writer gets as far as \<open>appendBalanced\<close>.\<close>

lemma js_trim_Cons: "\<not> is_ws c \<Longrightarrow> js_trim (c # s) \<noteq> []"
  by (auto simp: js_trim_def dropWhile_append)

lemma event_ref_visible: "js_trim (event_ref ev) \<noteq> []"
  by (cases ev) (simp_all add: js_trim_Cons is_ws_def)

lemma event_posts:
  assumes "event_ready ev"
  obtains inp h where "run_event env db ev = catch_with (some_id (appendBalanced env db inp))
      (\<lambda>db e. handleCriticalSafeFailure env db e h)"
    "ai_sourceRef inp = event_ref ev" "accepts_append inp" "ai_effectiveAt inp = None"
    "ai_allowReversal inp = is_reversal ev"
proof (cases ev)
  case (Issue i)
  note vis = event_ref_visible [of ev, unfolded Issue event_ref.simps]
  show ?thesis
    by (rule that, simp only: Issue run_event.simps appendInvoiceIssuanceEntrySafe_def
        appendInvoiceIssuanceEntry_def Let_def, subst if_not_P, use assms Issue in simp, rule refl)
      (use assms Issue vis in \<open>auto simp: accepts_append_def refund_lines_def\<close>)
next
  case (AbsorbV3 i)
  note vis = event_ref_visible [of ev, unfolded AbsorbV3 event_ref.simps]
  show ?thesis
    by (rule that, simp only: AbsorbV3 run_event.simps appendWalletAbsorptionEntryV3Safe_def
        appendWalletAbsorptionEntryV3_def Let_def, subst if_not_P, use assms AbsorbV3 in simp, rule refl)
      (use assms AbsorbV3 vis in \<open>auto simp: accepts_append_def refund_lines_def\<close>)
next
  case (Absorb i)
  note vis = event_ref_visible [of ev, unfolded Absorb event_ref.simps]
  show ?thesis
    by (rule that, simp only: Absorb run_event.simps appendWalletAbsorptionEntrySafe_def
        appendWalletAbsorptionEntry_def Let_def, subst if_not_P, use assms Absorb in simp, rule refl)
      (use assms Absorb vis in \<open>auto simp: accepts_append_def refund_lines_def\<close>)
next
  case (Pay i)
  note vis = event_ref_visible [of ev, unfolded Pay event_ref.simps]
  obtain a where asset: "externalPaymentAssetAccount (ep_paymentMethod i) = Inr a"
    using assms Pay by (auto simp: externalPaymentAssetAccount_def)
  show ?thesis
    by (rule that, simp only: Pay run_event.simps appendExternalPaymentEntrySafe_def
        appendExternalPaymentEntry_def Let_def asset sum.case, subst if_not_P, use assms Pay in simp, subst if_not_P, use assms Pay in simp, rule refl)
      (use assms Pay vis in \<open>auto simp: accepts_append_def refund_lines_def\<close>)
next
  case (Discount i)
  note vis = event_ref_visible [of ev, unfolded Discount event_ref.simps]
  show ?thesis
    by (rule that, simp only: Discount run_event.simps appendDebtDiscountEntrySafe_def
        appendDebtDiscountEntry_def Let_def, subst if_not_P, use assms Discount in simp, subst if_not_P, use assms Discount in simp, rule refl)
      (use assms Discount vis in \<open>auto simp: accepts_append_def refund_lines_def\<close>)
next
  case (Cancel i)
  note vis = event_ref_visible [of ev, unfolded Cancel event_ref.simps]
  show ?thesis
    by (rule that, simp only: Cancel run_event.simps appendInvoiceCancellationEntrySafe_def
        appendInvoiceCancellationEntry_def Let_def, subst if_not_P, use assms Cancel in simp, rule refl)
      (use assms Cancel vis in \<open>auto simp: accepts_append_def refund_lines_def\<close>)
next
  case (Refund i)
  note vis = event_ref_visible [of ev, unfolded Refund event_ref.simps]
  show ?thesis
    by (rule that, simp only: Refund run_event.simps appendSubscriptionRefundEntrySafe_def
        appendSubscriptionRefundEntry_def Let_def, subst if_not_P, use assms Refund in fastforce, rule refl)
      (use assms Refund vis in \<open>auto simp: accepts_append_def refund_lines_def\<close>)
qed


text \<open>Without the checks of \<open>event_ready\<close> no event creates a row.\<close>

lemma event_posts_ready:
  assumes "created_row db (snd (run_event env db ev))"
  shows "event_ready ev"
proof (rule ccontr)
  assume n: "\<not> event_ready ev"
  have actor: "\<not> created_row db (snd (appendBalanced env db inp))" if "ai_actorUserId inp = []" for inp
    using that by (simp add: appendBalanced_def)
  have catch: "created_row db (snd (catch_with w (\<lambda>db e. handleCriticalSafeFailure env db e h)))
      \<longleftrightarrow> created_row db (snd w)" for w h
    using catch_with_state [of w env h] by (auto simp: created_row_def)
  from n have "\<not> created_row db (snd (run_event env db ev))"
    by (cases ev)
      (auto simp: catch actor Let_def externalPaymentAssetAccount_def
        appendInvoiceIssuanceEntrySafe_def appendInvoiceIssuanceEntry_def
        appendWalletAbsorptionEntryV3Safe_def appendWalletAbsorptionEntryV3_def
        appendWalletAbsorptionEntrySafe_def appendWalletAbsorptionEntry_def
        appendExternalPaymentEntrySafe_def appendExternalPaymentEntry_def
        appendDebtDiscountEntrySafe_def appendDebtDiscountEntry_def
        appendInvoiceCancellationEntrySafe_def appendInvoiceCancellationEntry_def
        appendSubscriptionRefundEntrySafe_def appendSubscriptionRefundEntry_def
        split: sum.split if_split)
  with assms show False by simp
qed

text \<open>
  C3: a closed month takes no new business. With the lock enforced and the current month
  closed, no issuance, absorption, payment or discount creates a row, whatever its input; one
  that passes its own checks and is not a retry is rejected with the conflict of that month,
  the \<open>Safe\<close> wrapper does not swallow the rejection, and the failure log stays as it is.
\<close>

theorem closed_month_blocks:
  assumes lock: "isPeriodLockEnforced env" "period_guard_wired env"
    and closed: "guard_status db (now env) = CLOSED" and rev: "\<not> is_reversal ev"
  shows "\<not> created_row db (snd (run_event env db ev))
    \<and> (event_ready ev \<and> find_entry_id db (event_ref ev) = None \<longrightarrow>
        (case kuwait_period (now env) of (y, m) \<Rightarrow>
           fst (run_event env db ev) = Inl (ConflictException (period_closed_message y m)))
        \<and> journalFailureLog (snd (run_event env db ev)) = journalFailureLog db)"
proof (cases "event_ready ev")
  case False
  then show ?thesis using event_posts_ready by blast
next
  case True
  then obtain inp h where run: "run_event env db ev = catch_with (some_id (appendBalanced env db inp))
      (\<lambda>db e. handleCriticalSafeFailure env db e h)"
    and inp: "ai_sourceRef inp = event_ref ev" "accepts_append inp" "ai_effectiveAt inp = None"
      "\<not> ai_allowReversal inp"
    using rev by (auto elim!: event_posts [of ev env db])
  have "\<not> created_row db (snd (run_event env db ev))"
    using appendBalanced_not_created [OF lock inp(4), of db] closed inp(3)
      catch_with_state [of "some_id (appendBalanced env db inp)" env h]
    by (auto simp: run created_row_def)
  moreover have "(case kuwait_period (now env) of (y, m) \<Rightarrow>
           fst (run_event env db ev) = Inl (ConflictException (period_closed_message y m)))
        \<and> journalFailureLog (snd (run_event env db ev)) = journalFailureLog db"
    if "find_entry_id db (event_ref ev) = None"
  proof -
    have "guard_status db (nullish (ai_effectiveAt inp) (now env)) = CLOSED"
      "find_entry_id db (ai_sourceRef inp) = None" using closed inp that by simp_all
    then obtain y m v where "kuwait_period (nullish (ai_effectiveAt inp) (now env)) = (y, m)"
       "appendBalanced env db inp =
         (Inl (ConflictException (period_closed_message y m)), db\<lparr>financialPeriodViolations := v\<rparr>)"
      using appendBalanced_closed [OF lock inp(4)] inp(2) by blast
    then have "kuwait_period (now env) = (y, m)" "appendBalanced env db inp =
       (Inl (ConflictException (period_closed_message y m)), db\<lparr>financialPeriodViolations := v\<rparr>)"
      using inp(3) by simp_all
    then show ?thesis
      using period_closed_is_lock_error [of y m]
      by (simp add: run handleCriticalSafeFailure_def del: is_period_lock_error.simps)
  qed
  ultimately show ?thesis by simp
qed

theorem closed_month_blocks_witness:
  "fst (run_event example_env example_closed_db (Issue example_issue))
     = Inl (ConflictException (period_closed_message 2026 3))"
proof -
  have "guard_status example_closed_db (now example_env) = CLOSED"
    "isPeriodLockEnforced example_env" "period_guard_wired example_env"
    "event_ready (Issue example_issue)"
    "find_entry_id example_closed_db (event_ref (Issue example_issue)) = None"
    "kuwait_period (now example_env) = (2026, 3)"
    by code_simp+
  then show ?thesis
    using closed_month_blocks [of example_env example_closed_db "Issue example_issue"] by simp
qed

subsection \<open>Failures that are swallowed, and the breaker\<close>

lemma persistFailure_count:
  "\<not> failure_log_fault env \<Longrightarrow> mi_customerId inp = c \<Longrightarrow>
     recent_failures env (persistFailure env db inp m code) c = Suc (recent_failures env db c)"
  by (simp add: persistFailure_def recent_failures_def CRITICAL_FAILURE_WINDOW_MS_def)

lemma swallowed_failure:
  assumes "\<not> isFailClosedCriticalEnabled env" "\<not> failure_log_fault env" "\<not> breaker_read_fault env"
    "mi_customerId inp \<noteq> []" "\<not> is_period_lock_error err" "error_code err \<noteq> Some ''P2002''"
  shows "handleCriticalSafeFailure env db err inp =
    (if recent_failures env db (mi_customerId inp) < 3 then Inr None
     else Inl (CriticalJournalFailureError (mi_customerId inp)
       (Suc (recent_failures env db (mi_customerId inp))) CRITICAL_FAILURE_WINDOW_MS),
     persistFailure env db inp (error_message err) (error_code err))"
  using assms
  by (simp add: handleCriticalSafeFailure_def tripBreakerIfNeeded_def persistFailure_count
      CRITICAL_FAILURE_THRESHOLD_def Let_def)

text \<open>
  C20: the circuit breaker. Its scope: the fail-closed flag is off, the customer is named, the
  failure log can be written and counted, and the error is neither a period lock (which is rethrown
  and not logged) nor a violated unique constraint (which may be answered by the existing entry).
  Then repeated failures of the customer at one time are swallowed (the wrapper returns null and
  logs one row each) as long as fewer than three were logged within the last five minutes; from the
  fourth on every one throws the critical failure that rolls the surrounding transaction back.
  Here \<open>n\<close> failures come after the \<open>recent_failures\<close> the log already holds.
\<close>

theorem breaker_trips:
  fixes db :: "'z journal_db_scheme" and n :: nat and env inp err
  assumes "\<not> isFailClosedCriticalEnabled env" "\<not> failure_log_fault env" "\<not> breaker_read_fault env"
    "mi_customerId inp \<noteq> []" "\<not> is_period_lock_error err" "error_code err \<noteq> Some ''P2002''"
  defines "s \<equiv> ((\<lambda>s. snd (handleCriticalSafeFailure env s err inp)) ^^ n) db"
    and "k \<equiv> recent_failures env db (mi_customerId inp) + n"
  shows "fst (handleCriticalSafeFailure env s err inp) =
      (if k < 3 then Inr None
       else Inl (CriticalJournalFailureError (mi_customerId inp) (Suc k) CRITICAL_FAILURE_WINDOW_MS))
    \<and> recent_failures env s (mi_customerId inp) = k \<and> journalEntries s = journalEntries db"
proof -
  have "recent_failures env s (mi_customerId inp) = k \<and> journalEntries s = journalEntries db"
    unfolding s_def k_def
    by (induction n)
      (simp_all add: swallowed_failure assms persistFailure_count, simp_all add: persistFailure_def assms)
  then show ?thesis by (simp add: swallowed_failure assms(1-6))
qed

definition example_failure :: mirror_input where
  "example_failure = \<lparr>mi_source = ''INVOICE_ISSUED'', mi_amount = 5, mi_sourceRef = Some ''r'',
     mi_actorUserId = Some ''u1'', mi_customerId = ''c1'', mi_orderId = None, mi_paymentMethod = None, mi_note = None\<rparr>"

theorem breaker_trips_witness:
  "fst (handleCriticalSafeFailure example_env
     (((\<lambda>s. snd (handleCriticalSafeFailure example_env s (Error ''down'') example_failure)) ^^ 3) example_db)
     (Error ''down'') example_failure)
   = Inl (CriticalJournalFailureError ''c1'' 4 300000)"
proof -
  have "\<not> failure_log_fault example_env" "\<not> breaker_read_fault example_env"
    "mi_customerId example_failure \<noteq> []" "recent_failures example_env example_db ''c1'' = 0"
    "mi_customerId example_failure = ''c1''"
    by (simp_all add: example_env_def example_failure_def recent_failures_def example_db_def)
  then show ?thesis
    using breaker_trips [of example_env example_failure "Error ''down''" 3 example_db]
    by (simp add: CRITICAL_FAILURE_WINDOW_MS_def del: funpow.simps)
qed

lemma handle_fail_closed:
  "isFailClosedCriticalEnabled env \<Longrightarrow> fst (handleCriticalSafeFailure env db err inp) \<noteq> Inr None"
  by (auto simp: handleCriticalSafeFailure_def Let_def split: option.split if_splits)

lemma catch_some_id_fail_closed:
  "isFailClosedCriticalEnabled env \<Longrightarrow>
     fst (catch_with (some_id w) (\<lambda>db e. handleCriticalSafeFailure env db e h)) \<noteq> Inr None"
  by (cases w; cases "fst w") (auto simp: handle_fail_closed)

fun event_positive :: "ledger_event \<Rightarrow> bool" where
  "event_positive (Issue i) = (0 < oi_amount i)"
| "event_positive (AbsorbV3 i) = (0 < oi_amount i)"
| "event_positive (Absorb i) = (0 < oi_amount i)"
| "event_positive (Pay i) = (0 < ep_amount i)"
| "event_positive (Discount i) = (0 < di_amount i)"
| "event_positive (Cancel i) = (0 < cn_remainingArAmount i)"
| "event_positive (Refund i) = (0 < rf_giftRemovalAmount i \<or> 0 < rf_cashRefundAmount i)"

text \<open>
  C21: with \<open>JOURNAL_FAIL_CLOSED_CRITICAL\<close> set no wrapper loses a write in silence. Each of
  the seven event wrappers with a positive amount, and the mirror of a debt row with a
  positive amount that is a payment not made from the wallet or an invoice debt, either
  returns the identifier of a journal entry or throws. All eight wrappers behave so, not only
  the two the comment on the flag names.
\<close>

theorem fail_closed_never_silent:
  assumes closed: "isFailClosedCriticalEnabled env"
  shows "(event_positive ev \<longrightarrow> fst (run_event env db ev) \<noteq> Inr None)
    \<and> (0 < mi_amount m \<and> (mi_source m = ''INVOICE_SHORTFALL'' \<or> mi_source m = ''SUBSCRIPTION_OVERUSE''
         \<or> mi_source m = ''PAYMENT'' \<and> \<not> starts_with (js_trim (nullish (mi_sourceRef m) [])) ''PAYMENT:WALLET:'')
       \<longrightarrow> fst (mirrorDebtLedgerEntrySafe env db m) \<noteq> Inr None)"
proof -
  note fc = handle_fail_closed [OF closed] catch_some_id_fail_closed [OF closed]
  have "fst (run_event env db ev) \<noteq> Inr None" if "event_positive ev"
    using that
    by (cases ev)
      (auto simp: fc Let_def
        appendInvoiceIssuanceEntrySafe_def appendInvoiceIssuanceEntry_def
        appendWalletAbsorptionEntryV3Safe_def appendWalletAbsorptionEntryV3_def
        appendWalletAbsorptionEntrySafe_def appendWalletAbsorptionEntry_def
        appendExternalPaymentEntrySafe_def appendExternalPaymentEntry_def
        appendDebtDiscountEntrySafe_def appendDebtDiscountEntry_def
        appendInvoiceCancellationEntrySafe_def appendInvoiceCancellationEntry_def
        appendSubscriptionRefundEntrySafe_def appendSubscriptionRefundEntry_def
        split: sum.split)
  moreover have "fst (mirrorDebtLedgerEntrySafe env db m) \<noteq> Inr None"
    if "0 < mi_amount m" "mi_source m = ''INVOICE_SHORTFALL'' \<or> mi_source m = ''SUBSCRIPTION_OVERUSE''
         \<or> mi_source m = ''PAYMENT'' \<and> \<not> starts_with (js_trim (nullish (mi_sourceRef m) [])) ''PAYMENT:WALLET:''"
    using that
    by (auto simp: fc Let_def mirrorDebtLedgerEntrySafe_def mirrorDebtLedgerEntry_def split: sum.split)
  ultimately show ?thesis by blast
qed

theorem fail_closed_never_silent_witness:
  "fst (run_event (example_env\<lparr>JOURNAL_FAIL_CLOSED_CRITICAL := Some ''true'',
      create_fault := \<lambda>_. Some (Error ''down'')\<rparr>) example_db (Issue example_issue)) \<noteq> Inr None"
  using fail_closed_never_silent [of "example_env\<lparr>JOURNAL_FAIL_CLOSED_CRITICAL := Some ''true'',
      create_fault := \<lambda>_. Some (Error ''down'')\<rparr>" "Issue example_issue" example_db example_failure]
  by (simp add: isFailClosedCriticalEnabled_def example_issue_def)

end
