(* ===== verification/Money.thy ===== *)
theory Money
  imports Prelude
begin

text \<open>
  \<open>src/finance/finance-money.ts\<close> and \<open>src/finance/utils/round4kd.util.ts\<close>: amounts of
  Kuwaiti dinar as integers of 1/10000 KD (\<open>bigint\<close>), their parsing from and printing to
  four-place decimal strings, and the tolerance check of a cash handover.
  \<open>toFixed(4)\<close> and \<open>toDecimalPlaces\<close> are library functions: \<open>to_fixed4\<close> rounds half away
  from zero, as \<open>Decimal.toFixed\<close> and \<open>Number.toFixed\<close> do (the latter for magnitudes below
  \<open>10 ^ 21\<close>, where it prints plain digits); \<open>half_even\<close> is \<open>ROUND_HALF_EVEN\<close>.
\<close>

subsection \<open>Library functions: BigInt, split, toFixed\<close>

fun split_on :: "char \<Rightarrow> string \<Rightarrow> string list" where
  "split_on c [] = [[]]"
| "split_on c (x # xs) = (if x = c then [] # split_on c xs
     else (case split_on c xs of [] \<Rightarrow> [[x]] | y # ys \<Rightarrow> (x # y) # ys))"

definition base_digit :: "nat \<Rightarrow> char \<Rightarrow> nat option" where
  "base_digit b c = (let n = (of_char (lower_char c) :: nat);
       d = (if 48 \<le> n \<and> n \<le> 57 then n - 48 else if 97 \<le> n \<and> n \<le> 122 then n - 87 else b)
     in if d < b then Some d else None)"

fun parse_base :: "nat \<Rightarrow> nat \<Rightarrow> string \<Rightarrow> nat option" where
  "parse_base b acc [] = Some acc"
| "parse_base b acc (c # cs) = (case base_digit b c of None \<Rightarrow> None
     | Some d \<Rightarrow> parse_base b (acc * b + d) cs)"

definition syntax_error :: error where
  "syntax_error = Error ''SyntaxError: Cannot convert to a BigInt''"

definition nat_literal :: "nat \<Rightarrow> string \<Rightarrow> int result" where
  "nat_literal b s = (if s = [] then Inl syntax_error
     else case parse_base b 0 s of None \<Rightarrow> Inl syntax_error | Some n \<Rightarrow> Inr (int n))"

fun big_int_literal :: "string \<Rightarrow> int result" where
  "big_int_literal [] = Inr 0"
| "big_int_literal (c # cs) =
     (if c = CHR ''-'' then bindE (nat_literal 10 cs) (\<lambda>i. Inr (- i))
      else if c = CHR ''+'' then nat_literal 10 cs
      else if c = CHR ''0'' \<and> cs \<noteq> [] \<and> lower_char (hd cs) = CHR ''x'' then nat_literal 16 (tl cs)
      else if c = CHR ''0'' \<and> cs \<noteq> [] \<and> lower_char (hd cs) = CHR ''o'' then nat_literal 8 (tl cs)
      else if c = CHR ''0'' \<and> cs \<noteq> [] \<and> lower_char (hd cs) = CHR ''b'' then nat_literal 2 (tl cs)
      else nat_literal 10 (c # cs))"

definition big_int :: "string \<Rightarrow> int result" where
  "big_int s = big_int_literal (js_trim s)"

definition half_up :: "decimal \<Rightarrow> int" where
  "half_up x = (if x < 0 then - floor (- x + 1 / 2) else floor (x + 1 / 2))"

definition half_even :: "decimal \<Rightarrow> int" where
  "half_even x = (let f = floor x; r = x - of_int f
     in if r < 1 / 2 then f else if 1 / 2 < r then f + 1 else if even f then f else f + 1)"

subsection \<open>Minor units\<close>

definition SCALE :: nat where "SCALE = 4"

definition MULTIPLIER :: int where "MULTIPLIER = 10 ^ SCALE"

definition HANDOVER_TOLERANCE_MINOR :: int where "HANDOVER_TOLERANCE_MINOR = 1"

definition minorToAmountString :: "int \<Rightarrow> string" where
  "minorToAmountString minor =
     (let neg = minor < 0;
          v = (if neg then - minor else minor);
          intPart = v div MULTIPLIER;
          fracPart = pad_start SCALE (CHR ''0'') (show_int (v mod MULTIPLIER))
      in (if neg then ''-'' else '''') @ show_int intPart @ ''.'' @ fracPart)"

text \<open>\<open>x.toFixed(4)\<close>: the digits of the nearest multiple of 1/10000, the sign of \<open>x\<close> kept.\<close>

definition to_fixed4 :: "decimal \<Rightarrow> string" where
  "to_fixed4 x = (if x < 0 then CHR ''-'' # minorToAmountString (half_up (- x * 10000))
     else minorToAmountString (half_up (x * 10000)))"

text \<open>\<open>Number(x.toFixed(4))\<close> and \<open>toDecimalPlaces(4)\<close>: the nearest value with four decimals.\<close>

definition dec4 :: "decimal \<Rightarrow> decimal" where
  "dec4 x = of_int (half_up (x * 10000)) / 10000"

text \<open>The columns of the tables are \<open>Decimal(19,4)\<close>: at most four decimals.\<close>

definition fixed4 :: "decimal \<Rightarrow> bool" where
  "fixed4 x \<longleftrightarrow> of_int (floor (x * 10000)) = x * 10000"

text \<open>The value of an amount printed by \<open>minorToAmountString\<close> when it is read back.\<close>

definition amount_of_minor :: "int \<Rightarrow> decimal" where
  "amount_of_minor m = of_int m / 10000"

definition to_fixed3 :: "decimal \<Rightarrow> string" where
  "to_fixed3 x = (let m = half_up (\<bar>x\<bar> * 1000)
     in (if x < 0 then ''-'' else '''') @ show_int (m div 1000) @ ''.''
        @ pad_start 3 (CHR ''0'') (show_int (m mod 1000)))"

definition parseFixed4ToMinor :: "string \<Rightarrow> int result" where
  "parseFixed4ToMinor s =
     (let t = js_trim s;
          neg = starts_with t ''-'';
          u = (if neg then tl t else t);
          parts = split_on (CHR ''.'') u;
          wRaw = hd parts;
          fRaw = (if length parts < 2 then '''' else parts ! 1);
          w = (if wRaw = '''' then ''0'' else wRaw);
          frac = pad_end SCALE (CHR ''0'') (take SCALE (fRaw @ ''0000''))
      in bindE (big_int w) (\<lambda>wi. bindE (big_int frac) (\<lambda>fi.
           let minor = wi * MULTIPLIER + fi in Inr (if neg then - minor else minor))))"

definition toMinorFromFixed4 :: "decimal \<Rightarrow> int result" where
  "toMinorFromFixed4 totalPrice = parseFixed4ToMinor (to_fixed4 totalPrice)"

text \<open>A JavaScript number: a finite value, or NaN or an infinity (\<open>None\<close>).\<close>

definition declaredNumberToMinor :: "decimal option \<Rightarrow> int result" where
  "declaredNumberToMinor declared = (case declared of
       None \<Rightarrow> Inl (Error ''declaredHandoverTotal must be a finite positive number'')
     | Some d \<Rightarrow> if d \<le> 0 then Inl (Error ''declaredHandoverTotal must be a finite positive number'')
         else parseFixed4ToMinor (to_fixed4 d))"

definition sumOrderMinors :: "decimal list \<Rightarrow> int result" where
  "sumOrderMinors rows =
     foldl (\<lambda>a p. bindE a (\<lambda>s. bindE (toMinorFromFixed4 p) (\<lambda>m. Inr (s + m)))) (Inr 0) rows"

definition assertDeclaredMatchesLedgerMinor :: "int \<Rightarrow> decimal option \<Rightarrow> unit result" where
  "assertDeclaredMatchesLedgerMinor ledgerMinor declared =
     bindE (declaredNumberToMinor declared) (\<lambda>declaredMinor.
       let diff = (if ledgerMinor \<ge> declaredMinor then ledgerMinor - declaredMinor
                   else declaredMinor - ledgerMinor)
       in if diff > HANDOVER_TOLERANCE_MINOR
          then Inl (Error (''Declared total '' @ minorToAmountString declaredMinor
                 @ '' does not match ledger '' @ minorToAmountString ledgerMinor
                 @ '' (tolerance '' @ [CHR 0xC2, CHR 0xB1]
                 @ minorToAmountString HANDOVER_TOLERANCE_MINOR @ '' KWD)''))
          else Inr ())"

definition round4Kd :: "decimal \<Rightarrow> string" where
  "round4Kd d = to_fixed4 (of_int (half_even (d * 10000)) / 10000)"


subsection \<open>Reading digits\<close>

lemma is_digit_ascii: "is_digit c \<Longrightarrow> \<not> is_ws c \<and> c \<noteq> CHR ''.'' \<and> c \<noteq> CHR ''-''
    \<and> c \<noteq> CHR ''+'' \<and> lower_char c = c"
  by (auto simp: is_digit_def is_ws_def lower_char_def Let_def)

lemma is_digit_not_prefix: "is_digit c \<Longrightarrow> lower_char c \<noteq> CHR ''x''
    \<and> lower_char c \<noteq> CHR ''o'' \<and> lower_char c \<noteq> CHR ''b''"
  using is_digit_ascii [of c] by (auto simp: is_digit_def)

lemma base_digit_10: "is_digit c \<Longrightarrow> base_digit 10 c = Some (digit_val c)"
  using is_digit_ascii [of c] by (auto simp: base_digit_def Let_def digit_val_def is_digit_def)

lemma parse_base_digits:
  "list_all is_digit s \<Longrightarrow>
     parse_base 10 acc s = Some (foldl (\<lambda>a c. a * 10 + digit_val c) acc s)"
  by (induction s arbitrary: acc) (simp_all add: base_digit_10)

lemma js_trim_no_ws: "list_all (\<lambda>c. \<not> is_ws c) s \<Longrightarrow> js_trim s = s"
proof -
  have dw: "dropWhile is_ws t = t" if "list_all (\<lambda>c. \<not> is_ws c) t" for t
    using that by (cases t) auto
  assume "list_all (\<lambda>c. \<not> is_ws c) s"
  then show ?thesis by (simp add: js_trim_def dw list_all_iff)
qed

lemma list_all_digit_no_ws: "list_all is_digit s \<Longrightarrow> list_all (\<lambda>c. \<not> is_ws c) s"
  by (auto simp: list_all_iff dest: is_digit_ascii)

lemma is_ws_dot: "\<not> is_ws (CHR ''.'')" "\<not> is_ws (CHR ''-'')"
  by (simp_all add: is_ws_def)

lemma big_int_digits:
  assumes "list_all is_digit s" and "s \<noteq> []"
  shows "big_int s = Inr (int (digits_val s))"
proof -
  from assms obtain c cs where s: "s = c # cs" and c: "is_digit c" and cs: "list_all is_digit cs"
    by (cases s) auto
  have "big_int_literal s = nat_literal 10 s"
    using c cs is_digit_ascii [OF c] is_digit_not_prefix unfolding s by (cases cs) auto
  moreover have "nat_literal 10 s = Inr (int (digits_val s))"
    using assms by (simp add: nat_literal_def parse_base_digits digits_val_def)
  ultimately show ?thesis
    using assms by (simp add: big_int_def js_trim_no_ws list_all_digit_no_ws)
qed

lemma split_on_none: "c \<notin> set s \<Longrightarrow> split_on c s = [s]"
  by (induction s) auto

lemma split_on_append: "c \<notin> set s \<Longrightarrow> split_on c (s @ c # t) = s # split_on c t"
  by (induction s) auto

lemma show_nat_list_all: "list_all is_digit (show_nat n)"
  by (simp add: list_all_iff show_nat_digits)

lemma pad_start_list_all: "list_all is_digit s \<Longrightarrow> list_all is_digit (pad_start n (CHR ''0'') s)"
  by (auto simp: pad_start_def list_all_iff is_digit_def)

lemma length_pad_start: "length s \<le> n \<Longrightarrow> length (pad_start n c s) = n"
  by (simp add: pad_start_def)

subsection \<open>Printing and parsing\<close>

lemma minus_div_mod: "- (v div 10000 * 10000) - v mod 10000 = - (v :: int)"
  using div_mult_mod_eq [of v 10000] by linarith

lemma parse_amount_string:
  assumes v: "0 \<le> v"
  shows "minorToAmountString v = show_nat (nat (v div 10000)) @ ''.''
      @ pad_start 4 (CHR ''0'') (show_nat (nat (v mod 10000)))"
    and "parseFixed4ToMinor (minorToAmountString v) = Inr v"
    and "parseFixed4ToMinor (CHR ''-'' # minorToAmountString v) = Inr (- v)"
proof -
  let ?w = "show_nat (nat (v div 10000))"
  let ?f = "pad_start 4 (CHR ''0'') (show_nat (nat (v mod 10000)))"
  have nonneg: "(v mod 10000 < 0) = False"
    using pos_mod_sign [of 10000 v] by simp
  from v show str: "minorToAmountString v = ?w @ ''.'' @ ?f"
    by (simp add: minorToAmountString_def MULTIPLIER_def SCALE_def show_int_def Let_def nonneg
        not_less pos_imp_zdiv_nonneg_iff)
  have "nat (v mod 10000) < 10 ^ 4" by simp
  then have len: "length ?f = 4"
    by (intro length_pad_start length_show_nat_le) simp_all
  have wd: "list_all is_digit ?w" and fd: "list_all is_digit ?f"
    by (simp_all add: show_nat_list_all pad_start_list_all)
  have dots: "CHR ''.'' \<notin> set ?w" "CHR ''.'' \<notin> set ?f"
    using wd fd is_digit_ascii by (auto simp: list_all_iff)
  have trim: "js_trim (?w @ ''.'' @ ?f) = ?w @ ''.'' @ ?f"
      "js_trim (CHR ''-'' # ?w @ ''.'' @ ?f) = CHR ''-'' # ?w @ ''.'' @ ?f"
    using list_all_digit_no_ws [OF wd] list_all_digit_no_ws [OF fd]
    by (auto intro!: js_trim_no_ws simp: is_ws_dot)
  obtain c cs where w: "?w = c # cs" by (cases ?w) auto
  then have c: "c \<noteq> CHR ''-''" using wd is_digit_ascii [of c] by simp
  have parts: "split_on (CHR ''.'') (?w @ ''.'' @ ?f) = [?w, ?f]"
    using dots by (simp add: split_on_append split_on_none)
  have frac: "pad_end 4 (CHR ''0'') (take 4 (?f @ ''0000'')) = ?f"
    using len by (simp add: pad_end_def)
  have f0: "?f \<noteq> []" using len by auto
  have wi: "big_int ?w = Inr (v div 10000)" and fi: "big_int ?f = Inr (v mod 10000)"
    using wd fd f0 v by (simp_all add: big_int_digits pos_imp_zdiv_nonneg_iff)
  show "parseFixed4ToMinor (minorToAmountString v) = Inr v"
    unfolding parseFixed4ToMinor_def Let_def str trim
    using c parts frac wi fi by (simp add: w SCALE_def MULTIPLIER_def)
  show "parseFixed4ToMinor (CHR ''-'' # minorToAmountString v) = Inr (- v)"
    unfolding parseFixed4ToMinor_def Let_def str trim
    using parts frac wi fi by (simp add: SCALE_def MULTIPLIER_def minus_div_mod)
qed

lemma minorToAmountString_neg:
  "v < 0 \<Longrightarrow> minorToAmountString v = CHR ''-'' # minorToAmountString (- v)"
  by (simp add: minorToAmountString_def Let_def)

text \<open>
  C22: printing an amount of minor units as a four-place decimal string and parsing the
  string back gives the amount, for every integer, negative ones included: no amount is
  lost, and no string printed by the code is rejected by the parser.
\<close>

theorem amount_string_roundtrip: "parseFixed4ToMinor (minorToAmountString minor) = Inr minor"
proof (cases "minor < 0")
  case True
  then show ?thesis
    using parse_amount_string(3) [of "- minor"] by (simp add: minorToAmountString_neg)
next
  case False
  then show ?thesis using parse_amount_string(2) [of minor] by simp
qed

lemma parse_amount_string_any [simp]: "parseFixed4ToMinor (minorToAmountString minor) = Inr minor"
  by (cases "minor < 0")
    (use parse_amount_string(2,3) [of "abs minor"] in \<open>simp_all add: minorToAmountString_neg\<close>)

lemma half_up_neg: "x < 0 \<Longrightarrow> half_up x = - half_up (- x)"
  by (simp add: half_up_def)

lemma half_up_nonneg: "0 \<le> x \<Longrightarrow> 0 \<le> half_up x"
  by (simp add: half_up_def)

lemma toMinorFromFixed4_eq [simp]: "toMinorFromFixed4 x = Inr (half_up (x * 10000))"
proof (cases "x < 0")
  case True
  then have "0 \<le> half_up (- x * 10000)" by (intro half_up_nonneg) simp
  then have "parseFixed4ToMinor (CHR ''-'' # minorToAmountString (half_up (- x * 10000)))
      = Inr (- half_up (- x * 10000))"
    by (rule parse_amount_string(3))
  moreover have "- half_up (- x * 10000) = half_up (x * 10000)"
    using True half_up_neg [of "x * 10000"] by (simp add: mult_neg_pos)
  ultimately show ?thesis using True by (simp add: toMinorFromFixed4_def to_fixed4_def)
next
  case False
  then show ?thesis by (simp add: toMinorFromFixed4_def to_fixed4_def)
qed

lemma half_up_of_int [simp]: "half_up (of_int i) = i"
  by (simp add: half_up_def floor_eq_iff)

lemma fixed4_half_up: "fixed4 x \<Longrightarrow> of_int (half_up (x * 10000)) = x * 10000"
  unfolding fixed4_def by (metis half_up_of_int)

lemma fixed4_amount [simp]: "fixed4 (amount_of_minor m)"
  by (simp add: fixed4_def amount_of_minor_def)

lemma fixed4_iff: "fixed4 x \<longleftrightarrow> (\<exists>m. x = amount_of_minor m)"
proof
  assume "fixed4 x"
  then have "of_int (floor (x * 10000)) = x * 10000" unfolding fixed4_def .
  then have "x = amount_of_minor (floor (x * 10000))" unfolding amount_of_minor_def by linarith
  then show "\<exists>m. x = amount_of_minor m" by blast
qed auto

lemma amount_of_minor_add: "amount_of_minor m + amount_of_minor n = amount_of_minor (m + n)"
  "amount_of_minor m - amount_of_minor n = amount_of_minor (m - n)" "amount_of_minor 0 = 0"
  by (simp_all add: amount_of_minor_def add_divide_distrib diff_divide_distrib)

lemma fixed4_arith [intro]: "fixed4 x \<Longrightarrow> fixed4 y \<Longrightarrow> fixed4 (x + y)"
  "fixed4 x \<Longrightarrow> fixed4 y \<Longrightarrow> fixed4 (x - y)" "fixed4 0"
  unfolding fixed4_iff by (metis amount_of_minor_add)+

lemma fixed4_sum: "list_all (\<lambda>x. fixed4 (f x)) xs \<Longrightarrow> fixed4 (\<Sum>x\<leftarrow>xs. f x)"
  by (induction xs) (auto intro: fixed4_arith)

lemma dec4_fixed4 [simp]: "fixed4 x \<Longrightarrow> dec4 x = x" "fixed4 (dec4 x)"
  by (simp_all add: dec4_def fixed4_half_up fixed4_amount [unfolded amount_of_minor_def])

lemma to_fixed4_minor: "to_fixed4 (of_int m / 10000) = minorToAmountString m"
proof (cases "m < 0")
  case True
  then have "half_up (- (of_int m / 10000) * 10000) = - m"
    using half_up_of_int [of "- m"] by simp
  with True show ?thesis by (simp add: to_fixed4_def minorToAmountString_neg)
qed (simp add: to_fixed4_def)

lemma half_up_mono: "x \<le> y \<Longrightarrow> half_up x \<le> half_up y"
proof (cases "x < 0")
  case True
  assume "x \<le> y"
  show ?thesis
  proof (cases "y < 0")
    case yn: True
    with \<open>x \<le> y\<close> have "floor (- y + 1 / 2) \<le> floor (- x + 1 / 2)" by (intro floor_mono) simp
    with True yn show ?thesis by (simp add: half_up_def)
  next
    case False
    with True show ?thesis using half_up_nonneg [of y] half_up_nonneg [of "- x"]
      by (simp add: half_up_neg)
  qed
next
  case False
  assume "x \<le> y"
  with False show ?thesis by (auto simp: half_up_def intro: floor_mono)
qed

lemma dec4_nonneg: "0 \<le> x \<Longrightarrow> 0 \<le> dec4 x"
  by (simp add: dec4_def half_up_nonneg)

lemma floor_half_error: "\<bar>of_int (floor (y + 1 / 2)) - y\<bar> \<le> (1 / 2 :: rat)"
proof -
  have "of_int (floor (y + 1 / 2)) \<le> y + 1 / 2"
    and "y + 1 / 2 < of_int (floor (y + 1 / 2)) + 1"
    using floor_correct [of "y + 1 / 2"] by simp_all
  then show ?thesis by (intro abs_leI) linarith+
qed

lemma half_up_error: "\<bar>of_int (half_up x) - x\<bar> \<le> 1 / 2"
proof (cases "x < 0")
  case True
  then have "of_int (half_up x) - x = - (of_int (floor (- x + 1 / 2)) - (- x))"
    by (simp add: half_up_def)
  then show ?thesis using floor_half_error [of "- x"] by (simp only: abs_minus_cancel)
next
  case False
  then show ?thesis using floor_half_error [of x] by (simp add: half_up_def)
qed

lemma declared_eq:
  "declaredNumberToMinor declared = (case declared of
      Some d \<Rightarrow> if 0 < d then Inr (half_up (d * 10000))
        else Inl (Error ''declaredHandoverTotal must be a finite positive number'')
    | None \<Rightarrow> Inl (Error ''declaredHandoverTotal must be a finite positive number''))"
  using toMinorFromFixed4_eq [unfolded toMinorFromFixed4_def]
  by (auto simp: declaredNumberToMinor_def split: option.split)

text \<open>
  the handover check accepts exactly the declared totals that are finite, positive and,
  rounded to 1/10000 KD, at most one minor unit away from the ledger total; every other
  declaration throws.
\<close>

theorem handover_check_exact:
  "assertDeclaredMatchesLedgerMinor ledgerMinor declared = Inr () \<longleftrightarrow>
     (\<exists>d. declared = Some d \<and> 0 < d \<and> \<bar>ledgerMinor - half_up (d * 10000)\<bar> \<le> 1)"
  by (cases declared)
    (auto simp: assertDeclaredMatchesLedgerMinor_def declared_eq HANDOVER_TOLERANCE_MINOR_def
      Let_def)

lemma sumOrderMinors_aux:
  "foldl (\<lambda>a p. bindE a (\<lambda>s. bindE (toMinorFromFixed4 p) (\<lambda>m. Inr (s + m)))) (Inr s0) rows
     = (Inr (s0 + (\<Sum>p\<leftarrow>rows. half_up (p * 10000))) :: int result)"
  by (induction rows arbitrary: s0) (simp_all add: add.assoc)

lemma sumOrderMinors_eq: "sumOrderMinors rows = Inr (\<Sum>p\<leftarrow>rows. half_up (p * 10000))"
  unfolding sumOrderMinors_def by (subst sumOrderMinors_aux) simp

lemma sumOrderMinors_exact: "sumOrderMinors (map (\<lambda>i. of_int i / 10000) ms) = Inr (sum_list ms)"
  by (simp add: sumOrderMinors_eq comp_def)

lemma half_even_error: "\<bar>of_int (half_even x) - x\<bar> \<le> 1 / 2"
proof -
  have "of_int (floor x) \<le> x" and "x < of_int (floor x) + 1"
    using floor_correct [of x] by simp_all
  then show ?thesis
    unfolding half_even_def Let_def
    by (cases "x - of_int (floor x) < 1 / 2"; cases "1 / 2 < x - of_int (floor x)")
      (simp; intro abs_leI; linarith)+
qed

end
