(* ===== verification/Payment_Methods.thy ===== *)
theory Payment_Methods
  imports Prelude
begin

text \<open>
  The payment vocabulary: the public names of the payment methods and their database values
  (\<open>src/finance/canonical-payment-method.ts\<close>), the cash trail a method leaves on an order
  (\<open>src/common/utils/cash-status-for-method.ts\<close>), and the origin of a payment row, which
  decides whether it reduces the receivable (\<open>src/finance/debt-ledger-payment-origin.util.ts\<close>).
  Case mapping is that of ASCII letters.
\<close>

datatype pos_payment_method =
    SUBSCRIPTION_WALLET | PM_CASH | PM_KNET | PAYMENT_LINK | DEBT_ON_ACCOUNT | PM_ONLINE

datatype canonical_method = C_CASH | C_KNET | C_ONLINE | C_PAYMENT_LINK | C_DEBT_ON_ACCOUNT | C_SUBSCRIPTION

definition CANONICAL_PAYMENT_METHODS :: "canonical_method list" where
  "CANONICAL_PAYMENT_METHODS =
     [C_CASH, C_KNET, C_ONLINE, C_PAYMENT_LINK, C_DEBT_ON_ACCOUNT, C_SUBSCRIPTION]"

fun pos_name :: "pos_payment_method \<Rightarrow> string" where
  "pos_name SUBSCRIPTION_WALLET = ''SUBSCRIPTION_WALLET''"
| "pos_name PM_CASH = ''CASH''"
| "pos_name PM_KNET = ''KNET''"
| "pos_name PAYMENT_LINK = ''PAYMENT_LINK''"
| "pos_name DEBT_ON_ACCOUNT = ''DEBT_ON_ACCOUNT''"
| "pos_name PM_ONLINE = ''ONLINE''"

fun canonical_name :: "canonical_method \<Rightarrow> string" where
  "canonical_name C_CASH = ''CASH''"
| "canonical_name C_KNET = ''KNET''"
| "canonical_name C_ONLINE = ''ONLINE''"
| "canonical_name C_PAYMENT_LINK = ''PAYMENT_LINK''"
| "canonical_name C_DEBT_ON_ACCOUNT = ''DEBT_ON_ACCOUNT''"
| "canonical_name C_SUBSCRIPTION = ''SUBSCRIPTION''"

subsection \<open>Normalisation\<close>

definition upper_char :: "char \<Rightarrow> char" where
  "upper_char c = (let n = (of_char c :: nat) in if 97 \<le> n \<and> n \<le> 122 then char_of (n - 32) else c)"

definition to_upper :: "string \<Rightarrow> string" where
  "to_upper = map upper_char"

definition is_AZ09 :: "char \<Rightarrow> bool" where
  "is_AZ09 c = (let n = (of_char c :: nat) in (65 \<le> n \<and> n \<le> 90) \<or> (48 \<le> n \<and> n \<le> 57))"

text \<open>\<open>replace(/[^A-Z0-9]+/g, '_')\<close>: \<open>inrun\<close> says that the run has its underscore already.\<close>

fun squash :: "bool \<Rightarrow> string \<Rightarrow> string" where
  "squash inrun [] = []"
| "squash inrun (c # s) = (if is_AZ09 c then c # squash False s
     else if inrun then squash True s else CHR ''_'' # squash True s)"

definition is_underscore :: "char \<Rightarrow> bool" where
  "is_underscore c \<longleftrightarrow> c = CHR ''_''"

text \<open>\<open>replace(/^_+|_+$/g, '')\<close>\<close>

definition strip_underscores :: "string \<Rightarrow> string" where
  "strip_underscores s = rev (dropWhile is_underscore (rev (dropWhile is_underscore s)))"

text \<open>\<open>replace(/_+/g, '_')\<close>\<close>

fun collapse_underscores :: "string \<Rightarrow> string" where
  "collapse_underscores [] = []"
| "collapse_underscores (c # s) =
     (if c = CHR ''_'' \<and> s \<noteq> [] \<and> hd s = CHR ''_'' then collapse_underscores s
      else c # collapse_underscores s)"

definition normalizePaymentMethodInput :: "string option \<Rightarrow> string" where
  "normalizePaymentMethodInput raw =
     collapse_underscores (strip_underscores (squash False (to_upper (js_trim (nullish raw [])))))"

definition toDbPosPaymentMethod :: "string option \<Rightarrow> pos_payment_method option" where
  "toDbPosPaymentMethod raw =
     (let s = normalizePaymentMethodInput raw
      in if s = [] then None
         else if s = ''CASH'' then Some PM_CASH
         else if s = ''KNET'' then Some PM_KNET
         else if s = ''ONLINE'' then Some PM_ONLINE
         else if s = ''PAYMENT_LINK'' \<or> s = ''LINK'' \<or> s = ''PAYMENTLINK'' then Some PAYMENT_LINK
         else if s = ''DEBT_ON_ACCOUNT'' \<or> s = ''ON_ACCOUNT'' \<or> s = ''DEBT'' \<or> s = ''CREDIT''
         then Some DEBT_ON_ACCOUNT
         else if s = ''SUBSCRIPTION'' \<or> s = ''SUBSCRIPTION_WALLET'' \<or> s = ''WALLET'' \<or> s = ''PACKAGE''
         then Some SUBSCRIPTION_WALLET
         else None)"

fun as_canonical :: "pos_payment_method \<Rightarrow> canonical_method" where
  "as_canonical SUBSCRIPTION_WALLET = C_SUBSCRIPTION"
| "as_canonical PM_CASH = C_CASH"
| "as_canonical PM_KNET = C_KNET"
| "as_canonical PAYMENT_LINK = C_PAYMENT_LINK"
| "as_canonical DEBT_ON_ACCOUNT = C_DEBT_ON_ACCOUNT"
| "as_canonical PM_ONLINE = C_ONLINE"

definition fromDbPosPaymentMethod :: "string option \<Rightarrow> canonical_method option" where
  "fromDbPosPaymentMethod m =
     (if nullish m [] = [] then None
      else if m = Some ''SUBSCRIPTION_WALLET'' then Some C_SUBSCRIPTION
      else map_option as_canonical (toDbPosPaymentMethod m))"

subsection \<open>The cash trail\<close>

datatype cash_status = UNPAID | PAID_TO_DRIVER | PAID_ONLINE | HANDED_OVER_TO_OFFICE

definition cashStatusForPaymentMethod :: "pos_payment_method option \<Rightarrow> cash_status" where
  "cashStatusForPaymentMethod m = (case m of
       Some PM_KNET \<Rightarrow> PAID_ONLINE
     | Some PAYMENT_LINK \<Rightarrow> PAID_ONLINE
     | Some PM_ONLINE \<Rightarrow> PAID_ONLINE
     | Some SUBSCRIPTION_WALLET \<Rightarrow> PAID_ONLINE
     | _ \<Rightarrow> PAID_TO_DRIVER)"

definition isElectronicMethod :: "pos_payment_method option \<Rightarrow> bool" where
  "isElectronicMethod m \<longleftrightarrow> m = Some PM_KNET \<or> m = Some PAYMENT_LINK \<or> m = Some PM_ONLINE
     \<or> m = Some SUBSCRIPTION_WALLET"

subsection \<open>The origin of a payment row\<close>

definition REAL_PAYMENT_SOURCE_REF_PREFIXES :: "string list" where
  "REAL_PAYMENT_SOURCE_REF_PREFIXES =
     [''PAYMENT:CASH:'', ''PAYMENT:KNET:'', ''PAYMENT:ONLINE:'', ''PAYMENT:PAYMENT_LINK:'',
      ''PAYMENT:CALL_CENTER_MANUAL:'', ''PAYMENT:PAYMENT_LINK_CALLBACK:'',
      ''PAYMENT:SUBSCRIPTION_ACTIVATION:'', ''PAYMENT:CC_DEBT_INVOICE_PHYSICAL:'',
      ''PAYMENT:CC_PARTIAL_DEBT_PAYMENT:'']"

definition WALLET_ABSORPTION_SOURCE_REF_PREFIXES :: "string list" where
  "WALLET_ABSORPTION_SOURCE_REF_PREFIXES = [''PAYMENT:WALLET:'', ''PAYMENT:WALLET:BACKFILL:'']"

definition ALLOWED_PAYMENT_SOURCE_REF_PREFIXES :: "string list" where
  "ALLOWED_PAYMENT_SOURCE_REF_PREFIXES =
     REAL_PAYMENT_SOURCE_REF_PREFIXES @ WALLET_ABSORPTION_SOURCE_REF_PREFIXES"

definition NON_MONEY_SOURCE_REF_PREFIXES :: "string list" where
  "NON_MONEY_SOURCE_REF_PREFIXES = [''ADJUSTMENT:'', ''REFUND:'', ''WRITE_OFF:'', ''TRANSFER:'', ''MIGRATION:'']"

definition NON_MONEY_NOTE_PATTERNS :: "string list" where
  "NON_MONEY_NOTE_PATTERNS =
     [''reversed by invoice void'', ''invoice void'', ''invoice edit'', ''write-off'', ''migration'']"

record debt_payment =
  dp_source :: string
  dp_amount :: decimal
  dp_actorUserId :: "uuid option"
  dp_sourceRef :: "string option"
  dp_note :: "string option"

definition isRealDebtLedgerPayment :: "debt_payment \<Rightarrow> bool" where
  "isRealDebtLedgerPayment entry =
     (if dp_source entry \<noteq> ''PAYMENT'' then False
      else if dp_amount entry \<le> 0 then False
      else
        let sourceRef = js_trim (nullish (dp_sourceRef entry) [])
        in if list_ex (starts_with sourceRef) NON_MONEY_SOURCE_REF_PREFIXES then False
           else if sourceRef \<noteq> [] \<and> list_ex (starts_with sourceRef) WALLET_ABSORPTION_SOURCE_REF_PREFIXES
           then False
           else if sourceRef \<noteq> [] \<and> list_ex (starts_with sourceRef) REAL_PAYMENT_SOURCE_REF_PREFIXES
           then True
           else if nullish (dp_actorUserId entry) [] = [] then False
           else
             let note = to_lower (nullish (dp_note entry) [])
             in \<not> list_ex (str_includes note) NON_MONEY_NOTE_PATTERNS)"

definition isWalletAbsorptionLedgerEntry :: "debt_payment \<Rightarrow> bool" where
  "isWalletAbsorptionLedgerEntry entry =
     (if dp_source entry \<noteq> ''PAYMENT'' then False
      else
        let ref = js_trim (nullish (dp_sourceRef entry) [])
        in if ref = [] then False
           else list_ex (starts_with ref) WALLET_ABSORPTION_SOURCE_REF_PREFIXES)"

definition assertDebtLedgerPaymentWrite :: "debt_payment \<Rightarrow> unit result" where
  "assertDebtLedgerPaymentWrite inp =
     (if dp_source inp \<noteq> ''PAYMENT'' then Inr ()
      else if js_trim (nullish (dp_sourceRef inp) []) = [] then Inl (Error ''PAYMENT_ORIGIN_REQUIRED'')
      else if nullish (dp_actorUserId inp) [] = [] then Inl (Error ''PAYMENT_ACTOR_REQUIRED'')
      else if \<not> list_ex (starts_with (nullish (dp_sourceRef inp) [])) ALLOWED_PAYMENT_SOURCE_REF_PREFIXES
      then Inl (Error ''INVALID_PAYMENT_SOURCE'')
      else Inr ())"

subsection \<open>Names\<close>

text \<open>
  The database value and the public name of a method determine each other. Both spellings
  of a database value are read back as that value, and its public name is the one the list of
  canonical methods contains, so no method is lost or renamed on the way out and back in.
\<close>

theorem payment_method_roundtrip:
  "toDbPosPaymentMethod (Some (pos_name m)) = Some m
   \<and> toDbPosPaymentMethod (Some (canonical_name (as_canonical m))) = Some m
   \<and> fromDbPosPaymentMethod (Some (pos_name m)) = Some (as_canonical m)
   \<and> as_canonical m \<in> set CANONICAL_PAYMENT_METHODS"
  by (cases m; simp only:; code_simp)

text \<open>A normal form: letters and digits with single underscores between them.\<close>

definition single_underscores :: "string \<Rightarrow> bool" where
  "single_underscores s \<longleftrightarrow> list_all (\<lambda>c. is_AZ09 c \<or> c = CHR ''_'') s
     \<and> successively (\<lambda>a b. \<not> (a = CHR ''_'' \<and> b = CHR ''_'')) s"

definition normal_name :: "string \<Rightarrow> bool" where
  "normal_name s \<longleftrightarrow> single_underscores s \<and> (s \<noteq> [] \<longrightarrow> hd s \<noteq> CHR ''_'' \<and> last s \<noteq> CHR ''_'')"

lemma is_AZ09_not_underscore: "is_AZ09 c \<Longrightarrow> c \<noteq> CHR ''_''"
  by (auto simp: is_AZ09_def)

lemma squash_single: "single_underscores (squash b s) \<and> (b \<longrightarrow> squash b s = [] \<or> hd (squash b s) \<noteq> CHR ''_'')"
proof (induction b s rule: squash.induct)
  case (1 b)
  then show ?case by (simp add: single_underscores_def)
next
  case (2 b c s)
  show ?case
  proof (cases "is_AZ09 c")
    case True
    with 2 show ?thesis
      by (auto simp: single_underscores_def successively_Cons dest: is_AZ09_not_underscore)
  next
    case False
    with 2 show ?thesis
      by (auto simp: single_underscores_def successively_Cons)
  qed
qed

lemma single_dropWhile: "single_underscores s \<Longrightarrow> single_underscores (dropWhile P s)"
  unfolding single_underscores_def
  by (metis (mono_tags, lifting) list_all_append successively_append_iff takeWhile_dropWhile_id)

lemma single_rev: "single_underscores s \<Longrightarrow> single_underscores (rev s)"
  by (auto simp: single_underscores_def list_all_rev successively_rev elim: successively_mono)

lemma normal_strip:
  assumes "single_underscores s"
  shows "normal_name (strip_underscores s)"
proof -
  let ?t = "dropWhile is_underscore s"
  have t: "single_underscores ?t" by (rule single_dropWhile [OF assms])
  have hd_t: "hd ?t \<noteq> CHR ''_''" if "?t \<noteq> []"
    using hd_dropWhile [OF that] by (simp add: is_underscore_def)
  let ?u = "strip_underscores s"
  have u: "single_underscores ?u"
    unfolding strip_underscores_def by (intro single_rev single_dropWhile t)
  have pre: "\<exists>v. ?t = ?u @ v"
    unfolding strip_underscores_def by (metis rev_append rev_rev_ident takeWhile_dropWhile_id)
  have hd_u: "hd ?u \<noteq> CHR ''_''" if "?u \<noteq> []"
  proof -
    obtain v where "?t = ?u @ v" using pre by blast
    with that have "?t \<noteq> []" "hd ?t = hd ?u" by (metis append_is_Nil_conv, metis hd_append2)
    then show ?thesis using hd_t by metis
  qed
  have "last ?u \<noteq> CHR ''_''" if "?u \<noteq> []"
  proof -
    have "dropWhile is_underscore (rev ?t) \<noteq> []" using that by (simp add: strip_underscores_def)
    from hd_dropWhile [OF this] show ?thesis
      by (simp add: strip_underscores_def last_rev is_underscore_def)
  qed
  with u hd_u show ?thesis by (simp add: normal_name_def)
qed

lemma collapse_single: "single_underscores s \<Longrightarrow> collapse_underscores s = s"
  by (induction s) (auto simp: single_underscores_def successively_Cons)

lemma squash_normal: "single_underscores s \<Longrightarrow> squash False s = s \<and> (s = [] \<or> hd s \<noteq> CHR ''_'' \<longrightarrow> squash True s = s)"
proof (induction s)
  case Nil
  then show ?case by simp
next
  case (Cons c s)
  then show ?case
    by (auto simp: single_underscores_def successively_Cons dest: is_AZ09_not_underscore)
qed

lemma strip_normal: "normal_name s \<Longrightarrow> strip_underscores s = s"
proof -
  assume n: "normal_name s"
  show ?thesis
  proof (cases "s = []")
    case True
    then show ?thesis by (simp add: strip_underscores_def)
  next
    case False
    with n have "dropWhile is_underscore s = s"
      by (cases s) (simp_all add: normal_name_def is_underscore_def)
    moreover from False n have "dropWhile is_underscore (rev s) = rev s"
      by (cases "rev s") (auto simp: normal_name_def is_underscore_def last_rev hd_rev dest!: arg_cong [where f = rev])
    ultimately show ?thesis by (simp add: strip_underscores_def)
  qed
qed

lemma AZ09_fixed: "is_AZ09 c \<or> c = CHR ''_'' \<Longrightarrow> upper_char c = c \<and> \<not> is_ws c"
  by (auto simp: is_AZ09_def upper_char_def is_ws_def Let_def)

lemma upper_trim_normal:
  assumes "normal_name s"
  shows "to_upper (js_trim s) = s"
proof -
  have "list_all (\<lambda>c. upper_char c = c \<and> \<not> is_ws c) s"
    using assms AZ09_fixed by (auto simp: normal_name_def single_underscores_def list_all_iff)
  then have up: "map upper_char s = s" and ws: "\<forall>c\<in>set s. \<not> is_ws c"
    by (auto simp: list_all_iff intro: map_idI)
  have dw: "dropWhile is_ws t = t" if "\<forall>c\<in>set t. \<not> is_ws c" for t
    using that by (cases t) auto
  have "js_trim s = s" using dw [OF ws] dw [of "rev s"] ws by (simp add: js_trim_def)
  then show ?thesis using up by (simp add: to_upper_def)
qed

lemma normalize_normal: "normal_name (normalizePaymentMethodInput raw)"
  unfolding normalizePaymentMethodInput_def
  using normal_strip collapse_single squash_single normal_name_def by metis

lemma normalize_fixed: "normal_name s \<Longrightarrow> normalizePaymentMethodInput (Some s) = s"
  by (simp add: normalizePaymentMethodInput_def upper_trim_normal strip_normal collapse_single
      squash_normal normal_name_def)

text \<open>
  The normalisation of a method name is idempotent and its result is a normal form, upper
  case letters and digits with single underscores between them, so two spellings that
  normalise alike (case, spaces, hyphens, repeated separators) name the same method.
\<close>

theorem normalize_idempotent:
  "normalizePaymentMethodInput (Some (normalizePaymentMethodInput raw)) = normalizePaymentMethodInput raw
   \<and> normal_name (normalizePaymentMethodInput raw)
   \<and> toDbPosPaymentMethod (Some (normalizePaymentMethodInput raw)) = toDbPosPaymentMethod raw"
  by (simp add: toDbPosPaymentMethod_def normalize_fixed normalize_normal)

text \<open>
  A method leaves cash with the driver exactly when it is not electronic: the mapper of the
  cash trail and the predicate of the reports agree on every method and on a missing one.
\<close>

theorem cash_trail_agrees:
  "cashStatusForPaymentMethod m = (if isElectronicMethod m then PAID_ONLINE else PAID_TO_DRIVER)"
  by (cases m; cases "the m") (simp_all add: cashStatusForPaymentMethod_def isElectronicMethod_def)

subsection \<open>Classification of payments\<close>

lemma dropWhile_ws_append:
  "p \<noteq> [] \<Longrightarrow> \<not> is_ws (last p) \<Longrightarrow> dropWhile is_ws (rev (p @ t)) = dropWhile is_ws (rev t) @ rev p"
  by (induction t rule: rev_induct) (auto simp: hd_rev, metis dropWhile.simps(2) hd_rev list.collapse rev_is_Nil_conv)

lemma js_trim_prefix:
  assumes "p \<noteq> []" "\<not> is_ws (hd p)" "\<not> is_ws (last p)"
  shows "\<exists>t'. js_trim (p @ t) = p @ t'"
proof -
  have "dropWhile is_ws (p @ t) = p @ t" using assms(1,2) by (cases p) simp_all
  then have "js_trim (p @ t) = p @ rev (dropWhile is_ws (rev t))"
    using dropWhile_ws_append [OF assms(1,3), of t] by (simp add: js_trim_def)
  then show ?thesis by blast
qed

lemma allowed_prefix_trim:
  assumes "p \<in> set ALLOWED_PAYMENT_SOURCE_REF_PREFIXES" and "starts_with s p"
  shows "starts_with (js_trim s) p"
proof -
  obtain t where s: "s = p @ t" using assms(2) by (auto simp: starts_with_iff)
  have "list_all (\<lambda>p. p \<noteq> [] \<and> \<not> is_ws (hd p) \<and> \<not> is_ws (last p)) ALLOWED_PAYMENT_SOURCE_REF_PREFIXES"
    by code_simp
  with assms(1) have "p \<noteq> []" "\<not> is_ws (hd p)" "\<not> is_ws (last p)" by (auto simp: list_all_iff)
  from js_trim_prefix [OF this, of t] s show ?thesis by (auto simp: starts_with_iff)
qed

lemma starts_with_two: "starts_with s p \<Longrightarrow> starts_with s q \<Longrightarrow> starts_with p q \<or> starts_with q p"
  by (auto simp: starts_with_iff append_eq_append_conv2)

lemma prefixes_apart:
  assumes "list_all (\<lambda>p. list_all (\<lambda>q. \<not> starts_with p q \<and> \<not> starts_with q p) qs) ps"
    and "list_ex (starts_with s) ps" and "list_ex (starts_with s) qs"
  shows False
  using assms starts_with_two by (fastforce simp: list_all_iff list_ex_iff)

lemma ref_prefixes_apart:
  "list_ex (starts_with s) REAL_PAYMENT_SOURCE_REF_PREFIXES \<Longrightarrow> \<not> list_ex (starts_with s) WALLET_ABSORPTION_SOURCE_REF_PREFIXES"
  "list_ex (starts_with s) ALLOWED_PAYMENT_SOURCE_REF_PREFIXES \<Longrightarrow> \<not> list_ex (starts_with s) NON_MONEY_SOURCE_REF_PREFIXES"
proof -
  have "list_all (\<lambda>p. list_all (\<lambda>q. \<not> starts_with p q \<and> \<not> starts_with q p)
      WALLET_ABSORPTION_SOURCE_REF_PREFIXES) REAL_PAYMENT_SOURCE_REF_PREFIXES" by code_simp
  from prefixes_apart [OF this, of s]
  show "list_ex (starts_with s) REAL_PAYMENT_SOURCE_REF_PREFIXES \<Longrightarrow>
      \<not> list_ex (starts_with s) WALLET_ABSORPTION_SOURCE_REF_PREFIXES" by blast
  have "list_all (\<lambda>p. list_all (\<lambda>q. \<not> starts_with p q \<and> \<not> starts_with q p)
      NON_MONEY_SOURCE_REF_PREFIXES) ALLOWED_PAYMENT_SOURCE_REF_PREFIXES" by code_simp
  from prefixes_apart [OF this, of s]
  show "list_ex (starts_with s) ALLOWED_PAYMENT_SOURCE_REF_PREFIXES \<Longrightarrow>
      \<not> list_ex (starts_with s) NON_MONEY_SOURCE_REF_PREFIXES" by blast
qed

text \<open>
  a payment that passes the check at the write site is classified the same way by every
  report. With a positive amount it is either a real payment, which reduces the receivable, or
  an absorption from the wallet, which does not, and never both; the note and the actor play
  no part in it. The check looks at the reference as given, the reports at the trimmed one.
\<close>

theorem accepted_payment_classified:
  assumes "assertDebtLedgerPaymentWrite e = Inr ()" and "dp_source e = ''PAYMENT''" and "0 < dp_amount e"
  shows "isRealDebtLedgerPayment e \<longleftrightarrow> \<not> isWalletAbsorptionLedgerEntry e"
proof -
  define ref where "ref = js_trim (nullish (dp_sourceRef e) [])"
  from assms have ne: "ref \<noteq> []"
    and "list_ex (starts_with (nullish (dp_sourceRef e) [])) ALLOWED_PAYMENT_SOURCE_REF_PREFIXES"
    by (auto simp: assertDebtLedgerPaymentWrite_def ref_def split: if_splits)
  then have al: "list_ex (starts_with ref) ALLOWED_PAYMENT_SOURCE_REF_PREFIXES"
    using allowed_prefix_trim by (auto simp: list_ex_iff ref_def)
  then have "\<not> list_ex (starts_with ref) NON_MONEY_SOURCE_REF_PREFIXES" by (rule ref_prefixes_apart)
  moreover have "list_ex (starts_with ref) REAL_PAYMENT_SOURCE_REF_PREFIXES
      \<longleftrightarrow> \<not> list_ex (starts_with ref) WALLET_ABSORPTION_SOURCE_REF_PREFIXES"
    using al ref_prefixes_apart(1) [of ref]
    by (auto simp: ALLOWED_PAYMENT_SOURCE_REF_PREFIXES_def)
  ultimately show ?thesis using assms(2,3) ne
    by (simp add: isRealDebtLedgerPayment_def isWalletAbsorptionLedgerEntry_def Let_def ref_def [symmetric])
qed

theorem accepted_payment_classified_witness:
  "isRealDebtLedgerPayment \<lparr>dp_source = ''PAYMENT'', dp_amount = 3, dp_actorUserId = Some ''u'',
     dp_sourceRef = Some ''PAYMENT:KNET:7 '', dp_note = Some ''invoice void''\<rparr>"
  (is "isRealDebtLedgerPayment ?e")
proof -
  have "assertDebtLedgerPaymentWrite ?e = Inr ()" "\<not> isWalletAbsorptionLedgerEntry ?e" by code_simp+
  then show ?thesis using accepted_payment_classified [of ?e] by simp
qed

end
