(* ===== verification/Journal_Reads.thy ===== *)
theory Journal_Reads
  imports Journal_Effects Money Payment_Methods
begin

text \<open>
  The readers of the journal: the balance queries and statements of
  \<open>src/general-ledger/double-entry-journal.service.ts\<close>, the column aggregation of
  \<open>double-entry-journal.helpers.ts\<close> and the read switch and snapshots of
  \<open>journal-source.service.ts\<close>. A query result is the list of its rows; the texts the
  statements add to a row (Arabic descriptions, plan names, channel labels) are not modelled.
  \<open>decimal_of_fixed4\<close> is \<open>new Prisma.Decimal(s)\<close> on a string that \<open>toFixed(4)\<close> printed.
\<close>

subsection \<open>Balances\<close>

definition clamp0 :: "decimal \<Rightarrow> decimal" where
  "clamp0 balance = (if balance < 0 then 0 else balance)"

definition add_line :: "decimal \<Rightarrow> journal_line \<Rightarrow> decimal" where
  "add_line acc l = acc + jl_debit l - jl_credit l"

text \<open>\<open>journalLine.findMany({ where: { entry: \<dots>, account: { code } } })\<close>\<close>

definition find_lines :: "'z journal_db_scheme \<Rightarrow> (journal_entry \<Rightarrow> bool) \<Rightarrow> string \<Rightarrow>
    (journal_entry \<times> journal_line) list" where
  "find_lines db P code = concat (map (\<lambda>e. map (Pair e) (filter (line_on db code) (je_lines e)))
     (filter P (journalEntries db)))"

definition getOrderArBalance :: "'z journal_db_scheme \<Rightarrow> uuid \<Rightarrow> decimal" where
  "getOrderArBalance db orderId =
     clamp0 (foldl add_line 0 (map snd (find_lines db (\<lambda>e. je_orderId e = Some orderId) ACCOUNTS_RECEIVABLE)))"

definition getCustomerBalanceFromJournal :: "'z journal_db_scheme \<Rightarrow> uuid \<Rightarrow> decimal" where
  "getCustomerBalanceFromJournal db c =
     clamp0 (foldl add_line 0 (map snd (find_lines db (\<lambda>e. je_customerId e = Some c) ACCOUNTS_RECEIVABLE)))"

text \<open>The grouping loop shared by the two batch readers: rows without a customer are skipped.\<close>

definition group_lines :: "(uuid \<rightharpoonup> decimal) \<Rightarrow> (journal_entry \<times> journal_line) list \<Rightarrow> (uuid \<rightharpoonup> decimal)" where
  "group_lines = foldl (\<lambda>m (e, l). case je_customerId e of
       None \<Rightarrow> m
     | Some cid \<Rightarrow> if cid = [] then m else m(cid \<mapsto> add_line (nullish (m cid) 0) l))"

definition clamp_map :: "(uuid \<rightharpoonup> decimal) \<Rightarrow> (uuid \<rightharpoonup> decimal)" where
  "clamp_map m = (\<lambda>c. map_option clamp0 (m c))"

definition fill_zero :: "uuid list \<Rightarrow> (uuid \<rightharpoonup> decimal) \<Rightarrow> (uuid \<rightharpoonup> decimal)" where
  "fill_zero ids m = foldl (\<lambda>m cid. if m cid = None then m(cid \<mapsto> 0) else m) m ids"

definition getCustomerBalancesBatch :: "'z journal_db_scheme \<Rightarrow> uuid list \<Rightarrow> (uuid \<rightharpoonup> decimal)" where
  "getCustomerBalancesBatch db customerIds =
     (if customerIds = [] then Map.empty
      else fill_zero customerIds (clamp_map (group_lines Map.empty
        (find_lines db (\<lambda>e. \<exists>c\<in>set customerIds. je_customerId e = Some c) ACCOUNTS_RECEIVABLE))))"

definition logCustomerDrift_warns :: "'z journal_db_scheme \<Rightarrow> uuid \<Rightarrow> decimal \<Rightarrow> bool" where
  "logCustomerDrift_warns db c ledgerBalance \<longleftrightarrow>
     \<bar>ledgerBalance - getCustomerBalanceFromJournal db c\<bar> > 1 / 1000"

subsection \<open>The journal as the source (journal-source.service.ts)\<close>

definition flag_on :: "string option \<Rightarrow> bool" where
  "flag_on v = (to_lower (js_trim (nullish v [])) \<in> {''true'', ''1'', ''on'', ''yes''})"

definition isJournalAsSourceEnabled :: "env \<Rightarrow> bool" where
  "isJournalAsSourceEnabled env =
     (if flag_on (V20_4_FINAL_LEDGER env) then True else flag_on (USE_JOURNAL_AS_SOURCE env))"

record ar_snapshot =
  arBalanceKd :: decimal
  walletLiabilityKd :: decimal
  revenueRecognisedKd :: decimal

definition snapshot_step :: "'z journal_db_scheme \<Rightarrow> ar_snapshot \<Rightarrow> journal_line \<Rightarrow> ar_snapshot" where
  "snapshot_step db s l =
     (if line_on db ACCOUNTS_RECEIVABLE l then s\<lparr>arBalanceKd := arBalanceKd s + jl_debit l - jl_credit l\<rparr>
      else if line_on db WALLET_LIABILITY l
      then s\<lparr>walletLiabilityKd := walletLiabilityKd s + jl_credit l - jl_debit l\<rparr>
      else if line_on db REVENUE l
      then s\<lparr>revenueRecognisedKd := revenueRecognisedKd s + jl_credit l - jl_debit l\<rparr>
      else s)"

definition customer_lines :: "'z journal_db_scheme \<Rightarrow> uuid \<Rightarrow> journal_line list" where
  "customer_lines db c = concat (map je_lines (filter (\<lambda>e. je_customerId e = Some c) (journalEntries db)))"

definition getCustomerArSnapshot :: "'z journal_db_scheme \<Rightarrow> uuid \<Rightarrow> ar_snapshot" where
  "getCustomerArSnapshot db c =
     foldl (snapshot_step db) \<lparr>arBalanceKd = 0, walletLiabilityKd = 0, revenueRecognisedKd = 0\<rparr>
       (customer_lines db c)"

definition getCustomerOutstandingFromJournal :: "'z journal_db_scheme \<Rightarrow> uuid \<Rightarrow> decimal" where
  "getCustomerOutstandingFromJournal db c = clamp0 (arBalanceKd (getCustomerArSnapshot db c))"

definition getCustomerDebtFromJournalAR :: "'z journal_db_scheme \<Rightarrow> uuid \<Rightarrow> decimal" where
  "getCustomerDebtFromJournalAR db c = getCustomerOutstandingFromJournal db c"

definition getCustomerDebtFromJournalARBatch :: "'z journal_db_scheme \<Rightarrow> uuid list \<Rightarrow> (uuid \<rightharpoonup> decimal)" where
  "getCustomerDebtFromJournalARBatch db customerIds =
     (let ids = remdups (filter (\<lambda>i. js_trim i \<noteq> []) customerIds);
          out = foldl (\<lambda>m i. m(i \<mapsto> 0)) Map.empty ids
      in if ids = [] then out
         else clamp_map (group_lines out
           (find_lines db (\<lambda>e. \<exists>c\<in>set ids. je_customerId e = Some c) ACCOUNTS_RECEIVABLE)))"

subsection \<open>Statements\<close>

record statement_row =
  sr_entryId :: uuid
  sr_date :: timestamp
  sr_debit :: string
  sr_credit :: string
  sr_balance :: string

text \<open>The \<open>lines.map\<close> with the running \<open>balance\<close> it updates.\<close>

fun statement_rows :: "decimal \<Rightarrow> (journal_entry \<times> journal_line) list \<Rightarrow> decimal \<times> statement_row list" where
  "statement_rows balance [] = (balance, [])"
| "statement_rows balance ((e, l) # ls) =
     (let b = add_line balance l;
          row = \<lparr>sr_entryId = je_id e, sr_date = je_createdAt e, sr_debit = to_fixed4 (jl_debit l),
            sr_credit = to_fixed4 (jl_credit l), sr_balance = to_fixed4 b\<rparr>;
          (final, rows) = statement_rows b ls
      in (final, row # rows))"

definition by_creation :: "journal_entry list \<Rightarrow> journal_entry list" where
  "by_creation = sort_key je_createdAt"

definition getCustomerStatement :: "'z journal_db_scheme \<Rightarrow> uuid \<Rightarrow> string \<times> statement_row list" where
  "getCustomerStatement db c =
     (let lines = concat (map (\<lambda>e. map (Pair e) (filter (line_on db ACCOUNTS_RECEIVABLE) (je_lines e)))
            (by_creation (filter (\<lambda>e. je_customerId e = Some c) (journalEntries db))));
          (balance, rows) = statement_rows 0 lines
      in (to_fixed4 balance, rows))"

record bank_columns =
  customerPaid :: decimal
  companySupport :: decimal
  debtGoodwillDiscount :: decimal
  walletCredit :: decimal
  walletDebit :: decimal
  arDebit :: decimal
  arCredit :: decimal

definition BANK_STATEMENT_PAY_IN_CODES :: "string list" where
  "BANK_STATEMENT_PAY_IN_CODES = [CASH, BANK_KNET, BANK_ONLINE]"

definition columns_step :: "'z journal_db_scheme \<Rightarrow> bank_columns \<Rightarrow> journal_line \<Rightarrow> bank_columns" where
  "columns_step db s l =
     (let s1 = (if list_ex (\<lambda>c. line_on db c l) BANK_STATEMENT_PAY_IN_CODES
            then s\<lparr>customerPaid := customerPaid s + jl_debit l\<rparr> else s);
          s2 = (if line_on db PROMOTIONAL_EXPENSE l
            then s1\<lparr>companySupport := companySupport s1 + jl_debit l\<rparr> else s1);
          s3 = (if line_on db DEBT_DISCOUNTS l
            then s2\<lparr>debtGoodwillDiscount := debtGoodwillDiscount s2 + jl_debit l\<rparr> else s2);
          s4 = (if line_on db WALLET_LIABILITY l
            then s3\<lparr>walletDebit := walletDebit s3 + jl_debit l, walletCredit := walletCredit s3 + jl_credit l\<rparr>
            else s3)
      in if line_on db ACCOUNTS_RECEIVABLE l
         then s4\<lparr>arDebit := arDebit s4 + jl_debit l, arCredit := arCredit s4 + jl_credit l\<rparr> else s4)"

definition zero_columns :: bank_columns where
  "zero_columns = \<lparr>customerPaid = 0, companySupport = 0, debtGoodwillDiscount = 0,
     walletCredit = 0, walletDebit = 0, arDebit = 0, arCredit = 0\<rparr>"

record bank_row =
  br_entryId :: uuid
  br_date :: timestamp
  customerPaidKd :: string
  companySupportKd :: string
  debtGoodwillDiscountKd :: string
  walletCreditKd :: string
  walletDebitKd :: string
  arDebitKd :: string
  arCreditKd :: string
  br_arBalanceKd :: string

definition aggregateJournalEntryForBankColumns :: "'z journal_db_scheme \<Rightarrow> journal_entry \<Rightarrow> bank_row" where
  "aggregateJournalEntryForBankColumns db e =
     (let s = foldl (columns_step db) zero_columns (je_lines e)
      in \<lparr>br_entryId = je_id e, br_date = je_createdAt e,
          customerPaidKd = to_fixed4 (customerPaid s), companySupportKd = to_fixed4 (companySupport s),
          debtGoodwillDiscountKd = to_fixed4 (debtGoodwillDiscount s),
          walletCreditKd = to_fixed4 (walletCredit s), walletDebitKd = to_fixed4 (walletDebit s),
          arDebitKd = to_fixed4 (arDebit s), arCreditKd = to_fixed4 (arCredit s), br_arBalanceKd = []\<rparr>)"

definition decimal_of_fixed4 :: "string \<Rightarrow> decimal" where
  "decimal_of_fixed4 s = (case parseFixed4ToMinor s of Inr m \<Rightarrow> of_int m / 10000 | Inl _ \<Rightarrow> 0)"

fun bank_rows :: "'z journal_db_scheme \<Rightarrow> decimal \<Rightarrow> journal_entry list \<Rightarrow> decimal \<times> bank_row list" where
  "bank_rows db arRunning [] = (arRunning, [])"
| "bank_rows db arRunning (e # es) =
     (let agg = aggregateJournalEntryForBankColumns db e;
          b = arRunning + decimal_of_fixed4 (arDebitKd agg) - decimal_of_fixed4 (arCreditKd agg);
          (final, rows) = bank_rows db b es
      in (final, agg\<lparr>br_arBalanceKd := to_fixed4 b\<rparr> # rows))"

definition getCustomerCallCenterBankStatement :: "'z journal_db_scheme \<Rightarrow> uuid \<Rightarrow> string \<times> bank_row list" where
  "getCustomerCallCenterBankStatement db c =
     (let entries = by_creation (filter (\<lambda>e. je_customerId e = Some c) (journalEntries db));
          (arRunning, rows) = bank_rows db 0 entries
      in (to_fixed4 arRunning, rows))"

subsection \<open>The full entries of a customer\<close>

definition add_source :: "string \<Rightarrow> string list \<Rightarrow> string list" where
  "add_source s ss = (if s \<in> set ss then ss else ss @ [s])"

definition paymentMethodsToSources :: "pos_payment_method list \<Rightarrow> string list" where
  "paymentMethodsToSources methods = foldl (\<lambda>s m.
     let s1 = (if m \<in> {PM_CASH, PM_KNET, PM_ONLINE, PAYMENT_LINK}
               then add_source ''PROCESS_TRANSACTION'' (add_source ''PAYMENT'' s) else s);
         s2 = (if m = SUBSCRIPTION_WALLET
               then add_source ''PROCESS_TRANSACTION'' (add_source ''WALLET_FUNDING'' s1) else s1)
     in if m = DEBT_ON_ACCOUNT then add_source ''INVOICE'' s2 else s2) [] methods"

record entry_filters =
  ef_paymentMethods :: "pos_payment_method list"
  ef_dateFrom :: "timestamp option"
  ef_dateTo :: "timestamp option"

record order_method =
  om_id :: uuid
  om_customerId :: "uuid option"
  om_posPaymentMethod :: "pos_payment_method option"

record entry_view =
  ev_entryId :: uuid
  ev_source :: string
  ev_sourceRef :: string
  ev_posPaymentMethod :: "pos_payment_method option"
  ev_createdAt :: timestamp
  ev_totalDebitKd :: string
  ev_totalCreditKd :: string
  ev_balanced :: bool
  ev_lines :: "(string option \<times> string \<times> string) list"

definition entry_selected :: "order_method list \<Rightarrow> uuid \<Rightarrow> entry_filters \<Rightarrow> journal_entry \<Rightarrow> bool" where
  "entry_selected orders c f e \<longleftrightarrow> je_customerId e = Some c
     \<and> (case ef_dateFrom f of None \<Rightarrow> True | Some t \<Rightarrow> t \<le> je_createdAt e)
     \<and> (case ef_dateTo f of None \<Rightarrow> True | Some t \<Rightarrow> je_createdAt e \<le> t)
     \<and> (ef_paymentMethods f = [] \<or>
         (let ids = map om_id (filter (\<lambda>r. om_customerId r = Some c
                \<and> (\<exists>m\<in>set (ef_paymentMethods f). om_posPaymentMethod r = Some m)) orders)
          in case je_orderId e of
               Some i \<Rightarrow> i \<in> set ids
             | None \<Rightarrow> je_source e \<in> set (paymentMethodsToSources (ef_paymentMethods f))))"

definition entry_view_of :: "'z journal_db_scheme \<Rightarrow> order_method list \<Rightarrow> journal_entry \<Rightarrow> entry_view" where
  "entry_view_of db orders e =
     (let (totalDebit, totalCredit) =
            foldl (\<lambda>(d, c) l. (d + jl_debit l, c + jl_credit l)) (0, 0) (je_lines e)
      in \<lparr>ev_entryId = je_id e, ev_source = je_source e, ev_sourceRef = je_sourceRef e,
          ev_posPaymentMethod = (case je_orderId e of None \<Rightarrow> None
            | Some i \<Rightarrow> if i = [] then None
                else (case find (\<lambda>r. om_id r = i) orders of None \<Rightarrow> None | Some r \<Rightarrow> om_posPaymentMethod r)),
          ev_createdAt = je_createdAt e,
          ev_totalDebitKd = to_fixed4 totalDebit, ev_totalCreditKd = to_fixed4 totalCredit,
          ev_balanced = (\<bar>totalDebit - totalCredit\<bar> \<le> 1 / 1000),
          ev_lines = map (\<lambda>l. (code_of_account db (jl_accountId l), to_fixed4 (jl_debit l),
            to_fixed4 (jl_credit l))) (je_lines e)\<rparr>)"

definition getCustomerJournalEntries :: "'z journal_db_scheme \<Rightarrow> order_method list \<Rightarrow> uuid \<Rightarrow>
    entry_filters \<Rightarrow> entry_view list" where
  "getCustomerJournalEntries db orders c f =
     map (entry_view_of db orders) (by_creation (filter (entry_selected orders c f) (journalEntries db)))"

subsection \<open>All readers report one balance\<close>

lemma foldl_add_line: "foldl add_line b ls = b + (\<Sum>l\<leftarrow>ls. line_amount l)"
  by (induction ls arbitrary: b) (simp_all add: add_line_def line_amount_def)

lemma find_lines_sum:
  "(\<Sum>x\<leftarrow>find_lines db P code. line_amount (snd x)) =
     (\<Sum>e\<leftarrow>filter P (journalEntries db). \<Sum>l\<leftarrow>filter (line_on db code) (je_lines e). line_amount l)"
proof -
  have "(\<Sum>x\<leftarrow>concat (map (\<lambda>e. map (Pair e) (filter (line_on db code) (je_lines e))) es). line_amount (snd x))
    = (\<Sum>e\<leftarrow>es. \<Sum>l\<leftarrow>filter (line_on db code) (je_lines e). line_amount l)" for es
    by (induction es) (simp_all add: comp_def)
  then show ?thesis by (simp add: find_lines_def)
qed

lemma balance_from_journal: "getCustomerBalanceFromJournal db c = clamp0 (account_balance db c ACCOUNTS_RECEIVABLE)"
  by (simp add: getCustomerBalanceFromJournal_def foldl_add_line comp_def find_lines_sum account_balance_def)

lemma snapshot_ar:
  "arBalanceKd (foldl (snapshot_step db) s ls) = arBalanceKd s
     + (\<Sum>l\<leftarrow>filter (line_on db ACCOUNTS_RECEIVABLE) ls. line_amount l)"
  by (induction ls arbitrary: s) (simp_all add: snapshot_step_def line_amount_def)

lemma line_on_one: "line_on db c l \<Longrightarrow> line_on db d l \<Longrightarrow> c = d"
  by (simp add: line_on_def)

lemma snapshot_wallet:
  "walletLiabilityKd (foldl (snapshot_step db) s ls) = walletLiabilityKd s
     - (\<Sum>l\<leftarrow>filter (line_on db WALLET_LIABILITY) ls. line_amount l)"
  by (induction ls arbitrary: s)
    (auto simp: snapshot_step_def line_amount_def account_codes dest: line_on_one)

lemma snapshot_revenue:
  "revenueRecognisedKd (foldl (snapshot_step db) s ls) = revenueRecognisedKd s
     - (\<Sum>l\<leftarrow>filter (line_on db REVENUE) ls. line_amount l)"
  by (induction ls arbitrary: s)
    (auto simp: snapshot_step_def line_amount_def account_codes dest: line_on_one)

lemma sum_customer_lines:
  "(\<Sum>l\<leftarrow>filter (line_on db code) (customer_lines db c). line_amount l) = account_balance db c code"
proof -
  have "(\<Sum>l\<leftarrow>filter (line_on db code) (concat (map je_lines es)). line_amount l)
    = (\<Sum>e\<leftarrow>es. \<Sum>l\<leftarrow>filter (line_on db code) (je_lines e). line_amount l)" for es
    by (induction es) simp_all
  then show ?thesis by (simp add: customer_lines_def account_balance_def)
qed

lemma snapshot_eq:
  "getCustomerArSnapshot db c = \<lparr>arBalanceKd = account_balance db c ACCOUNTS_RECEIVABLE,
     walletLiabilityKd = - account_balance db c WALLET_LIABILITY,
     revenueRecognisedKd = - account_balance db c REVENUE\<rparr>"
  by (simp add: getCustomerArSnapshot_def snapshot_ar snapshot_wallet snapshot_revenue sum_customer_lines
      ar_snapshot.equality)

lemma group_lines_value:
  "c \<noteq> [] \<Longrightarrow> group_lines m xs c =
     (if m c = None \<and> filter (\<lambda>x. je_customerId (fst x) = Some c) xs = [] then None
      else Some (nullish (m c) 0 + (\<Sum>x\<leftarrow>filter (\<lambda>x. je_customerId (fst x) = Some c) xs. line_amount (snd x))))"
proof (induction xs arbitrary: m)
  case Nil
  then show ?case by (cases "m c") (simp_all add: group_lines_def)
next
  case (Cons x xs)
  obtain e l where x: "x = (e, l)" by (cases x)
  let ?m = "case je_customerId e of None \<Rightarrow> m
     | Some cid \<Rightarrow> if cid = [] then m else m(cid \<mapsto> add_line (nullish (m cid) 0) l)"
  have "group_lines m (x # xs) = group_lines ?m xs" by (simp add: group_lines_def x)
  then show ?case using Cons.IH [OF Cons.prems, of ?m] Cons.prems
    by (auto simp: x add_line_def line_amount_def split: option.splits)
qed

lemma find_lines_customer:
  assumes "c \<in> set ids"
  shows "filter (\<lambda>x. je_customerId (fst x) = Some c)
      (find_lines db (\<lambda>e. \<exists>c\<in>set ids. je_customerId e = Some c) code)
    = find_lines db (\<lambda>e. je_customerId e = Some c) code"
proof -
  have "filter (\<lambda>x. je_customerId (fst x) = Some c)
      (concat (map (\<lambda>e. map (Pair e) (F e)) (filter (\<lambda>e. \<exists>c\<in>set ids. je_customerId e = Some c) es)))
    = concat (map (\<lambda>e. map (Pair e) (F e)) (filter (\<lambda>e. je_customerId e = Some c) es))"
    for F :: "journal_entry \<Rightarrow> journal_line list" and es
    using assms by (induction es) (auto simp: filter_map comp_def)
  then show ?thesis by (simp add: find_lines_def)
qed

lemma group_lines_balance:
  assumes "c \<in> set ids" "c \<noteq> []" "m c = None \<or> m c = Some 0"
  shows "nullish (group_lines m (find_lines db (\<lambda>e. \<exists>c\<in>set ids. je_customerId e = Some c) code) c) 0
    = account_balance db c code"
  using assms(3) find_lines_sum [of db "\<lambda>e. je_customerId e = Some c" code]
  by (auto simp: group_lines_value [OF assms(2)] find_lines_customer [OF assms(1)] account_balance_def)

lemma fill_zero_value: "fill_zero ids m c = (if c \<in> set ids then Some (nullish (m c) 0) else m c)"
proof (induction ids arbitrary: m)
  case Nil
  then show ?case by (simp add: fill_zero_def)
next
  case (Cons x ids)
  have "fill_zero (x # ids) m = fill_zero ids (if m x = None then m(x \<mapsto> 0) else m)"
    by (simp add: fill_zero_def)
  with Cons.IH show ?case by (cases "m c") auto
qed

lemma nullish_clamp: "nullish (clamp_map m c) 0 = clamp0 (nullish (m c) 0)"
  by (cases "m c") (simp_all add: clamp_map_def clamp0_def)

lemma zero_map: "foldl (\<lambda>m i. m(i \<mapsto> 0)) m ids c = (if c \<in> set ids then Some 0 else m c)"
  by (induction ids arbitrary: m) auto

lemma batch_value:
  "c \<in> set ids \<Longrightarrow> c \<noteq> [] \<Longrightarrow>
     getCustomerBalancesBatch db ids c = Some (clamp0 (account_balance db c ACCOUNTS_RECEIVABLE))"
  by (auto simp: getCustomerBalancesBatch_def fill_zero_value nullish_clamp group_lines_balance)

lemma ar_batch_value:
  assumes "c \<in> set ids" and "js_trim c \<noteq> []"
  shows "getCustomerDebtFromJournalARBatch db ids c = Some (clamp0 (account_balance db c ACCOUNTS_RECEIVABLE))"
proof -
  define us where "us = remdups (filter (\<lambda>i. js_trim i \<noteq> []) ids)"
  have c: "c \<in> set us" "c \<noteq> []" using assms by (auto simp: us_def js_trim_def)
  have m: "foldl (\<lambda>m i. m(i \<mapsto> 0)) Map.empty us c = Some (0 :: decimal)"
    using c(1) by (simp add: zero_map)
  from group_lines_balance [OF c, of "foldl (\<lambda>m i. m(i \<mapsto> 0)) Map.empty us" db ACCOUNTS_RECEIVABLE] m
  have v: "nullish (group_lines (foldl (\<lambda>m i. m(i \<mapsto> 0)) Map.empty us)
      (find_lines db (\<lambda>e. \<exists>c\<in>set us. je_customerId e = Some c) ACCOUNTS_RECEIVABLE) c) 0
    = account_balance db c ACCOUNTS_RECEIVABLE" by simp
  then have "group_lines (foldl (\<lambda>m i. m(i \<mapsto> 0)) Map.empty us)
      (find_lines db (\<lambda>e. \<exists>c\<in>set us. je_customerId e = Some c) ACCOUNTS_RECEIVABLE) c
    = Some (account_balance db c ACCOUNTS_RECEIVABLE)"
    using m by (simp add: group_lines_value [OF c(2)])
  then show ?thesis using c
    by (auto simp: getCustomerDebtFromJournalARBatch_def us_def [symmetric] Let_def clamp_map_def)
qed

text \<open>
  every reader of a customer's debt reports the same number, the balance of the receivable
  account cut off at zero: the single read, the two batch reads, the outstanding amount and
  the debt of the journal source. The snapshot holds the signed balances of the three accounts.
\<close>

theorem balance_reads_agree:
  fixes db :: "'z journal_db_scheme"
  assumes "c \<in> set ids" and "js_trim c \<noteq> []"
  defines "debt \<equiv> clamp0 (account_balance db c ACCOUNTS_RECEIVABLE)"
  shows "getCustomerBalanceFromJournal db c = debt
    \<and> getCustomerBalancesBatch db ids c = Some debt
    \<and> getCustomerOutstandingFromJournal db c = debt
    \<and> getCustomerDebtFromJournalAR db c = debt
    \<and> getCustomerDebtFromJournalARBatch db ids c = Some debt
    \<and> getCustomerArSnapshot db c = \<lparr>arBalanceKd = account_balance db c ACCOUNTS_RECEIVABLE,
         walletLiabilityKd = - account_balance db c WALLET_LIABILITY,
         revenueRecognisedKd = - account_balance db c REVENUE\<rparr>"
proof -
  have "c \<noteq> []" using assms(2) by (auto simp: js_trim_def)
  then show ?thesis using assms(1,2)
    by (simp add: debt_def balance_from_journal batch_value ar_batch_value snapshot_eq
        getCustomerOutstandingFromJournal_def getCustomerDebtFromJournalAR_def)
qed

definition example_issued_db :: journal_db where
  "example_issued_db = run_events example_env example_db [Issue example_issue, Pay example_pay]"

theorem balance_reads_agree_witness:
  "getCustomerBalancesBatch example_issued_db [''c0'', ''c1''] ''c1'' = Some (5 / 2)"
proof -
  have "getCustomerBalanceFromJournal example_issued_db ''c1'' = 5 / 2" "js_trim ''c1'' \<noteq> []" by code_simp+
  then show ?thesis using balance_reads_agree [of "''c1''" "[''c0'', ''c1'']" example_issued_db] by simp
qed

subsection \<open>Running balances\<close>

lemma statement_rows_sum: "fst (statement_rows b ls) = b + (\<Sum>x\<leftarrow>ls. line_amount (snd x))"
proof (induction ls arbitrary: b)
  case (Cons x ls)
  then show ?case
    by (cases x; cases "statement_rows (add_line b (snd x)) ls")
      (auto simp: Let_def add_line_def line_amount_def dest!: meta_spec [of _ "add_line b (snd x)"])
qed simp

lemma statement_rows_length: "length (snd (statement_rows b ls)) = length ls"
  by (induction ls arbitrary: b) (auto simp: Let_def split: prod.split, metis snd_conv)

lemma statement_rows_balance:
  "i < length ls \<Longrightarrow> sr_balance (snd (statement_rows b ls) ! i)
     = to_fixed4 (b + (\<Sum>x\<leftarrow>take (Suc i) ls. line_amount (snd x)))"
proof (induction ls arbitrary: b i)
  case (Cons x ls)
  obtain final rows where rec: "statement_rows (add_line b (snd x)) ls = (final, rows)"
    by (cases "statement_rows (add_line b (snd x)) ls")
  then show ?case using Cons.IH [of _ "add_line b (snd x)"] Cons.prems
    by (cases x; cases i) (auto simp: Let_def add_line_def line_amount_def algebra_simps)
qed simp

lemma columns_ar:
  "arDebit (foldl (columns_step db) s ls) = arDebit s + (\<Sum>l\<leftarrow>filter (line_on db ACCOUNTS_RECEIVABLE) ls. jl_debit l)"
  "arCredit (foldl (columns_step db) s ls) = arCredit s + (\<Sum>l\<leftarrow>filter (line_on db ACCOUNTS_RECEIVABLE) ls. jl_credit l)"
  by (induction ls arbitrary: s) (auto simp: columns_step_def Let_def)

text \<open>The columns of the tables are \<open>Decimal(19,4)\<close>: at most four decimals.\<close>

definition amounts_fixed4 :: "'z journal_db_scheme \<Rightarrow> bool" where
  "amounts_fixed4 db \<longleftrightarrow>
     list_all (\<lambda>e. list_all (\<lambda>l. fixed4 (jl_debit l) \<and> fixed4 (jl_credit l)) (je_lines e)) (journalEntries db)"

lemma decimal_of_to_fixed4: "fixed4 x \<Longrightarrow> decimal_of_fixed4 (to_fixed4 x) = x"
proof -
  assume "fixed4 x"
  then obtain m :: int where x: "x = of_int m / 10000" by (auto simp: fixed4_iff amount_of_minor_def)
  have "toMinorFromFixed4 x = Inr m" by (simp add: x)
  then have "parseFixed4ToMinor (to_fixed4 x) = Inr m" unfolding toMinorFromFixed4_def .
  then show ?thesis by (simp add: decimal_of_fixed4_def x)
qed

lemma bank_rows_balance:
  assumes "list_all (\<lambda>e. list_all (\<lambda>l. fixed4 (jl_debit l) \<and> fixed4 (jl_credit l)) (je_lines e)) es"
  shows "fst (bank_rows db b es) = b
      + (\<Sum>e\<leftarrow>es. \<Sum>l\<leftarrow>filter (line_on db ACCOUNTS_RECEIVABLE) (je_lines e). line_amount l)
    \<and> length (snd (bank_rows db b es)) = length es"
  using assms
proof (induction es arbitrary: b)
  case Nil
  then show ?case by simp
next
  case (Cons e es)
  let ?ls = "filter (line_on db ACCOUNTS_RECEIVABLE) (je_lines e)"
  from Cons.prems have "fixed4 (\<Sum>l\<leftarrow>?ls. jl_debit l)" "fixed4 (\<Sum>l\<leftarrow>?ls. jl_credit l)"
    by (auto intro!: fixed4_sum simp: list_all_iff)
  then have "decimal_of_fixed4 (arDebitKd (aggregateJournalEntryForBankColumns db e)) = (\<Sum>l\<leftarrow>?ls. jl_debit l)"
    "decimal_of_fixed4 (arCreditKd (aggregateJournalEntryForBankColumns db e)) = (\<Sum>l\<leftarrow>?ls. jl_credit l)"
    by (simp_all add: aggregateJournalEntryForBankColumns_def Let_def columns_ar zero_columns_def
        decimal_of_to_fixed4)
  moreover have "(\<Sum>l\<leftarrow>?ls. line_amount l) = (\<Sum>l\<leftarrow>?ls. jl_debit l) - (\<Sum>l\<leftarrow>?ls. jl_credit l)"
    by (simp add: line_amount_def sum_list_subtractf)
  ultimately show ?case
    using Cons.IH [of "b + (\<Sum>l\<leftarrow>?ls. jl_debit l) - (\<Sum>l\<leftarrow>?ls. jl_credit l)"] Cons.prems
    by (auto simp: Let_def split: prod.split)
qed

text \<open>
  the two statements of a customer close on one balance, the balance of the receivable
  account, although the bank statement runs on amounts it has printed with four decimals and
  read back. The bank statement has one row for each entry of the customer, and each row of
  the account statement carries the sum of the lines up to it.
\<close>

theorem statements_agree:
  assumes "amounts_fixed4 db"
  shows "fst (getCustomerStatement db c) = to_fixed4 (account_balance db c ACCOUNTS_RECEIVABLE)
    \<and> fst (getCustomerCallCenterBankStatement db c) = to_fixed4 (account_balance db c ACCOUNTS_RECEIVABLE)
    \<and> length (snd (getCustomerCallCenterBankStatement db c))
        = length (filter (\<lambda>e. je_customerId e = Some c) (journalEntries db))
    \<and> (snd (getCustomerStatement db c) \<noteq> [] \<longrightarrow>
        sr_balance (last (snd (getCustomerStatement db c))) = fst (getCustomerStatement db c))"
proof -
  define es where "es = by_creation (filter (\<lambda>e. je_customerId e = Some c) (journalEntries db))"
  define ls where "ls = concat (map (\<lambda>e. map (Pair e) (filter (line_on db ACCOUNTS_RECEIVABLE) (je_lines e))) es)"
  have es: "(\<Sum>e\<leftarrow>es. \<Sum>l\<leftarrow>filter (line_on db ACCOUNTS_RECEIVABLE) (je_lines e). line_amount l)
      = account_balance db c ACCOUNTS_RECEIVABLE"
    by (simp add: es_def by_creation_def sum_sort_key account_balance_def)
  have cc: "(\<Sum>x\<leftarrow>concat (map (\<lambda>e. map (Pair e) (filter (line_on db ACCOUNTS_RECEIVABLE) (je_lines e))) es).
      line_amount (snd x)) = (\<Sum>e\<leftarrow>es. \<Sum>l\<leftarrow>filter (line_on db ACCOUNTS_RECEIVABLE) (je_lines e). line_amount l)"
    for es by (induction es) (simp_all add: comp_def)
  have sum: "(\<Sum>x\<leftarrow>ls. line_amount (snd x)) = account_balance db c ACCOUNTS_RECEIVABLE"
    unfolding ls_def cc es ..
  have st: "getCustomerStatement db c = (to_fixed4 (fst (statement_rows 0 ls)), snd (statement_rows 0 ls))"
    by (simp add: getCustomerStatement_def ls_def es_def Let_def split: prod.split)
  have "sr_balance (last (snd (statement_rows 0 ls))) = to_fixed4 (fst (statement_rows 0 ls))"
    if "snd (statement_rows 0 ls) \<noteq> []"
  proof -
    have "length ls \<noteq> 0" using that statement_rows_length [of 0 ls] by auto
    then show ?thesis using that statement_rows_balance [of "length ls - 1" ls 0]
      by (simp add: last_conv_nth statement_rows_sum statement_rows_length)
  qed
  moreover have "set es \<subseteq> set (journalEntries db)" by (auto simp: es_def by_creation_def)
  then have "list_all (\<lambda>e. list_all (\<lambda>l. fixed4 (jl_debit l) \<and> fixed4 (jl_credit l)) (je_lines e)) es"
    using assms unfolding amounts_fixed4_def list_all_iff by blast
  note bank = bank_rows_balance [OF this, of db 0]
  have "getCustomerCallCenterBankStatement db c = (to_fixed4 (fst (bank_rows db 0 es)), snd (bank_rows db 0 es))"
    by (simp add: getCustomerCallCenterBankStatement_def es_def Let_def split: prod.split)
  moreover have "length es = length (filter (\<lambda>e. je_customerId e = Some c) (journalEntries db))"
    by (simp add: es_def by_creation_def)
  ultimately show ?thesis
    using bank by (simp add: st statement_rows_sum sum es)
qed

definition example_statement_db :: journal_db where
  "example_statement_db = example_db\<lparr>journalEntries := [
     \<lparr>je_id = ''e1'', je_source = ''INVOICE_ISSUED'', je_sourceRef = ''JOURNAL:INVOICE_ISSUED:o1'',
      je_actorUserId = ''u1'', je_customerId = Some ''c1'', je_orderId = Some ''o1'', je_branchId = None,
      je_createdAt = 5,
      je_lines = [\<lparr>jl_accountId = ''acc-1300'', jl_debit = 5 / 2, jl_credit = 0, jl_meta = None\<rparr>,
        \<lparr>jl_accountId = ''acc-4100'', jl_debit = 0, jl_credit = 5 / 2, jl_meta = None\<rparr>]\<rparr>]\<rparr>"

theorem statements_agree_witness:
  "fst (getCustomerCallCenterBankStatement example_statement_db ''c1'') = ''2.5000''"
proof -
  have "amounts_fixed4 example_statement_db"
    by (simp add: amounts_fixed4_def example_statement_db_def fixed4_def)
  moreover have balance: "account_balance example_statement_db ''c1'' ACCOUNTS_RECEIVABLE = 5 / 2"
    by (simp add: account_balance_def line_on_def code_of_account_def example_statement_db_def
        example_db_def example_accounts_def line_amount_def account_codes)
  have "minorToAmountString 25000 = ''2.5000''"
    by (simp add: parse_amount_string(1) show_nat_eval pad_start_def)
  then have "to_fixed4 (account_balance example_statement_db ''c1'' ACCOUNTS_RECEIVABLE) = ''2.5000''"
    using to_fixed4_minor [of 25000] by (simp only: balance) simp
  ultimately show ?thesis using statements_agree [of example_statement_db "''c1''"] by simp
qed

text \<open>
  In a well-formed journal every entry the double-entry view shows is marked as balanced
  and carries at least two lines, whatever the filters, and without filters the view shows
  exactly the entries of the customer.
\<close>

theorem entry_view_balanced:
  assumes "journal_ok db" and "v \<in> set (getCustomerJournalEntries db orders c f)"
  shows "ev_balanced v \<and> 2 \<le> length (ev_lines v)
    \<and> (ef_paymentMethods f = [] \<and> ef_dateFrom f = None \<and> ef_dateTo f = None \<longrightarrow>
        length (getCustomerJournalEntries db orders c f)
          = length (filter (\<lambda>e. je_customerId e = Some c) (journalEntries db)))"
proof -
  obtain e where e: "e \<in> set (journalEntries db)" and v: "v = entry_view_of db orders e"
    using assms(2) by (auto simp: getCustomerJournalEntries_def by_creation_def)
  have fold: "foldl (\<lambda>(d, c) l. (d + jl_debit l, c + jl_credit l)) (d0, c0) ls
      = (d0 + (\<Sum>l\<leftarrow>ls. jl_debit l), c0 + (\<Sum>l\<leftarrow>ls. jl_credit l))" for d0 c0 ls
    by (induction ls arbitrary: d0 c0) (simp_all add: add.assoc)
  have "entry_ok db e" using assms(1) e by (auto simp: journal_ok_def list_all_iff)
  then have "ev_balanced v \<and> 2 \<le> length (ev_lines v)"
    by (auto simp: v entry_view_of_def fold entry_ok_def entry_debit_def entry_credit_def journal_tolerance_def)
  moreover have "entry_selected orders c f = (\<lambda>e. je_customerId e = Some c)"
    if "ef_paymentMethods f = [] \<and> ef_dateFrom f = None \<and> ef_dateTo f = None"
    using that by (simp add: fun_eq_iff entry_selected_def)
  ultimately show ?thesis by (simp add: getCustomerJournalEntries_def by_creation_def)
qed

theorem entry_view_balanced_witness:
  "list_all ev_balanced (getCustomerJournalEntries (append_all example_env example_db [example_append]) []
     ''c1'' \<lparr>ef_paymentMethods = [], ef_dateFrom = None, ef_dateTo = None\<rparr>)"
  unfolding list_all_iff
  using entry_view_balanced [OF append_all_journal_ok [OF example_db_ok,
      of example_env "[example_append]"]] by blast

end
