(* ===== verification/Transaction_Processor.thy ===== *)
theory Transaction_Processor
  imports Journal_Effects Money "HOL-Library.AList"
begin

text \<open>
  \<open>src/general-ledger/financial-transaction-processor.service.ts\<close>: the processor that turns
  funding sources and a customer ledger movement into one balanced entry, and the funding of
  a wallet. An object literal with a spread is an association list updated in place; the
  amounts the unbalanced-funding message prints are left out of the message.
\<close>

datatype transaction_type = T_PAYMENT | T_SUBSIDY | T_DISCOUNT | T_RENEWAL | T_REFUND
datatype reference_type = R_INVOICE | R_SUBSCRIPTION | R_CUSTOMER
datatype strict_method = M_CASH | M_KNET | M_ONLINE | M_DEBT

fun transaction_type_name :: "transaction_type \<Rightarrow> string" where
  "transaction_type_name T_PAYMENT = ''PAYMENT''"
| "transaction_type_name T_SUBSIDY = ''SUBSIDY''"
| "transaction_type_name T_DISCOUNT = ''DISCOUNT''"
| "transaction_type_name T_RENEWAL = ''RENEWAL''"
| "transaction_type_name T_REFUND = ''REFUND''"

fun reference_type_name :: "reference_type \<Rightarrow> string" where
  "reference_type_name R_INVOICE = ''INVOICE''"
| "reference_type_name R_SUBSCRIPTION = ''SUBSCRIPTION''"
| "reference_type_name R_CUSTOMER = ''CUSTOMER''"

fun method_name :: "strict_method \<Rightarrow> string" where
  "method_name M_CASH = ''CASH''"
| "method_name M_KNET = ''KNET''"
| "method_name M_ONLINE = ''ONLINE''"
| "method_name M_DEBT = ''DEBT''"

type_synonym json_object = "(string \<times> json) list"

datatype funding_source =
    FS_PAYMENT strict_method decimal json_object
  | FS_SUBSIDY decimal json_object
  | FS_DISCOUNT decimal json_object

record process_input =
  pt_transactionType :: transaction_type
  pt_referenceType :: reference_type
  pt_referenceId :: string
  pt_actorUserId :: uuid
  pt_customerId :: "uuid option"
  pt_orderId :: "uuid option"
  pt_branchId :: "uuid option"
  pt_sourceRef :: "string option"
  pt_effectiveAt :: "timestamp option"
  pt_allowReversal :: "bool option"
  pt_customerLedgerCreditKd :: decimal
  pt_fundingSources :: "funding_source list"
  pt_metadata :: json_object

record process_result =
  pr_journalEntryId :: uuid
  pr_totalDebitKd :: string
  pr_totalCreditKd :: string

definition paymentAccount :: "strict_method \<Rightarrow> string" where
  "paymentAccount m = (case m of M_CASH \<Rightarrow> CASH | M_KNET \<Rightarrow> BANK_KNET
     | M_ONLINE \<Rightarrow> BANK_ONLINE | M_DEBT \<Rightarrow> ACCOUNTS_RECEIVABLE)"

definition spread :: "json_object \<Rightarrow> json_object \<Rightarrow> json_object" where
  "spread base kvs = foldl (\<lambda>o' (k, v). AList.update k v o') base kvs"

definition baseMeta :: "process_input \<Rightarrow> string \<Rightarrow> json_object \<Rightarrow> json_object" where
  "baseMeta inp transactionType metadata = spread metadata
     [(''transaction_type'', JString transactionType),
      (''reference_type'', JString (reference_type_name (pt_referenceType inp))),
      (''reference_id'', JString (pt_referenceId inp)),
      (''customer_id'', json_opt (pt_customerId inp)),
      (''order_id'', json_opt (pt_orderId inp))]"

definition positiveAmount :: "decimal \<Rightarrow> decimal result" where
  "positiveAmount amount =
     (if amount \<le> 0 then Inl (Error ''PROCESS_TRANSACTION_AMOUNT_MUST_BE_POSITIVE'') else Inr amount)"

fun fundingSourceToLines :: "process_input \<Rightarrow> funding_source \<Rightarrow> line_input list result" where
  "fundingSourceToLines inp (FS_PAYMENT m a metadata) = bindE (positiveAmount a) (\<lambda>amount.
     Inr [debit_line (paymentAccount m) amount (JObject (spread (baseMeta inp ''PAYMENT'' metadata)
       [(''payment_method'', JString (method_name m))]))])"
| "fundingSourceToLines inp (FS_SUBSIDY a metadata) = bindE (positiveAmount a) (\<lambda>amount.
     Inr [debit_line PROMOTIONAL_EXPENSE amount (JObject (spread (baseMeta inp ''SUBSIDY'' metadata)
       [(''is_refundable'', JBool False), (''fraud_control'', JString ''SUBSIDY_NO_CASH_OUT'')]))])"
| "fundingSourceToLines inp (FS_DISCOUNT a metadata) = bindE (positiveAmount a) (\<lambda>amount.
     Inr [debit_line DEBT_DISCOUNTS amount (JObject (spread (baseMeta inp ''DISCOUNT'' metadata)
       [(''is_refundable'', JBool False), (''fraud_control'', JString ''DISCOUNT_NO_CASH_OUT'')]))])"

definition customerLedgerLine :: "process_input \<Rightarrow> decimal \<Rightarrow> line_input" where
  "customerLedgerLine inp amount =
     (let meta = JObject (baseMeta inp (transaction_type_name (pt_transactionType inp)) (pt_metadata inp))
      in if amount > 0 then credit_line ACCOUNTS_RECEIVABLE amount meta
         else debit_line ACCOUNTS_RECEIVABLE \<bar>amount\<bar> meta)"

definition lineTotals :: "line_input list \<Rightarrow> decimal \<times> decimal" where
  "lineTotals ls = foldl (\<lambda>(d, c) l. (d + nullish (li_debit l) 0, c + nullish (li_credit l) 0)) (0, 0) ls"

definition assertZeroSum :: "line_input list \<Rightarrow> unit result" where
  "assertZeroSum ls = (let (debit, credit) = lineTotals ls
     in if \<bar>debit - credit\<bar> > 1 / 1000 then Inl (Error ''PROCESS_TRANSACTION_UNBALANCED'') else Inr ())"

text \<open>The common end of the two operations: the entry and the totals of its lines.\<close>

fun with_totals :: "line_input list \<Rightarrow> uuid result \<times> 's \<Rightarrow> process_result result \<times> 's" where
  "with_totals ls (Inl e, db) = (Inl e, db)"
| "with_totals ls (Inr i, db) = (let (debit, credit) = lineTotals ls
     in (Inr \<lparr>pr_journalEntryId = i, pr_totalDebitKd = to_fixed4 debit,
              pr_totalCreditKd = to_fixed4 credit\<rparr>, db))"

record funding_input =
  wf_actorUserId :: uuid
  wf_customerId :: uuid
  wf_subscriptionId :: uuid
  wf_paymentAmountKd :: decimal
  wf_paymentMethod :: strict_method
  wf_supportAmountKd :: decimal
  wf_totalFundingKd :: decimal
  wf_branchId :: "uuid option"

definition funding_lines :: "funding_input \<Rightarrow> line_input list" where
  "funding_lines inp =
     (if wf_paymentAmountKd inp > 0
      then [debit_line (paymentAccount (wf_paymentMethod inp)) (wf_paymentAmountKd inp)
        (JObject [(''transaction_type'', JString ''PAYMENT''), (''reference_type'', JString ''SUBSCRIPTION''),
           (''reference_id'', JString (wf_subscriptionId inp)), (''customer_id'', JString (wf_customerId inp)),
           (''payment_method'', JString (method_name (wf_paymentMethod inp)))])]
      else [])
   @ (if wf_supportAmountKd inp > 0
      then [debit_line PROMOTIONAL_EXPENSE (wf_supportAmountKd inp)
        (JObject [(''transaction_type'', JString ''SUBSIDY''), (''reference_type'', JString ''SUBSCRIPTION''),
           (''reference_id'', JString (wf_subscriptionId inp)), (''customer_id'', JString (wf_customerId inp)),
           (''is_refundable'', JBool False), (''fraud_control'', JString ''SUBSIDY_NO_CASH_OUT'')])]
      else [])
   @ [credit_line WALLET_LIABILITY (wf_totalFundingKd inp)
        (JObject [(''transaction_type'', JString ''RENEWAL''), (''reference_type'', JString ''SUBSCRIPTION''),
           (''reference_id'', JString (wf_subscriptionId inp)), (''customer_id'', JString (wf_customerId inp)),
           (''total_funding'', JString (to_fixed4 (wf_totalFundingKd inp)))])]"

definition processWalletFundingTransaction :: "env \<Rightarrow> 'z journal_db_scheme \<Rightarrow> funding_input \<Rightarrow>
    process_result result \<times> 'z journal_db_scheme" where
  "processWalletFundingTransaction env db inp =
     (let computedTotal = wf_paymentAmountKd inp + wf_supportAmountKd inp;
          lines = funding_lines inp
      in if \<bar>wf_totalFundingKd inp - computedTotal\<bar> > 1 / 1000
         then (Inl (Error ''WALLET_FUNDING_UNBALANCED''), db)
         else if wf_totalFundingKd inp \<le> 0
         then (Inl (Error ''WALLET_FUNDING_AMOUNT_MUST_BE_POSITIVE''), db)
         else (case assertZeroSum lines of
            Inl e \<Rightarrow> (Inl e, db)
          | Inr _ \<Rightarrow> with_totals lines (appendBalanced env db
              \<lparr>ai_source = ''PROCESS_TRANSACTION'',
               ai_sourceRef = ''WALLET_FUNDING:SUBSCRIPTION:'' @ wf_subscriptionId inp,
               ai_actorUserId = wf_actorUserId inp, ai_customerId = Some (wf_customerId inp),
               ai_orderId = None, ai_branchId = wf_branchId inp, ai_effectiveAt = None,
               ai_allowReversal = False, ai_lines = lines\<rparr>)))"

definition process_lines :: "process_input \<Rightarrow> line_input list result" where
  "process_lines inp = bindE (mapE (fundingSourceToLines inp) (pt_fundingSources inp)) (\<lambda>ls.
     let lines = concat ls @ [customerLedgerLine inp (pt_customerLedgerCreditKd inp)]
     in bindE (assertZeroSum lines) (\<lambda>_. Inr lines))"

definition processTransaction :: "env \<Rightarrow> 'z journal_db_scheme \<Rightarrow> process_input \<Rightarrow>
    process_result result \<times> 'z journal_db_scheme" where
  "processTransaction env db inp =
     (if pt_actorUserId inp = [] then (Inl (Error ''PROCESS_TRANSACTION_ACTOR_REQUIRED''), db)
      else if js_trim (pt_referenceId inp) = []
      then (Inl (Error ''PROCESS_TRANSACTION_REFERENCE_REQUIRED''), db)
      else if pt_fundingSources inp = [] then (Inl (Error ''PROCESS_TRANSACTION_FUNDING_REQUIRED''), db)
      else if pt_customerLedgerCreditKd inp = 0
      then (Inl (Error ''PROCESS_TRANSACTION_LEDGER_AMOUNT_REQUIRED''), db)
      else (case process_lines inp of
         Inl e \<Rightarrow> (Inl e, db)
       | Inr lines \<Rightarrow> with_totals lines (appendBalanced env db
           \<lparr>ai_source = ''PROCESS_TRANSACTION'',
            ai_sourceRef = nullish (pt_sourceRef inp) (''PROCESS_TRANSACTION:''
              @ transaction_type_name (pt_transactionType inp) @ '':''
              @ reference_type_name (pt_referenceType inp) @ '':'' @ pt_referenceId inp),
            ai_actorUserId = pt_actorUserId inp, ai_customerId = pt_customerId inp,
            ai_orderId = pt_orderId inp, ai_branchId = pt_branchId inp,
            ai_effectiveAt = pt_effectiveAt inp,
            ai_allowReversal = nullish (pt_allowReversal inp) (pt_transactionType inp = T_REFUND),
            ai_lines = lines\<rparr>)))"

subsection \<open>Totals\<close>

lemma lineTotals_aux:
  "foldl (\<lambda>(d, c) l. (d + nullish (li_debit l) 0, c + nullish (li_credit l) 0)) (d0, c0) ls
     = (d0 + (\<Sum>l\<leftarrow>ls. debit_of l), c0 + (\<Sum>l\<leftarrow>ls. credit_of l))"
  by (induction ls arbitrary: d0 c0) (simp_all add: debit_of_def credit_of_def add.assoc)

lemma lineTotals_eq: "lineTotals ls = (\<Sum>l\<leftarrow>ls. debit_of l, \<Sum>l\<leftarrow>ls. credit_of l)"
  by (simp add: lineTotals_def lineTotals_aux)

lemma assertZeroSum_Inr:
  "assertZeroSum ls = Inr u \<longleftrightarrow> \<bar>(\<Sum>l\<leftarrow>ls. debit_of l) - (\<Sum>l\<leftarrow>ls. credit_of l)\<bar> \<le> 1 / 1000"
  by (auto simp: assertZeroSum_def lineTotals_eq)

fun source_amount :: "funding_source \<Rightarrow> decimal" where
  "source_amount (FS_PAYMENT m a x) = a"
| "source_amount (FS_SUBSIDY a x) = a"
| "source_amount (FS_DISCOUNT a x) = a"

fun source_account :: "funding_source \<Rightarrow> string" where
  "source_account (FS_PAYMENT m a x) = paymentAccount m"
| "source_account (FS_SUBSIDY a x) = PROMOTIONAL_EXPENSE"
| "source_account (FS_DISCOUNT a x) = DEBT_DISCOUNTS"

lemma fundingSourceToLines_Inr:
  "fundingSourceToLines inp s = Inr ls \<Longrightarrow>
     0 < source_amount s \<and> (\<exists>m. ls = [debit_line (source_account s) (source_amount s) m])"
  by (cases s) (auto simp: positiveAmount_def result_simps split: if_splits)

lemma funding_lines_sums:
  assumes "mapE (fundingSourceToLines inp) ss = Inr ls"
  shows "(\<Sum>l\<leftarrow>concat ls. debit_of l) = (\<Sum>s\<leftarrow>ss. source_amount s)"
    and "(\<Sum>l\<leftarrow>concat ls. credit_of l) = 0"
    and "lines_effect code (concat ls) = (\<Sum>s\<leftarrow>filter (\<lambda>s. source_account s = code) ss. source_amount s)"
    and "\<forall>s\<in>set ss. 0 < source_amount s"
proof -
  have "list_all2 (\<lambda>s l. fundingSourceToLines inp s = Inr l) ss ls"
    using assms by (simp add: mapE_Inr_list_all2)
  then show "(\<Sum>l\<leftarrow>concat ls. debit_of l) = (\<Sum>s\<leftarrow>ss. source_amount s)"
    and "(\<Sum>l\<leftarrow>concat ls. credit_of l) = 0"
    and "lines_effect code (concat ls) = (\<Sum>s\<leftarrow>filter (\<lambda>s. source_account s = code) ss. source_amount s)"
    and "\<forall>s\<in>set ss. 0 < source_amount s"
    by (induction rule: list_all2_induct)
      (auto dest!: fundingSourceToLines_Inr simp: debit_of_def credit_of_def lines_effect_def)
qed

text \<open>The input of a successful \<open>processTransaction\<close> seen as moves on the accounts.\<close>

definition process_move :: "process_input \<Rightarrow> string \<Rightarrow> decimal" where
  "process_move inp code = (\<Sum>s\<leftarrow>filter (\<lambda>s. source_account s = code) (pt_fundingSources inp). source_amount s)
     - (if code = ACCOUNTS_RECEIVABLE then pt_customerLedgerCreditKd inp else 0)"

lemma with_totals_Inr:
  "with_totals ls w = (Inr r, db') \<Longrightarrow> \<exists>i. w = (Inr i, db') \<and> pr_journalEntryId r = i
     \<and> pr_totalDebitKd r = to_fixed4 (\<Sum>l\<leftarrow>ls. debit_of l)
     \<and> pr_totalCreditKd r = to_fixed4 (\<Sum>l\<leftarrow>ls. credit_of l)"
  by (cases w; cases "fst w") (auto simp: lineTotals_eq)

lemma customerLedgerLine_sums:
  "debit_of (customerLedgerLine inp a) = (if 0 < a then 0 else - a)"
  "credit_of (customerLedgerLine inp a) = (if 0 < a then a else 0)"
  "li_accountCode (customerLedgerLine inp a) = ACCOUNTS_RECEIVABLE"
  by (auto simp: customerLedgerLine_def Let_def debit_of_def credit_of_def)

lemma process_lines_Inr:
  assumes "process_lines inp = Inr ls"
  defines "f \<equiv> \<Sum>s\<leftarrow>pt_fundingSources inp. source_amount s" and "a \<equiv> pt_customerLedgerCreditKd inp"
  shows "(\<Sum>l\<leftarrow>ls. debit_of l) = f + (if 0 < a then 0 else - a)"
    and "(\<Sum>l\<leftarrow>ls. credit_of l) = (if 0 < a then a else 0)"
    and "\<bar>f - a\<bar> \<le> 1 / 1000" and "\<forall>s\<in>set (pt_fundingSources inp). 0 < source_amount s"
    and "lines_effect code ls = process_move inp code"
proof -
  from assms obtain lss where m: "mapE (fundingSourceToLines inp) (pt_fundingSources inp) = Inr lss"
      and ls: "ls = concat lss @ [customerLedgerLine inp a]"
      and z: "assertZeroSum ls = Inr ()"
    by (auto simp: process_lines_def result_simps Let_def)
  note sums = funding_lines_sums [OF m]
  show d: "(\<Sum>l\<leftarrow>ls. debit_of l) = f + (if 0 < a then 0 else - a)"
    and c: "(\<Sum>l\<leftarrow>ls. credit_of l) = (if 0 < a then a else 0)"
    by (simp_all add: ls sums(1,2) customerLedgerLine_sums f_def)
  show "\<bar>f - a\<bar> \<le> 1 / 1000" using z unfolding assertZeroSum_Inr d c by (auto split: if_splits)
  show "\<forall>s\<in>set (pt_fundingSources inp). 0 < source_amount s" by (rule sums(4))
  show "lines_effect code ls = process_move inp code"
    using sums(3) [of code] by (auto simp: ls process_move_def lines_effect_def
        customerLedgerLine_sums a_def)
qed

lemma processTransaction_Inr:
  assumes "processTransaction env db inp = (Inr r, db')"
  obtains ls ai where "process_lines inp = Inr ls" "appendBalanced env db ai = (Inr (pr_journalEntryId r), db')"
    "ai_customerId ai = pt_customerId inp" "ai_lines ai = ls"
    "pr_totalDebitKd r = to_fixed4 (\<Sum>l\<leftarrow>ls. debit_of l)"
    "pr_totalCreditKd r = to_fixed4 (\<Sum>l\<leftarrow>ls. credit_of l)" "pt_fundingSources inp \<noteq> []"
    "pt_customerLedgerCreditKd inp \<noteq> 0"
  using assms
  by (auto simp: processTransaction_def split: if_splits sum.splits dest!: with_totals_Inr)

lemma appendBalanced_effect_snd:
  "accounts_ok db \<Longrightarrow> account_balance (snd (appendBalanced env db ai)) c code = account_balance db c code
     + (if created_row db (snd (appendBalanced env db ai)) \<and> ai_customerId ai = Some c
        then lines_effect code (ai_lines ai) else 0)"
  using appendBalanced_effect by (metis prod.collapse)

text \<open>
  A \<open>processTransaction\<close> that returns has posted each funding source as a debit on its
  account and the ledger credit on the receivable, once: a new entry moves every balance of
  the customer by exactly these amounts, a replay moves none. The sources add up to the
  credit within 0.001 KD and the reported totals are the two sides of the entry.
\<close>

theorem processTransaction_effect:
  assumes "accounts_ok db" and "processTransaction env db inp = (Inr r, db')"
    and "0 < pt_customerLedgerCreditKd inp"
  shows "account_balance db' c code = account_balance db c code
      + (if created_row db db' \<and> pt_customerId inp = Some c then process_move inp code else 0)
    \<and> pr_totalDebitKd r = to_fixed4 (\<Sum>s\<leftarrow>pt_fundingSources inp. source_amount s)
    \<and> pr_totalCreditKd r = to_fixed4 (pt_customerLedgerCreditKd inp)
    \<and> \<bar>(\<Sum>s\<leftarrow>pt_fundingSources inp. source_amount s) - pt_customerLedgerCreditKd inp\<bar> \<le> 1 / 1000"
  using assms(2)
proof (rule processTransaction_Inr)
  fix ls ai
  assume pl: "process_lines inp = Inr ls" and ap: "appendBalanced env db ai = (Inr (pr_journalEntryId r), db')"
    and ai: "ai_customerId ai = pt_customerId inp" "ai_lines ai = ls"
    and tot: "pr_totalDebitKd r = to_fixed4 (\<Sum>l\<leftarrow>ls. debit_of l)"
      "pr_totalCreditKd r = to_fixed4 (\<Sum>l\<leftarrow>ls. credit_of l)"
  show ?thesis
    using process_lines_Inr [OF pl] appendBalanced_effect [OF assms(1) ap, of c code] ai tot assms(3)
    by simp
qed

text \<open>
  a negative ledger movement cannot be posted. The documentation of the input says a
  negative amount debits the receivable (a refund or a renewal), but every funding source is a
  debit as well, so the entry has no credit side: the call always throws and writes nothing,
  unless the whole amount lies within the tolerance of 0.001 KD.
\<close>

theorem negative_movement_never_posts:
  assumes "pt_customerLedgerCreditKd inp < - 1 / 1000"
  shows "\<exists>e. processTransaction env db inp = (Inl e, db)"
proof (cases "process_lines inp")
  case (Inl e)
  then show ?thesis by (simp add: processTransaction_def)
next
  case (Inr ls)
  have "0 \<le> (\<Sum>s\<leftarrow>pt_fundingSources inp. source_amount s)"
    using process_lines_Inr(4) [OF Inr] by (intro sum_list_nonneg_rat) auto
  then have False using process_lines_Inr(3) [OF Inr] assms by linarith
  then show ?thesis ..
qed

definition example_process :: process_input where
  "example_process = \<lparr>pt_transactionType = T_PAYMENT, pt_referenceType = R_INVOICE, pt_referenceId = ''inv-1'',
     pt_actorUserId = ''u1'', pt_customerId = Some ''c1'', pt_orderId = None, pt_branchId = None,
     pt_sourceRef = None, pt_effectiveAt = None, pt_allowReversal = None,
     pt_customerLedgerCreditKd = 30,
     pt_fundingSources = [FS_PAYMENT M_KNET 25 [], FS_DISCOUNT 5 []], pt_metadata = []\<rparr>"

definition example_negative :: process_input where
  "example_negative = example_process\<lparr>pt_transactionType := T_REFUND, pt_customerLedgerCreditKd := - 25,
     pt_fundingSources := [FS_PAYMENT M_CASH 25 []]\<rparr>"

theorem processTransaction_effect_witness:
  "\<exists>r db'. processTransaction example_env example_db example_process = (Inr r, db')
     \<and> pr_totalDebitKd r = ''30.0000'' \<and> pr_totalCreditKd r = ''30.0000''
     \<and> account_balance db' ''c1'' BANK_KNET = 25"
proof -
  have "case processTransaction example_env example_db example_process of
      (Inr r, db') \<Rightarrow> created_row example_db db' \<and> pr_totalDebitKd r = ''30.0000''
    | (Inl e, db') \<Rightarrow> False" by code_simp
  then obtain r db' where run: "processTransaction example_env example_db example_process = (Inr r, db')"
      and cr: "created_row example_db db'" and d: "pr_totalDebitKd r = ''30.0000''"
    by (auto split: prod.splits sum.splits)
  have "to_fixed4 (pt_customerLedgerCreditKd example_process) = ''30.0000''" by code_simp
  moreover have "account_balance example_db ''c1'' BANK_KNET = 0"
    by (simp add: account_balance_def example_db_def)
  moreover have "process_move example_process BANK_KNET = 25"
    by (simp add: process_move_def example_process_def paymentAccount_def account_codes)
  moreover have "0 < pt_customerLedgerCreditKd example_process" "pt_customerId example_process = Some ''c1''"
    by (simp_all add: example_process_def)
  ultimately show ?thesis
    using processTransaction_effect [OF example_accounts_ok run, of "''c1''" BANK_KNET] run cr d by simp
qed

theorem negative_movement_never_posts_witness:
  "\<exists>e. processTransaction example_env example_db example_negative = (Inl e, example_db)"
  by (rule negative_movement_never_posts) (simp add: example_negative_def)

subsection \<open>Funding a wallet\<close>

lemma sum_funding_lines:
  "(\<Sum>l\<leftarrow>funding_lines inp. debit_of l) = max 0 (wf_paymentAmountKd inp) + max 0 (wf_supportAmountKd inp)"
  "(\<Sum>l\<leftarrow>funding_lines inp. credit_of l) = wf_totalFundingKd inp"
  by (auto simp: funding_lines_def debit_of_def credit_of_def)

definition funding_move :: "funding_input \<Rightarrow> string \<Rightarrow> decimal" where
  "funding_move inp code =
     (if code = paymentAccount (wf_paymentMethod inp) then max 0 (wf_paymentAmountKd inp) else 0)
     + (if code = PROMOTIONAL_EXPENSE then max 0 (wf_supportAmountKd inp) else 0)
     - (if code = WALLET_LIABILITY then wf_totalFundingKd inp else 0)"

lemma funding_lines_effect: "lines_effect code (funding_lines inp) = funding_move inp code"
  by (auto simp: lines_effect_def funding_lines_def funding_move_def debit_of_def credit_of_def)

text \<open>
  funding a wallet. A call that returns has balanced the payment and the company support
  against a positive credit of the wallet liability within 0.001 KD, and a new entry moves the
  customer's balances by the payment on the asset account of the channel, the support on the
  promotional expense and the total on the wallet liability. The second funding of one
  subscription posts nothing, whatever its amounts.
\<close>

theorem wallet_funding_effect:
  assumes ok: "accounts_ok db" and run: "processWalletFundingTransaction env db inp = (Inr r, db')"
  shows "account_balance db' (wf_customerId inp) code = account_balance db (wf_customerId inp) code
      + (if created_row db db' then funding_move inp code else 0)
    \<and> 0 < wf_totalFundingKd inp
    \<and> \<bar>wf_totalFundingKd inp - (wf_paymentAmountKd inp + wf_supportAmountKd inp)\<bar> \<le> 1 / 1000
    \<and> (wf_subscriptionId inp2 = wf_subscriptionId inp \<longrightarrow>
         journalEntries (snd (processWalletFundingTransaction env2 db' inp2)) = journalEntries db')"
proof -
  obtain ai where ap: "appendBalanced env db ai = (Inr (pr_journalEntryId r), db')"
      and ai: "ai_customerId ai = Some (wf_customerId inp)" "ai_lines ai = funding_lines inp"
        "ai_sourceRef ai = ''WALLET_FUNDING:SUBSCRIPTION:'' @ wf_subscriptionId inp"
      and amounts: "0 < wf_totalFundingKd inp"
        "\<bar>wf_totalFundingKd inp - (wf_paymentAmountKd inp + wf_supportAmountKd inp)\<bar> \<le> 1 / 1000"
    using run by (auto simp: processWalletFundingTransaction_def Let_def
        split: if_splits sum.splits dest!: with_totals_Inr)
  have seen: "find_entry_id db' (''WALLET_FUNDING:SUBSCRIPTION:'' @ wf_subscriptionId inp)
      = Some (pr_journalEntryId r)"
    using journal.post_visible [OF ap] ai(3) by simp
  have none: "journalEntries (snd (with_totals ls (appendBalanced env2 db' ai2))) = journalEntries db'"
    if "ai_sourceRef ai2 = ''WALLET_FUNDING:SUBSCRIPTION:'' @ wf_subscriptionId inp" for ls ai2
  proof -
    have "snd (with_totals ls w) = snd w" for w :: "uuid result \<times> 'a journal_db_scheme"
      by (cases w; cases "fst w") (auto simp: Let_def split: prod.split)
    moreover have "snd (appendBalanced env2 db' ai2) = db'"
      using seen that by (simp add: appendBalanced_def)
    ultimately show ?thesis by simp
  qed
  have "journalEntries (snd (processWalletFundingTransaction env2 db' inp2)) = journalEntries db'"
    if "wf_subscriptionId inp2 = wf_subscriptionId inp"
    using none that by (simp add: processWalletFundingTransaction_def Let_def split: sum.split)
  then show ?thesis
    using appendBalanced_effect [OF ok ap, of "wf_customerId inp" code] ai amounts
    by (simp add: funding_lines_effect)
qed

definition example_funding :: funding_input where
  "example_funding = \<lparr>wf_actorUserId = ''u1'', wf_customerId = ''c1'', wf_subscriptionId = ''s1'',
     wf_paymentAmountKd = 20, wf_paymentMethod = M_CASH, wf_supportAmountKd = 5,
     wf_totalFundingKd = 25, wf_branchId = None\<rparr>"

theorem wallet_funding_effect_witness:
  "\<exists>r db'. processWalletFundingTransaction example_env example_db example_funding = (Inr r, db')
     \<and> account_balance db' ''c1'' WALLET_LIABILITY = - 25"
proof -
  have "case processWalletFundingTransaction example_env example_db example_funding of
      (Inr r, db') \<Rightarrow> created_row example_db db' | (Inl e, db') \<Rightarrow> False" by code_simp
  then obtain r db' where run: "processWalletFundingTransaction example_env example_db example_funding = (Inr r, db')"
      and cr: "created_row example_db db'"
    by (auto split: prod.splits sum.splits)
  moreover have "account_balance example_db ''c1'' WALLET_LIABILITY = 0"
    by (simp add: account_balance_def example_db_def)
  moreover have "funding_move example_funding WALLET_LIABILITY = - 25" "wf_customerId example_funding = ''c1''"
    by (simp_all add: funding_move_def example_funding_def paymentAccount_def account_codes)
  ultimately show ?thesis
    using wallet_funding_effect [OF example_accounts_ok run, of WALLET_LIABILITY] by auto
qed

end
