(* ===== verification/Workflow.thy ===== *)
theory Workflow
  imports Prelude
begin

text \<open>
  What the approval workflows of the program share: the roles and order states of
  \<open>prisma/schema.prisma\<close>, tables
  of rows with an identifier, and the interface \<open>workflow\<close>: operations on a table whose rows
  carry a status. Loans, leaves, debt transfers and custody bags each interpret it.
\<close>

datatype safari_role =
    OWNER | GENERAL_MANAGER | MANAGER | DRIVER | WORKER | CALL_CENTER | CALL_CENTER_SUPERVISOR
  | FLEET_SUPERVISOR | ACCOUNTANT | SUPERVISOR | VIEWER | CUSTOMER

datatype order_status = ORDER_PENDING | PICKED_UP | IN_PROGRESS | OUT_FOR_DELIVERY | ORDER_COMPLETED | CANCELED

subsection \<open>Tables\<close>

text \<open>\<open>findUnique({ where: { id } })\<close> and \<open>update({ where: { id }, data })\<close>\<close>

definition find_row :: "('r \<Rightarrow> uuid) \<Rightarrow> 'r list \<Rightarrow> uuid \<Rightarrow> 'r option" where
  "find_row idf rows i = find (\<lambda>r. idf r = i) rows"

definition update_row :: "('r \<Rightarrow> uuid) \<Rightarrow> uuid \<Rightarrow> ('r \<Rightarrow> 'r) \<Rightarrow> 'r list \<Rightarrow> 'r list" where
  "update_row idf i f rows = map (\<lambda>r. if idf r = i then f r else r) rows"

lemma find_row_id: "find_row idf rows i = Some r \<Longrightarrow> idf r = i \<and> r \<in> set rows"
  unfolding find_row_def by (auto dest: find_Some_in)

lemma find_row_snoc [table_simps]:
  "find_row idf (rows @ [r]) i = (case find_row idf rows i of Some x \<Rightarrow> Some x
     | None \<Rightarrow> if idf r = i then Some r else None)"
  by (simp add: find_row_def find_append split: option.split)

lemma find_row_update [table_simps]:
  assumes "\<And>r. idf r = i \<Longrightarrow> idf (f r) = i"
  shows "find_row idf (update_row idf i f rows) j =
     (if j = i then map_option f (find_row idf rows i) else find_row idf rows j)"
  using assms by (induction rows) (auto simp: find_row_def update_row_def)

lemma map_update_row: "(\<And>r. idf r = i \<Longrightarrow> g (f r) = g r) \<Longrightarrow> map g (update_row idf i f rows) = map g rows"
  by (auto simp: update_row_def)

lemma set_update_row: "set (update_row idf i f rows) = (\<lambda>r. if idf r = i then f r else r) ` set rows"
  by (simp add: update_row_def)

lemma length_update_row [simp]: "length (update_row idf i f rows) = length rows"
  by (simp add: update_row_def)

lemma find_row_distinct: "distinct (map idf rows) \<Longrightarrow> r \<in> set rows \<Longrightarrow> find_row idf rows (idf r) = Some r"
  unfolding find_row_def by (induction rows) force+

text \<open>
  A loop that updates the rows it has read, one after the other, is one pass over the table:
  the identifiers are unique, so no update is seen by a later iteration.
\<close>

lemma fold_update_rows:
  assumes "distinct (map idf rows)" and "distinct (map idf rs)"
    and "\<And>r. r \<in> set rows \<Longrightarrow> idf (g r) = idf r"
    and "\<And>r. r \<in> set rs \<Longrightarrow> r \<in> set rows" and "\<And>r. r \<in> set rs \<Longrightarrow> f r r = g r"
  shows "foldl (\<lambda>t r. update_row idf (idf r) (f r) t) rows rs = map (\<lambda>r. if r \<in> set rs then g r else r) rows"
  using assms(2,4,5)
proof (induction rs rule: rev_induct)
  case Nil
  then show ?case by simp
next
  case (snoc x xs)
  have IH: "foldl (\<lambda>t r. update_row idf (idf r) (f r) t) rows xs = map (\<lambda>r. if r \<in> set xs then g r else r) rows"
    using snoc.IH snoc.prems by simp
  have "(if idf (if r \<in> set xs then g r else r) = idf x then f x (if r \<in> set xs then g r else r)
      else (if r \<in> set xs then g r else r)) = (if r \<in> set (xs @ [x]) then g r else r)" if r: "r \<in> set rows" for r
  proof (cases "idf r = idf x")
    case True
    have "x \<in> set rows" using snoc.prems(2) by simp
    then have "r = x" using True r assms(1) by (auto simp: distinct_map inj_on_def)
    moreover have "x \<notin> set xs" using snoc.prems(1) by auto
    ultimately show ?thesis using snoc.prems(3) by simp
  next
    case False
    then show ?thesis using assms(3) r by auto
  qed
  then have "update_row idf (idf x) (f x) (map (\<lambda>r. if r \<in> set xs then g r else r) rows)
      = map (\<lambda>r. if r \<in> set (xs @ [x]) then g r else r) rows"
    unfolding update_row_def map_map comp_def by (intro map_cong refl)
  then show ?case by (simp add: IH)
qed

subsection \<open>One operation on a table\<close>

text \<open>
  What an operation may do to a table: change rows within the relation \<open>R\<close> and append at most
  one row, under an identifier that is new, which satisfies \<open>P\<close>.
\<close>

definition table_step :: "('r \<Rightarrow> uuid) \<Rightarrow> ('r \<Rightarrow> 'r \<Rightarrow> bool) \<Rightarrow> ('r \<Rightarrow> bool) \<Rightarrow> 'r list \<Rightarrow> 'r list \<Rightarrow> bool" where
  "table_step idf R P rs rs' \<longleftrightarrow> (\<exists>f news. rs' = map f rs @ news \<and> (\<forall>r\<in>set rs. idf (f r) = idf r \<and> R r (f r))
     \<and> (news = [] \<or> (\<exists>n. news = [n] \<and> idf n \<notin> idf ` set rs \<and> P n)))"

lemma table_step_refl: "(\<And>r. R r r) \<Longrightarrow> table_step idf R P rs rs"
  unfolding table_step_def by (rule exI [of _ "\<lambda>r. r"]) (auto intro: exI [of _ "[]"])

lemma table_step_append: "(\<And>r. R r r) \<Longrightarrow> idf n \<notin> idf ` set rs \<Longrightarrow> P n \<Longrightarrow> table_step idf R P rs (rs @ [n])"
  unfolding table_step_def by (intro exI [of _ "\<lambda>r. r"] exI [of _ "[n]"]) auto

lemma table_step_update:
  assumes "distinct (map idf rs)" and "find_row idf rs i = Some r" and "\<And>r. R r r"
    and "idf (f r) = idf r" and "R r (f r)"
  shows "table_step idf R P rs (update_row idf i f rs)"
proof -
  have "c = r" if "c \<in> set rs" "idf c = i" for c
    using find_row_distinct [OF assms(1) that(1)] assms(2) that(2) by simp
  then have "idf (if idf c = i then f c else c) = idf c \<and> R c (if idf c = i then f c else c)" if "c \<in> set rs" for c
    using that assms(3-5) by auto
  then show ?thesis
    unfolding table_step_def update_row_def
    by (intro exI [of _ "\<lambda>c. if idf c = i then f c else c"] exI [of _ "[]"]) auto
qed

lemma table_step_map:
  assumes "table_step idf R P rs rs'" and "\<And>r. idf (g r) = idf r" and "\<And>r r'. R r r' \<Longrightarrow> R r (g r')"
    and "\<And>n. P n \<Longrightarrow> P (g n)"
  shows "table_step idf R P rs (map g rs')"
proof -
  obtain f news where f: "rs' = map f rs @ news" "\<forall>r\<in>set rs. idf (f r) = idf r \<and> R r (f r)"
    "news = [] \<or> (\<exists>n. news = [n] \<and> idf n \<notin> idf ` set rs \<and> P n)"
    using assms(1) unfolding table_step_def by blast
  then show ?thesis unfolding table_step_def
    by (intro exI [of _ "g \<circ> f"] exI [of _ "map g news"]) (use assms(2-4) in auto)
qed

lemma table_step_ids: "table_step idf R P rs rs' \<Longrightarrow> distinct (map idf rs) \<Longrightarrow> distinct (map idf rs')"
  by (auto simp: table_step_def comp_def cong: map_cong)

lemma table_step_find:
  assumes "table_step idf R P rs rs'" and "find_row idf rs i = Some r"
  shows "\<exists>r'. find_row idf rs' i = Some r' \<and> R r r'"
proof -
  obtain f news where f: "rs' = map f rs @ news" "\<forall>r\<in>set rs. idf (f r) = idf r \<and> R r (f r)"
    using assms(1) unfolding table_step_def by blast
  have "find_row idf (map f rs) i = map_option f (find_row idf rs i)"
    using f(2) unfolding find_row_def by (induction rs) auto
  then show ?thesis
    using assms(2) f find_row_id [OF assms(2)] by (auto simp: find_row_def find_append)
qed

lemma table_step_new:
  assumes "table_step idf R P rs rs'" and "find_row idf rs i = None" and "find_row idf rs' i = Some r'"
  shows "P r'"
proof -
  obtain f news where f: "rs' = map f rs @ news" "\<forall>r\<in>set rs. idf (f r) = idf r \<and> R r (f r)"
    "news = [] \<or> (\<exists>n. news = [n] \<and> idf n \<notin> idf ` set rs \<and> P n)"
    using assms(1) unfolding table_step_def by blast
  have "find_row idf (map f rs) i = map_option f (find_row idf rs i)"
    using f(2) unfolding find_row_def by (induction rs) auto
  then show ?thesis using assms(2,3) f by (auto simp: find_row_def find_append split: if_splits)
qed

lemma table_step_all:
  assumes "table_step idf R P rs rs'" and "list_all Q rs" and "\<And>r r'. R r r' \<Longrightarrow> Q r \<Longrightarrow> Q r'" and "\<And>n. P n \<Longrightarrow> Q n"
  shows "list_all Q rs'"
proof -
  obtain f news where f: "rs' = map f rs @ news" "\<forall>r\<in>set rs. R r (f r)" "news = [] \<or> (\<exists>n. news = [n] \<and> P n)"
    using assms(1) unfolding table_step_def by blast
  have "Q (f r)" if "r \<in> set rs" for r
    using assms(3) [of r "f r"] f(2) that assms(2) by (simp add: list_all_iff)
  then show ?thesis using f(1,3) assms(4) by (auto simp: list_all_iff)
qed

lemma find_row_None: "find_row idf rows i = None \<longleftrightarrow> i \<notin> idf ` set rows"
  by (auto simp: find_row_def find_None_iff')

subsection \<open>The interface of a workflow\<close>

text \<open>
  \<open>exec op s\<close> is the state after the operation, whether it returned or threw, and \<open>inv\<close> the
  invariant of the tables (identifiers are unique). The laws: an operation keeps the invariant,
  it leaves the status of an existing row or makes a move, and never removes a row; a row it
  creates has the initial status or one that moves lead to from there.
\<close>

locale workflow =
  fixes inv :: "'s \<Rightarrow> bool"
    and status_at :: "'s \<Rightarrow> uuid \<Rightarrow> 'st option"
    and exec :: "'op \<Rightarrow> 's \<Rightarrow> 's"
    and move :: "'st \<Rightarrow> 'st \<Rightarrow> bool"
    and initial :: 'st
  assumes exec_inv: "inv s \<Longrightarrow> inv (exec op s)"
    and exec_moves: "inv s \<Longrightarrow> status_at s i = Some a \<Longrightarrow>
      \<exists>b. status_at (exec op s) i = Some b \<and> (b = a \<or> move a b)"
    and exec_creates: "inv s \<Longrightarrow> status_at s i = None \<Longrightarrow>
      status_at (exec op s) i = None \<or> (\<exists>b. status_at (exec op s) i = Some b \<and> move\<^sup>*\<^sup>* initial b)"
begin

definition run :: "'op list \<Rightarrow> 's \<Rightarrow> 's" where
  "run ops s = foldl (\<lambda>s op. exec op s) s ops"

lemma run_simps [simp]: "run [] s = s" "run (op # ops) s = run ops (exec op s)"
  by (simp_all add: run_def)

lemma run_inv: "inv s \<Longrightarrow> inv (run ops s)"
  by (induction ops arbitrary: s) (simp_all add: exec_inv)

lemma run_moves:
  "inv s \<Longrightarrow> status_at s i = Some a \<Longrightarrow> \<exists>b. status_at (run ops s) i = Some b \<and> move\<^sup>*\<^sup>* a b"
proof (induction ops arbitrary: s a)
  case Nil
  then show ?case by auto
next
  case (Cons op ops)
  obtain c where c: "status_at (exec op s) i = Some c" "c = a \<or> move a c"
    using exec_moves [OF Cons.prems] by blast
  then obtain b where "status_at (run ops (exec op s)) i = Some b" "move\<^sup>*\<^sup>* c b"
    using Cons.IH [OF exec_inv [OF Cons.prems(1)]] by blast
  with c(2) show ?case by (auto intro: converse_rtranclp_into_rtranclp)
qed

text \<open>A status without moves is final: no history of operations changes it.\<close>

lemma run_final:
  assumes "inv s" and "status_at s i = Some a" and "\<And>b. \<not> move a b"
  shows "status_at (run ops s) i = Some a"
proof -
  obtain b where "status_at (run ops s) i = Some b" "move\<^sup>*\<^sup>* a b" using run_moves [OF assms(1,2)] by blast
  with assms(3) show ?thesis by (auto elim: converse_rtranclpE)
qed

text \<open>Every status of a new row is reachable from the initial one.\<close>

lemma run_created:
  assumes "inv s" and "status_at s i = None" and "status_at (run ops s) i = Some b"
  shows "move\<^sup>*\<^sup>* initial b"
  using assms
proof (induction ops arbitrary: s)
  case Nil
  then show ?case by simp
next
  case (Cons op ops)
  note inv' = exec_inv [OF Cons.prems(1), of op]
  from exec_creates [OF Cons.prems(1,2), of op] show ?case
  proof
    assume "status_at (exec op s) i = None"
    then show ?thesis using Cons.IH [OF inv'] Cons.prems(3) by simp
  next
    assume "\<exists>c. status_at (exec op s) i = Some c \<and> move\<^sup>*\<^sup>* initial c"
    then obtain c where c: "status_at (exec op s) i = Some c" "move\<^sup>*\<^sup>* initial c" by blast
    from run_moves [OF inv' c(1), of ops] c(2) show ?thesis using Cons.prems(3) by auto
  qed
qed

lemma run_closed:
  assumes "inv s" and "status_at s i = Some a" and "Q a" and "\<And>x y. Q x \<Longrightarrow> move x y \<Longrightarrow> Q y"
  shows "\<exists>b. status_at (run ops s) i = Some b \<and> Q b"
proof -
  obtain b where b: "status_at (run ops s) i = Some b" and "move\<^sup>*\<^sup>* a b"
    using run_moves [OF assms(1,2)] by blast
  from this(2) have "Q b" by (induction rule: rtranclp_induct) (use assms in auto)
  with b show ?thesis by blast
qed

end

end
