(* ===== verification/Order_Balances.thy ===== *)
theory Order_Balances
  imports Journal_Reads Workflow
begin

text \<open>
  What an invoice still owes: the batch computation and the flags of
  \<open>src/finance/debt-customer-aggregates.util.ts\<close> and the settlement status of
  \<open>src/finance/invoice-payment-status.service.ts\<close>. The order table is a list; \<open>findMany\<close>
  without an \<open>orderBy\<close> returns its rows in table order here. \<open>with_journal\<close> says whether the
  caller's database object offers \<open>journalLine\<close>.
\<close>

record order_row =
  or_id :: uuid
  or_customerId :: "uuid option"
  or_totalPrice :: decimal
  or_status :: order_status

definition isV20_4FinalLedgerEnabled :: "env \<Rightarrow> bool" where
  "isV20_4FinalLedgerEnabled env = flag_on (V20_4_FINAL_LEDGER env)"

definition isV20_3TrueAccountingEnabled :: "env \<Rightarrow> bool" where
  "isV20_3TrueAccountingEnabled env =
     (if isV20_4FinalLedgerEnabled env then True else flag_on (V20_3_TRUE_ACCOUNTING env))"

definition getCustomerNetDebtFromDebtLedgerAgg :: "'z journal_db_scheme \<Rightarrow> bool \<Rightarrow> uuid \<Rightarrow> decimal \<times> decimal \<times> decimal" where
  "getCustomerNetDebtFromDebtLedgerAgg db with_journal c =
     (if with_journal then
        let bal = clamp0 (foldl add_line 0 (map snd (find_lines db (\<lambda>e. je_customerId e = Some c) ''1300'')))
        in (bal, 0, bal)
      else (0, 0, 0))"

record wallet_row =
  wl_customerId :: uuid
  wl_balance :: decimal
  wl_debt :: decimal

definition getCustomerDebtSnapshotTotalKd :: "wallet_row list \<Rightarrow> uuid \<Rightarrow> decimal" where
  "getCustomerDebtSnapshotTotalKd wallets c =
     (let wallet = find (\<lambda>w. wl_customerId w = c) wallets;
          walletDebt = nullish (map_option wl_debt wallet) 0;
          balance = nullish (map_option wl_balance wallet) 0;
          subscriptionOveruseDebt = (if balance < 0 then \<bar>balance\<bar> else 0)
      in walletDebt + subscriptionOveruseDebt)"

subsection \<open>Remaining balances of orders\<close>

text \<open>Adding each line to the total of its key; lines without a key are skipped.\<close>

definition tally :: "(journal_entry \<Rightarrow> uuid option) \<Rightarrow> (journal_line \<Rightarrow> decimal) \<Rightarrow>
    (journal_entry \<times> journal_line) list \<Rightarrow> (uuid \<rightharpoonup> decimal)" where
  "tally key amount = foldl (\<lambda>m (e, l). case key e of
       None \<Rightarrow> m
     | Some k \<Rightarrow> if k = [] then m else m(k \<mapsto> nullish (m k) 0 + amount l)) Map.empty"

text \<open>The credits of one customer, spent on his orders one after the other.\<close>

fun apply_credit :: "decimal \<Rightarrow> uuid list \<Rightarrow> (uuid \<rightharpoonup> decimal) \<Rightarrow> (uuid \<rightharpoonup> decimal)" where
  "apply_credit budget [] m = m"
| "apply_credit budget (oid # oids) m =
     (if budget \<le> 0 then m
      else
        let net = nullish (m oid) 0
        in if net \<le> 0 then apply_credit budget oids m
           else
             let applied = min budget net
             in apply_credit (budget - applied) oids (m(oid \<mapsto> net - applied)))"

definition journal_net_by_order :: "'z journal_db_scheme \<Rightarrow> uuid list \<Rightarrow> (uuid \<rightharpoonup> decimal)" where
  "journal_net_by_order db activeOrderIds = tally je_orderId line_amount
     (find_lines db (\<lambda>e. \<exists>i\<in>set activeOrderIds. je_orderId e = Some i) ''1300'')"

definition credit_by_customer :: "'z journal_db_scheme \<Rightarrow> uuid list \<Rightarrow> (uuid \<rightharpoonup> decimal)" where
  "credit_by_customer db customerIds = tally je_customerId jl_credit
     (filter (\<lambda>(e, l). jl_credit l > 0)
       (find_lines db (\<lambda>e. je_orderId e = None \<and> (\<exists>c\<in>set customerIds. je_customerId e = Some c)) ''1300''))"

definition active_orders :: "order_row list \<Rightarrow> uuid list \<Rightarrow> order_row list" where
  "active_orders orderTable orderIds =
     filter (\<lambda>r. or_id r \<in> set orderIds \<and> or_status r \<noteq> CANCELED) orderTable"

definition canceled_out :: "order_row list \<Rightarrow> uuid list \<Rightarrow> (uuid \<rightharpoonup> decimal)" where
  "canceled_out orderTable orderIds = foldl (\<lambda>m r. m(or_id r \<mapsto> 0)) Map.empty
     (filter (\<lambda>r. or_id r \<in> set orderIds \<and> or_status r = CANCELED) orderTable)"

text \<open>The customer of an order, \<open>None\<close> when it is missing or empty.\<close>

definition customer_of :: "order_row \<Rightarrow> uuid option" where
  "customer_of r = (case or_customerId r of None \<Rightarrow> None | Some c \<Rightarrow> if c = [] then None else Some c)"

definition customer_ids :: "order_row list \<Rightarrow> uuid list" where
  "customer_ids activeOrders = remdups (List.map_filter customer_of activeOrders)"

definition spend_credits :: "(uuid \<rightharpoonup> decimal) \<Rightarrow> order_row list \<Rightarrow> (uuid \<rightharpoonup> decimal) \<Rightarrow> (uuid \<rightharpoonup> decimal)" where
  "spend_credits credits activeOrders net = foldl (\<lambda>m c. apply_credit (nullish (credits c) 0)
     (map or_id (filter (\<lambda>r. customer_of r = Some c \<and> m (or_id r) \<noteq> None) activeOrders)) m)
     net (customer_ids activeOrders)"

definition computeOrderRemainingBalancesBatch :: "env \<Rightarrow> 'z journal_db_scheme \<Rightarrow> bool \<Rightarrow> order_row list \<Rightarrow>
    uuid list \<Rightarrow> (uuid \<rightharpoonup> decimal)" where
  "computeOrderRemainingBalancesBatch env db with_journal orderTable orderIds =
     (let activeOrders = active_orders orderTable orderIds;
          activeOrderIds = map or_id activeOrders;
          out = canceled_out orderTable orderIds
      in if orderIds = [] then Map.empty
         else if activeOrders = [] then out
         else if with_journal \<and> isJournalAsSourceEnabled env then
           let net = journal_net_by_order db activeOrderIds;
               preBackfillIds = filter (\<lambda>i. net i = None) activeOrderIds;
               net' = spend_credits (credit_by_customer db (customer_ids activeOrders)) activeOrders net;
               out' = foldl (\<lambda>m oid. if oid \<in> set preBackfillIds then m
                   else m(oid \<mapsto> clamp0 (nullish (net' oid) 0))) out activeOrderIds
           in foldl (\<lambda>m oid. m(oid \<mapsto> 0)) out' preBackfillIds
         else foldl (\<lambda>m oid. m(oid \<mapsto> 0)) out activeOrderIds)"

definition computeOrderRemainingBalance :: "env \<Rightarrow> 'z journal_db_scheme \<Rightarrow> bool \<Rightarrow> order_row list \<Rightarrow> uuid \<Rightarrow> decimal" where
  "computeOrderRemainingBalance env db with_journal orderTable orderId =
     nullish (computeOrderRemainingBalancesBatch env db with_journal orderTable [orderId] orderId) 0"

subsection \<open>Settlement status\<close>

definition INVOICE_REMAINING_TOLERANCE_KD :: decimal where
  "INVOICE_REMAINING_TOLERANCE_KD = 1 / 1000"

datatype invoice_payment_status = INVOICE_UNPAID | PARTIALLY_PAID | PAID
datatype balance_source = JOURNAL_AR | DEBT_LEDGER

record remaining_breakdown =
  rb_remainingKd :: decimal
  rb_totalKd :: decimal
  rb_paidKd :: decimal
  rb_walletAbsorbedKd :: decimal
  rb_source :: balance_source

definition computeFromDebtLedger :: "decimal \<Rightarrow> remaining_breakdown" where
  "computeFromDebtLedger totalKd = \<lparr>rb_remainingKd = totalKd, rb_totalKd = totalKd, rb_paidKd = 0,
     rb_walletAbsorbedKd = 0, rb_source = DEBT_LEDGER\<rparr>"

definition computeRemainingBalance :: "env \<Rightarrow> 'z journal_db_scheme \<Rightarrow> order_row list \<Rightarrow> uuid \<Rightarrow> remaining_breakdown" where
  "computeRemainingBalance env db orderTable orderId =
     (case find (\<lambda>r. or_id r = orderId) orderTable of
        None \<Rightarrow> computeFromDebtLedger 0
      | Some r \<Rightarrow>
          let totalKd = or_totalPrice r
          in if or_status r = CANCELED
             then (computeFromDebtLedger 0)\<lparr>rb_totalKd := totalKd\<rparr>
             else
               let lines = map snd (find_lines db (\<lambda>e. je_orderId e = Some orderId) ''1300'')
               in if isV20_3TrueAccountingEnabled env \<and> lines \<noteq> []
                  then (computeFromDebtLedger totalKd)\<lparr>rb_remainingKd := clamp0 (foldl add_line 0 lines),
                         rb_source := JOURNAL_AR\<rparr>
                  else computeFromDebtLedger totalKd)"

definition statusFromRemaining :: "decimal \<Rightarrow> decimal \<Rightarrow> decimal \<Rightarrow> invoice_payment_status" where
  "statusFromRemaining totalKd applied remaining =
     (if remaining \<le> INVOICE_REMAINING_TOLERANCE_KD then PAID
      else if applied > INVOICE_REMAINING_TOLERANCE_KD \<or> totalKd - remaining > INVOICE_REMAINING_TOLERANCE_KD
      then PARTIALLY_PAID else INVOICE_UNPAID)"

record payment_status_row =
  ps_totalAmountKd :: string
  ps_paidAmountKd :: string
  ps_remainingAmountKd :: string
  ps_walletAbsorbedKd :: string
  ps_status :: invoice_payment_status
  ps_isPartiallyPaid :: bool
  ps_isFullyPaid :: bool
  ps_source :: balance_source

definition derivePaymentStatus :: "env \<Rightarrow> 'z journal_db_scheme \<Rightarrow> order_row list \<Rightarrow> uuid \<Rightarrow> payment_status_row" where
  "derivePaymentStatus env db orderTable orderId =
     (let b = computeRemainingBalance env db orderTable orderId;
          status = statusFromRemaining (rb_totalKd b) (rb_paidKd b + rb_walletAbsorbedKd b) (rb_remainingKd b)
      in \<lparr>ps_totalAmountKd = to_fixed4 (rb_totalKd b), ps_paidAmountKd = to_fixed4 (rb_paidKd b),
          ps_remainingAmountKd = to_fixed4 (rb_remainingKd b),
          ps_walletAbsorbedKd = to_fixed4 (rb_walletAbsorbedKd b), ps_status = status,
          ps_isPartiallyPaid = (status = PARTIALLY_PAID), ps_isFullyPaid = (status = PAID),
          ps_source = rb_source b\<rparr>)"

subsection \<open>Spending the credits\<close>

definition open_total :: "uuid list \<Rightarrow> (uuid \<rightharpoonup> decimal) \<Rightarrow> decimal" where
  "open_total oids m = (\<Sum>i\<leftarrow>oids. max 0 (nullish (m i) 0))"

lemma open_total_Cons: "open_total (i # is) m = max 0 (nullish (m i) 0) + open_total is m"
  by (simp add: open_total_def)

lemma open_total_nonneg: "0 \<le> open_total oids m"
  unfolding open_total_def by (rule sum_list_nonneg_rat) simp

lemma apply_credit_other: "i \<notin> set oids \<Longrightarrow> apply_credit b oids m i = m i"
  by (induction b oids m rule: apply_credit.induct) (auto simp: Let_def)

lemma open_total_cong: "(\<And>i. i \<in> set oids \<Longrightarrow> m i = m' i) \<Longrightarrow> open_total oids m = open_total oids m'"
  unfolding open_total_def by (induction oids) auto

lemma apply_credit_total:
  assumes "distinct oids" and "0 \<le> b"
  shows "open_total oids (apply_credit b oids m) = max 0 (open_total oids m - b)"
  using assms
proof (induction b oids m rule: apply_credit.induct)
  case (1 b m)
  then show ?case by (simp add: open_total_def)
next
  case (2 b oid oids m)
  let ?net = "nullish (m oid) 0"
  show ?case
  proof (cases "b \<le> 0")
    case True
    then show ?thesis using 2 open_total_nonneg [of "oid # oids" m] by simp
  next
    case b: False
    show ?thesis
    proof (cases "?net \<le> 0")
      case True
      then have "open_total oids (apply_credit b oids m) = max 0 (open_total oids m - b)"
        using 2 b by (simp add: Let_def)
      moreover have "apply_credit b oids m oid = m oid" using 2 by (simp add: apply_credit_other)
      ultimately show ?thesis using True b by (simp add: open_total_Cons)
    next
      case False
      let ?a = "min b ?net" and ?m = "m(oid \<mapsto> ?net - min b ?net)"
      have rest: "open_total oids (apply_credit (b - ?a) oids ?m) = max 0 (open_total oids ?m - (b - ?a))"
        using "2.IH"(2) [OF b refl False refl] "2.prems"(1) by (simp add: fun_upd_def)
      have "open_total oids ?m = open_total oids m" using 2 by (intro open_total_cong) auto
      moreover have "apply_credit (b - ?a) oids ?m oid = Some (?net - ?a)"
        using 2 by (simp add: apply_credit_other)
      ultimately show ?thesis using rest b False open_total_nonneg [of oids m]
        by (simp add: open_total_Cons Let_def max_def min_def)
    qed
  qed
qed

lemma fold_set_value: "foldl (\<lambda>m i. m(i \<mapsto> f i)) m is j = (if j \<in> set is then Some (f j) else m j)"
  by (induction "is" arbitrary: m) auto

lemma fold_set_if:
  "foldl (\<lambda>m i. if P i then m else m(i \<mapsto> f i)) m is j = (if j \<in> set is \<and> \<not> P j then Some (f j) else m j)"
  by (induction "is" arbitrary: m) auto

definition order_ids_ok :: "order_row list \<Rightarrow> bool" where
  "order_ids_ok orders \<longleftrightarrow> distinct (map or_id orders)"

lemma find_order: "order_ids_ok orders \<Longrightarrow> r \<in> set orders \<Longrightarrow> find (\<lambda>x. or_id x = or_id r) orders = Some r"
  unfolding order_ids_ok_def by (rule find_distinct_key)

lemma order_id_inj: "order_ids_ok orders \<Longrightarrow> r \<in> set orders \<Longrightarrow> r' \<in> set orders \<Longrightarrow> or_id r = or_id r' \<Longrightarrow> r = r'"
  by (auto simp: order_ids_ok_def distinct_map inj_on_def)

lemma canceled_value:
  "canceled_out orders ids i =
     (if \<exists>r\<in>set orders. or_id r = i \<and> i \<in> set ids \<and> or_status r = CANCELED then Some 0 else None)"
proof -
  have "foldl (\<lambda>m r. m(or_id r \<mapsto> 0)) m0 rs i = (if i \<in> or_id ` set rs then Some (0 :: decimal) else m0 i)"
    for m0 and rs :: "order_row list"
    by (induction rs arbitrary: m0) auto
  then show ?thesis by (auto simp: canceled_out_def)
qed

definition remaining_of :: "env \<Rightarrow> 'z journal_db_scheme \<Rightarrow> bool \<Rightarrow> order_row list \<Rightarrow> uuid list \<Rightarrow> uuid \<Rightarrow> decimal" where
  "remaining_of env db j orders ids i =
     (let active = active_orders orders ids; net = journal_net_by_order db (map or_id active)
      in if j \<and> isJournalAsSourceEnabled env \<and> net i \<noteq> None
         then clamp0 (nullish (spend_credits (credit_by_customer db (customer_ids active)) active net i) 0)
         else 0)"

lemma batch_shape:
  "computeOrderRemainingBalancesBatch env db j orders ids i =
     (if i \<in> or_id ` set (active_orders orders ids) then Some (remaining_of env db j orders ids i)
      else canceled_out orders ids i)"
proof (cases "active_orders orders ids = []")
  case True
  then show ?thesis
    by (auto simp: computeOrderRemainingBalancesBatch_def canceled_value Let_def)
next
  case False
  then have "ids \<noteq> []" by (auto simp: active_orders_def)
  with False show ?thesis
    by (auto simp: computeOrderRemainingBalancesBatch_def remaining_of_def Let_def fold_set_value fold_set_if)
qed

text \<open>
  the batch answers for every order it is asked about and only for these: an order that
  exists has a balance, never a negative one, a canceled order owes nothing, and an unknown
  identifier is absent, with the journal as the source or without it.
\<close>

theorem remaining_batch_total:
  assumes "order_ids_ok orders"
  shows "(computeOrderRemainingBalancesBatch env db j orders ids i \<noteq> None
        \<longleftrightarrow> i \<in> set ids \<and> i \<in> or_id ` set orders)
    \<and> (case computeOrderRemainingBalancesBatch env db j orders ids i of None \<Rightarrow> True | Some x \<Rightarrow> 0 \<le> x)
    \<and> (r \<in> set orders \<and> or_status r = CANCELED \<and> or_id r \<in> set ids \<longrightarrow>
        computeOrderRemainingBalancesBatch env db j orders ids (or_id r) = Some 0)"
proof -
  have nonneg: "0 \<le> remaining_of env db j orders ids i"
    by (simp add: remaining_of_def Let_def clamp0_def)
  have "or_id r \<notin> or_id ` set (active_orders orders ids)" if "r \<in> set orders" "or_status r = CANCELED"
    using order_id_inj [OF assms] that by (auto simp: active_orders_def)
  then show ?thesis using nonneg
    by (auto simp: batch_shape canceled_value active_orders_def)
qed

lemma tally_nonneg:
  assumes "\<And>e l. (e, l) \<in> set xs \<Longrightarrow> 0 \<le> amount l"
  shows "0 \<le> nullish (tally key amount xs k) 0"
proof -
  have "0 \<le> nullish (foldl (\<lambda>m (e, l). case key e of
       None \<Rightarrow> m | Some k \<Rightarrow> if k = [] then m else m(k \<mapsto> nullish (m k) 0 + amount l)) m xs k) 0"
    if "\<And>k. 0 \<le> nullish (m k) 0" for m
    using assms that
  proof (induction xs arbitrary: m)
    case Nil
    then show ?case by simp
  next
    case (Cons x xs)
    obtain e l where x: "x = (e, l)" by (cases x)
    let ?m = "case key e of None \<Rightarrow> m
      | Some k \<Rightarrow> if k = [] then m else m(k \<mapsto> nullish (m k) 0 + amount l)"
    have tail: "0 \<le> amount l" if "(e, l) \<in> set xs" for e l
      by (rule Cons.prems(1) [of e]) (simp add: that)
    have "0 \<le> nullish (?m k) 0" for k
      using Cons.prems by (auto simp: x intro: add_nonneg_nonneg split: option.split)
    from Cons.IH [OF tail this] show ?case by (simp add: x)
  qed
  then show ?thesis by (simp add: tally_def)
qed

lemma credit_nonneg: "0 \<le> nullish (credit_by_customer db cs c) 0"
  unfolding credit_by_customer_def by (rule tally_nonneg) auto

definition tracked :: "order_row list \<Rightarrow> (uuid \<rightharpoonup> decimal) \<Rightarrow> uuid \<Rightarrow> uuid list" where
  "tracked active net c = map or_id (filter (\<lambda>r. customer_of r = Some c \<and> net (or_id r) \<noteq> None) active)"

lemma tracked_disjoint:
  "order_ids_ok active \<Longrightarrow> r \<in> set active \<Longrightarrow> customer_of r = Some c \<Longrightarrow> c' \<noteq> c \<Longrightarrow> or_id r \<notin> set (tracked active m c')"
  using order_id_inj by (fastforce simp: tracked_def)

lemma tracked_cong:
  "(\<And>r. r \<in> set active \<Longrightarrow> customer_of r = Some c \<Longrightarrow> m (or_id r) = m' (or_id r)) \<Longrightarrow>
     tracked active m c = tracked active m' c"
  unfolding tracked_def by (intro arg_cong [where f = "map or_id"] filter_cong) auto

lemma apply_credit_cong:
  "(\<And>k. k = i \<or> k \<in> set is \<Longrightarrow> m1 k = m2 k) \<Longrightarrow> apply_credit b is m1 i = apply_credit b is m2 i"
proof (induction "is" arbitrary: b m1 m2)
  case Nil
  then show ?case by simp
next
  case (Cons x xs)
  have x: "m1 x = m2 x" using Cons.prems by simp
  have i: "m1 i = m2 i" using Cons.prems by simp
  have keep: "apply_credit b' xs m1 i = apply_credit b' xs m2 i" for b'
    by (rule Cons.IH) (rule Cons.prems, fastforce)
  have upd: "apply_credit b' xs (m1(x \<mapsto> v)) i = apply_credit b' xs (m2(x \<mapsto> v)) i" for b' v
  proof (rule Cons.IH)
    fix k assume "k = i \<or> k \<in> set xs"
    then have "m1 k = m2 k" by (intro Cons.prems) auto
    then show "(m1(x \<mapsto> v)) k = (m2(x \<mapsto> v)) k" by simp
  qed
  show ?case by (simp only: apply_credit.simps Let_def x i keep upd if_distrib [of "\<lambda>f. f i"])
qed

lemma spend_fold:
  assumes ok: "order_ids_ok active" and d: "distinct cs" and r: "r \<in> set active" "customer_of r = Some c"
  shows "foldl (\<lambda>m c. apply_credit (nullish (credits c) 0) (tracked active m c) m) m cs (or_id r)
     = (if c \<in> set cs then apply_credit (nullish (credits c) 0) (tracked active m c) m (or_id r) else m (or_id r))"
  using d
proof (induction cs arbitrary: m)
  case Nil
  then show ?case by simp
next
  case (Cons x cs)
  let ?m = "apply_credit (nullish (credits x) 0) (tracked active m x) m"
  have other: "?m (or_id r') = m (or_id r')" if "r' \<in> set active" "customer_of r' = Some c" "x \<noteq> c" for r'
    using tracked_disjoint [OF ok that(1,2,3)] by (rule apply_credit_other)
  show ?case
  proof (cases "x = c")
    case True
    then show ?thesis using Cons by simp
  next
    case False
    have keep: "apply_credit b (tracked active ?m c) ?m (or_id r) = apply_credit b (tracked active m c) m (or_id r)" for b
    proof -
      have t: "tracked active ?m c = tracked active m c" using other False by (intro tracked_cong) simp
      show ?thesis
        unfolding t by (rule apply_credit_cong) (use other False r in \<open>auto simp: tracked_def\<close>)
    qed
    show ?thesis using Cons False keep other [OF r] by simp
  qed
qed

text \<open>
  C23: the payments a customer made without naming an order are spent on his orders in full and
  never beyond: with the journal as the source, what his orders of the batch still owe adds up
  to what their own entries leave open minus those credits, or to nothing when the credits are
  larger, in whatever order the database returns the rows.
\<close>

theorem credits_spent_exactly:
  fixes ids :: "uuid list" and db :: "'z journal_db_scheme"
  assumes "order_ids_ok orders" and "isJournalAsSourceEnabled env"
  defines "active \<equiv> active_orders orders ids"
  defines "net \<equiv> journal_net_by_order db (map or_id active)"
  shows "(\<Sum>i\<leftarrow>tracked active net c. nullish (computeOrderRemainingBalancesBatch env db True orders ids i) 0)
    = max 0 ((\<Sum>i\<leftarrow>tracked active net c. max 0 (nullish (net i) 0))
        - nullish (credit_by_customer db (customer_ids active) c) 0)"
proof -
  let ?t = "tracked active net c" and ?b = "nullish (credit_by_customer db (customer_ids active) c) 0"
  have ok: "order_ids_ok active"
    using assms(1) by (simp add: order_ids_ok_def active_def active_orders_def distinct_map_filter)
  have "nullish (computeOrderRemainingBalancesBatch env db True orders ids i) 0
      = max 0 (nullish (apply_credit ?b ?t net i) 0)" if i: "i \<in> set ?t" for i
  proof -
    obtain r where r: "r \<in> set active" "customer_of r = Some c" "i = or_id r" "net i \<noteq> None"
      using i by (auto simp: tracked_def)
    have "c \<in> set (customer_ids active)"
      using r(1,2) by (force simp: customer_ids_def List.map_filter_def)
    then have "spend_credits (credit_by_customer db (customer_ids active)) active net i
        = apply_credit ?b ?t net i"
      using spend_fold [OF ok _ r(1,2), of "customer_ids active"] r(3)
      unfolding spend_credits_def tracked_def [symmetric] by (simp add: customer_ids_def)
    then show ?thesis using r assms(2)
      by (simp add: batch_shape active_def [symmetric] remaining_of_def Let_def net_def [symmetric]
          clamp0_def max_def)
  qed
  then have "(\<Sum>i\<leftarrow>?t. nullish (computeOrderRemainingBalancesBatch env db True orders ids i) 0)
      = open_total ?t (apply_credit ?b ?t net)"
    unfolding open_total_def by (intro arg_cong [where f = sum_list] map_cong) auto
  also have "\<dots> = max 0 (open_total ?t net - ?b)"
    using ok by (intro apply_credit_total credit_nonneg) (simp add: tracked_def order_ids_ok_def distinct_map_filter)
  finally show ?thesis by (simp add: open_total_def)
qed

text \<open>
  with the accounting flags off the two ways to ask for the balance of an order contradict
  each other. The single computation, documented as a waterfall over payments, reports the
  whole price as unpaid whatever the journal holds, the batch, documented as the same
  computation for many orders, reports that nothing is owed.
\<close>

theorem single_and_batch_disagree:
  assumes "\<not> isV20_3TrueAccountingEnabled env" and "\<not> isJournalAsSourceEnabled env"
    and "order_ids_ok orders" and "r \<in> set orders" and "or_status r \<noteq> CANCELED"
  shows "rb_remainingKd (computeRemainingBalance env db orders (or_id r)) = or_totalPrice r
    \<and> computeOrderRemainingBalancesBatch env db j orders [or_id r] (or_id r) = Some 0"
proof -
  have "or_id r \<in> or_id ` set (active_orders orders [or_id r])"
    using assms(4,5) by (auto simp: active_orders_def)
  then show ?thesis using assms find_order [OF assms(3,4)]
    by (simp add: batch_shape remaining_of_def computeRemainingBalance_def computeFromDebtLedger_def Let_def)
qed

text \<open>
  with true accounting on, an order with entries of its own is shown as paid exactly when
  the receivable of the order is at most 0.001 KD, and it is never shown as paid and partially
  paid at once; a canceled order and an unknown one are shown as paid.
\<close>

theorem paid_iff_receivable_cleared:
  assumes "isV20_3TrueAccountingEnabled env"
  shows "(find (\<lambda>r. or_id r = i) orders = Some r \<and> or_status r \<noteq> CANCELED
        \<and> find_lines db (\<lambda>e. je_orderId e = Some i) ''1300'' \<noteq> [] \<longrightarrow>
        (ps_isFullyPaid (derivePaymentStatus env db orders i) \<longleftrightarrow> getOrderArBalance db i \<le> 1 / 1000))
    \<and> (find (\<lambda>r. or_id r = i) orders = None \<or> (find (\<lambda>r. or_id r = i) orders = Some r \<and> or_status r = CANCELED)
        \<longrightarrow> ps_isFullyPaid (derivePaymentStatus env db orders i))
    \<and> \<not> (ps_isFullyPaid (derivePaymentStatus env db orders i) \<and> ps_isPartiallyPaid (derivePaymentStatus env db orders i))"
  using assms
  by (auto simp: derivePaymentStatus_def computeRemainingBalance_def computeFromDebtLedger_def Let_def
      statusFromRemaining_def INVOICE_REMAINING_TOLERANCE_KD_def getOrderArBalance_def ACCOUNTS_RECEIVABLE_def)

definition example_orders :: "order_row list" where
  "example_orders = [\<lparr>or_id = ''o1'', or_customerId = Some ''c1'', or_totalPrice = 25 / 2, or_status = ORDER_COMPLETED\<rparr>,
     \<lparr>or_id = ''o2'', or_customerId = Some ''c1'', or_totalPrice = 3, or_status = CANCELED\<rparr>]"

lemma example_orders_ok: "order_ids_ok example_orders"
  by (simp add: order_ids_ok_def example_orders_def)

definition journal_env :: env where
  "journal_env = example_env\<lparr>V20_4_FINAL_LEDGER := Some '' TRUE ''\<rparr>"

lemma journal_env_on: "isJournalAsSourceEnabled journal_env" "isV20_3TrueAccountingEnabled journal_env"
  by code_simp+

theorem remaining_batch_total_witness:
  "computeOrderRemainingBalancesBatch journal_env example_statement_db True example_orders [''o1'', ''o2'', ''x''] ''x'' = None
   \<and> computeOrderRemainingBalancesBatch journal_env example_statement_db True example_orders [''o1'', ''o2'', ''x''] ''o2'' = Some 0"
  using remaining_batch_total [OF example_orders_ok, of journal_env example_statement_db True
      "[''o1'', ''o2'', ''x'']" "''x''" "example_orders ! 1"]
  by (auto simp: example_orders_def)

theorem credits_spent_exactly_witness:
  "(\<Sum>i\<leftarrow>tracked (active_orders example_orders [''o1'']) (journal_net_by_order example_statement_db
        (map or_id (active_orders example_orders [''o1'']))) ''c1''.
      nullish (computeOrderRemainingBalancesBatch journal_env example_statement_db True example_orders [''o1''] i) 0) = 5 / 2"
proof -
  have "tracked (active_orders example_orders [''o1'']) (journal_net_by_order example_statement_db
        (map or_id (active_orders example_orders [''o1'']))) ''c1'' = [''o1'']" by code_simp
  moreover have "journal_net_by_order example_statement_db (map or_id (active_orders example_orders [''o1''])) ''o1'' = Some (5 / 2)"
    by code_simp
  moreover have "credit_by_customer example_statement_db (customer_ids (active_orders example_orders [''o1''])) ''c1'' = None"
    by code_simp
  ultimately show ?thesis
    using credits_spent_exactly [OF example_orders_ok journal_env_on(1), of example_statement_db "[''o1'']" "''c1''"]
    by simp
qed

theorem single_and_batch_disagree_witness:
  "rb_remainingKd (computeRemainingBalance example_env example_statement_db example_orders ''o1'') = 25 / 2
   \<and> computeOrderRemainingBalancesBatch example_env example_statement_db True example_orders [''o1''] ''o1'' = Some 0"
proof -
  have off: "\<not> isV20_3TrueAccountingEnabled example_env" "\<not> isJournalAsSourceEnabled example_env" by code_simp+
  show ?thesis
    using single_and_batch_disagree [OF off example_orders_ok, of "example_orders ! 0" example_statement_db True]
    by (simp add: example_orders_def)
qed

theorem paid_iff_receivable_cleared_witness:
  "\<not> ps_isFullyPaid (derivePaymentStatus journal_env example_statement_db example_orders ''o1'')"
proof -
  have "getOrderArBalance example_statement_db ''o1'' = 5 / 2" by code_simp
  moreover have "find_lines example_statement_db (\<lambda>e. je_orderId e = Some ''o1'') ''1300'' \<noteq> []" by code_simp
  ultimately show ?thesis
    using paid_iff_receivable_cleared [OF journal_env_on(2), of "''o1''" example_orders "example_orders ! 0" example_statement_db]
    by (simp add: example_orders_def)
qed

end
