(* ===== verification/Loans.thy ===== *)
theory Loans
  imports Workflow Money Journal_Store
begin

text \<open>
  \<open>src/loans/loans.service.ts\<close>: employee loans. PENDING loans are approved (which makes them
  ACTIVE) or rejected, and deductions, by hand or by the payroll of a month, bring an active
  loan down to SETTLED. Amounts that arrive as JavaScript numbers are rounded to four
  decimals as the code does; the division by the number of instalments keeps 20 significant
  digits, more than the rounding to four decimals that follows can see.
\<close>

datatype loan_status = LOAN_PENDING | LOAN_APPROVED | LOAN_ACTIVE | LOAN_SETTLED | LOAN_REJECTED

record loan =
  ln_id :: uuid
  ln_userId :: uuid
  ln_amount :: decimal
  ln_installmentCount :: int
  ln_monthlyDeduction :: decimal
  ln_remaining :: decimal
  ln_reason :: "string option"
  ln_status :: loan_status
  ln_approvedById :: "uuid option"
  ln_approvedAt :: "timestamp option"
  ln_rejectedReason :: "string option"
  ln_lastDeductionYearMonth :: "string option"
  ln_createdAt :: timestamp

definition canSeeAllLoans :: "safari_role \<Rightarrow> bool" where
  "canSeeAllLoans role \<longleftrightarrow> role = OWNER \<or> role = GENERAL_MANAGER \<or> role = ACCOUNTANT"

definition canApproveLoan :: "safari_role \<Rightarrow> bool" where
  "canApproveLoan role \<longleftrightarrow> role = OWNER \<or> role = ACCOUNTANT"

abbreviation find_loan :: "loan list \<Rightarrow> uuid \<Rightarrow> loan option" where
  "find_loan \<equiv> find_row ln_id"

abbreviation update_loan :: "uuid \<Rightarrow> (loan \<Rightarrow> loan) \<Rightarrow> loan list \<Rightarrow> loan list" where
  "update_loan \<equiv> update_row ln_id"

record create_loan =
  cl_userId :: "uuid option"
  cl_amount :: decimal
  cl_installmentCount :: decimal
  cl_reason :: "string option"

text \<open>\<open>new_id\<close> is the identifier the database draws for the row.\<close>

definition create_loan_row :: "env \<Rightarrow> uuid \<Rightarrow> loan list \<Rightarrow> safari_role \<Rightarrow> uuid \<Rightarrow> create_loan \<Rightarrow>
    loan result \<times> loan list" where
  "create_loan_row env new_id db actorRole actorUserId dto =
     (if of_int (floor (cl_installmentCount dto)) \<noteq> cl_installmentCount dto
         \<or> cl_installmentCount dto < 1 \<or> cl_installmentCount dto > 12
      then (Inl (BadRequestException ''installmentCount must be an integer between 1 and 12''), db)
      else
        let amount = dec4 (cl_amount dto);
            monthly = dec4 (amount / cl_installmentCount dto);
            targetUserId = (if canApproveLoan actorRole then nullish (cl_userId dto) actorUserId
              else actorUserId);
            row = \<lparr>ln_id = new_id, ln_userId = targetUserId, ln_amount = amount,
              ln_installmentCount = floor (cl_installmentCount dto), ln_monthlyDeduction = monthly,
              ln_remaining = amount, ln_reason = cl_reason dto, ln_status = LOAN_PENDING,
              ln_approvedById = None, ln_approvedAt = None, ln_rejectedReason = None,
              ln_lastDeductionYearMonth = None, ln_createdAt = now env\<rparr>
        in (Inr row, db @ [row]))"

definition find_one_loan :: "loan list \<Rightarrow> safari_role \<Rightarrow> uuid \<Rightarrow> uuid \<Rightarrow> loan result" where
  "find_one_loan db actorRole actorUserId i =
     (case find_loan db i of
        None \<Rightarrow> Inl (NotFoundException ''Loan not found'')
      | Some row \<Rightarrow> if \<not> canSeeAllLoans actorRole \<and> ln_userId row \<noteq> actorUserId
          then Inl (ForbiddenException ''Forbidden'') else Inr row)"

record loans_query =
  lq_status :: "loan_status option"
  lq_userId :: "uuid option"

definition list_loans :: "loan list \<Rightarrow> safari_role \<Rightarrow> uuid \<Rightarrow> loans_query \<Rightarrow> loan list" where
  "list_loans db actorRole actorUserId q =
     (let user = (if canSeeAllLoans actorRole then lq_userId q else Some actorUserId)
      in take 500 (sort_key (\<lambda>l. - ln_createdAt l) (filter (\<lambda>l.
           (case lq_status q of None \<Rightarrow> True | Some st \<Rightarrow> ln_status l = st)
           \<and> (case user of None \<Rightarrow> True | Some u \<Rightarrow> ln_userId l = u)) db)))"

definition list_my_loans :: "loan list \<Rightarrow> uuid \<Rightarrow> loan list" where
  "list_my_loans db actorUserId =
     sort_key (\<lambda>l. - ln_createdAt l) (filter (\<lambda>l. ln_userId l = actorUserId) db)"

definition approve_loan :: "env \<Rightarrow> loan list \<Rightarrow> safari_role \<Rightarrow> uuid \<Rightarrow> uuid \<Rightarrow> unit result \<times> loan list" where
  "approve_loan env db actorRole actorUserId i =
     (if \<not> canApproveLoan actorRole then (Inl (ForbiddenException ''Forbidden''), db)
      else (case find_loan db i of
         None \<Rightarrow> (Inl (NotFoundException ''Loan not found''), db)
       | Some current \<Rightarrow>
           if ln_status current \<noteq> LOAN_PENDING
           then (Inl (BadRequestException ''Only PENDING loans can be approved''), db)
           else (Inr (), update_loan i (\<lambda>l. l\<lparr>ln_status := LOAN_ACTIVE,
             ln_approvedById := Some actorUserId, ln_approvedAt := Some (now env)\<rparr>) db)))"

definition reject_loan :: "env \<Rightarrow> loan list \<Rightarrow> safari_role \<Rightarrow> uuid \<Rightarrow> uuid \<Rightarrow> string \<Rightarrow> unit result \<times> loan list" where
  "reject_loan env db actorRole actorUserId i reason =
     (if \<not> canApproveLoan actorRole then (Inl (ForbiddenException ''Forbidden''), db)
      else (case find_loan db i of
         None \<Rightarrow> (Inl (NotFoundException ''Loan not found''), db)
       | Some current \<Rightarrow>
           if ln_status current \<noteq> LOAN_PENDING
           then (Inl (BadRequestException ''Only PENDING loans can be rejected''), db)
           else (Inr (), update_loan i (\<lambda>l. l\<lparr>ln_status := LOAN_REJECTED,
             ln_approvedById := Some actorUserId, ln_approvedAt := Some (now env),
             ln_rejectedReason := Some reason\<rparr>) db)))"

text \<open>The dated line a manual deduction adds to the reason (its Arabic words as UTF-8 bytes).\<close>

definition deduction_trail :: "env \<Rightarrow> decimal \<Rightarrow> string option \<Rightarrow> string" where
  "deduction_trail env deduction note = [CHR 0x0A, CHR 0x0A, CHR ''[''] @ iso_date (now env) @ ''] ''
     @ [CHR 0xD8, CHR 0xAE, CHR 0xD8, CHR 0xB5, CHR 0xD9, CHR 0x85, CHR 0x20, CHR 0xD9, CHR 0x8A, CHR 0xD8,
        CHR 0xAF, CHR 0xD9, CHR 0x88, CHR 0xD9, CHR 0x8A, CHR 0x20]
     @ to_fixed3 deduction @ [CHR 0x20, CHR 0xD8, CHR 0xAF, CHR 0x2E, CHR 0xD9, CHR 0x83]
     @ (if nullish note [] = [] then []
        else [CHR 0x20, CHR 0xE2, CHR 0x80, CHR 0x94, CHR 0x20] @ take 200 (nullish note []))"

definition next_status :: "loan \<Rightarrow> decimal \<Rightarrow> loan_status" where
  "next_status l nextRemaining = (if nextRemaining \<le> 0 then LOAN_SETTLED else ln_status l)"

text \<open>\<open>amountKd\<close> is a JavaScript number, \<open>None\<close> when it is not finite.\<close>

definition deductManual :: "env \<Rightarrow> loan list \<Rightarrow> safari_role \<Rightarrow> uuid \<Rightarrow> decimal option \<Rightarrow> string option \<Rightarrow>
    unit result \<times> loan list" where
  "deductManual env db actorRole loanId amountKd note =
     (if actorRole \<noteq> OWNER
      then (Inl (ForbiddenException ''Manual loan deductions are restricted to OWNER.''), db)
      else (case amountKd of
         None \<Rightarrow> (Inl (BadRequestException ''Amount must be a positive number''), db)
       | Some a \<Rightarrow>
           if a \<le> 0 then (Inl (BadRequestException ''Amount must be a positive number''), db)
           else (case find_loan db loanId of
              None \<Rightarrow> (Inl (NotFoundException ''Loan not found''), db)
            | Some loan \<Rightarrow>
                if ln_status loan \<noteq> LOAN_ACTIVE
                then (Inl (BadRequestException ''Only ACTIVE loans can be deducted manually''), db)
                else
                  let requested = dec4 a; deduction = min requested (ln_remaining loan)
                  in if deduction \<le> 0 then (Inl (BadRequestException ''Loan already settled''), db)
                     else
                       let nextRemaining = ln_remaining loan - deduction;
                           nextReason = nullish (ln_reason loan) [] @ deduction_trail env deduction note
                       in (Inr (), update_loan loanId (\<lambda>l. l\<lparr>ln_remaining := nextRemaining,
                            ln_status := next_status loan nextRemaining,
                            ln_reason := Some nextReason\<rparr>) db))))"

subsection \<open>Payroll instalments\<close>

text \<open>\<open>/^\d{4}-\d{2}$/\<close>\<close>

definition is_year_month :: "string \<Rightarrow> bool" where
  "is_year_month s \<longleftrightarrow> length s = 7 \<and> list_all is_digit (take 4 s) \<and> s ! 4 = CHR ''-''
     \<and> list_all is_digit (drop 5 s)"

definition instalment :: "loan \<Rightarrow> decimal" where
  "instalment l = min (ln_monthlyDeduction l) (ln_remaining l)"

definition book_update :: "string \<Rightarrow> loan \<Rightarrow> loan \<Rightarrow> loan" where
  "book_update ym loan = (let nextRemaining = ln_remaining loan - instalment loan
     in (\<lambda>l. l\<lparr>ln_remaining := nextRemaining, ln_status := next_status loan nextRemaining,
          ln_lastDeductionYearMonth := Some ym\<rparr>))"

definition bookPayrollInstalmentsFor :: "loan list \<Rightarrow> uuid \<Rightarrow> string \<Rightarrow> decimal result \<times> loan list" where
  "bookPayrollInstalmentsFor db userId ym =
     (if \<not> is_year_month ym then (Inl (BadRequestException ''yearMonth must match YYYY-MM''), db)
      else
        let active = sort_key ln_createdAt (filter (\<lambda>l. ln_userId l = userId
              \<and> ln_status l = LOAN_ACTIVE \<and> ln_remaining l > 0) db);
            (total, db') = foldl (\<lambda>(total, t) loan.
              if ln_lastDeductionYearMonth loan = Some ym then (total, t)
              else if ln_remaining loan \<le> 0 then (total, t)
              else if instalment loan \<le> 0 then (total, t)
              else (total + instalment loan, update_loan (ln_id loan) (book_update ym loan) t)) (0, db) active
        in (Inr total, db'))"

definition recalcUnbookedInstalmentsFor :: "loan list \<Rightarrow> uuid \<Rightarrow> string \<Rightarrow> decimal result \<times> loan list" where
  "recalcUnbookedInstalmentsFor db userId ym =
     (if \<not> is_year_month ym then (Inl (BadRequestException ''yearMonth must match YYYY-MM''), db)
      else
        let active = sort_key ln_createdAt (filter (\<lambda>l. ln_userId l = userId
              \<and> ln_status l = LOAN_ACTIVE \<and> ln_remaining l > 0 \<and> ln_lastDeductionYearMonth l = None) db);
            (total, db') = foldl (\<lambda>(total, t) loan.
              if ln_remaining loan \<le> 0 then (total, t)
              else if instalment loan \<le> 0 then (total, t)
              else (total + instalment loan, update_loan (ln_id loan) (book_update ym loan) t)) (0, db) active
        in (Inr total, db'))"

subsection \<open>The loops as one pass\<close>

definition due :: "uuid \<Rightarrow> string \<Rightarrow> loan \<Rightarrow> bool" where
  "due u ym l \<longleftrightarrow> ln_userId l = u \<and> ln_status l = LOAN_ACTIVE \<and> ln_remaining l > 0
     \<and> ln_lastDeductionYearMonth l \<noteq> Some ym \<and> 0 < instalment l"

definition booked :: "string \<Rightarrow> loan \<Rightarrow> loan" where
  "booked ym l = book_update ym l l"

lemma booked_simps [simp]:
  "ln_id (booked ym l) = ln_id l" "ln_userId (booked ym l) = ln_userId l"
  "ln_amount (booked ym l) = ln_amount l" "ln_remaining (booked ym l) = ln_remaining l - instalment l"
  "ln_monthlyDeduction (booked ym l) = ln_monthlyDeduction l"
  "ln_lastDeductionYearMonth (booked ym l) = Some ym"
  "ln_status (booked ym l) = (if ln_remaining l - instalment l \<le> 0 then LOAN_SETTLED else ln_status l)"
  by (simp_all add: booked_def book_update_def Let_def next_status_def)

lemma fold_skip:
  "foldl (\<lambda>(total, t) loan. if P loan then (total + f loan, g loan t) else (total, t)) (total0, t0) ls
     = (total0 + (\<Sum>l\<leftarrow>filter P ls. f l), foldl (\<lambda>t l. g l t) t0 (filter P ls))" for f :: "'a \<Rightarrow> decimal"
  by (induction ls arbitrary: total0 t0) (simp_all add: add.assoc)

lemma booking_pass:
  assumes "distinct (map ln_id db)" and "is_year_month ym"
  shows "bookPayrollInstalmentsFor db u ym =
    (Inr (\<Sum>l\<leftarrow>filter (due u ym) db. instalment l), map (\<lambda>l. if due u ym l then booked ym l else l) db)"
proof -
  let ?A = "\<lambda>l. ln_userId l = u \<and> ln_status l = LOAN_ACTIVE \<and> ln_remaining l > 0"
  let ?P = "\<lambda>l. ln_lastDeductionYearMonth l \<noteq> Some ym \<and> 0 < ln_remaining l \<and> 0 < instalment l"
  let ?active = "sort_key ln_createdAt (filter ?A db)"
  have step: "(\<lambda>(total, t) loan.
      if ln_lastDeductionYearMonth loan = Some ym then (total, t)
      else if ln_remaining loan \<le> 0 then (total, t)
      else if instalment loan \<le> 0 then (total, t)
      else (total + instalment loan, update_loan (ln_id loan) (book_update ym loan) t))
    = (\<lambda>(total, t) loan. if ?P loan
        then (total + instalment loan, update_loan (ln_id loan) (book_update ym loan) t) else (total, t))"
    by (auto simp: fun_eq_iff)
  have due: "?A l \<and> ?P l \<longleftrightarrow> due u ym l" for l by (auto simp: due_def)
  have ids: "distinct (map ln_id (filter ?P ?active))"
  proof -
    have "distinct (map ln_id (sort_key ln_createdAt xs))" if "distinct (map ln_id xs)" for xs
      using that by (simp add: distinct_map)
    from this [OF distinct_map_filter [OF assms(1)]] show ?thesis by (rule distinct_map_filter)
  qed
  have "foldl (\<lambda>t l. update_loan (ln_id l) (book_update ym l) t) db (filter ?P ?active)
      = map (\<lambda>l. if l \<in> set (filter ?P ?active) then booked ym l else l) db"
    by (rule fold_update_rows [OF assms(1) ids]) (auto simp: booked_def [symmetric])
  also have "\<dots> = map (\<lambda>l. if due u ym l then booked ym l else l) db"
    by (intro map_cong refl) (auto simp: due [symmetric])
  finally have rows: "foldl (\<lambda>t l. update_loan (ln_id l) (book_update ym l) t) db (filter ?P ?active)
      = map (\<lambda>l. if due u ym l then booked ym l else l) db" .
  have "(\<Sum>l\<leftarrow>filter ?P ?active. instalment l) = (\<Sum>l\<leftarrow>filter (due u ym) db. instalment l)"
  proof -
    have "due u ym = (\<lambda>l. ?A l \<and> ?P l)" by (auto simp: fun_eq_iff due_def)
    then show ?thesis by (simp only: sum_sort_key_filter filter_filter)
  qed
  then show ?thesis using assms(2) rows
    by (simp add: bookPayrollInstalmentsFor_def Let_def step fold_skip)
qed

lemma recalc_pass:
  assumes "distinct (map ln_id db)" and "is_year_month ym"
  shows "recalcUnbookedInstalmentsFor db u ym =
    (let d = (\<lambda>l. due u ym l \<and> ln_lastDeductionYearMonth l = None)
     in (Inr (\<Sum>l\<leftarrow>filter d db. instalment l), map (\<lambda>l. if d l then booked ym l else l) db))"
proof -
  let ?A = "\<lambda>l. ln_userId l = u \<and> ln_status l = LOAN_ACTIVE \<and> ln_remaining l > 0 \<and> ln_lastDeductionYearMonth l = None"
  let ?P = "\<lambda>l. 0 < ln_remaining l \<and> 0 < instalment l"
  let ?d = "\<lambda>l. due u ym l \<and> ln_lastDeductionYearMonth l = None"
  let ?active = "sort_key ln_createdAt (filter ?A db)"
  have step: "(\<lambda>(total, t) loan.
      if ln_remaining loan \<le> 0 then (total, t)
      else if instalment loan \<le> 0 then (total, t)
      else (total + instalment loan, update_loan (ln_id loan) (book_update ym loan) t))
    = (\<lambda>(total, t) loan. if ?P loan
        then (total + instalment loan, update_loan (ln_id loan) (book_update ym loan) t) else (total, t))"
    by (auto simp: fun_eq_iff)
  have d: "?d = (\<lambda>l. ?A l \<and> ?P l)" by (auto simp: fun_eq_iff due_def)
  have "distinct (map ln_id (sort_key ln_createdAt xs))" if "distinct (map ln_id xs)" for xs
    using that by (simp add: distinct_map)
  from this [OF distinct_map_filter [OF assms(1)]]
  have ids: "distinct (map ln_id (filter ?P ?active))" by (rule distinct_map_filter)
  have "foldl (\<lambda>t l. update_loan (ln_id l) (book_update ym l) t) db (filter ?P ?active)
      = map (\<lambda>l. if l \<in> set (filter ?P ?active) then booked ym l else l) db"
    by (rule fold_update_rows [OF assms(1) ids]) (auto simp: booked_def [symmetric])
  also have "\<dots> = map (\<lambda>l. if ?d l then booked ym l else l) db"
    by (intro map_cong refl) (auto simp: due_def)
  finally have rows: "foldl (\<lambda>t l. update_loan (ln_id l) (book_update ym l) t) db (filter ?P ?active)
      = map (\<lambda>l. if ?d l then booked ym l else l) db" .
  have "(\<Sum>l\<leftarrow>filter ?P ?active. instalment l) = (\<Sum>l\<leftarrow>filter ?d db. instalment l)"
    unfolding d by (simp only: sum_sort_key_filter filter_filter)
  then show ?thesis using assms(2) rows
    by (simp add: recalcUnbookedInstalmentsFor_def Let_def step fold_skip)
qed

subsection \<open>The workflow\<close>

datatype loan_op =
    CreateLoan env uuid safari_role uuid create_loan
  | ApproveLoan env safari_role uuid uuid
  | RejectLoan env safari_role uuid uuid string
  | DeductManual env safari_role uuid "decimal option" "string option"
  | BookPayroll uuid string
  | RecalcUnbooked uuid string

fun exec_loan :: "loan_op \<Rightarrow> loan list \<Rightarrow> loan list" where
  "exec_loan (CreateLoan env i role u dto) db =
     (if find_loan db i = None then snd (create_loan_row env i db role u dto) else db)"
| "exec_loan (ApproveLoan env role u i) db = snd (approve_loan env db role u i)"
| "exec_loan (RejectLoan env role u i reason) db = snd (reject_loan env db role u i reason)"
| "exec_loan (DeductManual env role i a note) db = snd (deductManual env db role i a note)"
| "exec_loan (BookPayroll u ym) db = snd (bookPayrollInstalmentsFor db u ym)"
| "exec_loan (RecalcUnbooked u ym) db = snd (recalcUnbookedInstalmentsFor db u ym)"

text \<open>The request validation (\<open>@Min(0.001) amount\<close>) never lets a negative amount through.\<close>

fun loan_op_valid :: "loan_op \<Rightarrow> bool" where
  "loan_op_valid (CreateLoan env i role u dto) = (0 \<le> cl_amount dto)"
| "loan_op_valid _ = True"

inductive loan_move :: "loan_status \<Rightarrow> loan_status \<Rightarrow> bool" where
  "loan_move LOAN_PENDING LOAN_ACTIVE"
| "loan_move LOAN_PENDING LOAN_REJECTED"
| "loan_move LOAN_ACTIVE LOAN_SETTLED"

inductive_simps loan_move_iff: "loan_move a b"

definition loan_ok :: "loan \<Rightarrow> bool" where
  "loan_ok l \<longleftrightarrow> 0 \<le> ln_remaining l \<and> ln_remaining l \<le> ln_amount l \<and> 0 \<le> ln_monthlyDeduction l
     \<and> (ln_status l = LOAN_SETTLED \<longrightarrow> ln_remaining l = 0)
     \<and> (ln_status l \<in> {LOAN_PENDING, LOAN_REJECTED} \<longrightarrow> ln_remaining l = ln_amount l)
     \<and> ln_status l \<noteq> LOAN_APPROVED"

definition loans_ok :: "loan list \<Rightarrow> bool" where
  "loans_ok db \<longleftrightarrow> distinct (map ln_id db) \<and> list_all loan_ok db"

text \<open>What an operation may do to one row.\<close>

definition row_step :: "loan \<Rightarrow> loan \<Rightarrow> bool" where
  "row_step l l' \<longleftrightarrow> ln_id l' = ln_id l \<and> ln_amount l' = ln_amount l \<and> ln_userId l' = ln_userId l
     \<and> ln_monthlyDeduction l' = ln_monthlyDeduction l
     \<and> (ln_status l' = ln_status l \<or> loan_move (ln_status l) (ln_status l'))
     \<and> (ln_remaining l' = ln_remaining l \<and> (ln_status l' = LOAN_SETTLED \<longrightarrow> ln_status l = LOAN_SETTLED)
        \<or> ln_status l = LOAN_ACTIVE \<and> ln_remaining l' < ln_remaining l
          \<and> (0 \<le> ln_remaining l \<longrightarrow> 0 \<le> ln_remaining l')
          \<and> (ln_status l' = LOAN_SETTLED \<longleftrightarrow> ln_remaining l' \<le> 0))"

lemma row_step_refl: "row_step l l"
  by (simp add: row_step_def)

lemma row_step_booked: "due u ym l \<Longrightarrow> row_step l (booked ym l)"
  by (auto simp: row_step_def due_def loan_move_iff instalment_def)

definition rows_step :: "loan list \<Rightarrow> loan list \<Rightarrow> bool" where
  "rows_step db db' \<longleftrightarrow> (\<exists>f. (\<forall>l\<in>set db. row_step l (f l)) \<and> db' = map f db)"

lemma rows_step_refl: "rows_step db db"
  unfolding rows_step_def by (rule exI [of _ id]) (simp add: row_step_refl)

lemma rows_step_update:
  assumes "\<And>l. l \<in> set db \<Longrightarrow> ln_id l = i \<Longrightarrow> row_step l (f l)"
  shows "rows_step db (update_loan i f db)"
  unfolding rows_step_def update_row_def
  using assms by (intro exI [of _ "\<lambda>r. if ln_id r = i then f r else r"]) (auto simp: row_step_refl)

lemma rows_step_map: "(\<And>l. l \<in> set db \<Longrightarrow> P l \<Longrightarrow> row_step l (f l)) \<Longrightarrow> rows_step db (map (\<lambda>l. if P l then f l else l) db)"
  unfolding rows_step_def by (intro exI [of _ "\<lambda>l. if P l then f l else l"]) (auto simp: row_step_refl)

lemma unique_row: "distinct (map ln_id db) \<Longrightarrow> find_loan db i = Some l \<Longrightarrow> k \<in> set db \<Longrightarrow> ln_id k = i \<Longrightarrow> k = l"
  using find_row_distinct [of ln_id db k] by auto

lemma exec_loan_step:
  assumes d: "distinct (map ln_id db)"
  shows "rows_step db (exec_loan op db)
    \<or> (\<exists>l. exec_loan op db = db @ [l] \<and> ln_status l = LOAN_PENDING \<and> ln_remaining l = ln_amount l
         \<and> find_loan db (ln_id l) = None
         \<and> (loan_op_valid op \<longrightarrow> 0 \<le> ln_amount l \<and> 0 \<le> ln_monthlyDeduction l))"
proof (cases op)
  case (CreateLoan env i role u dto)
  then show ?thesis
    by (auto simp: create_loan_row_def Let_def rows_step_refl not_less dec4_nonneg)
next
  case (ApproveLoan env role u i)
  show ?thesis
    unfolding ApproveLoan exec_loan.simps approve_loan_def
    by (auto simp: rows_step_refl row_step_def loan_move_iff split: option.split
        intro!: rows_step_update dest: unique_row [OF d])
next
  case (RejectLoan env role u i reason)
  show ?thesis
    unfolding RejectLoan exec_loan.simps reject_loan_def
    by (auto simp: rows_step_refl row_step_def loan_move_iff split: option.split
        intro!: rows_step_update dest: unique_row [OF d])
next
  case (DeductManual env role i a text_opt)
  show ?thesis
    unfolding DeductManual exec_loan.simps deductManual_def
    by (auto simp: rows_step_refl row_step_def loan_move_iff Let_def next_status_def min_def
        split: option.split intro!: rows_step_update dest!: unique_row [OF d])
next
  case (BookPayroll u ym)
  then show ?thesis
  proof (cases "is_year_month ym")
    case True
    then show ?thesis using booking_pass [OF d True, of u]
      by (auto simp: BookPayroll intro!: rows_step_map row_step_booked)
  qed (simp add: bookPayrollInstalmentsFor_def rows_step_refl)
next
  case (RecalcUnbooked u ym)
  then show ?thesis
  proof (cases "is_year_month ym")
    case True
    then show ?thesis using recalc_pass [OF d True, of u]
      by (auto simp: RecalcUnbooked Let_def intro!: rows_step_map row_step_booked)
  qed (simp add: recalcUnbookedInstalmentsFor_def rows_step_refl)
qed

definition loan_status_at :: "loan list \<Rightarrow> uuid \<Rightarrow> loan_status option" where
  "loan_status_at db i = map_option ln_status (find_loan db i)"

definition loan_ids_ok :: "loan list \<Rightarrow> bool" where
  "loan_ids_ok db \<longleftrightarrow> distinct (map ln_id db)"

lemma find_loan_map:
  "(\<And>l. l \<in> set db \<Longrightarrow> ln_id (f l) = ln_id l) \<Longrightarrow> find_loan (map f db) i = map_option f (find_loan db i)"
  unfolding find_row_def by (induction db) auto

lemma find_loan_None: "find_loan db i = None \<longleftrightarrow> i \<notin> ln_id ` set db"
  by (auto simp: find_row_def find_None_iff')

lemma rows_step_ids: "rows_step db db' \<Longrightarrow> map ln_id db' = map ln_id db"
  by (auto simp: rows_step_def row_step_def)

lemma exec_loan_ids: "loan_ids_ok db \<Longrightarrow> loan_ids_ok (exec_loan op db)"
  using exec_loan_step [of db op]
  by (auto simp: loan_ids_ok_def rows_step_ids find_loan_None)

interpretation loans: workflow loan_ids_ok loan_status_at exec_loan loan_move LOAN_PENDING
proof unfold_locales
  fix s :: "loan list" and op i a
  assume inv: "loan_ids_ok s"
  then show "loan_ids_ok (exec_loan op s)" by (rule exec_loan_ids)
  from inv have step: "rows_step s (exec_loan op s) \<or> (\<exists>l. exec_loan op s = s @ [l]
      \<and> ln_status l = LOAN_PENDING \<and> find_loan s (ln_id l) = None)"
    using exec_loan_step [of s op] by (auto simp: loan_ids_ok_def)
  have find: "find_loan (map f s) i = map_option f (find_loan s i)" if "\<forall>l\<in>set s. row_step l (f l)" for f
    using that by (intro find_loan_map) (simp add: row_step_def)
  show "\<exists>b. loan_status_at (exec_loan op s) i = Some b \<and> (b = a \<or> loan_move a b)"
    if "loan_status_at s i = Some a"
    using step that
    by (auto simp: loan_status_at_def rows_step_def find table_simps)
      (auto dest!: find_row_id simp: row_step_def)
  show "loan_status_at (exec_loan op s) i = None \<or> (\<exists>b. loan_status_at (exec_loan op s) i = Some b
      \<and> loan_move\<^sup>*\<^sup>* LOAN_PENDING b)"
    if "loan_status_at s i = None"
    using step that by (auto simp: loan_status_at_def rows_step_def find table_simps)
qed

lemma loan_reach: "loan_move\<^sup>*\<^sup>* LOAN_PENDING b \<Longrightarrow> b \<noteq> LOAN_APPROVED"
  by (erule rtranclp_induct) (auto simp: loan_move_iff)

lemma row_step_ok: "row_step l l' \<Longrightarrow> loan_ok l \<Longrightarrow> loan_ok l'"
  by (auto simp: row_step_def loan_ok_def loan_move_iff)

lemma exec_loan_ok:
  assumes ok: "loans_ok db" and v: "loan_op_valid op"
  shows "loans_ok (exec_loan op db)"
proof -
  have d: "distinct (map ln_id db)" using ok by (simp add: loans_ok_def)
  have ids: "distinct (map ln_id (exec_loan op db))"
    using exec_loan_ids [of db op] d by (simp add: loan_ids_ok_def)
  have "list_all loan_ok (exec_loan op db)"
    using exec_loan_step [OF d, of op]
  proof
    assume "rows_step db (exec_loan op db)"
    then show ?thesis using ok row_step_ok
      by (auto simp: rows_step_def loans_ok_def list_all_iff) blast
  next
    assume "\<exists>l. exec_loan op db = db @ [l] \<and> ln_status l = LOAN_PENDING \<and> ln_remaining l = ln_amount l
         \<and> find_loan db (ln_id l) = None
         \<and> (loan_op_valid op \<longrightarrow> 0 \<le> ln_amount l \<and> 0 \<le> ln_monthlyDeduction l)"
    then show ?thesis using ok v by (auto simp: loans_ok_def loan_ok_def)
  qed
  with ids show ?thesis by (simp add: loans_ok_def)
qed

definition run_loans :: "loan_op list \<Rightarrow> loan list \<Rightarrow> loan list" where
  "run_loans ops db = foldl (\<lambda>s op. exec_loan op s) db ops"

lemma run_loans_eq: "run_loans ops db = loans.run ops db"
  by (simp add: run_loans_def loans.run_def)

lemma run_loans_ok: "loans_ok db \<Longrightarrow> list_all loan_op_valid ops \<Longrightarrow> loans_ok (run_loans ops db)"
  by (induction ops arbitrary: db) (simp_all add: run_loans_def exec_loan_ok)

text \<open>
  the life of a loan. Whatever operations are called in whatever order, by whomever and
  with whatever result, every loan owes between nothing and its amount, owes its full amount
  until it is approved and nothing once settled; a rejected or settled loan keeps its status
  for ever, and no loan ever has the status APPROVED (approval makes it ACTIVE at once).
\<close>

theorem loans_life_cycle:
  assumes "loans_ok db" and "list_all loan_op_valid ops"
  shows "loans_ok (run_loans ops db)
    \<and> (loan_status_at db i \<in> {Some LOAN_REJECTED, Some LOAN_SETTLED} \<longrightarrow>
        loan_status_at (run_loans ops db) i = loan_status_at db i)
    \<and> (loan_status_at db i = None \<longrightarrow> loan_status_at (run_loans ops db) i \<noteq> Some LOAN_APPROVED)"
proof -
  have inv: "loan_ids_ok db" using assms(1) by (simp add: loans_ok_def loan_ids_ok_def)
  have "loan_status_at (loans.run ops db) i \<noteq> Some LOAN_APPROVED" if "loan_status_at db i = None"
    using loans.run_created [OF inv that] loan_reach by blast
  then show ?thesis
    using run_loans_ok [OF assms] loans.run_final [OF inv]
    unfolding run_loans_eq by (auto simp: loan_move_iff)
qed

subsection \<open>Payroll months\<close>

lemma due_user: "due u ym l \<Longrightarrow> ln_userId l = u"
  by (simp add: due_def)

lemma not_due_twice: "\<not> due u ym (booked ym l)"
  by (simp add: due_def)

lemma sum_booked:
  "(\<Sum>l\<leftarrow>db. ln_remaining l) - (\<Sum>l\<leftarrow>map (\<lambda>l. if due u ym l then booked ym l else l) db. ln_remaining l)
     = (\<Sum>l\<leftarrow>filter (due u ym) db. instalment l)"
  by (induction db) auto

text \<open>
  booking the payroll of a month takes exactly what it reports: the total is what the open
  balances of the loans go down by, it is not negative, the loans of other employees and the
  number of loans stay as they are, and running the same month again takes nothing and changes
  nothing.
\<close>

theorem payroll_booking:
  fixes u :: uuid
  assumes "loans_ok db" and "is_year_month ym"
  defines "after \<equiv> snd (bookPayrollInstalmentsFor db u ym)"
  shows "fst (bookPayrollInstalmentsFor db u ym)
        = Inr ((\<Sum>l\<leftarrow>db. ln_remaining l) - (\<Sum>l\<leftarrow>after. ln_remaining l))
    \<and> (\<Sum>l\<leftarrow>after. ln_remaining l) \<le> (\<Sum>l\<leftarrow>db. ln_remaining l)
    \<and> filter (\<lambda>l. ln_userId l \<noteq> u) after = filter (\<lambda>l. ln_userId l \<noteq> u) db
    \<and> length after = length db
    \<and> bookPayrollInstalmentsFor after u ym = (Inr 0, after)"
proof -
  let ?f = "\<lambda>l. if due u ym l then booked ym l else l"
  have d: "distinct (map ln_id db)" using assms(1) by (simp add: loans_ok_def)
  have after: "after = map ?f db" by (simp add: after_def booking_pass [OF d assms(2)])
  have d': "distinct (map ln_id after)" using d by (simp add: after comp_def if_distrib [of ln_id] cong: if_cong)
  have none: "filter (due u ym) after = []" by (auto simp: after filter_empty_conv not_due_twice)
  have "map (\<lambda>l. if due u ym l then booked ym l else l) after = after"
    using none by (intro map_idI) (auto simp: filter_empty_conv)
  then have again: "bookPayrollInstalmentsFor after u ym = (Inr 0, after)"
    using booking_pass [OF d' assms(2), of u] none by simp
  have "filter (\<lambda>l. ln_userId l \<noteq> u) after = filter (\<lambda>l. ln_userId l \<noteq> u) db"
    unfolding after by (induction db) (auto dest: due_user)
  moreover have "0 \<le> (\<Sum>l\<leftarrow>filter (due u ym) db. instalment l)"
    by (rule sum_list_nonneg_rat) (auto simp: due_def)
  ultimately show ?thesis
    using sum_booked [of db u ym] again booking_pass [OF d assms(2), of u] by (simp add: after)
qed

definition book_months :: "uuid \<Rightarrow> string list \<Rightarrow> loan list \<Rightarrow> loan list" where
  "book_months u yms db = foldl (\<lambda>db ym. snd (bookPayrollInstalmentsFor db u ym)) db yms"

fun charge :: "uuid \<Rightarrow> string list \<Rightarrow> loan \<Rightarrow> loan" where
  "charge u [] l = l"
| "charge u (ym # yms) l = charge u yms (if due u ym l then booked ym l else l)"

lemma charge_id [simp]: "ln_id (charge u yms l) = ln_id l"
  by (induction yms arbitrary: l) auto

lemma book_months_charge:
  "distinct (map ln_id db) \<Longrightarrow> list_all is_year_month yms \<Longrightarrow> book_months u yms db = map (charge u yms) db"
proof (induction yms arbitrary: db)
  case Nil
  then show ?case by (simp add: book_months_def)
next
  case (Cons ym yms)
  let ?db = "map (\<lambda>l. if due u ym l then booked ym l else l) db"
  have "distinct (map ln_id ?db)"
    using Cons.prems(1) by (simp add: comp_def if_distrib [of ln_id] cong: if_cong)
  moreover have "book_months u (ym # yms) db = book_months u yms ?db"
    using Cons.prems by (simp add: book_months_def booking_pass)
  ultimately show ?case using Cons by simp
qed

definition marks :: "loan \<Rightarrow> string list \<Rightarrow> string list" where
  "marks l yms = (case ln_lastDeductionYearMonth l of None \<Rightarrow> yms | Some y \<Rightarrow> y # yms)"

lemma charge_settled: "ln_remaining l \<le> 0 \<Longrightarrow> charge u yms l = l"
  by (induction yms) (simp_all add: due_def)

lemma charge_remaining:
  assumes "ln_userId l = u" "ln_status l = LOAN_ACTIVE" "0 < ln_remaining l" "0 < ln_monthlyDeduction l"
    and "successively (\<noteq>) (marks l yms)"
  shows "ln_remaining (charge u yms l) = max 0 (ln_remaining l - of_nat (length yms) * ln_monthlyDeduction l)
    \<and> (ln_status (charge u yms l) = LOAN_SETTLED
        \<longleftrightarrow> ln_remaining l \<le> of_nat (length yms) * ln_monthlyDeduction l)"
  using assms
proof (induction yms arbitrary: l)
  case Nil
  then show ?case by simp
next
  case (Cons ym yms)
  have due: "due u ym l"
    using Cons.prems by (auto simp: due_def instalment_def marks_def split: option.splits)
  have step: "charge u (ym # yms) l = charge u yms (booked ym l)" using due by simp
  show ?case
  proof (cases "ln_remaining l \<le> ln_monthlyDeduction l")
    case True
    have "0 \<le> of_nat (length yms) * ln_monthlyDeduction l" using Cons.prems(4) by simp
    with True show ?thesis
      unfolding step by (simp add: charge_settled instalment_def min_def algebra_simps)
  next
    case False
    have "successively (\<noteq>) (marks (booked ym l) yms)"
      using Cons.prems(5) by (auto simp: marks_def successively_Cons split: option.splits)
    with Cons.IH [of "booked ym l"] Cons.prems False show ?thesis
      unfolding step by (simp add: instalment_def min_def algebra_simps)
  qed
qed

text \<open>
  C24: how a loan is paid off. Booking the payroll of a sequence of months takes one instalment
  for each, cut off at what is left, and the loan is settled exactly when the instalments cover
  it. The sequence need only change the month from one booking to the next: a month that was
  booked, followed by another one and booked again, is charged a second time.
\<close>

theorem instalments_pay_off:
  assumes "loans_ok db" "find_loan db i = Some l" "ln_userId l = u" "ln_status l = LOAN_ACTIVE"
    "0 < ln_remaining l" "0 < ln_monthlyDeduction l"
    "list_all is_year_month yms" "successively (\<noteq>) (marks l yms)"
  shows "\<exists>l'. find_loan (book_months u yms db) i = Some l'
    \<and> ln_remaining l' = max 0 (ln_remaining l - of_nat (length yms) * ln_monthlyDeduction l)
    \<and> (ln_status l' = LOAN_SETTLED \<longleftrightarrow> ln_remaining l \<le> of_nat (length yms) * ln_monthlyDeduction l)"
proof -
  have "book_months u yms db = map (charge u yms) db"
    using assms(1,7) by (simp add: loans_ok_def book_months_charge)
  then show ?thesis using charge_remaining assms by (simp add: find_loan_map)
qed

definition example_loan :: loan where
  "example_loan = \<lparr>ln_id = ''l1'', ln_userId = ''u1'', ln_amount = 100, ln_installmentCount = 4,
     ln_monthlyDeduction = 25, ln_remaining = 100, ln_reason = None, ln_status = LOAN_ACTIVE,
     ln_approvedById = None, ln_approvedAt = None, ln_rejectedReason = None,
     ln_lastDeductionYearMonth = None, ln_createdAt = 0\<rparr>"

lemma example_loan_ok: "loans_ok [example_loan]"
  by (simp add: loans_ok_def loan_ok_def example_loan_def)

lemma example_months: "list_all is_year_month [''2026-03'', ''2026-04'', ''2026-03'']"
  by code_simp

theorem loans_life_cycle_witness:
  "loans_ok (run_loans [BookPayroll ''u1'' ''2026-03'', ApproveLoan example_env OWNER ''u2'' ''l1''] [example_loan])"
  using loans_life_cycle [OF example_loan_ok, of "[BookPayroll ''u1'' ''2026-03'',
    ApproveLoan example_env OWNER ''u2'' ''l1'']"] by simp

theorem payroll_booking_witness:
  "bookPayrollInstalmentsFor (snd (bookPayrollInstalmentsFor [example_loan] ''u1'' ''2026-03'')) ''u1'' ''2026-03''
     = (Inr 0, snd (bookPayrollInstalmentsFor [example_loan] ''u1'' ''2026-03''))"
  using payroll_booking [OF example_loan_ok, of "''2026-03''" "''u1''"] example_months by simp

text \<open>March is charged twice here: the loan of 100 owes 25 after March, April and March again.\<close>

theorem instalments_pay_off_witness:
  "\<exists>l'. find_loan (book_months ''u1'' [''2026-03'', ''2026-04'', ''2026-03''] [example_loan]) ''l1'' = Some l'
     \<and> ln_remaining l' = 25"
proof -
  have "find_loan [example_loan] ''l1'' = Some example_loan"
    by (simp add: find_row_def example_loan_def)
  from instalments_pay_off [OF example_loan_ok this, of "''u1''" "[''2026-03'', ''2026-04'', ''2026-03'']"]
  show ?thesis using example_months by (auto simp: example_loan_def marks_def)
qed

end
