(* ===== verification/Leaves.thy ===== *)
theory Leaves
  imports Workflow Journal_Store
begin

text \<open>
  \<open>src/leaves/leaves.service.ts\<close>: leave requests. A request is created PENDING for the caller,
  an approver approves or rejects it, and its owner may cancel it while it is PENDING. A date
  is its time value, \<open>None\<close> when the string does not parse (\<open>NaN\<close>).
\<close>

datatype leave_type = ANNUAL | SICK | UNPAID_LEAVE | EMERGENCY
datatype leave_status = LEAVE_PENDING | LEAVE_APPROVED | LEAVE_REJECTED | LEAVE_CANCELLED

record leave_request =
  lv_id :: uuid
  lv_userId :: uuid
  lv_type :: leave_type
  lv_startDate :: timestamp
  lv_endDate :: timestamp
  lv_daysCount :: int
  lv_reason :: "string option"
  lv_status :: leave_status
  lv_approvedById :: "uuid option"
  lv_approvedAt :: "timestamp option"
  lv_rejectedReason :: "string option"
  lv_createdAt :: timestamp

record create_leave =
  cv_type :: leave_type
  cv_startDate :: "timestamp option"
  cv_endDate :: "timestamp option"
  cv_reason :: "string option"

record leaves_query =
  vq_status :: "leave_status option"
  vq_type :: "leave_type option"
  vq_userId :: "uuid option"
  vq_from :: "timestamp option"
  vq_to :: "timestamp option"

definition isApprover :: "safari_role \<Rightarrow> bool" where
  "isApprover role \<longleftrightarrow> role = OWNER \<or> role = GENERAL_MANAGER \<or> role = MANAGER \<or> role = ACCOUNTANT"

definition diffDays :: "timestamp \<Rightarrow> timestamp \<Rightarrow> int" where
  "diffDays start stop = max 1 ((stop - start) div MS_PER_DAY + 1)"

abbreviation find_leave :: "leave_request list \<Rightarrow> uuid \<Rightarrow> leave_request option" where
  "find_leave \<equiv> find_row lv_id"

abbreviation update_leave :: "uuid \<Rightarrow> (leave_request \<Rightarrow> leave_request) \<Rightarrow> leave_request list \<Rightarrow> leave_request list" where
  "update_leave \<equiv> update_row lv_id"

definition create_leave_row :: "env \<Rightarrow> uuid \<Rightarrow> leave_request list \<Rightarrow> uuid \<Rightarrow> create_leave \<Rightarrow>
    leave_request result \<times> leave_request list" where
  "create_leave_row env new_id db actorUserId dto =
     (case (cv_startDate dto, cv_endDate dto) of
        (Some start, Some stop) \<Rightarrow>
          if stop < start then (Inl (BadRequestException ''endDate must be on/after startDate''), db)
          else
            let row = \<lparr>lv_id = new_id, lv_userId = actorUserId, lv_type = cv_type dto, lv_startDate = start,
                  lv_endDate = stop, lv_daysCount = diffDays start stop, lv_reason = cv_reason dto,
                  lv_status = LEAVE_PENDING, lv_approvedById = None, lv_approvedAt = None,
                  lv_rejectedReason = None, lv_createdAt = now env\<rparr>
            in (Inr row, db @ [row])
      | _ \<Rightarrow> (Inl (BadRequestException ''Invalid dates''), db))"

definition option_le :: "'a option \<Rightarrow> ('a \<Rightarrow> bool) \<Rightarrow> bool" where
  "option_le f P = (case f of None \<Rightarrow> True | Some x \<Rightarrow> P x)"

definition list_leaves :: "leave_request list \<Rightarrow> safari_role \<Rightarrow> uuid \<Rightarrow> leaves_query \<Rightarrow> leave_request list" where
  "list_leaves db actorRole actorUserId q =
     (let user = (if isApprover actorRole then vq_userId q else Some actorUserId)
      in take 500 (sort_key (\<lambda>r. - lv_createdAt r) (filter (\<lambda>r.
           option_le (vq_status q) (\<lambda>x. lv_status r = x) \<and> option_le (vq_type q) (\<lambda>x. lv_type r = x)
           \<and> option_le user (\<lambda>x. lv_userId r = x) \<and> option_le (vq_from q) (\<lambda>x. x \<le> lv_startDate r)
           \<and> option_le (vq_to q) (\<lambda>x. lv_startDate r \<le> x)) db)))"

definition list_my_leaves :: "leave_request list \<Rightarrow> uuid \<Rightarrow> leave_request list" where
  "list_my_leaves db actorUserId =
     sort_key (\<lambda>r. - lv_createdAt r) (filter (\<lambda>r. lv_userId r = actorUserId) db)"

definition find_one_leave :: "leave_request list \<Rightarrow> safari_role \<Rightarrow> uuid \<Rightarrow> uuid \<Rightarrow> leave_request result" where
  "find_one_leave db actorRole actorUserId i =
     (case find_leave db i of
        None \<Rightarrow> Inl (NotFoundException ''Leave request not found'')
      | Some row \<Rightarrow> if \<not> isApprover actorRole \<and> lv_userId row \<noteq> actorUserId
          then Inl (ForbiddenException ''Forbidden'') else Inr row)"

definition approve_leave :: "env \<Rightarrow> leave_request list \<Rightarrow> safari_role \<Rightarrow> uuid \<Rightarrow> uuid \<Rightarrow>
    unit result \<times> leave_request list" where
  "approve_leave env db actorRole actorUserId i =
     (if \<not> isApprover actorRole then (Inl (ForbiddenException ''Forbidden''), db)
      else (case find_leave db i of
         None \<Rightarrow> (Inl (NotFoundException ''Leave request not found''), db)
       | Some current \<Rightarrow>
           if lv_status current \<noteq> LEAVE_PENDING
           then (Inl (BadRequestException ''Only PENDING requests can be approved''), db)
           else (Inr (), update_leave i (\<lambda>r. r\<lparr>lv_status := LEAVE_APPROVED,
             lv_approvedById := Some actorUserId, lv_approvedAt := Some (now env)\<rparr>) db)))"

definition reject_leave :: "env \<Rightarrow> leave_request list \<Rightarrow> safari_role \<Rightarrow> uuid \<Rightarrow> uuid \<Rightarrow> string \<Rightarrow>
    unit result \<times> leave_request list" where
  "reject_leave env db actorRole actorUserId i reason =
     (if \<not> isApprover actorRole then (Inl (ForbiddenException ''Forbidden''), db)
      else (case find_leave db i of
         None \<Rightarrow> (Inl (NotFoundException ''Leave request not found''), db)
       | Some current \<Rightarrow>
           if lv_status current \<noteq> LEAVE_PENDING
           then (Inl (BadRequestException ''Only PENDING requests can be rejected''), db)
           else (Inr (), update_leave i (\<lambda>r. r\<lparr>lv_status := LEAVE_REJECTED,
             lv_approvedById := Some actorUserId, lv_approvedAt := Some (now env),
             lv_rejectedReason := Some reason\<rparr>) db)))"

definition cancel_leave :: "leave_request list \<Rightarrow> uuid \<Rightarrow> uuid \<Rightarrow> unit result \<times> leave_request list" where
  "cancel_leave db actorUserId i =
     (case find_leave db i of
        None \<Rightarrow> (Inl (NotFoundException ''Leave request not found''), db)
      | Some current \<Rightarrow>
          if lv_userId current \<noteq> actorUserId then (Inl (ForbiddenException ''Forbidden''), db)
          else if lv_status current \<noteq> LEAVE_PENDING
          then (Inl (BadRequestException ''Only your own PENDING request can be cancelled''), db)
          else (Inr (), update_leave i (\<lambda>r. r\<lparr>lv_status := LEAVE_CANCELLED\<rparr>) db))"

subsection \<open>The workflow\<close>

datatype leave_op =
    CreateLeave env uuid uuid create_leave
  | ApproveLeave env safari_role uuid uuid
  | RejectLeave env safari_role uuid uuid string
  | CancelLeave uuid uuid

fun exec_leave :: "leave_op \<Rightarrow> leave_request list \<Rightarrow> leave_request list" where
  "exec_leave (CreateLeave env i u dto) db = snd (create_leave_row env i db u dto)"
| "exec_leave (ApproveLeave env role u i) db = snd (approve_leave env db role u i)"
| "exec_leave (RejectLeave env role u i reason) db = snd (reject_leave env db role u i reason)"
| "exec_leave (CancelLeave u i) db = snd (cancel_leave db u i)"

inductive leave_move :: "leave_status \<Rightarrow> leave_status \<Rightarrow> bool" where
  "leave_move LEAVE_PENDING LEAVE_APPROVED"
| "leave_move LEAVE_PENDING LEAVE_REJECTED"
| "leave_move LEAVE_PENDING LEAVE_CANCELLED"

inductive_simps leave_move_iff: "leave_move a b"

definition leave_status_at :: "leave_request list \<Rightarrow> uuid \<Rightarrow> leave_status option" where
  "leave_status_at db i = map_option lv_status (find_leave db i)"

lemmas leave_op_defs = create_leave_row_def approve_leave_def reject_leave_def cancel_leave_def

interpretation leaves: workflow "\<lambda>_. True" leave_status_at exec_leave leave_move LEAVE_PENDING
proof unfold_locales
  fix s :: "leave_request list" and op i a
  show "True" ..
  show "\<exists>b. leave_status_at (exec_leave op s) i = Some b \<and> (b = a \<or> leave_move a b)"
    if "leave_status_at s i = Some a"
    using that
    by (cases op)
      (auto simp: leave_status_at_def leave_op_defs table_simps leave_move_iff Let_def split: option.split)
  show "leave_status_at (exec_leave op s) i = None \<or> (\<exists>b. leave_status_at (exec_leave op s) i = Some b
      \<and> leave_move\<^sup>*\<^sup>* LEAVE_PENDING b)"
    if "leave_status_at s i = None"
    using that
    by (cases op)
      (auto simp: leave_status_at_def leave_op_defs table_simps Let_def split: option.split)
qed

definition run_leaves :: "leave_op list \<Rightarrow> leave_request list \<Rightarrow> leave_request list" where
  "run_leaves ops db = foldl (\<lambda>s op. exec_leave op s) db ops"

lemma run_leaves_eq: "run_leaves ops db = leaves.run ops db"
  by (simp add: run_leaves_def leaves.run_def)

lemma leave_owner_kept:
  "find_leave db i = Some r \<Longrightarrow> \<exists>r'. find_leave (exec_leave op db) i = Some r' \<and> lv_userId r' = lv_userId r
     \<and> lv_daysCount r' = lv_daysCount r"
  by (cases op) (auto simp: leave_op_defs table_simps Let_def split: option.split)

definition op_actor_allowed :: "leave_op \<Rightarrow> leave_request \<Rightarrow> bool" where
  "op_actor_allowed op r = (case op of
      CreateLeave _ _ _ _ \<Rightarrow> False
    | ApproveLeave _ role _ i \<Rightarrow> isApprover role \<and> i = lv_id r
    | RejectLeave _ role _ i _ \<Rightarrow> isApprover role \<and> i = lv_id r
    | CancelLeave u i \<Rightarrow> u = lv_userId r \<and> i = lv_id r)"

text \<open>
  a decided leave request stays decided: once approved, rejected or cancelled it keeps that
  status through any history of operations, and its status changes at all only by an
  operation on this request by an approver, or by its owner who cancels it.
\<close>

theorem leave_decisions_final:
  "(leave_status_at db i \<in> {Some LEAVE_APPROVED, Some LEAVE_REJECTED, Some LEAVE_CANCELLED} \<longrightarrow>
      leave_status_at (run_leaves ops db) i = leave_status_at db i)
   \<and> (find_leave db i = Some r \<and> \<not> op_actor_allowed op r \<longrightarrow>
      leave_status_at (exec_leave op db) i = leave_status_at db i)"
proof -
  have "leave_status_at (run_leaves ops db) i = leave_status_at db i"
    if "leave_status_at db i \<in> {Some LEAVE_APPROVED, Some LEAVE_REJECTED, Some LEAVE_CANCELLED}"
    using that leaves.run_final [of db i _ ops] unfolding run_leaves_eq by (auto simp: leave_move_iff)
  moreover have "leave_status_at (exec_leave op db) i = leave_status_at db i"
    if "find_leave db i = Some r" "\<not> op_actor_allowed op r"
    using that find_row_id [OF that(1)]
    by (cases op)
      (auto simp: leave_status_at_def leave_op_defs table_simps Let_def op_actor_allowed_def split: option.split)
  ultimately show ?thesis by blast
qed

definition example_leave :: leave_request where
  "example_leave = \<lparr>lv_id = ''v1'', lv_userId = ''u1'', lv_type = ANNUAL, lv_startDate = 0,
     lv_endDate = 172800000, lv_daysCount = 3, lv_reason = None, lv_status = LEAVE_REJECTED,
     lv_approvedById = None, lv_approvedAt = None, lv_rejectedReason = None, lv_createdAt = 0\<rparr>"

theorem leave_decisions_final_witness:
  "leave_status_at (run_leaves [CancelLeave ''u1'' ''v1'', ApproveLeave example_env OWNER ''u2'' ''v1'']
     [example_leave]) ''v1'' = Some LEAVE_REJECTED"
  using leave_decisions_final [of "[example_leave]" "''v1''"]
  by (simp add: leave_status_at_def find_row_def example_leave_def)

end
