(* ===== verification/Cash_Store.thy ===== *)
theory Cash_Store
  imports Workflow Payment_Methods Money Journal_Store "HOL-Library.List_Lexorder" "HOL-Library.Char_ord"
begin

text \<open>
  The tables of the cash chain (\<open>prisma/schema.prisma\<close>): users, orders with their cash trail,
  shifts, custody bags, bank deposits, driver deposits, branch wallets, the single-entry
  general ledger, branch expenses, debt transfers and the audit log, and the operations every
  service of the chain uses: \<open>src/general-ledger/general-ledger.service.ts\<close>,
  \<open>src/auth/institutional-mutation.util.ts\<close> and the audit events. A table is the list of its
  rows in the order of creation; \<open>orderBy\<close> on a name compares bytes, as the C collation does.
  The columns of amounts are \<open>Decimal(19,4)\<close>: \<open>fixed4\<close>.
\<close>

datatype shift_status = SHIFT_OPEN | SHIFT_CLOSED
datatype custody_status = PENDING_DEPOSIT | AWAITING_VERIFICATION | VERIFIED | REJECTED
datatype bank_deposit_type = CASH_DEPOSIT_SLIP | KNET_Z_REPORT
datatype bank_deposit_status = BD_PENDING | BD_VERIFIED
datatype deposit_status = DEP_PENDING | DEP_APPROVED | DEP_REJECTED
datatype gl_entry_type = POS_SALE_COMPLETED | EXPENSE_RECORDED | WALLET_SETTLEMENT | DEBT_ADJUSTMENT
datatype transfer_status = DT_DRAFT | DT_AWAITING_SIGNATURES | DT_COMPLETED | DT_CANCELLED

record user_row =
  us_id :: uuid
  us_username :: string
  us_fullName :: string
  us_role :: safari_role
  us_isActive :: bool
  us_branchId :: "uuid option"

record cash_order =
  co_id :: uuid
  co_driverId :: "uuid option"
  co_status :: order_status
  co_cashStatus :: cash_status
  co_posPaymentMethod :: pos_payment_method
  co_totalPrice :: decimal
  co_completedAt :: "timestamp option"
  co_handoverShiftId :: "uuid option"
  co_transferredFromDriverId :: "uuid option"

record shift_row =
  sh_id :: uuid
  sh_driverId :: uuid
  sh_status :: shift_status
  sh_startedAt :: timestamp
  sh_bankDepositReceiptUrl :: "string option"

record custody_bag =
  cb_id :: uuid
  cb_managerId :: uuid
  cb_driverId :: uuid
  cb_branchId :: "uuid option"
  cb_shiftId :: "uuid option"
  cb_amountKd :: decimal
  cb_settledOrderCount :: nat
  cb_status :: custody_status
  cb_receivedFromDriverAt :: timestamp
  cb_slipUploadedAt :: "timestamp option"
  cb_depositSlipUrl :: "string option"
  cb_verifiedByAccountantId :: "uuid option"
  cb_verifiedAt :: "timestamp option"
  cb_rejectedByAccountantId :: "uuid option"
  cb_rejectedAt :: "timestamp option"
  cb_rejectionReason :: "string option"
  cb_note :: "string option"
  cb_createdAt :: timestamp

record bank_deposit =
  bd_id :: uuid
  bd_depositType :: bank_deposit_type
  bd_status :: bank_deposit_status
  bd_amountKd :: decimal
  bd_receiptImageUrl :: string
  bd_shiftId :: "uuid option"
  bd_managerCashCustodyId :: "uuid option"
  bd_uploadedById :: uuid
  bd_verifiedByAccountantId :: "uuid option"
  bd_verifiedAt :: "timestamp option"
  bd_createdAt :: timestamp

record driver_deposit =
  dd_id :: uuid
  dd_driverId :: uuid
  dd_amount :: decimal
  dd_type :: string
  dd_receiptImage :: string
  dd_status :: deposit_status
  dd_auditComment :: "string option"
  dd_auditedById :: "uuid option"

record branch_wallet =
  bw_id :: uuid
  bw_branchId :: uuid
  bw_currency :: string
  bw_balance :: decimal

record gl_entry =
  gl_id :: uuid
  gl_entryType :: gl_entry_type
  gl_amount :: decimal
  gl_memo :: "string option"
  gl_metadata :: "json option"
  gl_customerId :: "uuid option"
  gl_orderId :: "uuid option"
  gl_expenseId :: "uuid option"
  gl_actorUserId :: "uuid option"
  gl_createdAt :: timestamp

record branch_expense =
  be_id :: uuid
  be_branchId :: "uuid option"
  be_recordedById :: uuid

record transfer_line =
  tl_orderId :: uuid
  tl_amountSnapshot :: decimal

record debt_transfer =
  dt_id :: uuid
  dt_sourceDriverId :: uuid
  dt_targetDriverId :: uuid
  dt_totalAmount :: decimal
  dt_orderCount :: nat
  dt_reason :: "string option"
  dt_notes :: "string option"
  dt_status :: transfer_status
  dt_executedById :: uuid
  dt_executedByRole :: safari_role
  dt_sourceSignedAt :: "timestamp option"
  dt_targetSignedAt :: "timestamp option"
  dt_finalizedAt :: "timestamp option"
  dt_cancelledAt :: "timestamp option"
  dt_cancelledById :: "uuid option"
  dt_cancelledReason :: "string option"
  dt_systemSignature :: "string option"
  dt_createdAt :: timestamp
  dt_orders :: "transfer_line list"

record audit_row =
  au_action :: string
  au_userId :: uuid
  au_amount :: string
  au_source :: string
  au_suspicious :: bool
  au_changes :: "(string \<times> json) list"

record cash_db =
  users :: "user_row list"
  cashOrders :: "cash_order list"
  shifts :: "shift_row list"
  custodyBags :: "custody_bag list"
  bankDeposits :: "bank_deposit list"
  driverDeposits :: "driver_deposit list"
  branchWallets :: "branch_wallet list"
  glEntries :: "gl_entry list"
  branchExpenses :: "branch_expense list"
  debtTransfers :: "debt_transfer list"
  auditLog :: "audit_row list"

subsection \<open>Shared operations\<close>

abbreviation find_user :: "cash_db \<Rightarrow> uuid \<Rightarrow> user_row option" where
  "find_user db \<equiv> find_row us_id (users db)"

text \<open>\<open>assertInstitutionalMutationAllowed\<close>: a general manager only reads.\<close>

definition assertInstitutionalMutationAllowed :: "safari_role \<Rightarrow> unit result" where
  "assertInstitutionalMutationAllowed role =
     guardE (role \<noteq> GENERAL_MANAGER) (ForbiddenException ''Read-only role'')"

record append_ledger =
  al_entryType :: gl_entry_type
  al_amount :: decimal
  al_memo :: "string option"
  al_metadata :: "json option"
  al_customerId :: "uuid option"
  al_orderId :: "uuid option"
  al_expenseId :: "uuid option"
  al_actorUserId :: "uuid option"

definition no_ledger :: append_ledger where
  "no_ledger = \<lparr>al_entryType = POS_SALE_COMPLETED, al_amount = 0, al_memo = None, al_metadata = None,
     al_customerId = None, al_orderId = None, al_expenseId = None, al_actorUserId = None\<rparr>"

text \<open>\<open>GeneralLedgerService.append\<close>: one row, without any check.\<close>

definition gl_append :: "env \<Rightarrow> append_ledger \<Rightarrow> cash_db \<Rightarrow> cash_db" where
  "gl_append env row db = db\<lparr>glEntries := glEntries db @ [
     \<lparr>gl_id = new_uuid env (length (glEntries db)), gl_entryType = al_entryType row, gl_amount = al_amount row,
      gl_memo = al_memo row, gl_metadata = al_metadata row, gl_customerId = al_customerId row,
      gl_orderId = al_orderId row, gl_expenseId = al_expenseId row, gl_actorUserId = al_actorUserId row,
      gl_createdAt = now env\<rparr>]\<rparr>"

text \<open>
  \<open>AuditLogsService.log\<close> writes in the background and swallows its failures; here the row is
  written.
\<close>

definition log_event :: "audit_row \<Rightarrow> cash_db \<Rightarrow> cash_db" where
  "log_event a db = db\<lparr>auditLog := auditLog db @ [a]\<rparr>"

text \<open>A transaction that throws leaves the tables as they were.\<close>

definition in_transaction :: "cash_db \<Rightarrow> 'a result \<times> cash_db \<Rightarrow> 'a result \<times> cash_db" where
  "in_transaction db r = (case fst r of Inl e \<Rightarrow> (Inl e, db) | Inr x \<Rightarrow> (Inr x, snd r))"

fun json_option :: "string option \<Rightarrow> json" where
  "json_option None = JNull"
| "json_option (Some s) = JString s"

fun json_field :: "string \<Rightarrow> json option \<Rightarrow> json option" where
  "json_field k (Some (JObject fs)) = map_of fs k"
| "json_field k _ = None"

text \<open>\<open>toDecimalPlaces(4, ROUND_HALF_EVEN)\<close>\<close>

definition half_even4 :: "decimal \<Rightarrow> decimal" where
  "half_even4 x = of_int (half_even (x * 10000)) / 10000"

text \<open>JavaScript's truth of an optional string.\<close>

definition truthy :: "string option \<Rightarrow> bool" where
  "truthy s \<longleftrightarrow> nullish s [] \<noteq> []"

text \<open>\<open>s?.trim() || d\<close>\<close>

definition trim_or :: "string option \<Rightarrow> string option \<Rightarrow> string option" where
  "trim_or s d = (if js_trim (nullish s []) = [] then d else Some (js_trim (nullish s [])))"

lemma sumOrderMinors_fixed4:
  assumes "\<And>x. x \<in> set xs \<Longrightarrow> fixed4 x"
  shows "\<exists>m. sumOrderMinors xs = Inr m \<and> amount_of_minor m = sum_list xs"
proof -
  have "of_int (\<Sum>p\<leftarrow>xs. half_up (p * 10000)) = (\<Sum>p\<leftarrow>xs. p) * 10000"
    using assms by (induction xs) (simp_all add: fixed4_half_up algebra_simps)
  then show ?thesis by (simp add: sumOrderMinors_eq amount_of_minor_def)
qed

lemma gl_append_other [table_simps]:
  "users (gl_append env row db) = users db" "cashOrders (gl_append env row db) = cashOrders db"
  "shifts (gl_append env row db) = shifts db" "custodyBags (gl_append env row db) = custodyBags db"
  "bankDeposits (gl_append env row db) = bankDeposits db" "driverDeposits (gl_append env row db) = driverDeposits db"
  "branchWallets (gl_append env row db) = branchWallets db" "branchExpenses (gl_append env row db) = branchExpenses db"
  "debtTransfers (gl_append env row db) = debtTransfers db" "auditLog (gl_append env row db) = auditLog db"
  by (simp_all add: gl_append_def)

lemma log_event_other [table_simps]:
  "users (log_event a db) = users db" "cashOrders (log_event a db) = cashOrders db"
  "shifts (log_event a db) = shifts db" "custodyBags (log_event a db) = custodyBags db"
  "bankDeposits (log_event a db) = bankDeposits db" "driverDeposits (log_event a db) = driverDeposits db"
  "branchWallets (log_event a db) = branchWallets db" "branchExpenses (log_event a db) = branchExpenses db"
  "debtTransfers (log_event a db) = debtTransfers db" "glEntries (log_event a db) = glEntries db"
  by (simp_all add: log_event_def)

lemma in_transaction_cases [table_simps]:
  "snd (in_transaction db r) = (if isl (fst r) then db else snd r)" "fst (in_transaction db r) = fst r"
  by (auto simp: in_transaction_def split: sum.split)

end
