(* ===== verification/Cash.thy ===== *)
theory Cash
  imports Cash_Store
begin

text \<open>
  \<open>src/finance/services/cash.service.ts\<close>: the cash the drivers hold, its handover to a manager
  and the reports on it. The JavaScript numbers of \<open>sumKd\<close> are sums of four-decimal amounts
  that are printed with \<open>toFixed(4)\<close>: exact here. A report keeps its amounts as numbers where
  the code passes strings from one step to the next.
\<close>

subsection \<open>Shifts\<close>

text \<open>\<open>shift.findFirst({ where: { driverId, status: OPEN }, orderBy: { startedAt: 'desc' } })\<close>\<close>

definition open_shift :: "cash_db \<Rightarrow> uuid \<Rightarrow> shift_row option" where
  "open_shift db driverId =
     (case sort_key (\<lambda>s. - sh_startedAt s)
        (filter (\<lambda>s. sh_driverId s = driverId \<and> sh_status s = SHIFT_OPEN) (shifts db)) of
        [] \<Rightarrow> None | s # _ \<Rightarrow> Some s)"

definition ensureOpenShiftForDriver :: "env \<Rightarrow> uuid \<Rightarrow> cash_db \<Rightarrow> uuid \<Rightarrow> cash_db" where
  "ensureOpenShiftForDriver env new_id db driverId =
     (case find_user db driverId of
        None \<Rightarrow> db
      | Some u \<Rightarrow>
          if us_role u \<noteq> DRIVER then db
          else if open_shift db driverId \<noteq> None then db
          else db\<lparr>shifts := shifts db @ [\<lparr>sh_id = new_id, sh_driverId = driverId, sh_status = SHIFT_OPEN,
                 sh_startedAt = now env, sh_bankDepositReceiptUrl = None\<rparr>]\<rparr>)"

subsection \<open>Sales by payment method\<close>

record pos_sales_row =
  ps_posPaymentMethod :: pos_payment_method
  ps_orderCount :: nat
  ps_totalRevenue :: decimal

record pos_sales_totals =
  pt_totalKd :: string
  pt_collectedKd :: string
  pt_onAccountKd :: string
  pt_collectionRateBps :: int

definition pos_sales_rows :: "cash_db \<Rightarrow> timestamp \<Rightarrow> timestamp \<Rightarrow> uuid option \<Rightarrow> pos_sales_row list" where
  "pos_sales_rows db from_t to_t scopedDriverId =
     (let orders = filter (\<lambda>x. co_status x = ORDER_COMPLETED
            \<and> (case co_completedAt x of None \<Rightarrow> False | Some t \<Rightarrow> from_t \<le> t \<and> t \<le> to_t)
            \<and> (\<not> truthy scopedDriverId \<or> co_driverId x = scopedDriverId)) (cashOrders db)
      in map (\<lambda>m. let rows = filter (\<lambda>x. co_posPaymentMethod x = m) orders in
           \<lparr>ps_posPaymentMethod = m, ps_orderCount = length rows, ps_totalRevenue = dec4 (\<Sum>x\<leftarrow>rows. co_totalPrice x)\<rparr>)
         (remdups (map co_posPaymentMethod orders)))"

definition getDailyPosSalesByPaymentMethod :: "cash_db \<Rightarrow> timestamp option \<Rightarrow> timestamp option \<Rightarrow> uuid option \<Rightarrow>
    (pos_sales_totals \<times> pos_sales_row list) result" where
  "getDailyPosSalesByPaymentMethod db fromIso toIso scopedDriverId =
     (case (fromIso, toIso) of
        (Some from_t, Some to_t) \<Rightarrow>
          let rows = pos_sales_rows db from_t to_t scopedDriverId;
              total = (\<Sum>r\<leftarrow>rows. ps_totalRevenue r);
              onAccount = (\<Sum>r\<leftarrow>filter (\<lambda>r. ps_posPaymentMethod r = DEBT_ON_ACCOUNT) rows. ps_totalRevenue r);
              collected = (\<Sum>r\<leftarrow>filter (\<lambda>r. ps_posPaymentMethod r \<noteq> DEBT_ON_ACCOUNT) rows. ps_totalRevenue r)
          in Inr (\<lparr>pt_totalKd = round4Kd total, pt_collectedKd = round4Kd collected,
                   pt_onAccountKd = round4Kd onAccount,
                   pt_collectionRateBps = (if total > 0 then half_up (collected / total * 10000) else 0)\<rparr>, rows)
      | _ \<Rightarrow> Inl (BadRequestException ''Invalid date range''))"

subsection \<open>What the drivers hold\<close>

definition held_by_driver :: "uuid \<Rightarrow> cash_order \<Rightarrow> bool" where
  "held_by_driver driverId x \<longleftrightarrow> co_driverId x = Some driverId \<and> co_status x = ORDER_COMPLETED
     \<and> co_cashStatus x = PAID_TO_DRIVER"

record driver_balance =
  db_driverId :: uuid
  db_username :: string
  db_fullName :: string
  db_branchId :: "uuid option"
  db_currentShiftId :: "uuid option"
  db_shiftStartedAt :: "timestamp option"
  db_heldCashTotal :: string
  db_pendingSettlementOrderCount :: nat
  db_pendingCashKd :: string
  db_pendingKnetKd :: string
  db_pendingLinkKd :: string
  db_pendingOnlineKd :: string
  db_pendingTotalKd :: string
  db_pendingInvoiceCount :: nat

definition bucket :: "pos_payment_method \<Rightarrow> cash_order list \<Rightarrow> decimal list" where
  "bucket m pending = map co_totalPrice (filter (\<lambda>x. co_posPaymentMethod x = m) pending)"

definition driver_balance_row :: "cash_db \<Rightarrow> user_row \<Rightarrow> driver_balance result" where
  "driver_balance_row db d =
     (let shift = open_shift db (us_id d);
          pendingAll = filter (held_by_driver (us_id d)) (cashOrders db);
          cash = bucket PM_CASH pendingAll; knet = bucket PM_KNET pendingAll;
          link = bucket PAYMENT_LINK pendingAll; online = bucket PM_ONLINE pendingAll
      in bindE (sumOrderMinors cash) (\<lambda>cashMinor.
         bindE (sumOrderMinors knet) (\<lambda>knetMinor.
         bindE (sumOrderMinors link) (\<lambda>linkMinor.
         bindE (sumOrderMinors online) (\<lambda>onlineMinor.
           let totalMinor = cashMinor + knetMinor + linkMinor + onlineMinor in
           Inr \<lparr>db_driverId = us_id d, db_username = us_username d, db_fullName = us_fullName d,
             db_branchId = us_branchId d, db_currentShiftId = map_option sh_id shift,
             db_shiftStartedAt = map_option sh_startedAt shift,
             db_heldCashTotal = minorToAmountString cashMinor, db_pendingSettlementOrderCount = length cash,
             db_pendingCashKd = minorToAmountString cashMinor, db_pendingKnetKd = minorToAmountString knetMinor,
             db_pendingLinkKd = minorToAmountString linkMinor, db_pendingOnlineKd = minorToAmountString onlineMinor,
             db_pendingTotalKd = minorToAmountString totalMinor,
             db_pendingInvoiceCount = length cash + length knet + length link + length online\<rparr>)))))"

definition getDriverBalances :: "cash_db \<Rightarrow> driver_balance list result" where
  "getDriverBalances db = mapE (driver_balance_row db)
     (sort_key us_username (filter (\<lambda>u. us_role u = DRIVER) (users db)))"

definition cash_held_by :: "uuid \<Rightarrow> cash_order \<Rightarrow> bool" where
  "cash_held_by driverId x \<longleftrightarrow> held_by_driver driverId x \<and> co_posPaymentMethod x = PM_CASH"

record custody_summary =
  cs_cashTotalKd :: string
  cs_cashOrderCount :: nat
  cs_grandTotalKd :: string

definition computeCanonicalDriverCashCustodySummary :: "decimal list \<Rightarrow> custody_summary" where
  "computeCanonicalDriverCashCustodySummary rows = (let total = sum_list rows in
     \<lparr>cs_cashTotalKd = round4Kd total, cs_cashOrderCount = length rows, cs_grandTotalKd = round4Kd total\<rparr>)"

definition getMyDriverCashCustodySummary :: "cash_db \<Rightarrow> uuid \<Rightarrow> custody_summary" where
  "getMyDriverCashCustodySummary db driverId =
     computeCanonicalDriverCashCustodySummary (map co_totalPrice (filter (cash_held_by driverId) (cashOrders db)))"

definition cash_with_drivers :: "cash_order \<Rightarrow> bool" where
  "cash_with_drivers x \<longleftrightarrow> co_status x = ORDER_COMPLETED \<and> co_cashStatus x = PAID_TO_DRIVER
     \<and> co_posPaymentMethod x = PM_CASH"

definition getTotalCashWithDrivers :: "cash_db \<Rightarrow> string result" where
  "getTotalCashWithDrivers db = bindE (sumOrderMinors (map co_totalPrice (filter cash_with_drivers (cashOrders db))))
     (\<lambda>m. Inr (minorToAmountString m))"

subsection \<open>Handover to a manager\<close>

record confirm_handover =
  ch_driverId :: uuid
  ch_depositReceiptUrl :: "string option"
  ch_declaredHandoverTotal :: "decimal option option"

record handover_result =
  hr_settledOrderCount :: nat
  hr_systemHandoverTotal :: string
  hr_shiftId :: "uuid option"
  hr_bankDepositReceiptUrl :: "string option"
  hr_custodyBagId :: "uuid option"
  hr_branchId :: "uuid option"

text \<open>The orders that \<open>updateMany\<close> changes, and the change.\<close>

definition settles :: "uuid list \<Rightarrow> cash_order \<Rightarrow> bool" where
  "settles ids x \<longleftrightarrow> co_id x \<in> set ids \<and> co_cashStatus x = PAID_TO_DRIVER \<and> co_posPaymentMethod x = PM_CASH"

definition settle_orders :: "uuid list \<Rightarrow> uuid option \<Rightarrow> cash_order list \<Rightarrow> cash_order list" where
  "settle_orders ids shiftId rows = map (\<lambda>x. if settles ids x
     then x\<lparr>co_cashStatus := HANDED_OVER_TO_OFFICE, co_handoverShiftId := shiftId\<rparr> else x) rows"

definition new_bag :: "env \<Rightarrow> uuid \<Rightarrow> uuid \<Rightarrow> uuid option \<Rightarrow> uuid option \<Rightarrow> int \<Rightarrow> nat \<Rightarrow> confirm_handover \<Rightarrow> custody_bag" where
  "new_bag env new_id managerId branchId shiftId systemMinor n dto =
     (let hasSlip = truthy (ch_depositReceiptUrl dto) in
      \<lparr>cb_id = new_id, cb_managerId = managerId, cb_driverId = ch_driverId dto, cb_branchId = branchId,
       cb_shiftId = shiftId, cb_amountKd = amount_of_minor systemMinor, cb_settledOrderCount = n,
       cb_status = (if hasSlip then AWAITING_VERIFICATION else PENDING_DEPOSIT),
       cb_receivedFromDriverAt = now env, cb_slipUploadedAt = (if hasSlip then Some (now env) else None),
       cb_depositSlipUrl = ch_depositReceiptUrl dto, cb_verifiedByAccountantId = None, cb_verifiedAt = None,
       cb_rejectedByAccountantId = None, cb_rejectedAt = None, cb_rejectionReason = None, cb_note = None,
       cb_createdAt = now env\<rparr>)"

text \<open>
  The part of the transaction after the pending orders were read. \<open>db\<close> is the database it
  writes to: the one that was read, unless another transaction has committed in between.
\<close>

definition handover_write :: "env \<Rightarrow> uuid \<Rightarrow> uuid \<Rightarrow> user_row \<Rightarrow> confirm_handover \<Rightarrow> cash_order list \<Rightarrow>
    cash_db \<Rightarrow> handover_result result \<times> cash_db" where
  "handover_write env new_id managerId driver dto pending db =
     (case sumOrderMinors (map co_totalPrice pending) of
        Inl e \<Rightarrow> (Inl e, db)
      | Inr systemMinor \<Rightarrow>
        (case (case ch_declaredHandoverTotal dto of None \<Rightarrow> Inr ()
                 | Some declared \<Rightarrow> assertDeclaredMatchesLedgerMinor systemMinor declared) of
           Inl e \<Rightarrow> (Inl (BadRequestException (error_message e)), db)
         | Inr _ \<Rightarrow>
           let shiftId = map_option sh_id (open_shift db (ch_driverId dto)) in
           if pending = [] then
             (Inr \<lparr>hr_settledOrderCount = 0, hr_systemHandoverTotal = ''0.0000'', hr_shiftId = shiftId,
               hr_bankDepositReceiptUrl = ch_depositReceiptUrl dto, hr_custodyBagId = None, hr_branchId = None\<rparr>, db)
           else
             let ids = map co_id pending;
                 updated = length (filter (settles ids) (cashOrders db));
                 branchId = (case (case find_user db managerId of None \<Rightarrow> None | Some m \<Rightarrow> us_branchId m) of
                   Some b \<Rightarrow> Some b | None \<Rightarrow> us_branchId driver)
             in if updated \<noteq> length pending
                then (Inl (ConflictException
                  ''Concurrent handover detected; not all orders could be settled. Retry.''), db)
                else
                  (Inr \<lparr>hr_settledOrderCount = length pending, hr_systemHandoverTotal = minorToAmountString systemMinor,
                     hr_shiftId = shiftId, hr_bankDepositReceiptUrl = ch_depositReceiptUrl dto,
                     hr_custodyBagId = Some new_id, hr_branchId = branchId\<rparr>,
                   db\<lparr>cashOrders := settle_orders ids shiftId (cashOrders db),
                      custodyBags := custodyBags db
                        @ [new_bag env new_id managerId branchId shiftId systemMinor (length pending) dto]\<rparr>)))"

definition pending_cash :: "cash_db \<Rightarrow> uuid \<Rightarrow> cash_order list" where
  "pending_cash db driverId = filter (cash_held_by driverId) (cashOrders db)"

definition handover_event :: "uuid \<Rightarrow> confirm_handover \<Rightarrow> handover_result \<Rightarrow> audit_row" where
  "handover_event managerId dto r = \<lparr>au_action = ''CASH_HANDOVER_TRANSFER'', au_userId = managerId,
     au_amount = hr_systemHandoverTotal r, au_source = ''DRIVER_TO_BRANCH_HANDOVER'', au_suspicious = False,
     au_changes = [(''driverId'', JString (ch_driverId dto)), (''branchId'', json_option (hr_branchId r)),
       (''custodyBagId'', json_option (hr_custodyBagId r)), (''shiftId'', json_option (hr_shiftId r)),
       (''settledOrderCount'', JDecimal (of_nat (hr_settledOrderCount r))),
       (''declaredHandoverTotal'', (case ch_declaredHandoverTotal dto of Some (Some x) \<Rightarrow> JDecimal x | _ \<Rightarrow> JNull)),
       (''depositReceiptProvided'', JBool (truthy (ch_depositReceiptUrl dto)))]\<rparr>"

definition confirmHandover :: "env \<Rightarrow> uuid \<Rightarrow> cash_db \<Rightarrow> uuid \<Rightarrow> safari_role \<Rightarrow> confirm_handover \<Rightarrow>
    handover_result result \<times> cash_db" where
  "confirmHandover env new_id db managerId actorRole dto =
     (case assertInstitutionalMutationAllowed actorRole of
        Inl e \<Rightarrow> (Inl e, db)
      | Inr _ \<Rightarrow>
        (case find_user db (ch_driverId dto) of
           None \<Rightarrow> (Inl (NotFoundException ''Driver not found''), db)
         | Some driver \<Rightarrow>
             if us_role driver \<noteq> DRIVER then (Inl (NotFoundException ''Driver not found''), db)
             else (case in_transaction db
                 (handover_write env new_id managerId driver dto (pending_cash db (ch_driverId dto)) db) of
               (Inl e, db') \<Rightarrow> (Inl e, db')
             | (Inr r, db') \<Rightarrow>
                 (Inr (r\<lparr>hr_custodyBagId := None, hr_branchId := None\<rparr>),
                  if hr_settledOrderCount r > 0 then log_event (handover_event managerId dto r) db' else db'))))"

subsection \<open>Settlement of an approved driver deposit\<close>

text \<open>
  \<open>DebtService.applyDriverDepositSettlement\<close> (\<open>src/finance/services/debt.service.ts\<close>): the
  loop over the oldest orders. \<open>settle_loop rows remaining\<close> is the list of orders it settles.
\<close>

fun settle_loop :: "cash_order list \<Rightarrow> decimal \<Rightarrow> cash_order list" where
  "settle_loop [] remaining = []"
| "settle_loop (row # rows) remaining =
     (let v = co_totalPrice row in
      if v \<le> 0 then settle_loop rows remaining
      else
        let take = v \<le> remaining + 1 / 10000;
            rest = (if take then remaining - v else remaining)
        in (if take then [row] else []) @ (if rest \<le> 0 then [] else settle_loop rows rest))"

text \<open>\<open>orderBy: { completedAt: 'asc' }\<close>: PostgreSQL puts the rows without a value last.\<close>

definition by_completedAt :: "cash_order list \<Rightarrow> cash_order list" where
  "by_completedAt rows =
     sort_key (\<lambda>x. nullish (co_completedAt x) 0) (filter (\<lambda>x. co_completedAt x \<noteq> None) rows)
       @ filter (\<lambda>x. co_completedAt x = None) rows"

definition deposit_candidates :: "cash_db \<Rightarrow> uuid \<Rightarrow> cash_order list" where
  "deposit_candidates db driverId =
     take 5000 (by_completedAt (filter (cash_held_by driverId) (cashOrders db)))"

record settlement_result =
  sr_settledAmountKd :: string
  sr_settledOrderCount :: nat

definition applyDriverDepositSettlement :: "cash_db \<Rightarrow> uuid \<Rightarrow> decimal \<Rightarrow> settlement_result \<times> cash_db" where
  "applyDriverDepositSettlement db driverId approvedAmountKd =
     (if approvedAmountKd \<le> 0 then (\<lparr>sr_settledAmountKd = ''0.0000'', sr_settledOrderCount = 0\<rparr>, db)
      else
        let settled = settle_loop (deposit_candidates db driverId) approvedAmountKd;
            ids = map co_id settled
        in (\<lparr>sr_settledAmountKd = to_fixed4 (\<Sum>x\<leftarrow>settled. co_totalPrice x), sr_settledOrderCount = length settled\<rparr>,
            if settled = [] then db
            else db\<lparr>cashOrders := map (\<lambda>x. if co_id x \<in> set ids \<and> co_cashStatus x = PAID_TO_DRIVER
                 then x\<lparr>co_cashStatus := HANDED_OVER_TO_OFFICE\<rparr> else x) (cashOrders db)\<rparr>))"

subsection \<open>The trace of the cash\<close>

text \<open>\<open>sumKd\<close>: the numbers of four-decimal strings, summed and printed with \<open>toFixed(4)\<close>.\<close>

definition sumKd :: "decimal list \<Rightarrow> decimal" where
  "sumKd values = dec4 (sum_list values)"

record trace_query =
  tq_from :: timestamp
  tq_to :: timestamp
  tq_driverId :: "uuid option"
  tq_branchId :: "uuid option"

record trace_driver =
  td_driverId :: uuid
  td_branchId :: "uuid option"
  td_collectedKd :: decimal
  td_collectedOrderCount :: nat
  td_handedToManagerKd :: decimal
  td_handedToManagerBagCount :: nat
  td_pendingWithDriverKd :: decimal
  td_atBankKd :: decimal
  td_pendingAtManagerKd :: decimal
  td_awaitingVerificationKd :: decimal
  td_rejectedKd :: decimal
  td_bags :: "custody_bag list"

record trace_kpis =
  tk_totalCollectedKd :: decimal
  tk_totalHandedToManagerKd :: decimal
  tk_totalAtBankKd :: decimal
  tk_totalPendingWithDriverKd :: decimal
  tk_totalPendingAtManagerKd :: decimal
  tk_totalAwaitingVerificationKd :: decimal
  tk_totalRejectedKd :: decimal
  tk_totalCollectedOrderCount :: nat
  tk_totalBagCount :: nat

definition zeroKpis :: trace_kpis where
  "zeroKpis = \<lparr>tk_totalCollectedKd = 0, tk_totalHandedToManagerKd = 0, tk_totalAtBankKd = 0,
     tk_totalPendingWithDriverKd = 0, tk_totalPendingAtManagerKd = 0, tk_totalAwaitingVerificationKd = 0,
     tk_totalRejectedKd = 0, tk_totalCollectedOrderCount = 0, tk_totalBagCount = 0\<rparr>"

definition trace_drivers :: "cash_db \<Rightarrow> trace_query \<Rightarrow> user_row list" where
  "trace_drivers db q = sort_key us_fullName (filter (\<lambda>u. us_role u = DRIVER
     \<and> (\<not> truthy (tq_driverId q) \<or> Some (us_id u) = tq_driverId q)
     \<and> (\<not> truthy (tq_branchId q) \<or> us_branchId u = tq_branchId q)) (users db))"

definition in_window :: "trace_query \<Rightarrow> timestamp \<Rightarrow> bool" where
  "in_window q t \<longleftrightarrow> tq_from q \<le> t \<and> t \<le> tq_to q"

definition collected_orders :: "cash_db \<Rightarrow> trace_query \<Rightarrow> uuid \<Rightarrow> cash_order list" where
  "collected_orders db q driverId = filter (\<lambda>x. co_driverId x = Some driverId \<and> co_posPaymentMethod x = PM_CASH
     \<and> co_status x = ORDER_COMPLETED
     \<and> (case co_completedAt x of None \<Rightarrow> False | Some t \<Rightarrow> in_window q t)) (cashOrders db)"

definition trace_bags :: "cash_db \<Rightarrow> trace_query \<Rightarrow> uuid \<Rightarrow> custody_bag list" where
  "trace_bags db q driverId = sort_key cb_receivedFromDriverAt (filter (\<lambda>b. cb_driverId b = driverId
     \<and> in_window q (cb_receivedFromDriverAt b)
     \<and> (\<not> truthy (tq_branchId q) \<or> cb_branchId b = tq_branchId q)) (custodyBags db))"

definition bags_kd :: "custody_status \<Rightarrow> custody_bag list \<Rightarrow> decimal" where
  "bags_kd st bags = sumKd (map cb_amountKd (filter (\<lambda>b. cb_status b = st) bags))"

definition trace_row :: "cash_db \<Rightarrow> trace_query \<Rightarrow> user_row \<Rightarrow> trace_driver" where
  "trace_row db q d =
     (let collected = collected_orders db q (us_id d); bags = trace_bags db q (us_id d);
          collectedKd = (\<Sum>x\<leftarrow>collected. co_totalPrice x);
          handed = sumKd (map cb_amountKd bags);
          diff = collectedKd - handed
      in \<lparr>td_driverId = us_id d, td_branchId = us_branchId d, td_collectedKd = collectedKd,
          td_collectedOrderCount = length collected, td_handedToManagerKd = handed,
          td_handedToManagerBagCount = length bags,
          td_pendingWithDriverKd = (if diff > 0 then dec4 diff else 0),
          td_atBankKd = bags_kd VERIFIED bags, td_pendingAtManagerKd = bags_kd PENDING_DEPOSIT bags,
          td_awaitingVerificationKd = bags_kd AWAITING_VERIFICATION bags,
          td_rejectedKd = bags_kd REJECTED bags, td_bags = bags\<rparr>)"

definition trace_active :: "trace_driver \<Rightarrow> bool" where
  "trace_active d \<longleftrightarrow> td_collectedKd d > 0 \<or> td_bags d \<noteq> [] \<or> td_collectedOrderCount d > 0"

definition trace_totals :: "trace_driver list \<Rightarrow> trace_kpis" where
  "trace_totals active = \<lparr>tk_totalCollectedKd = sumKd (map td_collectedKd active),
     tk_totalHandedToManagerKd = sumKd (map td_handedToManagerKd active),
     tk_totalAtBankKd = sumKd (map td_atBankKd active),
     tk_totalPendingWithDriverKd = sumKd (map td_pendingWithDriverKd active),
     tk_totalPendingAtManagerKd = sumKd (map td_pendingAtManagerKd active),
     tk_totalAwaitingVerificationKd = sumKd (map td_awaitingVerificationKd active),
     tk_totalRejectedKd = sumKd (map td_rejectedKd active),
     tk_totalCollectedOrderCount = sum_list (map td_collectedOrderCount active),
     tk_totalBagCount = sum_list (map (\<lambda>d. length (td_bags d)) active)\<rparr>"

definition getDriverCashTrace :: "cash_db \<Rightarrow> trace_query \<Rightarrow> trace_kpis \<times> trace_driver list" where
  "getDriverCashTrace db q =
     (if trace_drivers db q = [] then (zeroKpis, [])
      else let active = filter trace_active (map (trace_row db q) (trace_drivers db q))
           in (trace_totals active, active))"

record reconciliation_snapshot =
  rs_collectedKd :: decimal
  rs_handedToManagerKd :: decimal
  rs_collectedOrderCount :: nat
  rs_handedBagCount :: nat
  rs_pendingWithDriversKd :: string
  rs_pendingWithManagersDepositOrRejectedKd :: string
  rs_pendingWithManagersDepositOrRejectedBagCount :: nat
  rs_awaitingVerificationKd :: string
  rs_awaitingVerificationBagCount :: nat

definition getCashReconciliationSnapshot :: "cash_db \<Rightarrow> trace_query \<Rightarrow> reconciliation_snapshot result" where
  "getCashReconciliationSnapshot db q =
     (let kpis = fst (getDriverCashTrace db q);
          depRejected = filter (\<lambda>b. cb_status b = PENDING_DEPOSIT \<or> cb_status b = REJECTED) (custodyBags db);
          awaiting = filter (\<lambda>b. cb_status b = AWAITING_VERIFICATION) (custodyBags db)
      in bindE (getTotalCashWithDrivers db) (\<lambda>pendingDriversKd.
         Inr \<lparr>rs_collectedKd = tk_totalCollectedKd kpis, rs_handedToManagerKd = tk_totalHandedToManagerKd kpis,
           rs_collectedOrderCount = tk_totalCollectedOrderCount kpis, rs_handedBagCount = tk_totalBagCount kpis,
           rs_pendingWithDriversKd = pendingDriversKd,
           rs_pendingWithManagersDepositOrRejectedKd = to_fixed4 (\<Sum>b\<leftarrow>depRejected. cb_amountKd b),
           rs_pendingWithManagersDepositOrRejectedBagCount = length depRejected,
           rs_awaitingVerificationKd = to_fixed4 (\<Sum>b\<leftarrow>awaiting. cb_amountKd b),
           rs_awaitingVerificationBagCount = length awaiting\<rparr>))"

end
