(* ===== verification/Custody.thy ===== *)
theory Custody
  imports Cash
begin

text \<open>
  \<open>src/manager-custody/manager-custody.service.ts\<close>: the custody bags of the managers. A
  handover creates a bag in PENDING_DEPOSIT, the manager uploads the slip of the bank deposit,
  an accountant verifies or rejects it. The joined names of a bag are read from the users table
  when a row is shown; \<open>toISOString\<close> and the branch names are left out.
\<close>

definition CUSTODY_OVERDUE_MS :: int where "CUSTODY_OVERDUE_MS = 24 * 60 * 60 * 1000"

record custody_row =
  cr_id :: uuid
  cr_managerId :: uuid
  cr_managerName :: string
  cr_driverId :: uuid
  cr_driverName :: string
  cr_branchId :: "uuid option"
  cr_shiftId :: "uuid option"
  cr_amountKd :: string
  cr_settledOrderCount :: nat
  cr_status :: custody_status
  cr_receivedFromDriverAt :: timestamp
  cr_depositSlipUrl :: "string option"
  cr_rejectionReason :: "string option"
  cr_ageHours :: int
  cr_isOverdue :: bool

definition user_name :: "cash_db \<Rightarrow> uuid \<Rightarrow> string" where
  "user_name db i = (case find_user db i of None \<Rightarrow> [] | Some u \<Rightarrow> us_fullName u)"

definition toRow :: "env \<Rightarrow> cash_db \<Rightarrow> custody_bag \<Rightarrow> custody_row" where
  "toRow env db r =
     (let ageMs = now env - cb_receivedFromDriverAt r;
          ageHours = max 0 (ageMs div (60 * 60 * 1000));
          isUnsettled = (cb_status r \<noteq> VERIFIED)
      in \<lparr>cr_id = cb_id r, cr_managerId = cb_managerId r, cr_managerName = user_name db (cb_managerId r),
          cr_driverId = cb_driverId r, cr_driverName = user_name db (cb_driverId r),
          cr_branchId = cb_branchId r, cr_shiftId = cb_shiftId r, cr_amountKd = to_fixed4 (cb_amountKd r),
          cr_settledOrderCount = cb_settledOrderCount r, cr_status = cb_status r,
          cr_receivedFromDriverAt = cb_receivedFromDriverAt r, cr_depositSlipUrl = cb_depositSlipUrl r,
          cr_rejectionReason = cb_rejectionReason r, cr_ageHours = ageHours,
          cr_isOverdue = (isUnsettled \<and> ageMs \<ge> CUSTODY_OVERDUE_MS)\<rparr>)"

abbreviation find_bag :: "cash_db \<Rightarrow> uuid \<Rightarrow> custody_bag option" where
  "find_bag db \<equiv> find_row cb_id (custodyBags db)"

definition update_bag :: "uuid \<Rightarrow> (custody_bag \<Rightarrow> custody_bag) \<Rightarrow> cash_db \<Rightarrow> cash_db" where
  "update_bag i f db = db\<lparr>custodyBags := update_row cb_id i f (custodyBags db)\<rparr>"

definition requireBag :: "cash_db \<Rightarrow> uuid \<Rightarrow> custody_bag result" where
  "requireBag db custodyId = (case find_bag db custodyId of
     None \<Rightarrow> Inl (NotFoundException ''Custody bag not found.'') | Some b \<Rightarrow> Inr b)"

fun status_name :: "custody_status \<Rightarrow> string" where
  "status_name PENDING_DEPOSIT = ''PENDING_DEPOSIT''"
| "status_name AWAITING_VERIFICATION = ''AWAITING_VERIFICATION''"
| "status_name VERIFIED = ''VERIFIED''"
| "status_name REJECTED = ''REJECTED''"

subsection \<open>Receipt from the driver\<close>

record approve_receipt =
  ar_driverId :: uuid
  ar_declaredHandoverTotal :: "decimal option option"
  ar_note :: "string option"

text \<open>
  The handover has its own transaction, so its effect stays when the lines after it throw; the
  newest PENDING_DEPOSIT bag of the pair is found by its creation time.
\<close>

definition newest_pending_bag :: "cash_db \<Rightarrow> uuid \<Rightarrow> uuid \<Rightarrow> custody_bag option" where
  "newest_pending_bag db managerId driverId =
     (case sort_key (\<lambda>b. - cb_createdAt b) (filter (\<lambda>b. cb_managerId b = managerId \<and> cb_driverId b = driverId
        \<and> cb_status b = PENDING_DEPOSIT) (custodyBags db)) of [] \<Rightarrow> None | b # _ \<Rightarrow> Some b)"

definition approveReceiptFromDriver :: "env \<Rightarrow> uuid \<Rightarrow> cash_db \<Rightarrow> uuid \<Rightarrow> approve_receipt \<Rightarrow>
    custody_row result \<times> cash_db" where
  "approveReceiptFromDriver env new_id db managerId dto =
     (case confirmHandover env new_id db managerId MANAGER \<lparr>ch_driverId = ar_driverId dto,
          ch_depositReceiptUrl = None, ch_declaredHandoverTotal = ar_declaredHandoverTotal dto\<rparr> of
        (Inl e, db') \<Rightarrow> (Inl e, db')
      | (Inr r, db') \<Rightarrow>
          if hr_settledOrderCount r = 0
          then (Inl (BadRequestException ''No cash pending settlement for this driver.''), db')
          else (case newest_pending_bag db' managerId (ar_driverId dto) of
             None \<Rightarrow> (Inl (ConflictException ''Handover completed but custody bag was not found. Retry.''), db')
           | Some bag \<Rightarrow>
               let nt = js_trim (nullish (ar_note dto) []) in
               if nt \<noteq> [] \<and> cb_note bag \<noteq> Some nt
               then (Inr (toRow env db' (bag\<lparr>cb_note := Some nt\<rparr>)),
                     update_bag (cb_id bag) (\<lambda>b. b\<lparr>cb_note := Some nt\<rparr>) db')
               else (Inr (toRow env db' bag), db')))"

subsection \<open>Slip, verification, rejection\<close>

record upload_slip =
  up_depositSlipUrl :: string
  up_declaredDepositTotal :: "decimal option option"
  up_note :: "string option"

definition slip_matches :: "custody_bag \<Rightarrow> upload_slip \<Rightarrow> unit result" where
  "slip_matches bag dto = (case up_declaredDepositTotal dto of
     None \<Rightarrow> Inr ()
   | Some declared \<Rightarrow> bindE (parseFixed4ToMinor (to_fixed4 (cb_amountKd bag)))
       (\<lambda>ledgerMinor. case assertDeclaredMatchesLedgerMinor ledgerMinor declared of
          Inl e \<Rightarrow> Inl (BadRequestException (error_message e)) | Inr _ \<Rightarrow> Inr ()))"

definition uploadDepositSlip :: "env \<Rightarrow> cash_db \<Rightarrow> uuid \<Rightarrow> uuid \<Rightarrow> upload_slip \<Rightarrow> custody_row result \<times> cash_db" where
  "uploadDepositSlip env db custodyId managerId dto =
     (case requireBag db custodyId of
        Inl e \<Rightarrow> (Inl e, db)
      | Inr bag \<Rightarrow>
          if cb_managerId bag \<noteq> managerId
          then (Inl (ForbiddenException ''Only the manager who received the cash can upload the deposit slip.''), db)
          else if cb_status bag \<noteq> PENDING_DEPOSIT \<and> cb_status bag \<noteq> REJECTED
          then (Inl (BadRequestException (''Cannot upload slip from status '' @ status_name (cb_status bag) @ ''.'')), db)
          else (case slip_matches bag dto of
             Inl e \<Rightarrow> (Inl e, db)
           | Inr _ \<Rightarrow>
               let change = (\<lambda>b. b\<lparr>cb_depositSlipUrl := Some (up_depositSlipUrl dto),
                     cb_slipUploadedAt := Some (now env), cb_status := AWAITING_VERIFICATION,
                     cb_rejectedByAccountantId := None, cb_rejectedAt := None, cb_rejectionReason := None,
                     cb_note := trim_or (up_note dto) (cb_note bag)\<rparr>);
                   db1 = update_bag custodyId change db;
                   db2 = (case cb_shiftId bag of
                     None \<Rightarrow> db1
                   | Some s \<Rightarrow> if s = [] then db1
                       else db1\<lparr>shifts := update_row sh_id s
                         (\<lambda>x. x\<lparr>sh_bankDepositReceiptUrl := Some (up_depositSlipUrl dto)\<rparr>) (shifts db1)\<rparr>)
               in (Inr (toRow env db2 (change bag)), db2)))"

definition settlement_metadata :: "custody_bag \<Rightarrow> json" where
  "settlement_metadata row = JObject [(''event'', JString ''CUSTODY_VERIFIED''), (''custodyId'', JString (cb_id row)),
     (''managerId'', JString (cb_managerId row)), (''driverId'', JString (cb_driverId row)),
     (''branchId'', json_option (cb_branchId row)), (''shiftId'', json_option (cb_shiftId row)),
     (''settledOrderCount'', JDecimal (of_nat (cb_settledOrderCount row)))]"

text \<open>\<open>findFirst\<close> over the deposits of the bag, or those that look like its slip.\<close>

definition existing_deposit :: "cash_db \<Rightarrow> custody_bag \<Rightarrow> string \<Rightarrow> bank_deposit option" where
  "existing_deposit db row slip = find (\<lambda>d. bd_managerCashCustodyId d = Some (cb_id row)
     \<or> (bd_shiftId d = cb_shiftId row \<and> bd_receiptImageUrl d = slip \<and> bd_amountKd d = cb_amountKd row))
     (bankDeposits db)"

definition deposit_of_bag :: "env \<Rightarrow> cash_db \<Rightarrow> uuid \<Rightarrow> custody_bag \<Rightarrow> string \<Rightarrow> bank_deposit" where
  "deposit_of_bag env db accountantId row slip =
     \<lparr>bd_id = new_uuid env (length (bankDeposits db)), bd_depositType = CASH_DEPOSIT_SLIP,
      bd_status = BD_VERIFIED, bd_amountKd = cb_amountKd row, bd_receiptImageUrl = slip,
      bd_shiftId = cb_shiftId row, bd_managerCashCustodyId = Some (cb_id row),
      bd_uploadedById = cb_managerId row, bd_verifiedByAccountantId = Some accountantId,
      bd_verifiedAt = cb_verifiedAt row,
      bd_createdAt = nullish (cb_slipUploadedAt row) (cb_receivedFromDriverAt row)\<rparr>"

definition register_deposit :: "env \<Rightarrow> uuid \<Rightarrow> custody_bag \<Rightarrow> cash_db \<Rightarrow> cash_db" where
  "register_deposit env accountantId row db =
     (if \<not> truthy (cb_depositSlipUrl row) then db
      else let slip = nullish (cb_depositSlipUrl row) [] in
        (case existing_deposit db row slip of
           None \<Rightarrow>
             let d = deposit_of_bag env db accountantId row slip in
             log_event \<lparr>au_action = ''CASH_DEPOSIT_REGISTERED'', au_userId = accountantId,
                 au_amount = to_fixed4 (cb_amountKd row), au_source = ''MANAGER_CASH_CUSTODY'', au_suspicious = False,
                 au_changes = [(''managerCashCustodyId'', JString (cb_id row)), (''bankDepositLogId'', JString (bd_id d)),
                   (''shiftId'', json_option (cb_shiftId row)), (''amountKd'', JDecimal (cb_amountKd row))]\<rparr>
               (db\<lparr>bankDeposits := bankDeposits db @ [d]\<rparr>)
         | Some d \<Rightarrow>
             if \<not> truthy (bd_managerCashCustodyId d)
             then db\<lparr>bankDeposits := update_row bd_id (bd_id d) (\<lambda>x. x\<lparr>bd_managerCashCustodyId := Some (cb_id row),
                 bd_status := (if bd_verifiedAt d \<noteq> None then BD_VERIFIED else bd_status d)\<rparr>) (bankDeposits db)\<rparr>
             else db))"

definition verified_event :: "uuid \<Rightarrow> custody_bag \<Rightarrow> audit_row" where
  "verified_event accountantId row = \<lparr>au_action = ''CASH_DEPOSIT_VERIFIED'', au_userId = accountantId,
     au_amount = to_fixed4 (cb_amountKd row), au_source = ''MANAGER_CASH_CUSTODY'', au_suspicious = False,
     au_changes = [(''custodyId'', JString (cb_id row)), (''managerId'', JString (cb_managerId row)),
       (''driverId'', JString (cb_driverId row)), (''branchId'', json_option (cb_branchId row)),
       (''shiftId'', json_option (cb_shiftId row)),
       (''settledOrderCount'', JDecimal (of_nat (cb_settledOrderCount row)))]\<rparr>"

text \<open>
  The transaction of \<open>verifyCustody\<close>, on the bag that was read before it began.
\<close>

definition verify_write :: "env \<Rightarrow> uuid \<Rightarrow> cash_db \<Rightarrow> custody_bag \<Rightarrow> string option \<Rightarrow> custody_row result \<times> cash_db" where
  "verify_write env accountantId db bag nt =
     (let change = (\<lambda>b. b\<lparr>cb_status := VERIFIED, cb_verifiedByAccountantId := Some accountantId,
            cb_verifiedAt := Some (now env), cb_note := trim_or nt (cb_note bag)\<rparr>);
          db1 = update_bag (cb_id bag) change db
      in (case find_bag db1 (cb_id bag) of
            None \<Rightarrow> (Inl (Error ''Record to update not found.''), db)
          | Some row \<Rightarrow>
            let db2 = gl_append env (no_ledger\<lparr>al_entryType := WALLET_SETTLEMENT, al_amount := cb_amountKd row,
                  al_memo := Some ''manager custody verified'', al_actorUserId := Some accountantId,
                  al_metadata := Some (settlement_metadata row)\<rparr>) db1;
                db3 = register_deposit env accountantId row db2;
                db4 = log_event (verified_event accountantId row) db3
            in (Inr (toRow env db4 row), db4)))"

definition verifyCustody :: "env \<Rightarrow> cash_db \<Rightarrow> uuid \<Rightarrow> uuid \<Rightarrow> string option \<Rightarrow> custody_row result \<times> cash_db" where
  "verifyCustody env db custodyId accountantId nt =
     (case requireBag db custodyId of
        Inl e \<Rightarrow> (Inl e, db)
      | Inr bag \<Rightarrow>
          if cb_status bag \<noteq> AWAITING_VERIFICATION
          then (Inl (BadRequestException (''Only bags in AWAITING_VERIFICATION can be verified (got ''
            @ status_name (cb_status bag) @ '').'')), db)
          else verify_write env accountantId db bag nt)"

definition rejected_event :: "uuid \<Rightarrow> custody_bag \<Rightarrow> audit_row" where
  "rejected_event accountantId row = \<lparr>au_action = ''CASH_HANDOVER_REJECTED'', au_userId = accountantId,
     au_amount = to_fixed4 (cb_amountKd row), au_source = ''MANAGER_CASH_CUSTODY'', au_suspicious = False,
     au_changes = [(''custodyId'', JString (cb_id row)), (''managerId'', JString (cb_managerId row)),
       (''driverId'', JString (cb_driverId row)), (''branchId'', json_option (cb_branchId row)),
       (''shiftId'', json_option (cb_shiftId row)), (''rejectionReason'', json_option (cb_rejectionReason row))]\<rparr>"

definition rejectCustody :: "env \<Rightarrow> cash_db \<Rightarrow> uuid \<Rightarrow> uuid \<Rightarrow> string \<Rightarrow> custody_row result \<times> cash_db" where
  "rejectCustody env db custodyId accountantId reason =
     (case requireBag db custodyId of
        Inl e \<Rightarrow> (Inl e, db)
      | Inr bag \<Rightarrow>
          if cb_status bag \<noteq> AWAITING_VERIFICATION
          then (Inl (BadRequestException (''Only bags in AWAITING_VERIFICATION can be rejected (got ''
            @ status_name (cb_status bag) @ '').'')), db)
          else
            let change = (\<lambda>b. b\<lparr>cb_status := REJECTED, cb_rejectedByAccountantId := Some accountantId,
                  cb_rejectedAt := Some (now env), cb_rejectionReason := Some (js_trim reason)\<rparr>);
                db' = log_event (rejected_event accountantId (change bag)) (update_bag custodyId change db)
            in (Inr (toRow env db' (change bag)), db'))"

end
