(* ===== verification/Debt_Transfers.thy ===== *)
theory Debt_Transfers
  imports Cash_Store
begin

text \<open>
  \<open>src/debt-transfers/debt-transfers.service.ts\<close>: moving the cash responsibility for completed
  orders from a departing driver to another one. A transfer waits for the signatures of both
  drivers; an accountant finalizes it, which reassigns the orders and writes a balanced pair
  of ledger rows, or cancels it. The random signature token is a parameter.
\<close>

abbreviation find_transfer :: "cash_db \<Rightarrow> uuid \<Rightarrow> debt_transfer option" where
  "find_transfer db \<equiv> find_row dt_id (debtTransfers db)"

definition update_transfer :: "uuid \<Rightarrow> (debt_transfer \<Rightarrow> debt_transfer) \<Rightarrow> cash_db \<Rightarrow> cash_db" where
  "update_transfer i f db = db\<lparr>debtTransfers := update_row dt_id i f (debtTransfers db)\<rparr>"

fun transfer_status_name :: "transfer_status \<Rightarrow> string" where
  "transfer_status_name DT_DRAFT = ''DRAFT''"
| "transfer_status_name DT_AWAITING_SIGNATURES = ''AWAITING_SIGNATURES''"
| "transfer_status_name DT_COMPLETED = ''COMPLETED''"
| "transfer_status_name DT_CANCELLED = ''CANCELLED''"

definition listDrivers :: "cash_db \<Rightarrow> user_row list" where
  "listDrivers db = sort_key us_fullName (filter (\<lambda>u. us_role u = DRIVER \<and> us_isActive u) (users db))"

text \<open>The orders whose cash is on the driver.\<close>

definition on_driver :: "uuid \<Rightarrow> cash_order \<Rightarrow> bool" where
  "on_driver driverId x \<longleftrightarrow> co_driverId x = Some driverId \<and> co_status x = ORDER_COMPLETED
     \<and> co_cashStatus x = PAID_TO_DRIVER"

record outstanding_orders =
  oo_driverId :: uuid
  oo_orderCount :: nat
  oo_totalAmount :: string
  oo_orders :: "cash_order list"

text \<open>\<open>orderBy: { completedAt: 'desc' }\<close>: PostgreSQL puts the rows without a value first.\<close>

definition getDriverOutstandingOrders :: "cash_db \<Rightarrow> uuid \<Rightarrow> outstanding_orders" where
  "getDriverOutstandingOrders db driverId =
     (let orders = filter (on_driver driverId) (cashOrders db)
      in \<lparr>oo_driverId = driverId, oo_orderCount = length orders,
          oo_totalAmount = to_fixed3 (\<Sum>x\<leftarrow>orders. co_totalPrice x),
          oo_orders = filter (\<lambda>x. co_completedAt x = None) orders
            @ sort_key (\<lambda>x. - nullish (co_completedAt x) 0) (filter (\<lambda>x. co_completedAt x \<noteq> None) orders)\<rparr>)"

subsection \<open>Creation\<close>

record create_transfer =
  ct_sourceDriverId :: uuid
  ct_targetDriverId :: uuid
  ct_orderIds :: "uuid list"
  ct_reason :: "string option"
  ct_notes :: "string option"

definition check_drivers :: "cash_db \<Rightarrow> create_transfer \<Rightarrow> unit result" where
  "check_drivers db dto =
     (case find_user db (ct_sourceDriverId dto) of
        None \<Rightarrow> Inl (NotFoundException ''Source driver not found.'')
      | Some src \<Rightarrow>
        (case find_user db (ct_targetDriverId dto) of
           None \<Rightarrow> Inl (NotFoundException ''Target driver not found.'')
         | Some tgt \<Rightarrow>
             if us_role src \<noteq> DRIVER then Inl (BadRequestException ''Source must be a DRIVER.'')
             else if us_role tgt \<noteq> DRIVER then Inl (BadRequestException ''Target must be a DRIVER.'')
             else if \<not> us_isActive tgt then Inl (BadRequestException ''Target driver is deactivated.'')
             else Inr ()))"

definition live_transfer :: "debt_transfer \<Rightarrow> bool" where
  "live_transfer t \<longleftrightarrow> dt_status t \<in> {DT_DRAFT, DT_AWAITING_SIGNATURES, DT_COMPLETED}"

definition locked_orders :: "cash_db \<Rightarrow> uuid list \<Rightarrow> uuid list" where
  "locked_orders db orderIds = filter (\<lambda>i. i \<in> set orderIds)
     (concat (map (\<lambda>t. map tl_orderId (dt_orders t)) (filter live_transfer (debtTransfers db))))"

fun join_comma :: "string list \<Rightarrow> string" where
  "join_comma [] = []"
| "join_comma [x] = x"
| "join_comma (x # xs) = x @ '', '' @ join_comma xs"

definition check_orders :: "cash_db \<Rightarrow> create_transfer \<Rightarrow> cash_order list result" where
  "check_orders db dto =
     (let orderIds = remdups (ct_orderIds dto);
          orders = filter (\<lambda>x. co_id x \<in> set orderIds) (cashOrders db);
          invalid = filter (\<lambda>x. \<not> on_driver (ct_sourceDriverId dto) x) orders;
          alreadyLocked = locked_orders db orderIds
      in if length orders \<noteq> length orderIds then Inl (BadRequestException ''One or more orders not found.'')
         else if invalid \<noteq> [] then Inl (BadRequestException
           (''Orders must belong to source driver and be COMPLETED + PAID_TO_DRIVER. Invalid count: ''
             @ show_nat (length invalid)))
         else if alreadyLocked \<noteq> [] then Inl (BadRequestException
           (''Orders already attached to another transfer: '' @ join_comma alreadyLocked))
         else Inr orders)"

definition create_transfer_row :: "env \<Rightarrow> uuid \<Rightarrow> cash_db \<Rightarrow> uuid \<Rightarrow> safari_role \<Rightarrow> create_transfer \<Rightarrow>
    debt_transfer result \<times> cash_db" where
  "create_transfer_row env new_id db executorId executorRole dto =
     (if executorRole \<noteq> ACCOUNTANT
      then (Inl (ForbiddenException ''Only ACCOUNTANT may initiate a debt transfer.''), db)
      else if ct_sourceDriverId dto = ct_targetDriverId dto
      then (Inl (BadRequestException ''Source and target drivers must be different.''), db)
      else if ct_orderIds dto = []
      then (Inl (BadRequestException ''At least one order must be included in the transfer.''), db)
      else (case bindE (check_drivers db dto) (\<lambda>_. check_orders db dto) of
         Inl e \<Rightarrow> (Inl e, db)
       | Inr orders \<Rightarrow>
           let row = \<lparr>dt_id = new_id, dt_sourceDriverId = ct_sourceDriverId dto,
                 dt_targetDriverId = ct_targetDriverId dto, dt_totalAmount = (\<Sum>x\<leftarrow>orders. co_totalPrice x),
                 dt_orderCount = length orders, dt_reason = ct_reason dto, dt_notes = ct_notes dto,
                 dt_status = DT_AWAITING_SIGNATURES, dt_executedById = executorId, dt_executedByRole = executorRole,
                 dt_sourceSignedAt = None, dt_targetSignedAt = None, dt_finalizedAt = None, dt_cancelledAt = None,
                 dt_cancelledById = None, dt_cancelledReason = None, dt_systemSignature = None,
                 dt_createdAt = now env,
                 dt_orders = map (\<lambda>x. \<lparr>tl_orderId = co_id x, tl_amountSnapshot = co_totalPrice x\<rparr>) orders\<rparr>
           in (Inr row, db\<lparr>debtTransfers := debtTransfers db @ [row]\<rparr>)))"

subsection \<open>Signatures\<close>

definition not_awaiting :: "debt_transfer \<Rightarrow> error" where
  "not_awaiting t = BadRequestException (''Transfer is not awaiting signatures (current: ''
     @ transfer_status_name (dt_status t) @ '').'')"

definition signAsSource :: "env \<Rightarrow> cash_db \<Rightarrow> uuid \<Rightarrow> uuid \<Rightarrow> unit result \<times> cash_db" where
  "signAsSource env db transferId signerId =
     (case find_transfer db transferId of
        None \<Rightarrow> (Inl (NotFoundException ''Debt transfer not found.''), db)
      | Some t \<Rightarrow>
          if dt_status t \<noteq> DT_AWAITING_SIGNATURES then (Inl (not_awaiting t), db)
          else if dt_sourceDriverId t \<noteq> signerId
          then (Inl (ForbiddenException ''Only the source driver may sign as source.''), db)
          else if dt_sourceSignedAt t \<noteq> None then (Inl (BadRequestException ''Source has already signed.''), db)
          else (Inr (), update_transfer transferId (\<lambda>x. x\<lparr>dt_sourceSignedAt := Some (now env)\<rparr>) db))"

definition signAsTarget :: "env \<Rightarrow> cash_db \<Rightarrow> uuid \<Rightarrow> uuid \<Rightarrow> unit result \<times> cash_db" where
  "signAsTarget env db transferId signerId =
     (case find_transfer db transferId of
        None \<Rightarrow> (Inl (NotFoundException ''Debt transfer not found.''), db)
      | Some t \<Rightarrow>
          if dt_status t \<noteq> DT_AWAITING_SIGNATURES then (Inl (not_awaiting t), db)
          else if dt_targetDriverId t \<noteq> signerId
          then (Inl (ForbiddenException ''Only the target driver may sign as target.''), db)
          else if dt_targetSignedAt t \<noteq> None then (Inl (BadRequestException ''Target has already signed.''), db)
          else (Inr (), update_transfer transferId (\<lambda>x. x\<lparr>dt_targetSignedAt := Some (now env)\<rparr>) db))"

subsection \<open>Finalization\<close>

definition reassign :: "uuid \<Rightarrow> uuid \<Rightarrow> cash_order \<Rightarrow> cash_order \<Rightarrow> cash_order" where
  "reassign sourceId targetId read x = x\<lparr>co_driverId := Some targetId,
     co_transferredFromDriverId := Some (nullish (co_transferredFromDriverId read) sourceId)\<rparr>"

definition transfer_meta :: "debt_transfer \<Rightarrow> string \<Rightarrow> json" where
  "transfer_meta t direction = JObject [(''kind'', JString ''DEBT_TRANSFER''), (''transferId'', JString (dt_id t)),
     (''sourceDriverId'', JString (dt_sourceDriverId t)), (''targetDriverId'', JString (dt_targetDriverId t)),
     (''orderCount'', JDecimal (of_nat (dt_orderCount t))), (''direction'', JString direction)]"

text \<open>The memo's dash is its UTF-8 bytes.\<close>

definition em_dash :: string where
  "em_dash = [CHR 0x20, CHR 0xE2, CHR 0x80, CHR 0x94, CHR 0x20]"

definition transfer_pair :: "env \<Rightarrow> debt_transfer \<Rightarrow> cash_db \<Rightarrow> cash_db" where
  "transfer_pair env t db =
     gl_append env (no_ledger\<lparr>al_entryType := DEBT_ADJUSTMENT, al_amount := dt_totalAmount t,
         al_memo := Some (''Debt transfer in (driver accepting)'' @ em_dash @ dt_id t),
         al_metadata := Some (transfer_meta t ''IN''), al_actorUserId := Some (dt_targetDriverId t)\<rparr>)
       (gl_append env (no_ledger\<lparr>al_entryType := DEBT_ADJUSTMENT, al_amount := - dt_totalAmount t,
         al_memo := Some (''Debt transfer out (driver leaving)'' @ em_dash @ dt_id t),
         al_metadata := Some (transfer_meta t ''OUT''), al_actorUserId := Some (dt_sourceDriverId t)\<rparr>) db)"

definition finalize_tx :: "env \<Rightarrow> string \<Rightarrow> cash_db \<Rightarrow> uuid \<Rightarrow> unit result \<times> cash_db" where
  "finalize_tx env token db transferId =
     (case find_transfer db transferId of
        None \<Rightarrow> (Inl (NotFoundException ''Debt transfer not found.''), db)
      | Some t \<Rightarrow>
          if dt_status t \<noteq> DT_AWAITING_SIGNATURES then (Inl (not_awaiting t), db)
          else if dt_sourceSignedAt t = None \<or> dt_targetSignedAt t = None
          then (Inl (BadRequestException ''Both source and target drivers must sign before finalization.''), db)
          else
            let orderIds = map tl_orderId (dt_orders t);
                currentOrders = filter (\<lambda>x. co_id x \<in> set orderIds) (cashOrders db);
                stale = filter (\<lambda>x. \<not> on_driver (dt_sourceDriverId t) x) currentOrders
            in if length currentOrders \<noteq> length orderIds
               then (Inl (BadRequestException ''One or more orders no longer exist for finalization.''), db)
               else if stale \<noteq> []
               then (Inl (BadRequestException (''Some orders have shifted state since signing (count: ''
                 @ show_nat (length stale) @ ''). Cancel and recreate the transfer.'')), db)
               else
                 let orders' = foldl (\<lambda>rows x. update_row co_id (co_id x)
                       (reassign (dt_sourceDriverId t) (dt_targetDriverId t) x) rows) (cashOrders db) currentOrders;
                     db1 = transfer_pair env t (db\<lparr>cashOrders := orders'\<rparr>)
                 in (Inr (), update_transfer transferId (\<lambda>x. x\<lparr>dt_status := DT_COMPLETED,
                      dt_finalizedAt := Some (now env), dt_systemSignature := Some token\<rparr>) db1))"

definition finalize :: "env \<Rightarrow> string \<Rightarrow> cash_db \<Rightarrow> uuid \<Rightarrow> safari_role \<Rightarrow> unit result \<times> cash_db" where
  "finalize env token db transferId executorRole =
     (if executorRole \<noteq> ACCOUNTANT
      then (Inl (ForbiddenException ''Only ACCOUNTANT may finalize a debt transfer.''), db)
      else in_transaction db (finalize_tx env token db transferId))"

definition cancel_transfer :: "env \<Rightarrow> cash_db \<Rightarrow> uuid \<Rightarrow> uuid \<Rightarrow> safari_role \<Rightarrow> string option \<Rightarrow>
    unit result \<times> cash_db" where
  "cancel_transfer env db transferId cancellerId cancellerRole reason =
     (if cancellerRole \<noteq> ACCOUNTANT
      then (Inl (ForbiddenException ''Only ACCOUNTANT may cancel a debt transfer.''), db)
      else (case find_transfer db transferId of
         None \<Rightarrow> (Inl (NotFoundException ''Debt transfer not found.''), db)
       | Some t \<Rightarrow>
           if dt_status t \<noteq> DT_DRAFT \<and> dt_status t \<noteq> DT_AWAITING_SIGNATURES
           then (Inl (BadRequestException ''Only DRAFT or AWAITING_SIGNATURES transfers can be cancelled.''), db)
           else (Inr (), update_transfer transferId (\<lambda>x. x\<lparr>dt_status := DT_CANCELLED,
             dt_cancelledAt := Some (now env), dt_cancelledById := Some cancellerId,
             dt_cancelledReason := reason\<rparr>) db)))"

subsection \<open>Queries\<close>

definition listMine :: "cash_db \<Rightarrow> uuid \<Rightarrow> debt_transfer list" where
  "listMine db userId = sort_key (\<lambda>t. - dt_createdAt t)
     (filter (\<lambda>t. dt_sourceDriverId t = userId \<or> dt_targetDriverId t = userId) (debtTransfers db))"

record list_transfers =
  lt_status :: "transfer_status option"
  lt_sourceDriverId :: "uuid option"
  lt_targetDriverId :: "uuid option"
  lt_executedById :: "uuid option"
  lt_from :: "timestamp option"
  lt_to :: "timestamp option"
  lt_limit :: "int option"
  lt_offset :: "int option"

record transfers_page =
  tp_total :: nat
  tp_limit :: int
  tp_offset :: int
  tp_rows :: "debt_transfer list"

definition transfer_matches :: "list_transfers \<Rightarrow> debt_transfer \<Rightarrow> bool" where
  "transfer_matches f t \<longleftrightarrow> (case lt_status f of None \<Rightarrow> True | Some st \<Rightarrow> dt_status t = st)
     \<and> (truthy (lt_sourceDriverId f) \<longrightarrow> Some (dt_sourceDriverId t) = lt_sourceDriverId f)
     \<and> (truthy (lt_targetDriverId f) \<longrightarrow> Some (dt_targetDriverId t) = lt_targetDriverId f)
     \<and> (truthy (lt_executedById f) \<longrightarrow> Some (dt_executedById t) = lt_executedById f)
     \<and> (case lt_from f of None \<Rightarrow> True | Some x \<Rightarrow> x \<le> dt_createdAt t)
     \<and> (case lt_to f of None \<Rightarrow> True | Some x \<Rightarrow> dt_createdAt t \<le> x)"

definition list_page :: "cash_db \<Rightarrow> list_transfers \<Rightarrow> transfers_page" where
  "list_page db f =
     (let hits = filter (transfer_matches f) (debtTransfers db);
          n = min (max (nullish (lt_limit f) 50) 1) 200; k = max (nullish (lt_offset f) 0) 0
      in \<lparr>tp_total = length hits, tp_limit = n, tp_offset = k,
          tp_rows = take (nat n) (drop (nat k) (sort_key (\<lambda>t. - dt_createdAt t) hits))\<rparr>)"

definition find_one_transfer :: "cash_db \<Rightarrow> uuid \<Rightarrow> debt_transfer result" where
  "find_one_transfer db i = (case find_transfer db i of
     None \<Rightarrow> Inl (NotFoundException ''Debt transfer not found.'') | Some t \<Rightarrow> Inr t)"

end
