(* ===== verification/Deposits.thy ===== *)
theory Deposits
  imports Cash
begin

text \<open>
  \<open>src/finance/bank-deposits.service.ts\<close> (slips and Z-reports the managers upload and an
  accountant verifies) and \<open>src/finance/deposits.service.ts\<close> (deposits the drivers declare and
  an auditor approves, which settles their orders). An amount that arrives as text is the
  decimal it denotes, \<open>None\<close> when it is not a finite number.
\<close>

subsection \<open>Bank deposits\<close>

record deposits_query =
  bq_from :: "timestamp option option"
  bq_to :: "timestamp option option"
  bq_take :: "nat option"

text \<open>An outer \<open>None\<close> is a missing parameter, an inner one a date that does not parse.\<close>

definition list_bank_deposits :: "env \<Rightarrow> cash_db \<Rightarrow> deposits_query \<Rightarrow> bank_deposit list result" where
  "list_bank_deposits env db q =
     (let to_t = (case bq_to q of None \<Rightarrow> Some (now env) | Some t \<Rightarrow> t);
          from_t = (case bq_from q of None \<Rightarrow> map_option (\<lambda>t. t - 30 * MS_PER_DAY) to_t | Some t \<Rightarrow> t)
      in (case (from_t, to_t) of
            (Some f, Some t) \<Rightarrow> Inr (take (nullish (bq_take q) 100) (sort_key (\<lambda>d. - bd_createdAt d)
              (filter (\<lambda>d. f \<le> bd_createdAt d \<and> bd_createdAt d \<le> t) (bankDeposits db))))
          | _ \<Rightarrow> Inl (BadRequestException ''Invalid date range'')))"

record coverage =
  cov_heldKd :: decimal
  cov_heldBagCount :: nat
  cov_gapKd :: decimal
  cov_flagged :: bool

definition held_bags :: "cash_db \<Rightarrow> uuid \<Rightarrow> custody_bag list" where
  "held_bags db managerId = filter (\<lambda>b. cb_managerId b = managerId
     \<and> (cb_status b = PENDING_DEPOSIT \<or> cb_status b = AWAITING_VERIFICATION)) (custodyBags db)"

definition deposit_coverage :: "cash_db \<Rightarrow> uuid \<Rightarrow> bank_deposit_type \<Rightarrow> decimal \<Rightarrow> coverage" where
  "deposit_coverage db managerId depositType amountKd =
     (if depositType = CASH_DEPOSIT_SLIP \<and> amountKd > 0 then
        let held = (\<Sum>b\<leftarrow>held_bags db managerId. cb_amountKd b); gap = amountKd - held
        in \<lparr>cov_heldKd = held, cov_heldBagCount = length (held_bags db managerId),
            cov_gapKd = (if gap > 0 then gap else 0), cov_flagged = (gap > 0)\<rparr>
      else \<lparr>cov_heldKd = 0, cov_heldBagCount = 0, cov_gapKd = 0, cov_flagged = False\<rparr>)"

definition coverage_json :: "coverage \<Rightarrow> json" where
  "coverage_json c = JObject [(''heldKd'', JDecimal (cov_heldKd c)), (''heldBagCount'', JDecimal (of_nat (cov_heldBagCount c))),
     (''gapKd'', JDecimal (cov_gapKd c)), (''flagged'', JBool (cov_flagged c))]"

definition createFromUpload :: "env \<Rightarrow> uuid \<Rightarrow> cash_db \<Rightarrow> uuid \<Rightarrow> string \<Rightarrow> bank_deposit_type \<Rightarrow> decimal option \<Rightarrow>
    uuid option \<Rightarrow> bank_deposit result \<times> cash_db" where
  "createFromUpload env new_id db managerId fileUrl depositType amountKdRaw shiftId =
     (case amountKdRaw of
        None \<Rightarrow> (Inl (BadRequestException ''Invalid amount''), db)
      | Some amountKd \<Rightarrow>
          if amountKd < 0 then (Inl (BadRequestException ''Invalid amount''), db)
          else if truthy shiftId \<and> find_row sh_id (shifts db) (nullish shiftId []) = None
          then (Inl (NotFoundException ''Shift not found''), db)
          else
            let c = deposit_coverage db managerId depositType amountKd;
                row = \<lparr>bd_id = new_id, bd_depositType = depositType, bd_status = BD_PENDING,
                  bd_amountKd = half_even4 amountKd, bd_receiptImageUrl = fileUrl, bd_shiftId = shiftId,
                  bd_managerCashCustodyId = None, bd_uploadedById = managerId,
                  bd_verifiedByAccountantId = None, bd_verifiedAt = None, bd_createdAt = now env\<rparr>;
                registered = \<lparr>au_action = ''CASH_DEPOSIT_REGISTERED'', au_userId = managerId,
                  au_amount = to_fixed4 amountKd, au_source = ''BANK_DEPOSIT_UPLOAD'', au_suspicious = False,
                  au_changes = [(''bankDepositLogId'', JString new_id), (''shiftId'', json_option shiftId),
                    (''receiptImageUrl'', JString fileUrl), (''coverage'', coverage_json c)]\<rparr>;
                uncovered = \<lparr>au_action = ''CASH_DEPOSIT_UNCOVERED'', au_userId = managerId,
                  au_amount = to_fixed4 amountKd, au_source = ''BANK_DEPOSIT_UPLOAD'', au_suspicious = True,
                  au_changes = [(''bankDepositLogId'', JString new_id), (''shiftId'', json_option shiftId),
                    (''managerId'', JString managerId), (''declaredAmountKd'', JDecimal amountKd),
                    (''heldCustodyKd'', JDecimal (cov_heldKd c)),
                    (''heldCustodyBagCount'', JDecimal (of_nat (cov_heldBagCount c))),
                    (''shortfallKd'', JDecimal (cov_gapKd c))]\<rparr>;
                db1 = log_event registered (db\<lparr>bankDeposits := bankDeposits db @ [row]\<rparr>)
            in (Inr row, if cov_flagged c then log_event uncovered db1 else db1))"

fun deposit_type_lower :: "bank_deposit_type \<Rightarrow> string" where
  "deposit_type_lower CASH_DEPOSIT_SLIP = ''cash_deposit_slip''"
| "deposit_type_lower KNET_Z_REPORT = ''knet_z_report''"

definition verify_deposit :: "env \<Rightarrow> cash_db \<Rightarrow> uuid \<Rightarrow> uuid \<Rightarrow> bank_deposit result \<times> cash_db" where
  "verify_deposit env db accountantId i =
     (case find_row bd_id (bankDeposits db) i of
        None \<Rightarrow> (Inl (NotFoundException ''Deposit log entry not found''), db)
      | Some row \<Rightarrow>
          if truthy (bd_verifiedByAccountantId row)
          then (Inl (BadRequestException ''Already verified by accountant''), db)
          else
            let change = (\<lambda>d. d\<lparr>bd_verifiedByAccountantId := Some accountantId, bd_verifiedAt := Some (now env),
                  bd_status := BD_VERIFIED\<rparr>);
                next = change row;
                db1 = db\<lparr>bankDeposits := update_row bd_id i change (bankDeposits db)\<rparr>
            in (Inr next, gl_append env (no_ledger\<lparr>al_entryType := WALLET_SETTLEMENT, al_amount := 0,
                 al_memo := Some (''bank-deposit:'' @ deposit_type_lower (bd_depositType next) @ '':verified''),
                 al_actorUserId := Some accountantId,
                 al_metadata := Some (JObject [(''source'', JString ''BANK_DEPOSIT_LOG''),
                   (''bankDepositLogId'', JString (bd_id next)), (''amountKd'', JDecimal (bd_amountKd next)),
                   (''receiptImageUrl'', JString (bd_receiptImageUrl next)),
                   (''shiftId'', json_option (bd_shiftId next)),
                   (''uploadedById'', JString (bd_uploadedById next))])\<rparr>) db1))"

subsection \<open>Driver deposits\<close>

text \<open>The rows are in the order of creation, so the newest come first after \<open>rev\<close>.\<close>

record list_deposits =
  ld_status :: "deposit_status option"
  ld_driverId :: "uuid option"
  ld_driverName :: "string option"

definition listForUser :: "cash_db \<Rightarrow> uuid \<Rightarrow> safari_role \<Rightarrow> list_deposits \<Rightarrow> driver_deposit list" where
  "listForUser db userId role q =
     (let driver = (if role = DRIVER then Some userId else if truthy (ld_driverId q) then ld_driverId q else None);
          nameQ = (if role = DRIVER then None else trim_or (ld_driverName q) None)
      in take 500 (rev (filter (\<lambda>d. (case ld_status q of None \<Rightarrow> True | Some s \<Rightarrow> dd_status d = s)
           \<and> (case driver of None \<Rightarrow> True | Some i \<Rightarrow> dd_driverId d = i)
           \<and> (case nameQ of None \<Rightarrow> True | Some n \<Rightarrow> (case find_user db (dd_driverId d) of None \<Rightarrow> False
                | Some u \<Rightarrow> str_includes (to_lower (us_fullName u)) (to_lower n)))) (driverDeposits db))))"

definition createByDriver :: "uuid \<Rightarrow> cash_db \<Rightarrow> uuid \<Rightarrow> decimal option \<Rightarrow> string \<Rightarrow> string \<Rightarrow>
    driver_deposit result \<times> cash_db" where
  "createByDriver new_id db driverId amount dtype receiptImageUrl =
     (case amount of
        None \<Rightarrow> (Inl (BadRequestException ''amount must be a valid number''), db)
      | Some a \<Rightarrow>
          if a \<le> 0 then (Inl (BadRequestException ''amount must be positive''), db)
          else (case find_user db driverId of
             None \<Rightarrow> (Inl (BadRequestException ''Only DRIVER can create deposit request''), db)
           | Some u \<Rightarrow>
               if us_role u \<noteq> DRIVER
               then (Inl (BadRequestException ''Only DRIVER can create deposit request''), db)
               else
                 let row = \<lparr>dd_id = new_id, dd_driverId = driverId, dd_amount = half_even4 a, dd_type = dtype,
                       dd_receiptImage = receiptImageUrl, dd_status = DEP_PENDING, dd_auditComment = None,
                       dd_auditedById = None\<rparr>
                 in (Inr row, db\<lparr>driverDeposits := driverDeposits db @ [row]\<rparr>)))"

definition credit_branch_wallet :: "env \<Rightarrow> uuid option \<Rightarrow> decimal \<Rightarrow> cash_db \<Rightarrow> cash_db" where
  "credit_branch_wallet env branchId amount db =
     (if \<not> truthy branchId then db
      else let b = nullish branchId [] in
        (case find (\<lambda>w. bw_branchId w = b \<and> bw_currency w = ''KWD'') (branchWallets db) of
           Some w \<Rightarrow> db\<lparr>branchWallets := update_row bw_id (bw_id w)
             (\<lambda>x. x\<lparr>bw_balance := bw_balance w + amount\<rparr>) (branchWallets db)\<rparr>
         | None \<Rightarrow> db\<lparr>branchWallets := branchWallets db @ [\<lparr>bw_id = new_uuid env (length (branchWallets db)),
             bw_branchId = b, bw_currency = ''KWD'', bw_balance = amount\<rparr>]\<rparr>))"

definition updateStatus :: "env \<Rightarrow> cash_db \<Rightarrow> uuid \<Rightarrow> safari_role \<Rightarrow> uuid \<Rightarrow> deposit_status \<Rightarrow> string option \<Rightarrow>
    driver_deposit result \<times> cash_db" where
  "updateStatus env db auditorId auditorRole i status comment =
     (case assertInstitutionalMutationAllowed auditorRole of
        Inl e \<Rightarrow> (Inl e, db)
      | Inr _ \<Rightarrow>
        (case find_row dd_id (driverDeposits db) i of
           None \<Rightarrow> (Inl (NotFoundException ''Deposit not found''), db)
         | Some row \<Rightarrow>
             if dd_status row \<noteq> DEP_PENDING
             then (Inl (BadRequestException ''Only pending deposits can be updated''), db)
             else
               let change = (\<lambda>d. d\<lparr>dd_status := status, dd_auditComment := trim_or comment None,
                     dd_auditedById := Some auditorId\<rparr>);
                   updated = change row;
                   db1 = db\<lparr>driverDeposits := update_row dd_id i change (driverDeposits db)\<rparr>
               in (Inr updated,
                   if status \<noteq> DEP_APPROVED then db1
                   else
                     let branchId = (case find_user db (dd_driverId row) of None \<Rightarrow> None | Some u \<Rightarrow> us_branchId u);
                         db2 = snd (applyDriverDepositSettlement db1 (dd_driverId row) (dd_amount updated));
                         db3 = credit_branch_wallet env branchId (dd_amount updated) db2
                     in gl_append env (no_ledger\<lparr>al_entryType := WALLET_SETTLEMENT, al_amount := dd_amount updated,
                          al_memo := Some (''driver-deposit:'' @ to_lower (dd_type updated) @ '':approved''),
                          al_actorUserId := Some auditorId,
                          al_metadata := Some (JObject [(''source'', JString ''DRIVER_DEPOSIT''),
                            (''depositId'', JString (dd_id updated)), (''driverId'', JString (dd_driverId row)),
                            (''branchId'', json_option branchId), (''depositType'', JString (dd_type updated)),
                            (''amountKd'', JDecimal (dd_amount updated)),
                            (''receiptImageUrl'', JString (dd_receiptImage updated))])\<rparr>) db3)))"

end
