(* ===== verification/Cash_Chain.thy ===== *)
theory Cash_Chain
  imports Custody Debt_Transfers Deposits
begin

text \<open>
  The cash chain as a whole: the operations of the handover, of the custody bags, of the debt
  transfers and of the deposits, run one after the other on one database, and what holds along
  every history: cash moves but is neither lost nor made, a bag is booked once, an order is
  promised to one transfer at most.
\<close>

datatype cash_op =
    EnsureShift env uuid uuid
  | ConfirmHandover env uuid uuid safari_role confirm_handover
  | ApproveReceipt env uuid uuid approve_receipt
  | UploadSlip env uuid uuid upload_slip
  | VerifyCustody env uuid uuid "string option"
  | RejectCustody env uuid uuid string
  | CreateTransfer env uuid uuid safari_role create_transfer
  | SignSource env uuid uuid
  | SignTarget env uuid uuid
  | FinalizeTransfer env string uuid safari_role
  | CancelTransfer env uuid uuid safari_role "string option"
  | UploadBankDeposit env uuid uuid string bank_deposit_type "decimal option" "uuid option"
  | VerifyBankDeposit env uuid uuid
  | DeclareDeposit uuid uuid "decimal option" string string
  | AuditDeposit env uuid safari_role uuid deposit_status "string option"

text \<open>A new row gets an identifier that no row has.\<close>

fun exec_cash :: "cash_op \<Rightarrow> cash_db \<Rightarrow> cash_db" where
  "exec_cash (EnsureShift env i d) db = ensureOpenShiftForDriver env i db d"
| "exec_cash (ConfirmHandover env i m role dto) db =
     (if find_bag db i = None then snd (confirmHandover env i db m role dto) else db)"
| "exec_cash (ApproveReceipt env i m dto) db =
     (if find_bag db i = None then snd (approveReceiptFromDriver env i db m dto) else db)"
| "exec_cash (UploadSlip env i m dto) db = snd (uploadDepositSlip env db i m dto)"
| "exec_cash (VerifyCustody env i a nt) db = snd (verifyCustody env db i a nt)"
| "exec_cash (RejectCustody env i a reason) db = snd (rejectCustody env db i a reason)"
| "exec_cash (CreateTransfer env i u role dto) db =
     (if find_transfer db i = None then snd (create_transfer_row env i db u role dto) else db)"
| "exec_cash (SignSource env i u) db = snd (signAsSource env db i u)"
| "exec_cash (SignTarget env i u) db = snd (signAsTarget env db i u)"
| "exec_cash (FinalizeTransfer env token i role) db = snd (finalize env token db i role)"
| "exec_cash (CancelTransfer env i u role reason) db = snd (cancel_transfer env db i u role reason)"
| "exec_cash (UploadBankDeposit env i m url ty amount s) db = snd (createFromUpload env i db m url ty amount s)"
| "exec_cash (VerifyBankDeposit env i a) db = snd (verify_deposit env db a i)"
| "exec_cash (DeclareDeposit i d amount ty url) db = snd (createByDriver i db d amount ty url)"
| "exec_cash (AuditDeposit env a role i status comment) db = snd (updateStatus env db a role i status comment)"

definition run_cash :: "cash_op list \<Rightarrow> cash_db \<Rightarrow> cash_db" where
  "run_cash ops db = foldl (\<lambda>s op. exec_cash op s) db ops"

subsection \<open>The shape of each operation\<close>

lemma handover_write_cases:
  obtains e where "handover_write env i m driver dto pending db = (Inl e, db)"
  | r where "hr_settledOrderCount r = 0" "handover_write env i m driver dto pending db = (Inr r, db)"
  | r shiftId branchId minor where "0 < hr_settledOrderCount r"
      "length (filter (settles (map co_id pending)) (cashOrders db)) = length pending"
      "sumOrderMinors (map co_totalPrice pending) = Inr minor"
      "handover_write env i m driver dto pending db = (Inr r, db\<lparr>
         cashOrders := settle_orders (map co_id pending) shiftId (cashOrders db),
         custodyBags := custodyBags db @ [new_bag env i m branchId shiftId minor (length pending) dto]\<rparr>)"
proof (cases "sumOrderMinors (map co_totalPrice pending)")
  case (Inl e)
  then have "handover_write env i m driver dto pending db = (Inl e, db)" by (simp add: handover_write_def)
  with that(1) show ?thesis .
next
  case minor: (Inr minor)
  let ?check = "case ch_declaredHandoverTotal dto of None \<Rightarrow> Inr ()
    | Some declared \<Rightarrow> assertDeclaredMatchesLedgerMinor minor declared"
  show ?thesis
  proof (cases ?check)
    case (Inl e)
    then have "handover_write env i m driver dto pending db = (Inl (BadRequestException (error_message e)), db)"
      by (simp add: handover_write_def minor)
    with that(1) show ?thesis .
  next
    case check: (Inr u)
    consider "pending = []"
      | "pending \<noteq> []" "length (filter (settles (map co_id pending)) (cashOrders db)) \<noteq> length pending"
      | "pending \<noteq> []" "length (filter (settles (map co_id pending)) (cashOrders db)) = length pending"
      by blast
    then show ?thesis
    proof cases
      case 1
      then show ?thesis using minor check by (intro that(2)) (auto simp: handover_write_def)
    next
      case 2
      then show ?thesis using minor check by (intro that(1)) (simp add: handover_write_def Let_def)
    next
      case 3
      then show ?thesis
        using minor check by (intro that(3) [OF _ _ minor]) (auto simp: handover_write_def Let_def)
    qed
  qed
qed

text \<open>
  A handover either changes nothing or settles all the cash of the driver and creates one bag.
\<close>

lemma confirmHandover_cases:
  obtains (same) "snd (confirmHandover env i db m role dto) = db"
  | (settled) shiftId branchId minor a where
      "sumOrderMinors (map co_totalPrice (pending_cash db (ch_driverId dto))) = Inr minor"
      "snd (confirmHandover env i db m role dto) = log_event a (db\<lparr>
         cashOrders := settle_orders (map co_id (pending_cash db (ch_driverId dto))) shiftId (cashOrders db),
         custodyBags := custodyBags db @ [new_bag env i m branchId shiftId minor
           (length (pending_cash db (ch_driverId dto))) dto]\<rparr>)"
proof -
  consider "role = GENERAL_MANAGER" | "role \<noteq> GENERAL_MANAGER" "find_user db (ch_driverId dto) = None"
    | driver where "role \<noteq> GENERAL_MANAGER" "find_user db (ch_driverId dto) = Some driver" "us_role driver \<noteq> DRIVER"
    | driver where "role \<noteq> GENERAL_MANAGER" "find_user db (ch_driverId dto) = Some driver" "us_role driver = DRIVER"
    by fastforce
  then show ?thesis
  proof cases
    case (4 driver)
    have shape: "confirmHandover env i db m role dto = (case in_transaction db
        (handover_write env i m driver dto (pending_cash db (ch_driverId dto)) db) of
       (Inl e, db') \<Rightarrow> (Inl e, db')
     | (Inr r, db') \<Rightarrow> (Inr (r\<lparr>hr_custodyBagId := None, hr_branchId := None\<rparr>),
         if hr_settledOrderCount r > 0 then log_event (handover_event m dto r) db' else db'))"
      using 4 by (simp add: confirmHandover_def assertInstitutionalMutationAllowed_def guardE_def)
    show ?thesis
    proof (cases rule: handover_write_cases [of env i m driver dto "pending_cash db (ch_driverId dto)" db])
      case (1 e)
      then show ?thesis using that(1) by (simp add: shape in_transaction_def)
    next
      case (2 r)
      then show ?thesis using that(1) by (simp add: shape in_transaction_def)
    next
      case (3 r shiftId branchId minor)
      then show ?thesis using that(2) by (simp add: shape in_transaction_def)
    qed
  qed (use that(1) in \<open>simp_all add: confirmHandover_def assertInstitutionalMutationAllowed_def guardE_def\<close>)
qed

lemma update_bag_fields [table_simps]:
  "custodyBags (update_bag i f db) = update_row cb_id i f (custodyBags db)"
  "cashOrders (update_bag i f db) = cashOrders db" "glEntries (update_bag i f db) = glEntries db"
  "debtTransfers (update_bag i f db) = debtTransfers db" "users (update_bag i f db) = users db"
  "bankDeposits (update_bag i f db) = bankDeposits db"
  by (simp_all add: update_bag_def)

lemma update_transfer_fields [table_simps]:
  "debtTransfers (update_transfer i f db) = update_row dt_id i f (debtTransfers db)"
  "cashOrders (update_transfer i f db) = cashOrders db" "glEntries (update_transfer i f db) = glEntries db"
  "custodyBags (update_transfer i f db) = custodyBags db"
  by (simp_all add: update_transfer_def)

lemma register_deposit_fields [table_simps]:
  "custodyBags (register_deposit env a row db) = custodyBags db"
  "cashOrders (register_deposit env a row db) = cashOrders db"
  "glEntries (register_deposit env a row db) = glEntries db"
  "debtTransfers (register_deposit env a row db) = debtTransfers db"
  by (auto simp: register_deposit_def log_event_def Let_def split: option.split)

lemma credit_branch_wallet_fields [table_simps]:
  "custodyBags (credit_branch_wallet env b x db) = custodyBags db"
  "cashOrders (credit_branch_wallet env b x db) = cashOrders db"
  "glEntries (credit_branch_wallet env b x db) = glEntries db"
  "debtTransfers (credit_branch_wallet env b x db) = debtTransfers db"
  by (auto simp: credit_branch_wallet_def Let_def split: option.split)

lemma ensure_shift_fields [table_simps]:
  "custodyBags (ensureOpenShiftForDriver env i db d) = custodyBags db"
  "cashOrders (ensureOpenShiftForDriver env i db d) = cashOrders db"
  "glEntries (ensureOpenShiftForDriver env i db d) = glEntries db"
  "debtTransfers (ensureOpenShiftForDriver env i db d) = debtTransfers db"
  by (auto simp: ensureOpenShiftForDriver_def split: option.split)

lemma settlement_fields [table_simps]:
  "custodyBags (snd (applyDriverDepositSettlement db d x)) = custodyBags db"
  "glEntries (snd (applyDriverDepositSettlement db d x)) = glEntries db"
  "debtTransfers (snd (applyDriverDepositSettlement db d x)) = debtTransfers db"
  by (simp_all add: applyDriverDepositSettlement_def Let_def)

lemma glEntries_append [table_simps]:
  "\<exists>g. glEntries (gl_append env row db) = glEntries db @ [g] \<and> gl_entryType g = al_entryType row
     \<and> gl_amount g = al_amount row \<and> gl_metadata g = al_metadata row"
  by (simp add: gl_append_def)

lemma approve_receipt_cases:
  obtains "snd (approveReceiptFromDriver env i db m dto) = snd (confirmHandover env i db m MANAGER
      \<lparr>ch_driverId = ar_driverId dto, ch_depositReceiptUrl = None, ch_declaredHandoverTotal = ar_declaredHandoverTotal dto\<rparr>)"
  | j nt where "snd (approveReceiptFromDriver env i db m dto) = update_bag j (\<lambda>b. b\<lparr>cb_note := Some nt\<rparr>)
      (snd (confirmHandover env i db m MANAGER
      \<lparr>ch_driverId = ar_driverId dto, ch_depositReceiptUrl = None, ch_declaredHandoverTotal = ar_declaredHandoverTotal dto\<rparr>))"
proof -
  let ?dto = "\<lparr>ch_driverId = ar_driverId dto, ch_depositReceiptUrl = None,
    ch_declaredHandoverTotal = ar_declaredHandoverTotal dto\<rparr>"
  obtain r db' where c: "confirmHandover env i db m MANAGER ?dto = (r, db')" by fastforce
  have "snd (approveReceiptFromDriver env i db m dto) = db'
      \<or> (\<exists>j nt. snd (approveReceiptFromDriver env i db m dto) = update_bag j (\<lambda>b. b\<lparr>cb_note := Some nt\<rparr>) db')"
    by (cases r) (auto simp: approveReceiptFromDriver_def c Let_def split: option.split)
  with that c show ?thesis by auto
qed

lemma upload_cases:
  obtains "snd (uploadDepositSlip env db i m dto) = db"
  | bag nt where "find_bag db i = Some bag" "cb_managerId bag = m"
      "cb_status bag = PENDING_DEPOSIT \<or> cb_status bag = REJECTED"
      "custodyBags (snd (uploadDepositSlip env db i m dto)) = update_row cb_id i
         (\<lambda>b. b\<lparr>cb_depositSlipUrl := Some (up_depositSlipUrl dto), cb_slipUploadedAt := Some (now env),
            cb_status := AWAITING_VERIFICATION, cb_rejectedByAccountantId := None, cb_rejectedAt := None,
            cb_rejectionReason := None, cb_note := nt\<rparr>) (custodyBags db)"
      "cashOrders (snd (uploadDepositSlip env db i m dto)) = cashOrders db"
      "glEntries (snd (uploadDepositSlip env db i m dto)) = glEntries db"
      "debtTransfers (snd (uploadDepositSlip env db i m dto)) = debtTransfers db"
proof (cases "find_bag db i")
  case None
  then show ?thesis using that(1) by (simp add: uploadDepositSlip_def requireBag_def)
next
  case (Some bag)
  note shape = uploadDepositSlip_def requireBag_def Some Let_def
  consider "cb_managerId bag \<noteq> m" | "cb_managerId bag = m" "\<not> (cb_status bag = PENDING_DEPOSIT \<or> cb_status bag = REJECTED)"
    | e where "cb_managerId bag = m" "cb_status bag = PENDING_DEPOSIT \<or> cb_status bag = REJECTED" "slip_matches bag dto = Inl e"
    | u where "cb_managerId bag = m" "cb_status bag = PENDING_DEPOSIT \<or> cb_status bag = REJECTED" "slip_matches bag dto = Inr u"
    by (cases "slip_matches bag dto") blast+
  then show ?thesis
  proof cases
    case (4 u)
    show ?thesis
      by (rule that(2) [OF Some 4(1,2), of "trim_or (up_note dto) (cb_note bag)"])
        (use 4 in \<open>auto simp: shape table_simps split: option.split\<close>)
  qed (use that(1) in \<open>auto simp: shape\<close>)
qed

lemma verify_cases:
  obtains "snd (verifyCustody env db i a nt) = db"
  | bag nt' g where "find_bag db i = Some bag" "cb_status bag = AWAITING_VERIFICATION"
      "custodyBags (snd (verifyCustody env db i a nt)) = update_row cb_id i
         (\<lambda>b. b\<lparr>cb_status := VERIFIED, cb_verifiedByAccountantId := Some a, cb_verifiedAt := Some (now env),
            cb_note := nt'\<rparr>) (custodyBags db)"
      "cashOrders (snd (verifyCustody env db i a nt)) = cashOrders db"
      "glEntries (snd (verifyCustody env db i a nt)) = glEntries db @ [g]"
      "gl_entryType g = WALLET_SETTLEMENT" "gl_amount g = cb_amountKd bag"
      "\<And>k. k \<in> {''event'', ''custodyId''} \<Longrightarrow> json_field k (gl_metadata g) = json_field k (Some (settlement_metadata bag))"
      "debtTransfers (snd (verifyCustody env db i a nt)) = debtTransfers db"
proof (cases "find_bag db i")
  case None
  then show ?thesis using that(1) by (simp add: verifyCustody_def requireBag_def)
next
  case (Some bag)
  show ?thesis
  proof (cases "cb_status bag = AWAITING_VERIFICATION")
    case False
    then show ?thesis using that(1) Some by (simp add: verifyCustody_def requireBag_def)
  next
    case True
    have i: "cb_id bag = i" using find_row_id [OF Some] by simp
    let ?f = "\<lambda>b. b\<lparr>cb_status := VERIFIED, cb_verifiedByAccountantId := Some a, cb_verifiedAt := Some (now env),
      cb_note := trim_or nt (cb_note bag)\<rparr>"
    have "find_bag (update_bag i ?f db) i = Some (?f bag)" using Some by (simp add: table_simps)
    then show ?thesis
      using that(2) [OF Some True] i
      by (simp add: verifyCustody_def requireBag_def Some True verify_write_def Let_def table_simps
          gl_append_def log_event_def register_deposit_fields settlement_metadata_def)
  qed
qed

lemma reject_cases:
  obtains "snd (rejectCustody env db i a reason) = db"
  | bag r where "find_bag db i = Some bag" "cb_status bag = AWAITING_VERIFICATION"
      "custodyBags (snd (rejectCustody env db i a reason)) = update_row cb_id i
         (\<lambda>b. b\<lparr>cb_status := REJECTED, cb_rejectedByAccountantId := Some a, cb_rejectedAt := Some (now env),
            cb_rejectionReason := Some r\<rparr>) (custodyBags db)"
      "cashOrders (snd (rejectCustody env db i a reason)) = cashOrders db"
      "glEntries (snd (rejectCustody env db i a reason)) = glEntries db"
      "debtTransfers (snd (rejectCustody env db i a reason)) = debtTransfers db"
proof (cases "find_bag db i")
  case None
  then show ?thesis using that(1) by (simp add: rejectCustody_def requireBag_def)
next
  case (Some bag)
  show ?thesis
  proof (cases "cb_status bag = AWAITING_VERIFICATION")
    case False
    then show ?thesis using that(1) Some by (simp add: rejectCustody_def requireBag_def)
  next
    case True
    show ?thesis
      by (rule that(2) [OF Some True, of "js_trim reason"])
        (simp_all add: rejectCustody_def requireBag_def Some True Let_def table_simps)
  qed
qed

text \<open>The operations on transfers and deposits leave the bags alone.\<close>

fun touches_bags :: "cash_op \<Rightarrow> bool" where
  "touches_bags (ConfirmHandover env i m role dto) = True"
| "touches_bags (ApproveReceipt env i m dto) = True"
| "touches_bags (UploadSlip env i m dto) = True"
| "touches_bags (VerifyCustody env i a nt) = True"
| "touches_bags (RejectCustody env i a reason) = True"
| "touches_bags _ = False"

lemma transfer_pair_fields [table_simps]:
  "custodyBags (transfer_pair env t db) = custodyBags db" "cashOrders (transfer_pair env t db) = cashOrders db"
  "debtTransfers (transfer_pair env t db) = debtTransfers db"
  by (simp_all add: transfer_pair_def table_simps)

lemma transfers_keep_bags:
  "custodyBags (snd (create_transfer_row env i db u role dto)) = custodyBags db"
  "custodyBags (snd (signAsSource env db i u)) = custodyBags db"
  "custodyBags (snd (signAsTarget env db i u)) = custodyBags db"
  "custodyBags (snd (cancel_transfer env db i u role reason)) = custodyBags db"
  by (auto simp: create_transfer_row_def signAsSource_def signAsTarget_def cancel_transfer_def Let_def table_simps
      split: option.split sum.split)

lemma finalize_keeps_bags: "custodyBags (snd (finalize env token db i role)) = custodyBags db"
  by (auto simp: finalize_def finalize_tx_def Let_def table_simps split: option.split)

lemma deposits_keep_bags:
  "custodyBags (snd (createFromUpload env i db m url ty amount s)) = custodyBags db"
  "custodyBags (snd (verify_deposit env db a i)) = custodyBags db"
  "custodyBags (snd (createByDriver i db d amount cty url)) = custodyBags db"
  "custodyBags (snd (updateStatus env db a role i status comment)) = custodyBags db"
  by (auto simp: createFromUpload_def verify_deposit_def createByDriver_def updateStatus_def Let_def table_simps
      split: option.split sum.split)

lemma bags_untouched: "\<not> touches_bags op \<Longrightarrow> custodyBags (exec_cash op db) = custodyBags db"
  by (cases op) (simp_all add: table_simps transfers_keep_bags finalize_keeps_bags deposits_keep_bags)

subsection \<open>The life of a bag\<close>

inductive custody_move :: "custody_status \<Rightarrow> custody_status \<Rightarrow> bool" where
  upload: "custody_move PENDING_DEPOSIT AWAITING_VERIFICATION"
| upload_again: "custody_move REJECTED AWAITING_VERIFICATION"
| verify: "custody_move AWAITING_VERIFICATION VERIFIED"
| reject: "custody_move AWAITING_VERIFICATION REJECTED"

inductive_simps custody_move_iff: "custody_move a b"
inductive_cases custody_move_from: "custody_move a b"

definition bag_step :: "custody_bag \<Rightarrow> custody_bag \<Rightarrow> bool" where
  "bag_step b b' \<longleftrightarrow> cb_amountKd b' = cb_amountKd b \<and> cb_managerId b' = cb_managerId b
     \<and> cb_driverId b' = cb_driverId b \<and> (cb_status b' = cb_status b \<or> custody_move (cb_status b) (cb_status b'))"

definition bag_new :: "custody_bag \<Rightarrow> bool" where
  "bag_new n \<longleftrightarrow> cb_status n = PENDING_DEPOSIT \<or> cb_status n = AWAITING_VERIFICATION"

abbreviation bags_step :: "custody_bag list \<Rightarrow> custody_bag list \<Rightarrow> bool" where
  "bags_step \<equiv> table_step cb_id bag_step bag_new"

definition bag_ids_ok :: "cash_db \<Rightarrow> bool" where
  "bag_ids_ok db \<longleftrightarrow> distinct (map cb_id (custodyBags db))"

lemma bag_step_refl [intro]: "bag_step b b"
  by (simp add: bag_step_def)

lemma bags_step_refl [intro]: "bags_step bs bs"
  by (rule table_step_refl) auto

lemmas bags_step_update = table_step_update [where idf = cb_id and R = bag_step and P = bag_new, OF _ _ bag_step_refl]

lemma new_bag_fields [simp]:
  "cb_id (new_bag env i m b s minor n dto) = i" "cb_amountKd (new_bag env i m b s minor n dto) = amount_of_minor minor"
  "cb_status (new_bag env i m b s minor n dto) = (if truthy (ch_depositReceiptUrl dto) then AWAITING_VERIFICATION else PENDING_DEPOSIT)"
  "cb_managerId (new_bag env i m b s minor n dto) = m" "cb_driverId (new_bag env i m b s minor n dto) = ch_driverId dto"
  by (simp_all add: new_bag_def Let_def)

lemma confirm_bags_step:
  assumes "find_bag db i = None"
  shows "bags_step (custodyBags db) (custodyBags (snd (confirmHandover env i db m role dto)))"
proof (cases rule: confirmHandover_cases [of env i db m role dto])
  case same
  then show ?thesis by auto
next
  case (settled shiftId branchId minor a)
  then show ?thesis
    using assms by (simp add: table_simps, intro table_step_append) (auto simp: find_row_None bag_new_def)
qed

lemma note_step: "bags_step bs bs' \<Longrightarrow> bags_step bs (update_row cb_id j (\<lambda>b. b\<lparr>cb_note := Some nt\<rparr>) bs')"
  unfolding update_row_def by (erule table_step_map) (auto simp: bag_step_def bag_new_def)

lemma exec_bags_step:
  assumes ok: "bag_ids_ok db"
  shows "bags_step (custodyBags db) (custodyBags (exec_cash op db))"
proof (cases "touches_bags op")
  case False
  then show ?thesis using bags_untouched by auto
next
  case True
  note d = ok [unfolded bag_ids_ok_def]
  show ?thesis
  proof (cases op)
    case (ConfirmHandover env i m role dto)
    then show ?thesis using confirm_bags_step by auto
  next
    case (ApproveReceipt env i m dto)
    show ?thesis
    proof (cases "find_bag db i = None")
      case True
      note step = confirm_bags_step [OF True]
      show ?thesis
      proof (cases rule: approve_receipt_cases [of env i db m dto])
        case 1
        then show ?thesis using ApproveReceipt True step by simp
      next
        case (2 j nt)
        then show ?thesis using ApproveReceipt True
          by (simp add: table_simps note_step [OF step])
      qed
    next
      case False
      then show ?thesis using ApproveReceipt by auto
    qed
  next
    case (UploadSlip env i m dto)
    show ?thesis
    proof (cases rule: upload_cases [of env db i m dto])
      case 1
      then show ?thesis using UploadSlip by auto
    next
      case (2 bag nt)
      then show ?thesis using UploadSlip
        by (simp, intro bags_step_update [OF d]) (auto simp: bag_step_def custody_move_iff)
    qed
  next
    case (VerifyCustody env i a nt)
    show ?thesis
    proof (cases rule: verify_cases [of env db i a nt])
      case 1
      then show ?thesis using VerifyCustody by auto
    next
      case (2 bag nt' g)
      then show ?thesis using VerifyCustody
        by (simp, intro bags_step_update [OF d]) (auto simp: bag_step_def custody_move_iff)
    qed
  next
    case (RejectCustody env i a reason)
    show ?thesis
    proof (cases rule: reject_cases [of env db i a reason])
      case 1
      then show ?thesis using RejectCustody by auto
    next
      case (2 bag r)
      then show ?thesis using RejectCustody
        by (simp, intro bags_step_update [OF d]) (auto simp: bag_step_def custody_move_iff)
    qed
  qed (use True in simp_all)
qed

definition custody_status_at :: "cash_db \<Rightarrow> uuid \<Rightarrow> custody_status option" where
  "custody_status_at db i = map_option cb_status (find_bag db i)"

interpretation custody: workflow bag_ids_ok custody_status_at exec_cash custody_move PENDING_DEPOSIT
proof unfold_locales
  fix s :: cash_db and op i a
  assume ok: "bag_ids_ok s"
  note step = exec_bags_step [OF ok, of op]
  show "bag_ids_ok (exec_cash op s)"
    using table_step_ids [OF step] ok by (simp add: bag_ids_ok_def)
  show "\<exists>b. custody_status_at (exec_cash op s) i = Some b \<and> (b = a \<or> custody_move a b)"
    if "custody_status_at s i = Some a"
    using that table_step_find [OF step, of i] by (auto simp: custody_status_at_def bag_step_def)
  show "custody_status_at (exec_cash op s) i = None \<or> (\<exists>b. custody_status_at (exec_cash op s) i = Some b
      \<and> custody_move\<^sup>*\<^sup>* PENDING_DEPOSIT b)" if "custody_status_at s i = None"
  proof -
    have "custody_move\<^sup>*\<^sup>* PENDING_DEPOSIT AWAITING_VERIFICATION" by (auto intro: custody_move.upload)
    then show ?thesis
      using that table_step_new [OF step, of i] by (cases "find_bag (exec_cash op s) i") (auto simp: custody_status_at_def bag_new_def)
  qed
qed

lemma run_cash_eq: "run_cash ops db = custody.run ops db"
  by (simp add: run_cash_def custody.run_def)

lemma run_cash_simps [simp]: "run_cash [] db = db" "run_cash (op # ops) db = run_cash ops (exec_cash op db)"
  by (simp_all add: run_cash_def)

lemma run_bag_kept:
  "bag_ids_ok db \<Longrightarrow> find_bag db i = Some b \<Longrightarrow> \<exists>b'. find_bag (run_cash ops db) i = Some b'
     \<and> cb_amountKd b' = cb_amountKd b \<and> cb_managerId b' = cb_managerId b \<and> cb_driverId b' = cb_driverId b"
proof (induction ops arbitrary: db b)
  case Nil
  then show ?case by simp
next
  case (Cons op ops)
  obtain c where c: "find_bag (exec_cash op db) i = Some c" "bag_step b c"
    using table_step_find [OF exec_bags_step [OF Cons.prems(1)] Cons.prems(2)] by blast
  from Cons.IH [OF custody.exec_inv [OF Cons.prems(1)] c(1)] c(2) show ?case by (auto simp: bag_step_def)
qed

subsection \<open>A bag is booked once\<close>

definition is_settlement_of :: "uuid \<Rightarrow> gl_entry \<Rightarrow> bool" where
  "is_settlement_of i g \<longleftrightarrow> gl_entryType g = WALLET_SETTLEMENT
     \<and> json_field ''event'' (gl_metadata g) = Some (JString ''CUSTODY_VERIFIED'')
     \<and> json_field ''custodyId'' (gl_metadata g) = Some (JString i)"

text \<open>The amounts that the ledger has booked for a bag, and those its status says it should have.\<close>

definition booked_for :: "cash_db \<Rightarrow> uuid \<Rightarrow> decimal list" where
  "booked_for db i = map gl_amount (filter (is_settlement_of i) (glEntries db))"

definition due_for :: "cash_db \<Rightarrow> uuid \<Rightarrow> decimal list" where
  "due_for db i = (case find_bag db i of None \<Rightarrow> [] | Some b \<Rightarrow> if cb_status b = VERIFIED then [cb_amountKd b] else [])"

definition settled_once :: "cash_db \<Rightarrow> bool" where
  "settled_once db \<longleftrightarrow> (\<forall>i. booked_for db i = due_for db i)"

lemma settlements_append: "glEntries db' = glEntries db @ gs \<Longrightarrow>
    booked_for db' i = booked_for db i @ map gl_amount (filter (is_settlement_of i) gs)"
  by (simp add: booked_for_def)

lemma no_custody_event:
  assumes "json_field ''event'' (gl_metadata g) = None \<or> gl_entryType g \<noteq> WALLET_SETTLEMENT"
  shows "\<not> is_settlement_of i g"
  using assms by (auto simp: is_settlement_of_def)

lemma transfers_booked:
  "booked_for (snd (create_transfer_row env j db u role dto)) i = booked_for db i"
  "booked_for (snd (signAsSource env db j u)) i = booked_for db i"
  "booked_for (snd (signAsTarget env db j u)) i = booked_for db i"
  "booked_for (snd (cancel_transfer env db j u role reason)) i = booked_for db i"
  by (auto simp: booked_for_def create_transfer_row_def signAsSource_def signAsTarget_def cancel_transfer_def Let_def
      table_simps split: option.split sum.split)

lemma finalize_booked: "booked_for (snd (finalize env token db j role)) i = booked_for db i"
  by (auto simp: booked_for_def finalize_def finalize_tx_def Let_def table_simps transfer_pair_def gl_append_def
      no_ledger_def is_settlement_of_def split: option.split)

lemma deposits_booked:
  "booked_for (snd (createFromUpload env j db m url ty amount s)) i = booked_for db i"
  "booked_for (snd (verify_deposit env db a j)) i = booked_for db i"
  "booked_for (snd (createByDriver j db d amount cty url)) i = booked_for db i"
  "booked_for (snd (updateStatus env db a role j status comment)) i = booked_for db i"
  by (auto simp: booked_for_def createFromUpload_def verify_deposit_def createByDriver_def updateStatus_def Let_def
      table_simps gl_append_def no_ledger_def is_settlement_of_def split: option.split sum.split)

lemma confirm_booked: "booked_for (snd (confirmHandover env j db m role dto)) i = booked_for db i"
  by (cases rule: confirmHandover_cases [of env j db m role dto]) (simp_all add: booked_for_def table_simps)

lemma approve_booked: "booked_for (snd (approveReceiptFromDriver env j db m dto)) i = booked_for db i"
  by (cases rule: approve_receipt_cases [of env j db m dto])
    (simp_all add: confirm_booked, simp add: booked_for_def table_simps confirm_booked [unfolded booked_for_def])

lemma status_kept_due:
  assumes "bag_ids_ok db" and "custody_status_at (exec_cash op db) i = custody_status_at db i"
  shows "due_for (exec_cash op db) i = due_for db i"
proof (cases "find_bag db i")
  case None
  with assms(2) have "find_bag (exec_cash op db) i = None" by (simp add: custody_status_at_def)
  with None show ?thesis by (simp add: due_for_def)
next
  case (Some b)
  with table_step_find [OF exec_bags_step [OF assms(1)], of i b op] obtain b' where
    "find_bag (exec_cash op db) i = Some b'" "bag_step b b'" by blast
  with Some assms(2) show ?thesis by (auto simp: due_for_def bag_step_def custody_status_at_def)
qed

lemma unverified_due:
  assumes "bag_ids_ok db" and "custody_status_at db i \<noteq> Some VERIFIED"
    and "custody_status_at (exec_cash op db) i \<noteq> Some VERIFIED"
  shows "due_for (exec_cash op db) i = due_for db i"
  using assms(2,3) by (auto simp: due_for_def custody_status_at_def split: option.split)

lemma verified_only_by_verify:
  assumes "bag_ids_ok db" and "custody_status_at (exec_cash op db) i = Some VERIFIED"
    and "custody_status_at db i \<noteq> Some VERIFIED"
  shows "\<exists>env a nt. op = VerifyCustody env i a nt"
proof -
  note d = assms(1) [unfolded bag_ids_ok_def]
  obtain b' where b': "find_bag (exec_cash op db) i = Some b'" "cb_status b' = VERIFIED"
    using assms(2) by (auto simp: custody_status_at_def)
  show ?thesis
  proof (cases "touches_bags op")
    case False
    then show ?thesis using assms(2,3) by (simp add: custody_status_at_def bags_untouched)
  next
    case True
    have old: "\<exists>b. find_bag db i = Some b \<and> cb_status b = AWAITING_VERIFICATION"
      using table_step_new [OF exec_bags_step [OF assms(1), of op], of i b'] b' assms(3)
        table_step_find [OF exec_bags_step [OF assms(1), of op], of i]
      by (cases "find_bag db i") (auto simp: custody_status_at_def bag_step_def bag_new_def custody_move_iff)
    have confirm: "cb_status b' \<noteq> VERIFIED" if "find_bag (snd (confirmHandover env j db m role dto)) i = Some b'"
      for env j m role dto
      using that old
      by (cases rule: confirmHandover_cases [of env j db m role dto])
        (auto simp: table_simps split: option.splits if_splits)
    show ?thesis
    proof (cases op)
      case (ConfirmHandover env j m role dto)
      then show ?thesis using b' confirm old by (auto split: if_splits)
    next
      case (ApproveReceipt env j m dto)
      have found: "find_bag (snd (approveReceiptFromDriver env j db m dto)) i = Some b'"
        using ApproveReceipt b' old by (auto split: if_splits)
      then show ?thesis
      proof (cases rule: approve_receipt_cases [of env j db m dto])
        case 1
        then show ?thesis using confirm [OF found [unfolded 1]] b'(2) by simp
      next
        case (2 k nt)
        have "\<exists>c. find_bag (snd (confirmHandover env j db m MANAGER \<lparr>ch_driverId = ar_driverId dto,
            ch_depositReceiptUrl = None, ch_declaredHandoverTotal = ar_declaredHandoverTotal dto\<rparr>)) i = Some c
            \<and> cb_status c = VERIFIED"
          using found b'(2) 2 by (auto simp: table_simps split: if_splits)
        then show ?thesis using old
          by (cases rule: confirmHandover_cases [of env j db m MANAGER "\<lparr>ch_driverId = ar_driverId dto,
            ch_depositReceiptUrl = None, ch_declaredHandoverTotal = ar_declaredHandoverTotal dto\<rparr>"])
            (auto simp: table_simps split: option.splits if_splits)
      qed
    next
      case (UploadSlip env j m dto)
      then show ?thesis using b' old
        by (cases rule: upload_cases [of env db j m dto]) (auto simp: table_simps split: if_splits)
    next
      case (VerifyCustody env j a nt)
      then show ?thesis using b' old
        by (cases rule: verify_cases [of env db j a nt]) (auto simp: table_simps split: if_splits)
    next
      case (RejectCustody env j a reason)
      then show ?thesis using b' old
        by (cases rule: reject_cases [of env db j a reason]) (auto simp: table_simps split: if_splits)
    qed (use True in simp_all)
  qed
qed

lemma exec_settled_once:
  assumes ok: "bag_ids_ok db" and once: "settled_once db"
  shows "settled_once (exec_cash op db)"
  unfolding settled_once_def
proof
  fix i
  have old: "booked_for db i = due_for db i" using once by (simp add: settled_once_def)
  show "booked_for (exec_cash op db) i = due_for (exec_cash op db) i"
  proof (cases "\<exists>env j a nt. op = VerifyCustody env j a nt")
    case False
    then have "booked_for (exec_cash op db) i = booked_for db i"
    proof (cases op)
      case (UploadSlip env j m dto)
      then show ?thesis
        by (cases rule: upload_cases [of env db j m dto]) (simp_all add: booked_for_def)
    next
      case (RejectCustody env j a reason)
      then show ?thesis
        by (cases rule: reject_cases [of env db j a reason]) (simp_all add: booked_for_def)
    qed (auto simp: confirm_booked approve_booked transfers_booked finalize_booked deposits_booked
        booked_for_def [of "ensureOpenShiftForDriver _ _ _ _"] booked_for_def [of db] table_simps)
    moreover have "due_for (exec_cash op db) i = due_for db i"
    proof (cases "custody_status_at db i = Some VERIFIED")
      case True
      then have "custody_status_at (exec_cash op db) i = Some VERIFIED"
        using custody.exec_moves [OF ok True, of op] by (auto simp: custody_move_iff)
      with True show ?thesis using status_kept_due [OF ok] by simp
    next
      case notv: False
      have "custody_status_at (exec_cash op db) i \<noteq> Some VERIFIED"
        using verified_only_by_verify [OF ok _ notv] False by blast
      with notv show ?thesis by (rule unverified_due [OF ok])
    qed
    ultimately show ?thesis using old by simp
  next
    case True
    then obtain env j a nt where op: "op = VerifyCustody env j a nt" by blast
    show ?thesis
    proof (cases rule: verify_cases [of env db j a nt])
      case 1
      then show ?thesis using op old by simp
    next
      case (2 bag nt' g)
      have j: "cb_id bag = j" using find_row_id [OF 2(1)] by simp
      have "is_settlement_of i g \<longleftrightarrow> i = j"
        using 2(6) 2(8) by (auto simp: is_settlement_of_def settlement_metadata_def j)
      then have "booked_for (exec_cash op db) i = booked_for db i @ (if i = j then [cb_amountKd bag] else [])"
        using settlements_append [OF 2(5)] 2(7) op by simp
      moreover have "due_for (exec_cash op db) i = due_for db i @ (if i = j then [cb_amountKd bag] else [])"
        using 2(1,2,3) op by (auto simp: due_for_def table_simps)
      ultimately show ?thesis using old by simp
    qed
  qed
qed

lemma run_settled_once:
  "bag_ids_ok db \<Longrightarrow> settled_once db \<Longrightarrow> settled_once (run_cash ops db)"
  by (induction ops arbitrary: db) (simp_all add: exec_settled_once custody.exec_inv)

subsection \<open>Conservation of cash\<close>

definition cash_rows :: "cash_order list \<Rightarrow> decimal" where
  "cash_rows rows = (\<Sum>x\<leftarrow>filter cash_with_drivers rows. co_totalPrice x)"

definition in_bags :: "cash_db \<Rightarrow> decimal" where
  "in_bags db = (\<Sum>b\<leftarrow>custodyBags db. cb_amountKd b)"

text \<open>The cash that the drivers hold and the cash that was put into bags.\<close>

definition chain_cash :: "cash_db \<Rightarrow> decimal" where
  "chain_cash db = cash_rows (cashOrders db) + in_bags db"

definition orders_ok :: "cash_order list \<Rightarrow> bool" where
  "orders_ok rows \<longleftrightarrow> distinct (map co_id rows) \<and> list_all (\<lambda>x. fixed4 (co_totalPrice x)) rows"

lemma orders_ok_inj: "orders_ok rows \<Longrightarrow> x \<in> set rows \<Longrightarrow> y \<in> set rows \<Longrightarrow> co_id x = co_id y \<Longrightarrow> x = y"
  by (auto simp: orders_ok_def distinct_map inj_on_def)

lemma orders_ok_map:
  "orders_ok rows \<Longrightarrow> (\<And>x. x \<in> set rows \<Longrightarrow> co_id (f x) = co_id x \<and> co_totalPrice (f x) = co_totalPrice x) \<Longrightarrow>
     orders_ok (map f rows)"
  by (auto simp: orders_ok_def list_all_iff comp_def cong: map_cong)

lemma cash_rows_map_off:
  "(\<And>x. x \<in> set rows \<Longrightarrow> off x \<Longrightarrow> \<not> cash_with_drivers (f x)) \<Longrightarrow>
   cash_rows (map (\<lambda>x. if off x then f x else x) rows)
     = cash_rows rows - (\<Sum>x\<leftarrow>filter (\<lambda>x. off x \<and> cash_with_drivers x) rows. co_totalPrice x)"
  by (induction rows) (auto simp: cash_rows_def)

lemma cash_rows_map_same:
  "(\<And>x. x \<in> set rows \<Longrightarrow> cash_with_drivers (f x) = cash_with_drivers x \<and> co_totalPrice (f x) = co_totalPrice x) \<Longrightarrow>
   cash_rows (map f rows) = cash_rows rows"
  by (induction rows) (auto simp: cash_rows_def)

lemma settles_pending:
  assumes "orders_ok (cashOrders db)" and "x \<in> set (cashOrders db)"
  shows "settles (map co_id (pending_cash db d)) x \<longleftrightarrow> cash_held_by d x"
  using assms orders_ok_inj [OF assms(1)]
  by (auto simp: settles_def pending_cash_def cash_held_by_def held_by_driver_def)

lemma settle_pending:
  assumes ok: "orders_ok (cashOrders db)"
  shows "orders_ok (settle_orders (map co_id (pending_cash db d)) s (cashOrders db))"
    and "cash_rows (settle_orders (map co_id (pending_cash db d)) s (cashOrders db))
      = cash_rows (cashOrders db) - (\<Sum>x\<leftarrow>pending_cash db d. co_totalPrice x)"
proof -
  let ?f = "\<lambda>x. x\<lparr>co_cashStatus := HANDED_OVER_TO_OFFICE, co_handoverShiftId := s\<rparr>"
  have eq: "settle_orders (map co_id (pending_cash db d)) s (cashOrders db)
      = map (\<lambda>x. if cash_held_by d x then ?f x else x) (cashOrders db)"
    unfolding settle_orders_def by (intro map_cong refl) (simp add: settles_pending [OF ok])
  show "orders_ok (settle_orders (map co_id (pending_cash db d)) s (cashOrders db))"
    unfolding eq by (rule orders_ok_map [OF ok]) simp
  have "filter (\<lambda>x. cash_held_by d x \<and> cash_with_drivers x) (cashOrders db) = pending_cash db d"
    unfolding pending_cash_def
    by (rule filter_cong) (auto simp: cash_held_by_def held_by_driver_def cash_with_drivers_def)
  then show "cash_rows (settle_orders (map co_id (pending_cash db d)) s (cashOrders db))
      = cash_rows (cashOrders db) - (\<Sum>x\<leftarrow>pending_cash db d. co_totalPrice x)"
    unfolding eq by (subst cash_rows_map_off) (simp_all add: cash_with_drivers_def)
qed

lemma pending_minor:
  assumes "orders_ok (cashOrders db)" and "sumOrderMinors (map co_totalPrice (pending_cash db d)) = Inr minor"
  shows "amount_of_minor minor = (\<Sum>x\<leftarrow>pending_cash db d. co_totalPrice x)"
  using sumOrderMinors_fixed4 [of "map co_totalPrice (pending_cash db d)"] assms
  by (auto simp: orders_ok_def list_all_iff pending_cash_def)

lemma confirm_conserves:
  assumes ok: "orders_ok (cashOrders db)"
  shows "orders_ok (cashOrders (snd (confirmHandover env i db m role dto)))
    \<and> chain_cash (snd (confirmHandover env i db m role dto)) = chain_cash db"
proof (cases rule: confirmHandover_cases [of env i db m role dto])
  case same
  then show ?thesis using ok by simp
next
  case (settled shiftId branchId minor a)
  then show ?thesis
    using settle_pending [OF ok] pending_minor [OF ok settled(1)]
    by (simp add: chain_cash_def in_bags_def table_simps)
qed

text \<open>An operation that keeps the amounts of the bags keeps what is in them.\<close>

lemma in_bags_update: "(\<And>b. cb_amountKd (f b) = cb_amountKd b) \<Longrightarrow>
    (\<Sum>b\<leftarrow>update_row cb_id i f bs. cb_amountKd b) = (\<Sum>b\<leftarrow>bs. cb_amountKd b)"
  by (induction bs) (auto simp: update_row_def)

lemma reassign_keeps:
  "orders_ok rows \<Longrightarrow> orders_ok (foldl (\<lambda>rs x. update_row co_id (co_id x) (reassign s t x) rs) rows xs)
     \<and> cash_rows (foldl (\<lambda>rs x. update_row co_id (co_id x) (reassign s t x) rs) rows xs) = cash_rows rows"
proof (induction xs arbitrary: rows)
  case Nil
  then show ?case by simp
next
  case (Cons x xs)
  let ?rows = "update_row co_id (co_id x) (reassign s t x) rows"
  have "orders_ok ?rows"
    unfolding update_row_def by (rule orders_ok_map [OF Cons.prems]) (simp add: reassign_def)
  moreover have "cash_rows ?rows = cash_rows rows"
    unfolding update_row_def by (rule cash_rows_map_same) (simp add: reassign_def cash_with_drivers_def)
  ultimately show ?case using Cons.IH [of ?rows] by simp
qed

lemma finalize_conserves:
  assumes "orders_ok (cashOrders db)"
  shows "orders_ok (cashOrders (snd (finalize env token db i role)))
    \<and> cash_rows (cashOrders (snd (finalize env token db i role))) = cash_rows (cashOrders db)"
  using assms reassign_keeps [OF assms]
  by (auto simp: finalize_def finalize_tx_def Let_def table_simps split: option.split)

lemma settle_loop_sound:
  assumes "0 < r"
  shows "set (settle_loop rows r) \<subseteq> set rows"
    and "(\<Sum>x\<leftarrow>settle_loop rows r. co_totalPrice x) \<le> r + 1 / 10000"
    and "\<forall>x\<in>set (settle_loop rows r). 0 < co_totalPrice x"
    and "distinct rows \<Longrightarrow> distinct (settle_loop rows r)"
proof -
  have "set (settle_loop rows r) \<subseteq> set rows
    \<and> (\<Sum>x\<leftarrow>settle_loop rows r. co_totalPrice x) \<le> r + 1 / 10000
    \<and> (\<forall>x\<in>set (settle_loop rows r). 0 < co_totalPrice x)
    \<and> (distinct rows \<longrightarrow> distinct (settle_loop rows r))"
    using assms
  proof (induction rows r rule: settle_loop.induct)
    case (1 r)
    then show ?case by simp
  next
    case (2 row rows r)
    let ?v = "co_totalPrice row"
    consider "?v \<le> 0" | "0 < ?v" "?v \<le> r + 1 / 10000" "r - ?v \<le> 0"
      | "0 < ?v" "?v \<le> r + 1 / 10000" "0 < r - ?v" | "0 < ?v" "\<not> ?v \<le> r + 1 / 10000"
      by linarith
    then show ?case
    proof cases
      case 1
      then show ?thesis using "2.IH"(1) [OF refl] "2.prems" by auto
    next
      case 2
      then show ?thesis by simp
    next
      case 3
      then show ?thesis using "2.IH"(2) [OF refl _ refl refl] by (auto simp: Let_def)
    next
      case 4
      then show ?thesis using "2.IH"(2) [OF refl _ refl refl] "2.prems" by (auto simp: Let_def)
    qed
  qed
  then show "set (settle_loop rows r) \<subseteq> set rows"
    and "(\<Sum>x\<leftarrow>settle_loop rows r. co_totalPrice x) \<le> r + 1 / 10000"
    and "\<forall>x\<in>set (settle_loop rows r). 0 < co_totalPrice x"
    and "distinct rows \<Longrightarrow> distinct (settle_loop rows r)" by auto
qed

lemma candidates_ok:
  assumes "orders_ok (cashOrders db)"
  shows "set (deposit_candidates db d) \<subseteq> set (pending_cash db d)" and "distinct (deposit_candidates db d)"
proof -
  have "distinct (cashOrders db)" using assms by (auto simp: orders_ok_def distinct_map)
  then show "distinct (deposit_candidates db d)"
    unfolding deposit_candidates_def by (intro distinct_take) (auto simp: by_completedAt_def)
  show "set (deposit_candidates db d) \<subseteq> set (pending_cash db d)"
    unfolding deposit_candidates_def by_completedAt_def pending_cash_def by (auto dest!: in_set_takeD)
qed

end
