(* ===== verification/Cash_Conservation.thy ===== *)
theory Cash_Conservation
  imports Cash_Chain
begin

text \<open>
  The properties of the cash chain: conservation along every history, the life of a bag, what
  two concurrent requests can do to it, and the transfers between drivers.
\<close>

lemma sum_list_same_set:
  "distinct xs \<Longrightarrow> distinct ys \<Longrightarrow> set xs = set ys \<Longrightarrow> (\<Sum>x\<leftarrow>xs. f x) = (\<Sum>x\<leftarrow>ys. f x :: decimal)"
  by (simp add: sum_list_distinct_conv_sum_set)

text \<open>What an approved deposit takes from the cash of the drivers.\<close>

lemma deposit_settlement:
  fixes amount :: decimal and d :: uuid
  assumes ok: "orders_ok (cashOrders db)"
  defines "settled \<equiv> (if amount \<le> 0 then [] else settle_loop (deposit_candidates db d) amount)"
  shows "orders_ok (cashOrders (snd (applyDriverDepositSettlement db d amount)))"
    and "cash_rows (cashOrders (snd (applyDriverDepositSettlement db d amount)))
      = cash_rows (cashOrders db) - (\<Sum>x\<leftarrow>settled. co_totalPrice x)"
    and "0 \<le> (\<Sum>x\<leftarrow>settled. co_totalPrice x)"
    and "(\<Sum>x\<leftarrow>settled. co_totalPrice x) \<le> max 0 amount + 1 / 10000"
    and "set settled \<subseteq> set (pending_cash db d)"
proof -
  have settled: "set settled \<subseteq> set (pending_cash db d) \<and> distinct settled
      \<and> (\<forall>x\<in>set settled. 0 < co_totalPrice x) \<and> (\<Sum>x\<leftarrow>settled. co_totalPrice x) \<le> max 0 amount + 1 / 10000"
    using candidates_ok [OF ok, of d] settle_loop_sound [of amount "deposit_candidates db d"]
      subset_trans [of "set (settle_loop (deposit_candidates db d) amount)" "set (deposit_candidates db d)"]
    by (auto simp: settled_def simp del: subset_iff)
  then show "set settled \<subseteq> set (pending_cash db d)"
    and "(\<Sum>x\<leftarrow>settled. co_totalPrice x) \<le> max 0 amount + 1 / 10000" by auto
  show "0 \<le> (\<Sum>x\<leftarrow>settled. co_totalPrice x)"
    using settled by (intro sum_list_nonneg_rat) (auto simp: less_imp_le)
  let ?off = "\<lambda>x. co_id x \<in> set (map co_id settled) \<and> co_cashStatus x = PAID_TO_DRIVER"
  let ?f = "\<lambda>x. x\<lparr>co_cashStatus := HANDED_OVER_TO_OFFICE\<rparr>"
  have eq: "cashOrders (snd (applyDriverDepositSettlement db d amount)) = map (\<lambda>x. if ?off x then ?f x else x) (cashOrders db)"
  proof (cases "settled = []")
    case True
    then show ?thesis
      by (auto simp: applyDriverDepositSettlement_def settled_def Let_def split: if_splits)
  next
    case False
    then show ?thesis
      by (auto simp: applyDriverDepositSettlement_def settled_def Let_def split: if_splits)
  qed
  show "orders_ok (cashOrders (snd (applyDriverDepositSettlement db d amount)))"
    unfolding eq by (rule orders_ok_map [OF ok]) simp
  have pend: "x \<in> set (cashOrders db) \<and> cash_held_by d x" if "x \<in> set settled" for x
    using settled that by (auto simp: pending_cash_def)
  have "(\<Sum>x\<leftarrow>filter (\<lambda>x. ?off x \<and> cash_with_drivers x) (cashOrders db). co_totalPrice x)
      = (\<Sum>x\<leftarrow>settled. co_totalPrice x)"
  proof (rule sum_list_same_set)
    show "distinct (filter (\<lambda>x. ?off x \<and> cash_with_drivers x) (cashOrders db))"
      using ok by (auto simp: orders_ok_def distinct_map)
    show "distinct settled" using settled by simp
    show "set (filter (\<lambda>x. ?off x \<and> cash_with_drivers x) (cashOrders db)) = set settled"
      using pend orders_ok_inj [OF ok]
      by (fastforce simp: cash_held_by_def held_by_driver_def cash_with_drivers_def)
  qed
  then show "cash_rows (cashOrders (snd (applyDriverDepositSettlement db d amount)))
      = cash_rows (cashOrders db) - (\<Sum>x\<leftarrow>settled. co_totalPrice x)"
    unfolding eq by (subst cash_rows_map_off) (simp_all add: cash_with_drivers_def)
qed

text \<open>The operations that leave the orders alone.\<close>

lemma transfers_keep_orders:
  "cashOrders (snd (create_transfer_row env i db u role dto)) = cashOrders db"
  "cashOrders (snd (signAsSource env db i u)) = cashOrders db"
  "cashOrders (snd (signAsTarget env db i u)) = cashOrders db"
  "cashOrders (snd (cancel_transfer env db i u role reason)) = cashOrders db"
  by (auto simp: create_transfer_row_def signAsSource_def signAsTarget_def cancel_transfer_def Let_def table_simps
      split: option.split sum.split)

lemma deposits_keep_orders:
  "cashOrders (snd (createFromUpload env i db m url ty amount s)) = cashOrders db"
  "cashOrders (snd (verify_deposit env db a i)) = cashOrders db"
  "cashOrders (snd (createByDriver i db d amount cty url)) = cashOrders db"
  by (auto simp: createFromUpload_def verify_deposit_def createByDriver_def Let_def table_simps
      split: option.split sum.split)

lemma audit_orders:
  obtains "cashOrders (snd (updateStatus env db a role i status comment)) = cashOrders db"
  | row db' where "find_row dd_id (driverDeposits db) i = Some row" "cashOrders db' = cashOrders db"
      "cashOrders (snd (updateStatus env db a role i status comment))
        = cashOrders (snd (applyDriverDepositSettlement db' (dd_driverId row) (dd_amount row)))"
proof -
  have "cashOrders (snd (updateStatus env db a role i status comment)) = cashOrders db
    \<or> (\<exists>row db'. find_row dd_id (driverDeposits db) i = Some row \<and> cashOrders db' = cashOrders db
        \<and> cashOrders (snd (updateStatus env db a role i status comment))
        = cashOrders (snd (applyDriverDepositSettlement db' (dd_driverId row) (dd_amount row))))"
  proof (cases "role = GENERAL_MANAGER \<or> find_row dd_id (driverDeposits db) i = None \<or> status \<noteq> DEP_APPROVED
      \<or> dd_status (the (find_row dd_id (driverDeposits db) i)) \<noteq> DEP_PENDING")
    case True
    then show ?thesis
      by (intro disjI1) (auto simp: updateStatus_def assertInstitutionalMutationAllowed_def guardE_def Let_def
          split: option.split)
  next
    case False
    then obtain row where row: "find_row dd_id (driverDeposits db) i = Some row" "dd_status row = DEP_PENDING"
      by auto
    let ?db = "db\<lparr>driverDeposits := update_row dd_id i (\<lambda>d. d\<lparr>dd_status := status,
      dd_auditComment := trim_or comment None, dd_auditedById := Some a\<rparr>) (driverDeposits db)\<rparr>"
    have "cashOrders (snd (updateStatus env db a role i status comment))
        = cashOrders (snd (applyDriverDepositSettlement ?db (dd_driverId row) (dd_amount row)))"
      using row False
      by (simp add: updateStatus_def assertInstitutionalMutationAllowed_def guardE_def Let_def table_simps)
    then show ?thesis using row(1) by (intro disjI2 exI [of _ row] exI [of _ ?db]) simp
  qed
  with that show ?thesis by blast
qed

fun is_audit :: "cash_op \<Rightarrow> bool" where
  "is_audit (AuditDeposit env a role i status comment) = True"
| "is_audit _ = False"

lemma exec_orders:
  assumes ok: "orders_ok (cashOrders db)"
  shows "orders_ok (cashOrders (exec_cash op db))"
    and "\<not> touches_bags op \<Longrightarrow> \<not> is_audit op \<Longrightarrow> cash_rows (cashOrders (exec_cash op db)) = cash_rows (cashOrders db)"
    and "is_audit op \<Longrightarrow> cash_rows (cashOrders (exec_cash op db)) \<le> cash_rows (cashOrders db)"
proof -
  have audit: "orders_ok (cashOrders (snd (updateStatus env db a role i status comment)))
      \<and> cash_rows (cashOrders (snd (updateStatus env db a role i status comment))) \<le> cash_rows (cashOrders db)"
    for env a role i status comment
  proof (cases rule: audit_orders [of env db a role i status comment])
    case 1
    then show ?thesis using ok by simp
  next
    case (2 row db')
    then have "orders_ok (cashOrders db')" using ok by simp
    from deposit_settlement [OF this, where amount = "dd_amount row" and d = "dd_driverId row"] 2 show ?thesis by simp
  qed
  have approve: "orders_ok (cashOrders (snd (approveReceiptFromDriver env i db m dto)))" for env i m dto
    by (cases rule: approve_receipt_cases [of env i db m dto])
      (simp_all add: confirm_conserves [OF ok] table_simps)
  have upload: "cashOrders (snd (uploadDepositSlip env db i m dto)) = cashOrders db" for env i m dto
    by (cases rule: upload_cases [of env db i m dto]) simp_all
  have verify: "cashOrders (snd (verifyCustody env db i a nt)) = cashOrders db" for env i a nt
    by (cases rule: verify_cases [of env db i a nt]) simp_all
  have reject: "cashOrders (snd (rejectCustody env db i a reason)) = cashOrders db" for env i a reason
    by (cases rule: reject_cases [of env db i a reason]) simp_all
  note facts = ok confirm_conserves [OF ok] finalize_conserves [OF ok] transfers_keep_orders deposits_keep_orders
    audit approve upload verify reject table_simps
  show "orders_ok (cashOrders (exec_cash op db))" by (cases op) (simp_all add: facts)
  show "\<not> touches_bags op \<Longrightarrow> \<not> is_audit op \<Longrightarrow> cash_rows (cashOrders (exec_cash op db)) = cash_rows (cashOrders db)"
    by (cases op) (simp_all add: facts)
  show "is_audit op \<Longrightarrow> cash_rows (cashOrders (exec_cash op db)) \<le> cash_rows (cashOrders db)"
    by (cases op) (simp_all add: facts)
qed

lemma exec_chain_cash:
  assumes ok: "orders_ok (cashOrders db)"
  shows "\<not> is_audit op \<Longrightarrow> chain_cash (exec_cash op db) = chain_cash db"
    and "chain_cash (exec_cash op db) \<le> chain_cash db"
proof -
  have approve: "chain_cash (snd (approveReceiptFromDriver env i db m dto)) = chain_cash db" for env i m dto
    by (cases rule: approve_receipt_cases [of env i db m dto])
      (use confirm_conserves [OF ok] in \<open>simp_all add: chain_cash_def in_bags_def table_simps in_bags_update\<close>)
  have upload: "chain_cash (snd (uploadDepositSlip env db i m dto)) = chain_cash db" for env i m dto
    by (cases rule: upload_cases [of env db i m dto]) (simp_all add: chain_cash_def in_bags_def in_bags_update)
  have verify: "chain_cash (snd (verifyCustody env db i a nt)) = chain_cash db" for env i a nt
    by (cases rule: verify_cases [of env db i a nt]) (simp_all add: chain_cash_def in_bags_def in_bags_update)
  have reject: "chain_cash (snd (rejectCustody env db i a reason)) = chain_cash db" for env i a reason
    by (cases rule: reject_cases [of env db i a reason]) (simp_all add: chain_cash_def in_bags_def in_bags_update)
  have bags: "in_bags (exec_cash op db) = in_bags db" if "\<not> touches_bags op"
    using bags_untouched [OF that, of db] by (simp add: in_bags_def)
  show keep: "chain_cash (exec_cash op db) = chain_cash db" if "\<not> is_audit op"
  proof (cases "touches_bags op")
    case True
    then show ?thesis using confirm_conserves [OF ok]
      by (cases op) (simp_all add: approve upload verify reject)
  next
    case False
    then show ?thesis using bags exec_orders(2) [OF ok False that] by (simp add: chain_cash_def)
  qed
  show "chain_cash (exec_cash op db) \<le> chain_cash db"
  proof (cases "is_audit op")
    case True
    then have "\<not> touches_bags op" by (cases op) simp_all
    then show ?thesis using bags exec_orders(3) [OF ok True] by (simp add: chain_cash_def)
  qed (simp add: keep)
qed

text \<open>
  C25: cash is conserved along the chain. Whatever handovers, slips, verifications, rejections,
  transfers and bank deposits happen in whatever order, the cash the drivers hold and the cash
  in the custody bags add up to the same amount; only the audit of a driver deposit, which
  settles orders without a bag, lowers it, and no history ever raises it.
\<close>

theorem cash_conserved:
  assumes "orders_ok (cashOrders db)"
  shows "chain_cash (run_cash ops db) \<le> chain_cash db
    \<and> (list_all (\<lambda>op. \<not> is_audit op) ops \<longrightarrow> chain_cash (run_cash ops db) = chain_cash db)"
  using assms
proof (induction ops arbitrary: db)
  case Nil
  then show ?case by simp
next
  case (Cons op ops)
  note ok = Cons.prems
  show ?case
    using Cons.IH [OF exec_orders(1) [OF ok, of op]] exec_chain_cash [OF ok, of op]
    by (auto simp del: exec_cash.simps)
qed

text \<open>
  C27: a deposit that an auditor approves settles orders of this driver only, for
  at most the approved amount plus a ten-thousandth of a dinar, and what it settles is what the
  cash of the drivers goes down by.
\<close>

theorem deposit_settles_within_amount:
  fixes amount :: decimal and d :: uuid
  assumes "orders_ok (cashOrders db)" and "0 < amount"
  defines "settled \<equiv> settle_loop (deposit_candidates db d) amount"
  shows "set settled \<subseteq> set (pending_cash db d)
    \<and> (\<Sum>x\<leftarrow>settled. co_totalPrice x) \<le> amount + 1 / 10000
    \<and> cash_rows (cashOrders (snd (applyDriverDepositSettlement db d amount)))
      = cash_rows (cashOrders db) - (\<Sum>x\<leftarrow>settled. co_totalPrice x)
    \<and> sr_settledOrderCount (fst (applyDriverDepositSettlement db d amount)) = length settled"
  using deposit_settlement [OF assms(1), where amount = amount and d = d] assms(2)
  by (simp add: settled_def applyDriverDepositSettlement_def Let_def max_def)

text \<open>
  C26: the life of a custody bag when the operations run one after the other, from tables in which
  it holds. A verified bag stays verified for ever, a bag never changes its amount, manager or
  driver and never disappears, and the general ledger holds exactly one settlement row, of exactly
  its amount, for every verified bag and none for any other. (Two verifications of one bag that
  overlap book it twice: \<open>verify_race_books_twice\<close>.)
\<close>

theorem bags_booked_once:
  assumes "bag_ids_ok db" and "settled_once db"
  shows "booked_for (run_cash ops db) i = (case find_bag (run_cash ops db) i of
      None \<Rightarrow> [] | Some b \<Rightarrow> if cb_status b = VERIFIED then [cb_amountKd b] else [])
    \<and> (custody_status_at db i = Some VERIFIED \<longrightarrow> custody_status_at (run_cash ops db) i = Some VERIFIED)
    \<and> (\<forall>b. find_bag db i = Some b \<longrightarrow> (\<exists>b'. find_bag (run_cash ops db) i = Some b'
        \<and> cb_amountKd b' = cb_amountKd b \<and> cb_managerId b' = cb_managerId b \<and> cb_driverId b' = cb_driverId b))"
proof -
  have "custody_status_at (run_cash ops db) i = Some VERIFIED" if "custody_status_at db i = Some VERIFIED"
    using custody.run_final [OF assms(1) that, of ops] unfolding run_cash_eq by (simp add: custody_move_iff)
  then show ?thesis
    using run_settled_once [OF assms, of ops] run_bag_kept [OF assms(1), of i _ ops]
    by (auto simp: settled_once_def due_for_def)
qed

subsection \<open>Two requests at once\<close>

text \<open>Without a declared total and without interference the handover goes through.\<close>

lemma handover_write_succeeds:
  assumes "ch_declaredHandoverTotal dto = None"
    and "length (filter (settles (map co_id pending)) (cashOrders db)) = length pending"
  shows "\<exists>r. handover_write env i m driver dto pending db = (Inr r, snd (handover_write env i m driver dto pending db))"
  using assms by (simp add: handover_write_def sumOrderMinors_eq Let_def)

text \<open>
  two handovers of one driver that have both read the pending orders: when one of them has
  written, the other one is refused and writes nothing, so no order is in two bags.
\<close>

theorem handover_race:
  fixes d :: uuid and db :: cash_db
  defines "pending \<equiv> pending_cash db d"
  assumes "handover_write env i m driver dto pending db = (Inr r, db1)" and "pending \<noteq> []"
  shows "\<exists>e. handover_write env' i' m' driver' dto' pending db1 = (Inl e, db1)"
proof -
  obtain s where s: "cashOrders db1 = settle_orders (map co_id pending) s (cashOrders db)"
  proof (cases rule: handover_write_cases [of env i m driver dto pending db])
    case (1 e)
    then show ?thesis using assms(2) by simp
  next
    case (2 r')
    then have "pending = []"
      using assms(2) unfolding handover_write_def by (auto simp: Let_def split: sum.splits if_splits)
    with assms(3) show ?thesis by simp
  next
    case (3 r' s b minor)
    then show ?thesis using assms(2) that by auto
  qed
  have "filter (settles (map co_id pending)) (cashOrders db1) = []"
    unfolding s settle_orders_def by (auto simp: filter_empty_conv settles_def)
  then have "length (filter (settles (map co_id pending)) (cashOrders db1)) \<noteq> length pending"
    using assms(3) by simp
  moreover have "hr_settledOrderCount r' \<noteq> 0"
    if "handover_write env' i' m' driver' dto' pending db1 = (Inr r', db1)" for r'
    using that assms(3) unfolding handover_write_def by (auto simp: Let_def split: sum.splits if_splits)
  ultimately show ?thesis
    by (cases rule: handover_write_cases [of env' i' m' driver' dto' pending db1]) auto
qed

text \<open>
  Two verifications of one bag that have both read it before either of them writes both
  succeed, and the ledger then holds the amount of the bag twice: the status is checked outside
  the transaction that changes it.
\<close>

theorem verify_race_books_twice:
  fixes db :: cash_db and env env' :: env and a a' :: uuid and nt nt' :: "string option" and bag :: custody_bag
  assumes "find_bag db i = Some bag"
  defines "db1 \<equiv> snd (verify_write env a db bag nt)"
    and "db2 \<equiv> snd (verify_write env' a' (snd (verify_write env a db bag nt)) bag nt')"
  shows "booked_for db2 i = booked_for db i @ [cb_amountKd bag, cb_amountKd bag]
    \<and> isl (fst (verify_write env' a' db1 bag nt')) = False"
proof -
  have i: "cb_id bag = i" using find_row_id [OF assms(1)] by simp
  have once: "booked_for (snd (verify_write env a db b nt)) i = booked_for db i @ [cb_amountKd b]
      \<and> (\<exists>b'. find_bag (snd (verify_write env a db b nt)) i = Some b' \<and> cb_amountKd b' = cb_amountKd b)
      \<and> \<not> isl (fst (verify_write env a db b nt))"
    if "find_bag db i = Some c" "cb_amountKd c = cb_amountKd b" "cb_id b = i" for env a db b nt c
  proof -
    have c: "cb_id c = i" using find_row_id [OF that(1)] by simp
    let ?f = "\<lambda>b'. b'\<lparr>cb_status := VERIFIED, cb_verifiedByAccountantId := Some a, cb_verifiedAt := Some (now env),
      cb_note := trim_or nt (cb_note b)\<rparr>"
    have "find_bag (update_bag i ?f db) i = Some (?f c)" using that(1) by (simp add: table_simps)
    then show ?thesis
      using that c by (simp add: verify_write_def Let_def booked_for_def table_simps gl_append_def no_ledger_def
          is_settlement_of_def settlement_metadata_def register_deposit_fields)
  qed
  obtain b' where b': "find_bag db1 i = Some b'" "cb_amountKd b' = cb_amountKd bag"
    using once [OF assms(1) refl i] unfolding db1_def by blast
  show ?thesis
    using once [OF assms(1) refl i, of env a nt] once [OF b' i, of env' a' nt'] unfolding db1_def db2_def by simp
qed

subsection \<open>A concrete database\<close>

definition example_user :: "uuid \<Rightarrow> safari_role \<Rightarrow> user_row" where
  "example_user i role = \<lparr>us_id = i, us_username = i, us_fullName = i, us_role = role, us_isActive = True,
     us_branchId = Some ''br1''\<rparr>"

definition example_order :: "uuid \<Rightarrow> uuid \<Rightarrow> decimal \<Rightarrow> cash_order" where
  "example_order i d price = \<lparr>co_id = i, co_driverId = Some d, co_status = ORDER_COMPLETED,
     co_cashStatus = PAID_TO_DRIVER, co_posPaymentMethod = PM_CASH, co_totalPrice = price,
     co_completedAt = Some 0, co_handoverShiftId = None, co_transferredFromDriverId = None\<rparr>"

definition example_bag :: custody_bag where
  "example_bag = \<lparr>cb_id = ''b1'', cb_managerId = ''m1'', cb_driverId = ''d1'', cb_branchId = Some ''br1'',
     cb_shiftId = None, cb_amountKd = 20, cb_settledOrderCount = 2, cb_status = AWAITING_VERIFICATION,
     cb_receivedFromDriverAt = 0, cb_slipUploadedAt = Some 0, cb_depositSlipUrl = Some ''slip.jpg'',
     cb_verifiedByAccountantId = None, cb_verifiedAt = None, cb_rejectedByAccountantId = None,
     cb_rejectedAt = None, cb_rejectionReason = None, cb_note = None, cb_createdAt = 0\<rparr>"

definition example_transfer :: "uuid \<Rightarrow> uuid \<Rightarrow> transfer_status \<Rightarrow> debt_transfer" where
  "example_transfer i order_id st = \<lparr>dt_id = i, dt_sourceDriverId = ''d1'', dt_targetDriverId = ''d2'',
     dt_totalAmount = 25 / 2, dt_orderCount = 1, dt_reason = None, dt_notes = None, dt_status = st,
     dt_executedById = ''a1'', dt_executedByRole = ACCOUNTANT, dt_sourceSignedAt = Some 1,
     dt_targetSignedAt = Some 2, dt_finalizedAt = None, dt_cancelledAt = None, dt_cancelledById = None,
     dt_cancelledReason = None, dt_systemSignature = None, dt_createdAt = 0,
     dt_orders = [\<lparr>tl_orderId = order_id, tl_amountSnapshot = 25 / 2\<rparr>]\<rparr>"

definition example_cash_db :: cash_db where
  "example_cash_db = \<lparr>users = [example_user ''d1'' DRIVER, example_user ''d2'' DRIVER, example_user ''m1'' MANAGER,
       example_user ''a1'' ACCOUNTANT],
     cashOrders = [example_order ''o1'' ''d1'' (25 / 2), example_order ''o2'' ''d1'' (15 / 2), example_order ''o3'' ''d2'' 4],
     shifts = [], custodyBags = [example_bag], bankDeposits = [], driverDeposits = [], branchWallets = [],
     glEntries = [], branchExpenses = [],
     debtTransfers = [example_transfer ''t1'' ''o1'' DT_AWAITING_SIGNATURES, example_transfer ''t0'' ''o9'' DT_COMPLETED],
     auditLog = []\<rparr>"

lemma example_cash_orders_ok: "orders_ok (cashOrders example_cash_db)"
  by (simp add: orders_ok_def example_cash_db_def example_order_def fixed4_def)

lemma example_bags_ok: "bag_ids_ok example_cash_db" "settled_once example_cash_db"
  by (simp_all add: bag_ids_ok_def settled_once_def booked_for_def due_for_def example_cash_db_def find_row_def
      example_bag_def)

theorem cash_conserved_witness:
  "chain_cash (run_cash [ConfirmHandover example_env ''b2'' ''m1'' MANAGER \<lparr>ch_driverId = ''d1'',
       ch_depositReceiptUrl = None, ch_declaredHandoverTotal = None\<rparr>,
     VerifyCustody example_env ''b1'' ''a1'' None] example_cash_db) = chain_cash example_cash_db"
  using cash_conserved [OF example_cash_orders_ok, of "[ConfirmHandover example_env ''b2'' ''m1'' MANAGER
    \<lparr>ch_driverId = ''d1'', ch_depositReceiptUrl = None, ch_declaredHandoverTotal = None\<rparr>,
     VerifyCustody example_env ''b1'' ''a1'' None]"] by simp

theorem deposit_settles_within_amount_witness:
  "(\<Sum>x\<leftarrow>settle_loop (deposit_candidates example_cash_db ''d1'') 10. co_totalPrice x) \<le> 10 + 1 / 10000"
  using deposit_settles_within_amount [OF example_cash_orders_ok, of 10 "''d1''"] by simp

theorem bags_booked_once_witness:
  "booked_for (run_cash [VerifyCustody example_env ''b1'' ''a1'' None, VerifyCustody example_env ''b1'' ''a1'' None]
     example_cash_db) ''b1'' = [20]"
proof -
  let ?ops = "[VerifyCustody example_env ''b1'' ''a1'' None, VerifyCustody example_env ''b1'' ''a1'' None]"
  have "map_option cb_status (find_bag (run_cash ?ops example_cash_db) ''b1'') = Some VERIFIED" by code_simp
  then obtain b where b: "find_bag (run_cash ?ops example_cash_db) ''b1'' = Some b" "cb_status b = VERIFIED" by auto
  moreover have "find_bag example_cash_db ''b1'' = Some example_bag" by code_simp
  ultimately show ?thesis
    using bags_booked_once [OF example_bags_ok, of ?ops "''b1''"] by (auto simp: example_bag_def)
qed

theorem handover_race_witness:
  "\<exists>e. handover_write example_env ''b3'' ''m1'' (example_user ''d1'' DRIVER) \<lparr>ch_driverId = ''d1'',
       ch_depositReceiptUrl = None, ch_declaredHandoverTotal = None\<rparr> (pending_cash example_cash_db ''d1'')
     (snd (handover_write example_env ''b2'' ''m1'' (example_user ''d1'' DRIVER) \<lparr>ch_driverId = ''d1'',
       ch_depositReceiptUrl = None, ch_declaredHandoverTotal = None\<rparr> (pending_cash example_cash_db ''d1'') example_cash_db))
     = (Inl e, snd (handover_write example_env ''b2'' ''m1'' (example_user ''d1'' DRIVER) \<lparr>ch_driverId = ''d1'',
       ch_depositReceiptUrl = None, ch_declaredHandoverTotal = None\<rparr> (pending_cash example_cash_db ''d1'') example_cash_db))"
proof -
  let ?dto = "\<lparr>ch_driverId = ''d1'', ch_depositReceiptUrl = None, ch_declaredHandoverTotal = None\<rparr>"
  let ?w = "handover_write example_env ''b2'' ''m1'' (example_user ''d1'' DRIVER) ?dto
    (pending_cash example_cash_db ''d1'') example_cash_db"
  have pending: "pending_cash example_cash_db ''d1'' = [example_order ''o1'' ''d1'' (25 / 2), example_order ''o2'' ''d1'' (15 / 2)]"
    by (simp add: pending_cash_def example_cash_db_def cash_held_by_def held_by_driver_def example_order_def)
  have "length (filter (settles (map co_id (pending_cash example_cash_db ''d1''))) (cashOrders example_cash_db))
      = length (pending_cash example_cash_db ''d1'')"
    unfolding pending by (simp add: example_cash_db_def settles_def example_order_def)
  then have "\<exists>r. ?w = (Inr r, snd ?w)" by (intro handover_write_succeeds) simp_all
  then obtain r where r: "?w = (Inr r, snd ?w)" by blast
  from handover_race [OF r] show ?thesis by (simp add: pending)
qed

theorem verify_race_books_twice_witness:
  "booked_for (snd (verify_write example_env ''a2'' (snd (verify_write example_env ''a1'' example_cash_db example_bag None))
     example_bag None)) ''b1'' = [20, 20]"
proof -
  have "find_bag example_cash_db ''b1'' = Some example_bag" by code_simp
  moreover have "booked_for example_cash_db ''b1'' = []" by (simp add: booked_for_def example_cash_db_def)
  ultimately show ?thesis
    using verify_race_books_twice [of example_cash_db "''b1''" example_bag example_env "''a2''" example_env "''a1''" None None]
    by (simp add: example_bag_def)
qed

end
