(* ===== verification/Transfer_Protocol.thy ===== *)
theory Transfer_Protocol
  imports Cash_Conservation
begin

text \<open>
  What the debt transfers guarantee: two signatures before a transfer completes, no order in two
  live transfers, an exact move of the cash between the drivers.
\<close>

subsection \<open>The life of a transfer\<close>

inductive transfer_move :: "transfer_status \<Rightarrow> transfer_status \<Rightarrow> bool" where
  finalized: "transfer_move DT_AWAITING_SIGNATURES DT_COMPLETED"
| cancelled: "transfer_move DT_AWAITING_SIGNATURES DT_CANCELLED"
| cancelled_draft: "transfer_move DT_DRAFT DT_CANCELLED"

inductive_simps transfer_move_iff: "transfer_move a b"

definition both_signed :: "debt_transfer \<Rightarrow> bool" where
  "both_signed t \<longleftrightarrow> dt_sourceSignedAt t \<noteq> None \<and> dt_targetSignedAt t \<noteq> None"

definition transfer_step :: "debt_transfer \<Rightarrow> debt_transfer \<Rightarrow> bool" where
  "transfer_step t t' \<longleftrightarrow> dt_orders t' = dt_orders t \<and> dt_totalAmount t' = dt_totalAmount t
     \<and> dt_sourceDriverId t' = dt_sourceDriverId t \<and> dt_targetDriverId t' = dt_targetDriverId t
     \<and> (both_signed t \<longrightarrow> both_signed t')
     \<and> (dt_status t' = dt_status t \<or> transfer_move (dt_status t) (dt_status t'))
     \<and> (dt_status t' = DT_COMPLETED \<longrightarrow> dt_status t = DT_COMPLETED \<or> both_signed t)"

definition transfer_new :: "debt_transfer \<Rightarrow> bool" where
  "transfer_new t \<longleftrightarrow> dt_status t = DT_AWAITING_SIGNATURES \<and> dt_totalAmount t = (\<Sum>l\<leftarrow>dt_orders t. tl_amountSnapshot l)
     \<and> dt_sourceDriverId t \<noteq> dt_targetDriverId t \<and> dt_sourceSignedAt t = None \<and> dt_targetSignedAt t = None"

abbreviation transfers_step :: "debt_transfer list \<Rightarrow> debt_transfer list \<Rightarrow> bool" where
  "transfers_step \<equiv> table_step dt_id transfer_step transfer_new"

lemma transfer_step_refl [intro]: "transfer_step t t"
  by (simp add: transfer_step_def)

lemma transfers_step_refl [intro]: "transfers_step ts ts"
  by (rule table_step_refl) auto

lemmas transfers_step_update =
  table_step_update [where idf = dt_id and R = transfer_step and P = transfer_new, OF _ _ transfer_step_refl]

fun touches_transfers :: "cash_op \<Rightarrow> bool" where
  "touches_transfers (CreateTransfer env i u role dto) = True"
| "touches_transfers (SignSource env i u) = True"
| "touches_transfers (SignTarget env i u) = True"
| "touches_transfers (FinalizeTransfer env token i role) = True"
| "touches_transfers (CancelTransfer env i u role reason) = True"
| "touches_transfers _ = False"

lemma custody_keeps_transfers:
  "debtTransfers (snd (confirmHandover env i db m role dto)) = debtTransfers db"
  "debtTransfers (snd (uploadDepositSlip env db i m up)) = debtTransfers db"
  "debtTransfers (snd (verifyCustody env db i a nt)) = debtTransfers db"
  "debtTransfers (snd (rejectCustody env db i a reason)) = debtTransfers db"
proof -
  show "debtTransfers (snd (confirmHandover env i db m role dto)) = debtTransfers db"
    by (cases rule: confirmHandover_cases [of env i db m role dto]) (simp_all add: table_simps)
  show "debtTransfers (snd (uploadDepositSlip env db i m up)) = debtTransfers db"
    by (cases rule: upload_cases [of env db i m up]) simp_all
  show "debtTransfers (snd (verifyCustody env db i a nt)) = debtTransfers db"
    by (cases rule: verify_cases [of env db i a nt]) simp_all
  show "debtTransfers (snd (rejectCustody env db i a reason)) = debtTransfers db"
    by (cases rule: reject_cases [of env db i a reason]) simp_all
qed

lemma approve_keeps_transfers: "debtTransfers (snd (approveReceiptFromDriver env i db m dto)) = debtTransfers db"
  by (cases rule: approve_receipt_cases [of env i db m dto])
    (simp_all add: table_simps custody_keeps_transfers)

lemma deposits_keep_transfers:
  "debtTransfers (snd (createFromUpload env i db m url ty amount s)) = debtTransfers db"
  "debtTransfers (snd (verify_deposit env db a i)) = debtTransfers db"
  "debtTransfers (snd (createByDriver i db d amount cty url)) = debtTransfers db"
  "debtTransfers (snd (updateStatus env db a role i status comment)) = debtTransfers db"
  by (auto simp: createFromUpload_def verify_deposit_def createByDriver_def updateStatus_def Let_def table_simps
      split: option.split sum.split)

lemma transfers_untouched: "\<not> touches_transfers op \<Longrightarrow> debtTransfers (exec_cash op db) = debtTransfers db"
  by (cases op)
    (simp_all add: table_simps custody_keeps_transfers approve_keeps_transfers deposits_keep_transfers)

lemma create_cases:
  obtains "snd (create_transfer_row env i db u role dto) = db"
  | orders row where "role = ACCOUNTANT" "ct_sourceDriverId dto \<noteq> ct_targetDriverId dto"
      "check_orders db dto = Inr orders"
      "debtTransfers (snd (create_transfer_row env i db u role dto)) = debtTransfers db @ [row]"
      "dt_id row = i" "transfer_new row" "map tl_orderId (dt_orders row) = map co_id orders"
proof -
  consider "role \<noteq> ACCOUNTANT \<or> ct_sourceDriverId dto = ct_targetDriverId dto \<or> ct_orderIds dto = []"
    | e where "role = ACCOUNTANT" "ct_sourceDriverId dto \<noteq> ct_targetDriverId dto" "ct_orderIds dto \<noteq> []"
        "bindE (check_drivers db dto) (\<lambda>_. check_orders db dto) = Inl e"
    | orders where "role = ACCOUNTANT" "ct_sourceDriverId dto \<noteq> ct_targetDriverId dto" "ct_orderIds dto \<noteq> []"
        "bindE (check_drivers db dto) (\<lambda>_. check_orders db dto) = Inr orders"
    by (cases "bindE (check_drivers db dto) (\<lambda>_. check_orders db dto)") blast+
  then show ?thesis
  proof cases
    case 1
    then show ?thesis using that(1) by (auto simp: create_transfer_row_def)
  next
    case (2 e)
    then show ?thesis using that(1) by (simp add: create_transfer_row_def)
  next
    case (3 orders)
    then have "check_orders db dto = Inr orders" by (auto simp: result_simps)
    from that(2) [OF 3(1,2) this] 3 show ?thesis
      by (simp add: create_transfer_row_def Let_def transfer_new_def comp_def)
  qed
qed

lemma sign_source_step:
  "distinct (map dt_id (debtTransfers db)) \<Longrightarrow>
     transfers_step (debtTransfers db) (debtTransfers (snd (signAsSource env db i u)))"
  by (auto simp: signAsSource_def table_simps transfer_step_def both_signed_def
      intro!: transfers_step_update split: option.split)

lemma sign_target_step:
  "distinct (map dt_id (debtTransfers db)) \<Longrightarrow>
     transfers_step (debtTransfers db) (debtTransfers (snd (signAsTarget env db i u)))"
  by (auto simp: signAsTarget_def table_simps transfer_step_def both_signed_def
      intro!: transfers_step_update split: option.split)

lemma cancel_step:
  "distinct (map dt_id (debtTransfers db)) \<Longrightarrow>
     transfers_step (debtTransfers db) (debtTransfers (snd (cancel_transfer env db i u role reason)))"
  by (auto simp: cancel_transfer_def table_simps transfer_step_def both_signed_def transfer_move_iff
      intro!: transfers_step_update split: option.split)

lemma finalize_step:
  "distinct (map dt_id (debtTransfers db)) \<Longrightarrow>
     transfers_step (debtTransfers db) (debtTransfers (snd (finalize env token db i role)))"
  by (auto simp: finalize_def finalize_tx_def Let_def table_simps transfer_step_def both_signed_def transfer_move_iff
      intro!: transfers_step_update split: option.split)

lemma find_transfer_None: "find_transfer db i = None \<longleftrightarrow> i \<notin> dt_id ` set (debtTransfers db)"
  by (rule find_row_None)

definition transfer_ids_ok :: "cash_db \<Rightarrow> bool" where
  "transfer_ids_ok db \<longleftrightarrow> distinct (map dt_id (debtTransfers db))"

lemma exec_transfers_step:
  assumes "transfer_ids_ok db"
  shows "transfers_step (debtTransfers db) (debtTransfers (exec_cash op db))"
proof (cases "touches_transfers op")
  case False
  then show ?thesis using transfers_untouched by auto
next
  case True
  note d = assms [unfolded transfer_ids_ok_def]
  show ?thesis
  proof (cases op)
    case (CreateTransfer env i u role dto)
    show ?thesis
    proof (cases "find_transfer db i = None")
      case True
      then show ?thesis
      proof (cases rule: create_cases [of env i db u role dto])
        case 1
        then show ?thesis using CreateTransfer True by auto
      next
        case (2 orders row)
        then show ?thesis using CreateTransfer True
          by (simp, intro table_step_append) (auto simp: find_transfer_None)
      qed
    next
      case False
      then show ?thesis using CreateTransfer by auto
    qed
  qed (use True in \<open>simp_all add: sign_source_step sign_target_step finalize_step cancel_step d\<close>)
qed

definition transfer_status_at :: "cash_db \<Rightarrow> uuid \<Rightarrow> transfer_status option" where
  "transfer_status_at db i = map_option dt_status (find_transfer db i)"

interpretation transfers: workflow transfer_ids_ok transfer_status_at exec_cash transfer_move DT_AWAITING_SIGNATURES
proof unfold_locales
  fix s :: cash_db and op i a
  assume ok: "transfer_ids_ok s"
  note step = exec_transfers_step [OF ok, of op]
  show "transfer_ids_ok (exec_cash op s)"
    using table_step_ids [OF step] ok by (simp add: transfer_ids_ok_def)
  show "\<exists>b. transfer_status_at (exec_cash op s) i = Some b \<and> (b = a \<or> transfer_move a b)"
    if "transfer_status_at s i = Some a"
    using that table_step_find [OF step, of i] by (auto simp: transfer_status_at_def transfer_step_def)
  show "transfer_status_at (exec_cash op s) i = None \<or> (\<exists>b. transfer_status_at (exec_cash op s) i = Some b
      \<and> transfer_move\<^sup>*\<^sup>* DT_AWAITING_SIGNATURES b)" if "transfer_status_at s i = None"
    using that table_step_new [OF step, of i]
    by (cases "find_transfer (exec_cash op s) i") (auto simp: transfer_status_at_def transfer_new_def)
qed

lemma run_cash_transfers: "run_cash ops db = transfers.run ops db"
  by (simp add: run_cash_def transfers.run_def)

subsection \<open>One live transfer per order\<close>

definition promised :: "debt_transfer list \<Rightarrow> uuid list" where
  "promised ts = concat (map (\<lambda>t. map tl_orderId (dt_orders t)) (filter live_transfer ts))"

definition transfer_ok :: "debt_transfer \<Rightarrow> bool" where
  "transfer_ok t \<longleftrightarrow> (dt_status t = DT_COMPLETED \<longrightarrow> both_signed t)"

definition transfers_ok :: "cash_db \<Rightarrow> bool" where
  "transfers_ok db \<longleftrightarrow> transfer_ids_ok db \<and> distinct (promised (debtTransfers db))
     \<and> list_all transfer_ok (debtTransfers db)"

lemma promised_simps [simp]:
  "promised [] = []" "promised (t # ts) = (if live_transfer t then map tl_orderId (dt_orders t) else []) @ promised ts"
  "promised (ts @ ts') = promised ts @ promised ts'"
  by (simp_all add: promised_def)

lemma promised_map:
  assumes "\<forall>t\<in>set ts. transfer_step t (f t)"
  shows "set (promised (map f ts)) \<subseteq> set (promised ts)"
    and "distinct (promised ts) \<Longrightarrow> distinct (promised (map f ts))"
proof -
  have "set (promised (map f ts)) \<subseteq> set (promised ts)
      \<and> (distinct (promised ts) \<longrightarrow> distinct (promised (map f ts)))"
    using assms
  proof (induction ts)
    case Nil
    then show ?case by simp
  next
    case (Cons t ts)
    have "live_transfer (f t) \<Longrightarrow> live_transfer t" "dt_orders (f t) = dt_orders t"
      using Cons.prems by (auto simp: transfer_step_def live_transfer_def transfer_move_iff)
    then show ?case using Cons by auto
  qed
  then show "set (promised (map f ts)) \<subseteq> set (promised ts)"
    and "distinct (promised ts) \<Longrightarrow> distinct (promised (map f ts))" by auto
qed

lemma check_orders_Inr:
  assumes "check_orders db dto = Inr orders"
  shows "orders = filter (\<lambda>x. co_id x \<in> set (ct_orderIds dto)) (cashOrders db)"
    and "length orders = length (remdups (ct_orderIds dto))"
    and "\<forall>x\<in>set orders. on_driver (ct_sourceDriverId dto) x"
    and "set (ct_orderIds dto) \<inter> set (promised (debtTransfers db)) = {}"
proof -
  from assms show "orders = filter (\<lambda>x. co_id x \<in> set (ct_orderIds dto)) (cashOrders db)"
    and "length orders = length (remdups (ct_orderIds dto))"
    and "\<forall>x\<in>set orders. on_driver (ct_sourceDriverId dto) x"
    by (auto simp: check_orders_def Let_def filter_empty_conv split: if_splits)
  from assms have "locked_orders db (remdups (ct_orderIds dto)) = []"
    by (auto simp: check_orders_def Let_def split: if_splits)
  then show "set (ct_orderIds dto) \<inter> set (promised (debtTransfers db)) = {}"
    unfolding locked_orders_def promised_def [symmetric] by (auto simp: filter_empty_conv)
qed

text \<open>The orders of a new transfer are distinct: they are as many as the distinct identifiers asked for.\<close>

lemma new_transfer_distinct:
  assumes "check_orders db dto = Inr orders" and "distinct (map co_id (cashOrders db))"
  shows "distinct (map co_id orders) \<and> set (map co_id orders) \<inter> set (promised (debtTransfers db)) = {}"
  using check_orders_Inr(1,4) [OF assms(1)] distinct_map_filter [OF assms(2)] by auto

lemma exec_transfers_ok:
  assumes ok: "transfers_ok db" and ids: "distinct (map co_id (cashOrders db))"
  shows "transfers_ok (exec_cash op db)"
proof -
  have t: "transfer_ids_ok db" using ok by (simp add: transfers_ok_def)
  note step = exec_transfers_step [OF t, of op]
  have "list_all transfer_ok (debtTransfers (exec_cash op db))"
    using ok by (intro table_step_all [OF step]) (auto simp: transfers_ok_def transfer_ok_def transfer_step_def transfer_new_def)
  moreover have "distinct (promised (debtTransfers (exec_cash op db)))"
  proof (cases "\<exists>env i u role dto. op = CreateTransfer env i u role dto")
    case True
    then obtain env i u role dto where op: "op = CreateTransfer env i u role dto" by blast
    show ?thesis
    proof (cases rule: create_cases [of env i db u role dto])
      case 1
      then show ?thesis using ok op by (simp add: transfers_ok_def)
    next
      case (2 orders row)
      then show ?thesis using ok op new_transfer_distinct [OF 2(3) ids]
        by (auto simp: transfers_ok_def)
    qed
  next
    case False
    obtain f news where f: "debtTransfers (exec_cash op db) = map f (debtTransfers db) @ news"
      "\<forall>r\<in>set (debtTransfers db). transfer_step r (f r)"
      using step unfolding table_step_def by blast
    have "length (debtTransfers (exec_cash op db)) = length (debtTransfers db)"
      using False
      by (cases op) (auto simp: transfers_untouched [of op] table_simps custody_keeps_transfers approve_keeps_transfers
          deposits_keep_transfers signAsSource_def signAsTarget_def cancel_transfer_def finalize_def finalize_tx_def
          Let_def split: option.split)
    then have "news = []" using f(1) by simp
    then show ?thesis using f promised_map(2) [OF f(2)] ok by (simp add: transfers_ok_def)
  qed
  ultimately show ?thesis using transfers.exec_inv [OF t] by (simp add: transfers_ok_def)
qed

lemma run_orders_ok: "orders_ok (cashOrders db) \<Longrightarrow> orders_ok (cashOrders (run_cash ops db))"
  by (induction ops arbitrary: db) (simp_all add: exec_orders(1) del: exec_cash.simps)

text \<open>
  C28: the protocol of the debt transfers. Along every history no order is in two transfers that
  are not cancelled, a completed transfer carries the signatures of both drivers, and a
  completed or cancelled transfer keeps its status for ever.
\<close>

theorem transfer_protocol:
  assumes "orders_ok (cashOrders db)" and "transfers_ok db"
  shows "distinct (promised (debtTransfers (run_cash ops db)))
    \<and> list_all (\<lambda>t. dt_status t = DT_COMPLETED \<longrightarrow> dt_sourceSignedAt t \<noteq> None \<and> dt_targetSignedAt t \<noteq> None)
        (debtTransfers (run_cash ops db))
    \<and> (transfer_status_at db i \<in> {Some DT_COMPLETED, Some DT_CANCELLED} \<longrightarrow>
        transfer_status_at (run_cash ops db) i = transfer_status_at db i)"
proof -
  have "transfers_ok (run_cash ops db)"
    using assms
  proof (induction ops arbitrary: db)
    case Nil
    then show ?case by simp
  next
    case (Cons op ops)
    have "distinct (map co_id (cashOrders db))" using Cons.prems(1) by (simp add: orders_ok_def)
    from Cons.IH [OF exec_orders(1) [OF Cons.prems(1), of op] exec_transfers_ok [OF Cons.prems(2) this, of op]]
    show ?case by simp
  qed
  moreover have "transfer_status_at (run_cash ops db) i = transfer_status_at db i"
    if "transfer_status_at db i \<in> {Some DT_COMPLETED, Some DT_CANCELLED}"
    using transfers.run_final [of db i _ ops] assms(2) that
    unfolding run_cash_transfers by (auto simp: transfers_ok_def transfer_move_iff)
  ultimately show ?thesis by (auto simp: transfers_ok_def transfer_ok_def both_signed_def list_all_iff)
qed

subsection \<open>The effect of a finalization\<close>

definition held_on :: "uuid \<Rightarrow> cash_order list \<Rightarrow> decimal" where
  "held_on d rows = (\<Sum>x\<leftarrow>filter (on_driver d) rows. co_totalPrice x)"

definition transfer_rows :: "debt_transfer \<Rightarrow> cash_order list \<Rightarrow> cash_order list" where
  "transfer_rows t rows = filter (\<lambda>x. co_id x \<in> set (map tl_orderId (dt_orders t))) rows"

lemma finalize_Inr:
  assumes "fst (finalize env token db i role) = Inr ()"
  obtains t where "find_transfer db i = Some t" "role = ACCOUNTANT" "dt_status t = DT_AWAITING_SIGNATURES"
    "both_signed t" "\<forall>x\<in>set (transfer_rows t (cashOrders db)). on_driver (dt_sourceDriverId t) x"
    "snd (finalize env token db i role) = update_transfer i (\<lambda>x. x\<lparr>dt_status := DT_COMPLETED,
       dt_finalizedAt := Some (now env), dt_systemSignature := Some token\<rparr>) (transfer_pair env t (db\<lparr>cashOrders :=
         foldl (\<lambda>rows x. update_row co_id (co_id x) (reassign (dt_sourceDriverId t) (dt_targetDriverId t) x) rows)
           (cashOrders db) (transfer_rows t (cashOrders db))\<rparr>))"
proof -
  from assms have role: "role = ACCOUNTANT" by (auto simp: finalize_def split: if_splits)
  from assms obtain t where t: "find_transfer db i = Some t"
    by (auto simp: finalize_def finalize_tx_def table_simps split: if_splits option.splits)
  let ?rows = "transfer_rows t (cashOrders db)"
  have tx: "fst (finalize_tx env token db i) = Inr ()"
    using assms role by (simp add: finalize_def table_simps)
  then have g: "dt_status t = DT_AWAITING_SIGNATURES" "both_signed t"
    "filter (\<lambda>x. \<not> on_driver (dt_sourceDriverId t) x) ?rows = []"
    by (auto simp: finalize_tx_def t Let_def both_signed_def transfer_rows_def split: if_splits)
  have "snd (finalize env token db i role) = update_transfer i (\<lambda>x. x\<lparr>dt_status := DT_COMPLETED,
       dt_finalizedAt := Some (now env), dt_systemSignature := Some token\<rparr>) (transfer_pair env t (db\<lparr>cashOrders :=
         foldl (\<lambda>rows x. update_row co_id (co_id x) (reassign (dt_sourceDriverId t) (dt_targetDriverId t) x) rows)
           (cashOrders db) ?rows\<rparr>))"
    using tx role by (auto simp: finalize_def finalize_tx_def t Let_def transfer_rows_def in_transaction_def
        split: if_splits)
  with that [OF t role g(1,2)] g(3) show ?thesis by (auto simp: filter_empty_conv)
qed

lemma held_on_reassigned:
  assumes "\<And>x. x \<in> set rows \<Longrightarrow> x \<in> set ms \<Longrightarrow> on_driver s x"
  shows "held_on d (map (\<lambda>x. if x \<in> set ms then reassign s t x x else x) rows)
    = held_on d rows - (if d = s then (\<Sum>x\<leftarrow>filter (\<lambda>x. x \<in> set ms) rows. co_totalPrice x) else 0)
      + (if d = t then (\<Sum>x\<leftarrow>filter (\<lambda>x. x \<in> set ms) rows. co_totalPrice x) else 0)"
  using assms
proof (induction rows)
  case Nil
  then show ?case by (simp add: held_on_def)
next
  case (Cons x rows)
  have IH: "held_on d (map (\<lambda>x. if x \<in> set ms then reassign s t x x else x) rows)
    = held_on d rows - (if d = s then (\<Sum>x\<leftarrow>filter (\<lambda>x. x \<in> set ms) rows. co_totalPrice x) else 0)
      + (if d = t then (\<Sum>x\<leftarrow>filter (\<lambda>x. x \<in> set ms) rows. co_totalPrice x) else 0)"
    using Cons by simp
  have head: "held_on d (y # ys) = (if on_driver d y then co_totalPrice y else 0) + held_on d ys" for y ys
    by (simp add: held_on_def)
  show ?case
  proof (cases "x \<in> set ms")
    case True
    then have "on_driver s x" using Cons.prems by simp
    then have "on_driver d x \<longleftrightarrow> d = s" "on_driver d (reassign s t x x) \<longleftrightarrow> d = t"
      and price: "\<And>t. co_totalPrice (reassign s t x x) = co_totalPrice x" "co_totalPrice (reassign t t x x) = co_totalPrice x"
      by (auto simp: on_driver_def reassign_def)
    then show ?thesis using IH True by (simp add: head)
  next
    case False
    then show ?thesis using IH by (simp add: head)
  qed
qed

text \<open>
  C29: a successful finalization, which only an accountant gets and only after both drivers have
  signed, moves the orders of the transfer and nothing else: what the source driver holds goes
  down and what the target driver holds goes up by the prices of these orders, every other
  driver holds what he held, and the two ledger rows it writes cancel out.
\<close>

theorem finalize_moves_exactly:
  assumes "orders_ok (cashOrders db)" and "fst (finalize env token db i role) = Inr ()"
    and "find_transfer db i = Some t"
  defines "moved \<equiv> (\<Sum>x\<leftarrow>transfer_rows t (cashOrders db). co_totalPrice x)"
    and "after \<equiv> snd (finalize env token db i role)"
  shows "role = ACCOUNTANT \<and> dt_sourceSignedAt t \<noteq> None \<and> dt_targetSignedAt t \<noteq> None
    \<and> held_on d (cashOrders after) = held_on d (cashOrders db)
        - (if d = dt_sourceDriverId t then moved else 0) + (if d = dt_targetDriverId t then moved else 0)
    \<and> (\<Sum>g\<leftarrow>glEntries after. gl_amount g) = (\<Sum>g\<leftarrow>glEntries db. gl_amount g)
    \<and> transfer_status_at after i = Some DT_COMPLETED"
proof (rule finalize_Inr [OF assms(2)])
  let ?s = "dt_sourceDriverId t" and ?t = "dt_targetDriverId t"
  let ?ms = "transfer_rows t (cashOrders db)"
  fix u assume u: "find_transfer db i = Some u" "role = ACCOUNTANT" "both_signed u"
    "\<forall>x\<in>set (transfer_rows u (cashOrders db)). on_driver (dt_sourceDriverId u) x"
    "snd (finalize env token db i role) = update_transfer i (\<lambda>x. x\<lparr>dt_status := DT_COMPLETED,
       dt_finalizedAt := Some (now env), dt_systemSignature := Some token\<rparr>) (transfer_pair env u (db\<lparr>cashOrders :=
         foldl (\<lambda>rows x. update_row co_id (co_id x) (reassign (dt_sourceDriverId u) (dt_targetDriverId u) x) rows)
           (cashOrders db) (transfer_rows u (cashOrders db))\<rparr>))"
  have ut: "u = t" using u(1) assms(3) by simp
  have d: "distinct (map co_id (cashOrders db))" using assms(1) by (simp add: orders_ok_def)
  have "foldl (\<lambda>rows x. update_row co_id (co_id x) (reassign ?s ?t x) rows) (cashOrders db) ?ms
      = map (\<lambda>x. if x \<in> set ?ms then reassign ?s ?t x x else x) (cashOrders db)"
    by (rule fold_update_rows [OF d])
      (auto simp: transfer_rows_def reassign_def intro: distinct_map_filter [OF d])
  then have orders: "cashOrders after = map (\<lambda>x. if x \<in> set ?ms then reassign ?s ?t x x else x) (cashOrders db)"
    unfolding after_def u(5) ut by (simp add: table_simps)
  have "filter (\<lambda>x. x \<in> set ?ms) (cashOrders db) = ?ms"
    unfolding transfer_rows_def by (rule filter_cong) auto
  then have "held_on d (cashOrders after) = held_on d (cashOrders db)
      - (if d = ?s then moved else 0) + (if d = ?t then moved else 0)"
    unfolding orders moved_def using u(4) ut by (subst held_on_reassigned) auto
  moreover have "(\<Sum>g\<leftarrow>glEntries after. gl_amount g) = (\<Sum>g\<leftarrow>glEntries db. gl_amount g)"
    unfolding after_def u(5) by (simp add: table_simps transfer_pair_def gl_append_def no_ledger_def)
  moreover have "transfer_status_at after i = Some DT_COMPLETED"
    unfolding after_def u(5) using u(1) by (simp add: transfer_status_at_def table_simps)
  ultimately show ?thesis using u(2,3) ut by (simp add: both_signed_def)
qed

text \<open>
  An order that was transferred once can never be transferred again: whatever happens after
  a transfer has completed, a request for a new transfer that names one of its orders is
  refused.
\<close>

theorem completed_transfer_locks:
  assumes "transfers_ok db" and "find_transfer db i = Some t" and "dt_status t = DT_COMPLETED"
    and "tl_orderId l \<in> set (ct_orderIds dto)" and "l \<in> set (dt_orders t)"
  shows "\<exists>e. create_transfer_row env j (run_cash ops db) u role dto = (Inl e, run_cash ops db)"
proof -
  have ids: "transfer_ids_ok db" using assms(1) by (simp add: transfers_ok_def)
  have kept: "\<exists>t'. find_transfer (run_cash ops db) i = Some t' \<and> dt_status t' = DT_COMPLETED \<and> dt_orders t' = dt_orders t"
    using ids assms(2,3)
  proof (induction ops arbitrary: db t)
    case Nil
    then show ?case by simp
  next
    case (Cons op ops)
    obtain c where c: "find_transfer (exec_cash op db) i = Some c" "transfer_step t c"
      using table_step_find [OF exec_transfers_step [OF Cons.prems(1)] Cons.prems(2)] by blast
    with Cons.prems(3) have "dt_status c = DT_COMPLETED" "dt_orders c = dt_orders t"
      by (auto simp: transfer_step_def transfer_move_iff)
    with Cons.IH [OF transfers.exec_inv [OF Cons.prems(1)] c(1)] show ?case by simp
  qed
  then obtain t' where t': "find_transfer (run_cash ops db) i = Some t'" "dt_status t' = DT_COMPLETED"
    "dt_orders t' = dt_orders t" by blast
  have "tl_orderId l \<in> set (promised (debtTransfers (run_cash ops db)))"
    using find_row_id [OF t'(1)] t'(2,3) assms(5) unfolding promised_def
    by (auto simp: live_transfer_def intro!: bexI [of _ t'])
  then have no: "check_orders (run_cash ops db) dto \<noteq> Inr orders" for orders
    using check_orders_Inr(4) [of "run_cash ops db" dto orders] assms(4) by blast
  obtain e where e: "bindE (check_drivers (run_cash ops db) dto) (\<lambda>_. check_orders (run_cash ops db) dto) = Inl e"
    using no by (cases "bindE (check_drivers (run_cash ops db) dto) (\<lambda>_. check_orders (run_cash ops db) dto)")
      (auto simp: result_simps)
  then show ?thesis by (auto simp: create_transfer_row_def)
qed

lemma example_transfers_ok: "transfers_ok example_cash_db"
  by (simp add: transfers_ok_def transfer_ids_ok_def promised_def example_cash_db_def example_transfer_def
      live_transfer_def transfer_ok_def both_signed_def)

theorem transfer_protocol_witness:
  "transfer_status_at (run_cash [CancelTransfer example_env ''t0'' ''a1'' ACCOUNTANT None] example_cash_db) ''t0''
     = Some DT_COMPLETED"
  using transfer_protocol [OF example_cash_orders_ok example_transfers_ok,
      of "[CancelTransfer example_env ''t0'' ''a1'' ACCOUNTANT None]" "''t0''"]
  by (simp add: transfer_status_at_def find_row_def example_cash_db_def example_transfer_def)

theorem finalize_moves_exactly_witness:
  "held_on ''d2'' (cashOrders (snd (finalize example_env ''token'' example_cash_db ''t1'' ACCOUNTANT))) = 33 / 2"
proof -
  have t: "find_transfer example_cash_db ''t1'' = Some (example_transfer ''t1'' ''o1'' DT_AWAITING_SIGNATURES)"
    by (simp add: find_row_def example_cash_db_def example_transfer_def)
  have "fst (finalize example_env ''token'' example_cash_db ''t1'' ACCOUNTANT) = Inr ()"
    by (simp add: finalize_def finalize_tx_def t Let_def table_simps)
      (simp add: example_cash_db_def example_transfer_def example_order_def on_driver_def)
  from finalize_moves_exactly [OF example_cash_orders_ok this t, of "''d2''"] show ?thesis
    by (simp add: example_transfer_def transfer_rows_def held_on_def on_driver_def example_cash_db_def example_order_def)
qed

theorem completed_transfer_locks_witness:
  "\<exists>e. create_transfer_row example_env ''t9'' (run_cash [] example_cash_db) ''a1'' ACCOUNTANT
     \<lparr>ct_sourceDriverId = ''d2'', ct_targetDriverId = ''d1'', ct_orderIds = [''o9''], ct_reason = None, ct_notes = None\<rparr>
     = (Inl e, run_cash [] example_cash_db)"
  by (rule completed_transfer_locks [OF example_transfers_ok, of "''t0''" "example_transfer ''t0'' ''o9'' DT_COMPLETED"
        "\<lparr>tl_orderId = ''o9'', tl_amountSnapshot = 25 / 2\<rparr>"])
    (simp_all add: find_row_def example_cash_db_def example_transfer_def)

end
