(* ===== verification/Ledger_Projection.thy ===== *)
theory Ledger_Projection
  imports Cash_Store "HOL-Library.Product_Lexorder"
begin

text \<open>
  \<open>src/finance/ledger/ledger-projection.service.ts\<close>: the double-entry view of the cash, computed
  from the sales, the approved expenses and the custody bags of a window, its balances per
  account and its reconciliation report. Amounts are printed with \<open>toFixed(4)\<close> and read back:
  \<open>dec4\<close>. Times compare as their ISO strings do; \<open>localeCompare\<close> on account names is the order of
  their bytes.
\<close>

record ledger_entry =
  le_txId :: string
  le_id :: string
  le_accountId :: string
  le_debit :: decimal
  le_credit :: decimal
  le_createdAt :: timestamp
  le_meta :: "(string \<times> json) list"

definition ledger_pair :: "string \<Rightarrow> timestamp \<Rightarrow> string \<Rightarrow> string \<Rightarrow> decimal \<Rightarrow> (string \<times> json) list \<Rightarrow> ledger_entry list" where
  "ledger_pair txId createdAt debitAccount creditAccount amount meta =
     (if amount \<le> 0 then []
      else [\<lparr>le_txId = txId, le_id = txId @ '':DR:0'', le_accountId = debitAccount, le_debit = dec4 amount,
              le_credit = 0, le_createdAt = createdAt, le_meta = meta\<rparr>,
            \<lparr>le_txId = txId, le_id = txId @ '':CR:0'', le_accountId = creditAccount, le_debit = 0,
              le_credit = dec4 amount, le_createdAt = createdAt, le_meta = meta\<rparr>])"

text \<open>\<open>String(meta.k ?? d)\<close>; a number never names a method or a category of the program.\<close>

definition meta_string :: "string \<Rightarrow> json option \<Rightarrow> string \<Rightarrow> string" where
  "meta_string k m d = (case json_field k m of
     None \<Rightarrow> d | Some JNull \<Rightarrow> d | Some (JString s) \<Rightarrow> s | Some (JBool b) \<Rightarrow> (if b then ''true'' else ''false'')
   | Some (JDecimal x) \<Rightarrow> to_fixed4 x | Some (JObject fs) \<Rightarrow> ''[object Object]'')"

definition in_range :: "timestamp \<Rightarrow> timestamp \<Rightarrow> timestamp \<Rightarrow> bool" where
  "in_range from_t to_t t \<longleftrightarrow> from_t \<le> t \<and> t \<le> to_t"

definition role_of :: "cash_db \<Rightarrow> uuid \<Rightarrow> safari_role option" where
  "role_of db i = map_option us_role (find_user db i)"

subsection \<open>The four sources\<close>

definition pos_account :: "cash_db \<Rightarrow> gl_entry \<Rightarrow> string" where
  "pos_account db r =
     (let m = meta_string ''posPaymentMethod'' (gl_metadata r) [] in
      if m = ''CASH'' then
        (if \<not> truthy (gl_actorUserId r) then ''UNATTRIBUTED''
         else let actor = nullish (gl_actorUserId r) [] in
           (case role_of db actor of
              None \<Rightarrow> ''UNATTRIBUTED''
            | Some role \<Rightarrow> if role = DRIVER then ''DRIVER_'' @ actor
                else if role = MANAGER then ''MANAGER_'' @ actor else ''COMPANY_CASH''))
      else if m = ''KNET'' \<or> m = ''PAYMENT_LINK'' \<or> m = ''ONLINE'' then ''BANK_ACCOUNT''
      else if m = ''DEBT_ON_ACCOUNT'' \<or> m = ''SUBSCRIPTION_WALLET'' then ''COMPANY_CASH''
      else ''UNATTRIBUTED'')"

definition pos_rows :: "cash_db \<Rightarrow> timestamp \<Rightarrow> timestamp \<Rightarrow> gl_entry list" where
  "pos_rows db from_t to_t = sort_key gl_createdAt (filter (\<lambda>g. gl_entryType g = POS_SALE_COMPLETED
     \<and> in_range from_t to_t (gl_createdAt g)) (glEntries db))"

definition pos_entries :: "cash_db \<Rightarrow> gl_entry \<Rightarrow> ledger_entry list" where
  "pos_entries db r = ledger_pair (''gl:'' @ gl_id r) (gl_createdAt r) (pos_account db r) ''REVENUE_POS'' (gl_amount r)
     [(''source'', JString ''GeneralLedgerEntry''), (''entryType'', JString ''POS_SALE_COMPLETED''),
      (''posPaymentMethod'', (let m = meta_string ''posPaymentMethod'' (gl_metadata r) [] in if m = [] then JNull else JString m)),
      (''orderId'', json_option (gl_orderId r)), (''customerId'', json_option (gl_customerId r)),
      (''actorUserId'', json_option (gl_actorUserId r))]"

definition expense_rows :: "cash_db \<Rightarrow> timestamp \<Rightarrow> timestamp \<Rightarrow> gl_entry list" where
  "expense_rows db from_t to_t = sort_key gl_createdAt (filter (\<lambda>g. gl_entryType g = EXPENSE_RECORDED
     \<and> in_range from_t to_t (gl_createdAt g) \<and> gl_amount g > 0) (glEntries db))"

definition find_expense :: "cash_db \<Rightarrow> uuid option \<Rightarrow> branch_expense option" where
  "find_expense db i = (if truthy i then find_row be_id (branchExpenses db) (nullish i []) else None)"

definition expense_account :: "cash_db \<Rightarrow> gl_entry \<Rightarrow> string" where
  "expense_account db r =
     (case find_expense db (gl_expenseId r) of
        None \<Rightarrow> ''COMPANY_CASH''
      | Some e \<Rightarrow>
          (case role_of db (be_recordedById e) of
             None \<Rightarrow> ''COMPANY_CASH''
           | Some role \<Rightarrow> if role = DRIVER then ''DRIVER_'' @ be_recordedById e
               else if role = MANAGER then ''MANAGER_'' @ be_recordedById e else ''COMPANY_CASH''))"

definition expense_entries :: "cash_db \<Rightarrow> gl_entry \<Rightarrow> ledger_entry list" where
  "expense_entries db r = ledger_pair (''gl:'' @ gl_id r) (gl_createdAt r)
     (''EXPENSE_'' @ meta_string ''category'' (gl_metadata r) ''MISC'') (expense_account db r) (gl_amount r)
     [(''source'', JString ''GeneralLedgerEntry''), (''entryType'', JString ''EXPENSE_RECORDED''),
      (''expenseId'', json_option (gl_expenseId r)), (''actorUserId'', json_option (gl_actorUserId r))]"

text \<open>Expenses appear only when at least one row of the window names its expense.\<close>

definition all_expense_entries :: "cash_db \<Rightarrow> timestamp \<Rightarrow> timestamp \<Rightarrow> ledger_entry list" where
  "all_expense_entries db from_t to_t =
     (let rows = expense_rows db from_t to_t
      in if \<exists>r\<in>set rows. truthy (gl_expenseId r) then concat (map (expense_entries db) rows) else [])"

definition handover_rows :: "cash_db \<Rightarrow> timestamp \<Rightarrow> timestamp \<Rightarrow> custody_bag list" where
  "handover_rows db from_t to_t = sort_key cb_receivedFromDriverAt
     (filter (\<lambda>b. in_range from_t to_t (cb_receivedFromDriverAt b)) (custodyBags db))"

definition handover_entries :: "custody_bag \<Rightarrow> ledger_entry list" where
  "handover_entries c = ledger_pair (''mch:'' @ cb_id c @ '':HANDOVER'') (cb_receivedFromDriverAt c)
     (''MANAGER_'' @ cb_managerId c) (''DRIVER_'' @ cb_driverId c) (cb_amountKd c)
     [(''source'', JString ''ManagerCashCustody''), (''event'', JString ''HANDOVER''),
      (''custodyId'', JString (cb_id c)), (''branchId'', json_option (cb_branchId c))]"

definition verified_in :: "timestamp \<Rightarrow> timestamp \<Rightarrow> custody_bag \<Rightarrow> bool" where
  "verified_in from_t to_t b \<longleftrightarrow> cb_status b = VERIFIED
     \<and> (case cb_verifiedAt b of None \<Rightarrow> False | Some t \<Rightarrow> in_range from_t to_t t)"

definition verified_rows :: "cash_db \<Rightarrow> timestamp \<Rightarrow> timestamp \<Rightarrow> custody_bag list" where
  "verified_rows db from_t to_t = sort_key (\<lambda>b. nullish (cb_verifiedAt b) 0)
     (filter (verified_in from_t to_t) (custodyBags db))"

definition verified_entries :: "custody_bag \<Rightarrow> ledger_entry list" where
  "verified_entries c = ledger_pair (''mch:'' @ cb_id c @ '':VERIFIED'') (nullish (cb_verifiedAt c) 0)
     ''BANK_ACCOUNT'' (''MANAGER_'' @ cb_managerId c) (cb_amountKd c)
     [(''source'', JString ''ManagerCashCustody''), (''event'', JString ''VERIFIED''),
      (''custodyId'', JString (cb_id c)), (''branchId'', json_option (cb_branchId c))]"

text \<open>\<open>project\<close>; a time that does not parse is \<open>None\<close>.\<close>

definition project_entries :: "cash_db \<Rightarrow> timestamp \<Rightarrow> timestamp \<Rightarrow> ledger_entry list" where
  "project_entries db from_t to_t =
     concat (map (pos_entries db) (pos_rows db from_t to_t)) @ all_expense_entries db from_t to_t
     @ concat (map handover_entries (handover_rows db from_t to_t))
     @ concat (map verified_entries (verified_rows db from_t to_t))"

definition project :: "cash_db \<Rightarrow> timestamp option \<Rightarrow> timestamp option \<Rightarrow> ledger_entry list result" where
  "project db fromIso toIso =
     (case (fromIso, toIso) of
        (Some from_t, Some to_t) \<Rightarrow>
          Inr (sort_key (\<lambda>e. (le_createdAt e, le_txId e, le_id e)) (project_entries db from_t to_t))
      | _ \<Rightarrow> Inl (Error ''Invalid date range''))"

subsection \<open>Balances and reconciliation\<close>

record account_totals =
  ab_accountId :: string
  ab_totalDebit :: decimal
  ab_totalCredit :: decimal
  ab_balance :: decimal
  ab_entryCount :: nat

definition debits :: "ledger_entry list \<Rightarrow> decimal" where
  "debits es = (\<Sum>e\<leftarrow>es. le_debit e)"

definition credits :: "ledger_entry list \<Rightarrow> decimal" where
  "credits es = (\<Sum>e\<leftarrow>es. le_credit e)"

definition aggregateAccounts :: "ledger_entry list \<Rightarrow> account_totals list" where
  "aggregateAccounts entries = sort_key ab_accountId (map (\<lambda>a.
     let es = filter (\<lambda>e. le_accountId e = a) entries in
     \<lparr>ab_accountId = a, ab_totalDebit = dec4 (debits es), ab_totalCredit = dec4 (credits es),
      ab_balance = dec4 (debits es - credits es), ab_entryCount = length es\<rparr>)
     (remdups (map le_accountId entries)))"

datatype reconciliation_status = RECON_PASS | RECON_FAIL

record unbalanced_tx =
  ut_txId :: string
  ut_debit :: decimal
  ut_credit :: decimal
  ut_delta :: decimal

record reconciliation_report =
  rr_status :: reconciliation_status
  rr_totalEntries :: nat
  rr_totalTransactions :: nat
  rr_globalDebit :: decimal
  rr_globalCredit :: decimal
  rr_unbalancedTransactions :: "unbalanced_tx list"
  rr_unattributedEntries :: nat

definition tx_delta :: "ledger_entry list \<Rightarrow> string \<Rightarrow> decimal" where
  "tx_delta entries t = (let es = filter (\<lambda>e. le_txId e = t) entries in debits es - credits es)"

definition reconcile :: "ledger_entry list \<Rightarrow> reconciliation_report" where
  "reconcile entries =
     (let txs = remdups (map le_txId entries);
          unbalanced = filter (\<lambda>t. tx_delta entries t \<noteq> 0) txs
      in \<lparr>rr_status = (if unbalanced = [] \<and> debits entries = credits entries then RECON_PASS else RECON_FAIL),
          rr_totalEntries = length entries, rr_totalTransactions = length txs,
          rr_globalDebit = dec4 (debits entries), rr_globalCredit = dec4 (credits entries),
          rr_unbalancedTransactions = map (\<lambda>t. let es = filter (\<lambda>e. le_txId e = t) entries in
            \<lparr>ut_txId = t, ut_debit = dec4 (debits es), ut_credit = dec4 (credits es),
             ut_delta = dec4 (tx_delta entries t)\<rparr>) unbalanced,
          rr_unattributedEntries = length (filter (\<lambda>e. le_accountId e = ''UNATTRIBUTED'') entries)\<rparr>)"

subsection \<open>The projection balances\<close>

text \<open>A list of entries in which every transaction balances.\<close>

definition balanced :: "ledger_entry list \<Rightarrow> bool" where
  "balanced es \<longleftrightarrow> (\<forall>t. tx_delta es t = 0) \<and> debits es = credits es"

lemma debits_simps [simp]: "debits [] = 0" "debits (e # es) = le_debit e + debits es"
  "debits (es @ es') = debits es + debits es'"
  by (simp_all add: debits_def)

lemma credits_simps [simp]: "credits [] = 0" "credits (e # es) = le_credit e + credits es"
  "credits (es @ es') = credits es + credits es'"
  by (simp_all add: credits_def)

lemma balanced_Nil [intro]: "balanced []"
  by (simp add: balanced_def tx_delta_def)

lemma balanced_append [intro]: "balanced es \<Longrightarrow> balanced es' \<Longrightarrow> balanced (es @ es')"
  by (auto simp: balanced_def tx_delta_def Let_def algebra_simps)

lemma balanced_pair [intro]: "balanced (ledger_pair t k d c x m)"
  by (auto simp: balanced_def tx_delta_def ledger_pair_def Let_def)

lemma balanced_concat: "(\<And>x. balanced (f x)) \<Longrightarrow> balanced (concat (map f xs))"
  by (induction xs) auto

lemma balanced_project: "balanced (project_entries db from_t to_t)"
  unfolding project_entries_def all_expense_entries_def Let_def
  by (intro balanced_append)
    (auto intro!: balanced_concat simp: pos_entries_def expense_entries_def handover_entries_def verified_entries_def)

lemma sort_key_sums:
  "tx_delta (sort_key k es) t = tx_delta es t" "debits (sort_key k es) = debits es" "credits (sort_key k es) = credits es"
  by (simp_all only: tx_delta_def debits_def credits_def Let_def sum_sort_key_filter sum_sort_key)

lemma balanced_sort: "balanced (sort_key k es) \<longleftrightarrow> balanced es"
  by (simp add: balanced_def sort_key_sums)

text \<open>
  C30: the reconciliation of the projected ledger always passes: for every state of the tables
  and every window the projection returns, no transaction of it is unbalanced, and the debits
  of all accounts add up to their credits.
\<close>

theorem projection_reconciles:
  "\<exists>entries. project db (Some from_t) (Some to_t) = Inr entries
    \<and> rr_status (reconcile entries) = RECON_PASS \<and> rr_unbalancedTransactions (reconcile entries) = []
    \<and> rr_globalDebit (reconcile entries) = rr_globalCredit (reconcile entries)"
proof -
  have bal: "balanced (sort_key (\<lambda>e. (le_createdAt e, le_txId e, le_id e)) (project_entries db from_t to_t))"
    by (simp add: balanced_sort balanced_project)
  show ?thesis
    unfolding project_def option.case prod.case
    by (rule exI, rule conjI, rule refl) (use bal in \<open>simp add: reconcile_def Let_def balanced_def\<close>)
qed

end
