(* ===== verification/Custody_Reads.thy ===== *)
theory Custody_Reads
  imports Cash_Conservation Ledger_Projection
begin

text \<open>
  The reports of \<open>src/manager-custody/manager-custody.service.ts\<close>: lists of bags, their aging,
  the debts of the staff, the stream metrics and the cash status of a manager. \<open>collate\<close>, the
  position of a name in the Arabic collation order, is a parameter; lower case is that of ASCII
  letters; the branch table is left out.
\<close>

subsection \<open>Lists of bags\<close>

definition newest_bags :: "env \<Rightarrow> cash_db \<Rightarrow> (custody_bag \<Rightarrow> bool) \<Rightarrow> custody_row list" where
  "newest_bags env db P = map (toRow env db)
     (take 200 (sort_key (\<lambda>b. - cb_receivedFromDriverAt b) (filter P (custodyBags db))))"

definition listMine :: "env \<Rightarrow> cash_db \<Rightarrow> uuid \<Rightarrow> custody_row list" where
  "listMine env db managerId = newest_bags env db (\<lambda>b. cb_managerId b = managerId)"

definition listByDriver :: "env \<Rightarrow> cash_db \<Rightarrow> uuid \<Rightarrow> custody_row list" where
  "listByDriver env db driverId = newest_bags env db (\<lambda>b. cb_driverId b = driverId)"

definition findByIdForReceipt :: "env \<Rightarrow> cash_db \<Rightarrow> uuid \<Rightarrow> uuid \<Rightarrow> safari_role \<Rightarrow> custody_row result" where
  "findByIdForReceipt env db custodyId actorUserId actorRole =
     (case find_bag db custodyId of
        None \<Rightarrow> Inl (NotFoundException ''Custody bag not found.'')
      | Some bag \<Rightarrow>
          if \<not> (actorRole = OWNER \<or> actorRole = GENERAL_MANAGER \<or> actorRole = ACCOUNTANT)
             \<and> cb_driverId bag \<noteq> actorUserId \<and> cb_managerId bag \<noteq> actorUserId
          then Inl (ForbiddenException ''You are not authorised to read this cash-handover receipt.'')
          else Inr (toRow env db bag))"

record custody_query =
  cq_status :: "custody_status option"
  cq_managerId :: "uuid option"
  cq_branchId :: "uuid option"

record aging_summary =
  ag_pendingCount :: nat
  ag_awaitingVerificationCount :: nat
  ag_overdueCount :: nat
  ag_totalPendingKd :: string
  ag_totalOverdueKd :: string
  ag_FRESH :: nat
  ag_WARNING_12H :: nat
  ag_OVERDUE_24H :: nat

text \<open>The minor units of the printed amounts; the first one that does not parse throws.\<close>

definition minors :: "custody_row list \<Rightarrow> int list result" where
  "minors rows = mapE (\<lambda>r. parseFixed4ToMinor (cr_amountKd r)) rows"

definition summarise :: "custody_row list \<Rightarrow> aging_summary result" where
  "summarise rows =
     bindE (minors rows) (\<lambda>_.
     bindE (minors (filter (\<lambda>r. cr_status r \<noteq> VERIFIED) rows)) (\<lambda>pending.
     bindE (minors (filter cr_isOverdue rows)) (\<lambda>overdue.
       Inr \<lparr>ag_pendingCount = length (filter (\<lambda>r. cr_status r = PENDING_DEPOSIT) rows),
         ag_awaitingVerificationCount = length (filter (\<lambda>r. cr_status r = AWAITING_VERIFICATION) rows),
         ag_overdueCount = length (filter cr_isOverdue rows),
         ag_totalPendingKd = minorToAmountString (sum_list pending),
         ag_totalOverdueKd = minorToAmountString (sum_list overdue),
         ag_FRESH = length (filter (\<lambda>r. \<not> cr_isOverdue r \<and> \<not> cr_ageHours r \<ge> 12) rows),
         ag_WARNING_12H = length (filter (\<lambda>r. \<not> cr_isOverdue r \<and> cr_ageHours r \<ge> 12) rows),
         ag_OVERDUE_24H = length (filter cr_isOverdue rows)\<rparr>)))"

definition open_bag :: "custody_bag \<Rightarrow> bool" where
  "open_bag b \<longleftrightarrow> cb_status b \<in> {PENDING_DEPOSIT, AWAITING_VERIFICATION, REJECTED}"

definition aging_matches :: "custody_query \<Rightarrow> custody_bag \<Rightarrow> bool" where
  "aging_matches q b \<longleftrightarrow> (case cq_status q of Some st \<Rightarrow> cb_status b = st | None \<Rightarrow> open_bag b)
     \<and> (truthy (cq_managerId q) \<longrightarrow> Some (cb_managerId b) = cq_managerId q)
     \<and> (truthy (cq_branchId q) \<longrightarrow> cb_branchId b = cq_branchId q)"

definition aging_rows :: "env \<Rightarrow> cash_db \<Rightarrow> custody_query \<Rightarrow> custody_row list" where
  "aging_rows env db q = map (toRow env db)
     (take 500 (sort_key cb_receivedFromDriverAt (filter (aging_matches q) (custodyBags db))))"

definition listAging :: "env \<Rightarrow> cash_db \<Rightarrow> custody_query \<Rightarrow> (custody_row list \<times> aging_summary) result" where
  "listAging env db q = bindE (summarise (aging_rows env db q)) (\<lambda>s. Inr (aging_rows env db q, s))"

definition no_query :: custody_query where
  "no_query = \<lparr>cq_status = None, cq_managerId = None, cq_branchId = None\<rparr>"

definition listMineForActor :: "env \<Rightarrow> cash_db \<Rightarrow> uuid \<Rightarrow> safari_role \<Rightarrow> custody_row list result" where
  "listMineForActor env db userId role =
     (if role = MANAGER then Inr (listMine env db userId)
      else if role = OWNER \<or> role = GENERAL_MANAGER \<or> role = ACCOUNTANT
      then bindE (listAging env db no_query) (\<lambda>r. Inr (fst r))
      else Inl (ForbiddenException ''Not authorised for manager custody list.''))"

subsection \<open>Stream metrics\<close>

record stream_metrics =
  sm_fleetOverdueCount :: nat
  sm_fleetOverdueAmountKd :: string
  sm_fleetPendingAmountKd :: string
  sm_pendingByManager :: "(uuid \<times> nat \<times> string) list"

definition bag_minor :: "custody_bag \<Rightarrow> int result" where
  "bag_minor b = parseFixed4ToMinor (to_fixed4 (cb_amountKd b))"

text \<open>\<open>[...byManager.entries()]\<close>: the managers in the order of their first bag.\<close>

fun first_seen :: "'a list \<Rightarrow> 'a list" where
  "first_seen [] = []"
| "first_seen (x # xs) = x # filter (\<lambda>y. y \<noteq> x) (first_seen xs)"

definition getStreamMetrics :: "env \<Rightarrow> cash_db \<Rightarrow> stream_metrics result" where
  "getStreamMetrics env db =
     (let rows = filter open_bag (custodyBags db);
          overdue = filter (\<lambda>b. now env - cb_receivedFromDriverAt b \<ge> CUSTODY_OVERDUE_MS) rows
      in bindE (mapE bag_minor rows) (\<lambda>pendingMinors.
         bindE (mapE bag_minor overdue) (\<lambda>overdueMinors.
         bindE (mapE (\<lambda>m. let own = filter (\<lambda>b. cb_managerId b = m) rows in
             bindE (mapE bag_minor own) (\<lambda>ms. Inr (m, length own, minorToAmountString (sum_list ms))))
           (first_seen (map cb_managerId rows))) (\<lambda>byManager.
           Inr \<lparr>sm_fleetOverdueCount = length overdue,
             sm_fleetOverdueAmountKd = minorToAmountString (sum_list overdueMinors),
             sm_fleetPendingAmountKd = minorToAmountString (sum_list pendingMinors),
             sm_pendingByManager = byManager\<rparr>))))"

subsection \<open>Debts of the staff\<close>

datatype staff_status_filter = SF_ALL | SF_OVERDUE | SF_CURRENT
datatype employee_kind = EK_driver | EK_manager

record staff_query =
  sq_branch :: "string option"
  sq_name :: "string option"
  sq_employee :: "string option"
  sq_status :: staff_status_filter

definition parseStaffDebtsEmployeeFilter :: "string \<Rightarrow> (employee_kind \<times> uuid) option" where
  "parseStaffDebtsEmployeeFilter raw =
     (if raw = [] \<or> raw = ''ALL'' then None
      else (case split_on (CHR '':'') raw of
         kind # i # _ \<Rightarrow> if i = [] then None
           else if kind = ''driver'' then Some (EK_driver, i)
           else if kind = ''manager'' then Some (EK_manager, i) else None
       | _ \<Rightarrow> None))"

text \<open>The value of an amount that \<open>minorToAmountString\<close> has printed.\<close>

definition kd_value :: "string \<Rightarrow> decimal" where
  "kd_value s = (case parseFixed4ToMinor s of Inr m \<Rightarrow> amount_of_minor m | Inl _ \<Rightarrow> 0)"

definition decimalGt :: "string \<Rightarrow> decimal \<Rightarrow> bool" where
  "decimalGt v threshold \<longleftrightarrow> kd_value v > threshold"

definition staffDebtDriverShiftAgeHours :: "driver_balance \<Rightarrow> timestamp \<Rightarrow> int option" where
  "staffDebtDriverShiftAgeHours row at_time =
     map_option (\<lambda>started. max 0 (at_time - started) div 3600000) (db_shiftStartedAt row)"

definition isStaffDebtDriverOverdue :: "driver_balance \<Rightarrow> timestamp \<Rightarrow> bool" where
  "isStaffDebtDriverOverdue row at_time =
     (if \<not> decimalGt (db_pendingTotalKd row) 0 then False
      else if \<not> truthy (db_currentShiftId row) then True
      else (case staffDebtDriverShiftAgeHours row at_time of None \<Rightarrow> False | Some ageHours \<Rightarrow> ageHours \<ge> 24))"

record employee_option =
  eo_value :: string
  eo_label :: string
  eo_branchId :: "uuid option"
  eo_kind :: employee_kind

definition driver_option :: "driver_balance \<Rightarrow> employee_option" where
  "driver_option d = \<lparr>eo_value = ''driver:'' @ db_driverId d, eo_label = db_fullName d, eo_branchId = db_branchId d,
     eo_kind = EK_driver\<rparr>"

definition manager_option :: "custody_row \<Rightarrow> employee_option" where
  "manager_option m = \<lparr>eo_value = ''manager:'' @ cr_managerId m, eo_label = cr_managerName m,
     eo_branchId = cr_branchId m, eo_kind = EK_manager\<rparr>"

fun dedup_options :: "string list \<Rightarrow> employee_option list \<Rightarrow> employee_option list" where
  "dedup_options seen [] = []"
| "dedup_options seen (x # xs) = (if eo_value x \<in> set seen then dedup_options seen xs
     else x # dedup_options (eo_value x # seen) xs)"

definition buildStaffDebtEmployeeOptions :: "driver_balance list \<Rightarrow> custody_row list \<Rightarrow> employee_option list" where
  "buildStaffDebtEmployeeOptions drivers managers =
     dedup_options [] (map driver_option drivers @ map manager_option managers)"

definition status_passes :: "staff_status_filter \<Rightarrow> bool \<Rightarrow> bool" where
  "status_passes st overdue \<longleftrightarrow> \<not> (st = SF_OVERDUE \<and> \<not> overdue) \<and> \<not> (st = SF_CURRENT \<and> overdue)"

definition person_passes :: "staff_query \<Rightarrow> employee_kind \<Rightarrow> uuid \<Rightarrow> uuid option \<Rightarrow> string \<Rightarrow> bool" where
  "person_passes q kind i branchId name =
     (let branchFilter = nullish (trim_or (sq_branch q) None) ''ALL'';
          trimmedName = to_lower (nullish (trim_or (sq_name q) None) [])
      in (case parseStaffDebtsEmployeeFilter (nullish (trim_or (sq_employee q) None) ''ALL'') of
            Some (k, picked) \<Rightarrow> k = kind \<and> i = picked
          | None \<Rightarrow> branchFilter = ''ALL'' \<or> branchId = Some branchFilter)
         \<and> (trimmedName = [] \<or> str_includes (to_lower name) trimmedName))"

record staff_debts =
  sd_drivers :: "driver_balance list"
  sd_managers :: "custody_row list"
  sd_employeeOptions :: "employee_option list"
  sd_selectedEmployee :: "employee_option option"
  sd_pipelineTotalKd :: string
  sd_driverTotalKd :: string
  sd_managerTotalKd :: string
  sd_overdueDriverCount :: nat
  sd_overdueManagerCount :: nat
  sd_totalOverdueCount :: nat

definition driver_total :: "driver_balance list \<Rightarrow> decimal" where
  "driver_total rows = (\<Sum>d\<leftarrow>rows. kd_value (db_pendingCashKd d)) + (\<Sum>d\<leftarrow>rows. kd_value (db_pendingKnetKd d))
     + (\<Sum>d\<leftarrow>rows. kd_value (db_pendingLinkKd d)) + (\<Sum>d\<leftarrow>rows. kd_value (db_pendingOnlineKd d))"

definition manager_total :: "custody_row list \<Rightarrow> decimal" where
  "manager_total rows = (\<Sum>r\<leftarrow>rows. kd_value (cr_amountKd r))"

definition staff_projection :: "(string \<Rightarrow> int) \<Rightarrow> timestamp \<Rightarrow> staff_query \<Rightarrow> driver_balance list \<Rightarrow> custody_row list \<Rightarrow>
    staff_debts" where
  "staff_projection collate at_time q balances aging =
     (let rawDrivers = filter (\<lambda>d. decimalGt (db_pendingTotalKd d) 0) balances;
          rawManagers = filter (\<lambda>r. cr_status r \<noteq> VERIFIED) aging;
          allOptions = buildStaffDebtEmployeeOptions rawDrivers rawManagers;
          branchFilter = nullish (trim_or (sq_branch q) None) ''ALL'';
          pick = parseStaffDebtsEmployeeFilter (nullish (trim_or (sq_employee q) None) ''ALL'');
          drivers = filter (\<lambda>d. person_passes q EK_driver (db_driverId d) (db_branchId d) (db_fullName d)
            \<and> status_passes (sq_status q) (isStaffDebtDriverOverdue d at_time)) rawDrivers;
          managers = filter (\<lambda>r. person_passes q EK_manager (cr_managerId r) (cr_branchId r) (cr_managerName r)
            \<and> status_passes (sq_status q) (cr_isOverdue r)) rawManagers;
          overdueDrivers = length (filter (\<lambda>d. isStaffDebtDriverOverdue d at_time) drivers);
          overdueManagers = length (filter cr_isOverdue managers)
      in \<lparr>sd_drivers = drivers, sd_managers = managers,
          sd_employeeOptions = sort_key (\<lambda>x. collate (eo_label x))
            (if branchFilter \<noteq> ''ALL'' then filter (\<lambda>x. eo_branchId x = Some branchFilter) allOptions else allOptions),
          sd_selectedEmployee = (case pick of None \<Rightarrow> None | Some (k, i) \<Rightarrow>
            find (\<lambda>x. eo_value x = (case k of EK_driver \<Rightarrow> ''driver:'' | EK_manager \<Rightarrow> ''manager:'') @ i) allOptions),
          sd_pipelineTotalKd = to_fixed4 (driver_total drivers + manager_total managers),
          sd_driverTotalKd = to_fixed4 (driver_total drivers), sd_managerTotalKd = to_fixed4 (manager_total managers),
          sd_overdueDriverCount = overdueDrivers, sd_overdueManagerCount = overdueManagers,
          sd_totalOverdueCount = overdueDrivers + overdueManagers\<rparr>)"

definition getStaffDebtsProjection :: "(string \<Rightarrow> int) \<Rightarrow> env \<Rightarrow> cash_db \<Rightarrow> staff_query \<Rightarrow> staff_debts result" where
  "getStaffDebtsProjection collate env db q =
     bindE (getDriverBalances db) (\<lambda>balances.
     bindE (listAging env db no_query) (\<lambda>aging.
       Inr (staff_projection collate (now env) q balances (fst aging))))"

subsection \<open>The cash status of a manager\<close>

datatype risk_level = RISK_NORMAL | RISK_WARNING | RISK_CRITICAL
datatype activity_kind = POS_SALE | DRIVER_HANDOVER | BANK_DEPOSIT | OTHER

fun riskRank :: "risk_level \<Rightarrow> int" where
  "riskRank RISK_CRITICAL = 2"
| "riskRank RISK_WARNING = 1"
| "riskRank RISK_NORMAL = 0"

record driver_at_risk =
  dr_driverId :: uuid
  dr_driverName :: string
  dr_heldCashKd :: string
  dr_pendingOrderCount :: nat
  dr_ageHours :: "int option"
  dr_riskLevel :: risk_level

definition driver_risk :: "timestamp \<Rightarrow> driver_balance \<Rightarrow> driver_at_risk" where
  "driver_risk at_time d =
     (let ageHours = map_option (\<lambda>s. (at_time - s) div 3600000) (db_shiftStartedAt d)
      in \<lparr>dr_driverId = db_driverId d, dr_driverName = db_fullName d, dr_heldCashKd = db_heldCashTotal d,
          dr_pendingOrderCount = db_pendingSettlementOrderCount d, dr_ageHours = ageHours,
          dr_riskLevel = (case ageHours of None \<Rightarrow> RISK_NORMAL
            | Some h \<Rightarrow> if h \<ge> 48 then RISK_CRITICAL else if h \<ge> 24 then RISK_WARNING else RISK_NORMAL)\<rparr>)"

definition classifyActivity :: "(string \<times> json) list \<Rightarrow> activity_kind" where
  "classifyActivity meta =
     (let source = meta_string ''source'' (Some (JObject meta)) [];
          entryType = meta_string ''entryType'' (Some (JObject meta)) [];
          event = meta_string ''event'' (Some (JObject meta)) []
      in if source = ''GeneralLedgerEntry'' \<and> entryType = ''POS_SALE_COMPLETED'' then POS_SALE
         else if source = ''BankDepositLog'' then BANK_DEPOSIT
         else if source = ''ManagerCashCustody'' then (if event = ''VERIFIED'' then BANK_DEPOSIT else DRIVER_HANDOVER)
         else OTHER)"

record activity_event =
  ae_txId :: string
  ae_at :: timestamp
  ae_amountKd :: decimal
  ae_kind :: activity_kind
  ae_actorAccountId :: string

definition activity_of :: "ledger_entry \<Rightarrow> activity_event" where
  "activity_of e = \<lparr>ae_txId = le_txId e, ae_at = le_createdAt e,
     ae_amountKd = (if le_debit e \<noteq> 0 then le_debit e else le_credit e),
     ae_kind = classifyActivity (le_meta e), ae_actorAccountId = le_accountId e\<rparr>"

fun dedup_tx :: "string list \<Rightarrow> ledger_entry list \<Rightarrow> ledger_entry list" where
  "dedup_tx seen [] = []"
| "dedup_tx seen (e # es) = (if le_txId e \<in> set seen then dedup_tx seen es else e # dedup_tx (le_txId e # seen) es)"

record cash_status_snapshot =
  st_managerId :: uuid
  st_managerName :: string
  st_pendingDepositKd :: decimal
  st_managerOwnPosKd :: decimal
  st_custodyBagsTotalKd :: decimal
  st_driversAwaitingHandoverKd :: decimal
  st_bagsCount :: nat
  st_driversAtRiskCount :: nat
  st_lastHandoverAt :: "timestamp option"
  st_lastActivityAt :: "timestamp option"
  st_drivers :: "driver_at_risk list"
  st_recentActivity :: "activity_event list"

definition held_bag :: "uuid \<Rightarrow> custody_bag \<Rightarrow> bool" where
  "held_bag managerId b \<longleftrightarrow> cb_managerId b = managerId
     \<and> (cb_status b = PENDING_DEPOSIT \<or> cb_status b = AWAITING_VERIFICATION)"

definition getCashStatusSnapshot :: "env \<Rightarrow> cash_db \<Rightarrow> uuid \<Rightarrow> cash_status_snapshot result" where
  "getCashStatusSnapshot env db managerId =
     (let to_t = now env; from_t = to_t - 90 * MS_PER_DAY; account = ''MANAGER_'' @ managerId;
          held = filter (held_bag managerId) (custodyBags db);
          manager = find_user db managerId
      in bindE (project db (Some from_t) (Some to_t)) (\<lambda>entries.
         bindE (getDriverBalances db) (\<lambda>allDrivers.
           let pendingDeposit = (case aggregateAccounts (filter (\<lambda>e. le_accountId e = account) entries) of
                 [] \<Rightarrow> 0 | a # _ \<Rightarrow> ab_balance a);
               custodyBagsTotal = (\<Sum>b\<leftarrow>held. cb_amountKd b);
               branch = (case manager of None \<Rightarrow> None | Some u \<Rightarrow> us_branchId u);
               branchDrivers = (if truthy branch then filter (\<lambda>d. db_branchId d = branch) allDrivers else allDrivers);
               atRisk = sort_key (\<lambda>d. (- riskRank (dr_riskLevel d), - kd_value (dr_heldCashKd d)))
                 (map (driver_risk to_t) (filter (\<lambda>d. kd_value (db_heldCashTotal d) > 0) branchDrivers));
               driverAccounts = map (\<lambda>d. ''DRIVER_'' @ db_driverId d) branchDrivers;
               relevant = filter (\<lambda>e. le_accountId e = account \<or> le_accountId e \<in> set driverAccounts) entries;
               recent = map activity_of (take 10 (dedup_tx [] (sort_key (\<lambda>e. - le_createdAt e) relevant)))
           in Inr \<lparr>st_managerId = managerId, st_managerName = (case manager of None \<Rightarrow> [] | Some u \<Rightarrow> us_fullName u),
                st_pendingDepositKd = pendingDeposit, st_managerOwnPosKd = dec4 (pendingDeposit - dec4 custodyBagsTotal),
                st_custodyBagsTotalKd = dec4 custodyBagsTotal,
                st_driversAwaitingHandoverKd = dec4 (\<Sum>d\<leftarrow>atRisk. kd_value (dr_heldCashKd d)),
                st_bagsCount = length held, st_driversAtRiskCount = length atRisk,
                st_lastHandoverAt = (if held = [] then None else Some (Max (set (map cb_receivedFromDriverAt held)))),
                st_lastActivityAt = (case recent of [] \<Rightarrow> None | a # _ \<Rightarrow> Some (ae_at a)),
                st_drivers = atRisk, st_recentActivity = recent\<rparr>)))"

subsection \<open>The reports agree\<close>

definition minor_of :: "decimal \<Rightarrow> int" where
  "minor_of x = half_up (x * 10000)"

lemma parse_fixed4 [simp]: "parseFixed4ToMinor (to_fixed4 x) = Inr (minor_of x)"
  using toMinorFromFixed4_eq [of x] unfolding toMinorFromFixed4_def minor_of_def .

lemma minors_toRow: "minors (map (toRow env db) bs) = Inr (map (\<lambda>b. minor_of (cb_amountKd b)) bs)"
proof -
  have "minors (map (toRow env db) bs) = Inr (map (\<lambda>r. minor_of (kd r)) bs)"
    if "\<And>b. b \<in> set bs \<Longrightarrow> cr_amountKd (toRow env db b) = to_fixed4 (kd b)" for kd
    using that unfolding minors_def by (induction bs) auto
  then show ?thesis by (simp add: toRow_def Let_def)
qed

lemma filter_rows:
  "filter (\<lambda>r. P (cr_status r)) (map (toRow env db) bs) = map (toRow env db) (filter (\<lambda>b. P (cb_status b)) bs)"
  "filter cr_isOverdue (map (toRow env db) bs) = map (toRow env db) (filter (\<lambda>b. cb_status b \<noteq> VERIFIED
     \<and> now env - cb_receivedFromDriverAt b \<ge> CUSTODY_OVERDUE_MS) bs)"
  by (induction bs) (auto simp: toRow_def Let_def)

lemma length_sort_filter: "length (filter P (sort_key k xs)) = length (filter P xs)"
  using sum_sort_key_filter [where f = "\<lambda>_. 1 :: nat" and P = P and k = k and xs = xs] by (simp add: sum_list_triv)

lemma stream_metrics_Inr:
  "\<exists>sm. getStreamMetrics env db = Inr sm
     \<and> sm_fleetOverdueCount sm = length (filter (\<lambda>b. now env - cb_receivedFromDriverAt b \<ge> CUSTODY_OVERDUE_MS)
         (filter open_bag (custodyBags db)))
     \<and> sm_fleetOverdueAmountKd sm = minorToAmountString (\<Sum>b\<leftarrow>filter (\<lambda>b. now env - cb_receivedFromDriverAt b
         \<ge> CUSTODY_OVERDUE_MS) (filter open_bag (custodyBags db)). minor_of (cb_amountKd b))
     \<and> sm_fleetPendingAmountKd sm = minorToAmountString (\<Sum>b\<leftarrow>filter open_bag (custodyBags db). minor_of (cb_amountKd b))"
proof -
  have bags: "mapE bag_minor bs = Inr (map (\<lambda>b. minor_of (cb_amountKd b)) bs)" for bs
    by (rule mapE_total) (simp add: bag_minor_def)
  let ?rows = "filter open_bag (custodyBags db)"
  have "\<exists>ys. mapE (\<lambda>m. bindE (mapE bag_minor (filter (\<lambda>b. cb_managerId b = m) ?rows))
      (\<lambda>ms. Inr (m, length (filter (\<lambda>b. cb_managerId b = m) ?rows), minorToAmountString (sum_list ms))))
      (first_seen (map cb_managerId ?rows)) = Inr ys"
    by (rule exI, rule mapE_total) (simp only: bags bindE.simps)
  then obtain ys where ys: "mapE (\<lambda>m. bindE (mapE bag_minor (filter (\<lambda>b. cb_managerId b = m) ?rows))
      (\<lambda>ms. Inr (m, length (filter (\<lambda>b. cb_managerId b = m) ?rows), minorToAmountString (sum_list ms))))
      (first_seen (map cb_managerId ?rows)) = Inr ys" ..
  show ?thesis
    unfolding getStreamMetrics_def Let_def unfolding ys unfolding bags bindE.simps
    by (rule exI, rule conjI, rule refl) simp
qed

lemma summarise_sel:
  assumes "minors rs = Inr ms" "minors (filter (\<lambda>r. cr_status r \<noteq> VERIFIED) rs) = Inr ps"
    "minors (filter cr_isOverdue rs) = Inr os"
  shows "\<exists>s. summarise rs = Inr s \<and> ag_overdueCount s = length (filter cr_isOverdue rs)
    \<and> ag_totalOverdueKd s = minorToAmountString (sum_list os) \<and> ag_totalPendingKd s = minorToAmountString (sum_list ps)
    \<and> ag_FRESH s + ag_WARNING_12H s + ag_OVERDUE_24H s = length rs"
proof -
  have "length (filter (\<lambda>r. \<not> cr_isOverdue r \<and> \<not> cr_ageHours r \<ge> 12) rs)
      + length (filter (\<lambda>r. \<not> cr_isOverdue r \<and> cr_ageHours r \<ge> 12) rs) + length (filter cr_isOverdue rs) = length rs"
    by (induction rs) auto
  then show ?thesis
    unfolding summarise_def assms bindE.simps by - (intro exI conjI, rule refl, simp_all)
qed

text \<open>
  the stream metrics and the aging report of the custody bags describe the same bags: both
  always return, and as long as the report is not cut off at 500 rows they agree on the number
  of overdue bags, on their amount and on the whole amount that is not yet verified; the
  buckets of the report count every row once.
\<close>

theorem stream_agrees_with_aging:
  assumes "length (filter open_bag (custodyBags db)) \<le> 500"
  shows "\<exists>sm rows s. getStreamMetrics env db = Inr sm \<and> listAging env db no_query = Inr (rows, s)
    \<and> sm_fleetOverdueCount sm = ag_overdueCount s \<and> sm_fleetOverdueAmountKd sm = ag_totalOverdueKd s
    \<and> sm_fleetPendingAmountKd sm = ag_totalPendingKd s
    \<and> ag_FRESH s + ag_WARNING_12H s + ag_OVERDUE_24H s = length rows"
proof -
  let ?open = "filter open_bag (custodyBags db)"
  let ?bs = "sort_key cb_receivedFromDriverAt ?open"
  have matches: "aging_matches no_query = open_bag"
    by (auto simp: fun_eq_iff aging_matches_def no_query_def truthy_def)
  have rows: "aging_rows env db no_query = map (toRow env db) ?bs"
    using assms by (simp add: aging_rows_def matches)
  have unverified: "filter (\<lambda>b. cb_status b \<noteq> VERIFIED) ?bs = ?bs"
    by (auto simp: filter_id_conv open_bag_def)
  have overdue: "filter (\<lambda>b. cb_status b \<noteq> VERIFIED \<and> now env - cb_receivedFromDriverAt b \<ge> CUSTODY_OVERDUE_MS) ?bs
      = filter (\<lambda>b. now env - cb_receivedFromDriverAt b \<ge> CUSTODY_OVERDUE_MS) ?bs"
    by (rule filter_cong) (auto simp: open_bag_def)
  obtain s where s: "summarise (aging_rows env db no_query) = Inr s"
    "ag_overdueCount s = length (filter (\<lambda>b. now env - cb_receivedFromDriverAt b \<ge> CUSTODY_OVERDUE_MS) ?bs)"
    "ag_totalOverdueKd s = minorToAmountString (\<Sum>b\<leftarrow>filter (\<lambda>b. now env - cb_receivedFromDriverAt b
       \<ge> CUSTODY_OVERDUE_MS) ?bs. minor_of (cb_amountKd b))"
    "ag_totalPendingKd s = minorToAmountString (\<Sum>b\<leftarrow>?bs. minor_of (cb_amountKd b))"
    "ag_FRESH s + ag_WARNING_12H s + ag_OVERDUE_24H s = length ?bs"
  proof -
    have pend: "filter (\<lambda>r. cr_status r \<noteq> VERIFIED) (map (toRow env db) ?bs) = map (toRow env db) ?bs"
      unfolding filter_rows(1) [where P = "\<lambda>st. st \<noteq> VERIFIED"] unverified ..
    have od: "filter cr_isOverdue (map (toRow env db) ?bs)
        = map (toRow env db) (filter (\<lambda>b. now env - cb_receivedFromDriverAt b \<ge> CUSTODY_OVERDUE_MS) ?bs)"
      unfolding filter_rows(2) overdue ..
    show thesis
      using summarise_sel [of "map (toRow env db) ?bs", unfolded pend od, OF minors_toRow minors_toRow minors_toRow]
      unfolding length_map by (blast intro: that [unfolded rows])
  qed
  have "(\<Sum>b\<leftarrow>?bs. minor_of (cb_amountKd b)) = (\<Sum>b\<leftarrow>?open. minor_of (cb_amountKd b))"
    by (rule sum_sort_key)
  then show ?thesis
    using stream_metrics_Inr [of env db] s
    by (auto simp: listAging_def sum_sort_key_filter length_sort_filter rows)
qed

theorem stream_agrees_with_aging_witness:
  "\<exists>sm rows s. getStreamMetrics example_env example_cash_db = Inr sm
    \<and> listAging example_env example_cash_db no_query = Inr (rows, s) \<and> sm_fleetOverdueCount sm = ag_overdueCount s"
proof -
  have "length (filter open_bag (custodyBags example_cash_db)) \<le> 500"
    by (simp add: example_cash_db_def)
  from stream_agrees_with_aging [OF this, of example_env] show ?thesis by blast
qed

lemma sum_split: "(\<Sum>x\<leftarrow>xs. f x) = (\<Sum>x\<leftarrow>filter Q xs. f x) + (\<Sum>x\<leftarrow>filter (\<lambda>x. \<not> Q x) xs. f x)" for f :: "'a \<Rightarrow> decimal"
  by (induction xs) auto

lemma total_splits:
  "driver_total ds = driver_total (filter Q ds) + driver_total (filter (\<lambda>x. \<not> Q x) ds)"
  "manager_total ms = manager_total (filter R ms) + manager_total (filter (\<lambda>x. \<not> R x) ms)"
  unfolding driver_total_def manager_total_def
  using sum_split [where xs = ds and Q = Q] sum_split [where xs = ms and Q = R] by (simp_all add: algebra_simps)

text \<open>
  The status filter of the staff debts splits them: with the same branch, name and employee
  filters, what is shown as overdue and what is shown as current are together what is shown
  without the filter, in numbers and in dinars, and the overdue counter of the whole is the
  number of the rows shown as overdue.
\<close>

theorem staff_debts_partition:
  fixes q :: staff_query and collate :: "string \<Rightarrow> int" and k :: timestamp
    and balances :: "driver_balance list" and aging :: "custody_row list"
  defines "view \<equiv> (\<lambda>st. staff_projection collate k (q\<lparr>sq_status := st\<rparr>) balances aging)"
  shows "driver_total (sd_drivers (view SF_ALL)) = driver_total (sd_drivers (view SF_OVERDUE)) + driver_total (sd_drivers (view SF_CURRENT))
    \<and> manager_total (sd_managers (view SF_ALL)) = manager_total (sd_managers (view SF_OVERDUE)) + manager_total (sd_managers (view SF_CURRENT))
    \<and> length (sd_drivers (view SF_ALL)) = length (sd_drivers (view SF_OVERDUE)) + length (sd_drivers (view SF_CURRENT))
    \<and> sd_totalOverdueCount (view SF_ALL) = length (sd_drivers (view SF_OVERDUE)) + length (sd_managers (view SF_OVERDUE))
    \<and> sd_totalOverdueCount (view SF_CURRENT) = 0"
proof -
  have passes: "person_passes (q\<lparr>sq_status := st\<rparr>) = person_passes q" for st
    by (simp add: fun_eq_iff person_passes_def)
  let ?D = "sd_drivers (view SF_ALL)" and ?M = "sd_managers (view SF_ALL)"
  let ?late = "\<lambda>d. isStaffDebtDriverOverdue d k"
  have parts: "sd_drivers (view SF_OVERDUE) = filter ?late ?D" "sd_drivers (view SF_CURRENT) = filter (\<lambda>d. \<not> ?late d) ?D"
    "sd_managers (view SF_OVERDUE) = filter cr_isOverdue ?M" "sd_managers (view SF_CURRENT) = filter (\<lambda>r. \<not> cr_isOverdue r) ?M"
    unfolding view_def by (auto simp: staff_projection_def Let_def passes status_passes_def intro: filter_cong)
  have counts: "sd_totalOverdueCount (view st) = length (filter ?late (sd_drivers (view st)))
      + length (filter cr_isOverdue (sd_managers (view st)))" for st
    unfolding view_def by (simp add: staff_projection_def Let_def)
  show ?thesis
    unfolding parts counts
    using total_splits(1) [of ?D ?late] total_splits(2) [of ?M cr_isOverdue]
    by (simp add: sum_length_filter_compl)
qed

subsection \<open>A rejected bag\<close>

text \<open>The projection and the balances of the drivers do not read what a rejection changes.\<close>

lemma rejection_unseen:
  fixes env :: env and a :: uuid and reason :: string
  assumes "find_bag db i = Some bag" "cb_status bag = AWAITING_VERIFICATION" "bag_ids_ok db"
  defines "db' \<equiv> snd (rejectCustody env db i a reason)"
  shows "project_entries db' f t = project_entries db f t" and "getDriverBalances db' = getDriverBalances db"
    and "users db' = users db"
    and "custodyBags db' = update_row cb_id i (\<lambda>b. b\<lparr>cb_status := REJECTED, cb_rejectedByAccountantId := Some a,
          cb_rejectedAt := Some (now env), cb_rejectionReason := Some (js_trim reason)\<rparr>) (custodyBags db)"
proof -
  let ?f = "\<lambda>b. b\<lparr>cb_status := REJECTED, cb_rejectedByAccountantId := Some a,
          cb_rejectedAt := Some (now env), cb_rejectionReason := Some (js_trim reason)\<rparr>"
  have eq: "custodyBags db' = update_row cb_id i ?f (custodyBags db)" "users db' = users db"
    "cashOrders db' = cashOrders db" "shifts db' = shifts db" "glEntries db' = glEntries db"
    "branchExpenses db' = branchExpenses db"
    using assms(1,2) by (simp_all add: db'_def rejectCustody_def requireBag_def Let_def table_simps update_bag_def)
  have only: "b = bag" if "b \<in> set (custodyBags db)" "cb_id b = i" for b
    using find_row_distinct [of cb_id "custodyBags db" b] assms(1,3) that by (simp add: bag_ids_ok_def)
  show "users db' = users db" "custodyBags db' = update_row cb_id i ?f (custodyBags db)" by (fact eq)+
  let ?g = "\<lambda>b. if cb_id b = i then ?f b else b"
  have hand: "handover_rows db' f t = map ?g (handover_rows db f t)"
    unfolding handover_rows_def eq(1) update_row_def filter_map
    by (subst sort_key_map) (auto simp: comp_def intro!: arg_cong [where f = "map _"] arg_cong [where f = "sort_key _"] filter_cong)
  have ver: "verified_rows db' f t = verified_rows db f t"
  proof -
    have "filter (verified_in f t) (map ?g bs) = filter (verified_in f t) bs" if "set bs \<subseteq> set (custodyBags db)" for bs
      using that only assms(2) by (induction bs) (auto simp: verified_in_def)
    then show ?thesis by (simp add: verified_rows_def eq(1) update_row_def)
  qed
  have same: "concat (map handover_entries (map ?g bs)) = concat (map handover_entries bs)" for bs
    by (induction bs) (auto simp: handover_entries_def)
  have roles: "role_of db' = role_of db" by (simp add: fun_eq_iff role_of_def eq)
  have accounts: "pos_account db' = pos_account db" "expense_account db' = expense_account db"
    unfolding fun_eq_iff pos_account_def expense_account_def find_expense_def roles eq by simp_all
  show "project_entries db' f t = project_entries db f t"
    by (simp only: project_entries_def hand ver same accounts pos_rows_def pos_entries_def all_expense_entries_def expense_rows_def
        expense_entries_def eq cong: map_cong)
  show "getDriverBalances db' = getDriverBalances db"
    unfolding getDriverBalances_def driver_balance_row_def open_shift_def eq ..
qed

lemma sum_update_leaves:
  assumes "distinct (map cb_id bs)" and "bag \<in> set bs" and "P bag" and "\<not> P (f bag)"
  shows "(\<Sum>b\<leftarrow>filter P (update_row cb_id (cb_id bag) f bs). cb_amountKd b) = (\<Sum>b\<leftarrow>filter P bs. cb_amountKd b) - cb_amountKd bag"
  using assms(1,2)
proof (induction bs)
  case (Cons b bs)
  have rest: "update_row cb_id (cb_id bag) f bs = bs" if "cb_id bag \<notin> cb_id ` set bs"
    unfolding update_row_def using that by (intro map_idI) (metis imageI)
  show ?case
  proof (cases "b = bag")
    case True
    then show ?thesis using Cons.prems rest assms(3,4) by (auto simp: update_row_def)
  next
    case False
    then have "cb_id b \<noteq> cb_id bag" using Cons.prems by auto
    then show ?thesis using Cons False by (auto simp: update_row_def)
  qed
qed simp

lemma balances_total: "\<exists>bs. getDriverBalances db = Inr bs"
proof -
  have "\<exists>r. driver_balance_row db d = Inr r" for d
    by (simp add: driver_balance_row_def sumOrderMinors_eq Let_def)
  then obtain g where "driver_balance_row db d = Inr (g d)" for d by metis
  then show ?thesis unfolding getDriverBalances_def by (blast intro: mapE_total)
qed

text \<open>What the projection says the manager owes.\<close>

definition manager_owes :: "ledger_entry list \<Rightarrow> uuid \<Rightarrow> decimal" where
  "manager_owes entries m = (case aggregateAccounts (filter (\<lambda>e. le_accountId e = ''MANAGER_'' @ m) entries) of
     [] \<Rightarrow> 0 | a # _ \<Rightarrow> ab_balance a)"

lemma manager_owes_fixed4: "fixed4 (manager_owes entries m)"
proof -
  have all: "x \<in> set (aggregateAccounts es) \<Longrightarrow> fixed4 (ab_balance x)" for x es
    by (auto simp: aggregateAccounts_def Let_def)
  show ?thesis
    using all [of _ "filter (\<lambda>e. le_accountId e = ''MANAGER_'' @ m) entries"] unfolding manager_owes_def
    by (cases "aggregateAccounts (filter (\<lambda>e. le_accountId e = ''MANAGER_'' @ m) entries)") auto
qed

lemma snapshot_sel:
  assumes "project db (Some (now e - 90 * MS_PER_DAY)) (Some (now e)) = Inr entries" "getDriverBalances db = Inr bs"
  shows "\<exists>st. getCashStatusSnapshot e db m = Inr st \<and> st_pendingDepositKd st = manager_owes entries m
    \<and> st_custodyBagsTotalKd st = dec4 (\<Sum>b\<leftarrow>filter (held_bag m) (custodyBags db). cb_amountKd b)
    \<and> st_managerOwnPosKd st = dec4 (manager_owes entries m - dec4 (\<Sum>b\<leftarrow>filter (held_bag m) (custodyBags db). cb_amountKd b))"
  unfolding getCashStatusSnapshot_def Let_def assms bindE.simps manager_owes_def
  by (rule exI, rule conjI, rule refl) simp

text \<open>
  rejecting the deposit slip of a bag turns the bag into sales of the manager: the cash
  status always returns, before and after the rejection; what the manager still owes is
  unchanged, the bag leaves the total of the bags held, and its amount appears as cash of the
  manager's own point of sale.
\<close>

theorem rejection_becomes_own_cash:
  fixes env e :: env and a :: uuid and reason :: string
  assumes "find_bag db i = Some bag" and "cb_status bag = AWAITING_VERIFICATION" and "bag_ids_ok db"
    and "\<forall>b\<in>set (custodyBags db). fixed4 (cb_amountKd b)"
  shows "\<exists>st st'. getCashStatusSnapshot e db (cb_managerId bag) = Inr st
    \<and> getCashStatusSnapshot e (snd (rejectCustody env db i a reason)) (cb_managerId bag) = Inr st'
    \<and> st_pendingDepositKd st' = st_pendingDepositKd st
    \<and> st_custodyBagsTotalKd st' = st_custodyBagsTotalKd st - cb_amountKd bag
    \<and> st_managerOwnPosKd st' = st_managerOwnPosKd st + cb_amountKd bag"
proof -
  define db' where "db' = snd (rejectCustody env db i a reason)"
  note same = rejection_unseen [OF assms(1-3), of env a reason, folded db'_def]
  let ?m = "cb_managerId bag"
  let ?held = "\<lambda>db. (\<Sum>b\<leftarrow>filter (held_bag ?m) (custodyBags db). cb_amountKd b)"
  have bag: "bag \<in> set (custodyBags db)" "cb_id bag = i" using find_row_id [OF assms(1)] by auto
  have total: "?held db' = ?held db - cb_amountKd bag"
    unfolding same(4) bag(2) [symmetric]
    by (rule sum_update_leaves) (use assms(2,3) bag in \<open>auto simp: bag_ids_ok_def held_bag_def\<close>)
  have f: "fixed4 (?held db)" by (rule fixed4_sum) (use assms(4) in \<open>auto simp: list_all_iff\<close>)
  have f': "fixed4 (?held db - cb_amountKd bag)" using f assms(4) bag by (blast intro: fixed4_arith)
  have proj: "project db' x y = project db x y" for x y by (simp add: project_def same(1) split: option.split)
  obtain entries where entries: "project db (Some (now e - 90 * MS_PER_DAY)) (Some (now e)) = Inr entries"
    by (simp add: project_def)
  obtain bs where bs: "getDriverBalances db = Inr bs" using balances_total by blast
  obtain st where st: "getCashStatusSnapshot e db ?m = Inr st" "st_pendingDepositKd st = manager_owes entries ?m"
    "st_custodyBagsTotalKd st = dec4 (?held db)"
    "st_managerOwnPosKd st = dec4 (manager_owes entries ?m - dec4 (?held db))"
    using snapshot_sel [OF entries bs] by blast
  obtain st' where st': "getCashStatusSnapshot e db' ?m = Inr st'" "st_pendingDepositKd st' = manager_owes entries ?m"
    "st_custodyBagsTotalKd st' = dec4 (?held db')"
    "st_managerOwnPosKd st' = dec4 (manager_owes entries ?m - dec4 (?held db'))"
    using snapshot_sel [of db' e entries bs] proj entries bs same(2) by metis
  have owes: "fixed4 (manager_owes entries ?m - ?held db)" "fixed4 (manager_owes entries ?m - (?held db - cb_amountKd bag))"
    using f f' manager_owes_fixed4 by (blast intro: fixed4_arith)+
  show ?thesis
    using st st' owes f f' unfolding db'_def [symmetric] total by auto
qed

theorem rejection_becomes_own_cash_witness:
  "\<exists>st st'. getCashStatusSnapshot example_env example_cash_db ''m1'' = Inr st
    \<and> getCashStatusSnapshot example_env (snd (rejectCustody example_env example_cash_db ''b1'' ''a1'' ''wrong amount'')) ''m1''
        = Inr st'
    \<and> st_managerOwnPosKd st' = st_managerOwnPosKd st + 20"
proof -
  have "find_bag example_cash_db ''b1'' = Some example_bag" by code_simp
  moreover have "cb_status example_bag = AWAITING_VERIFICATION" "cb_managerId example_bag = ''m1''"
    "cb_amountKd example_bag = 20" by (simp_all add: example_bag_def)
  moreover have "\<forall>b\<in>set (custodyBags example_cash_db). fixed4 (cb_amountKd b)"
    by (simp add: example_cash_db_def example_bag_def fixed4_def)
  ultimately show ?thesis
    using rejection_becomes_own_cash [OF _ _ example_bags_ok(1), of "''b1''" example_bag example_env example_env "''a1''" "''wrong amount''"]
    by auto
qed

end
