(* ===== verification/Inventory.thy ===== *)
theory Inventory
  imports Workflow Money Clock Journal_Store "HOL-Library.List_Lexorder" "HOL-Library.Char_ord" "HOL-Library.Product_Lexorder"
begin

text \<open>
  \<open>src/inventory/inventory.service.ts\<close>: suppliers, categories and items, the stock of the
  branches and the movements that change it. Quantities and unit costs have at most four
  decimals (the DTOs check it); an average or a total cost is rounded by its column:
  \<open>dec4\<close>. A transaction is a function into \<open>result\<close> that returns the new tables; \<open>commit\<close>
  keeps the old ones when it throws. A create statement whose identifier or unique column is
  taken throws P2002. \<open>localeCompare\<close> is the order of the bytes.
\<close>

subsection \<open>Tables\<close>

datatype movement_type = STOCK_IN | STOCK_OUT | ADJUSTMENT | TRANSFER_OUT | TRANSFER_IN
datatype inventory_status = IN_STOCK | LOW_STOCK | OUT_OF_STOCK

record supplier =
  su_id :: uuid
  su_name :: string
  su_phone :: "string option"
  su_address :: "string option"
  su_isActive :: bool
  su_createdAt :: timestamp

record inventory_category =
  ic_id :: uuid
  ic_code :: string
  ic_nameAr :: string
  ic_nameEn :: "string option"
  ic_sortOrder :: int

record stock_item =
  si_id :: uuid
  si_code :: string
  si_nameAr :: string
  si_nameEn :: "string option"
  si_unit :: string
  si_categoryId :: "uuid option"
  si_reorderPointDefault :: decimal
  si_lastUnitCost :: "decimal option"
  si_isActive :: bool

record stock_level =
  sl_id :: uuid
  sl_branchId :: uuid
  sl_stockItemId :: uuid
  sl_quantityOnHand :: decimal
  sl_reorderPoint :: "decimal option"
  sl_avgUnitCost :: "decimal option"
  sl_lastMovementAt :: "timestamp option"

record stock_movement =
  sm_id :: uuid
  sm_stockItemId :: uuid
  sm_branchId :: uuid
  sm_type :: movement_type
  sm_quantity :: decimal
  sm_unitCost :: "decimal option"
  sm_totalCost :: "decimal option"
  sm_supplierId :: "uuid option"
  sm_recordedById :: uuid
  sm_reference :: "string option"
  sm_note :: "string option"
  sm_receiptUrl :: "string option"
  sm_createdAt :: timestamp

record order_line =
  ol_id :: uuid
  ol_orderId :: uuid
  ol_label :: "string option"
  ol_quantity :: decimal
  ol_stockItemId :: "uuid option"

record branch_row =
  br_id :: uuid
  br_name :: string

record stock_db =
  suppliers :: "supplier list"
  inventoryCategories :: "inventory_category list"
  stockItems :: "stock_item list"
  stockLevels :: "stock_level list"
  stockMovements :: "stock_movement list"
  stockBranches :: "branch_row list"
  orderLines :: "order_line list"

definition commit :: "'d \<Rightarrow> ('a \<times> 'd) result \<Rightarrow> 'a result \<times> 'd" where
  "commit db r = (case r of Inl e \<Rightarrow> (Inl e, db) | Inr (x, db') \<Rightarrow> (Inr x, db'))"

text \<open>JavaScript's truth of an optional string, and \<open>s?.trim() || d\<close>.\<close>

definition str_truthy :: "string option \<Rightarrow> bool" where
  "str_truthy s \<longleftrightarrow> nullish s [] \<noteq> []"

definition trimmed :: "string option \<Rightarrow> string option" where
  "trimmed s = (let t = js_trim (nullish s []) in if t = [] then None else Some t)"

definition unique_violation :: error where
  "unique_violation = KnownRequestError ''P2002'' ''Unique constraint failed''"

subsection \<open>Suppliers, categories, items\<close>

definition deriveStatus :: "decimal \<Rightarrow> decimal \<Rightarrow> inventory_status" where
  "deriveStatus qty reorder = (if qty \<le> 0 then OUT_OF_STOCK else if qty \<le> reorder then LOW_STOCK else IN_STOCK)"

definition listSuppliers :: "stock_db \<Rightarrow> supplier list" where
  "listSuppliers db = sort_key su_name (suppliers db)"

record create_supplier =
  cs_name :: string
  cs_phone :: "string option"
  cs_address :: "string option"
  cs_isActive :: "bool option"

definition add_supplier :: "env \<Rightarrow> string \<Rightarrow> string option \<Rightarrow> string option \<Rightarrow> bool \<Rightarrow> stock_db \<Rightarrow> (supplier \<times> stock_db) result" where
  "add_supplier env name phone address active db =
     (let i = new_uuid env (length (suppliers db));
          row = \<lparr>su_id = i, su_name = name, su_phone = phone, su_address = address, su_isActive = active,
            su_createdAt = now env\<rparr>
      in if i \<in> su_id ` set (suppliers db) then Inl unique_violation
         else Inr (row, db\<lparr>suppliers := suppliers db @ [row]\<rparr>))"

definition createSupplier :: "env \<Rightarrow> stock_db \<Rightarrow> create_supplier \<Rightarrow> supplier result \<times> stock_db" where
  "createSupplier env db dto = commit db (add_supplier env (js_trim (cs_name dto)) (trimmed (cs_phone dto))
     (trimmed (cs_address dto)) (nullish (cs_isActive dto) True) db)"

definition listCategories :: "stock_db \<Rightarrow> inventory_category list" where
  "listCategories db = sort_key ic_sortOrder (inventoryCategories db)"

record create_category =
  cc_code :: string
  cc_nameAr :: string
  cc_nameEn :: "string option"
  cc_sortOrder :: "int option"

definition createCategory :: "env \<Rightarrow> stock_db \<Rightarrow> create_category \<Rightarrow> inventory_category result \<times> stock_db" where
  "createCategory env db dto =
     (let i = new_uuid env (length (inventoryCategories db));
          row = \<lparr>ic_id = i, ic_code = js_trim (cc_code dto), ic_nameAr = js_trim (cc_nameAr dto),
            ic_nameEn = trimmed (cc_nameEn dto), ic_sortOrder = nullish (cc_sortOrder dto) 0\<rparr>
      in commit db (if i \<in> ic_id ` set (inventoryCategories db) \<or> ic_code row \<in> ic_code ` set (inventoryCategories db)
           then Inl unique_violation
           else Inr (row, db\<lparr>inventoryCategories := inventoryCategories db @ [row]\<rparr>)))"

definition listItems :: "stock_db \<Rightarrow> stock_item list" where
  "listItems db = sort_key si_code (stockItems db)"

record create_item =
  ci_code :: string
  ci_nameAr :: string
  ci_nameEn :: "string option"
  ci_unit :: "string option"
  ci_categoryId :: "uuid option"
  ci_reorderPointDefault :: "decimal option"
  ci_isActive :: "bool option"

definition createItem :: "env \<Rightarrow> stock_db \<Rightarrow> create_item \<Rightarrow> stock_item result \<times> stock_db" where
  "createItem env db dto =
     (if str_truthy (ci_categoryId dto) \<and> find_row ic_id (inventoryCategories db) (nullish (ci_categoryId dto) []) = None
      then (Inl (NotFoundException ''Category not found''), db)
      else
        let i = new_uuid env (length (stockItems db));
            row = \<lparr>si_id = i, si_code = js_trim (ci_code dto), si_nameAr = js_trim (ci_nameAr dto),
              si_nameEn = trimmed (ci_nameEn dto), si_unit = nullish (trimmed (ci_unit dto)) ''pcs'',
              si_categoryId = ci_categoryId dto, si_reorderPointDefault = nullish (ci_reorderPointDefault dto) 0,
              si_lastUnitCost = None, si_isActive = nullish (ci_isActive dto) True\<rparr>
        in commit db (if i \<in> si_id ` set (stockItems db) \<or> si_code row \<in> si_code ` set (stockItems db)
             then Inl unique_violation else Inr (row, db\<lparr>stockItems := stockItems db @ [row]\<rparr>)))"

subsection \<open>Levels and movements\<close>

abbreviation find_item :: "stock_db \<Rightarrow> uuid \<Rightarrow> stock_item option" where
  "find_item db \<equiv> find_row si_id (stockItems db)"

abbreviation find_branch :: "stock_db \<Rightarrow> uuid \<Rightarrow> branch_row option" where
  "find_branch db \<equiv> find_row br_id (stockBranches db)"

definition at_key :: "uuid \<Rightarrow> uuid \<Rightarrow> stock_level \<Rightarrow> bool" where
  "at_key branchId stockItemId l \<longleftrightarrow> sl_branchId l = branchId \<and> sl_stockItemId l = stockItemId"

text \<open>\<open>findUnique({ where: { branchId_stockItemId } })\<close>\<close>

definition find_level :: "stock_db \<Rightarrow> uuid \<Rightarrow> uuid \<Rightarrow> stock_level option" where
  "find_level db branchId stockItemId = find (at_key branchId stockItemId) (stockLevels db)"

definition create_level :: "env \<Rightarrow> uuid \<Rightarrow> uuid \<Rightarrow> decimal \<Rightarrow> decimal option \<Rightarrow> timestamp option \<Rightarrow> stock_db \<Rightarrow>
    (stock_level \<times> stock_db) result" where
  "create_level env branchId stockItemId qty avg moved db =
     (let i = new_uuid env (length (stockLevels db));
          l = \<lparr>sl_id = i, sl_branchId = branchId, sl_stockItemId = stockItemId, sl_quantityOnHand = qty,
            sl_reorderPoint = None, sl_avgUnitCost = avg, sl_lastMovementAt = moved\<rparr>
      in if i \<in> sl_id ` set (stockLevels db) \<or> (\<exists>x\<in>set (stockLevels db). at_key branchId stockItemId x)
         then Inl unique_violation else Inr (l, db\<lparr>stockLevels := stockLevels db @ [l]\<rparr>))"

definition update_level :: "uuid \<Rightarrow> (stock_level \<Rightarrow> stock_level) \<Rightarrow> stock_db \<Rightarrow> stock_db" where
  "update_level i f db = db\<lparr>stockLevels := update_row sl_id i f (stockLevels db)\<rparr>"

definition add_movement :: "(uuid \<Rightarrow> stock_movement) \<Rightarrow> env \<Rightarrow> stock_db \<Rightarrow> (stock_movement \<times> stock_db) result" where
  "add_movement m env db =
     (let i = new_uuid env (length (stockMovements db)) in
      if i \<in> sm_id ` set (stockMovements db) then Inl unique_violation
      else Inr (m i, db\<lparr>stockMovements := stockMovements db @ [m i]\<rparr>))"

definition ensureItemAndLevel :: "env \<Rightarrow> stock_db \<Rightarrow> uuid \<Rightarrow> uuid \<Rightarrow> ((stock_item \<times> stock_level) \<times> stock_db) result" where
  "ensureItemAndLevel env db stockItemId branchId =
     (case find_item db stockItemId of
        None \<Rightarrow> Inl (NotFoundException ''Stock item not found or inactive.'')
      | Some item \<Rightarrow>
          if \<not> si_isActive item then Inl (NotFoundException ''Stock item not found or inactive.'')
          else if find_branch db branchId = None then Inl (NotFoundException ''Branch not found.'')
          else (case find_level db branchId stockItemId of
             Some l \<Rightarrow> Inr ((item, l), db)
           | None \<Rightarrow> bindE (create_level env branchId stockItemId 0 None None db) (\<lambda>(l, db1). Inr ((item, l), db1))))"

text \<open>\<open>level.avgUnitCost ?? item.lastUnitCost ?? null\<close>\<close>

definition unit_cost :: "stock_level \<Rightarrow> stock_item \<Rightarrow> decimal option" where
  "unit_cost l item = (case sl_avgUnitCost l of Some c \<Rightarrow> Some c | None \<Rightarrow> si_lastUnitCost item)"

definition total_cost :: "decimal \<Rightarrow> decimal option \<Rightarrow> decimal option" where
  "total_cost qty = map_option (\<lambda>c. dec4 (qty * c))"

record movement_result =
  mr_movement :: stock_movement
  mr_newQuantityOnHand :: decimal


definition set_quantity :: "env \<Rightarrow> stock_level \<Rightarrow> decimal \<Rightarrow> stock_db \<Rightarrow> stock_db" where
  "set_quantity env l qty = update_level (sl_id l)
     (\<lambda>x. x\<lparr>sl_quantityOnHand := qty, sl_lastMovementAt := Some (now env)\<rparr>)"

text \<open>\<open>Date.now().toString(36).toUpperCase()\<close>\<close>

definition digit36 :: "nat \<Rightarrow> char" where
  "digit36 d = (if d < 10 then digit_char d else char_of (55 + d))"

fun show36 :: "nat \<Rightarrow> string" where
  "show36 n = (if n < 36 then [digit36 n] else show36 (n div 36) @ [digit36 (n mod 36)])"

declare show36.simps [simp del]

definition generated_ref :: "string \<Rightarrow> env \<Rightarrow> string" where
  "generated_ref pre env = pre @ show36 (nat (now env))"

subsection \<open>Stock in\<close>

record stock_in =
  in_stockItemId :: uuid
  in_branchId :: uuid
  in_quantity :: decimal
  in_unitCost :: decimal
  in_supplierId :: "uuid option"
  in_supplierName :: "string option"
  in_reference :: "string option"
  in_note :: "string option"
  in_receiptUrl :: "string option"

definition resolve_supplier :: "env \<Rightarrow> stock_in \<Rightarrow> stock_db \<Rightarrow> (uuid option \<times> stock_db) result" where
  "resolve_supplier env dto db =
     (if \<not> str_truthy (in_supplierId dto) \<and> str_truthy (in_supplierName dto)
      then bindE (add_supplier env (js_trim (nullish (in_supplierName dto) [])) None None True db)
             (\<lambda>(s, db1). Inr (Some (su_id s), db1))
      else Inr (in_supplierId dto, db))"

text \<open>The moving average: the value on hand plus the value received, over the new quantity.\<close>

definition moving_average :: "decimal \<Rightarrow> decimal \<Rightarrow> decimal \<Rightarrow> decimal \<Rightarrow> decimal" where
  "moving_average prevAvg prevQty unitCost qty = (prevAvg * prevQty + unitCost * qty) / (prevQty + qty)"

definition receive_level :: "env \<Rightarrow> stock_in \<Rightarrow> stock_db \<Rightarrow> ((decimal \<times> decimal) \<times> stock_db) result" where
  "receive_level env dto db =
     (case find_level db (in_branchId dto) (in_stockItemId dto) of
        Some l \<Rightarrow>
          let prevQty = sl_quantityOnHand l; prevAvg = nullish (sl_avgUnitCost l) 0;
              newQty = prevQty + in_quantity dto;
              newAvg = (if newQty = 0 then in_unitCost dto
                else moving_average prevAvg prevQty (in_unitCost dto) (in_quantity dto))
          in Inr ((newQty, newAvg), update_level (sl_id l) (\<lambda>x. x\<lparr>sl_quantityOnHand := newQty,
               sl_avgUnitCost := Some (dec4 newAvg), sl_lastMovementAt := Some (now env)\<rparr>) db)
      | None \<Rightarrow> bindE (create_level env (in_branchId dto) (in_stockItemId dto) (in_quantity dto)
                 (Some (in_unitCost dto)) (Some (now env)) db)
                (\<lambda>(l, db1). Inr ((in_quantity dto, in_unitCost dto), db1)))"

record stock_in_result =
  ir_movement :: stock_movement
  ir_newQuantityOnHand :: decimal
  ir_newAvgUnitCost :: decimal

definition stockIn_tx :: "env \<Rightarrow> stock_in \<Rightarrow> uuid \<Rightarrow> stock_db \<Rightarrow> (stock_in_result \<times> stock_db) result" where
  "stockIn_tx env dto userId db =
     bindE (resolve_supplier env dto db) (\<lambda>(supplierId, db1).
     bindE (receive_level env dto db1) (\<lambda>((newQty, newAvg), db2).
       let db3 = db2\<lparr>stockItems := update_row si_id (in_stockItemId dto)
             (\<lambda>i. i\<lparr>si_lastUnitCost := Some (in_unitCost dto)\<rparr>) (stockItems db2)\<rparr>
       in if (case supplierId of None \<Rightarrow> False | Some s \<Rightarrow> s \<notin> su_id ` set (suppliers db3))
          then Inl (KnownRequestError ''P2003'' ''Foreign key constraint violated'')
          else bindE (add_movement (\<lambda>i. \<lparr>sm_id = i, sm_stockItemId = in_stockItemId dto,
             sm_branchId = in_branchId dto, sm_type = STOCK_IN, sm_quantity = in_quantity dto,
             sm_unitCost = Some (in_unitCost dto), sm_totalCost = total_cost (in_quantity dto) (Some (in_unitCost dto)),
             sm_supplierId = supplierId, sm_recordedById = userId, sm_reference = trimmed (in_reference dto),
             sm_note = trimmed (in_note dto), sm_receiptUrl = in_receiptUrl dto, sm_createdAt = now env\<rparr>) env db3)
             (\<lambda>(m, db4). Inr (\<lparr>ir_movement = m, ir_newQuantityOnHand = newQty, ir_newAvgUnitCost = newAvg\<rparr>, db4))))"

definition stockIn :: "env \<Rightarrow> stock_db \<Rightarrow> stock_in \<Rightarrow> uuid \<Rightarrow> stock_in_result result \<times> stock_db" where
  "stockIn env db dto userId =
     (case find_item db (in_stockItemId dto) of
        None \<Rightarrow> (Inl (NotFoundException ''Stock item not found or inactive''), db)
      | Some item \<Rightarrow>
          if \<not> si_isActive item then (Inl (NotFoundException ''Stock item not found or inactive''), db)
          else if find_branch db (in_branchId dto) = None then (Inl (NotFoundException ''Branch not found''), db)
          else if \<not> str_truthy (in_supplierId dto) \<and> trimmed (in_supplierName dto) = None
            then (Inl (BadRequestException ''Supplier required: supply either supplierId or supplierName.''), db)
          else commit db (stockIn_tx env dto userId db))"

subsection \<open>Stock out and adjustment\<close>

text \<open>
  Both read the level, compute the new quantity from what they read, write it and insert the
  movement. The reads and the writes are separate statements of the database transaction, so
  they are separate functions here: \<open>stockOut_read\<close> and \<open>stockOut_write\<close>.
\<close>

record stock_out =
  so_stockItemId :: uuid
  so_branchId :: uuid
  so_quantity :: decimal
  so_reference :: "string option"
  so_note :: "string option"

definition write_stock :: "env \<Rightarrow> stock_level \<Rightarrow> decimal \<Rightarrow> (uuid \<Rightarrow> stock_movement) \<Rightarrow> stock_db \<Rightarrow>
    (movement_result \<times> stock_db) result" where
  "write_stock env l newQty m db = bindE (add_movement m env (set_quantity env l newQty db)) (\<lambda>(row, db1).
     Inr (\<lparr>mr_movement = row, mr_newQuantityOnHand = newQty\<rparr>, db1))"

definition stockOut_read :: "env \<Rightarrow> stock_out \<Rightarrow> stock_db \<Rightarrow> ((stock_item \<times> stock_level) \<times> stock_db) result" where
  "stockOut_read env dto db =
     bindE (ensureItemAndLevel env db (so_stockItemId dto) (so_branchId dto)) (\<lambda>((item, l), db1).
       if sl_quantityOnHand l < so_quantity dto
       then Inl (BadRequestException (''Insufficient stock at branch. Available: '' @ to_fixed4 (sl_quantityOnHand l)
              @ '', requested: '' @ to_fixed4 (so_quantity dto) @ ''.''))
       else Inr ((item, l), db1))"

definition stockOut_write :: "env \<Rightarrow> stock_out \<Rightarrow> uuid \<Rightarrow> stock_item \<Rightarrow> stock_level \<Rightarrow> stock_db \<Rightarrow>
    (movement_result \<times> stock_db) result" where
  "stockOut_write env dto userId item l db =
     (let uc = unit_cost l item in
      write_stock env l (sl_quantityOnHand l - so_quantity dto) (\<lambda>i. \<lparr>sm_id = i, sm_stockItemId = so_stockItemId dto,
        sm_branchId = so_branchId dto, sm_type = STOCK_OUT, sm_quantity = - so_quantity dto, sm_unitCost = uc,
        sm_totalCost = map_option uminus (total_cost (so_quantity dto) uc), sm_supplierId = None,
        sm_recordedById = userId, sm_reference = trimmed (so_reference dto), sm_note = trimmed (so_note dto),
        sm_receiptUrl = None, sm_createdAt = now env\<rparr>) db)"

definition stockOut :: "env \<Rightarrow> stock_db \<Rightarrow> stock_out \<Rightarrow> uuid \<Rightarrow> movement_result result \<times> stock_db" where
  "stockOut env db dto userId = commit db (bindE (stockOut_read env dto db)
     (\<lambda>((item, l), db1). stockOut_write env dto userId item l db1))"

record stock_adjustment =
  ad_stockItemId :: uuid
  ad_branchId :: uuid
  ad_delta :: decimal
  ad_reason :: string
  ad_reference :: "string option"

definition adjust :: "env \<Rightarrow> stock_db \<Rightarrow> stock_adjustment \<Rightarrow> uuid \<Rightarrow> movement_result result \<times> stock_db" where
  "adjust env db dto userId =
     (if ad_delta dto = 0 then (Inl (BadRequestException ''delta must not be zero.''), db)
      else commit db (bindE (ensureItemAndLevel env db (ad_stockItemId dto) (ad_branchId dto)) (\<lambda>((item, l), db1).
        let newQty = sl_quantityOnHand l + ad_delta dto; uc = unit_cost l item in
        if newQty < 0
        then Inl (BadRequestException (''Adjustment would take stock below zero (current: ''
               @ to_fixed4 (sl_quantityOnHand l) @ '').''))
        else write_stock env l newQty (\<lambda>i. \<lparr>sm_id = i, sm_stockItemId = ad_stockItemId dto,
               sm_branchId = ad_branchId dto, sm_type = ADJUSTMENT, sm_quantity = ad_delta dto, sm_unitCost = uc,
               sm_totalCost = total_cost (ad_delta dto) uc, sm_supplierId = None, sm_recordedById = userId,
               sm_reference = trimmed (ad_reference dto), sm_note = Some (js_trim (ad_reason dto)),
               sm_receiptUrl = None, sm_createdAt = now env\<rparr>) db1)))"


subsection \<open>Transfer between branches\<close>

record stock_transfer =
  tr_stockItemId :: uuid
  tr_fromBranchId :: uuid
  tr_toBranchId :: uuid
  tr_quantity :: decimal
  tr_reference :: "string option"
  tr_note :: "string option"

record transfer_result =
  xr_reference :: string
  xr_out :: movement_result
  xr_in :: movement_result

definition transfer_movement :: "env \<Rightarrow> stock_transfer \<Rightarrow> uuid \<Rightarrow> string \<Rightarrow> movement_type \<Rightarrow> uuid \<Rightarrow> decimal \<Rightarrow>
    decimal option \<Rightarrow> decimal option \<Rightarrow> uuid \<Rightarrow> stock_movement" where
  "transfer_movement env dto userId ref type branch qty uc tc i = \<lparr>sm_id = i, sm_stockItemId = tr_stockItemId dto,
     sm_branchId = branch, sm_type = type, sm_quantity = qty, sm_unitCost = uc, sm_totalCost = tc,
     sm_supplierId = None, sm_recordedById = userId, sm_reference = Some ref, sm_note = trimmed (tr_note dto),
     sm_receiptUrl = None, sm_createdAt = now env\<rparr>"

text \<open>The destination: the level is created or re-averaged with the cost that arrives.\<close>

definition transfer_in_level :: "env \<Rightarrow> stock_transfer \<Rightarrow> decimal option \<Rightarrow> stock_db \<Rightarrow> (decimal \<times> stock_db) result" where
  "transfer_in_level env dto uc db =
     (case find_level db (tr_toBranchId dto) (tr_stockItemId dto) of
        Some l \<Rightarrow>
          let prevQty = sl_quantityOnHand l; prevAvg = nullish (sl_avgUnitCost l) 0;
              newToQty = prevQty + tr_quantity dto;
              newToAvg = (case uc of
                  Some c \<Rightarrow> if 0 < newToQty then Some (moving_average prevAvg prevQty c (tr_quantity dto)) else Some c
                | None \<Rightarrow> sl_avgUnitCost l)
          in Inr (newToQty, update_level (sl_id l) (\<lambda>x. x\<lparr>sl_quantityOnHand := newToQty,
               sl_avgUnitCost := map_option dec4 newToAvg, sl_lastMovementAt := Some (now env)\<rparr>) db)
      | None \<Rightarrow> bindE (create_level env (tr_toBranchId dto) (tr_stockItemId dto) (tr_quantity dto)
                 (map_option dec4 uc) (Some (now env)) db) (\<lambda>(l, db1). Inr (tr_quantity dto, db1)))"

definition transfer_tx :: "env \<Rightarrow> stock_transfer \<Rightarrow> uuid \<Rightarrow> stock_db \<Rightarrow> (transfer_result \<times> stock_db) result" where
  "transfer_tx env dto userId db =
     bindE (ensureItemAndLevel env db (tr_stockItemId dto) (tr_fromBranchId dto)) (\<lambda>((item, l), db1).
       if sl_quantityOnHand l < tr_quantity dto
       then Inl (BadRequestException (''Insufficient stock at source branch. Available: ''
              @ to_fixed4 (sl_quantityOnHand l) @ ''.''))
       else if find_branch db1 (tr_toBranchId dto) = None
       then Inl (NotFoundException ''Destination branch not found.'')
       else
         let uc = unit_cost l item; tc = total_cost (tr_quantity dto) uc;
             ref = nullish (trimmed (tr_reference dto)) (generated_ref ''TRF-'' env)
         in bindE (write_stock env l (sl_quantityOnHand l - tr_quantity dto)
              (transfer_movement env dto userId ref TRANSFER_OUT (tr_fromBranchId dto) (- tr_quantity dto)
                 uc (map_option uminus tc)) db1) (\<lambda>(out, db2).
            bindE (transfer_in_level env dto uc db2) (\<lambda>(newToQty, db3).
            bindE (add_movement (transfer_movement env dto userId ref TRANSFER_IN (tr_toBranchId dto)
                 (tr_quantity dto) uc tc) env db3) (\<lambda>(m, db4).
            Inr (\<lparr>xr_reference = ref, xr_out = out,
              xr_in = \<lparr>mr_movement = m, mr_newQuantityOnHand = newToQty\<rparr>\<rparr>, db4)))))"

definition transfer :: "env \<Rightarrow> stock_db \<Rightarrow> stock_transfer \<Rightarrow> uuid \<Rightarrow> transfer_result result \<times> stock_db" where
  "transfer env db dto userId =
     (if tr_fromBranchId dto = tr_toBranchId dto
      then (Inl (BadRequestException ''fromBranchId and toBranchId must differ.''), db)
      else commit db (transfer_tx env dto userId db))"

subsection \<open>Stocktake\<close>

record stocktake_line =
  tl_stockItemId :: uuid
  tl_countedQuantity :: decimal
  tl_note :: "string option"

record stocktake_dto =
  sd_branchId :: uuid
  sd_reference :: "string option"
  sd_note :: "string option"
  sd_lines :: "stocktake_line list"

record stocktake_row =
  st_stockItemId :: uuid
  st_counted :: decimal
  st_previous :: decimal
  st_delta :: decimal
  st_adjusted :: bool

record stocktake_result =
  sr_reference :: string
  sr_branchId :: uuid
  sr_totalLines :: nat
  sr_adjustedLines :: nat
  sr_results :: "stocktake_row list"

definition stocktake_note :: "stocktake_dto \<Rightarrow> stocktake_line \<Rightarrow> string" where
  "stocktake_note dto line = nullish (trimmed (tl_note line))
     (nullish (trimmed (sd_note dto)) ''Physical stocktake adjustment'')"

definition stocktake_line :: "env \<Rightarrow> stocktake_dto \<Rightarrow> uuid \<Rightarrow> string \<Rightarrow> stocktake_line \<Rightarrow> stock_db \<Rightarrow>
    (stocktake_row \<times> stock_db) result" where
  "stocktake_line env dto userId ref line db =
     bindE (ensureItemAndLevel env db (tl_stockItemId line) (sd_branchId dto)) (\<lambda>((item, l), db1).
       let counted = tl_countedQuantity line; delta = counted - sl_quantityOnHand l;
           row = \<lparr>st_stockItemId = tl_stockItemId line, st_counted = counted, st_previous = sl_quantityOnHand l,
             st_delta = delta, st_adjusted = (delta \<noteq> 0)\<rparr>;
           uc = unit_cost l item
       in if delta = 0 then Inr (row, db1)
          else bindE (write_stock env l counted (\<lambda>i. \<lparr>sm_id = i, sm_stockItemId = tl_stockItemId line,
             sm_branchId = sd_branchId dto, sm_type = ADJUSTMENT, sm_quantity = delta, sm_unitCost = uc,
             sm_totalCost = total_cost delta uc, sm_supplierId = None, sm_recordedById = userId,
             sm_reference = Some ref, sm_note = Some (stocktake_note dto line), sm_receiptUrl = None,
             sm_createdAt = now env\<rparr>) db1) (\<lambda>(m, db2). Inr (row, db2)))"

fun stocktake_lines :: "env \<Rightarrow> stocktake_dto \<Rightarrow> uuid \<Rightarrow> string \<Rightarrow> stocktake_line list \<Rightarrow> stock_db \<Rightarrow>
    (stocktake_row list \<times> stock_db) result" where
  "stocktake_lines env dto userId ref [] db = Inr ([], db)"
| "stocktake_lines env dto userId ref (line # lines) db =
     bindE (stocktake_line env dto userId ref line db) (\<lambda>(row, db1).
     bindE (stocktake_lines env dto userId ref lines db1) (\<lambda>(rows, db2). Inr (row # rows, db2)))"

definition stocktake :: "env \<Rightarrow> stock_db \<Rightarrow> stocktake_dto \<Rightarrow> uuid \<Rightarrow> stocktake_result result \<times> stock_db" where
  "stocktake env db dto userId =
     (let ref = nullish (trimmed (sd_reference dto)) (generated_ref ''COUNT-'' env) in
      commit db (if find_branch db (sd_branchId dto) = None then Inl (NotFoundException ''Branch not found.'')
        else bindE (stocktake_lines env dto userId ref (sd_lines dto) db) (\<lambda>(rows, db1).
          Inr (\<lparr>sr_reference = ref, sr_branchId = sd_branchId dto, sr_totalLines = length (sd_lines dto),
            sr_adjustedLines = length (filter st_adjusted rows), sr_results = rows\<rparr>, db1))))"

subsection \<open>Consumption by completed orders\<close>

record decrement_args =
  da_orderId :: uuid
  da_actorUserId :: uuid
  da_branchId :: "uuid option"
  da_reference :: "string option"

definition decrement_line :: "env \<Rightarrow> decrement_args \<Rightarrow> uuid \<Rightarrow> string \<Rightarrow> order_line \<Rightarrow> stock_db \<Rightarrow> (unit \<times> stock_db) result" where
  "decrement_line env args branchId ref line db =
     (case find_item db (nullish (ol_stockItemId line) []) of
        None \<Rightarrow> Inr ((), db)
      | Some item \<Rightarrow>
          bindE (case find_level db branchId (si_id item) of Some l \<Rightarrow> Inr (l, db)
             | None \<Rightarrow> create_level env branchId (si_id item) 0 None None db) (\<lambda>(l, db1).
          let uc = unit_cost l item in
          bindE (write_stock env l (sl_quantityOnHand l - ol_quantity line) (\<lambda>i. \<lparr>sm_id = i,
             sm_stockItemId = si_id item, sm_branchId = branchId, sm_type = STOCK_OUT,
             sm_quantity = - ol_quantity line, sm_unitCost = uc,
             sm_totalCost = map_option uminus (total_cost (ol_quantity line) uc), sm_supplierId = None,
             sm_recordedById = da_actorUserId args, sm_reference = Some ref,
             sm_note = Some (nullish (ol_label line) ''POS sale''), sm_receiptUrl = None,
             sm_createdAt = now env\<rparr>) db1) (\<lambda>(m, db2). Inr ((), db2))))"

fun decrement_lines :: "env \<Rightarrow> decrement_args \<Rightarrow> uuid \<Rightarrow> string \<Rightarrow> order_line list \<Rightarrow> stock_db \<Rightarrow> (unit \<times> stock_db) result" where
  "decrement_lines env args branchId ref [] db = Inr ((), db)"
| "decrement_lines env args branchId ref (line # lines) db =
     (if \<not> str_truthy (ol_stockItemId line) then decrement_lines env args branchId ref lines db
      else bindE (decrement_line env args branchId ref line db)
        (\<lambda>(_, db1). decrement_lines env args branchId ref lines db1))"

definition applyOrderStockDecrement :: "env \<Rightarrow> stock_db \<Rightarrow> decrement_args \<Rightarrow> (unit \<times> stock_db) result" where
  "applyOrderStockDecrement env db args =
     (let branchId = nullish (da_branchId args) [];
          lines = filter (\<lambda>l. ol_orderId l = da_orderId args \<and> ol_stockItemId l \<noteq> None) (orderLines db)
      in if \<not> str_truthy (da_branchId args) then Inr ((), db)
         else if lines = [] then Inr ((), db)
         else if find_branch db branchId = None then Inr ((), db)
         else decrement_lines env args branchId
           (nullish (trimmed (da_reference args)) (''ORDER-'' @ take 8 (da_orderId args))) lines db)"


subsection \<open>Reports\<close>

record inventory_query =
  iq_categoryId :: "uuid option"
  iq_branchId :: "uuid option"
  iq_status :: "inventory_status option"

record report_row =
  rr_level :: stock_level
  rr_item :: stock_item
  rr_category :: "inventory_category option"
  rr_branchName :: string
  rr_reorderPointEffective :: decimal
  rr_status :: inventory_status

record report_summary =
  rs_totalSkus :: nat
  rs_inStock :: nat
  rs_lowStock :: nat
  rs_outOfStock :: nat
  rs_inventoryValueKd :: decimal

definition effective_reorder :: "stock_level \<Rightarrow> stock_item \<Rightarrow> decimal" where
  "effective_reorder l item = nullish (sl_reorderPoint l) (si_reorderPointDefault item)"

text \<open>The join of the levels with their items and branches (both foreign keys are required).\<close>

definition joined_levels :: "stock_db \<Rightarrow> (stock_level \<times> stock_item \<times> branch_row) list" where
  "joined_levels db = concat (map (\<lambda>l. case (find_item db (sl_stockItemId l), find_branch db (sl_branchId l)) of
       (Some item, Some b) \<Rightarrow> [(l, item, b)] | _ \<Rightarrow> []) (stockLevels db))"

definition report_row_of :: "stock_db \<Rightarrow> stock_level \<times> stock_item \<times> branch_row \<Rightarrow> report_row" where
  "report_row_of db = (\<lambda>(l, item, b). \<lparr>rr_level = l, rr_item = item,
     rr_category = (case si_categoryId item of None \<Rightarrow> None | Some c \<Rightarrow> find_row ic_id (inventoryCategories db) c),
     rr_branchName = br_name b, rr_reorderPointEffective = effective_reorder l item,
     rr_status = deriveStatus (sl_quantityOnHand l) (effective_reorder l item)\<rparr>)"

fun report_loop :: "report_row list \<Rightarrow> report_summary \<Rightarrow> report_summary" where
  "report_loop [] s = s"
| "report_loop (r # rows) s =
     (let s1 = (case rr_status r of
          IN_STOCK \<Rightarrow> s\<lparr>rs_inStock := Suc (rs_inStock s)\<rparr>
        | LOW_STOCK \<Rightarrow> s\<lparr>rs_lowStock := Suc (rs_lowStock s)\<rparr>
        | OUT_OF_STOCK \<Rightarrow> s\<lparr>rs_outOfStock := Suc (rs_outOfStock s)\<rparr>)
      in report_loop rows (case unit_cost (rr_level r) (rr_item r) of
          None \<Rightarrow> s1
        | Some c \<Rightarrow> s1\<lparr>rs_inventoryValueKd := rs_inventoryValueKd s1 + sl_quantityOnHand (rr_level r) * c\<rparr>))"

definition report :: "stock_db \<Rightarrow> inventory_query \<Rightarrow> report_row list \<times> report_summary" where
  "report db q =
     (let levels = filter (\<lambda>(l, item, b).
            (\<not> str_truthy (iq_branchId q) \<or> Some (sl_branchId l) = iq_branchId q)
            \<and> (\<not> str_truthy (iq_categoryId q) \<or> si_categoryId item = iq_categoryId q)) (joined_levels db);
          mapped = map (report_row_of db) (sort_key (\<lambda>(l, item, b). (br_name b, si_code item)) levels);
          filtered = (case iq_status q of None \<Rightarrow> mapped | Some s \<Rightarrow> filter (\<lambda>r. rr_status r = s) mapped)
      in (filtered, report_loop filtered \<lparr>rs_totalSkus = length filtered, rs_inStock = 0, rs_lowStock = 0,
            rs_outOfStock = 0, rs_inventoryValueKd = 0\<rparr>))"

record low_stock_summary =
  lo_total :: nat
  lo_outOfStock :: nat
  lo_lowStock :: nat
  lo_generatedAt :: timestamp

definition lowStock :: "env \<Rightarrow> stock_db \<Rightarrow> uuid option \<Rightarrow> report_row list \<times> low_stock_summary" where
  "lowStock env db branchId =
     (let levels = filter (\<lambda>(l, item, b). \<not> str_truthy branchId \<or> Some (sl_branchId l) = branchId) (joined_levels db);
          rows = sort_key (\<lambda>r. (if rr_status r = OUT_OF_STOCK then 0 else 1 :: nat, rr_branchName r))
            (filter (\<lambda>r. rr_status r \<noteq> IN_STOCK) (map (report_row_of db) levels))
      in (rows, \<lparr>lo_total = length rows, lo_outOfStock = length (filter (\<lambda>r. rr_status r = OUT_OF_STOCK) rows),
            lo_lowStock = length (filter (\<lambda>r. rr_status r = LOW_STOCK) rows), lo_generatedAt = now env\<rparr>))"

text \<open>The days of the query are days since the epoch.\<close>

record movements_query =
  mq_branchId :: "uuid option"
  mq_stockItemId :: "uuid option"
  mq_type :: "movement_type option"
  mq_from :: "int option"
  mq_to :: "int option"
  mq_limit :: "int option"

definition movement_matches :: "movements_query \<Rightarrow> stock_movement \<Rightarrow> bool" where
  "movement_matches q m \<longleftrightarrow>
     (\<not> str_truthy (mq_branchId q) \<or> Some (sm_branchId m) = mq_branchId q)
     \<and> (\<not> str_truthy (mq_stockItemId q) \<or> Some (sm_stockItemId m) = mq_stockItemId q)
     \<and> (mq_type q = None \<or> Some (sm_type m) = mq_type q)
     \<and> (case mq_from q of None \<Rightarrow> True | Some d \<Rightarrow> d * MS_PER_DAY \<le> sm_createdAt m)
     \<and> (case mq_to q of None \<Rightarrow> True | Some d \<Rightarrow> sm_createdAt m \<le> d * MS_PER_DAY + (MS_PER_DAY - 1))"

definition listMovements :: "stock_db \<Rightarrow> movements_query \<Rightarrow> stock_movement list" where
  "listMovements db q = take (nat (min (max (nullish (mq_limit q) 50) 1) 500))
     (sort_key (\<lambda>m. - sm_createdAt m) (filter (movement_matches q) (stockMovements db)))"

definition listRecentMovements :: "stock_db \<Rightarrow> int \<Rightarrow> uuid option \<Rightarrow> stock_movement list" where
  "listRecentMovements db limit branchId = listMovements db \<lparr>mq_branchId = branchId, mq_stockItemId = None,
     mq_type = None, mq_from = None, mq_to = None, mq_limit = Some limit\<rparr>"

end
