(* ===== verification/Booked.thy ===== *)
theory Booked
  imports Workflow
begin

text \<open>
  The contract of a component that keeps a balance per key and, beside it, a trail of signed
  entries (a stock level and its movements, a wallet and its transactions): every operation
  that is carried out changes the balance and the trail of each key by the same amount. Then
  the balance can be rebuilt from the trail after any sequence of operations.
\<close>

locale booked =
  fixes ok :: "'d \<Rightarrow> bool"
    and balance :: "'d \<Rightarrow> 'k \<Rightarrow> decimal"
    and trail :: "'d \<Rightarrow> 'k \<Rightarrow> decimal"
    and exec :: "'c \<Rightarrow> 'd \<Rightarrow> 'd"
  assumes exec_books: "ok d \<Longrightarrow> ok (exec c d)
    \<and> (\<exists>\<delta>. \<forall>k. balance (exec c d) k = balance d k + \<delta> k \<and> trail (exec c d) k = trail d k + \<delta> k)"
begin

lemma exec_ok [simp, intro]: "ok d \<Longrightarrow> ok (exec c d)"
  using exec_books by blast

lemma exec_difference: "ok d \<Longrightarrow> balance (exec c d) k - trail (exec c d) k = balance d k - trail d k"
  using exec_books [of d c] by auto

lemma run_difference:
  "ok d \<Longrightarrow> balance (fold exec cs d) k - trail (fold exec cs d) k = balance d k - trail d k"
  by (induction cs arbitrary: d) (auto simp: exec_difference)

lemma run_ok: "ok d \<Longrightarrow> ok (fold exec cs d)"
  by (induction cs arbitrary: d) auto

lemma run_rebuilt:
  assumes "ok d" "balance d k = trail d k"
  shows "balance (fold exec cs d) k = trail (fold exec cs d) k"
  using run_difference [OF assms(1), of cs k] assms(2) by simp

lemma run_invariant:
  assumes "ok d" "P d" and step: "\<And>c d. c \<in> set cs \<Longrightarrow> ok d \<Longrightarrow> P d \<Longrightarrow> P (exec c d)"
  shows "P (fold exec cs d)"
  using assms by (induction cs arbitrary: d) auto

end

end
