(* ===== verification/Inventory_Laws.thy ===== *)
theory Inventory_Laws
  imports Inventory Booked
begin

text \<open>
  What the inventory service keeps: the quantity on hand of every item at every branch is the
  sum of its movements through any history of operations, and what each operation does to it.
\<close>

subsection \<open>Quantity on hand and movements\<close>

type_synonym stock_key = "uuid \<times> uuid"

definition level_key :: "stock_level \<Rightarrow> stock_key" where
  "level_key l = (sl_branchId l, sl_stockItemId l)"

definition movement_key :: "stock_movement \<Rightarrow> stock_key" where
  "movement_key m = (sm_branchId m, sm_stockItemId m)"

definition on_hand :: "stock_db \<Rightarrow> stock_key \<Rightarrow> decimal" where
  "on_hand db k = (case find_level db (fst k) (snd k) of None \<Rightarrow> 0 | Some l \<Rightarrow> sl_quantityOnHand l)"

definition moved :: "stock_db \<Rightarrow> stock_key \<Rightarrow> decimal" where
  "moved db k = (\<Sum>m\<leftarrow>filter (\<lambda>m. movement_key m = k) (stockMovements db). sm_quantity m)"

definition levels_ok :: "stock_db \<Rightarrow> bool" where
  "levels_ok db \<longleftrightarrow> distinct (map sl_id (stockLevels db)) \<and> distinct (map level_key (stockLevels db))"

definition single :: "stock_key \<Rightarrow> decimal \<Rightarrow> stock_key \<Rightarrow> decimal" where
  "single k q j = (if j = k then q else 0)"

definition books :: "stock_db \<Rightarrow> stock_db \<Rightarrow> (stock_key \<Rightarrow> decimal) \<Rightarrow> bool" where
  "books db db' d \<longleftrightarrow> levels_ok db' \<and> (\<forall>k. on_hand db' k = on_hand db k + d k)
     \<and> (\<forall>k. moved db' k = moved db k + d k)"

lemma at_key_iff: "at_key b i l \<longleftrightarrow> level_key l = (b, i)"
  by (auto simp: at_key_def level_key_def)

lemma single_same [simp]: "single k q k = q"
  by (simp add: single_def)

lemma single_zero [simp]: "single k 0 = (\<lambda>j. 0)"
  by (rule ext) (simp add: single_def)

lemma books_hand: "books a b d \<Longrightarrow> on_hand b k = on_hand a k + d k"
  unfolding books_def by blast

lemma books_refl: "levels_ok db \<Longrightarrow> books db db (\<lambda>k. 0)"
  by (simp add: books_def)

lemma books_trans: "books a b d \<Longrightarrow> books b c e \<Longrightarrow> books a c (\<lambda>k. d k + e k)"
  by (simp add: books_def add.assoc)

lemma books_ok [intro]: "books a b d \<Longrightarrow> levels_ok b"
  by (simp add: books_def)

lemma find_level_in: "find_level db b i = Some l \<Longrightarrow> l \<in> set (stockLevels db) \<and> level_key l = (b, i)"
  unfolding find_level_def by (auto dest!: find_Some_in simp: at_key_iff)

lemma find_level_unique:
  assumes "levels_ok db" "l \<in> set (stockLevels db)" "level_key l = (b, i)"
  shows "find_level db b i = Some l"
proof (cases "find_level db b i")
  case None
  with assms show ?thesis by (auto simp: find_level_def find_None_iff' at_key_iff)
next
  case (Some x)
  with find_level_in assms have "x \<in> set (stockLevels db)" "level_key x = level_key l" by fastforce+
  moreover have "inj_on level_key (set (stockLevels db))" using assms(1) by (simp add: levels_ok_def distinct_map)
  ultimately have "x = l" using assms(2) by (auto dest: inj_onD)
  with Some show ?thesis by simp
qed

lemma moved_cong: "stockMovements db' = stockMovements db \<Longrightarrow> moved db' k = moved db k"
  by (simp add: moved_def)

lemma other_tables [simp]:
  "on_hand (db\<lparr>stockMovements := ms\<rparr>) k = on_hand db k" "levels_ok (db\<lparr>stockMovements := ms\<rparr>) = levels_ok db"
  "on_hand (db\<lparr>stockItems := is\<rparr>) k = on_hand db k" "levels_ok (db\<lparr>stockItems := is\<rparr>) = levels_ok db"
  "on_hand (db\<lparr>suppliers := ss\<rparr>) k = on_hand db k" "levels_ok (db\<lparr>suppliers := ss\<rparr>) = levels_ok db"
  "moved (db\<lparr>stockItems := is\<rparr>) k = moved db k" "moved (db\<lparr>suppliers := ss\<rparr>) k = moved db k"
  by (simp_all add: on_hand_def find_level_def levels_ok_def moved_def)

lemma update_level_tables [simp]:
  "stockMovements (update_level i f db) = stockMovements db" "stockItems (update_level i f db) = stockItems db"
  "stockBranches (update_level i f db) = stockBranches db" "suppliers (update_level i f db) = suppliers db"
  by (simp_all add: update_level_def)

lemma set_quantity_tables [simp]:
  "stockMovements (set_quantity env l q db) = stockMovements db"
  "stockItems (set_quantity env l q db) = stockItems db"
  "stockBranches (set_quantity env l q db) = stockBranches db"
  by (simp_all add: set_quantity_def)

lemma update_level_ok:
  assumes ok: "levels_ok db" and l: "find_level db b i = Some l"
    and f: "\<And>x. sl_id (f x) = sl_id x" "\<And>x. level_key (f x) = level_key x"
  shows "levels_ok (update_level (sl_id l) f db)"
    and "find_level (update_level (sl_id l) f db) b i = Some (f l)"
    and "(b', i') \<noteq> (b, i) \<Longrightarrow> find_level (update_level (sl_id l) f db) b' i' = find_level db b' i'"
proof -
  let ?g = "\<lambda>x. if sl_id x = sl_id l then f x else x"
  have levels: "stockLevels (update_level (sl_id l) f db) = map ?g (stockLevels db)"
    by (simp add: update_level_def update_row_def)
  show ok': "levels_ok (update_level (sl_id l) f db)"
    using ok unfolding levels_ok_def levels
    by (simp add: comp_def if_distrib [where f = sl_id] if_distrib [where f = level_key] f cong: if_cong)
  show "find_level (update_level (sl_id l) f db) b i = Some (f l)"
    using find_level_in [OF l] by (intro find_level_unique [OF ok']) (auto simp: levels f)
  show "find_level (update_level (sl_id l) f db) b' i' = find_level db b' i'" if ne: "(b', i') \<noteq> (b, i)"
  proof (cases "find_level db b' i'")
    case None
    then have "find_level (update_level (sl_id l) f db) b' i' = None"
      by (auto simp: find_level_def find_None_iff' at_key_iff levels f)
    with None show ?thesis by simp
  next
    case (Some x)
    note x = find_level_in [OF Some]
    have "sl_id x \<noteq> sl_id l"
      using x find_level_in [OF l] ne ok by (auto simp: levels_ok_def distinct_map dest: inj_onD)
    with x have "x \<in> set (stockLevels (update_level (sl_id l) f db))" by (force simp: levels)
    with x Some show ?thesis by (simp add: find_level_unique [OF ok'])
  qed
qed

lemma update_level_on_hand:
  assumes "levels_ok db" "find_level db b i = Some l"
    and "\<And>x. sl_id (f x) = sl_id x" "\<And>x. level_key (f x) = level_key x"
  shows "on_hand (update_level (sl_id l) f db) k =
     on_hand db k + single (b, i) (sl_quantityOnHand (f l) - sl_quantityOnHand l) k"
proof (cases "k = (b, i)")
  case True
  then show ?thesis using update_level_ok(2) [OF assms] assms(2) by (simp add: on_hand_def)
next
  case False
  obtain b' i' where k: "k = (b', i')" by (cases k)
  then show ?thesis using False update_level_ok(3) [OF assms] by (auto simp: on_hand_def single_def)
qed

lemma create_level_spec:
  assumes "create_level env b i q avg t db = Inr (l, db')" and ok: "levels_ok db"
  shows "levels_ok db'" "find_level db' b i = Some l" "sl_quantityOnHand l = q" "sl_avgUnitCost l = avg"
    "on_hand db' k = on_hand db k + single (b, i) q k" "db' = db\<lparr>stockLevels := stockLevels db @ [l]\<rparr>"
proof -
  let ?id = "new_uuid env (length (stockLevels db))"
  have fresh: "?id \<notin> sl_id ` set (stockLevels db)" "\<forall>x\<in>set (stockLevels db). \<not> at_key b i x"
    and l: "level_key l = (b, i)" "sl_id l = ?id"
    and q: "sl_quantityOnHand l = q" "sl_avgUnitCost l = avg"
    and db': "db' = db\<lparr>stockLevels := stockLevels db @ [l]\<rparr>"
    using assms(1) by (auto simp: create_level_def Let_def level_key_def split: if_splits)
  show "levels_ok db'" using ok fresh l by (auto simp: levels_ok_def db' at_key_iff)
  have none: "find_level db b i = None" using fresh by (simp add: find_level_def find_None_iff')
  show "find_level db' b i = Some l"
    using none l by (simp add: find_level_def db' find_append at_key_iff)
  then show "on_hand db' k = on_hand db k + single (b, i) q k"
    using none l q by (cases k) (auto simp: on_hand_def single_def find_level_def db' find_append at_key_iff
      split: option.splits)
qed (use assms(1) in \<open>auto simp: create_level_def Let_def split: if_splits\<close>)

lemma add_movement_spec:
  assumes "add_movement m env db = Inr (row, db')"
  shows "row = m (new_uuid env (length (stockMovements db)))"
    "db' = db\<lparr>stockMovements := stockMovements db @ [row]\<rparr>"
    "moved db' k = moved db k + single (movement_key row) (sm_quantity row) k"
  using assms by (auto simp: add_movement_def Let_def moved_def single_def split: if_splits)


subsection \<open>What the operations book\<close>

lemma ensure_level_spec:
  assumes "ensureItemAndLevel env db i b = Inr ((item, l), db1)" and ok: "levels_ok db"
  shows "books db db1 (\<lambda>k. 0)" "find_level db1 b i = Some l" "sl_quantityOnHand l = on_hand db (b, i)"
    "find_item db i = Some item" "stockItems db1 = stockItems db" "stockBranches db1 = stockBranches db"
proof -
  have item: "find_item db i = Some item" and r: "(case find_level db b i of Some l \<Rightarrow> Inr ((item, l), db)
      | None \<Rightarrow> bindE (create_level env b i 0 None None db) (\<lambda>(l, db1). Inr ((item, l), db1))) = Inr ((item, l), db1)"
    using assms(1) by (auto simp: ensureItemAndLevel_def result_simps split: option.splits if_splits)
  show "find_item db i = Some item" by (rule item)
  have "books db db1 (\<lambda>k. 0) \<and> find_level db1 b i = Some l \<and> sl_quantityOnHand l = on_hand db (b, i)
     \<and> stockItems db1 = stockItems db \<and> stockBranches db1 = stockBranches db"
  proof (cases "find_level db b i")
    case (Some x)
    with r have "db1 = db" "l = x" by auto
    with Some ok show ?thesis by (simp add: books_refl on_hand_def)
  next
    case None
    with r have c: "create_level env b i 0 None None db = Inr (l, db1)" by (auto simp: result_simps)
    note spec = create_level_spec [OF c ok]
    have "on_hand db (b, i) = 0" using None by (simp add: on_hand_def)
    with spec show ?thesis by (simp add: books_def single_def moved_def)
  qed
  then show "books db db1 (\<lambda>k. 0)" "find_level db1 b i = Some l" "sl_quantityOnHand l = on_hand db (b, i)"
    "stockItems db1 = stockItems db" "stockBranches db1 = stockBranches db" by simp_all
qed

lemma movement_books:
  assumes hand: "\<And>k. on_hand db1 k = on_hand db k + single key q k"
    and ok: "levels_ok db1" and movs: "stockMovements db1 = stockMovements db"
    and m: "add_movement m env db1 = Inr (row, db')"
    and row: "\<And>i. movement_key (m i) = key" "\<And>i. sm_quantity (m i) = q"
  shows "books db db' (single key q)"
  using hand ok row add_movement_spec [OF m] moved_cong [OF movs] by (simp add: books_def)

lemma set_quantity_hand:
  assumes "levels_ok db" "find_level db b i = Some l"
  shows "on_hand (set_quantity env l q db) k = on_hand db k + single (b, i) (q - sl_quantityOnHand l) k"
    "levels_ok (set_quantity env l q db)"
  unfolding set_quantity_def
  using update_level_on_hand [OF assms, of "\<lambda>x. x\<lparr>sl_quantityOnHand := q, sl_lastMovementAt := Some (now env)\<rparr>"]
    update_level_ok(1) [OF assms, of "\<lambda>x. x\<lparr>sl_quantityOnHand := q, sl_lastMovementAt := Some (now env)\<rparr>"]
  by (simp_all add: level_key_def)

lemma write_stock_books:
  assumes w: "write_stock env l newQty m db = Inr (res, db')"
    and ok: "levels_ok db" and l: "find_level db b i = Some l"
    and m: "\<And>j. movement_key (m j) = (b, i)" "\<And>j. sm_quantity (m j) = newQty - sl_quantityOnHand l"
  shows "books db db' (single (b, i) (newQty - sl_quantityOnHand l))"
    and "mr_newQuantityOnHand res = newQty" "stockItems db' = stockItems db" "stockBranches db' = stockBranches db"
proof -
  obtain row where a: "add_movement m env (set_quantity env l newQty db) = Inr (row, db')"
    and res: "res = \<lparr>mr_movement = row, mr_newQuantityOnHand = newQty\<rparr>"
    using w by (auto simp: write_stock_def result_simps)
  show "books db db' (single (b, i) (newQty - sl_quantityOnHand l))"
    by (rule movement_books [OF set_quantity_hand [OF ok l] _ a m]) simp
  show "mr_newQuantityOnHand res = newQty" by (simp add: res)
  show "stockItems db' = stockItems db" "stockBranches db' = stockBranches db"
    using add_movement_spec(2) [OF a] by (simp_all add: set_quantity_def)
qed

lemma books_zero_left: "books a b (\<lambda>k. 0) \<Longrightarrow> books b c e \<Longrightarrow> books a c e"
  using books_trans by fastforce

lemma commit_Inr [simp]: "commit db r = (Inr x, db') \<longleftrightarrow> r = Inr (x, db')"
  by (auto simp: commit_def split: sum.splits)

lemma commit_Inl: "commit db r = (Inl e, db') \<Longrightarrow> db' = db"
  by (auto simp: commit_def split: sum.splits)

lemma stockOut_read_spec:
  assumes "stockOut_read env dto db = Inr ((item, l), db1)" and ok: "levels_ok db"
  shows "books db db1 (\<lambda>k. 0)" "find_level db1 (so_branchId dto) (so_stockItemId dto) = Some l"
    "sl_quantityOnHand l = on_hand db (so_branchId dto, so_stockItemId dto)" "so_quantity dto \<le> sl_quantityOnHand l"
proof -
  have "ensureItemAndLevel env db (so_stockItemId dto) (so_branchId dto) = Inr ((item, l), db1)"
    and q: "so_quantity dto \<le> sl_quantityOnHand l"
    using assms(1) by (auto simp: stockOut_read_def result_simps split: if_splits)
  from ensure_level_spec [OF this(1) ok] q show "books db db1 (\<lambda>k. 0)"
    "find_level db1 (so_branchId dto) (so_stockItemId dto) = Some l"
    "sl_quantityOnHand l = on_hand db (so_branchId dto, so_stockItemId dto)" "so_quantity dto \<le> sl_quantityOnHand l"
    by simp_all
qed

lemma stockOut_write_books:
  assumes w: "stockOut_write env dto userId item l db = Inr (res, db')" and ok: "levels_ok db"
    and l: "find_level db (so_branchId dto) (so_stockItemId dto) = Some l"
  shows "books db db' (single (so_branchId dto, so_stockItemId dto) (- so_quantity dto))"
    "mr_newQuantityOnHand res = sl_quantityOnHand l - so_quantity dto"
  using write_stock_books [OF w [unfolded stockOut_write_def Let_def] ok l] by (simp_all add: movement_key_def)

lemma stockOut_books:
  assumes "stockOut env db dto userId = (Inr res, db')" and ok: "levels_ok db"
  shows "books db db' (single (so_branchId dto, so_stockItemId dto) (- so_quantity dto))"
    "so_quantity dto \<le> on_hand db (so_branchId dto, so_stockItemId dto)"
proof -
  obtain item l db1 where r: "stockOut_read env dto db = Inr ((item, l), db1)"
    and w: "stockOut_write env dto userId item l db1 = Inr (res, db')"
    using assms(1) by (auto simp: stockOut_def result_simps)
  note spec = stockOut_read_spec [OF r ok]
  show "books db db' (single (so_branchId dto, so_stockItemId dto) (- so_quantity dto))"
    by (rule books_zero_left [OF spec(1) stockOut_write_books(1) [OF w books_ok [OF spec(1)] spec(2)]])
  show "so_quantity dto \<le> on_hand db (so_branchId dto, so_stockItemId dto)" using spec by simp
qed

lemma adjust_books:
  assumes "adjust env db dto userId = (Inr res, db')" and ok: "levels_ok db"
  shows "books db db' (single (ad_branchId dto, ad_stockItemId dto) (ad_delta dto))"
    "0 \<le> on_hand db (ad_branchId dto, ad_stockItemId dto) + ad_delta dto"
proof -
  obtain item l db1 m where e: "ensureItemAndLevel env db (ad_stockItemId dto) (ad_branchId dto) = Inr ((item, l), db1)"
    and nonneg: "0 \<le> sl_quantityOnHand l + ad_delta dto"
    and w: "write_stock env l (sl_quantityOnHand l + ad_delta dto) m db1 = Inr (res, db')"
    and m: "\<And>j. movement_key (m j) = (ad_branchId dto, ad_stockItemId dto)" "\<And>j. sm_quantity (m j) = ad_delta dto"
    using assms(1) by (force simp: adjust_def Let_def result_simps movement_key_def split: if_splits)
  note spec = ensure_level_spec [OF e ok]
  have "books db1 db' (single (ad_branchId dto, ad_stockItemId dto) (ad_delta dto))"
    using write_stock_books(1) [OF w books_ok [OF spec(1)] spec(2)] m by simp
  with spec(1) show "books db db' (single (ad_branchId dto, ad_stockItemId dto) (ad_delta dto))"
    by (rule books_zero_left)
  show "0 \<le> on_hand db (ad_branchId dto, ad_stockItemId dto) + ad_delta dto" using nonneg spec(3) by simp
qed


text \<open>A change of a level that also sets its average: the two branches of a receipt.\<close>

lemma averaged_hand:
  assumes ok: "levels_ok db" and l: "find_level db b i = Some l"
    and f: "f = (\<lambda>x. x\<lparr>sl_quantityOnHand := q, sl_avgUnitCost := avg, sl_lastMovementAt := t\<rparr>)"
  shows "on_hand (update_level (sl_id l) f db) k = on_hand db k + single (b, i) (q - sl_quantityOnHand l) k"
    "levels_ok (update_level (sl_id l) f db)"
    "find_level (update_level (sl_id l) f db) b i = Some (f l)"
  using update_level_on_hand [OF ok l, of f] update_level_ok(1,2) [OF ok l, of f] by (simp_all add: f level_key_def)

lemma receive_level_spec:
  assumes r: "receive_level env dto db = Inr ((q, avg), db')" and ok: "levels_ok db"
    and key: "key = (in_branchId dto, in_stockItemId dto)"
  shows "on_hand db' k = on_hand db k + single key (in_quantity dto) k" "levels_ok db'"
    "stockMovements db' = stockMovements db" "q = on_hand db key + in_quantity dto"
proof -
  have "on_hand db' k = on_hand db k + single key (in_quantity dto) k \<and> levels_ok db'
    \<and> stockMovements db' = stockMovements db \<and> q = on_hand db key + in_quantity dto"
  proof (cases "find_level db (in_branchId dto) (in_stockItemId dto)")
    case (Some l)
    have "q = sl_quantityOnHand l + in_quantity dto"
      "db' = update_level (sl_id l) (\<lambda>x. x\<lparr>sl_quantityOnHand := q,
         sl_avgUnitCost := Some (dec4 avg), sl_lastMovementAt := Some (now env)\<rparr>) db"
      using r Some by (auto simp: receive_level_def Let_def)
    with averaged_hand(1,2) [OF ok Some refl] Some show ?thesis
      by (simp add: key on_hand_def [where k = "(in_branchId dto, in_stockItemId dto)"])
  next
    case None
    then obtain l where c: "create_level env (in_branchId dto) (in_stockItemId dto) (in_quantity dto)
        (Some (in_unitCost dto)) (Some (now env)) db = Inr (l, db')" and q: "q = in_quantity dto"
      using r by (cases "create_level env (in_branchId dto) (in_stockItemId dto) (in_quantity dto)
        (Some (in_unitCost dto)) (Some (now env)) db") (auto simp: receive_level_def)
    from create_level_spec [OF c ok] None q show ?thesis by (simp add: key on_hand_def [where k = "(in_branchId dto, in_stockItemId dto)"])
  qed
  then show "on_hand db' k = on_hand db k + single key (in_quantity dto) k" "levels_ok db'"
    "stockMovements db' = stockMovements db" "q = on_hand db key + in_quantity dto" by simp_all
qed

lemma add_supplier_tables:
  assumes "add_supplier env n p a act db = Inr (s, db1)"
  shows "db1 = db\<lparr>suppliers := suppliers db @ [s]\<rparr>"
  using assms by (auto simp: add_supplier_def Let_def split: if_splits)

lemma resolve_supplier_tables:
  assumes "resolve_supplier env dto db = Inr (sid, db1)"
  shows "\<exists>ss. db1 = db\<lparr>suppliers := ss\<rparr>"
proof (cases "\<not> str_truthy (in_supplierId dto) \<and> str_truthy (in_supplierName dto)")
  case True
  with assms show ?thesis by (auto simp: resolve_supplier_def result_simps dest!: add_supplier_tables)
next
  case False
  with assms have "db1 = db\<lparr>suppliers := suppliers db\<rparr>" by (auto simp: resolve_supplier_def)
  then show ?thesis by blast
qed

lemma stockIn_parts:
  assumes "stockIn env db dto userId = (Inr res, db')"
  obtains ss db2 its m where "receive_level env dto (db\<lparr>suppliers := ss\<rparr>) =
      Inr ((ir_newQuantityOnHand res, ir_newAvgUnitCost res), db2)"
    and "add_movement m env (db2\<lparr>stockItems := its\<rparr>) = Inr (ir_movement res, db')"
    and "\<And>j. movement_key (m j) = (in_branchId dto, in_stockItemId dto)" "\<And>j. sm_quantity (m j) = in_quantity dto"
proof -
  have "stockIn_tx env dto userId db = Inr (res, db')"
    using assms by (auto simp: stockIn_def split: option.splits if_splits)
  then obtain supplierId db1 newQty newAvg db2 m where s: "resolve_supplier env dto db = Inr (supplierId, db1)"
    and r: "receive_level env dto db1 = Inr ((newQty, newAvg), db2)"
    and a: "add_movement (\<lambda>i. \<lparr>sm_id = i, sm_stockItemId = in_stockItemId dto,
             sm_branchId = in_branchId dto, sm_type = STOCK_IN, sm_quantity = in_quantity dto,
             sm_unitCost = Some (in_unitCost dto), sm_totalCost = total_cost (in_quantity dto) (Some (in_unitCost dto)),
             sm_supplierId = supplierId, sm_recordedById = userId, sm_reference = trimmed (in_reference dto),
             sm_note = trimmed (in_note dto), sm_receiptUrl = in_receiptUrl dto, sm_createdAt = now env\<rparr>) env
          (db2\<lparr>stockItems := update_row si_id (in_stockItemId dto)
             (\<lambda>i. i\<lparr>si_lastUnitCost := Some (in_unitCost dto)\<rparr>) (stockItems db2)\<rparr>) = Inr (m, db')"
    and res: "res = \<lparr>ir_movement = m, ir_newQuantityOnHand = newQty, ir_newAvgUnitCost = newAvg\<rparr>"
    by (auto simp: stockIn_tx_def Let_def result_simps split: if_splits)
  obtain ss where "db1 = db\<lparr>suppliers := ss\<rparr>" using resolve_supplier_tables [OF s] by blast
  with r a res show thesis by (intro that [OF _ _]) (auto simp: movement_key_def)
qed

lemma stockIn_books:
  assumes s: "stockIn env db dto userId = (Inr res, db')" and ok: "levels_ok db"
  shows "books db db' (single (in_branchId dto, in_stockItemId dto) (in_quantity dto))"
    "ir_newQuantityOnHand res = on_hand db (in_branchId dto, in_stockItemId dto) + in_quantity dto"
proof -
  obtain ss db2 its m where
    r: "receive_level env dto (db\<lparr>suppliers := ss\<rparr>) = Inr ((ir_newQuantityOnHand res, ir_newAvgUnitCost res), db2)"
    and a: "add_movement m env (db2\<lparr>stockItems := its\<rparr>) = Inr (ir_movement res, db')"
    and m: "\<And>j. movement_key (m j) = (in_branchId dto, in_stockItemId dto)" "\<And>j. sm_quantity (m j) = in_quantity dto"
    by (rule stockIn_parts [OF s]) (rule that)
  have ok': "levels_ok (db\<lparr>suppliers := ss\<rparr>)" using ok by simp
  note spec = receive_level_spec [OF r ok' refl]
  show "books db db' (single (in_branchId dto, in_stockItemId dto) (in_quantity dto))"
    by (rule movement_books [OF _ _ _ a m]) (use spec in simp_all)
  show "ir_newQuantityOnHand res = on_hand db (in_branchId dto, in_stockItemId dto) + in_quantity dto"
    using spec(4) by simp
qed

lemma transfer_in_spec:
  assumes r: "transfer_in_level env dto uc db = Inr (q, db')" and ok: "levels_ok db"
    and key: "key = (tr_toBranchId dto, tr_stockItemId dto)"
  shows "on_hand db' k = on_hand db k + single key (tr_quantity dto) k" "levels_ok db'"
    "stockMovements db' = stockMovements db" "q = on_hand db key + tr_quantity dto"
proof -
  have "on_hand db' k = on_hand db k + single key (tr_quantity dto) k \<and> levels_ok db'
    \<and> stockMovements db' = stockMovements db \<and> q = on_hand db key + tr_quantity dto"
  proof (cases "find_level db (tr_toBranchId dto) (tr_stockItemId dto)")
    case (Some l)
    then obtain avg where "q = sl_quantityOnHand l + tr_quantity dto"
      "db' = update_level (sl_id l) (\<lambda>x. x\<lparr>sl_quantityOnHand := q,
         sl_avgUnitCost := avg, sl_lastMovementAt := Some (now env)\<rparr>) db"
      using r by (auto simp: transfer_in_level_def Let_def)
    with averaged_hand(1,2) [OF ok Some refl] Some show ?thesis
      by (simp add: key on_hand_def [where k = "(tr_toBranchId dto, tr_stockItemId dto)"])
  next
    case None
    then obtain l where c: "create_level env (tr_toBranchId dto) (tr_stockItemId dto) (tr_quantity dto)
        (map_option dec4 uc) (Some (now env)) db = Inr (l, db')" and q: "q = tr_quantity dto"
      using r by (cases "create_level env (tr_toBranchId dto) (tr_stockItemId dto) (tr_quantity dto)
        (map_option dec4 uc) (Some (now env)) db") (auto simp: transfer_in_level_def)
    from create_level_spec [OF c ok] None q show ?thesis
      by (simp add: key on_hand_def [where k = "(tr_toBranchId dto, tr_stockItemId dto)"])
  qed
  then show "on_hand db' k = on_hand db k + single key (tr_quantity dto) k" "levels_ok db'"
    "stockMovements db' = stockMovements db" "q = on_hand db key + tr_quantity dto" by simp_all
qed


lemma transfer_books:
  assumes t: "transfer env db dto userId = (Inr res, db')" and ok: "levels_ok db"
  shows "books db db' (\<lambda>k. single (tr_fromBranchId dto, tr_stockItemId dto) (- tr_quantity dto) k
       + single (tr_toBranchId dto, tr_stockItemId dto) (tr_quantity dto) k)"
    "tr_quantity dto \<le> on_hand db (tr_fromBranchId dto, tr_stockItemId dto)" "tr_fromBranchId dto \<noteq> tr_toBranchId dto"
proof -
  show ne: "tr_fromBranchId dto \<noteq> tr_toBranchId dto" using t by (auto simp: transfer_def split: if_splits)
  have "transfer_tx env dto userId db = Inr (res, db')" using t ne by (simp add: transfer_def)
  then obtain item l db1 out db2 q db3 m uc tc ref where
    e: "ensureItemAndLevel env db (tr_stockItemId dto) (tr_fromBranchId dto) = Inr ((item, l), db1)"
    and enough: "tr_quantity dto \<le> sl_quantityOnHand l"
    and w: "write_stock env l (sl_quantityOnHand l - tr_quantity dto)
        (transfer_movement env dto userId ref TRANSFER_OUT (tr_fromBranchId dto) (- tr_quantity dto) uc
          (map_option uminus tc)) db1 = Inr (out, db2)"
    and i: "transfer_in_level env dto uc db2 = Inr (q, db3)"
    and a: "add_movement (transfer_movement env dto userId ref TRANSFER_IN (tr_toBranchId dto)
        (tr_quantity dto) uc tc) env db3 = Inr (m, db')"
    by (auto simp: transfer_tx_def Let_def result_simps split: if_splits)
  note spec = ensure_level_spec [OF e ok]
  have w2: "books db1 db2 (single (tr_fromBranchId dto, tr_stockItemId dto) (- tr_quantity dto))"
    using write_stock_books(1) [OF w books_ok [OF spec(1)] spec(2)] by (simp add: transfer_movement_def movement_key_def)
  note in_spec = transfer_in_spec [OF i books_ok [OF w2] refl]
  have "books db2 db' (single (tr_toBranchId dto, tr_stockItemId dto) (tr_quantity dto))"
    by (rule movement_books [OF in_spec(1-3) a]) (simp_all add: transfer_movement_def movement_key_def)
  with w2 show "books db db' (\<lambda>k. single (tr_fromBranchId dto, tr_stockItemId dto) (- tr_quantity dto) k
       + single (tr_toBranchId dto, tr_stockItemId dto) (tr_quantity dto) k)"
    by (rule books_zero_left [OF spec(1) books_trans])
  show "tr_quantity dto \<le> on_hand db (tr_fromBranchId dto, tr_stockItemId dto)" using enough spec(3) by simp
qed

text \<open>A counted line sets the level to what was counted and books the difference.\<close>

lemma stocktake_line_books:
  assumes s: "stocktake_line env dto userId ref line db = Inr (row, db')" and ok: "levels_ok db"
    and key: "key = (sd_branchId dto, tl_stockItemId line)"
  shows "books db db' (single key (tl_countedQuantity line - on_hand db key))"
    "st_delta row = tl_countedQuantity line - on_hand db key" "st_adjusted row \<longleftrightarrow> st_delta row \<noteq> 0"
proof -
  obtain item l db1 where e: "ensureItemAndLevel env db (tl_stockItemId line) (sd_branchId dto) = Inr ((item, l), db1)"
    using s by (auto simp: stocktake_line_def result_simps)
  note spec = ensure_level_spec [OF e ok]
  have row: "st_delta row = tl_countedQuantity line - sl_quantityOnHand l" "st_adjusted row \<longleftrightarrow> st_delta row \<noteq> 0"
    using s e by (auto simp: stocktake_line_def Let_def result_simps split: if_splits)
  then show "st_delta row = tl_countedQuantity line - on_hand db key" "st_adjusted row \<longleftrightarrow> st_delta row \<noteq> 0"
    using spec(3) key by simp_all
  show "books db db' (single key (tl_countedQuantity line - on_hand db key))"
  proof (cases "tl_countedQuantity line = sl_quantityOnHand l")
    case True
    with s e have "db' = db1" by (simp add: stocktake_line_def Let_def)
    with True spec(1,3) key show ?thesis by (simp add: single_def)
  next
    case False
    then obtain m res where w: "write_stock env l (tl_countedQuantity line) m db1 = Inr (res, db')"
      and m: "\<And>j. movement_key (m j) = key" "\<And>j. sm_quantity (m j) = tl_countedQuantity line - sl_quantityOnHand l"
      using s e by (force simp: stocktake_line_def Let_def result_simps movement_key_def key)
    have "books db1 db' (single key (tl_countedQuantity line - sl_quantityOnHand l))"
      using write_stock_books(1) [OF w books_ok [OF spec(1)] spec(2)] m key by simp
    with spec(1,3) key show ?thesis by (auto intro: books_zero_left)
  qed
qed

definition counted_last :: "uuid \<Rightarrow> stocktake_line list \<Rightarrow> stock_key \<Rightarrow> decimal \<Rightarrow> decimal" where
  "counted_last branch lines k q0 =
     fold (\<lambda>line q. if (branch, tl_stockItemId line) = k then tl_countedQuantity line else q) lines q0"

lemma stocktake_lines_books:
  assumes "stocktake_lines env dto userId ref lines db = Inr (rows, db')" "levels_ok db"
  shows "\<exists>d. books db db' d \<and> (\<forall>k. on_hand db' k = counted_last (sd_branchId dto) lines k (on_hand db k))"
  using assms
proof (induction lines arbitrary: db rows)
  case Nil
  then show ?case using books_refl by (auto simp: counted_last_def)
next
  case (Cons line lines)
  then obtain row db1 rows1 where line: "stocktake_line env dto userId ref line db = Inr (row, db1)"
    and rest: "stocktake_lines env dto userId ref lines db1 = Inr (rows1, db')"
    by (auto simp: result_simps)
  note b = stocktake_line_books(1) [OF line Cons.prems(2) refl]
  obtain d where d: "books db1 db' d"
    and after: "\<And>k. on_hand db' k = counted_last (sd_branchId dto) lines k (on_hand db1 k)"
    using Cons.IH [OF rest books_ok [OF b]] by blast
  have "on_hand db' k = counted_last (sd_branchId dto) (line # lines) k (on_hand db k)" for k
    using books_hand [OF b, of k] by (auto simp: after counted_last_def single_def)
  with books_trans [OF b d] show ?case by blast
qed

lemma stocktake_books:
  assumes "stocktake env db dto userId = (Inr res, db')" and ok: "levels_ok db"
  shows "\<exists>d. books db db' d \<and> (\<forall>k. on_hand db' k = counted_last (sd_branchId dto) (sd_lines dto) k (on_hand db k))"
proof -
  obtain ref rows where "stocktake_lines env dto userId ref (sd_lines dto) db = Inr (rows, db')"
    using assms(1) by (auto simp: stocktake_def Let_def result_simps split: if_splits)
  from stocktake_lines_books [OF this ok] show ?thesis .
qed


lemma decrement_line_books:
  assumes s: "decrement_line env args branch ref line db = Inr (u, db')" and ok: "levels_ok db"
    and item: "ol_stockItemId line = Some i"
  shows "books db db' (if find_item db i = None then (\<lambda>k. 0) else single (branch, i) (- ol_quantity line))"
    and "\<And>j. (find_item db' j = None) = (find_item db j = None)"
proof -
  have "books db db' (if find_item db i = None then (\<lambda>k. 0) else single (branch, i) (- ol_quantity line))
     \<and> stockItems db' = stockItems db"
  proof (cases "find_item db i")
    case None
    with s item ok show ?thesis by (auto simp: decrement_line_def books_refl)
  next
    case (Some it)
    then have i: "si_id it = i" using find_row_id by fastforce
    with s item Some obtain l db1 res m where
      c: "(case find_level db branch i of Some l \<Rightarrow> Inr (l, db)
             | None \<Rightarrow> create_level env branch i 0 None None db) = Inr (l, db1)"
      and w: "write_stock env l (sl_quantityOnHand l - ol_quantity line) m db1 = Inr (res, db')"
      and m: "\<And>j. movement_key (m j) = (branch, i)" "\<And>j. sm_quantity (m j) = - ol_quantity line"
      by (force simp: decrement_line_def Let_def result_simps movement_key_def)
    have "books db db1 (\<lambda>k. 0) \<and> find_level db1 branch i = Some l \<and> stockItems db1 = stockItems db"
    proof (cases "find_level db branch i")
      case None
      with c have "create_level env branch i 0 None None db = Inr (l, db1)" by simp
      from create_level_spec [OF this ok] show ?thesis by (simp add: books_def moved_def)
    next
      case l: (Some l')
      with c ok show ?thesis by (auto simp: books_refl)
    qed
    then have b: "books db db1 (\<lambda>k. 0)" and l: "find_level db1 branch i = Some l"
      and items: "stockItems db1 = stockItems db" by auto
    note spec = write_stock_books [OF w books_ok [OF b] l]
    have "books db1 db' (single (branch, i) (- ol_quantity line))" using spec(1) m by simp
    with b items spec(3) m Some show ?thesis by (auto intro: books_zero_left)
  qed
  then show "books db db' (if find_item db i = None then (\<lambda>k. 0) else single (branch, i) (- ol_quantity line))"
    "\<And>j. (find_item db' j = None) = (find_item db j = None)" by simp_all
qed

text \<open>What the lines of an order take from the stock of a branch.\<close>

definition taken :: "stock_db \<Rightarrow> uuid \<Rightarrow> order_line list \<Rightarrow> stock_key \<Rightarrow> decimal" where
  "taken db branch lines k = (\<Sum>l\<leftarrow>filter (\<lambda>l. str_truthy (ol_stockItemId l)
     \<and> find_item db (nullish (ol_stockItemId l) []) \<noteq> None \<and> (branch, nullish (ol_stockItemId l) []) = k) lines. ol_quantity l)"

lemma taken_Cons: "taken db branch (l # lines) k =
    (if str_truthy (ol_stockItemId l) \<and> find_item db (nullish (ol_stockItemId l) []) \<noteq> None
     then single (branch, nullish (ol_stockItemId l) []) (ol_quantity l) k else 0) + taken db branch lines k"
  by (auto simp: taken_def single_def)

lemma decrement_lines_books:
  assumes "decrement_lines env args branch ref lines db = Inr (u, db')" "levels_ok db"
  shows "books db db' (\<lambda>k. - taken db branch lines k)"
  using assms
proof (induction lines arbitrary: db)
  case Nil
  then show ?case by (simp add: taken_def books_refl)
next
  case (Cons line lines)
  show ?case
  proof (cases "str_truthy (ol_stockItemId line)")
    case False
    with Cons show ?thesis by (simp add: taken_Cons)
  next
    case True
    then obtain i where i: "ol_stockItemId line = Some i" by (cases "ol_stockItemId line") (auto simp: str_truthy_def)
    from Cons.prems True obtain w db1 where line: "decrement_line env args branch ref line db = Inr (w, db1)"
      and rest: "decrement_lines env args branch ref lines db1 = Inr (u, db')"
      by (auto simp: result_simps)
    note b = decrement_line_books [OF line Cons.prems(2) i]
    have same: "taken db1 branch lines k = taken db branch lines k" for k by (simp add: taken_def b(2))
    have "(\<lambda>k. (if find_item db i = None then (\<lambda>k. 0) else single (branch, i) (- ol_quantity line)) k
        + - taken db1 branch lines k) = (\<lambda>k. - taken db branch (line # lines) k)"
      using True i by (auto simp: taken_Cons same single_def)
    with books_trans [OF b(1) Cons.IH [OF rest books_ok [OF b(1)]]] show ?thesis by simp
  qed
qed

lemma order_decrement_books:
  assumes "applyOrderStockDecrement env db args = Inr (u, db')" "levels_ok db"
  shows "\<exists>d. books db db' d"
  using assms by (auto simp: applyOrderStockDecrement_def Let_def split: if_splits
      intro: books_refl dest!: decrement_lines_books)


subsection \<open>Histories\<close>

datatype stock_cmd =
    Cmd_In stock_in uuid
  | Cmd_Out stock_out uuid
  | Cmd_Adjust stock_adjustment uuid
  | Cmd_Transfer stock_transfer uuid
  | Cmd_Count stocktake_dto uuid
  | Cmd_Sale decrement_args

fun exec_stock :: "env \<times> stock_cmd \<Rightarrow> stock_db \<Rightarrow> stock_db" where
  "exec_stock (env, Cmd_In dto u) db = snd (stockIn env db dto u)"
| "exec_stock (env, Cmd_Out dto u) db = snd (stockOut env db dto u)"
| "exec_stock (env, Cmd_Adjust dto u) db = snd (adjust env db dto u)"
| "exec_stock (env, Cmd_Transfer dto u) db = snd (transfer env db dto u)"
| "exec_stock (env, Cmd_Count dto u) db = snd (stocktake env db dto u)"
| "exec_stock (env, Cmd_Sale args) db = snd (commit db (applyOrderStockDecrement env db args))"

text \<open>A call that throws leaves the tables as they were.\<close>

lemma stock_failures:
  "stockIn env db di u = (Inl e, db') \<Longrightarrow> db' = db" "stockOut env db do u = (Inl e, db') \<Longrightarrow> db' = db"
  "adjust env db da u = (Inl e, db') \<Longrightarrow> db' = db" "transfer env db dt u = (Inl e, db') \<Longrightarrow> db' = db"
  "stocktake env db ds u = (Inl e, db') \<Longrightarrow> db' = db"
  by (auto simp: stockIn_def stockOut_def adjust_def transfer_def stocktake_def Let_def
      split: option.splits if_splits dest: commit_Inl)

lemma outcome:
  assumes "\<And>e db'. r = (Inl e, db') \<Longrightarrow> db' = db" "P db" "\<And>x db'. r = (Inr x, db') \<Longrightarrow> P db'"
  shows "P (snd r)"
  using assms by (cases r; cases "fst r") auto

lemma exec_stock_cases:
  assumes ok: "levels_ok db"
  shows "exec_stock (env, c) db = db \<or> (\<exists>d. books db (exec_stock (env, c) db) d)"
proof -
  let ?P = "\<lambda>x. x = db \<or> (\<exists>d. books db x d)"
  show ?thesis
  proof (cases c)
    case (Cmd_In dto u)
    have "?P (snd (stockIn env db dto u))"
      by (rule outcome [where P = ?P, OF stock_failures(1)]) (use stockIn_books(1) [OF _ ok] in blast)+
    with Cmd_In show ?thesis by simp
  next
    case (Cmd_Out dto u)
    have "?P (snd (stockOut env db dto u))"
      by (rule outcome [where P = ?P, OF stock_failures(2)]) (use stockOut_books(1) [OF _ ok] in blast)+
    with Cmd_Out show ?thesis by simp
  next
    case (Cmd_Adjust dto u)
    have "?P (snd (adjust env db dto u))"
      by (rule outcome [where P = ?P, OF stock_failures(3)]) (use adjust_books(1) [OF _ ok] in blast)+
    with Cmd_Adjust show ?thesis by simp
  next
    case (Cmd_Transfer dto u)
    have "?P (snd (transfer env db dto u))"
      by (rule outcome [where P = ?P, OF stock_failures(4)]) (use transfer_books(1) [OF _ ok] in blast)+
    with Cmd_Transfer show ?thesis by simp
  next
    case (Cmd_Count dto u)
    have "?P (snd (stocktake env db dto u))"
      by (rule outcome [where P = ?P, OF stock_failures(5)]) (use stocktake_books [OF _ ok] in blast)+
    with Cmd_Count show ?thesis by simp
  next
    case (Cmd_Sale args)
    then show ?thesis using order_decrement_books [OF _ ok]
      by (cases "applyOrderStockDecrement env db args") (auto simp: commit_def)
  qed
qed

interpretation stock: booked levels_ok on_hand moved exec_stock
proof unfold_locales
  fix db and c :: "env \<times> stock_cmd" assume ok: "levels_ok db"
  obtain env cmd where c: "c = (env, cmd)" by (cases c)
  consider "exec_stock c db = db" | d where "books db (exec_stock c db) d"
    using exec_stock_cases [OF ok] c by blast
  then show "levels_ok (exec_stock c db) \<and> (\<exists>\<delta>. \<forall>k. on_hand (exec_stock c db) k = on_hand db k + \<delta> k
      \<and> moved (exec_stock c db) k = moved db k + \<delta> k)"
  proof cases
    case 1
    with ok show ?thesis by (auto intro: exI [of _ "\<lambda>k. 0"])
  next
    case 2
    then show ?thesis unfolding books_def by blast
  qed
qed

text \<open>What the DTOs of the manual operations are validated for.\<close>

fun manual_cmd :: "stock_cmd \<Rightarrow> bool" where
  "manual_cmd (Cmd_In dto u) \<longleftrightarrow> 0 \<le> in_quantity dto"
| "manual_cmd (Cmd_Count dto u) \<longleftrightarrow> list_all (\<lambda>l. 0 \<le> tl_countedQuantity l) (sd_lines dto)"
| "manual_cmd (Cmd_Transfer dto u) \<longleftrightarrow> 0 \<le> tr_quantity dto"
| "manual_cmd (Cmd_Sale args) \<longleftrightarrow> False"
| "manual_cmd c \<longleftrightarrow> True"

definition stock_nonneg :: "stock_db \<Rightarrow> bool" where
  "stock_nonneg db \<longleftrightarrow> (\<forall>k. 0 \<le> on_hand db k)"

lemma counted_last_nonneg:
  "list_all (\<lambda>l. 0 \<le> tl_countedQuantity l) lines \<Longrightarrow> 0 \<le> q \<Longrightarrow> 0 \<le> counted_last branch lines k q"
  by (induction lines arbitrary: q) (auto simp: counted_last_def)

lemma single_nonneg: "books db db' (single k q) \<Longrightarrow> stock_nonneg db \<Longrightarrow> 0 \<le> on_hand db k + q \<Longrightarrow> stock_nonneg db'"
  by (simp add: books_def stock_nonneg_def single_def)

lemma stock_nonneg_step:
  assumes ok: "levels_ok db" and nn: "stock_nonneg db" and c: "manual_cmd c"
  shows "stock_nonneg (exec_stock (env, c) db)"
proof (cases c)
  case (Cmd_In dto u)
  have "stock_nonneg (snd (stockIn env db dto u))"
  proof (rule outcome [where P = stock_nonneg, OF stock_failures(1) nn])
    fix res db' assume "stockIn env db dto u = (Inr res, db')"
    from stockIn_books(1) [OF this ok] nn show "stock_nonneg db'"
      by (rule single_nonneg) (use c Cmd_In nn in \<open>simp add: stock_nonneg_def\<close>)
  qed
  with Cmd_In show ?thesis by simp
next
  case (Cmd_Out dto u)
  have "stock_nonneg (snd (stockOut env db dto u))"
  proof (rule outcome [where P = stock_nonneg, OF stock_failures(2) nn])
    fix res db' assume r: "stockOut env db dto u = (Inr res, db')"
    from stockOut_books(1) [OF r ok] nn show "stock_nonneg db'"
      by (rule single_nonneg) (use stockOut_books(2) [OF r ok] in simp)
  qed
  with Cmd_Out show ?thesis by simp
next
  case (Cmd_Adjust dto u)
  have "stock_nonneg (snd (adjust env db dto u))"
  proof (rule outcome [where P = stock_nonneg, OF stock_failures(3) nn])
    fix res db' assume r: "adjust env db dto u = (Inr res, db')"
    from adjust_books(1) [OF r ok] nn adjust_books(2) [OF r ok] show "stock_nonneg db'" by (rule single_nonneg)
  qed
  with Cmd_Adjust show ?thesis by simp
next
  case (Cmd_Transfer dto u)
  have "stock_nonneg (snd (transfer env db dto u))"
  proof (rule outcome [where P = stock_nonneg, OF stock_failures(4) nn])
    fix res db' assume r: "transfer env db dto u = (Inr res, db')"
    note t = transfer_books [OF r ok]
    show "stock_nonneg db'" unfolding stock_nonneg_def
    proof
      fix k
      have "0 \<le> on_hand db k" using nn unfolding stock_nonneg_def by blast
      then show "0 \<le> on_hand db' k" using books_hand [OF t(1), of k] t(2,3) c Cmd_Transfer
        by (auto simp: single_def)
    qed
  qed
  with Cmd_Transfer show ?thesis by simp
next
  case (Cmd_Count dto u)
  have "stock_nonneg (snd (stocktake env db dto u))"
  proof (rule outcome [where P = stock_nonneg, OF stock_failures(5) nn])
    fix res db' assume "stocktake env db dto u = (Inr res, db')"
    from stocktake_books [OF this ok] show "stock_nonneg db'"
      using nn c Cmd_Count counted_last_nonneg by (auto simp: stock_nonneg_def)
  qed
  with Cmd_Count show ?thesis by simp
next
  case (Cmd_Sale args)
  with c show ?thesis by simp
qed


subsection \<open>Sales are not blocked, concurrent withdrawals are\<close>

text \<open>Identifiers still to come are not in the tables: what a UUID generator gives.\<close>

definition fresh_ids :: "env \<Rightarrow> stock_db \<Rightarrow> bool" where
  "fresh_ids env db \<longleftrightarrow> inj (new_uuid env)
     \<and> (\<forall>n\<ge>length (stockLevels db). new_uuid env n \<notin> sl_id ` set (stockLevels db))
     \<and> (\<forall>n\<ge>length (stockMovements db). new_uuid env n \<notin> sm_id ` set (stockMovements db))"

lemma fresh_create_level:
  assumes f: "fresh_ids env db" and none: "find_level db b i = None"
  shows "\<exists>l db1. create_level env b i q avg t db = Inr (l, db1) \<and> fresh_ids env db1"
proof -
  have "\<forall>x\<in>set (stockLevels db). \<not> at_key b i x" using none by (simp add: find_level_def find_None_iff')
  with f show ?thesis
    by (auto simp: fresh_ids_def create_level_def Let_def inj_eq Suc_le_eq)
qed

lemma fresh_write_stock:
  assumes f: "fresh_ids env db" and m: "\<And>j. sm_id (m j) = j"
  shows "\<exists>res db'. write_stock env l q m db = Inr (res, db') \<and> fresh_ids env db'"
proof -
  have "map sl_id (stockLevels (set_quantity env l q db)) = map sl_id (stockLevels db)"
    by (simp add: set_quantity_def update_level_def update_row_def)
  then have "sl_id ` set (stockLevels (set_quantity env l q db)) = sl_id ` set (stockLevels db)"
    by (metis image_set)
  moreover have "length (stockLevels (set_quantity env l q db)) = length (stockLevels db)"
    by (simp add: set_quantity_def update_level_def update_row_def)
  ultimately have "fresh_ids env (set_quantity env l q db)" using f by (simp add: fresh_ids_def)
  then show ?thesis using m
    by (auto simp: write_stock_def add_movement_def Let_def fresh_ids_def inj_eq Suc_le_eq)
qed

lemma fresh_decrement_line:
  assumes f: "fresh_ids env db"
  shows "\<exists>db'. decrement_line env args branch ref line db = Inr ((), db') \<and> fresh_ids env db'"
proof (cases "find_item db (nullish (ol_stockItemId line) [])")
  case None
  with f show ?thesis by (simp add: decrement_line_def)
next
  case (Some item)
  have "\<exists>l db1. (case find_level db branch (si_id item) of Some l \<Rightarrow> Inr (l, db)
      | None \<Rightarrow> create_level env branch (si_id item) 0 None None db) = (Inr (l, db1) :: (stock_level \<times> stock_db) result)
      \<and> fresh_ids env db1"
  proof (cases "find_level db branch (si_id item)")
    case None
    then show ?thesis using fresh_create_level [OF f None] by simp
  next
    case (Some l)
    then show ?thesis using f by simp
  qed
  then obtain l db1 where l: "(case find_level db branch (si_id item) of Some l \<Rightarrow> Inr (l, db)
      | None \<Rightarrow> create_level env branch (si_id item) 0 None None db) = (Inr (l, db1) :: (stock_level \<times> stock_db) result)"
    and f1: "fresh_ids env db1"
    by blast
  have "\<exists>db'. bindE (write_stock env l q m db1) (\<lambda>(m, db2). Inr ((), db2)) = Inr ((), db') \<and> fresh_ids env db'"
    if "\<And>j. sm_id (m j) = j" for q m
    using fresh_write_stock [where m = m, OF f1 that, of l q] by auto
  then show ?thesis using Some l by (simp add: decrement_line_def Let_def)
qed

lemma fresh_decrement_lines:
  "fresh_ids env db \<Longrightarrow> \<exists>db'. decrement_lines env args branch ref lines db = Inr ((), db')"
proof (induction lines arbitrary: db)
  case (Cons line lines)
  from fresh_decrement_line [OF Cons.prems] obtain db1 where
    "decrement_line env args branch ref line db = Inr ((), db1)" "fresh_ids env db1" by blast
  with Cons.IH [of db1] Cons.IH [OF Cons.prems] show ?case by auto
qed simp

lemma fresh_decrement:
  assumes "fresh_ids env db"
  shows "\<exists>db'. applyOrderStockDecrement env db args = Inr ((), db')"
  using fresh_decrement_lines [OF assms] by (simp add: applyOrderStockDecrement_def Let_def)

text \<open>Two withdrawals that both read the level before either writes it.\<close>

lemma interleaved_withdrawals:
  assumes ok: "levels_ok db" and l: "find_level db (so_branchId d1) (so_stockItemId d1) = Some l"
    and same: "so_branchId d2 = so_branchId d1" "so_stockItemId d2 = so_stockItemId d1"
    and w1: "stockOut_write env1 d1 u1 item l db = Inr (r1, db1)"
    and w2: "stockOut_write env2 d2 u2 item l db1 = Inr (r2, db2)"
    and key: "key = (so_branchId d1, so_stockItemId d1)"
  shows "on_hand db2 key = on_hand db key - so_quantity d2"
    "moved db2 key = moved db key - so_quantity d1 - so_quantity d2"
proof -
  note b1 = stockOut_write_books(1) [OF w1 ok l]
  obtain row where a: "add_movement (\<lambda>i. \<lparr>sm_id = i, sm_stockItemId = so_stockItemId d1,
        sm_branchId = so_branchId d1, sm_type = STOCK_OUT, sm_quantity = - so_quantity d1, sm_unitCost = unit_cost l item,
        sm_totalCost = map_option uminus (total_cost (so_quantity d1) (unit_cost l item)), sm_supplierId = None,
        sm_recordedById = u1, sm_reference = trimmed (so_reference d1), sm_note = trimmed (so_note d1),
        sm_receiptUrl = None, sm_createdAt = now env1\<rparr>) env1 (set_quantity env1 l (sl_quantityOnHand l - so_quantity d1) db)
        = Inr (row, db1)"
    using w1 by (auto simp: stockOut_write_def write_stock_def Let_def result_simps)
  let ?f = "\<lambda>x. x\<lparr>sl_quantityOnHand := sl_quantityOnHand l - so_quantity d1, sl_lastMovementAt := Some (now env1)\<rparr>"
  have l1: "find_level db1 (so_branchId d1) (so_stockItemId d1) = Some (?f l)"
    using update_level_ok(2) [OF ok l, of ?f] add_movement_spec(2) [OF a]
    by (simp add: set_quantity_def find_level_def level_key_def)
  have w2': "stockOut_write env2 d2 u2 item l db1 = write_stock env2 (?f l) (sl_quantityOnHand l - so_quantity d2)
      (\<lambda>i. \<lparr>sm_id = i, sm_stockItemId = so_stockItemId d2, sm_branchId = so_branchId d2, sm_type = STOCK_OUT,
        sm_quantity = - so_quantity d2, sm_unitCost = unit_cost l item,
        sm_totalCost = map_option uminus (total_cost (so_quantity d2) (unit_cost l item)), sm_supplierId = None,
        sm_recordedById = u2, sm_reference = trimmed (so_reference d2), sm_note = trimmed (so_note d2),
        sm_receiptUrl = None, sm_createdAt = now env2\<rparr>) db1"
    by (simp add: stockOut_write_def write_stock_def set_quantity_def Let_def)
  obtain row2 where a2: "add_movement (\<lambda>i. \<lparr>sm_id = i, sm_stockItemId = so_stockItemId d2, sm_branchId = so_branchId d2,
        sm_type = STOCK_OUT, sm_quantity = - so_quantity d2, sm_unitCost = unit_cost l item,
        sm_totalCost = map_option uminus (total_cost (so_quantity d2) (unit_cost l item)), sm_supplierId = None,
        sm_recordedById = u2, sm_reference = trimmed (so_reference d2), sm_note = trimmed (so_note d2),
        sm_receiptUrl = None, sm_createdAt = now env2\<rparr>) env2 (set_quantity env2 (?f l) (sl_quantityOnHand l - so_quantity d2) db1)
        = Inr (row2, db2)"
    using w2 unfolding w2' by (auto simp: write_stock_def result_simps)
  have "row2 = \<lparr>sm_id = sm_id row2, sm_stockItemId = so_stockItemId d2, sm_branchId = so_branchId d2,
        sm_type = STOCK_OUT, sm_quantity = - so_quantity d2, sm_unitCost = unit_cost l item,
        sm_totalCost = map_option uminus (total_cost (so_quantity d2) (unit_cost l item)), sm_supplierId = None,
        sm_recordedById = u2, sm_reference = trimmed (so_reference d2), sm_note = trimmed (so_note d2),
        sm_receiptUrl = None, sm_createdAt = now env2\<rparr>"
    using add_movement_spec(1) [OF a2] by simp
  then have row2: "movement_key row2 = key" "sm_quantity row2 = - so_quantity d2"
    by (metis (no_types, lifting) movement_key_def same key stock_movement.select_convs(2,3,5))+
  have "moved db2 key = moved db1 key - so_quantity d2"
    using add_movement_spec(3) [OF a2, of key] row2 by (simp add: moved_def)
  then show "moved db2 key = moved db key - so_quantity d1 - so_quantity d2"
    using b1 key by (simp add: books_def)
  have "on_hand db2 key = sl_quantityOnHand l - so_quantity d2"
    using set_quantity_hand(1) [OF books_ok [OF b1] l1, of env2 "sl_quantityOnHand l - so_quantity d2" key]
      books_hand [OF b1, of key] l add_movement_spec(2) [OF a2] key by (simp add: on_hand_def [of db])
  then show "on_hand db2 key = on_hand db key - so_quantity d2" using l key by (simp add: on_hand_def)
qed


subsection \<open>The moving average\<close>

lemma weighted_between:
  fixes a c p q :: rat
  assumes "0 \<le> p" "0 \<le> q" "0 < p + q"
  shows "min a c \<le> (a * p + c * q) / (p + q)" "(a * p + c * q) / (p + q) \<le> max a c"
proof -
  have "min a c * p \<le> a * p" "min a c * q \<le> c * q" "a * p \<le> max a c * p" "c * q \<le> max a c * q"
    using assms(1,2) by (simp_all add: mult_right_mono)
  then have "min a c * (p + q) \<le> a * p + c * q" "a * p + c * q \<le> max a c * (p + q)"
    by (simp_all add: distrib_left)
  with assms(3) show "min a c \<le> (a * p + c * q) / (p + q)" "(a * p + c * q) / (p + q) \<le> max a c"
    by (simp_all add: pos_le_divide_eq pos_divide_le_eq)
qed

lemma stockIn_average:
  assumes s: "stockIn env db dto userId = (Inr res, db')"
    and l: "find_level db (in_branchId dto) (in_stockItemId dto) = Some l" "sl_avgUnitCost l = Some a"
    and q: "sl_quantityOnHand l + in_quantity dto \<noteq> 0"
  shows "ir_newAvgUnitCost res = moving_average a (sl_quantityOnHand l) (in_unitCost dto) (in_quantity dto)"
proof -
  obtain ss db2 its m where "receive_level env dto (db\<lparr>suppliers := ss\<rparr>) =
      Inr ((ir_newQuantityOnHand res, ir_newAvgUnitCost res), db2)"
    by (rule stockIn_parts [OF s]) (rule that)
  with l q show ?thesis by (simp add: receive_level_def Let_def find_level_def)
qed

lemma oversold_average_low:
  fixes a c p q :: rat
  assumes "p < 0" "0 < p + q" "c < a"
  shows "moving_average a p c q < c"
proof -
  have "(a - c) * p < 0" using assms(1,3) by (simp add: mult_pos_neg)
  then have "a * p + c * q < c * (p + q)" by (simp add: algebra_simps)
  with assms(2) show ?thesis by (simp add: moving_average_def pos_divide_less_eq)
qed

subsection \<open>Properties\<close>

definition example_stock :: stock_db where
  "example_stock = \<lparr>suppliers = [\<lparr>su_id = ''s1'', su_name = ''Acme'', su_phone = None, su_address = None,
       su_isActive = True, su_createdAt = 0\<rparr>],
     inventoryCategories = [],
     stockItems = [\<lparr>si_id = ''i1'', si_code = ''HNG'', si_nameAr = ''hanger'', si_nameEn = None, si_unit = ''pcs'',
       si_categoryId = None, si_reorderPointDefault = 5, si_lastUnitCost = None, si_isActive = True\<rparr>],
     stockLevels = [\<lparr>sl_id = ''l1'', sl_branchId = ''b1'', sl_stockItemId = ''i1'', sl_quantityOnHand = 10,
       sl_reorderPoint = None, sl_avgUnitCost = Some 2, sl_lastMovementAt = None\<rparr>],
     stockMovements = [\<lparr>sm_id = ''m0'', sm_stockItemId = ''i1'', sm_branchId = ''b1'', sm_type = STOCK_IN,
       sm_quantity = 10, sm_unitCost = Some 2, sm_totalCost = Some 20, sm_supplierId = Some ''s1'',
       sm_recordedById = ''u1'', sm_reference = None, sm_note = None, sm_receiptUrl = None, sm_createdAt = 0\<rparr>],
     stockBranches = [\<lparr>br_id = ''b1'', br_name = ''Main''\<rparr>, \<lparr>br_id = ''b2'', br_name = ''Mall''\<rparr>],
     orderLines = [\<lparr>ol_id = ''o1-1'', ol_orderId = ''o1'', ol_label = None, ol_quantity = 12,
       ol_stockItemId = Some ''i1''\<rparr>]\<rparr>"

definition example_out :: "decimal \<Rightarrow> stock_out" where
  "example_out q = \<lparr>so_stockItemId = ''i1'', so_branchId = ''b1'', so_quantity = q, so_reference = None, so_note = None\<rparr>"

definition example_receipt :: "decimal \<Rightarrow> decimal \<Rightarrow> stock_in" where
  "example_receipt q c = \<lparr>in_stockItemId = ''i1'', in_branchId = ''b1'', in_quantity = q, in_unitCost = c,
     in_supplierId = Some ''s1'', in_supplierName = None, in_reference = None, in_note = None, in_receiptUrl = None\<rparr>"

lemma example_stock_ok:
  "levels_ok example_stock" "on_hand example_stock k = moved example_stock k" "stock_nonneg example_stock"
  "fresh_ids example_env example_stock"
proof -
  show "levels_ok example_stock" by (simp add: levels_ok_def example_stock_def)
  have hand: "on_hand example_stock k = (if k = (''b1'', ''i1'') then 10 else 0)" for k
    by (cases k) (simp add: on_hand_def example_stock_def find_level_def at_key_def)
  show "on_hand example_stock k = moved example_stock k"
    unfolding hand by (simp add: moved_def example_stock_def movement_key_def)
  show "stock_nonneg example_stock" by (simp add: stock_nonneg_def hand)
  show "fresh_ids example_env example_stock"
    by (simp add: fresh_ids_def example_env_def example_stock_def inj_def show_nat_inj)
qed

text \<open>
  C31: the stock levels can be rebuilt from the movements. If the quantity on hand of every item
  at every branch is the sum of its signed movements, it still is after any sequence of
  receipts, withdrawals, adjustments, transfers, stocktakes and order completions, whether they
  succeed or throw.
\<close>
theorem stock_is_sum_of_movements:
  assumes "levels_ok db" "on_hand db (branch, item) = moved db (branch, item)"
  shows "on_hand (fold exec_stock cmds db) (branch, item) = moved (fold exec_stock cmds db) (branch, item)"
  using stock.run_rebuilt [OF assms] .

theorem stock_is_sum_of_movements_witness:
  "on_hand (fold exec_stock [(example_env, Cmd_In (example_receipt 5 3) ''u1''),
      (example_env, Cmd_Out (example_out 40) ''u1''), (example_env, Cmd_Out (example_out 4) ''u1'')] example_stock) (''b1'', ''i1'')
   = moved (fold exec_stock [(example_env, Cmd_In (example_receipt 5 3) ''u1''),
      (example_env, Cmd_Out (example_out 40) ''u1''), (example_env, Cmd_Out (example_out 4) ''u1'')] example_stock) (''b1'', ''i1'')"
  using stock_is_sum_of_movements [OF example_stock_ok(1,2)] .

text \<open>
  C32: only the completion of an order can oversell. Through any sequence of the manual
  operations, with the quantities their DTOs admit, no quantity on hand becomes negative.
\<close>
theorem manual_stock_never_negative:
  assumes "levels_ok db" "stock_nonneg db" and manual: "\<forall>c\<in>set cmds. manual_cmd (snd c)"
  shows "stock_nonneg (fold exec_stock cmds db)"
  by (rule stock.run_invariant [where P = stock_nonneg, OF assms(1,2)]) (use manual stock_nonneg_step in fastforce)

theorem manual_stock_never_negative_witness:
  "stock_nonneg (fold exec_stock [(example_env, Cmd_Out (example_out 40) ''u1''),
     (example_env, Cmd_Out (example_out 10) ''u1'')] example_stock)"
  by (rule manual_stock_never_negative [OF example_stock_ok(1,3)]) simp

text \<open>
  a sale is never blocked by the stock. With fresh identifiers the decrement of a completed
  order returns, whatever the levels are, and takes from the level of every item it knows the
  quantities of the order's lines, below zero where they exceed it.
\<close>
theorem sale_never_blocked:
  assumes "fresh_ids env db" "levels_ok db" "str_truthy (da_branchId args)"
    "find_branch db (nullish (da_branchId args) []) \<noteq> None"
  shows "\<exists>db'. applyOrderStockDecrement env db args = Inr ((), db')
    \<and> (\<forall>k. on_hand db' k = on_hand db k - taken db (nullish (da_branchId args) [])
         (filter (\<lambda>l. ol_orderId l = da_orderId args \<and> ol_stockItemId l \<noteq> None) (orderLines db)) k)"
proof -
  obtain db' where r: "applyOrderStockDecrement env db args = Inr ((), db')"
    using fresh_decrement [OF assms(1)] by blast
  let ?lines = "filter (\<lambda>l. ol_orderId l = da_orderId args \<and> ol_stockItemId l \<noteq> None) (orderLines db)"
  have "on_hand db' k = on_hand db k - taken db (nullish (da_branchId args) []) ?lines k" for k
  proof (cases "?lines = []")
    case True
    with r assms(3) have "db' = db" by (simp add: applyOrderStockDecrement_def Let_def)
    with True show ?thesis by (simp add: taken_def)
  next
    case False
    with r assms(3,4) obtain ref where
      "decrement_lines env args (nullish (da_branchId args) []) ref ?lines db = Inr ((), db')"
      by (auto simp: applyOrderStockDecrement_def Let_def)
    from books_hand [OF decrement_lines_books [OF this assms(2)], of k] show ?thesis by simp
  qed
  with r show ?thesis by blast
qed

theorem sale_never_blocked_witness:
  "\<exists>db'. applyOrderStockDecrement example_env example_stock \<lparr>da_orderId = ''o1'', da_actorUserId = ''u1'',
      da_branchId = Some ''b1'', da_reference = None\<rparr> = Inr ((), db') \<and> on_hand db' (''b1'', ''i1'') = - 2"
proof -
  let ?a = "\<lparr>da_orderId = ''o1'', da_actorUserId = ''u1'', da_branchId = Some ''b1'', da_reference = None\<rparr>"
  have "str_truthy (da_branchId ?a)" "find_branch example_stock (nullish (da_branchId ?a) []) \<noteq> None"
    by (simp_all add: str_truthy_def example_stock_def find_row_def)
  from sale_never_blocked [OF example_stock_ok(4,1) this] show ?thesis
    by (auto simp: taken_def on_hand_def find_level_def at_key_def example_stock_def str_truthy_def find_row_def)
qed

text \<open>
  Two withdrawals that overlap lose one. Both transactions read the level before either
  writes: both pass the check of the quantity, the second overwrites the level the first wrote,
  and the level no longer is the sum of the movements.
\<close>
theorem overlapping_withdrawals_lose_one:
  assumes ok: "levels_ok db" and key: "key = (so_branchId d1, so_stockItemId d1)"
    and same: "so_branchId d2 = so_branchId d1" "so_stockItemId d2 = so_stockItemId d1"
    and read: "stockOut_read env1 d1 db = Inr ((item, l), db)" "stockOut_read env2 d2 db = Inr ((item, l), db)"
    and w1: "stockOut_write env1 d1 u1 item l db = Inr (r1, db1)"
    and w2: "stockOut_write env2 d2 u2 item l db1 = Inr (r2, db2)"
    and agree: "on_hand db key = moved db key"
  shows "on_hand db2 key = on_hand db key - so_quantity d2 \<and> on_hand db2 key - moved db2 key = so_quantity d1"
  using interleaved_withdrawals [OF ok stockOut_read_spec(2) [OF read(1) ok] same w1 w2 key] agree by simp_all

theorem overlapping_withdrawals_lose_one_witness:
  "\<exists>item l db1 db2 r1 r2. stockOut_read example_env (example_out 6) example_stock = Inr ((item, l), example_stock)
     \<and> stockOut_write example_env (example_out 6) ''u1'' item l example_stock = Inr (r1, db1)
     \<and> stockOut_write example_env (example_out 7) ''u2'' item l db1 = Inr (r2, db2)
     \<and> on_hand db2 (''b1'', ''i1'') = 3 \<and> on_hand db2 (''b1'', ''i1'') - moved db2 (''b1'', ''i1'') = 6"
proof -
  let ?item = "hd (stockItems example_stock)" and ?l = "hd (stockLevels example_stock)"
  have e: "ensureItemAndLevel example_env example_stock ''i1'' ''b1'' = Inr ((?item, ?l), example_stock)"
    by (simp add: ensureItemAndLevel_def example_stock_def find_row_def find_level_def at_key_def)
  have q: "sl_quantityOnHand ?l = 10" by (simp add: example_stock_def)
  have read: "stockOut_read example_env (example_out 6) example_stock = Inr ((?item, ?l), example_stock)"
    "stockOut_read example_env (example_out 7) example_stock = Inr ((?item, ?l), example_stock)"
    by (simp_all add: stockOut_read_def example_out_def e q)
  obtain r1 db1 where w1: "stockOut_write example_env (example_out 6) ''u1'' ?item ?l example_stock = Inr (r1, db1)"
    and f: "fresh_ids example_env db1"
    unfolding stockOut_write_def Let_def
    using fresh_write_stock [OF example_stock_ok(4)] by (metis (no_types, lifting) stock_movement.select_convs(1))
  obtain r2 db2 where w2: "stockOut_write example_env (example_out 7) ''u2'' ?item ?l db1 = Inr (r2, db2)"
    unfolding stockOut_write_def Let_def
    using fresh_write_stock [OF f] by (metis (no_types, lifting) stock_movement.select_convs(1))
  have key: "(''b1'', ''i1'') = (so_branchId (example_out 6), so_stockItemId (example_out 6))"
    and same: "so_branchId (example_out 7) = so_branchId (example_out 6)"
      "so_stockItemId (example_out 7) = so_stockItemId (example_out 6)" by (simp_all add: example_out_def)
  have ten: "on_hand example_stock (''b1'', ''i1'') = 10"
    by (simp add: on_hand_def find_level_def at_key_def example_stock_def)
  show ?thesis using read(1) w1 w2 ten overlapping_withdrawals_lose_one
      [OF example_stock_ok(1) key same read w1 w2 example_stock_ok(2)]
    by (intro exI conjI) (assumption | simp add: example_out_def)+
qed

text \<open>
  a receipt prices what is on hand between its old average and the new cost, and keeps the
  value, as long as the quantity was not negative. After an oversale it prices it outside that
  range: a receipt that is cheaper than the old average leaves an average below its own cost.
\<close>
theorem receipt_average:
  assumes "stockIn env db dto userId = (Inr res, db')"
    "find_level db (in_branchId dto) (in_stockItemId dto) = Some l" "sl_avgUnitCost l = Some a"
    "0 < in_quantity dto" "0 < sl_quantityOnHand l + in_quantity dto"
  shows "ir_newAvgUnitCost res * (sl_quantityOnHand l + in_quantity dto)
      = a * sl_quantityOnHand l + in_unitCost dto * in_quantity dto
    \<and> (0 \<le> sl_quantityOnHand l \<longrightarrow> min a (in_unitCost dto) \<le> ir_newAvgUnitCost res
      \<and> ir_newAvgUnitCost res \<le> max a (in_unitCost dto))
    \<and> (sl_quantityOnHand l < 0 \<and> in_unitCost dto < a \<longrightarrow> ir_newAvgUnitCost res < in_unitCost dto)"
proof -
  have avg: "ir_newAvgUnitCost res = moving_average a (sl_quantityOnHand l) (in_unitCost dto) (in_quantity dto)"
    using stockIn_average [OF assms(1-3)] assms(5) by simp
  then have "ir_newAvgUnitCost res * (sl_quantityOnHand l + in_quantity dto)
      = a * sl_quantityOnHand l + in_unitCost dto * in_quantity dto"
    using assms(5) by (simp add: moving_average_def)
  moreover have "min a (in_unitCost dto) \<le> ir_newAvgUnitCost res \<and> ir_newAvgUnitCost res \<le> max a (in_unitCost dto)"
    if "0 \<le> sl_quantityOnHand l"
    using weighted_between [OF that _ assms(5)] assms(4) by (simp add: avg moving_average_def)
  moreover have "ir_newAvgUnitCost res < in_unitCost dto" if "sl_quantityOnHand l < 0" "in_unitCost dto < a"
    using oversold_average_low [OF that(1) assms(5) that(2)] by (simp add: avg)
  ultimately show ?thesis by blast
qed

definition oversold_stock :: stock_db where
  "oversold_stock = update_level ''l1'' (\<lambda>l. l\<lparr>sl_quantityOnHand := - 5\<rparr>) example_stock"

theorem receipt_average_witness:
  "\<exists>res db'. stockIn example_env oversold_stock (example_receipt 15 1) ''u1'' = (Inr res, db')
     \<and> ir_newAvgUnitCost res * 10 = 5 \<and> ir_newAvgUnitCost res < 1"
proof -
  let ?dto = "example_receipt 15 1" and ?l = "hd (stockLevels oversold_stock)"
  have l: "find_level oversold_stock (in_branchId ?dto) (in_stockItemId ?dto) = Some ?l" "sl_avgUnitCost ?l = Some 2"
    "sl_quantityOnHand ?l = - 5"
    by (simp_all add: example_receipt_def oversold_stock_def example_stock_def update_level_def update_row_def
        find_level_def at_key_def)
  obtain res db' where s: "stockIn example_env oversold_stock ?dto ''u1'' = (Inr res, db')"
    by (simp add: stockIn_def stockIn_tx_def oversold_stock_def example_stock_def example_receipt_def update_level_def
        update_row_def find_row_def resolve_supplier_def receive_level_def find_level_def at_key_def add_movement_def
        commit_def str_truthy_def example_env_def show_nat_eval Let_def)
  have "0 < in_quantity ?dto" "0 < sl_quantityOnHand ?l + in_quantity ?dto" by (simp_all add: l example_receipt_def)
  from receipt_average [OF s l(1,2) this] s show ?thesis by (auto simp: l example_receipt_def)
qed

end
