(* ===== verification/Wallet_Store.thy ===== *)
theory Wallet_Store
  imports Cash_Store Order_Balances Journal_Effects Transaction_Processor Inventory
begin

text \<open>
  The tables of the customer ledger (\<open>prisma/schema.prisma\<close>) on top of the journal: wallets,
  orders, subscription plans, subscriptions, the transaction history, the single-entry ledger
  and the stock. The operations are functions into \<open>result \<times> ledger_db\<close>; \<open>bindS\<close> runs the
  next statement on the state the previous one left. A transaction that throws is rolled back
  by its caller. The row lock of a wallet orders transactions and changes no table.

  Also here: \<open>src/customer-ledger/wallet.service.ts\<close>,
  \<open>src/customer-ledger/debt-registration.service.ts\<close> and the operational debt of
  \<open>src/orders/order-collections-read.service.ts\<close>. Exponents, hexadecimal digits and infinities
  in the text of an amount are not modelled: the callers print amounts with decimal digits.
\<close>

subsection \<open>Statements\<close>

definition bindS :: "'a result \<times> 's \<Rightarrow> ('a \<Rightarrow> 's \<Rightarrow> 'b result \<times> 's) \<Rightarrow> 'b result \<times> 's" where
  "bindS m f = (case m of (Inl e, s) \<Rightarrow> (Inl e, s) | (Inr x, s) \<Rightarrow> f x s)"

definition throwS :: "error \<Rightarrow> 's \<Rightarrow> 'a result \<times> 's" where
  "throwS e s = (Inl e, s)"

definition returnS :: "'a \<Rightarrow> 's \<Rightarrow> 'a result \<times> 's" where
  "returnS x s = (Inr x, s)"

lemma bindS_Inr [simp]: "bindS (Inr x, s) f = f x s"
  by (simp add: bindS_def)

lemma bindS_Inl [simp]: "bindS (Inl e, s) f = (Inl e, s)"
  by (simp add: bindS_def)

lemma bindS_Inr_iff [result_simps]:
  "bindS m f = (Inr y, t) \<longleftrightarrow> (\<exists>x s. m = (Inr x, s) \<and> f x s = (Inr y, t))"
  by (auto simp: bindS_def split: prod.splits sum.splits)

lemma throwS_Inr [simp]: "throwS e s = (Inr x, t) \<longleftrightarrow> False"
  by (simp add: throwS_def)

lemma returnS_Inr [simp]: "returnS x s = (Inr y, t) \<longleftrightarrow> y = x \<and> t = s"
  by (auto simp: returnS_def)

subsection \<open>Tables\<close>

datatype subscription_status = SUB_ACTIVE | SUB_EXPIRED | SUB_ROLLED_OVER | SUB_CUT_OFF | SUB_CANCELLED
datatype history_type = SUBSCRIPTION_ACTIVATION | ORDER_WALLET_SETTLEMENT | SUBSCRIPTION_CANCELLATION

record customer_row =
  cu_id :: uuid
  cu_originBranchId :: "uuid option"

record customer_wallet = wallet_row +
  wl_subscriptionActivatedAt :: "timestamp option"
  wl_subscriptionExpiresAt :: "timestamp option"
  wl_subscriptionPlanId :: "uuid option"
  wl_subscriptionPlanName :: "string option"
  wl_autoRenewSubscription :: bool

record ledger_order =
  lo_id :: uuid
  lo_customerId :: uuid
  lo_driverId :: "uuid option"
  lo_totalPrice :: decimal
  lo_status :: order_status
  lo_cashStatus :: cash_status
  lo_posPaymentMethod :: "pos_payment_method option"
  lo_walletSettledAt :: "timestamp option"
  lo_posPaymentBundleId :: "uuid option"
  lo_subscriptionId :: "uuid option"
  lo_createdAt :: timestamp
  lo_completedAt :: "timestamp option"

record subscription_plan =
  sp_id :: uuid
  sp_name :: string
  sp_salePrice :: decimal
  sp_actualBalance :: decimal
  sp_validityDays :: int
  sp_isActive :: bool

record customer_subscription =
  sb_id :: uuid
  sb_customerId :: uuid
  sb_planId :: "uuid option"
  sb_status :: subscription_status
  sb_planNameSnapshot :: string
  sb_planSalePriceSnapshot :: decimal
  sb_planActualBalanceSnapshot :: decimal
  sb_planValidityDaysSnapshot :: int
  sb_carriedBalanceKd :: decimal
  sb_parentSubscriptionId :: "uuid option"
  sb_activatedAt :: timestamp
  sb_expiresAt :: timestamp
  sb_closedAt :: "timestamp option"
  sb_closedReason :: "string option"
  sb_createdAt :: timestamp

record history_row =
  th_id :: uuid
  th_type :: history_type
  th_customerId :: uuid
  th_orderId :: "uuid option"
  th_subscriptionId :: "uuid option"
  th_amount :: decimal
  th_balanceBefore :: decimal
  th_balanceAfter :: decimal
  th_debtBefore :: decimal
  th_debtAfter :: decimal
  th_metadata :: "(string \<times> json) list"
  th_performedById :: "uuid option"
  th_createdAt :: timestamp

record ledger_db = journal_db +
  lgUsers :: "user_row list"
  lgCustomers :: "customer_row list"
  lgWallets :: "customer_wallet list"
  lgOrders :: "ledger_order list"
  lgPlans :: "subscription_plan list"
  lgSubscriptions :: "customer_subscription list"
  lgHistory :: "history_row list"
  lgGl :: "gl_entry list"
  lgStock :: stock_db

abbreviation find_actor :: "ledger_db \<Rightarrow> uuid \<Rightarrow> user_row option" where
  "find_actor db \<equiv> find_row us_id (lgUsers db)"

abbreviation find_ledger_order :: "ledger_db \<Rightarrow> uuid \<Rightarrow> ledger_order option" where
  "find_ledger_order db \<equiv> find_row lo_id (lgOrders db)"

abbreviation find_wallet :: "ledger_db \<Rightarrow> uuid \<Rightarrow> customer_wallet option" where
  "find_wallet db \<equiv> find_row wl_customerId (lgWallets db)"

definition update_order :: "uuid \<Rightarrow> (ledger_order \<Rightarrow> ledger_order) \<Rightarrow> ledger_db \<Rightarrow> ledger_db" where
  "update_order i f db = db\<lparr>lgOrders := update_row lo_id i f (lgOrders db)\<rparr>"

definition update_wallet :: "uuid \<Rightarrow> (customer_wallet \<Rightarrow> customer_wallet) \<Rightarrow> ledger_db \<Rightarrow> ledger_db" where
  "update_wallet c f db = db\<lparr>lgWallets := update_row wl_customerId c f (lgWallets db)\<rparr>"

text \<open>The order table as the computation of the remaining balances reads it.\<close>

definition order_rows :: "ledger_db \<Rightarrow> order_row list" where
  "order_rows db = map (\<lambda>o'. \<lparr>or_id = lo_id o', or_customerId = Some (lo_customerId o'),
     or_totalPrice = lo_totalPrice o', or_status = lo_status o'\<rparr>) (lgOrders db)"

text \<open>\<open>GeneralLedgerService.append\<close> on this store.\<close>

definition ledger_append :: "env \<Rightarrow> append_ledger \<Rightarrow> ledger_db \<Rightarrow> ledger_db" where
  "ledger_append env row db = db\<lparr>lgGl := lgGl db @ [
     \<lparr>gl_id = new_uuid env (length (lgGl db)), gl_entryType = al_entryType row, gl_amount = al_amount row,
      gl_memo = al_memo row, gl_metadata = al_metadata row, gl_customerId = al_customerId row,
      gl_orderId = al_orderId row, gl_expenseId = al_expenseId row, gl_actorUserId = al_actorUserId row,
      gl_createdAt = now env\<rparr>]\<rparr>"

definition add_history :: "env \<Rightarrow> (uuid \<Rightarrow> history_row) \<Rightarrow> ledger_db \<Rightarrow> uuid result \<times> ledger_db" where
  "add_history env row db = (let i = new_uuid env (length (lgHistory db)) in
     if i \<in> th_id ` set (lgHistory db) then (Inl unique_violation, db)
     else (Inr i, db\<lparr>lgHistory := lgHistory db @ [row i]\<rparr>))"

subsection \<open>Amounts as text\<close>

text \<open>\<open>Decimal.toString\<close> of an amount with at most four decimals.\<close>

definition decimal_string :: "decimal \<Rightarrow> string" where
  "decimal_string x = (let s = rev (dropWhile (\<lambda>c. c = CHR ''0'') (rev (to_fixed4 x)))
     in if s \<noteq> [] \<and> last s = CHR ''.'' then butlast s else s)"

text \<open>\<open>new Prisma.Decimal(s)\<close> on decimal digits with an optional sign and fraction.\<close>

definition unsigned_decimal :: "string \<Rightarrow> decimal option" where
  "unsigned_decimal s = (case split_on (CHR ''.'') s of
       [i] \<Rightarrow> if i \<noteq> [] \<and> list_all is_digit i then Some (of_nat (digits_val i)) else None
     | [i, f] \<Rightarrow> if (i \<noteq> [] \<or> f \<noteq> []) \<and> list_all is_digit (i @ f)
         then Some (of_nat (digits_val (i @ f)) / 10 ^ length f) else None
     | _ \<Rightarrow> None)"

fun new_decimal :: "string \<Rightarrow> decimal result" where
  "new_decimal [] = Inl (Error ''[DecimalError] Invalid argument: '')"
| "new_decimal (c # s) = (case (if c = CHR ''-'' then map_option uminus (unsigned_decimal s)
       else if c = CHR ''+'' then unsigned_decimal s else unsigned_decimal (c # s)) of
     None \<Rightarrow> Inl (Error (''[DecimalError] Invalid argument: '' @ c # s))
   | Some x \<Rightarrow> Inr x)"

subsection \<open>Wallets\<close>

definition new_wallet :: "uuid \<Rightarrow> customer_wallet" where
  "new_wallet c = \<lparr>wl_customerId = c, wl_balance = 0, wl_debt = 0, wl_subscriptionActivatedAt = None,
     wl_subscriptionExpiresAt = None, wl_subscriptionPlanId = None, wl_subscriptionPlanName = None,
     wl_autoRenewSubscription = False\<rparr>"

definition getOrCreateWalletTx :: "uuid \<Rightarrow> ledger_db \<Rightarrow> customer_wallet \<times> ledger_db" where
  "getOrCreateWalletTx c db = (case find_wallet db c of
       Some w \<Rightarrow> (w, db)
     | None \<Rightarrow> (new_wallet c, db\<lparr>lgWallets := lgWallets db @ [new_wallet c]\<rparr>))"

definition toggleAutoRenewSubscription :: "uuid \<Rightarrow> bool \<Rightarrow> ledger_db \<Rightarrow> customer_wallet result \<times> ledger_db" where
  "toggleAutoRenewSubscription c autoRenew db = (case find_wallet db c of
       None \<Rightarrow> (Inl (KnownRequestError ''P2025'' ''Record to update not found.''), db)
     | Some w \<Rightarrow> (Inr (w\<lparr>wl_autoRenewSubscription := autoRenew\<rparr>),
         update_wallet c (\<lambda>x. x\<lparr>wl_autoRenewSubscription := autoRenew\<rparr>) db))"

subsection \<open>The receivable of a payment link\<close>

definition PAYMENT_LINK_RECEIVABLE_SOURCE :: string where
  "PAYMENT_LINK_RECEIVABLE_SOURCE = ''PAYMENT_LINK_RECEIVABLE''"

definition paymentLinkReceivableSourceRef :: "uuid \<Rightarrow> string" where
  "paymentLinkReceivableSourceRef orderId = PAYMENT_LINK_RECEIVABLE_SOURCE @ '':'' @ orderId"

definition receivable_input :: "uuid \<Rightarrow> uuid \<Rightarrow> decimal \<Rightarrow> append_input" where
  "receivable_input orderId customerId amount =
     (let meta = event_meta PAYMENT_LINK_RECEIVABLE_SOURCE [(''orderId'', JString orderId)] in
      \<lparr>ai_source = PAYMENT_LINK_RECEIVABLE_SOURCE, ai_sourceRef = paymentLinkReceivableSourceRef orderId,
       ai_actorUserId = ''00000000-0000-0000-0000-000000000000'', ai_customerId = Some customerId,
       ai_orderId = Some orderId, ai_branchId = None, ai_effectiveAt = None, ai_allowReversal = False,
       ai_lines = [debit_line ACCOUNTS_RECEIVABLE amount meta, credit_line REVENUE amount meta]\<rparr>)"

definition registerPendingPaymentLinkReceivableTx :: "env \<Rightarrow> uuid \<Rightarrow> uuid \<Rightarrow> decimal \<Rightarrow> ledger_db \<Rightarrow>
    unit result \<times> ledger_db" where
  "registerPendingPaymentLinkReceivableTx env orderId customerId amount db =
     (if amount \<le> 0 then (Inr (), db)
      else if find_entry_id db (paymentLinkReceivableSourceRef orderId) \<noteq> None then (Inr (), db)
      else
        let (wallet, db1) = getOrCreateWalletTx customerId db;
            db2 = update_wallet customerId (\<lambda>w. w\<lparr>wl_debt := wl_debt wallet + amount\<rparr>) db1
        in bindS (appendBalanced env db2 (receivable_input orderId customerId amount)) (\<lambda>_. returnS ()))"

subsection \<open>Operational debt\<close>

definition resolveOperationalDebtKd :: "decimal \<Rightarrow> decimal \<Rightarrow> decimal \<Rightarrow> decimal" where
  "resolveOperationalDebtKd ledgerNetKd snapshotFromWalletKd orderMarketScopeKd = max ledgerNetKd snapshotFromWalletKd"

record operational_debt =
  od_walletDebtKd :: decimal
  od_collectionsReceivableKd :: decimal
  od_operationalDebtKd :: decimal

text \<open>
  The set of open order identifiers and the diagnostic trace of the result are left out; the
  gross total of the open invoices does not enter the amounts.
\<close>

definition getOperationalDebtKdBreakdown :: "ledger_db \<Rightarrow> uuid \<Rightarrow> decimal \<Rightarrow> operational_debt" where
  "getOperationalDebtKdBreakdown db customerId walletDebtKd =
     (let (_, _, ledgerNetKd) = getCustomerNetDebtFromDebtLedgerAgg db True customerId;
          snapshotFromWalletKd = getCustomerDebtSnapshotTotalKd (map wallet_row.truncate (lgWallets db)) customerId;
          operationalDebtKd = resolveOperationalDebtKd ledgerNetKd snapshotFromWalletKd walletDebtKd
      in \<lparr>od_walletDebtKd = walletDebtKd, od_collectionsReceivableKd = max (operationalDebtKd - walletDebtKd) 0,
          od_operationalDebtKd = operationalDebtKd\<rparr>)"

end
