(* ===== verification/Customer_Ledger.thy ===== *)
theory Customer_Ledger
  imports Wallet_Store
begin

text \<open>
  \<open>src/customer-ledger/customer-ledger.service.ts\<close>: the settlement of a completed order
  against the wallet, the collection of an invoice that was sold on account, and the partial
  payment of a customer's debt. Logging, the published events and the consistency check that
  runs after the commit are left out. \<open>minor_of\<close> is \<open>toMinorFromFixed4\<close>, which never
  throws; \<open>amount_of_minor\<close> is \<open>decimalFromMinor\<close>.
\<close>

definition minor_of :: "decimal \<Rightarrow> int" where
  "minor_of x = (case toMinorFromFixed4 x of Inr m \<Rightarrow> m | Inl e \<Rightarrow> 0)"

definition em_dash :: string where "em_dash = [CHR 0xE2, CHR 0x80, CHR 0x94]"

fun role_name :: "safari_role \<Rightarrow> string" where
  "role_name OWNER = ''OWNER''"
| "role_name GENERAL_MANAGER = ''GENERAL_MANAGER''"
| "role_name MANAGER = ''MANAGER''"
| "role_name DRIVER = ''DRIVER''"
| "role_name WORKER = ''WORKER''"
| "role_name CALL_CENTER = ''CALL_CENTER''"
| "role_name CALL_CENTER_SUPERVISOR = ''CALL_CENTER_SUPERVISOR''"
| "role_name FLEET_SUPERVISOR = ''FLEET_SUPERVISOR''"
| "role_name ACCOUNTANT = ''ACCOUNTANT''"
| "role_name SUPERVISOR = ''SUPERVISOR''"
| "role_name VIEWER = ''VIEWER''"
| "role_name CUSTOMER = ''CUSTOMER''"

definition resolveDebtCategory :: "safari_role \<Rightarrow> string" where
  "resolveDebtCategory role =
     (if role = OWNER then ''OWNER'' else if role = DRIVER then ''DRIVER''
      else if role = CALL_CENTER \<or> role = CALL_CENTER_SUPERVISOR then ''CALL_CENTER'' else ''BRANCH'')"

definition resolveFallbackOwnerIdTx :: "ledger_db \<Rightarrow> uuid option" where
  "resolveFallbackOwnerIdTx db = map_option us_id (find (\<lambda>u. us_role u = OWNER) (lgUsers db))"

definition ensureCustomerOriginBranchTx :: "uuid \<Rightarrow> uuid option \<Rightarrow> ledger_db \<Rightarrow> ledger_db" where
  "ensureCustomerOriginBranchTx customerId branchId db =
     (if \<not> str_truthy branchId then db
      else db\<lparr>lgCustomers := map (\<lambda>c. if cu_id c = customerId \<and> cu_originBranchId c = None
         then c\<lparr>cu_originBranchId := branchId\<rparr> else c) (lgCustomers db)\<rparr>)"

fun json_flag :: "string \<Rightarrow> (string \<times> json) list option \<Rightarrow> bool" where
  "json_flag k None = False"
| "json_flag k (Some fs) = (map_of fs k = Some (JBool True))"

subsection \<open>The amounts of a settlement\<close>

definition ALLOWED_SETTLEMENT_ROLES :: "safari_role list" where
  "ALLOWED_SETTLEMENT_ROLES = [OWNER, DRIVER, CALL_CENTER, CALL_CENTER_SUPERVISOR, MANAGER, ACCOUNTANT]"

record settle_prefetch =
  pf_customerId :: uuid
  pf_totalPrice :: decimal
  pf_posPaymentMethod :: "pos_payment_method option"
  pf_walletSettledAt :: "timestamp option"

definition external_method :: "pos_payment_method option \<Rightarrow> bool" where
  "external_method m \<longleftrightarrow> m = Some PM_CASH \<or> m = Some PM_KNET \<or> m = Some PM_ONLINE \<or> m = Some PAYMENT_LINK"

text \<open>\<open>debtSettled\<close> of the caller's metadata; a number has at most four decimals.\<close>

definition debt_settled_str :: "(string \<times> json) list option \<Rightarrow> string option" where
  "debt_settled_str extra = (case json_field ''debtSettled'' (map_option JObject extra) of
       Some (JString s) \<Rightarrow> if js_trim s \<noteq> [] then Some (js_trim s) else None
     | Some (JDecimal d) \<Rightarrow> Some (decimal_string d)
     | _ \<Rightarrow> None)"

definition trusted_debt_settlement :: "(string \<times> json) list option \<Rightarrow> string \<Rightarrow> bool" where
  "trusted_debt_settlement extra settled \<longleftrightarrow> json_flag ''debtSettlementViaCallCenter'' extra
     \<or> json_flag ''debtSettlementViaLink'' extra
       \<and> (case json_field ''gatewayConfirmedAmountKd'' (map_option JObject extra) of
            Some (JString g) \<Rightarrow> js_trim g = settled | _ \<Rightarrow> False)"

record settlement =
  se_totalMinor :: int
  se_safeTakeMinor :: int
  se_shortfallMinor :: int
  se_newBalanceMinor :: int
  se_newDebtMinor :: int
  se_paydownMinor :: int
  se_addInvoiceDebt :: bool
  se_addedInvoiceDebtMinor :: int
  se_addedSubscriptionDebtMinor :: int
  se_externalCoversShortfall :: bool
  se_debtSettledStr :: "string option"

text \<open>The portion of \<open>debtSettled\<close> that pays down the aggregate debt, and the debt left.\<close>

definition settle_paydown :: "env \<Rightarrow> (string \<times> json) list option \<Rightarrow> int \<Rightarrow> int \<Rightarrow> (int \<times> int) result" where
  "settle_paydown env extra shortfall debt =
     (case debt_settled_str extra of
        None \<Rightarrow> Inr (0, debt)
      | Some settled \<Rightarrow>
          if \<not> trusted_debt_settlement extra settled
          then Inl (BadRequestException ''debtSettled requires a verified gateway receipt or call-center collection path'')
          else bindE (new_decimal settled) (\<lambda>d.
            let declared = minor_of d in
            if declared > 0 \<and> isV20_3TrueAccountingEnabled env
            then let actual = (if debt > 0 then debt else shortfall); paydown = min declared actual
                 in Inr (paydown, if debt > paydown then debt - paydown else 0)
            else if declared > 0 \<and> debt > 0
            then let paydown = min declared debt in Inr (paydown, debt - paydown)
            else Inr (0, debt)))"

definition settlement_of :: "env \<Rightarrow> decimal \<Rightarrow> pos_payment_method option \<Rightarrow> customer_wallet \<Rightarrow>
    (string \<times> json) list option \<Rightarrow> settlement result" where
  "settlement_of env totalPrice method wallet extra =
     (let total = minor_of totalPrice; balance = minor_of (wl_balance wallet); debt = minor_of (wl_debt wallet);
          isWallet = (method = Some SUBSCRIPTION_WALLET); isDebt = (method = Some DEBT_ON_ACCOUNT);
          take = (if (isWallet \<or> isDebt) \<and> balance > 0 then min balance total else 0);
          shortfall = total - take;
          beforeSub = (if balance < 0 then - balance else 0);
          newBalance = balance - take;
          external = external_method method;
          addInvoiceDebt = (isDebt \<or> isWallet \<or> (\<not> isWallet \<and> \<not> external));
          debt1 = (if addInvoiceDebt \<and> shortfall > 0 then debt + shortfall else debt)
      in bindE (settle_paydown env extra shortfall debt1) (\<lambda>(paydown, newDebt).
        let afterSub = (if newBalance < 0 then - newBalance else 0)
        in Inr \<lparr>se_totalMinor = total, se_safeTakeMinor = take, se_shortfallMinor = shortfall,
             se_newBalanceMinor = newBalance, se_newDebtMinor = newDebt, se_paydownMinor = paydown,
             se_addInvoiceDebt = addInvoiceDebt,
             se_addedInvoiceDebtMinor = (if addInvoiceDebt \<and> shortfall > 0 then shortfall else 0),
             se_addedSubscriptionDebtMinor = (if isWallet \<and> afterSub > beforeSub then afterSub - beforeSub else 0),
             se_externalCoversShortfall = external, se_debtSettledStr = debt_settled_str extra\<rparr>))"

subsection \<open>The writes of a settlement\<close>

record settle_ctx =
  sc_orderId :: uuid
  sc_customerId :: uuid
  sc_totalPrice :: decimal
  sc_method :: "pos_payment_method option"
  sc_actor :: user_row
  sc_extra :: "(string \<times> json) list option"
  sc_amounts :: settlement

definition method_json :: "pos_payment_method option \<Rightarrow> json" where
  "method_json m = json_option (map_option pos_name m)"

definition active_subscription :: "ledger_db \<Rightarrow> uuid \<Rightarrow> uuid option" where
  "active_subscription db customerId = (case sort_key (\<lambda>s. - sb_createdAt s)
       (filter (\<lambda>s. sb_customerId s = customerId \<and> sb_status s = SUB_ACTIVE) (lgSubscriptions db)) of
     [] \<Rightarrow> None | s # _ \<Rightarrow> Some (sb_id s))"

definition tag_subscription :: "settle_ctx \<Rightarrow> ledger_db \<Rightarrow> unit result \<times> ledger_db" where
  "tag_subscription ctx db = (case active_subscription db (sc_customerId ctx) of
       None \<Rightarrow> (Inr (), db)
     | Some s \<Rightarrow>
         if find_ledger_order db (sc_orderId ctx) = None
         then (Inl (KnownRequestError ''P2025'' ''Record to update not found.''), db)
         else (Inr (), update_order (sc_orderId ctx) (\<lambda>r. r\<lparr>lo_subscriptionId := Some s\<rparr>) db))"

definition settle_metadata :: "settle_ctx \<Rightarrow> uuid option \<Rightarrow> (string \<times> json) list" where
  "settle_metadata ctx sub = (let a = sc_amounts ctx in
     nullish (sc_extra ctx) []
     @ [(''appliedFromWallet'', JString (minorToAmountString (se_safeTakeMinor a))),
        (''orderTotal'', JString (decimal_string (sc_totalPrice ctx))),
        (''addedToDebt'', JString (minorToAmountString (se_addedInvoiceDebtMinor a))),
        (''addedSubscriptionDebt'', JString (minorToAmountString (se_addedSubscriptionDebtMinor a))),
        (''posPaymentMethod'', method_json (sc_method ctx)),
        (''externalCoversShortfall'', JBool (se_externalCoversShortfall a \<and> se_shortfallMinor a > 0))]
     @ (if se_paydownMinor a > 0
        then [(''debtPaydownFromSettlement'', JString (minorToAmountString (se_paydownMinor a)))] else [])
     @ [(''reportingCategory'', JString ''DAILY_SALES''), (''subscriptionId'', json_option sub)])"

definition settle_history :: "env \<Rightarrow> settle_ctx \<Rightarrow> customer_wallet \<Rightarrow> ledger_db \<Rightarrow> unit result \<times> ledger_db" where
  "settle_history env ctx wallet db =
     (let sub = active_subscription db (sc_customerId ctx); a = sc_amounts ctx in
      if find_ledger_order db (sc_orderId ctx) = None
      then (Inl (KnownRequestError ''P2003'' ''Foreign key constraint violated''), db)
      else bindS (add_history env (\<lambda>i. \<lparr>th_id = i, th_type = ORDER_WALLET_SETTLEMENT,
        th_customerId = sc_customerId ctx, th_orderId = Some (sc_orderId ctx), th_subscriptionId = sub,
        th_amount = sc_totalPrice ctx, th_balanceBefore = wl_balance wallet,
        th_balanceAfter = amount_of_minor (se_newBalanceMinor a), th_debtBefore = wl_debt wallet,
        th_debtAfter = amount_of_minor (se_newDebtMinor a), th_metadata = settle_metadata ctx sub,
        th_performedById = Some (us_id (sc_actor ctx)), th_createdAt = now env\<rparr>) db) (\<lambda>_. returnS ()))"

definition settle_amount_input :: "settle_ctx \<Rightarrow> decimal \<Rightarrow> order_amount_input" where
  "settle_amount_input ctx amount = \<lparr>oi_customerId = sc_customerId ctx, oi_orderId = sc_orderId ctx,
     oi_actorUserId = us_id (sc_actor ctx), oi_amount = amount\<rparr>"

definition settle_issue :: "env \<Rightarrow> settle_ctx \<Rightarrow> ledger_db \<Rightarrow> unit result \<times> ledger_db" where
  "settle_issue env ctx db =
     (let immediate = ((sc_method ctx = Some PM_ONLINE \<or> sc_method ctx = Some PAYMENT_LINK)
            \<and> find_entry_id db (paymentLinkReceivableSourceRef (sc_orderId ctx)) \<noteq> None)
      in if isV20_3TrueAccountingEnabled env \<and> se_totalMinor (sc_amounts ctx) > 0 \<and> \<not> immediate
         then bindS (appendInvoiceIssuanceEntrySafe env db (settle_amount_input ctx (sc_totalPrice ctx)))
           (\<lambda>_. returnS ())
         else (Inr (), db))"

definition settle_mirror :: "settle_ctx \<Rightarrow> string \<Rightarrow> int \<Rightarrow> string \<Rightarrow> string option \<Rightarrow> string \<Rightarrow> mirror_input" where
  "settle_mirror ctx source minor ref method note = \<lparr>mi_source = source, mi_amount = amount_of_minor minor,
     mi_sourceRef = Some ref, mi_actorUserId = Some (us_id (sc_actor ctx)), mi_customerId = sc_customerId ctx,
     mi_orderId = Some (sc_orderId ctx), mi_paymentMethod = method, mi_note = Some note\<rparr>"

definition settle_gl :: "env \<Rightarrow> settle_ctx \<Rightarrow> int \<Rightarrow> string \<Rightarrow> (string \<times> json) list \<Rightarrow> ledger_db \<Rightarrow> ledger_db" where
  "settle_gl env ctx minor memo meta = ledger_append env \<lparr>al_entryType = DEBT_ADJUSTMENT,
     al_amount = amount_of_minor minor, al_memo = Some memo, al_metadata = Some (JObject meta),
     al_customerId = Some (sc_customerId ctx), al_orderId = Some (sc_orderId ctx), al_expenseId = None,
     al_actorUserId = Some (us_id (sc_actor ctx))\<rparr>"

definition actor_meta :: "settle_ctx \<Rightarrow> string \<Rightarrow> (string \<times> json) list" where
  "actor_meta ctx source = [(''source'', JString source),
     (''category'', JString (resolveDebtCategory (us_role (sc_actor ctx)))),
     (''branchId'', json_option (us_branchId (sc_actor ctx)))]"

definition settle_shortfall :: "env \<Rightarrow> settle_ctx \<Rightarrow> ledger_db \<Rightarrow> unit result \<times> ledger_db" where
  "settle_shortfall env ctx db =
     (let a = sc_amounts ctx; true_acc = isV20_3TrueAccountingEnabled env;
          recorded = (if true_acc then if se_addInvoiceDebt a \<and> se_totalMinor a > 0 then se_totalMinor a else 0
            else se_addedInvoiceDebtMinor a)
      in if recorded \<le> 0 then (Inr (), db)
         else bindS (if true_acc then (Inr None, db)
           else mirrorDebtLedgerEntrySafe env db (settle_mirror ctx ''INVOICE_SHORTFALL'' recorded
             (''INVOICE:'' @ sc_orderId ctx @ '':SHORTFALL'') None ''Invoice shortfall recorded as receivable''))
           (\<lambda>_ db1. (Inr (), settle_gl env ctx recorded
              (if true_acc then ''Invoice issued (full receivable)'' else ''Invoice shortfall recorded as receivable'')
              (actor_meta ctx ''INVOICE_SHORTFALL'' @ [(''v20_3'', JBool true_acc)]) db1)))"

definition settle_overuse :: "env \<Rightarrow> settle_ctx \<Rightarrow> ledger_db \<Rightarrow> unit result \<times> ledger_db" where
  "settle_overuse env ctx db =
     (let m = se_addedSubscriptionDebtMinor (sc_amounts ctx) in
      if m \<le> 0 then (Inr (), db)
      else bindS (mirrorDebtLedgerEntrySafe env db (settle_mirror ctx ''SUBSCRIPTION_OVERUSE'' m
          (''INVOICE:'' @ sc_orderId ctx @ '':SUBSCRIPTION_OVERUSE'') None ''Subscription balance allowed to go negative''))
        (\<lambda>_ db1. (Inr (), settle_gl env ctx m ''Subscription balance allowed to go negative''
           (actor_meta ctx ''SUBSCRIPTION_OVERUSE'') db1)))"

definition payment_check :: "int \<Rightarrow> uuid \<Rightarrow> string \<Rightarrow> ledger_db \<Rightarrow> unit result \<times> ledger_db" where
  "payment_check minor actor ref db = (assertDebtLedgerPaymentWrite \<lparr>dp_source = ''PAYMENT'',
     dp_amount = amount_of_minor minor, dp_actorUserId = Some actor, dp_sourceRef = Some ref, dp_note = None\<rparr>, db)"

definition settle_absorb :: "env \<Rightarrow> settle_ctx \<Rightarrow> ledger_db \<Rightarrow> unit result \<times> ledger_db" where
  "settle_absorb env ctx db =
     (let m = se_safeTakeMinor (sc_amounts ctx); inp = settle_amount_input ctx (amount_of_minor m) in
      if m \<le> 0 then (Inr (), db)
      else bindS (payment_check m (us_id (sc_actor ctx)) (''PAYMENT:WALLET:'' @ sc_orderId ctx @ '':APPLIED'') db)
        (\<lambda>_ db1. bindS (if isV20_3TrueAccountingEnabled env
             then appendWalletAbsorptionEntryV3Safe env db1 inp
             else appendWalletAbsorptionEntrySafe env db1 inp) (\<lambda>_. returnS ())))"

definition settle_mark :: "env \<Rightarrow> settle_ctx \<Rightarrow> ledger_db \<Rightarrow> ledger_db" where
  "settle_mark env ctx = update_order (sc_orderId ctx)
     (\<lambda>r. if lo_walletSettledAt r = None then r\<lparr>lo_walletSettledAt := Some (now env)\<rparr> else r)"

definition settle_trigger :: "(string \<times> json) list option \<Rightarrow> string" where
  "settle_trigger extra = (if json_flag ''debtSettlementViaCallCenter'' extra then ''CALL_CENTER_MANUAL''
     else if json_flag ''debtSettlementViaLink'' extra then ''PAYMENT_LINK_CALLBACK'' else ''WALLET_SETTLEMENT'')"

definition settle_external :: "env \<Rightarrow> settle_ctx \<Rightarrow> ledger_db \<Rightarrow> unit result \<times> ledger_db" where
  "settle_external env ctx db =
     (let a = sc_amounts ctx;
          m = (if isV20_3TrueAccountingEnabled env \<and> se_externalCoversShortfall a \<and> se_shortfallMinor a > 0
               then se_shortfallMinor a else se_paydownMinor a)
      in case sc_method ctx of
           None \<Rightarrow> (Inr (), db)
         | Some pm \<Rightarrow>
             if m \<le> 0 then (Inr (), db)
             else bindS (appendExternalPaymentEntrySafe env db \<lparr>ep_customerId = sc_customerId ctx,
                ep_orderId = Some (sc_orderId ctx), ep_actorUserId = us_id (sc_actor ctx),
                ep_amount = amount_of_minor m, ep_paymentMethod = pos_name pm,
                ep_paymentRef = sc_orderId ctx @ '':'' @ pos_name pm @ '':'' @ settle_trigger (sc_extra ctx),
                ep_note = Some (if se_paydownMinor a > 0 then ''Invoice debt settled (wallet settlement)''
                  else ''External payment settled invoice receivable'')\<rparr>) (\<lambda>_. returnS ()))"

definition settle_paydown_rows :: "env \<Rightarrow> settle_ctx \<Rightarrow> ledger_db \<Rightarrow> unit result \<times> ledger_db" where
  "settle_paydown_rows env ctx db =
     (let a = sc_amounts ctx; m = se_paydownMinor a; trigger = settle_trigger (sc_extra ctx);
          origin = (case sc_method ctx of Some pm \<Rightarrow> if external_method (Some pm) then pos_name pm else trigger
            | None \<Rightarrow> trigger);
          ref = ''PAYMENT:'' @ origin @ '':'' @ sc_orderId ctx @ '':'' @ trigger
      in if m \<le> 0 then (Inr (), db)
         else bindS (payment_check m (us_id (sc_actor ctx)) ref db) (\<lambda>_ db1.
           bindS (if isV20_3TrueAccountingEnabled env then (Inr None, db1)
             else mirrorDebtLedgerEntrySafe env db1 (settle_mirror ctx ''PAYMENT'' m ref
               (map_option pos_name (sc_method ctx)) ''Invoice debt settled (wallet settlement)''))
           (\<lambda>_ db2. (Inr (), settle_gl env ctx (- m) ''Debt payment recorded on unified ledger''
              (actor_meta ctx ''PAYMENT'' @ [(''trigger'', JString trigger),
                (''declaredDebtSettled'', json_option (se_debtSettledStr a))]) db2))))"

definition settle_writes :: "env \<Rightarrow> settle_ctx \<Rightarrow> customer_wallet \<Rightarrow> ledger_db \<Rightarrow> unit result \<times> ledger_db" where
  "settle_writes env ctx wallet db =
     (let a = sc_amounts ctx;
          db1 = update_wallet (sc_customerId ctx) (\<lambda>w. w\<lparr>wl_balance := amount_of_minor (se_newBalanceMinor a),
            wl_debt := amount_of_minor (se_newDebtMinor a)\<rparr>) db
      in bindS (tag_subscription ctx db1) (\<lambda>_ db2.
         bindS (settle_history env ctx wallet db2) (\<lambda>_ db3.
         bindS (settle_issue env ctx db3) (\<lambda>_ db4.
         bindS (settle_shortfall env ctx db4) (\<lambda>_ db5.
         bindS (settle_overuse env ctx db5) (\<lambda>_ db6.
         bindS (settle_absorb env ctx db6) (\<lambda>_ db7.
         bindS (settle_external env ctx (settle_mark env ctx db7)) (\<lambda>_ db8.
         settle_paydown_rows env ctx db8))))))))"

definition applyOrderWalletSettlementForCompletedOrder :: "env \<Rightarrow> uuid \<Rightarrow> uuid \<Rightarrow> settle_prefetch option \<Rightarrow>
    (string \<times> json) list option \<Rightarrow> ledger_db \<Rightarrow> unit result \<times> ledger_db" where
  "applyOrderWalletSettlementForCompletedOrder env orderId performedBy prefetch extra db =
     (case (case prefetch of Some p \<Rightarrow> Some p
        | None \<Rightarrow> map_option (\<lambda>r. \<lparr>pf_customerId = lo_customerId r, pf_totalPrice = lo_totalPrice r,
            pf_posPaymentMethod = lo_posPaymentMethod r, pf_walletSettledAt = lo_walletSettledAt r\<rparr>)
            (find_ledger_order db orderId)) of
        None \<Rightarrow> throwS (NotFoundException ''Order not found'') db
      | Some p \<Rightarrow>
          if pf_walletSettledAt p \<noteq> None then (Inr (), db)
          else (case find_actor db performedBy of
            None \<Rightarrow> throwS (NotFoundException (''Performing user not found '' @ em_dash @ '' cannot record wallet settlement'')) db
          | Some actor \<Rightarrow>
              if us_role actor \<notin> set ALLOWED_SETTLEMENT_ROLES
              then throwS (BadRequestException (''Role '' @ CHR 0x22 # role_name (us_role actor) @ CHR 0x22 #
                '' is not authorised to perform wallet settlements'')) db
              else
                let db1 = ensureCustomerOriginBranchTx (pf_customerId p) (us_branchId actor) db in
                if minor_of (pf_totalPrice p) < 0
                then throwS (BadRequestException ''Order total cannot be negative'') db1
                else
                  let (wallet, db2) = getOrCreateWalletTx (pf_customerId p) db1 in
                  if (case find_ledger_order db2 orderId of None \<Rightarrow> None | Some r \<Rightarrow> lo_walletSettledAt r) \<noteq> None
                  then (Inr (), db2)
                  else (case settlement_of env (pf_totalPrice p) (pf_posPaymentMethod p) wallet extra of
                      Inl e \<Rightarrow> throwS e db2
                    | Inr a \<Rightarrow> settle_writes env \<lparr>sc_orderId = orderId, sc_customerId = pf_customerId p,
                        sc_totalPrice = pf_totalPrice p, sc_method = pf_posPaymentMethod p, sc_actor = actor,
                        sc_extra = extra, sc_amounts = a\<rparr> wallet db2)))"

end
