(* ===== verification/Customer_Collections.thy ===== *)
theory Customer_Collections
  imports Customer_Ledger
begin

text \<open>
  \<open>src/customer-ledger/customer-ledger.service.ts\<close>: the collection of an invoice that was
  sold on account (\<open>recordDebtInvoiceCollectedAtCallCenter\<close>) and the partial payment of a
  customer's debt with a discount (\<open>recordPartialDebtPayment\<close>).
\<close>

subsection \<open>An invoice sold on account is collected\<close>

datatype collection_kind = COLLECTION_APPLIED | ALREADY_CLEARED

record collection_params =
  cp_orderId :: uuid
  cp_confirmedMethod :: pos_payment_method
  cp_performedByUserId :: uuid

definition mark_collected :: "collection_params \<Rightarrow> ledger_db \<Rightarrow> ledger_db" where
  "mark_collected p = update_order (cp_orderId p) (\<lambda>r. r\<lparr>lo_posPaymentMethod := Some (cp_confirmedMethod p),
     lo_cashStatus := cashStatusForPaymentMethod (Some (cp_confirmedMethod p))\<rparr>)"

definition collection_order :: "collection_params \<Rightarrow> ledger_db \<Rightarrow> ledger_order result" where
  "collection_order p db = (case find_ledger_order db (cp_orderId p) of
       None \<Rightarrow> Inl (NotFoundException ''Order not found'')
     | Some r \<Rightarrow>
         if lo_status r = CANCELED
         then Inl (BadRequestException (''Order is canceled '' @ em_dash @ '' cannot record collection''))
         else if lo_posPaymentMethod r \<noteq> Some DEBT_ON_ACCOUNT
         then Inl (BadRequestException ''This path only applies to invoices that were sold as debt-on-account'')
         else if lo_walletSettledAt r = None
         then Inl (BadRequestException (''Invoice has no ledger booking yet '' @ em_dash @
                '' use the standard manual mark flow''))
         else Inr r)"

definition existing_collection :: "ledger_db \<Rightarrow> uuid \<Rightarrow> journal_entry option" where
  "existing_collection db orderId = find (\<lambda>e. je_orderId e = Some orderId \<and> je_source e = ''PAYMENT''
     \<and> starts_with (je_sourceRef e) ''PAYMENT:CC_DEBT_INVOICE_PHYSICAL:'') (journalEntries db)"

definition collection_journal :: "env \<Rightarrow> collection_params \<Rightarrow> uuid \<Rightarrow> int \<Rightarrow> ledger_db \<Rightarrow>
    uuid option result \<times> ledger_db" where
  "collection_journal env p customerId paydown db =
     (let oid = cp_orderId p; m = pos_name (cp_confirmedMethod p);
          note = ''Debt-on-account invoice collected at Call Center''
      in if isV20_3TrueAccountingEnabled env
         then appendExternalPaymentEntrySafe env db \<lparr>ep_customerId = customerId, ep_orderId = Some oid,
           ep_actorUserId = cp_performedByUserId p, ep_amount = amount_of_minor paydown, ep_paymentMethod = m,
           ep_paymentRef = oid @ '':'' @ m @ '':CC_DEBT_INVOICE_PHYSICAL'', ep_note = Some note\<rparr>
         else mirrorDebtLedgerEntrySafe env db \<lparr>mi_source = ''PAYMENT'', mi_amount = amount_of_minor paydown,
           mi_sourceRef = Some (''PAYMENT:CC_DEBT_INVOICE_PHYSICAL:'' @ oid @ '':'' @ m),
           mi_actorUserId = Some (cp_performedByUserId p), mi_customerId = customerId, mi_orderId = Some oid,
           mi_paymentMethod = Some m, mi_note = Some note\<rparr>)"

definition collection_history :: "env \<Rightarrow> collection_params \<Rightarrow> uuid \<Rightarrow> customer_wallet \<Rightarrow> int \<Rightarrow> int \<Rightarrow> uuid \<Rightarrow> history_row" where
  "collection_history env p customerId wallet paydown newDebt i = \<lparr>th_id = i, th_type = ORDER_WALLET_SETTLEMENT,
     th_customerId = customerId, th_orderId = Some (cp_orderId p), th_subscriptionId = None,
     th_amount = amount_of_minor paydown, th_balanceBefore = wl_balance wallet, th_balanceAfter = wl_balance wallet,
     th_debtBefore = wl_debt wallet, th_debtAfter = amount_of_minor newDebt,
     th_metadata = [(''debtSettled'', JString (minorToAmountString paydown)),
       (''debtSettlementViaCallCenter'', JBool True),
       (''confirmedPaymentMethod'', JString (pos_name (cp_confirmedMethod p))),
       (''originalPaymentMethod'', JString ''DEBT_ON_ACCOUNT''),
       (''reportingCategory'', JString ''DEBT_INVOICE_PHYSICAL_COLLECTION'')],
     th_performedById = Some (cp_performedByUserId p), th_createdAt = now env\<rparr>"

text \<open>The statements after the invoice was found to be open.\<close>

definition collection_book :: "env \<Rightarrow> collection_params \<Rightarrow> uuid \<Rightarrow> int \<Rightarrow> customer_wallet \<Rightarrow> ledger_db \<Rightarrow>
    collection_kind result \<times> ledger_db" where
  "collection_book env p customerId remaining wallet db =
     (let debt = minor_of (wl_debt wallet); paydown = min remaining debt; newDebt = debt - paydown in
      if paydown \<le> 0
      then throwS (BadRequestException (''Aggregate wallet debt is zero while this invoice still carries an open balance ''
             @ em_dash @ '' contact accounting'')) db
      else
        let db1 = update_wallet customerId (\<lambda>w. w\<lparr>wl_debt := amount_of_minor newDebt\<rparr>) db in
        (case find_actor db1 (cp_performedByUserId p) of
           None \<Rightarrow> throwS (NotFoundException ''Performing user not found'') db1
         | Some actor \<Rightarrow>
             let branchId = (case find_row cu_id (lgCustomers db1) customerId of
                   Some c \<Rightarrow> (case cu_originBranchId c of Some b \<Rightarrow> Some b | None \<Rightarrow> us_branchId actor)
                 | None \<Rightarrow> us_branchId actor)
             in bindS (add_history env (collection_history env p customerId wallet paydown newDebt) db1) (\<lambda>_ db2.
                bindS (payment_check paydown (cp_performedByUserId p) (''PAYMENT:CC_DEBT_INVOICE_PHYSICAL:''
                   @ cp_orderId p @ '':'' @ pos_name (cp_confirmedMethod p)) db2) (\<lambda>_ db3.
                bindS (collection_journal env p customerId paydown db3) (\<lambda>_ db4.
                let db5 = ledger_append env \<lparr>al_entryType = DEBT_ADJUSTMENT, al_amount = - amount_of_minor paydown,
                      al_memo = Some ''Debt-on-account invoice collected via Call Center'',
                      al_metadata = Some (JObject [(''event'', JString ''DEBT_COLLECTED''),
                        (''source'', JString ''CC_DEBT_INVOICE_PHYSICAL''),
                        (''posPaymentMethod'', JString (pos_name (cp_confirmedMethod p))),
                        (''category'', JString (resolveDebtCategory (us_role actor))),
                        (''branchId'', json_option branchId)]),
                      al_customerId = Some customerId, al_orderId = Some (cp_orderId p), al_expenseId = None,
                      al_actorUserId = Some (cp_performedByUserId p)\<rparr> db4
                in (Inr COLLECTION_APPLIED, if paydown \<ge> remaining then mark_collected p db5 else db5))))))"

definition recordDebtInvoiceCollectedAtCallCenter :: "env \<Rightarrow> collection_params \<Rightarrow> ledger_db \<Rightarrow>
    collection_kind result \<times> ledger_db" where
  "recordDebtInvoiceCollectedAtCallCenter env p db =
     (case collection_order p db of
        Inl e \<Rightarrow> throwS e db
      | Inr r \<Rightarrow>
          let remaining = nullish (computeOrderRemainingBalancesBatch env db True (order_rows db) [cp_orderId p]
                (cp_orderId p)) 0
          in if remaining \<le> 0 then (Inr ALREADY_CLEARED, mark_collected p db)
             else
               let (wallet, db1) = getOrCreateWalletTx (lo_customerId r) db in
               (case existing_collection db1 (cp_orderId p) of
                  Some e \<Rightarrow> throwS (ConflictException (''Order '' @ cp_orderId p @
                    '' already has a CC collection journal entry ('' @ je_id e @ ''). No duplicate settlement permitted.'')) db1
                | None \<Rightarrow> collection_book env p (lo_customerId r) (minor_of remaining) wallet db1))"

subsection \<open>A partial payment with a discount\<close>

record partial_payment =
  pp_customerId :: uuid
  pp_amountKd :: decimal
  pp_discountKd :: "decimal option"
  pp_paymentMethod :: pos_payment_method
  pp_performedByUserId :: uuid
  pp_note :: "string option"

record partial_result =
  pr_amountCollectedKd :: string
  pr_discountAppliedKd :: string
  pr_totalReducedKd :: string
  pr_previousDebtKd :: string
  pr_newDebtKd :: string
  pr_walletBalanceKd :: string
  pr_paymentMethod :: pos_payment_method
  pr_transactionHistoryId :: uuid

text \<open>
  The loop over the open invoices, oldest first: the amount each one gets, in the order of the
  map's insertion, and whether that closes it.
\<close>

fun allocate_fifo :: "(uuid \<rightharpoonup> decimal) \<Rightarrow> int \<Rightarrow> ledger_order list \<Rightarrow> (uuid \<times> int \<times> bool) list" where
  "allocate_fifo rem remaining [] = []"
| "allocate_fifo rem remaining (iv # invs) =
     (if remaining \<le> 0 then []
      else case rem (lo_id iv) of
        None \<Rightarrow> allocate_fifo rem remaining invs
      | Some r \<Rightarrow>
          if r \<le> 0 then allocate_fifo rem remaining invs
          else if minor_of r \<le> minor_of INVOICE_REMAINING_TOLERANCE_KD then allocate_fifo rem remaining invs
          else
            let applied = min (minor_of r) remaining
            in (lo_id iv, applied, applied \<ge> minor_of r) # allocate_fifo rem (remaining - applied) invs)"

definition open_invoices :: "ledger_db \<Rightarrow> uuid \<Rightarrow> ledger_order list" where
  "open_invoices db customerId = sort_key lo_createdAt (filter (\<lambda>r. lo_customerId r = customerId
     \<and> lo_cashStatus r = UNPAID \<and> lo_status r \<noteq> CANCELED) (lgOrders db))"

definition partial_allocation :: "env \<Rightarrow> ledger_db \<Rightarrow> uuid \<Rightarrow> int \<Rightarrow> (uuid \<times> int \<times> bool) list" where
  "partial_allocation env db customerId totalMinor =
     (let candidates = open_invoices db customerId in
      allocate_fifo (computeOrderRemainingBalancesBatch env db True (order_rows db) (map lo_id candidates))
        totalMinor candidates)"

definition close_invoices :: "pos_payment_method \<Rightarrow> (uuid \<times> int \<times> bool) list \<Rightarrow> ledger_db \<Rightarrow> ledger_db" where
  "close_invoices method allocs db = foldl (\<lambda>d (i, m, closes). if closes then update_order i
     (\<lambda>r. r\<lparr>lo_cashStatus := PAID_TO_DRIVER, lo_posPaymentMethod := Some method\<rparr>) d else d) db allocs"

definition partial_mirror :: "partial_payment \<Rightarrow> uuid \<Rightarrow> uuid option \<Rightarrow> string \<Rightarrow> int \<Rightarrow> mirror_input" where
  "partial_mirror p th order tag minor = \<lparr>mi_source = ''PAYMENT'', mi_amount = amount_of_minor minor,
     mi_sourceRef = Some (''PAYMENT:CC_PARTIAL_DEBT_PAYMENT:'' @ th @ '':'' @ tag),
     mi_actorUserId = Some (pp_performedByUserId p), mi_customerId = pp_customerId p, mi_orderId = order,
     mi_paymentMethod = Some (pos_name (pp_paymentMethod p)),
     mi_note = Some (nullish (pp_note p) ''Partial debt payment collected via Call Center'')\<rparr>"

text \<open>The payment rows: one per allocation, one for what the amount leaves unallocated.\<close>

definition partial_rows :: "partial_payment \<Rightarrow> uuid \<Rightarrow> int \<Rightarrow> (uuid \<times> int \<times> bool) list \<Rightarrow> mirror_input list" where
  "partial_rows p th amount allocs =
     (let residual = amount - (\<Sum>a\<leftarrow>allocs. fst (snd a)) in
      map (\<lambda>(i, m, closes). partial_mirror p th (Some i) i m) allocs
      @ (if residual > 0 then [partial_mirror p th None ''RESIDUAL'' residual] else []))"

fun mirror_rows :: "env \<Rightarrow> mirror_input list \<Rightarrow> ledger_db \<Rightarrow> unit result \<times> ledger_db" where
  "mirror_rows env [] db = (Inr (), db)"
| "mirror_rows env (row # rows) db =
     bindS (assertDebtLedgerPaymentWrite \<lparr>dp_source = mi_source row, dp_amount = mi_amount row,
         dp_actorUserId = mi_actorUserId row, dp_sourceRef = mi_sourceRef row, dp_note = None\<rparr>, db) (\<lambda>_ db1.
     bindS (mirrorDebtLedgerEntrySafe env db1 row) (\<lambda>_ db2. mirror_rows env rows db2))"

definition partial_gl :: "env \<Rightarrow> partial_payment \<Rightarrow> user_row \<Rightarrow> uuid option \<Rightarrow> int \<Rightarrow> string \<Rightarrow> string \<Rightarrow>
    (string \<times> json) list \<Rightarrow> ledger_db \<Rightarrow> ledger_db" where
  "partial_gl env p actor branchId minor memo event extra = ledger_append env \<lparr>al_entryType = DEBT_ADJUSTMENT,
     al_amount = - amount_of_minor minor, al_memo = Some memo,
     al_metadata = Some (JObject ([(''event'', JString event), (''source'', JString ''CC_PARTIAL_DEBT_PAYMENT'')] @ extra
       @ [(''category'', JString (resolveDebtCategory (us_role actor))), (''branchId'', json_option branchId),
          (''note'', json_option (pp_note p))])),
     al_customerId = Some (pp_customerId p), al_orderId = None, al_expenseId = None,
     al_actorUserId = Some (pp_performedByUserId p)\<rparr>"

definition partial_payment_rows :: "env \<Rightarrow> partial_payment \<Rightarrow> user_row \<Rightarrow> uuid option \<Rightarrow> uuid \<Rightarrow> int \<Rightarrow>
    (uuid \<times> int \<times> bool) list \<Rightarrow> ledger_db \<Rightarrow> unit result \<times> ledger_db" where
  "partial_payment_rows env p actor branchId th amount allocs db =
     (if amount \<le> 0 then (Inr (), db)
      else mirror_rows env (partial_rows p th amount allocs) (partial_gl env p actor branchId amount
        ''Partial debt payment collected via Call Center'' ''DEBT_COLLECTED''
        [(''posPaymentMethod'', JString (pos_name (pp_paymentMethod p)))] db))"

definition partial_discount_rows :: "env \<Rightarrow> partial_payment \<Rightarrow> user_row \<Rightarrow> uuid option \<Rightarrow> uuid \<Rightarrow> int \<Rightarrow>
    ledger_db \<Rightarrow> unit result \<times> ledger_db" where
  "partial_discount_rows env p actor branchId th discount db =
     (if discount \<le> 0 then (Inr (), db)
      else bindS (appendDebtDiscountEntrySafe env (partial_gl env p actor branchId discount
          ''Goodwill debt discount granted via Call Center'' ''DEBT_DISCOUNTED'' [] db)
          \<lparr>di_customerId = pp_customerId p, di_orderId = None, di_actorUserId = pp_performedByUserId p,
           di_amount = amount_of_minor discount, di_discountRef = pp_customerId p @ '':'' @ th,
           di_note = pp_note p\<rparr>) (\<lambda>_. returnS ()))"

definition partial_history :: "env \<Rightarrow> partial_payment \<Rightarrow> customer_wallet \<Rightarrow> int \<Rightarrow> int \<Rightarrow> int \<Rightarrow>
    (uuid \<times> int \<times> bool) list \<Rightarrow> string \<Rightarrow> uuid \<Rightarrow> history_row" where
  "partial_history env p wallet amount discount newDebt allocs after i =
     (let closed = map fst (filter (\<lambda>(i, m, closes). closes) allocs) in
      \<lparr>th_id = i, th_type = ORDER_WALLET_SETTLEMENT, th_customerId = pp_customerId p, th_orderId = None,
       th_subscriptionId = None, th_amount = amount_of_minor (amount + discount),
       th_balanceBefore = wl_balance wallet, th_balanceAfter = wl_balance wallet,
       th_debtBefore = wl_debt wallet, th_debtAfter = amount_of_minor newDebt,
       th_metadata = [(''debtPaymentOnly'', JBool True), (''debtSettled'', JString (minorToAmountString amount)),
         (''debtDiscount'', JString (minorToAmountString discount)),
         (''debtReduced'', JString (minorToAmountString (amount + discount))),
         (''posPaymentMethod'', JString (pos_name (pp_paymentMethod p))),
         (''reportingCategory'', JString ''DEBT_COLLECTION_CC''), (''note'', json_option (pp_note p)),
         (''autoClosedInvoiceCount'', JDecimal (of_nat (length closed))),
         (''operationalDebtAfterKd'', JString after), (''effectiveDebtAfterKd'', JString after)],
       th_performedById = Some (pp_performedByUserId p), th_createdAt = now env\<rparr>)"

definition recordPartialDebtPayment_tx :: "env \<Rightarrow> partial_payment \<Rightarrow> ledger_db \<Rightarrow> partial_result result \<times> ledger_db" where
  "recordPartialDebtPayment_tx env p db =
     (case find_row cu_id (lgCustomers db) (pp_customerId p) of
        None \<Rightarrow> throwS (NotFoundException ''Customer not found'') db
      | Some customer \<Rightarrow>
     (case find_actor db (pp_performedByUserId p) of
        None \<Rightarrow> throwS (NotFoundException ''Performing user not found'') db
      | Some actor \<Rightarrow>
          let (wallet, db1) = getOrCreateWalletTx (pp_customerId p) db;
              amount = minor_of (pp_amountKd p); discount = minor_of (nullish (pp_discountKd p) 0);
              total = amount + discount; debt = minor_of (wl_debt wallet);
              before = getOperationalDebtKdBreakdown db1 (pp_customerId p) (wl_debt wallet)
          in if amount < 0 \<or> discount < 0
             then throwS (BadRequestException ''Amount and discount must both be non-negative'') db1
             else if total = 0
             then throwS (BadRequestException ''At least one of amount or discount must be greater than zero'') db1
             else if total > minor_of (od_operationalDebtKd before)
             then throwS (BadRequestException (''Amount + discount cannot exceed total outstanding debt (''
               @ to_fixed4 (od_operationalDebtKd before) @ '' KD)'')) db1
             else
               let newDebt = debt - min total debt;
                   db2 = update_wallet (pp_customerId p) (\<lambda>w. w\<lparr>wl_debt := amount_of_minor newDebt\<rparr>) db1;
                   allocs = partial_allocation env db2 (pp_customerId p) total;
                   db3 = close_invoices (pp_paymentMethod p) allocs db2;
                   after = to_fixed4 (od_operationalDebtKd
                     (getOperationalDebtKdBreakdown db3 (pp_customerId p) (amount_of_minor newDebt)));
                   branchId = (case cu_originBranchId customer of Some b \<Rightarrow> Some b | None \<Rightarrow> us_branchId actor)
               in bindS (add_history env (partial_history env p wallet amount discount newDebt allocs after) db3) (\<lambda>th db4.
                  bindS (partial_payment_rows env p actor branchId th amount allocs db4) (\<lambda>_ db5.
                  bindS (partial_discount_rows env p actor branchId th discount db5) (\<lambda>_ db6.
                  returnS \<lparr>pr_amountCollectedKd = minorToAmountString amount,
                    pr_discountAppliedKd = minorToAmountString discount, pr_totalReducedKd = minorToAmountString total,
                    pr_previousDebtKd = to_fixed4 (od_operationalDebtKd before), pr_newDebtKd = after,
                    pr_walletBalanceKd = decimal_string (wl_balance wallet), pr_paymentMethod = pp_paymentMethod p,
                    pr_transactionHistoryId = th\<rparr> db6)))))"

definition ledger_transaction :: "ledger_db \<Rightarrow> 'a result \<times> ledger_db \<Rightarrow> 'a result \<times> ledger_db" where
  "ledger_transaction db r = (case fst r of Inl e \<Rightarrow> (Inl e, db) | Inr x \<Rightarrow> (Inr x, snd r))"

definition recordPartialDebtPayment :: "env \<Rightarrow> partial_payment \<Rightarrow> ledger_db \<Rightarrow> partial_result result \<times> ledger_db" where
  "recordPartialDebtPayment env p db = ledger_transaction db (recordPartialDebtPayment_tx env p db)"

end
