(* ===== verification/Customer_Subscriptions.thy ===== *)
theory Customer_Subscriptions
  imports Customer_Collections Clock
begin

text \<open>
  \<open>src/customer-ledger/customer-ledger.service.ts\<close>: the settlement of open invoices from the
  prepaid balance (\<open>autoReconcileUnpaidInvoicesFromPrepaidBalanceTx\<close>), the activation of a
  subscription plan and its early cancellation. \<open>FOR UPDATE SKIP LOCKED\<close> finds no locked row
  when transactions run one after the other. The list of closed invoices in the metadata of
  the activation's ledger row, the printed fraction of the remaining term and the Arabic words of
  the memo of a refund are left out.
\<close>

subsection \<open>Open invoices are paid from the prepaid balance\<close>

definition next_unpaid :: "ledger_db \<Rightarrow> uuid \<Rightarrow> ledger_order option" where
  "next_unpaid db customerId = (case sort_key lo_createdAt (filter (\<lambda>r. lo_customerId r = customerId
       \<and> lo_cashStatus r = UNPAID \<and> lo_status r \<noteq> CANCELED \<and> lo_walletSettledAt r = None
       \<and> lo_posPaymentBundleId r = None) (lgOrders db)) of [] \<Rightarrow> None | r # _ \<Rightarrow> Some r)"

definition branch_of :: "ledger_db \<Rightarrow> uuid option \<Rightarrow> uuid option" where
  "branch_of db u = (case u of None \<Rightarrow> None | Some i \<Rightarrow>
     (case find_actor db i of None \<Rightarrow> None | Some a \<Rightarrow> us_branchId a))"

definition lift_stock :: "(unit \<times> stock_db) result \<Rightarrow> ledger_db \<Rightarrow> unit result \<times> ledger_db" where
  "lift_stock r db = (case r of Inl e \<Rightarrow> (Inl e, db) | Inr (_, s) \<Rightarrow> (Inr (), db\<lparr>lgStock := s\<rparr>))"

definition reconcile_sale :: "env \<Rightarrow> uuid \<Rightarrow> ledger_order \<Rightarrow> ledger_db \<Rightarrow> unit result \<times> ledger_db" where
  "reconcile_sale env performer inv' db =
     (if lo_status inv' = ORDER_COMPLETED then (Inr (), db)
      else
        let db1 = ledger_append env \<lparr>al_entryType = POS_SALE_COMPLETED, al_amount = lo_totalPrice inv',
              al_memo = Some ''POS checkout (prepaid auto-reconcile)'',
              al_metadata = Some (JObject [(''posPaymentMethod'', JString ''SUBSCRIPTION_WALLET''),
                (''source'', JString ''PREPAID_AUTO_RECONCILE'')]),
              al_customerId = Some (lo_customerId inv'), al_orderId = Some (lo_id inv'), al_expenseId = None,
              al_actorUserId = Some performer\<rparr> db;
            branchId = (case branch_of db1 (lo_driverId inv') of Some b \<Rightarrow> Some b
              | None \<Rightarrow> branch_of db1 (Some performer))
        in lift_stock (applyOrderStockDecrement env (lgStock db1) \<lparr>da_orderId = lo_id inv',
             da_actorUserId = performer, da_branchId = branchId,
             da_reference = Some (''AUTO-PREPAID-'' @ take 8 (lo_id inv'))\<rparr>) db1)"

definition reconcile_one :: "env \<Rightarrow> uuid \<Rightarrow> ledger_order \<Rightarrow> ledger_db \<Rightarrow> unit result \<times> ledger_db" where
  "reconcile_one env performer inv' db =
     (let db1 = update_order (lo_id inv') (\<lambda>r. r\<lparr>lo_status := ORDER_COMPLETED,
            lo_completedAt := Some (nullish (lo_completedAt inv') (lo_createdAt inv')),
            lo_posPaymentMethod := Some SUBSCRIPTION_WALLET,
            lo_cashStatus := cashStatusForPaymentMethod (Some SUBSCRIPTION_WALLET)\<rparr>) db
      in bindS (applyOrderWalletSettlementForCompletedOrder env (lo_id inv') performer
           (Some \<lparr>pf_customerId = lo_customerId inv', pf_totalPrice = lo_totalPrice inv',
              pf_posPaymentMethod = Some SUBSCRIPTION_WALLET, pf_walletSettledAt = None\<rparr>)
           (Some [(''autoReconciledFromPrepaidBalance'', JBool True),
              (''reportingCategory'', JString ''PREPAID_AUTO_RECONCILE'')]) db1)
         (\<lambda>_ db2. reconcile_sale env performer inv' db2))"

fun reconcile_passes :: "nat \<Rightarrow> env \<Rightarrow> uuid \<Rightarrow> uuid \<Rightarrow> ledger_db \<Rightarrow> uuid list result \<times> ledger_db" where
  "reconcile_passes 0 env customerId performer db = (Inr [], db)"
| "reconcile_passes (Suc n) env customerId performer db =
     (let (wallet, db1) = getOrCreateWalletTx customerId db; balance = minor_of (wl_balance wallet) in
      if balance \<le> 0 then (Inr [], db1)
      else case next_unpaid db1 customerId of
        None \<Rightarrow> (Inr [], db1)
      | Some iv \<Rightarrow>
          if minor_of (lo_totalPrice iv) \<le> 0 then (Inr [], db1)
          else if minor_of (lo_totalPrice iv) > balance then (Inr [], db1)
          else bindS (reconcile_one env performer iv db1) (\<lambda>_ db2.
               bindS (reconcile_passes n env customerId performer db2) (\<lambda>paid. returnS (lo_id iv # paid))))"

definition autoReconcileUnpaidInvoicesFromPrepaidBalanceTx :: "env \<Rightarrow> uuid \<Rightarrow> uuid option \<Rightarrow> ledger_db \<Rightarrow>
    uuid list result \<times> ledger_db" where
  "autoReconcileUnpaidInvoicesFromPrepaidBalanceTx env customerId performedBy db =
     (case (case performedBy of Some u \<Rightarrow> Some u | None \<Rightarrow> resolveFallbackOwnerIdTx db) of
        None \<Rightarrow> (Inr [], db)
      | Some performer \<Rightarrow>
          if performer = [] then (Inr [], db) else reconcile_passes 50 env customerId performer db)"

definition runPrepaidAutoReconcileForCustomer :: "env \<Rightarrow> uuid \<Rightarrow> uuid option \<Rightarrow> ledger_db \<Rightarrow>
    uuid list result \<times> ledger_db" where
  "runPrepaidAutoReconcileForCustomer env customerId performedBy db =
     ledger_transaction db (autoReconcileUnpaidInvoicesFromPrepaidBalanceTx env customerId performedBy db)"

subsection \<open>Activation\<close>

definition SUBSCRIPTION_ACTIVATION_PAYMENT_METHODS :: "pos_payment_method list" where
  "SUBSCRIPTION_ACTIVATION_PAYMENT_METHODS = [PM_CASH, PM_KNET, PAYMENT_LINK, PM_ONLINE, DEBT_ON_ACCOUNT]"

record activation_params =
  ap_customerId :: uuid
  ap_planId :: uuid
  ap_performedByUserId :: uuid
  ap_autoCloseInvoices :: bool
  ap_paymentMethod :: pos_payment_method
  ap_skipPrepaidAutoReconcile :: bool
  ap_companySupportAmountKd :: "decimal option"

record activation_settlement =
  as_totalCollected :: string
  as_debtSettled :: string
  as_creditedToBalance :: string
  as_previousBalance :: string
  as_previousDebt :: string
  as_newBalance :: string
  as_newDebt :: string
  as_totalFundingKd :: string
  as_companySupportAmountKd :: string
  as_subscriptionId :: uuid
  as_rolledOverFromSubscriptionId :: "uuid option"
  as_carriedBalanceKd :: string
  as_closedInvoiceIds :: "uuid list"
  as_prepaidAutoReconciledOrderIds :: "uuid list"

text \<open>The amounts of an activation, in minor units.\<close>

record activation_amounts =
  aa_priceMinor :: int
  aa_creditMinor :: int
  aa_debtPaidMinor :: int
  aa_newDebtMinor :: int
  aa_balanceIncreaseMinor :: int
  aa_newBalanceMinor :: int
  aa_carriedBalanceMinor :: int
  aa_operationalDebtMinor :: int
  aa_implicitReceivableMinor :: int
  aa_accrueSaleOnAccount :: bool

definition activation_amounts_of :: "subscription_plan \<Rightarrow> pos_payment_method \<Rightarrow> customer_wallet \<Rightarrow> operational_debt \<Rightarrow>
    activation_amounts" where
  "activation_amounts_of plan method wallet od =
     (let price = minor_of (sp_salePrice plan); credit = minor_of (sp_actualBalance plan);
          balance = minor_of (wl_balance wallet); debt = minor_of (wl_debt wallet);
          operational = minor_of (od_operationalDebtKd od);
          debtPaid = min operational credit;
          newDebt = debt - min debtPaid debt;
          accrue = (price > 0 \<and> method = DEBT_ON_ACCOUNT);
          raw = credit - debtPaid; increase = (if raw > 0 then raw else 0)
      in \<lparr>aa_priceMinor = price, aa_creditMinor = credit, aa_debtPaidMinor = debtPaid,
          aa_newDebtMinor = (if accrue then newDebt + price else newDebt), aa_balanceIncreaseMinor = increase,
          aa_newBalanceMinor = balance + increase, aa_carriedBalanceMinor = balance - debt,
          aa_operationalDebtMinor = operational,
          aa_implicitReceivableMinor = minor_of (od_collectionsReceivableKd od), aa_accrueSaleOnAccount = accrue\<rparr>)"

definition previous_subscription :: "ledger_db \<Rightarrow> uuid \<Rightarrow> customer_subscription option" where
  "previous_subscription db customerId = (case sort_key (\<lambda>s. - sb_createdAt s) (filter (\<lambda>s. sb_customerId s = customerId
       \<and> (sb_status s = SUB_ACTIVE \<or> sb_status s = SUB_EXPIRED)) (lgSubscriptions db)) of
     [] \<Rightarrow> None | s # _ \<Rightarrow> Some s)"

definition validity_days :: "subscription_plan \<Rightarrow> int" where
  "validity_days plan = (if sp_validityDays plan > 0 then sp_validityDays plan else 30)"

text \<open>The new subscription takes the place of the previous one.\<close>

definition open_subscription :: "env \<Rightarrow> uuid \<Rightarrow> subscription_plan \<Rightarrow> int \<Rightarrow> ledger_db \<Rightarrow>
    (uuid \<times> uuid option) result \<times> ledger_db" where
  "open_subscription env customerId plan carried db =
     (let previous = map_option sb_id (previous_subscription db customerId);
          i = new_uuid env (length (lgSubscriptions db));
          row = \<lparr>sb_id = i, sb_customerId = customerId, sb_planId = Some (sp_id plan), sb_status = SUB_ACTIVE,
            sb_planNameSnapshot = sp_name plan, sb_planSalePriceSnapshot = sp_salePrice plan,
            sb_planActualBalanceSnapshot = sp_actualBalance plan, sb_planValidityDaysSnapshot = validity_days plan,
            sb_carriedBalanceKd = amount_of_minor carried, sb_parentSubscriptionId = previous,
            sb_activatedAt = now env, sb_expiresAt = now env + validity_days plan * MS_PER_DAY,
            sb_closedAt = None, sb_closedReason = None, sb_createdAt = now env\<rparr>
      in if i \<in> sb_id ` set (lgSubscriptions db)
            \<or> (previous \<noteq> None \<and> previous \<in> sb_parentSubscriptionId ` set (lgSubscriptions db))
         then (Inl unique_violation, db)
         else (Inr (i, previous), db\<lparr>lgSubscriptions := (case previous of None \<Rightarrow> id
             | Some p \<Rightarrow> update_row sb_id p (\<lambda>s. s\<lparr>sb_status := SUB_ROLLED_OVER, sb_closedAt := Some (now env),
                 sb_closedReason := Some ''ROLLOVER''\<rparr>)) (lgSubscriptions db @ [row])\<rparr>))"

definition activation_support :: "activation_params \<Rightarrow> activation_amounts \<Rightarrow> decimal result" where
  "activation_support p a =
     (let planSubsidy = (if aa_creditMinor a > aa_priceMinor a then aa_creditMinor a - aa_priceMinor a else 0);
          support = nullish (ap_companySupportAmountKd p) (amount_of_minor planSubsidy);
          maxAllowed = amount_of_minor (aa_creditMinor a)
      in if support < 0 then Inl (BadRequestException ''companySupportAmountKd cannot be negative'')
         else if support > maxAllowed
         then Inl (BadRequestException (''companySupportAmountKd ('' @ to_fixed4 support
                @ '') cannot exceed plan actualBalance ('' @ to_fixed4 maxAllowed @ '' KD)''))
         else Inr support)"

definition strict_method_of :: "pos_payment_method \<Rightarrow> strict_method" where
  "strict_method_of m = (if m = PM_CASH then M_CASH else if m = PM_KNET then M_KNET
     else if m = PM_ONLINE \<or> m = PAYMENT_LINK then M_ONLINE else M_DEBT)"

definition activation_metadata :: "activation_params \<Rightarrow> subscription_plan \<Rightarrow> activation_amounts \<Rightarrow> decimal \<Rightarrow> uuid option \<Rightarrow>
    uuid option \<Rightarrow> (string \<times> json) list" where
  "activation_metadata p plan a support branch previous =
     [(''planId'', JString (sp_id plan)), (''planName'', JString (sp_name plan)),
      (''salePrice'', JString (decimal_string (sp_salePrice plan))),
      (''actualBalance'', JString (decimal_string (sp_actualBalance plan))),
      (''totalCollected'', JString (minorToAmountString (aa_priceMinor a))),
      (''debtSettled'', JString (minorToAmountString (aa_debtPaidMinor a))),
      (''creditedToBalance'', JString (minorToAmountString (aa_balanceIncreaseMinor a))),
      (''subsidy'', JString (to_fixed4 support)), (''subsidyBranchId'', json_option branch),
      (''automaticDebtSettlement'', JBool True), (''rolledOverFromSubscriptionId'', json_option previous),
      (''carriedBalanceKd'', JString (minorToAmountString (aa_carriedBalanceMinor a))),
      (''implicitUnpostedReceivableKd'', JString (minorToAmountString (aa_implicitReceivableMinor a))),
      (''operationalDebtForActivationKd'', JString (minorToAmountString (aa_operationalDebtMinor a))),
      (''effectiveDebtForActivationKd'', JString (minorToAmountString (aa_operationalDebtMinor a))),
      (''posPaymentMethod'', JString (pos_name (ap_paymentMethod p))),
      (''planSaleSettlement'', JString (if aa_accrueSaleOnAccount a then ''ACCOUNTS_RECEIVABLE''
         else if aa_priceMinor a > 0 then ''IMMEDIATE_COLLECTION'' else ''NONE''))]"

definition activation_history :: "env \<Rightarrow> activation_params \<Rightarrow> subscription_plan \<Rightarrow> activation_amounts \<Rightarrow> customer_wallet \<Rightarrow>
    uuid \<Rightarrow> (string \<times> json) list \<Rightarrow> uuid \<Rightarrow> history_row" where
  "activation_history env p plan a wallet sub meta i = \<lparr>th_id = i, th_type = SUBSCRIPTION_ACTIVATION,
     th_customerId = ap_customerId p, th_orderId = None, th_subscriptionId = Some sub,
     th_amount = sp_actualBalance plan, th_balanceBefore = wl_balance wallet,
     th_balanceAfter = amount_of_minor (aa_newBalanceMinor a), th_debtBefore = wl_debt wallet,
     th_debtAfter = amount_of_minor (aa_newDebtMinor a), th_metadata = meta,
     th_performedById = Some (ap_performedByUserId p), th_createdAt = now env\<rparr>"

definition activation_funding :: "env \<Rightarrow> activation_params \<Rightarrow> activation_amounts \<Rightarrow> decimal \<Rightarrow> uuid option \<Rightarrow> uuid \<Rightarrow>
    ledger_db \<Rightarrow> unit result \<times> ledger_db" where
  "activation_funding env p a support branch sub db =
     (let total = amount_of_minor (aa_priceMinor a) + support in
      if total \<le> 0 then (Inr (), db)
      else bindS (processWalletFundingTransaction env db \<lparr>wf_actorUserId = ap_performedByUserId p,
          wf_customerId = ap_customerId p, wf_subscriptionId = sub,
          wf_paymentAmountKd = amount_of_minor (aa_priceMinor a),
          wf_paymentMethod = strict_method_of (ap_paymentMethod p), wf_supportAmountKd = support,
          wf_totalFundingKd = total, wf_branchId = branch\<rparr>) (\<lambda>_. returnS ()))"

definition activation_allocation :: "env \<Rightarrow> activation_params \<Rightarrow> activation_amounts \<Rightarrow> ledger_db \<Rightarrow> (uuid \<times> int \<times> bool) list" where
  "activation_allocation env p a db =
     (if ap_autoCloseInvoices p \<and> aa_debtPaidMinor a > 0
      then let candidates = open_invoices db (ap_customerId p);
               rem = computeOrderRemainingBalancesBatch env db True (order_rows db) (map lo_id candidates)
           in allocate_fifo (\<lambda>i. case rem i of Some r \<Rightarrow> Some r
                | None \<Rightarrow> map_option lo_totalPrice (find_row lo_id candidates i)) (aa_debtPaidMinor a) candidates
      else [])"

definition activation_close :: "activation_params \<Rightarrow> uuid list \<Rightarrow> ledger_db \<Rightarrow> ledger_db" where
  "activation_close p closedIds db = db\<lparr>lgOrders := map (\<lambda>r. if lo_customerId r = ap_customerId p \<and> lo_id r \<in> set closedIds
     then r\<lparr>lo_cashStatus := PAID_TO_DRIVER\<rparr> else r) (lgOrders db)\<rparr>"

definition activation_mirror :: "activation_params \<Rightarrow> uuid \<Rightarrow> uuid option \<Rightarrow> string \<Rightarrow> string \<Rightarrow> int \<Rightarrow> mirror_input" where
  "activation_mirror p sub order tag note minor = \<lparr>mi_source = ''PAYMENT'', mi_amount = amount_of_minor minor,
     mi_sourceRef = Some (''PAYMENT:SUBSCRIPTION_ACTIVATION:'' @ sub @ '':'' @ tag),
     mi_actorUserId = Some (ap_performedByUserId p), mi_customerId = ap_customerId p, mi_orderId = order,
     mi_paymentMethod = Some (pos_name (ap_paymentMethod p)), mi_note = Some note\<rparr>"

definition activation_rows :: "activation_params \<Rightarrow> uuid \<Rightarrow> int \<Rightarrow> (uuid \<times> int \<times> bool) list \<Rightarrow> mirror_input list" where
  "activation_rows p sub debtPaid allocs =
     (let residual = debtPaid - (\<Sum>a\<leftarrow>allocs. fst (snd a)) in
      map (\<lambda>(i, m, closes). activation_mirror p sub (Some i) i ''Invoice closed by subscription activation (FIFO)'' m) allocs
      @ (if residual > 0
         then [activation_mirror p sub None ''RESIDUAL'' ''Residual debt cleared by subscription activation'' residual]
         else []))"

definition activation_paydown :: "env \<Rightarrow> activation_params \<Rightarrow> subscription_plan \<Rightarrow> activation_amounts \<Rightarrow> uuid option \<Rightarrow> uuid \<Rightarrow>
    uuid option \<Rightarrow> (uuid \<times> int \<times> bool) list \<Rightarrow> ledger_db \<Rightarrow> unit result \<times> ledger_db" where
  "activation_paydown env p plan a branch sub previous allocs db =
     (if aa_debtPaidMinor a \<le> 0 then (Inr (), db)
      else mirror_rows env (activation_rows p sub (aa_debtPaidMinor a) allocs)
        (ledger_append env \<lparr>al_entryType = DEBT_ADJUSTMENT, al_amount = - amount_of_minor (aa_debtPaidMinor a),
          al_memo = Some ''Subscription activation settled existing debt'',
          al_metadata = Some (JObject [(''event'', JString ''DEBT_SETTLED''), (''source'', JString ''SUBSCRIPTION_ACTIVATION''),
            (''planId'', JString (sp_id plan)), (''planName'', JString (sp_name plan)),
            (''subsidyBranchId'', json_option branch), (''subscriptionId'', JString sub),
            (''rolledOverFromSubscriptionId'', json_option previous),
            (''autoClosedInvoiceCount'', JDecimal (of_nat (length (filter (\<lambda>(i, m, closes). closes) allocs))))]),
          al_customerId = Some (ap_customerId p), al_orderId = None, al_expenseId = None,
          al_actorUserId = Some (ap_performedByUserId p)\<rparr> db))"

definition activation_checks :: "activation_params \<Rightarrow> ledger_db \<Rightarrow> subscription_plan result" where
  "activation_checks p db = (case find_row sp_id (lgPlans db) (ap_planId p) of
       None \<Rightarrow> Inl (NotFoundException ''Subscription plan not found'')
     | Some plan \<Rightarrow>
         if \<not> sp_isActive plan then Inl (BadRequestException ''This subscription plan is not active'')
         else if find_row cu_id (lgCustomers db) (ap_customerId p) = None
         then Inl (NotFoundException ''Customer not found'')
         else if find_actor db (ap_performedByUserId p) = None
         then Inl (NotFoundException ''Performing user not found'')
         else if minor_of (sp_salePrice plan) < 0 \<or> minor_of (sp_actualBalance plan) < 0
         then Inl (BadRequestException ''Plan price and credit amount must be non-negative'')
         else if minor_of (sp_salePrice plan) = 0 \<and> minor_of (sp_actualBalance plan) = 0
         then Inl (BadRequestException (''Subscription plan '' @ CHR 0x22 # sp_name plan @ CHR 0x22 #
                '' is misconfigured: both sale price and credit amount are 0. Ask the Owner to set them in Subscription Plans before activating.''))
         else if ap_paymentMethod p \<notin> set SUBSCRIPTION_ACTIVATION_PAYMENT_METHODS
         then Inl (BadRequestException ''Invalid paymentMethod for subscription activation'')
         else Inr plan)"

definition activateSubscriptionPlan :: "env \<Rightarrow> activation_params \<Rightarrow> ledger_db \<Rightarrow> activation_settlement result \<times> ledger_db" where
  "activateSubscriptionPlan env p db =
     (case activation_checks p db of
        Inl e \<Rightarrow> throwS e db
      | Inr plan \<Rightarrow>
          let c = ap_customerId p; actorBranch = branch_of db (Some (ap_performedByUserId p));
              (wallet, db1) = getOrCreateWalletTx c db;
              db2 = ensureCustomerOriginBranchTx c actorBranch db1;
              branch = (case find_row cu_id (lgCustomers db2) c of
                  Some cu \<Rightarrow> (case cu_originBranchId cu of Some b \<Rightarrow> Some b | None \<Rightarrow> actorBranch)
                | None \<Rightarrow> actorBranch);
              a = activation_amounts_of plan (ap_paymentMethod p) wallet
                    (getOperationalDebtKdBreakdown db2 c (wl_debt wallet))
          in bindS (open_subscription env c plan (aa_carriedBalanceMinor a) db2) (\<lambda>(sub, previous) db3.
             let db4 = update_wallet c (\<lambda>w. w\<lparr>wl_balance := amount_of_minor (aa_newBalanceMinor a),
                   wl_debt := amount_of_minor (aa_newDebtMinor a), wl_subscriptionActivatedAt := Some (now env),
                   wl_subscriptionExpiresAt := Some (now env + validity_days plan * MS_PER_DAY),
                   wl_subscriptionPlanId := Some (sp_id plan), wl_subscriptionPlanName := Some (sp_name plan)\<rparr>) db3
             in bindS (activation_support p a, db4) (\<lambda>support db5.
                bindS (add_history env (activation_history env p plan a wallet sub
                   (activation_metadata p plan a support branch previous)) db5) (\<lambda>_ db6.
                bindS (activation_funding env p a support branch sub db6) (\<lambda>_ db7.
                let allocs = activation_allocation env p a db7;
                    closed = map fst (filter (\<lambda>(i, m, closes). closes) allocs)
                in bindS (activation_paydown env p plan a branch sub previous allocs (activation_close p closed db7)) (\<lambda>_ db8.
                   bindS (if ap_skipPrepaidAutoReconcile p then (Inr [], db8)
                     else autoReconcileUnpaidInvoicesFromPrepaidBalanceTx env c (Some (ap_performedByUserId p)) db8) (\<lambda>paid db9.
                   let final = (case find_wallet db9 c of Some w \<Rightarrow> w | None \<Rightarrow> new_wallet c) in
                   returnS \<lparr>as_totalCollected = minorToAmountString (aa_priceMinor a),
                     as_debtSettled = minorToAmountString (aa_debtPaidMinor a),
                     as_creditedToBalance = minorToAmountString (aa_balanceIncreaseMinor a),
                     as_previousBalance = decimal_string (wl_balance wallet),
                     as_previousDebt = decimal_string (wl_debt wallet),
                     as_newBalance = decimal_string (wl_balance final), as_newDebt = decimal_string (wl_debt final),
                     as_totalFundingKd = to_fixed4 (amount_of_minor (aa_priceMinor a) + support),
                     as_companySupportAmountKd = to_fixed4 support, as_subscriptionId = sub,
                     as_rolledOverFromSubscriptionId = previous,
                     as_carriedBalanceKd = minorToAmountString (aa_carriedBalanceMinor a),
                     as_closedInvoiceIds = closed, as_prepaidAutoReconciledOrderIds = paid\<rparr> db9)))))))"

subsection \<open>Early cancellation\<close>

text \<open>BigInt division truncates.\<close>

definition bigint_div :: "int \<Rightarrow> int \<Rightarrow> int" where
  "bigint_div a b = (if a < 0 then - ((- a) div b) else a div b)"

record cancellation_settlement =
  cs_subscriptionId :: uuid
  cs_refundedCashKd :: string
  cs_voidedGiftKd :: string
  cs_walletReductionKd :: string
  cs_previousBalanceKd :: string
  cs_newBalanceKd :: string

definition subscription_to_cancel :: "ledger_db \<Rightarrow> uuid \<Rightarrow> customer_subscription option" where
  "subscription_to_cancel db customerId = (case sort_key (\<lambda>s. - sb_activatedAt s)
       (filter (\<lambda>s. sb_customerId s = customerId \<and> sb_status s = SUB_ACTIVE) (lgSubscriptions db)) of
     [] \<Rightarrow> None | s # _ \<Rightarrow> Some s)"

text \<open>The gift credit that is voided and the cash that is refunded, in minor units.\<close>

definition cancellation_amounts :: "env \<Rightarrow> customer_subscription \<Rightarrow> customer_wallet \<Rightarrow> int \<times> int" where
  "cancellation_amounts env sub wallet =
     (let totalMs = max 1 (sb_expiresAt sub - sb_activatedAt sub); remainingMs = max 0 (sb_expiresAt sub - now env);
          sale = minor_of (sb_planSalePriceSnapshot sub); credit = minor_of (sb_planActualBalanceSnapshot sub);
          subsidy = (if credit - sale < 0 then 0 else credit - sale);
          giftTarget = bigint_div (subsidy * remainingMs) totalMs;
          cashTarget = bigint_div (sale * remainingMs) totalMs;
          balance = minor_of (wl_balance wallet);
          gift = min giftTarget balance
      in (gift, min cashTarget (balance - gift)))"

definition cancel_gl :: "env \<Rightarrow> uuid \<Rightarrow> uuid \<Rightarrow> int \<Rightarrow> string \<Rightarrow> (string \<times> json) list \<Rightarrow> ledger_db \<Rightarrow> ledger_db" where
  "cancel_gl env customerId actor minor memo meta = ledger_append env \<lparr>al_entryType = DEBT_ADJUSTMENT,
     al_amount = amount_of_minor minor, al_memo = Some memo, al_metadata = Some (JObject meta),
     al_customerId = Some customerId, al_orderId = None, al_expenseId = None, al_actorUserId = Some actor\<rparr>"

definition cancel_gl_rows :: "env \<Rightarrow> uuid \<Rightarrow> uuid \<Rightarrow> uuid \<Rightarrow> int \<Rightarrow> int \<Rightarrow> ledger_db \<Rightarrow> ledger_db" where
  "cancel_gl_rows env customerId actor sub gift cash db =
     (let db1 = (if gift > 0 then cancel_gl env customerId actor gift
            (''Subscription cancellation '' @ em_dash @ '' promotional / gift credit voided (no cash)'')
            [(''event'', JString ''SUBSCRIPTION_CANCEL_GIFT_VOID''), (''subscriptionId'', JString sub),
             (''voidedGiftKd'', JString (minorToAmountString gift))] db else db)
      in if cash > 0 then cancel_gl env customerId actor (- cash)
            (''Subscription cancellation '' @ em_dash @ '' cash refund to customer'')
            [(''event'', JString ''SUBSCRIPTION_CANCEL_CASH_REFUND''), (''subscriptionId'', JString sub),
             (''refundedCashKd'', JString (minorToAmountString cash))] db1 else db1)"

definition cancel_reason :: "string option \<Rightarrow> string option" where
  "cancel_reason r = (case r of None \<Rightarrow> None | Some s \<Rightarrow> if js_trim s = [] then None else Some (js_trim s))"

definition cancelSubscriptionForCustomer :: "env \<Rightarrow> uuid \<Rightarrow> uuid \<Rightarrow> string option \<Rightarrow> ledger_db \<Rightarrow>
    cancellation_settlement result \<times> ledger_db" where
  "cancelSubscriptionForCustomer env customerId performedBy reason db =
     (case subscription_to_cancel db customerId of
        None \<Rightarrow> throwS (BadRequestException ''No active subscription found for this customer'') db
      | Some sub \<Rightarrow>
     (case find_wallet db customerId of
        None \<Rightarrow> throwS (NotFoundException ''Customer wallet not found'') db
      | Some wallet \<Rightarrow>
          if now env \<ge> sb_expiresAt sub
          then throwS (BadRequestException (''Subscription validity has already ended '' @ em_dash
                 @ '' use a new activation instead of cancellation'')) db
          else
            let (gift, cash) = cancellation_amounts env sub wallet;
                newBalance = minor_of (wl_balance wallet) - gift - cash
            in bindS (add_history env (\<lambda>i. \<lparr>th_id = i, th_type = SUBSCRIPTION_CANCELLATION, th_customerId = customerId,
                 th_orderId = None, th_subscriptionId = Some (sb_id sub), th_amount = amount_of_minor (gift + cash),
                 th_balanceBefore = wl_balance wallet, th_balanceAfter = amount_of_minor newBalance,
                 th_debtBefore = wl_debt wallet, th_debtAfter = wl_debt wallet,
                 th_metadata = [(''reason'', json_option (cancel_reason reason)),
                   (''giftVoidedKd'', JString (minorToAmountString gift)),
                   (''cashRefundedKd'', JString (minorToAmountString cash)),
                   (''walletReductionKd'', JString (minorToAmountString (gift + cash))),
                   (''planSalePriceSnapshot'', JString (decimal_string (sb_planSalePriceSnapshot sub))),
                   (''planActualBalanceSnapshot'', JString (decimal_string (sb_planActualBalanceSnapshot sub)))],
                 th_performedById = Some performedBy, th_createdAt = now env\<rparr>)
                 (cancel_gl_rows env customerId performedBy (sb_id sub) gift cash db)) (\<lambda>_ db1.
               let db2 = update_wallet customerId (\<lambda>w. w\<lparr>wl_balance := amount_of_minor newBalance,
                     wl_subscriptionActivatedAt := None, wl_subscriptionExpiresAt := None,
                     wl_subscriptionPlanId := None, wl_subscriptionPlanName := None\<rparr>)
                     (db1\<lparr>lgSubscriptions := update_row sb_id (sb_id sub) (\<lambda>s. s\<lparr>sb_status := SUB_CANCELLED,
                        sb_closedAt := Some (now env), sb_closedReason := Some ''CANCEL_REFUND''\<rparr>) (lgSubscriptions db1)\<rparr>)
               in bindS (appendSubscriptionRefundEntrySafe env db2 \<lparr>rf_customerId = customerId,
                    rf_subscriptionId = sb_id sub, rf_actorUserId = performedBy,
                    rf_giftRemovalAmount = amount_of_minor gift, rf_cashRefundAmount = amount_of_minor cash,
                    rf_reason = cancel_reason reason\<rparr>) (\<lambda>_. returnS \<lparr>cs_subscriptionId = sb_id sub,
                    cs_refundedCashKd = minorToAmountString cash, cs_voidedGiftKd = minorToAmountString gift,
                    cs_walletReductionKd = minorToAmountString (gift + cash),
                    cs_previousBalanceKd = decimal_string (wl_balance wallet),
                    cs_newBalanceKd = minorToAmountString newBalance\<rparr>))))"

end
