(* ===== verification/Customer_Frames.thy ===== *)
theory Customer_Frames
  imports Customer_Subscriptions
begin

text \<open>
  What the statements of the customer ledger leave alone. The journal writers change the
  journal's tables only; the rows of the single-entry ledger are appended. The interface
  \<open>frame\<close> is a reflexive and transitive relation between states: what holds of each statement
  holds of the sequence, whether it returns or throws. It is interpreted for the tables that
  no writer changes, for the references and accounts of the journal, and for the wallets.
\<close>

subsection \<open>Sequences of statements\<close>

locale frame =
  fixes R :: "'s \<Rightarrow> 's \<Rightarrow> bool"
  assumes frame_refl [simp, intro]: "R s s"
    and frame_trans: "R s t \<Longrightarrow> R t u \<Longrightarrow> R s u"
begin

lemma frame_bindS:
  assumes "R s (snd m)" and "\<And>x t. m = (Inr x, t) \<Longrightarrow> R t (snd (f x t))"
  shows "R s (snd (bindS m f))"
proof (cases m)
  case (Pair r t)
  show ?thesis
  proof (cases r)
    case (Inl e)
    with Pair assms(1) show ?thesis by simp
  next
    case (Inr x)
    with Pair assms show ?thesis by (auto intro: frame_trans)
  qed
qed

lemma frame_throwS [simp]: "R s (snd (throwS e s))"
  by (simp add: throwS_def)

lemma frame_returnS [simp]: "R s (snd (returnS x s))"
  by (simp add: returnS_def)

lemma frame_then: "R s (snd m) \<Longrightarrow> R s (snd (bindS m (\<lambda>_. returnS x)))"
  by (rule frame_bindS) auto

lemma frame_fold: "(\<And>c s. c \<in> set cs \<Longrightarrow> R s (f c s)) \<Longrightarrow> R s (fold f cs s)"
  by (induction cs arbitrary: s) (auto intro: frame_trans)

end

subsection \<open>The journal's writers\<close>

lemma appendBalanced_more: "journal_db.more (snd (appendBalanced env db inp)) = journal_db.more db"
  by (cases "appendBalanced env db inp"; cases "fst (appendBalanced env db inp)")
    (auto elim!: appendBalanced_fails appendBalanced_cases)

lemma catch_more:
  "journal_db.more (snd (catch_with w (\<lambda>db e. handleCriticalSafeFailure env db e h))) = journal_db.more (snd w)"
  using catch_with_state [of w env h] by auto

lemma run_event_more: "journal_db.more (snd (run_event env db ev)) = journal_db.more db"
proof -
  obtain w f where w: "wraps env db ev w" and s: "snd (run_event env db ev) = (snd w)\<lparr>journalFailureLog := f\<rparr>"
    using event_wraps by metis
  have "journal_db.more (snd w) = journal_db.more db"
    using w by (auto simp: wraps_def appendBalanced_more)
  then show ?thesis by (simp add: s)
qed

lemma mirror_wraps:
  "snd (mirrorDebtLedgerEntry env db m) = db
    \<or> (\<exists>inp. mirrorDebtLedgerEntry env db m = some_id (appendBalanced env db inp))"
  by (auto simp: mirrorDebtLedgerEntry_def Let_def split: sum.split)

lemma mirror_more: "journal_db.more (snd (mirrorDebtLedgerEntrySafe env db m)) = journal_db.more db"
  using mirror_wraps [of env db m]
  by (auto simp: mirrorDebtLedgerEntrySafe_def catch_more appendBalanced_more)

lemma with_totals_snd [simp]: "snd (with_totals ls w) = snd w"
  by (cases w; cases "fst w") (auto simp: Let_def split: prod.split)

lemma funding_more: "journal_db.more (snd (processWalletFundingTransaction env db inp)) = journal_db.more db"
  by (auto simp: processWalletFundingTransaction_def Let_def appendBalanced_more split: sum.split)

lemma appendBalanced_grows: "prefix (journalEntries db) (journalEntries (snd (appendBalanced env db inp)))"
  by (cases "appendBalanced env db inp"; cases "fst (appendBalanced env db inp)")
    (auto elim!: appendBalanced_fails appendBalanced_cases)

lemma catch_journal:
  "accounts (snd (catch_with w (\<lambda>db e. handleCriticalSafeFailure env db e h))) = accounts (snd w)"
  "journalEntries (snd (catch_with w (\<lambda>db e. handleCriticalSafeFailure env db e h))) = journalEntries (snd w)"
  using catch_with_state [of w env h] by auto

subsection \<open>The tables no writer changes\<close>

text \<open>Only the books are written: entries of the journal and rows of the ledger are appended.\<close>

definition books_only :: "ledger_db \<Rightarrow> ledger_db \<Rightarrow> bool" where
  "books_only db db' \<longleftrightarrow> lgUsers db' = lgUsers db \<and> lgCustomers db' = lgCustomers db
     \<and> lgWallets db' = lgWallets db \<and> lgOrders db' = lgOrders db \<and> lgPlans db' = lgPlans db
     \<and> lgSubscriptions db' = lgSubscriptions db \<and> lgHistory db' = lgHistory db \<and> lgStock db' = lgStock db
     \<and> accounts db' = accounts db \<and> prefix (journalEntries db) (journalEntries db') \<and> prefix (lgGl db) (lgGl db')"

lemma books_onlyD:
  assumes "books_only db db'"
  shows "lgUsers db' = lgUsers db" "lgCustomers db' = lgCustomers db" "lgWallets db' = lgWallets db"
    "lgOrders db' = lgOrders db" "lgPlans db' = lgPlans db" "lgSubscriptions db' = lgSubscriptions db"
    "lgHistory db' = lgHistory db" "lgStock db' = lgStock db" "accounts db' = accounts db"
    "prefix (journalEntries db) (journalEntries db')" "prefix (lgGl db) (lgGl db')"
  using assms by (simp_all add: books_only_def)

interpretation books: frame books_only
  by unfold_locales (auto simp: books_only_def intro: prefix_order.trans)

lemma more_books_only:
  "journal_db.more db' = journal_db.more db \<Longrightarrow> accounts db' = accounts db \<Longrightarrow>
     prefix (journalEntries db) (journalEntries db') \<Longrightarrow> books_only db db'"
  by (cases db; cases db') (simp add: books_only_def)

lemma run_event_books: "accounts (snd (run_event env db ev)) = accounts db"
  "prefix (journalEntries db) (journalEntries (snd (run_event env db ev)))"
proof -
  obtain w f where w: "wraps env db ev w" and s: "snd (run_event env db ev) = (snd w)\<lparr>journalFailureLog := f\<rparr>"
    using event_wraps by metis
  have "accounts (snd w) = accounts db \<and> prefix (journalEntries db) (journalEntries (snd w))"
    using w by (auto simp: wraps_def appendBalanced_accounts appendBalanced_grows)
  then show "accounts (snd (run_event env db ev)) = accounts db"
    "prefix (journalEntries db) (journalEntries (snd (run_event env db ev)))" by (simp_all add: s)
qed

lemma journal_books_only [simp]:
  "books_only db (snd (appendBalanced env db inp))"
  "books_only db (snd (run_event env db ev))"
  "books_only db (snd (mirrorDebtLedgerEntrySafe env db m))"
  "books_only db (snd (processWalletFundingTransaction env db fi))"
proof -
  show "books_only db (snd (appendBalanced env db inp))"
    by (intro more_books_only appendBalanced_more appendBalanced_accounts appendBalanced_grows)
  show "books_only db (snd (run_event env db ev))"
    by (intro more_books_only run_event_more run_event_books)
  show "books_only db (snd (mirrorDebtLedgerEntrySafe env db m))"
    by (intro more_books_only mirror_more)
      (use mirror_wraps [of env db m] in
        \<open>auto simp: mirrorDebtLedgerEntrySafe_def catch_journal appendBalanced_accounts appendBalanced_grows\<close>)
  show "books_only db (snd (processWalletFundingTransaction env db fi))"
    by (intro more_books_only funding_more)
      (auto simp: processWalletFundingTransaction_def Let_def appendBalanced_accounts appendBalanced_grows
        split: sum.split)
qed

lemma event_books_only [simp]:
  "books_only db (snd (appendInvoiceIssuanceEntrySafe env db i))"
  "books_only db (snd (appendWalletAbsorptionEntryV3Safe env db i))"
  "books_only db (snd (appendWalletAbsorptionEntrySafe env db i))"
  "books_only db (snd (appendExternalPaymentEntrySafe env db e))"
  "books_only db (snd (appendDebtDiscountEntrySafe env db d))"
  "books_only db (snd (appendSubscriptionRefundEntrySafe env db r))"
  using journal_books_only(2) [of db env "Issue i"] journal_books_only(2) [of db env "AbsorbV3 i"]
    journal_books_only(2) [of db env "Absorb i"] journal_books_only(2) [of db env "Pay e"]
    journal_books_only(2) [of db env "Discount d"] journal_books_only(2) [of db env "Refund r"]
  by simp_all

lemma ledger_append_frame [simp]:
  "books_only db (ledger_append env row db)"
  "accounts (ledger_append env row db) = accounts db"
  "journalEntries (ledger_append env row db) = journalEntries db"
  by (simp_all add: ledger_append_def books_only_def)

lemma settle_gl_frame [simp]: "books_only db (settle_gl env ctx m memo meta db)"
  by (simp add: settle_gl_def)

lemma books_only_append: "books_only db db' \<Longrightarrow> books_only db (ledger_append env row db')"
  using books.frame_trans ledger_append_frame(1) by blast

lemma payment_check_frame [simp]: "snd (payment_check m u ref db) = db"
  by (simp add: payment_check_def)

lemma settle_issue_frame [simp]: "books_only db (snd (settle_issue env ctx db))"
  by (auto simp: settle_issue_def Let_def intro: books.frame_then)

lemma settle_shortfall_frame [simp]: "books_only db (snd (settle_shortfall env ctx db))"
  by (auto simp: settle_shortfall_def Let_def intro!: books.frame_bindS)

lemma settle_overuse_frame [simp]: "books_only db (snd (settle_overuse env ctx db))"
  by (auto simp: settle_overuse_def Let_def intro!: books.frame_bindS)

lemma settle_absorb_frame [simp]: "books_only db (snd (settle_absorb env ctx db))"
  by (auto simp: settle_absorb_def Let_def intro!: books.frame_bindS)

lemma settle_external_frame [simp]: "books_only db (snd (settle_external env ctx db))"
  by (auto simp: settle_external_def Let_def intro!: books.frame_bindS split: option.split)

lemma settle_paydown_rows_frame [simp]: "books_only db (snd (settle_paydown_rows env ctx db))"
  by (auto simp: settle_paydown_rows_def Let_def intro!: books.frame_bindS)

lemma mirror_rows_frame [simp]: "books_only db (snd (mirror_rows env rows db))"
  by (induction rows arbitrary: db) (auto intro!: books.frame_bindS)

lemma partial_gl_frame [simp]: "books_only db (partial_gl env p actor b m memo ev extra db)"
  by (simp add: partial_gl_def)

lemma books_only_after: "books_only db db1 \<Longrightarrow> books_only db1 db2 \<Longrightarrow> books_only db db2"
  by (rule books.frame_trans)

lemma partial_payment_rows_frame [simp]: "books_only db (snd (partial_payment_rows env p actor b th m allocs db))"
  using books_only_after [OF partial_gl_frame mirror_rows_frame] by (simp add: partial_payment_rows_def)

lemma partial_discount_rows_frame [simp]: "books_only db (snd (partial_discount_rows env p actor b th m db))"
  using books_only_after [OF partial_gl_frame event_books_only(5)]
  by (auto simp: partial_discount_rows_def intro!: books.frame_then)

lemma collection_journal_frame [simp]: "books_only db (snd (collection_journal env p c m db))"
  by (simp add: collection_journal_def Let_def)

lemma activation_funding_frame [simp]: "books_only db (snd (activation_funding env p a s b sub db))"
  by (auto simp: activation_funding_def Let_def intro!: books.frame_then)

lemma activation_paydown_frame [simp]:
  "books_only db (snd (activation_paydown env p plan a b sub previous allocs db))"
  using books_only_after [OF ledger_append_frame(1) mirror_rows_frame] by (simp add: activation_paydown_def)

lemma cancel_gl_frame [simp]: "books_only db (cancel_gl env c u m memo meta db)"
  by (simp add: cancel_gl_def)

lemma cancel_gl_rows_frame [simp]: "books_only db (cancel_gl_rows env c u sub gift cash db)"
  using books_only_after [OF cancel_gl_frame cancel_gl_frame] by (simp add: cancel_gl_rows_def Let_def)

end
