(* ===== verification/Customer_Wallets.thy ===== *)
theory Customer_Wallets
  imports Customer_Frames
begin

text \<open>
  The operations of the customer ledger as commands, and what any history of them keeps: no
  wallet gets a negative balance or a negative debt, a command touches one wallet, an order
  keeps its customer, its price and the time at which it was settled. A command runs in a
  transaction: when it throws, its caller rolls it back.
\<close>

subsection \<open>Wallets\<close>

definition wallet_ok :: "customer_wallet \<Rightarrow> bool" where
  "wallet_ok w \<longleftrightarrow> 0 \<le> wl_balance w \<and> 0 \<le> wl_debt w"

definition wallets_ok :: "ledger_db \<Rightarrow> bool" where
  "wallets_ok db = list_all wallet_ok (lgWallets db)"

definition keeps :: "uuid \<Rightarrow> ledger_db \<Rightarrow> ledger_db \<Rightarrow> bool" where
  "keeps c db db' \<longleftrightarrow> (wallets_ok db \<longrightarrow> wallets_ok db') \<and> (\<forall>k. k \<noteq> c \<longrightarrow> find_wallet db' k = find_wallet db k)"

interpretation keeps: frame "keeps c" for c
  by unfold_locales (simp_all add: keeps_def)

lemma keeps_same: "lgWallets db' = lgWallets db \<Longrightarrow> keeps c db db'"
  by (simp add: keeps_def wallets_ok_def)

lemma books_only_keeps: "books_only db db' \<Longrightarrow> keeps c db db'"
  by (rule keeps_same) (rule books_onlyD)

lemma keeps_ok: "keeps c db db' \<Longrightarrow> wallets_ok db \<Longrightarrow> wallets_ok db'"
  by (simp add: keeps_def)

lemma find_wallet_ok: "wallets_ok db \<Longrightarrow> find_wallet db c = Some w \<Longrightarrow> wallet_ok w"
  using find_row_id [of wl_customerId "lgWallets db" c w] by (auto simp: wallets_ok_def list_all_iff)

lemma find_wallet_update [table_simps]:
  assumes "\<And>w. wl_customerId (f w) = wl_customerId w"
  shows "find_wallet (update_wallet c f db) k =
    (if k = c then map_option f (find_wallet db c) else find_wallet db k)"
  using assms by (simp add: update_wallet_def table_simps)

lemma keeps_update:
  assumes "\<And>w. wl_customerId (f w) = wl_customerId w"
    and "\<And>w. wallets_ok db \<Longrightarrow> wallet_ok w \<Longrightarrow> wallet_ok (f w)"
  shows "keeps c db (update_wallet c f db)"
proof -
  have "wallets_ok (update_wallet c f db)" if "wallets_ok db"
    using that assms(2) [OF that] by (auto simp: wallets_ok_def update_wallet_def list_all_iff set_update_row)
  then show ?thesis by (simp add: keeps_def table_simps assms(1))
qed

text \<open>\<open>getOrCreateWalletTx\<close>: the wallet is there afterwards, and only a wallet may have been added.\<close>

lemma getOrCreate_cases:
  assumes "getOrCreateWalletTx c db = (w, db1)"
  obtains (found) "find_wallet db c = Some w" "db1 = db"
  | (created) "find_wallet db c = None" "w = new_wallet c" "db1 = db\<lparr>lgWallets := lgWallets db @ [new_wallet c]\<rparr>"
  using assms by (auto simp: getOrCreateWalletTx_def split: option.splits)

lemma getOrCreate_props:
  assumes "getOrCreateWalletTx c db = (w, db1)"
  shows "find_wallet db1 c = Some w" "keeps c db db1" "wallets_ok db \<Longrightarrow> wallet_ok w"
    "\<And>k v. find_wallet db k = Some v \<Longrightarrow> find_wallet db1 k = Some v"
    "lgOrders db1 = lgOrders db" "lgUsers db1 = lgUsers db" "lgHistory db1 = lgHistory db"
    "lgSubscriptions db1 = lgSubscriptions db" "lgGl db1 = lgGl db" "lgCustomers db1 = lgCustomers db"
    "lgPlans db1 = lgPlans db" "lgStock db1 = lgStock db" "journal_db.truncate db1 = journal_db.truncate db"
proof -
  have nw: "wl_customerId (new_wallet c) = c" "wallet_ok (new_wallet c)"
    by (simp_all add: new_wallet_def wallet_ok_def)
  from assms have *: "find_wallet db1 c = Some w \<and> keeps c db db1 \<and> (wallets_ok db \<longrightarrow> wallet_ok w)
    \<and> (\<forall>k v. find_wallet db k = Some v \<longrightarrow> find_wallet db1 k = Some v)
    \<and> lgOrders db1 = lgOrders db \<and> lgUsers db1 = lgUsers db \<and> lgHistory db1 = lgHistory db
    \<and> lgSubscriptions db1 = lgSubscriptions db \<and> lgGl db1 = lgGl db \<and> lgCustomers db1 = lgCustomers db
    \<and> lgPlans db1 = lgPlans db \<and> lgStock db1 = lgStock db \<and> journal_db.truncate db1 = journal_db.truncate db"
  proof (cases rule: getOrCreate_cases)
    case found
    then show ?thesis using find_wallet_ok by auto
  next
    case created
    have "find_wallet db1 k = (case find_wallet db k of Some v \<Rightarrow> Some v
        | None \<Rightarrow> if k = c then Some (new_wallet c) else None)" for k
      using created(3) by (simp add: table_simps nw)
    moreover have "wallets_ok db1" if "wallets_ok db"
      using that created(3) nw by (simp add: wallets_ok_def)
    ultimately show ?thesis
      using created nw by (auto simp: keeps_def journal_db.truncate_def split: option.split)
  qed
  then show "find_wallet db1 c = Some w" "keeps c db db1" "wallets_ok db \<Longrightarrow> wallet_ok w"
    "\<And>k v. find_wallet db k = Some v \<Longrightarrow> find_wallet db1 k = Some v"
    "lgOrders db1 = lgOrders db" "lgUsers db1 = lgUsers db" "lgHistory db1 = lgHistory db"
    "lgSubscriptions db1 = lgSubscriptions db" "lgGl db1 = lgGl db" "lgCustomers db1 = lgCustomers db"
    "lgPlans db1 = lgPlans db" "lgStock db1 = lgStock db" "journal_db.truncate db1 = journal_db.truncate db"
    by blast+
qed

subsection \<open>Amounts\<close>

lemma minor_of_eq: "minor_of x = half_up (x * 10000)"
  by (simp add: minor_of_def)

lemma minor_of_nonneg: "0 \<le> x \<Longrightarrow> 0 \<le> minor_of x"
  by (simp add: minor_of_eq half_up_nonneg)

lemma minor_of_amount [simp]: "minor_of (amount_of_minor m) = m"
  by (simp add: minor_of_eq amount_of_minor_def)

lemma amount_of_minor_nonneg [simp]: "0 \<le> amount_of_minor m \<longleftrightarrow> 0 \<le> m"
  by (simp add: amount_of_minor_def zero_le_divide_iff)

lemma amount_minor_of: "fixed4 x \<Longrightarrow> amount_of_minor (minor_of x) = x"
  unfolding fixed4_iff by auto

lemma wallet_ok_minor: "wallet_ok w \<Longrightarrow> 0 \<le> minor_of (wl_balance w) \<and> 0 \<le> minor_of (wl_debt w)"
  by (simp add: wallet_ok_def minor_of_nonneg)

lemma settle_paydown_bounds:
  "settle_paydown env extra shortfall debt = Inr (paydown, rest) \<Longrightarrow> 0 \<le> debt \<Longrightarrow> 0 \<le> shortfall \<Longrightarrow>
     0 \<le> rest \<and> rest \<le> debt \<and> 0 \<le> paydown"
  by (auto simp: settle_paydown_def result_simps Let_def split: option.splits if_splits)

lemma settlement_of_cases:
  assumes "settlement_of env price method w extra = Inr a" and "wallet_ok w" and "0 \<le> minor_of price"
  obtains "se_totalMinor a = minor_of price" "0 \<le> se_safeTakeMinor a" "se_safeTakeMinor a \<le> minor_of (wl_balance w)"
    "se_safeTakeMinor a \<le> minor_of price" "se_shortfallMinor a = minor_of price - se_safeTakeMinor a"
    "se_newBalanceMinor a = minor_of (wl_balance w) - se_safeTakeMinor a"
    "settle_paydown env extra (se_shortfallMinor a)
       (minor_of (wl_debt w) + (if se_addInvoiceDebt a then se_shortfallMinor a else 0))
       = Inr (se_paydownMinor a, se_newDebtMinor a)"
    "se_addInvoiceDebt a \<longleftrightarrow> \<not> external_method method"
    "se_externalCoversShortfall a \<longleftrightarrow> external_method method"
    "se_safeTakeMinor a = (if method = Some SUBSCRIPTION_WALLET \<or> method = Some DEBT_ON_ACCOUNT
       then min (minor_of (wl_balance w)) (minor_of price) else 0)"
    "se_addedSubscriptionDebtMinor a = 0"
proof -
  define take where "take = (if method = Some SUBSCRIPTION_WALLET \<or> method = Some DEBT_ON_ACCOUNT
       then min (minor_of (wl_balance w)) (minor_of price) else 0)"
  have b: "0 \<le> minor_of (wl_balance w)" "0 \<le> minor_of (wl_debt w)" using wallet_ok_minor [OF assms(2)] by auto
  have take: "(if (method = Some SUBSCRIPTION_WALLET \<or> method = Some DEBT_ON_ACCOUNT) \<and> minor_of (wl_balance w) > 0
      then min (minor_of (wl_balance w)) (minor_of price) else 0) = take"
    using b(1) assms(3) by (auto simp: take_def)
  have t: "0 \<le> take" "take \<le> minor_of (wl_balance w)" "take \<le> minor_of price"
    using b assms(3) by (auto simp: take_def)
  have debt: "(if P \<and> minor_of price - take > 0 then minor_of (wl_debt w) + (minor_of price - take) else minor_of (wl_debt w))
      = minor_of (wl_debt w) + (if P then minor_of price - take else 0)" for P
    using t by auto
  have ext: "(method = Some DEBT_ON_ACCOUNT \<or> method = Some SUBSCRIPTION_WALLET
      \<or> method \<noteq> Some SUBSCRIPTION_WALLET \<and> \<not> external_method method) \<longleftrightarrow> \<not> external_method method"
    by (auto simp: external_method_def)
  from assms(1) t b show ?thesis
    unfolding settlement_of_def Let_def take debt ext
    by (intro that) (auto simp: result_simps take_def)
qed

lemma settlement_of_nonneg:
  assumes "settlement_of env price method w extra = Inr a" and "wallet_ok w" and "0 \<le> minor_of price"
  shows "0 \<le> se_newBalanceMinor a \<and> 0 \<le> se_newDebtMinor a"
  using assms by (cases rule: settlement_of_cases)
    (use wallet_ok_minor [OF assms(2)] in \<open>auto dest!: settle_paydown_bounds split: if_splits\<close>)

subsection \<open>What every statement keeps\<close>

definition order_kept :: "ledger_order \<Rightarrow> ledger_order \<Rightarrow> bool" where
  "order_kept r r' \<longleftrightarrow> lo_customerId r' = lo_customerId r \<and> lo_totalPrice r' = lo_totalPrice r
     \<and> lo_createdAt r' = lo_createdAt r
     \<and> (lo_walletSettledAt r \<noteq> None \<longrightarrow> lo_walletSettledAt r' = lo_walletSettledAt r)"

text \<open>The wallets of others are left alone, orders are kept, and the books only grow.\<close>

definition lawful :: "uuid \<Rightarrow> ledger_db \<Rightarrow> ledger_db \<Rightarrow> bool" where
  "lawful c db db' \<longleftrightarrow> keeps c db db'
     \<and> (\<forall>i r. find_ledger_order db i = Some r \<longrightarrow> (\<exists>r'. find_ledger_order db' i = Some r' \<and> order_kept r r'))
     \<and> accounts db' = accounts db \<and> lgUsers db' = lgUsers db
     \<and> prefix (lgHistory db) (lgHistory db') \<and> prefix (lgGl db) (lgGl db')
     \<and> prefix (journalEntries db) (journalEntries db')"

lemma order_kept_refl [simp, intro]: "order_kept r r"
  by (simp add: order_kept_def)

lemma order_kept_trans: "order_kept r s \<Longrightarrow> order_kept s t \<Longrightarrow> order_kept r t"
  by (simp add: order_kept_def)

interpretation laws: frame "lawful c" for c
proof unfold_locales
  fix s t u assume "lawful c s t" "lawful c t u"
  then show "lawful c s u"
    unfolding lawful_def
    by (elim conjE, intro conjI)
      (simp_all, blast intro: keeps.frame_trans, meson order_kept_trans, (blast intro: prefix_order.trans)+)
qed (simp add: lawful_def)

lemma lawful_tables:
  assumes "lgWallets db' = lgWallets db" "lgOrders db' = lgOrders db" "accounts db' = accounts db"
    "lgUsers db' = lgUsers db" "prefix (lgHistory db) (lgHistory db')" "prefix (lgGl db) (lgGl db')"
    "prefix (journalEntries db) (journalEntries db')"
  shows "lawful c db db'"
  using assms by (auto simp: lawful_def intro: keeps_same)

lemma lawful_books [simp, intro]: "books_only db db' \<Longrightarrow> lawful c db db'"
  by (rule lawful_tables) (simp_all add: books_onlyD)

lemma lawful_after: "lawful c db db1 \<Longrightarrow> lawful c db1 db2 \<Longrightarrow> lawful c db db2"
  by (rule laws.frame_trans)

lemma lawful_order:
  assumes "\<And>r. lo_id (f r) = lo_id r" and "\<And>r. order_kept r (f r)"
  shows "lawful c db (update_order i f db)"
  using assms by (auto simp: lawful_def update_order_def table_simps intro: keeps_same)

lemma lawful_wallet:
  assumes "\<And>w. wl_customerId (f w) = wl_customerId w"
    and "\<And>w. wallets_ok db \<Longrightarrow> wallet_ok w \<Longrightarrow> wallet_ok (f w)"
  shows "lawful c db (update_wallet c f db)"
  using keeps_update [of f db c] assms by (auto simp: lawful_def update_wallet_def)

lemma lawful_create: "getOrCreateWalletTx c db = (w, db1) \<Longrightarrow> lawful c db db1"
  using getOrCreate_props [of c db w db1] journal_db.more_def
  by (auto simp: lawful_def elim!: getOrCreate_cases)

lemma lawful_history [simp, intro]: "lawful c db (snd (add_history env row db))"
  by (auto simp: add_history_def Let_def intro: lawful_tables)

lemma lawful_branch [simp, intro]: "lawful c db (ensureCustomerOriginBranchTx k b db)"
  by (auto simp: ensureCustomerOriginBranchTx_def intro: lawful_tables)

lemma lawful_stock [simp, intro]: "lawful c db (snd (lift_stock r db))"
  by (auto simp: lift_stock_def intro: lawful_tables split: sum.split)

lemma lawful_transaction: "lawful c db (snd w) \<Longrightarrow> lawful c db (snd (ledger_transaction db w))"
  by (auto simp: ledger_transaction_def split: sum.split)

subsection \<open>The settlement of an order\<close>

lemma lawful_tag [simp, intro]: "lawful c db (snd (tag_subscription ctx db))"
  by (auto simp: tag_subscription_def order_kept_def intro!: lawful_order split: option.split)

lemma lawful_settle_history [simp, intro]: "lawful c db (snd (settle_history env ctx w db))"
  by (auto simp: settle_history_def Let_def intro!: laws.frame_then)

lemma lawful_mark [simp, intro]: "lawful c db (settle_mark env ctx db)"
  unfolding settle_mark_def by (rule lawful_order) (auto simp: order_kept_def)

lemma lawful_settle_writes:
  assumes "wallets_ok db \<Longrightarrow> 0 \<le> se_newBalanceMinor (sc_amounts ctx) \<and> 0 \<le> se_newDebtMinor (sc_amounts ctx)"
  shows "lawful (sc_customerId ctx) db (snd (settle_writes env ctx w db))"
proof -
  have u: "lawful (sc_customerId ctx) db (update_wallet (sc_customerId ctx)
      (\<lambda>w. w\<lparr>wl_balance := amount_of_minor (se_newBalanceMinor (sc_amounts ctx)),
        wl_debt := amount_of_minor (se_newDebtMinor (sc_amounts ctx))\<rparr>) db)"
    using assms by (intro lawful_wallet) (auto simp: wallet_ok_def)
  have e: "lawful (sc_customerId ctx) t (snd (settle_external env ctx (settle_mark env ctx t)))" for t
    by (rule lawful_after [OF lawful_mark [of _ t env ctx]]) simp
  show ?thesis
    unfolding settle_writes_def Let_def
    by (rule lawful_after [OF u]) (intro laws.frame_bindS lawful_tag lawful_settle_history e lawful_books
        settle_issue_frame settle_shortfall_frame settle_overuse_frame settle_absorb_frame settle_paydown_rows_frame)
qed

definition settle_customer :: "uuid \<Rightarrow> settle_prefetch option \<Rightarrow> ledger_db \<Rightarrow> uuid" where
  "settle_customer orderId prefetch db = (case prefetch of Some p \<Rightarrow> pf_customerId p
     | None \<Rightarrow> (case find_ledger_order db orderId of Some r \<Rightarrow> lo_customerId r | None \<Rightarrow> []))"

definition settle_source :: "uuid \<Rightarrow> settle_prefetch option \<Rightarrow> ledger_db \<Rightarrow> settle_prefetch option" where
  "settle_source orderId prefetch db = (case prefetch of Some p \<Rightarrow> Some p
     | None \<Rightarrow> map_option (\<lambda>r. \<lparr>pf_customerId = lo_customerId r, pf_totalPrice = lo_totalPrice r,
         pf_posPaymentMethod = lo_posPaymentMethod r, pf_walletSettledAt = lo_walletSettledAt r\<rparr>)
         (find_ledger_order db orderId))"

lemma settle_source_customer: "settle_source i pf db = Some p \<Longrightarrow> settle_customer i pf db = pf_customerId p"
  by (auto simp: settle_source_def settle_customer_def split: option.splits)

lemma lawful_settle:
  "lawful (settle_customer orderId prefetch db) db
     (snd (applyOrderWalletSettlementForCompletedOrder env orderId performedBy prefetch extra db))"
proof (cases "settle_source orderId prefetch db")
  case None
  then show ?thesis
    by (simp add: applyOrderWalletSettlementForCompletedOrder_def settle_source_def [symmetric])
next
  case (Some p)
  note c = settle_source_customer [OF Some]
  define db1 where "db1 b = ensureCustomerOriginBranchTx (pf_customerId p) b db" for b
  have 1: "lawful (pf_customerId p) db (db1 b)" for b by (simp add: db1_def)
  have 2: "lawful (pf_customerId p) db t" if "getOrCreateWalletTx (pf_customerId p) (db1 b) = (w, t)" for b w t
    by (rule lawful_after [OF 1 lawful_create [OF that]])
  have 3: "lawful (pf_customerId p) db (snd (settle_writes env ctx w t))"
    if g: "getOrCreateWalletTx (pf_customerId p) (db1 b) = (w, t)"
      and a: "settlement_of env (pf_totalPrice p) m w extra = Inr (sc_amounts ctx)"
      and p: "\<not> minor_of (pf_totalPrice p) < 0" "sc_customerId ctx = pf_customerId p" for b w t ctx m
  proof (rule lawful_after [OF 2 [OF g]])
    have "0 \<le> se_newBalanceMinor (sc_amounts ctx) \<and> 0 \<le> se_newDebtMinor (sc_amounts ctx)" if ok: "wallets_ok t"
      using settlement_of_nonneg [OF a] find_wallet_ok [OF ok getOrCreate_props(1) [OF g]] p(1) by simp
    then show "lawful (pf_customerId p) t (snd (settle_writes env ctx w t))"
      using lawful_settle_writes [of t ctx] p(2) by simp
  qed
  show ?thesis
    by (auto simp: applyOrderWalletSettlementForCompletedOrder_def settle_source_def [symmetric] Some c
        db1_def [symmetric] Let_def throwS_def 1 intro: 2 3 split: option.split prod.split sum.split)
qed

subsection \<open>Collections\<close>

lemma lawful_collected [simp, intro]: "lawful c db (mark_collected p db)"
  unfolding mark_collected_def by (rule lawful_order) (auto simp: order_kept_def)

lemma lawful_append [simp, intro]: "lawful c db (ledger_append env row db)"
  by (rule lawful_books) simp

lemma lawful_collection_book:
  assumes "find_wallet db c = Some w"
  shows "lawful c db (snd (collection_book env p c remaining w db))"
proof -
  define newDebt where "newDebt = minor_of (wl_debt w) - min remaining (minor_of (wl_debt w))"
  have u: "lawful c db (update_wallet c (\<lambda>w. w\<lparr>wl_debt := amount_of_minor newDebt\<rparr>) db)"
    by (rule lawful_wallet) (auto simp: wallet_ok_def newDebt_def)
  have m: "lawful c t (snd (Inr COLLECTION_APPLIED, if b then mark_collected p (ledger_append env row t)
      else ledger_append env row t))" for t row b
    using lawful_after [OF lawful_append lawful_collected] by simp
  show ?thesis
    unfolding collection_book_def Let_def newDebt_def [symmetric]
    by (auto simp: throwS_def intro!: lawful_after [OF u] laws.frame_bindS m split: option.split)
qed

lemma lawful_collect:
  "lawful (case find_ledger_order db (cp_orderId p) of Some r \<Rightarrow> lo_customerId r | None \<Rightarrow> []) db
     (snd (recordDebtInvoiceCollectedAtCallCenter env p db))"
proof (cases "collection_order p db")
  case (Inl e)
  then show ?thesis by (simp add: recordDebtInvoiceCollectedAtCallCenter_def)
next
  case (Inr r)
  then have f: "find_ledger_order db (cp_orderId p) = Some r"
    by (auto simp: collection_order_def split: option.splits if_splits)
  obtain w t where g: "getOrCreateWalletTx (lo_customerId r) db = (w, t)" by fastforce
  have "lawful (lo_customerId r) db (snd (collection_book env p (lo_customerId r) m w t))" for m
    by (rule lawful_after [OF lawful_create [OF g] lawful_collection_book [OF getOrCreate_props(1) [OF g]]])
  then show ?thesis
    using Inr f lawful_create [OF g]
    by (auto simp: recordDebtInvoiceCollectedAtCallCenter_def Let_def g throwS_def split: option.split)
qed

lemma lawful_paid: "lawful c db (update_order i (\<lambda>r. r\<lparr>lo_cashStatus := cs, lo_posPaymentMethod := m\<rparr>) db)"
  by (rule lawful_order) (auto simp: order_kept_def)

lemma lawful_close_invoices [simp, intro]: "lawful c db (close_invoices m allocs db)"
  unfolding close_invoices_def
proof (induction allocs arbitrary: db)
  case (Cons a allocs)
  then show ?case
    using lawful_after [OF lawful_paid [where i = "fst a" and cs = PAID_TO_DRIVER and m = "Some m"] Cons.IH] by (auto split: prod.split)
qed simp

lemma lawful_partial_tx: "lawful (pp_customerId p) db (snd (recordPartialDebtPayment_tx env p db))"
proof -
  obtain w t where g: "getOrCreateWalletTx (pp_customerId p) db = (w, t)" by fastforce
  have u: "lawful (pp_customerId p) db (close_invoices m allocs (update_wallet (pp_customerId p)
      (\<lambda>w. w\<lparr>wl_debt := amount_of_minor (minor_of (wl_debt w') - min total (minor_of (wl_debt w')))\<rparr>) t))"
    for m allocs total w'
    by (rule lawful_after [OF lawful_create [OF g]], rule lawful_after [OF lawful_wallet lawful_close_invoices])
      (auto simp: wallet_ok_def)
  show ?thesis
    unfolding recordPartialDebtPayment_tx_def Let_def g
    by (auto simp: throwS_def lawful_create [OF g] split: option.split
        intro!: lawful_after [OF u] laws.frame_bindS)
qed

subsection \<open>Subscriptions\<close>

lemma lawful_reconcile_sale [simp, intro]: "lawful c db (snd (reconcile_sale env u iv db))"
  using lawful_after [OF lawful_append lawful_stock] by (auto simp: reconcile_sale_def Let_def)

lemma lawful_reconcile_one: "lawful (lo_customerId iv) db (snd (reconcile_one env u iv db))"
proof -
  have u: "lawful (lo_customerId iv) db (update_order (lo_id iv) (\<lambda>r. r\<lparr>lo_status := ORDER_COMPLETED,
            lo_completedAt := Some t, lo_posPaymentMethod := pm, lo_cashStatus := cs\<rparr>) db)" for t pm cs
    by (rule lawful_order) (auto simp: order_kept_def)
  show ?thesis
    using lawful_settle [where orderId = "lo_id iv" and prefetch = "Some \<lparr>pf_customerId = lo_customerId iv,
        pf_totalPrice = lo_totalPrice iv, pf_posPaymentMethod = Some SUBSCRIPTION_WALLET,
        pf_walletSettledAt = None\<rparr>"]
    by (auto simp: reconcile_one_def Let_def settle_customer_def intro!: lawful_after [OF u] laws.frame_bindS)
qed

lemma next_unpaid_props:
  assumes "next_unpaid db c = Some r"
  shows "r \<in> set (lgOrders db)" "lo_customerId r = c" "lo_cashStatus r = UNPAID" "lo_status r \<noteq> CANCELED"
    "lo_walletSettledAt r = None" "lo_posPaymentBundleId r = None"
proof -
  obtain rs where "sort_key lo_createdAt (filter (\<lambda>r. lo_customerId r = c \<and> lo_cashStatus r = UNPAID
      \<and> lo_status r \<noteq> CANCELED \<and> lo_walletSettledAt r = None \<and> lo_posPaymentBundleId r = None) (lgOrders db)) = r # rs"
    using assms by (auto simp: next_unpaid_def split: list.splits)
  then have "r \<in> set (sort_key lo_createdAt (filter (\<lambda>r. lo_customerId r = c \<and> lo_cashStatus r = UNPAID
      \<and> lo_status r \<noteq> CANCELED \<and> lo_walletSettledAt r = None \<and> lo_posPaymentBundleId r = None) (lgOrders db)))"
    by simp
  then show "r \<in> set (lgOrders db)" "lo_customerId r = c" "lo_cashStatus r = UNPAID" "lo_status r \<noteq> CANCELED"
    "lo_walletSettledAt r = None" "lo_posPaymentBundleId r = None" by auto
qed

lemma lawful_passes: "lawful c db (snd (reconcile_passes n env c u db))"
proof (induction n arbitrary: db)
  case 0
  then show ?case by simp
next
  case (Suc n)
  obtain w t where g: "getOrCreateWalletTx c db = (w, t)" by fastforce
  have "lawful c t (snd (bindS (reconcile_one env u iv t) (\<lambda>_ s. bindS (reconcile_passes n env c u s)
      (\<lambda>paid. returnS (lo_id iv # paid)))))" if "next_unpaid t c = Some iv" for iv
    using lawful_reconcile_one [of iv t env u] next_unpaid_props(2) [OF that] Suc
    by (intro laws.frame_bindS) (auto intro: laws.frame_then)
  then show ?case
    using lawful_create [OF g] lawful_after [OF lawful_create [OF g]]
    by (auto simp: g Let_def split: option.split)
qed

lemma lawful_reconcile:
  "lawful c db (snd (autoReconcileUnpaidInvoicesFromPrepaidBalanceTx env c u db))"
  by (auto simp: autoReconcileUnpaidInvoicesFromPrepaidBalanceTx_def lawful_passes split: option.split)

lemma lawful_open [simp, intro]: "lawful c db (snd (open_subscription env k plan m db))"
  by (auto simp: open_subscription_def Let_def intro: lawful_tables)

lemma find_row_map:
  "(\<And>r. idf (f r) = idf r) \<Longrightarrow> find_row idf (map f rs) i = map_option f (find_row idf rs i)"
  by (induction rs) (auto simp: find_row_def)

lemma lawful_activation_close [simp, intro]: "lawful c db (activation_close p ids db)"
  by (auto simp: lawful_def activation_close_def find_row_map order_kept_def intro: keeps_same)

lemma activation_checks_price: "activation_checks p db = Inr plan \<Longrightarrow> 0 \<le> minor_of (sp_salePrice plan) \<and> 0 \<le> minor_of (sp_actualBalance plan)"
  by (auto simp: activation_checks_def split: option.splits if_splits)

lemma activation_amounts_nonneg:
  assumes "activation_checks p db = Inr plan" and "wallet_ok w"
  shows "0 \<le> aa_newBalanceMinor (activation_amounts_of plan m w od) \<and> 0 \<le> aa_newDebtMinor (activation_amounts_of plan m w od)"
  using activation_checks_price [OF assms(1)] wallet_ok_minor [OF assms(2)]
  by (simp add: activation_amounts_of_def Let_def)

lemma lawful_activate: "lawful (ap_customerId p) db (snd (activateSubscriptionPlan env p db))"
proof (cases "activation_checks p db")
  case (Inl e)
  then show ?thesis by (simp add: activateSubscriptionPlan_def)
next
  case (Inr plan)
  let ?c = "ap_customerId p"
  obtain w t where g: "getOrCreateWalletTx ?c db = (w, t)" by fastforce
  have start: "lawful ?c db (ensureCustomerOriginBranchTx ?c b t)" for b
    by (rule lawful_after [OF lawful_create [OF g] lawful_branch])
  have w: "wallet_ok w" if "wallets_ok s"
      "open_subscription env k plan m (ensureCustomerOriginBranchTx ?c b t) = (x, s)" for s k m b x
  proof -
    have "lgWallets s = lgWallets t"
      using that(2) by (auto simp: open_subscription_def Let_def ensureCustomerOriginBranchTx_def split: if_splits)
    then have "wallets_ok t" using that(1) by (simp add: wallets_ok_def)
    then show ?thesis using find_wallet_ok getOrCreate_props(1) [OF g] by blast
  qed
  define a where "a = activation_amounts_of plan (ap_paymentMethod p) w (getOperationalDebtKdBreakdown
    (ensureCustomerOriginBranchTx ?c (branch_of db (Some (ap_performedByUserId p))) t) ?c (wl_debt w))"
  have upd: "lawful ?c s (update_wallet ?c (\<lambda>w. w\<lparr>wl_balance := amount_of_minor (aa_newBalanceMinor a),
      wl_debt := amount_of_minor (aa_newDebtMinor a), wl_subscriptionActivatedAt := Some (now env),
      wl_subscriptionExpiresAt := Some (now env + validity_days plan * MS_PER_DAY),
      wl_subscriptionPlanId := Some (sp_id plan), wl_subscriptionPlanName := Some (sp_name plan)\<rparr>) s)"
    if "open_subscription env k plan m (ensureCustomerOriginBranchTx ?c b t) = (r, s)" for s k m b r
    using activation_amounts_nonneg [OF Inr] w [OF _ that]
    by (intro lawful_wallet) (auto simp: wallet_ok_def a_def)
  show ?thesis
    unfolding activateSubscriptionPlan_def Inr sum.case Let_def g prod.case a_def [symmetric]
    by (rule lawful_after [OF start], rule laws.frame_bindS, rule lawful_open,
        simp only: split_paired_all prod.case, rule lawful_after [OF upd], assumption,
        intro laws.frame_bindS)
      (simp_all add: lawful_reconcile lawful_after [OF lawful_activation_close lawful_books [OF activation_paydown_frame]])
qed

lemma two_mins: "(min a b, min c (b - min a b)) = (g, k) \<Longrightarrow> g + k \<le> b" for a b c :: int
  by (simp add: min_def split: if_splits)

lemma cancellation_bounds: "cancellation_amounts env sub w = (gift, cash) \<Longrightarrow> gift + cash \<le> minor_of (wl_balance w)"
  unfolding cancellation_amounts_def Let_def by (rule two_mins)

lemma lawful_cancel_rows [simp, intro]: "lawful c db (cancel_gl_rows env k u sub gift cash db)"
  by (rule lawful_books) simp

lemma lawful_cancelled:
  assumes "0 \<le> m"
  shows "lawful c db (update_wallet c (\<lambda>w. w\<lparr>wl_balance := amount_of_minor m, wl_subscriptionActivatedAt := None,
      wl_subscriptionExpiresAt := None, wl_subscriptionPlanId := None, wl_subscriptionPlanName := None\<rparr>)
      (db\<lparr>lgSubscriptions := subs\<rparr>))"
proof (rule lawful_after)
  show "lawful c db (db\<lparr>lgSubscriptions := subs\<rparr>)" by (rule lawful_tables) auto
  show "lawful c (db\<lparr>lgSubscriptions := subs\<rparr>) (update_wallet c (\<lambda>w. w\<lparr>wl_balance := amount_of_minor m,
      wl_subscriptionActivatedAt := None, wl_subscriptionExpiresAt := None, wl_subscriptionPlanId := None,
      wl_subscriptionPlanName := None\<rparr>) (db\<lparr>lgSubscriptions := subs\<rparr>))"
    using assms by (intro lawful_wallet) (auto simp: wallet_ok_def)
qed

lemma lawful_cancel: "lawful c db (snd (cancelSubscriptionForCustomer env c u reason db))"
proof (cases "subscription_to_cancel db c = None \<or> find_wallet db c = None")
  case True
  then show ?thesis by (auto simp: cancelSubscriptionForCustomer_def throwS_def split: option.split)
next
  case False
  then obtain sub w where sw: "subscription_to_cancel db c = Some sub" "find_wallet db c = Some w" by auto
  obtain gift cash where am: "cancellation_amounts env sub w = (gift, cash)" by fastforce
  have upd: "lawful c s (update_wallet c (\<lambda>w. w\<lparr>wl_balance := amount_of_minor (minor_of (wl_balance v) - gift - cash),
      wl_subscriptionActivatedAt := None, wl_subscriptionExpiresAt := None, wl_subscriptionPlanId := None,
      wl_subscriptionPlanName := None\<rparr>) (s\<lparr>lgSubscriptions := subs\<rparr>))" if "v = w" for s subs v
    using cancellation_bounds [OF am] that by (intro lawful_cancelled) simp
  have "lawful c db (snd (bindS (add_history env row (cancel_gl_rows env c u (sb_id sub) gift cash db)) (\<lambda>_ s.
      bindS (appendSubscriptionRefundEntrySafe env (update_wallet c (\<lambda>x. x\<lparr>wl_balance :=
          amount_of_minor (minor_of (wl_balance w) - gift - cash),
        wl_subscriptionActivatedAt := None, wl_subscriptionExpiresAt := None, wl_subscriptionPlanId := None,
        wl_subscriptionPlanName := None\<rparr>) (s\<lparr>lgSubscriptions := g (lgSubscriptions s)\<rparr>)) inp)
      (\<lambda>_. returnS y))))" for row g inp and y :: cancellation_settlement
    by (rule lawful_after [OF lawful_cancel_rows], rule laws.frame_bindS, rule lawful_history,
        rule lawful_after [OF upd], rule refl, rule laws.frame_then, rule lawful_books, rule event_books_only)
  then show ?thesis
    unfolding cancelSubscriptionForCustomer_def sw option.case am Let_def prod.case
    by (simp add: throwS_def)
qed

subsection \<open>Commands\<close>

lemma lawful_register: "lawful c db (snd (registerPendingPaymentLinkReceivableTx env i c amount db))"
proof -
  obtain w t where g: "getOrCreateWalletTx c db = (w, t)" by fastforce
  have "lawful c t (update_wallet c (\<lambda>v. v\<lparr>wl_debt := wl_debt w + amount\<rparr>) t)" if "0 < amount"
    using that find_wallet_ok [OF _ getOrCreate_props(1) [OF g]]
    by (intro lawful_wallet) (auto simp: wallet_ok_def)
  then have "0 < amount \<Longrightarrow> lawful c db (snd (bindS (appendBalanced env (update_wallet c (\<lambda>v. v\<lparr>wl_debt := wl_debt w + amount\<rparr>) t) inp)
      (\<lambda>_. returnS ())))" for inp
    by (intro lawful_after [OF lawful_create [OF g]] lawful_after [OF _ laws.frame_then [OF lawful_books [OF journal_books_only(1)]]])
  then show ?thesis
    by (simp add: registerPendingPaymentLinkReceivableTx_def g Let_def)
qed

lemma lawful_auto_renew: "lawful c db (snd (toggleAutoRenewSubscription c b db))"
  by (auto simp: toggleAutoRenewSubscription_def wallet_ok_def intro!: lawful_wallet split: option.split)

datatype ledger_command =
    Settle uuid uuid "settle_prefetch option" "(string \<times> json) list option"
  | Collect collection_params
  | PayPartially partial_payment
  | Activate activation_params
  | CancelSubscription uuid uuid "string option"
  | Reconcile uuid "uuid option"
  | RegisterLink uuid uuid decimal
  | SetAutoRenew uuid bool

fun exec_command :: "env \<times> ledger_command \<Rightarrow> ledger_db \<Rightarrow> ledger_db" where
  "exec_command (env, Settle i u pf extra) db =
     snd (ledger_transaction db (applyOrderWalletSettlementForCompletedOrder env i u pf extra db))"
| "exec_command (env, Collect p) db = snd (ledger_transaction db (recordDebtInvoiceCollectedAtCallCenter env p db))"
| "exec_command (env, PayPartially p) db = snd (recordPartialDebtPayment env p db)"
| "exec_command (env, Activate p) db = snd (ledger_transaction db (activateSubscriptionPlan env p db))"
| "exec_command (env, CancelSubscription c u r) db =
     snd (ledger_transaction db (cancelSubscriptionForCustomer env c u r db))"
| "exec_command (env, Reconcile c u) db = snd (runPrepaidAutoReconcileForCustomer env c u db)"
| "exec_command (env, RegisterLink i c m) db =
     snd (ledger_transaction db (registerPendingPaymentLinkReceivableTx env i c m db))"
| "exec_command (env, SetAutoRenew c b) db = snd (ledger_transaction db (toggleAutoRenewSubscription c b db))"

fun command_customer :: "ledger_command \<Rightarrow> ledger_db \<Rightarrow> uuid" where
  "command_customer (Settle i u pf extra) db = settle_customer i pf db"
| "command_customer (Collect p) db = (case find_ledger_order db (cp_orderId p) of Some r \<Rightarrow> lo_customerId r | None \<Rightarrow> [])"
| "command_customer (PayPartially p) db = pp_customerId p"
| "command_customer (Activate p) db = ap_customerId p"
| "command_customer (CancelSubscription c u r) db = c"
| "command_customer (Reconcile c u) db = c"
| "command_customer (RegisterLink i c m) db = c"
| "command_customer (SetAutoRenew c b) db = c"

definition run_commands :: "(env \<times> ledger_command) list \<Rightarrow> ledger_db \<Rightarrow> ledger_db" where
  "run_commands = fold exec_command"

lemma lawful_command: "lawful (command_customer cmd db) db (exec_command (env, cmd) db)"
proof (cases cmd)
  case (Activate p)
  then show ?thesis using lawful_activate by (simp add: lawful_transaction)
qed (simp_all add: lawful_transaction lawful_settle lawful_collect lawful_partial_tx lawful_cancel lawful_reconcile
    lawful_register lawful_auto_renew recordPartialDebtPayment_def runPrepaidAutoReconcileForCustomer_def)

subsection \<open>Histories\<close>

text \<open>\<open>lawful\<close> without the customer: what a history keeps.\<close>

definition grows :: "ledger_db \<Rightarrow> ledger_db \<Rightarrow> bool" where
  "grows db db' \<longleftrightarrow> (wallets_ok db \<longrightarrow> wallets_ok db')
     \<and> (\<forall>i r. find_ledger_order db i = Some r \<longrightarrow> (\<exists>r'. find_ledger_order db' i = Some r' \<and> order_kept r r'))
     \<and> accounts db' = accounts db \<and> prefix (lgHistory db) (lgHistory db') \<and> prefix (lgGl db) (lgGl db')
     \<and> prefix (journalEntries db) (journalEntries db')"

interpretation history: frame grows
proof unfold_locales
  fix s t u assume "grows s t" "grows t u"
  then show "grows s u"
    unfolding grows_def
    by (elim conjE, intro conjI)
      (simp_all, meson order_kept_trans, (blast intro: prefix_order.trans)+)
qed (simp add: grows_def)

lemma lawful_grows: "lawful c db db' \<Longrightarrow> grows db db'"
  by (simp add: lawful_def grows_def keeps_def)

lemma run_commands_grows: "grows db (run_commands cmds db)"
proof -
  have "grows s (exec_command c s)" for c s
    using lawful_grows [OF lawful_command [of "snd c" s "fst c"]] by simp
  then show ?thesis unfolding run_commands_def by (intro history.frame_fold)
qed

definition example_wallet :: customer_wallet where
  "example_wallet = \<lparr>wl_customerId = ''c1'', wl_balance = 5, wl_debt = 0, wl_subscriptionActivatedAt = None,
     wl_subscriptionExpiresAt = None, wl_subscriptionPlanId = None, wl_subscriptionPlanName = None,
     wl_autoRenewSubscription = False\<rparr>"

definition example_ledger_order :: ledger_order where
  "example_ledger_order = \<lparr>lo_id = ''o1'', lo_customerId = ''c1'', lo_driverId = None, lo_totalPrice = 8,
     lo_status = ORDER_COMPLETED, lo_cashStatus = UNPAID, lo_posPaymentMethod = Some SUBSCRIPTION_WALLET,
     lo_walletSettledAt = None, lo_posPaymentBundleId = None, lo_subscriptionId = None, lo_createdAt = 0,
     lo_completedAt = None\<rparr>"

definition example_actor :: user_row where
  "example_actor = \<lparr>us_id = ''u1'', us_username = ''owner'', us_fullName = ''Owner'', us_role = OWNER,
     us_isActive = True, us_branchId = None\<rparr>"

definition example_ledger :: ledger_db where
  "example_ledger = \<lparr>accounts = example_accounts, journalEntries = [], journalFailureLog = [],
     financialPeriods = [], financialPeriodViolations = [], lgUsers = [example_actor],
     lgCustomers = [\<lparr>cu_id = ''c1'', cu_originBranchId = None\<rparr>], lgWallets = [example_wallet],
     lgOrders = [example_ledger_order], lgPlans = [], lgSubscriptions = [], lgHistory = [], lgGl = [],
     lgStock = \<lparr>suppliers = [], inventoryCategories = [], stockItems = [], stockLevels = [], stockMovements = [],
       stockBranches = [], orderLines = []\<rparr>\<rparr>"

lemma example_wallets_ok: "wallets_ok example_ledger"
  by (simp add: wallets_ok_def example_ledger_def wallet_ok_def example_wallet_def)

text \<open>
  C5: no wallet ever gets a negative balance or a negative debt. After any history of
  settlements, collections, partial payments, activations, cancellations, automatic
  reconciliations, payment-link receivables and auto-renew switches, in any order, by any
  user, with any journal failures in between, every balance and every debt is at least zero;
  and the next command changes the wallet of its own customer only.
\<close>

theorem wallets_never_negative:
  assumes "wallets_ok db"
  shows "wallets_ok (run_commands cmds db)
    \<and> (\<forall>k. k \<noteq> command_customer cmd (run_commands cmds db) \<longrightarrow>
        find_wallet (exec_command (env, cmd) (run_commands cmds db)) k = find_wallet (run_commands cmds db) k)"
  using assms run_commands_grows [of db cmds] lawful_command [of cmd "run_commands cmds db" env]
  by (simp add: grows_def lawful_def keeps_def)

theorem wallets_never_negative_witness:
  "wallets_ok (run_commands [(example_env, Settle ''o1'' ''u1'' None None), (example_env, SetAutoRenew ''c1'' True)]
      example_ledger)"
  using wallets_never_negative [OF example_wallets_ok] by blast

text \<open>
  C7: the books are append-only. No command, whether it succeeds or fails, removes or changes a
  row of the transaction history, of the single-entry ledger or of the journal, or an account
  of the chart; an order keeps its customer and its price, and the time at which it was settled
  is written at most once.
\<close>

theorem ledger_append_only:
  "accounts (run_commands cmds db) = accounts db
    \<and> prefix (lgHistory db) (lgHistory (run_commands cmds db))
    \<and> prefix (lgGl db) (lgGl (run_commands cmds db))
    \<and> prefix (journalEntries db) (journalEntries (run_commands cmds db))
    \<and> (case find_ledger_order db i of None \<Rightarrow> True
       | Some r \<Rightarrow> (case find_ledger_order (run_commands cmds db) i of None \<Rightarrow> False
           | Some r' \<Rightarrow> lo_customerId r' = lo_customerId r \<and> lo_totalPrice r' = lo_totalPrice r
               \<and> (lo_walletSettledAt r = None \<or> lo_walletSettledAt r' = lo_walletSettledAt r)))"
proof (cases "find_ledger_order db i")
  case None
  then show ?thesis using run_commands_grows [of db cmds] by (simp add: grows_def)
next
  case (Some r)
  then obtain r' where "find_ledger_order (run_commands cmds db) i = Some r'" "order_kept r r'"
    using run_commands_grows [of db cmds] by (auto simp: grows_def)
  then show ?thesis using run_commands_grows [of db cmds] Some by (auto simp: grows_def order_kept_def)
qed

end
