(* ===== verification/Customer_Settlement.thy ===== *)
theory Customer_Settlement
  imports Customer_Wallets
begin

text \<open>
  The settlement of an order against the wallet
  (\<open>applyOrderWalletSettlementForCompletedOrder\<close>): an order is settled once, whatever happens
  afterwards; and with true accounting the wallet row and the journal both follow one abstract
  account, in which a purchase uses the prepaid balance and the rest is owed.
\<close>

subsection \<open>The journal seen by a reader\<close>

definition same_journal :: "ledger_db \<Rightarrow> ledger_db \<Rightarrow> bool" where
  "same_journal db db' \<longleftrightarrow> accounts db' = accounts db \<and> journalEntries db' = journalEntries db"

interpretation unread: frame same_journal
  by unfold_locales (simp_all add: same_journal_def)

lemma same_journal_reads:
  assumes "same_journal db db'"
  shows "account_balance db' c code = account_balance db c code" "find_entry_id db' r = find_entry_id db r"
    "accounts_ok db' = accounts_ok db"
proof -
  have "line_on db' = line_on db"
    using assms by (simp add: same_journal_def fun_eq_iff line_on_def code_of_account_def)
  then show "account_balance db' c code = account_balance db c code" "find_entry_id db' r = find_entry_id db r"
    "accounts_ok db' = accounts_ok db"
    using assms by (simp_all add: same_journal_def account_balance_def find_entry_id_def find_entry_def accounts_ok_def)
qed

lemma same_journal_rows [simp]:
  "same_journal db (ledger_append env row db)" "same_journal db (settle_gl env ctx m memo meta db)"
  "same_journal db (update_wallet c f db)" "same_journal db (update_order i g db)"
  "same_journal db (settle_mark env ctx db)" "same_journal db (ensureCustomerOriginBranchTx c b db)"
  by (simp_all add: same_journal_def ledger_append_def settle_gl_def update_wallet_def update_order_def
      settle_mark_def ensureCustomerOriginBranchTx_def)

lemma same_journal_tag [simp]: "same_journal db (snd (tag_subscription ctx db))"
  by (simp add: tag_subscription_def split: option.split)

lemma same_journal_history [simp]: "same_journal db (snd (settle_history env ctx w db))"
  by (auto simp: settle_history_def add_history_def Let_def same_journal_def returnS_def)

lemma same_journal_create: "getOrCreateWalletTx c db = (w, db1) \<Longrightarrow> same_journal db db1"
  by (auto simp: same_journal_def elim!: getOrCreate_cases)

subsection \<open>When a critical event is booked\<close>

text \<open>
  With \<open>JOURNAL_FAIL_CLOSED_CRITICAL\<close> a writer that returns has booked its event. The
  exception would be a unique violation by a concurrent writer of the same reference.
\<close>

definition no_race :: "env \<Rightarrow> bool" where
  "no_race env \<longleftrightarrow> (\<forall>r. case create_fault env r of None \<Rightarrow> True | Some e \<Rightarrow> error_code e \<noteq> Some ''P2002'')"

lemma appendBalanced_no_race:
  assumes "no_race env" and "appendBalanced env db inp = (Inl e, s)"
  shows "error_code e \<noteq> Some ''P2002''"
proof -
  have cp: "error_code e' = None" if "check_period env db inp = (Inl e', t)" for e' t
    using that
    by (auto simp: check_period_def assertWriteAllowed_def Let_def split: if_splits prod.splits sum.splits option.splits)
  have cb: "error_code e' = None"
    if "bindE (check_balance ls) (\<lambda>_. mapE (resolve_line t) ls) = Inl e'" for e' ls and t :: "'a journal_db_scheme"
  proof -
    have 1: "check_lines ls d c = Inl x \<Longrightarrow> error_code x = None" for ls d c x
      by (induction ls d c rule: check_lines.induct) (auto split: if_splits)
    have 2: "mapE (resolve_line t) ls = Inl x \<Longrightarrow> error_code x = None" for ls x
      by (induction ls) (auto simp: result_simps resolve_line_def split: option.splits)
    show ?thesis using that 1 2 by (auto simp: result_simps check_balance_def split: if_splits)
  qed
  show ?thesis
    using assms cp cb
    by (auto simp: appendBalanced_def Let_def no_race_def split: if_splits option.splits prod.splits sum.splits)
qed

lemma fail_closed_rethrows:
  assumes "isFailClosedCriticalEnabled env" and "error_code e \<noteq> Some ''P2002''"
  shows "fst (handleCriticalSafeFailure env db e h) = Inl e"
  using assms by (auto simp: handleCriticalSafeFailure_def Let_def)

lemma event_returns_ready:
  assumes fc: "isFailClosedCriticalEnabled env" and pos: "event_positive ev"
    and run: "fst (run_event env db ev) = Inr r"
  shows "event_ready ev"
proof (rule ccontr)
  assume n: "\<not> event_ready ev"
  have actor: "appendBalanced env db inp = (Inl (Error ''JOURNAL_ACTOR_REQUIRED''), db)" if "ai_actorUserId inp = []" for inp
    using that by (simp add: appendBalanced_def)
  have rethrow: "fst (handleCriticalSafeFailure env db (Error m) h) = Inl (Error m)" for m h db
    using fail_closed_rethrows [OF fc, of "Error m"] by simp
  from n pos have "\<exists>e. fst (run_event env db ev) = Inl e"
    by (cases ev)
      (auto simp: rethrow actor Let_def externalPaymentAssetAccount_def
        appendInvoiceIssuanceEntrySafe_def appendInvoiceIssuanceEntry_def
        appendWalletAbsorptionEntryV3Safe_def appendWalletAbsorptionEntryV3_def
        appendWalletAbsorptionEntrySafe_def appendWalletAbsorptionEntry_def
        appendExternalPaymentEntrySafe_def appendExternalPaymentEntry_def
        appendDebtDiscountEntrySafe_def appendDebtDiscountEntry_def
        appendInvoiceCancellationEntrySafe_def appendInvoiceCancellationEntry_def
        appendSubscriptionRefundEntrySafe_def appendSubscriptionRefundEntry_def
        split: sum.split if_split)
  with run show False by simp
qed

lemma event_booked:
  assumes fc: "isFailClosedCriticalEnabled env" "no_race env" and pos: "event_positive ev"
    and run: "run_event env db ev = (Inr r, db')" and fresh: "find_entry_id db (event_ref ev) = None"
  shows "created_row db db'"
proof -
  have "event_ready ev" using event_returns_ready [OF fc(1) pos] run by (metis fst_conv)
  then obtain inp h where ev: "run_event env db ev = catch_with (some_id (appendBalanced env db inp))
      (\<lambda>db e. handleCriticalSafeFailure env db e h)" and ref: "ai_sourceRef inp = event_ref ev"
    by (rule event_posts)
  show ?thesis
  proof (cases "appendBalanced env db inp")
    case (Pair x s)
    show ?thesis
    proof (cases x)
      case (Inl e)
      then have "fst (run_event env db ev) = Inl e"
        using fail_closed_rethrows [OF fc(1) appendBalanced_no_race [OF fc(2), of db inp e s]] Pair ev by simp
      with run show ?thesis by simp
    next
      case (Inr i)
      then have ap: "appendBalanced env db inp = (Inr i, s)" and "db' = s" using Pair ev run by auto
      then show ?thesis using fresh ref
        by (cases rule: appendBalanced_cases) (auto simp: created_row_def)
    qed
  qed
qed

text \<open>What a booked event does to the balances of its customer, and to the references.\<close>

lemma event_booked_effect:
  assumes "isFailClosedCriticalEnabled env" "no_race env" "event_positive ev"
    and run: "run_event env db ev = (Inr r, db')" and "find_entry_id db (event_ref ev) = None"
    and ok: "accounts_ok db"
  shows "account_balance db' (event_customer ev) code = account_balance db (event_customer ev) code + move_of ev code"
    "accounts_ok db'"
    "\<And>k. k \<noteq> event_ref ev \<Longrightarrow> find_entry_id db k = None \<Longrightarrow> find_entry_id db' k = None"
proof -
  have cr: "created_row db db'" using event_booked assms by blast
  have s: "db' = snd (run_event env db ev)" using run by simp
  show "account_balance db' (event_customer ev) code = account_balance db (event_customer ev) code + move_of ev code"
    using run_event_effect(1) [OF ok s] cr by simp
  show "accounts_ok db'" by (rule run_event_effect(3) [OF ok s])
  fix k assume k: "k \<noteq> event_ref ev" "find_entry_id db k = None"
  obtain w f where w: "wraps env db ev w" and f: "db' = (snd w)\<lparr>journalFailureLog := f\<rparr>"
    using event_wraps [of env db ev] s by metis
  from w k show "find_entry_id db' k = None"
    by (auto simp: wraps_def f table_simps journal.post_other)
qed

subsection \<open>The course of a settlement\<close>

definition settled :: "ledger_db \<Rightarrow> uuid \<Rightarrow> bool" where
  "settled db i \<longleftrightarrow> (case find_ledger_order db i of None \<Rightarrow> False | Some r \<Rightarrow> lo_walletSettledAt r \<noteq> None)"

lemma grows_order:
  "grows db db' \<Longrightarrow> find_ledger_order db i = Some r \<Longrightarrow>
     \<exists>r'. find_ledger_order db' i = Some r' \<and> order_kept r r'"
  by (simp add: grows_def)

lemma settled_grows: "grows db db' \<Longrightarrow> settled db i \<Longrightarrow> settled db' i"
  using grows_order [of db db' i] by (fastforce simp: settled_def order_kept_def split: option.splits)

lemma settle_steps:
  assumes "settle_writes env ctx w db = (Inr (), db')"
  obtains db1 db2 db3 db4 db5 db6 db7 db8 where
    "db1 = update_wallet (sc_customerId ctx) (\<lambda>w. w\<lparr>wl_balance := amount_of_minor (se_newBalanceMinor (sc_amounts ctx)),
       wl_debt := amount_of_minor (se_newDebtMinor (sc_amounts ctx))\<rparr>) db"
    "tag_subscription ctx db1 = (Inr (), db2)" "settle_history env ctx w db2 = (Inr (), db3)"
    "settle_issue env ctx db3 = (Inr (), db4)" "settle_shortfall env ctx db4 = (Inr (), db5)"
    "settle_overuse env ctx db5 = (Inr (), db6)" "settle_absorb env ctx db6 = (Inr (), db7)"
    "settle_external env ctx (settle_mark env ctx db7) = (Inr (), db8)"
    "settle_paydown_rows env ctx db8 = (Inr (), db')"
  using assms unfolding settle_writes_def Let_def bindS_Inr_iff by auto

lemma settle_course:
  assumes run: "applyOrderWalletSettlementForCompletedOrder env i u pf extra db = (Inr (), db')"
    and src: "settle_source i pf db = Some p" "pf_walletSettledAt p = None" and un: "\<not> settled db i"
  obtains ctx b w db2 where
    "sc_orderId ctx = i" "sc_customerId ctx = pf_customerId p" "sc_totalPrice ctx = pf_totalPrice p"
    "sc_method ctx = pf_posPaymentMethod p" "sc_extra ctx = extra" "find_actor db u = Some (sc_actor ctx)"
    "0 \<le> minor_of (pf_totalPrice p)"
    "getOrCreateWalletTx (pf_customerId p) (ensureCustomerOriginBranchTx (pf_customerId p) b db) = (w, db2)"
    "settlement_of env (pf_totalPrice p) (pf_posPaymentMethod p) w extra = Inr (sc_amounts ctx)"
    "settle_writes env ctx w db2 = (Inr (), db')"
proof -
  have orders: "lgOrders db2 = lgOrders db"
    if "getOrCreateWalletTx c (ensureCustomerOriginBranchTx c b db) = (w, db2)" for c b w db2
    using getOrCreate_props(5) [OF that] by (simp add: ensureCustomerOriginBranchTx_def)
  show ?thesis
    using run src un orders that [of "\<lparr>sc_orderId = i, sc_customerId = pf_customerId p,
      sc_totalPrice = pf_totalPrice p, sc_method = pf_posPaymentMethod p, sc_actor = actor, sc_extra = extra,
      sc_amounts = a\<rparr>" for actor a]
    by (auto simp: applyOrderWalletSettlementForCompletedOrder_def settle_source_def [symmetric] Let_def settled_def
        split: option.splits if_splits prod.splits sum.splits)
qed

lemma settle_writes_settled:
  assumes "settle_writes env ctx w db = (Inr (), db')"
  shows "settled db' (sc_orderId ctx)"
  using assms
proof (rule settle_steps)
  fix db1 db2 db3 db4 db5 db6 db7 db8
  assume s: "settle_history env ctx w db2 = (Inr (), db3)" "settle_issue env ctx db3 = (Inr (), db4)"
    "settle_shortfall env ctx db4 = (Inr (), db5)" "settle_overuse env ctx db5 = (Inr (), db6)"
    "settle_absorb env ctx db6 = (Inr (), db7)"
    "settle_external env ctx (settle_mark env ctx db7) = (Inr (), db8)"
    "settle_paydown_rows env ctx db8 = (Inr (), db')"
  have "find_ledger_order db2 (sc_orderId ctx) \<noteq> None"
    using s(1) by (auto simp: settle_history_def Let_def split: if_splits)
  moreover have "lgOrders db7 = lgOrders db2"
    using s(1) books_onlyD(4) [OF settle_issue_frame [of db3 env ctx]] books_onlyD(4) [OF settle_shortfall_frame [of db4 env ctx]]
      books_onlyD(4) [OF settle_overuse_frame [of db5 env ctx]] books_onlyD(4) [OF settle_absorb_frame [of db6 env ctx]] s(2-5)
    by (auto simp: settle_history_def add_history_def Let_def result_simps split: if_splits)
  ultimately have "settled (settle_mark env ctx db7) (sc_orderId ctx)"
    by (auto simp: settled_def settle_mark_def update_order_def table_simps)
  moreover have "lgOrders db' = lgOrders (settle_mark env ctx db7)"
    using books_onlyD(4) [OF settle_external_frame [of "settle_mark env ctx db7" env ctx]]
      books_onlyD(4) [OF settle_paydown_rows_frame [of db8 env ctx]] s(6,7) by simp
  ultimately show ?thesis by (simp add: settled_def)
qed

text \<open>A settlement that returns leaves its order settled.\<close>

lemma settle_marks:
  assumes run: "applyOrderWalletSettlementForCompletedOrder env i u pf extra db = (Inr (), db1)"
    and src: "settle_source i pf db = Some p" "pf_walletSettledAt p = None"
  shows "settled db1 i"
proof (cases "settled db i")
  case True
  have "grows db db1"
    using lawful_grows [OF lawful_settle [where env = env and orderId = i and performedBy = u and prefetch = pf and extra = extra and db = db]] run
    by simp
  then show ?thesis using True by (rule settled_grows)
next
  case False
  from settle_course [OF run src False] show ?thesis
    using settle_writes_settled by metis
qed

text \<open>What a call leaves when the order is settled already.\<close>

lemma settle_again:
  assumes "settled db i" and db': "db' = snd (applyOrderWalletSettlementForCompletedOrder env i u pf extra db)"
  shows "lgOrders db' = lgOrders db \<and> lgHistory db' = lgHistory db \<and> lgGl db' = lgGl db
    \<and> journal_db.truncate db' = journal_db.truncate db
    \<and> (\<forall>k w. find_wallet db k = Some w \<longrightarrow> find_wallet db' k = Some w)"
proof -
  have e: "lgOrders (ensureCustomerOriginBranchTx c b db) = lgOrders db"
    "lgHistory (ensureCustomerOriginBranchTx c b db) = lgHistory db" "lgGl (ensureCustomerOriginBranchTx c b db) = lgGl db"
    "lgWallets (ensureCustomerOriginBranchTx c b db) = lgWallets db"
    "journal_db.truncate (ensureCustomerOriginBranchTx c b db) = journal_db.truncate db" for c b
    by (simp_all add: ensureCustomerOriginBranchTx_def journal_db.truncate_def)
  have g: "lgOrders db2 = lgOrders db \<and> lgHistory db2 = lgHistory db \<and> lgGl db2 = lgGl db
      \<and> journal_db.truncate db2 = journal_db.truncate db
      \<and> (\<forall>k w. find_wallet db k = Some w \<longrightarrow> find_wallet db2 k = Some w)
      \<and> lo_walletSettledAt (the (find_ledger_order db2 i)) \<noteq> None \<and> find_ledger_order db2 i \<noteq> None"
    if "getOrCreateWalletTx c (ensureCustomerOriginBranchTx c b db) = (w, db2)" for c b w db2
    using getOrCreate_props [OF that] assms(1) by (auto simp: e settled_def split: option.splits)
  show ?thesis
    unfolding db'
    by (auto simp: applyOrderWalletSettlementForCompletedOrder_def Let_def throwS_def e
        split: option.split prod.split sum.split dest!: g)
qed

text \<open>
  C6: an order is settled against the wallet at most once. After a settlement that returned,
  and after any further history of ledger commands, a second settlement of the same order, by
  any user, with any data its caller has prefetched and any declared debt settlement, moves no
  money: it writes no row of the journal, of the ledger or of the history, leaves the orders
  as they are and every wallet with its balance and its debt.
\<close>

theorem settled_at_most_once:
  assumes "applyOrderWalletSettlementForCompletedOrder env i u pf extra db = (Inr (), db1)"
    and "settle_source i pf db = Some p" and "pf_walletSettledAt p = None"
    and "db2 = run_commands cmds db1"
    and "db3 = snd (applyOrderWalletSettlementForCompletedOrder env' i u' pf' extra' db2)"
  shows "settled db2 i \<and> lgOrders db3 = lgOrders db2 \<and> lgHistory db3 = lgHistory db2 \<and> lgGl db3 = lgGl db2
    \<and> journal_db.truncate db3 = journal_db.truncate db2
    \<and> (\<forall>k w. find_wallet db2 k = Some w \<longrightarrow> find_wallet db3 k = Some w)"
proof -
  have "settled db1 i" by (rule settle_marks [OF assms(1-3)])
  then have "settled db2 i" using settled_grows [OF run_commands_grows] assms(4) by simp
  then show ?thesis using settle_again [OF _ assms(5)] by blast
qed

lemma example_settles:
  "fst (applyOrderWalletSettlementForCompletedOrder example_env ''o1'' ''u1'' None None example_ledger) = Inr ()"
  by code_simp

theorem settled_at_most_once_witness:
  "\<exists>db1. applyOrderWalletSettlementForCompletedOrder example_env ''o1'' ''u1'' None None example_ledger = (Inr (), db1)
    \<and> lgHistory (snd (applyOrderWalletSettlementForCompletedOrder example_env ''o1'' ''u1'' None None
        (run_commands [(example_env, SetAutoRenew ''c1'' True)] db1)))
      = lgHistory (run_commands [(example_env, SetAutoRenew ''c1'' True)] db1)"
proof -
  obtain db1 where run: "applyOrderWalletSettlementForCompletedOrder example_env ''o1'' ''u1'' None None example_ledger
      = (Inr (), db1)" using example_settles by (metis prod.collapse)
  have "find_ledger_order example_ledger ''o1'' = Some example_ledger_order"
    by (simp add: example_ledger_def example_ledger_order_def find_row_def)
  then have "\<exists>p. settle_source ''o1'' None example_ledger = Some p \<and> pf_walletSettledAt p = None"
    by (simp add: settle_source_def) (simp add: example_ledger_order_def)
  then show ?thesis using settled_at_most_once [OF run] run by metis
qed

subsection \<open>The account a settlement keeps\<close>

text \<open>
  The abstract account: what the customer has prepaid and what the customer owes. A purchase on
  the wallet or on account uses the prepaid amount first; a purchase by any other internal
  method is owed in full; one that is paid on the spot leaves the account as it is.
\<close>

type_synonym account = "decimal \<times> decimal"

definition buy :: "pos_payment_method option \<Rightarrow> decimal \<Rightarrow> account \<Rightarrow> account" where
  "buy method price acct = (case acct of (prepaid, owed) \<Rightarrow>
     if external_method method then (prepaid, owed)
     else let used = (if method = Some SUBSCRIPTION_WALLET \<or> method = Some DEBT_ON_ACCOUNT then min prepaid price else 0)
          in (prepaid - used, owed + (price - used)))"

text \<open>The account as the wallet row and as the journal have it.\<close>

definition wallet_account :: "ledger_db \<Rightarrow> uuid \<Rightarrow> account" where
  "wallet_account db c = (case find_wallet db c of None \<Rightarrow> (0, 0) | Some w \<Rightarrow> (wl_balance w, wl_debt w))"

definition journal_account :: "ledger_db \<Rightarrow> uuid \<Rightarrow> account" where
  "journal_account db c = (- account_balance db c WALLET_LIABILITY, account_balance db c ACCOUNTS_RECEIVABLE)"

lemma same_journal_account: "same_journal db db' \<Longrightarrow> journal_account db' c = journal_account db c"
  by (simp add: journal_account_def same_journal_reads)

text \<open>The references of the entries a settlement may write, and of the receivable of a link.\<close>

definition settle_refs :: "uuid \<Rightarrow> pos_payment_method option \<Rightarrow> (string \<times> json) list option \<Rightarrow> string list" where
  "settle_refs i method extra = [''JOURNAL:INVOICE_ISSUED:'' @ i, ''JOURNAL:WALLET_ABSORPTION_V3:'' @ i @ '':APPLIED'',
     ''JOURNAL:EXTERNAL_PAYMENT:'' @ i @ '':'' @ (case method of None \<Rightarrow> [] | Some m \<Rightarrow> pos_name m) @ '':''
       @ settle_trigger extra, paymentLinkReceivableSourceRef i]"

definition fresh :: "string list \<Rightarrow> ledger_db \<Rightarrow> bool" where
  "fresh refs db = list_all (\<lambda>r. find_entry_id db r = None) refs"

lemma same_journal_fresh: "same_journal db db' \<Longrightarrow> fresh refs db' = fresh refs db"
  by (simp add: fresh_def same_journal_reads)

definition shift :: "account \<Rightarrow> account \<Rightarrow> account" where
  "shift d a = (fst a + fst d, snd a + snd d)"

definition moved :: "ledger_event \<Rightarrow> account" where
  "moved ev = (- move_of ev WALLET_LIABILITY, move_of ev ACCOUNTS_RECEIVABLE)"

lemma moved_order [money_simps]:
  "moved (Issue i) = (0, oi_amount i)" "moved (AbsorbV3 i) = (- oi_amount i, - oi_amount i)"
  by (simp_all add: moved_def move_of_def Journal_Effects.transfer_def account_codes)

lemma moved_pay [money_simps]:
  "externalPaymentAssetAccount (ep_paymentMethod e) = Inr a \<Longrightarrow> moved (Pay e) = (0, - ep_amount e)"
  by (auto simp: moved_def move_of_def Journal_Effects.transfer_def account_codes externalPaymentAssetAccount_def
      split: if_splits)

lemma booked_step:
  assumes "isFailClosedCriticalEnabled env" "no_race env" "accounts_ok db" "event_positive ev"
    and "run_event env db ev = (Inr r, db')" and "find_entry_id db (event_ref ev) = None" and "event_customer ev = c"
    and "fresh refs db" and "event_ref ev \<notin> set refs"
  shows "journal_account db' c = shift (moved ev) (journal_account db c) \<and> accounts_ok db' \<and> fresh refs db'"
proof -
  note e = event_booked_effect [OF assms(1,2,4,5,6,3)]
  have "find_entry_id db' r = None" if "r \<in> set refs" for r
    using e(3) [of r] assms(8,9) that by (auto simp: fresh_def list_all_iff)
  then have "fresh refs db'" by (simp add: fresh_def list_all_iff)
  then show ?thesis using e(1,2) assms(7) by (auto simp: journal_account_def shift_def moved_def)
qed

lemma amount_of_minor_min: "amount_of_minor (min a b) = min (amount_of_minor a) (amount_of_minor b)"
  by (simp add: amount_of_minor_def min_def divide_le_cancel)

lemma amount_of_minor_pos [simp]: "0 < amount_of_minor m \<longleftrightarrow> 0 < m"
  by (simp add: amount_of_minor_def zero_less_divide_iff)

text \<open>The tables after a settlement.\<close>

lemma settle_tables:
  assumes run: "settle_writes env ctx w db = (Inr (), db')"
  obtains h sub where
    "lgWallets db' = update_row wl_customerId (sc_customerId ctx) (\<lambda>w. w\<lparr>wl_balance := amount_of_minor (se_newBalanceMinor (sc_amounts ctx)),
       wl_debt := amount_of_minor (se_newDebtMinor (sc_amounts ctx))\<rparr>) (lgWallets db)"
    "lgOrders db' = update_row lo_id (sc_orderId ctx) (\<lambda>r. r\<lparr>lo_subscriptionId := sub r,
       lo_walletSettledAt := (case lo_walletSettledAt r of None \<Rightarrow> Some (now env) | Some t \<Rightarrow> Some t)\<rparr>) (lgOrders db)"
    "lgHistory db' = lgHistory db @ [h]" "th_orderId h = Some (sc_orderId ctx)" "th_amount h = sc_totalPrice ctx"
    "th_customerId h = sc_customerId ctx" "lgUsers db' = lgUsers db" "lgStock db' = lgStock db"
  using run
proof (rule settle_steps)
  fix db1 db2 db3 db4 db5 db6 db7 db8
  assume s: "db1 = update_wallet (sc_customerId ctx) (\<lambda>w. w\<lparr>wl_balance := amount_of_minor (se_newBalanceMinor (sc_amounts ctx)),
       wl_debt := amount_of_minor (se_newDebtMinor (sc_amounts ctx))\<rparr>) db"
    "tag_subscription ctx db1 = (Inr (), db2)" "settle_history env ctx w db2 = (Inr (), db3)"
    "settle_issue env ctx db3 = (Inr (), db4)" "settle_shortfall env ctx db4 = (Inr (), db5)"
    "settle_overuse env ctx db5 = (Inr (), db6)" "settle_absorb env ctx db6 = (Inr (), db7)"
    "settle_external env ctx (settle_mark env ctx db7) = (Inr (), db8)"
    "settle_paydown_rows env ctx db8 = (Inr (), db')"
  have m: "lgWallets (settle_mark env ctx db7) = lgWallets db7" "lgHistory (settle_mark env ctx db7) = lgHistory db7"
    "lgUsers (settle_mark env ctx db7) = lgUsers db7" "lgStock (settle_mark env ctx db7) = lgStock db7"
    by (simp_all add: settle_mark_def update_order_def)
  have b: "books_only db3 db7"
    using settle_issue_frame [of db3 env ctx] settle_shortfall_frame [of db4 env ctx]
      settle_overuse_frame [of db5 env ctx] settle_absorb_frame [of db6 env ctx] s(4-7)
    by (auto intro: books_only_after)
  have b': "books_only (settle_mark env ctx db7) db'"
    using settle_external_frame [of "settle_mark env ctx db7" env ctx] settle_paydown_rows_frame [of db8 env ctx] s(8,9)
    by (auto intro: books_only_after)
  obtain h where h: "lgHistory db3 = lgHistory db2 @ [h]" "th_orderId h = Some (sc_orderId ctx)"
      "th_amount h = sc_totalPrice ctx" "th_customerId h = sc_customerId ctx"
      "lgWallets db3 = lgWallets db2" "lgOrders db3 = lgOrders db2" "lgUsers db3 = lgUsers db2" "lgStock db3 = lgStock db2"
    using s(3) by (auto simp: settle_history_def add_history_def Let_def result_simps split: if_splits)
  obtain sub where t: "lgOrders db2 = update_row lo_id (sc_orderId ctx) (\<lambda>r. r\<lparr>lo_subscriptionId := sub r\<rparr>) (lgOrders db1)"
    "lgWallets db2 = lgWallets db1" "lgHistory db2 = lgHistory db1" "lgUsers db2 = lgUsers db1" "lgStock db2 = lgStock db1"
  proof (cases "active_subscription db1 (sc_customerId ctx)")
    case None
    have id: "lo_id r = sc_orderId ctx \<Longrightarrow> r\<lparr>lo_subscriptionId := lo_subscriptionId r\<rparr> = r" for r :: ledger_order by simp
    then show ?thesis
      using s(2) None by (intro that [of lo_subscriptionId]) (auto simp: tag_subscription_def update_row_def)
  next
    case (Some x)
    then show ?thesis
      using s(2) by (intro that [of "\<lambda>_. Some x"]) (auto simp: tag_subscription_def update_order_def split: if_splits)
  qed
  have "lgOrders db' = update_row lo_id (sc_orderId ctx)
      (\<lambda>r. if lo_walletSettledAt r = None then r\<lparr>lo_walletSettledAt := Some (now env)\<rparr> else r) (lgOrders db2)"
    using books_onlyD [OF b] books_onlyD [OF b'] h by (simp add: settle_mark_def update_order_def)
  also have "\<dots> = update_row lo_id (sc_orderId ctx) (\<lambda>r. r\<lparr>lo_subscriptionId := sub r,
       lo_walletSettledAt := (case lo_walletSettledAt r of None \<Rightarrow> Some (now env) | Some t \<Rightarrow> Some t)\<rparr>) (lgOrders db)"
    using s(1) by (auto simp: t update_row_def update_wallet_def split: option.split)
  finally show ?thesis
    using books_onlyD [OF b] books_onlyD [OF b'] m h t s(1) by (intro that [of sub h]) (auto simp: update_wallet_def)
qed

lemma shift_zero [simp]: "shift (0, 0) a = a"
  by (simp add: shift_def)

lemma fixed4_zero: assumes "fixed4 x" "0 \<le> x" "\<not> 0 < minor_of x" shows "x = 0"
proof -
  obtain m where m: "x = amount_of_minor m" using assms(1) unfolding fixed4_iff by blast
  then have "m = 0" using assms(2,3) by auto
  then show ?thesis by (simp add: m amount_of_minor_def)
qed

text \<open>True accounting with no write lost: the three bookings of a settlement.\<close>

definition strict_accounting :: "env \<Rightarrow> bool" where
  "strict_accounting env \<longleftrightarrow> isV20_3TrueAccountingEnabled env \<and> isFailClosedCriticalEnabled env \<and> no_race env"

lemma strict_accountingD:
  assumes "strict_accounting env"
  shows "isV20_3TrueAccountingEnabled env" "isFailClosedCriticalEnabled env" "no_race env"
  using assms by (simp_all add: strict_accounting_def)

lemma issue_step:
  assumes strict: "strict_accounting env" and ok: "accounts_ok db" and run: "settle_issue env ctx db = (Inr (), db')"
    and amounts: "se_totalMinor (sc_amounts ctx) = minor_of (sc_totalPrice ctx)" "fixed4 (sc_totalPrice ctx)"
      "0 \<le> sc_totalPrice ctx"
    and refs: "fresh ((''JOURNAL:INVOICE_ISSUED:'' @ sc_orderId ctx) # refs) db"
      "paymentLinkReceivableSourceRef (sc_orderId ctx) \<in> set refs"
      "(''JOURNAL:INVOICE_ISSUED:'' @ sc_orderId ctx) \<notin> set refs"
  shows "journal_account db' (sc_customerId ctx) = shift (0, sc_totalPrice ctx) (journal_account db (sc_customerId ctx))
    \<and> accounts_ok db' \<and> fresh refs db'"
proof (cases "0 < minor_of (sc_totalPrice ctx)")
  case False
  then have "db' = db" "sc_totalPrice ctx = 0"
    using run amounts fixed4_zero by (auto simp: settle_issue_def Let_def)
  then show ?thesis using ok refs by (simp add: fresh_def)
next
  case True
  let ?ev = "Issue (settle_amount_input ctx (sc_totalPrice ctx))"
  have "find_entry_id db (paymentLinkReceivableSourceRef (sc_orderId ctx)) = None"
    using refs(1,2) by (auto simp: fresh_def list_all_iff)
  with True obtain r where r: "run_event env db ?ev = (Inr r, db')"
    using run amounts strict_accountingD(1) [OF strict] by (auto simp: settle_issue_def Let_def result_simps)
  have "event_positive ?ev"
    using True amounts(2) unfolding fixed4_iff by (auto simp: settle_amount_input_def)
  then show ?thesis
    using booked_step [OF strict_accountingD(2,3) [OF strict] ok _ r, of "sc_customerId ctx" refs] refs
    by (simp add: settle_amount_input_def moved_order fresh_def)
qed

lemma absorb_step:
  assumes strict: "strict_accounting env" and ok: "accounts_ok db" and run: "settle_absorb env ctx db = (Inr (), db')"
    and taken: "0 \<le> se_safeTakeMinor (sc_amounts ctx)"
    and refs: "fresh ((''JOURNAL:WALLET_ABSORPTION_V3:'' @ sc_orderId ctx @ '':APPLIED'') # refs) db"
      "(''JOURNAL:WALLET_ABSORPTION_V3:'' @ sc_orderId ctx @ '':APPLIED'') \<notin> set refs"
  defines "taken \<equiv> amount_of_minor (se_safeTakeMinor (sc_amounts ctx))"
  shows "journal_account db' (sc_customerId ctx) = shift (- taken, - taken) (journal_account db (sc_customerId ctx))
    \<and> accounts_ok db' \<and> fresh refs db'"
proof (cases "0 < se_safeTakeMinor (sc_amounts ctx)")
  case False
  then have "db' = db" "taken = 0"
    using run taken by (auto simp: settle_absorb_def Let_def taken_def amount_of_minor_def)
  then show ?thesis using ok refs by (simp add: fresh_def)
next
  case True
  let ?ev = "AbsorbV3 (settle_amount_input ctx taken)"
  obtain r where r: "run_event env db ?ev = (Inr r, db')"
    using True run strict_accountingD(1) [OF strict] by (auto simp: settle_absorb_def Let_def result_simps payment_check_def taken_def)
  have "event_positive ?ev" using True by (simp add: settle_amount_input_def taken_def)
  then show ?thesis
    using booked_step [OF strict_accountingD(2,3) [OF strict] ok _ r, of "sc_customerId ctx" refs] refs
    by (simp add: settle_amount_input_def moved_order fresh_def)
qed

lemma external_step:
  assumes strict: "strict_accounting env" and ok: "accounts_ok db" and run: "settle_external env ctx db = (Inr (), db')"
    and rest: "se_paydownMinor (sc_amounts ctx) = 0" "0 \<le> se_shortfallMinor (sc_amounts ctx)"
    and ext: "se_externalCoversShortfall (sc_amounts ctx) \<longleftrightarrow> external_method (sc_method ctx)"
    and refs: "fresh [''JOURNAL:EXTERNAL_PAYMENT:'' @ sc_orderId ctx @ '':'' @ (case sc_method ctx of None \<Rightarrow> [] | Some m \<Rightarrow> pos_name m) @ '':''
       @ settle_trigger (sc_extra ctx)] db"
  shows "journal_account db' (sc_customerId ctx) = shift (0, - (if external_method (sc_method ctx)
      then amount_of_minor (se_shortfallMinor (sc_amounts ctx)) else 0)) (journal_account db (sc_customerId ctx))
    \<and> accounts_ok db'"
proof (cases "external_method (sc_method ctx) \<and> 0 < se_shortfallMinor (sc_amounts ctx)")
  case False
  then have "db' = db" using run rest ext
    by (auto simp: settle_external_def Let_def split: option.splits)
  moreover have "(if external_method (sc_method ctx) then amount_of_minor (se_shortfallMinor (sc_amounts ctx)) else 0) = 0"
    using False rest(2) by (auto simp: amount_of_minor_def)
  ultimately show ?thesis using ok by simp
next
  case True
  then obtain pm where pm: "sc_method ctx = Some pm" "external_method (Some pm)"
    by (cases "sc_method ctx") (auto simp: external_method_def)
  obtain note' r where r: "run_event env db (Pay \<lparr>ep_customerId = sc_customerId ctx,
      ep_orderId = Some (sc_orderId ctx), ep_actorUserId = us_id (sc_actor ctx),
      ep_amount = amount_of_minor (se_shortfallMinor (sc_amounts ctx)), ep_paymentMethod = pos_name pm,
      ep_paymentRef = sc_orderId ctx @ '':'' @ pos_name pm @ '':'' @ settle_trigger (sc_extra ctx),
      ep_note = note'\<rparr>) = (Inr r, db')" (is "run_event env db ?ev = _")
    using True run strict_accountingD(1) [OF strict] pm ext by (auto simp: settle_external_def Let_def result_simps)
  obtain asset where asset: "externalPaymentAssetAccount (pos_name pm) = Inr asset"
    using pm(2) by (cases pm) (auto simp: external_method_def externalPaymentAssetAccount_def)
  have "event_positive ?ev" using True by simp
  then show ?thesis
    using booked_step [OF strict_accountingD(2,3) [OF strict] ok _ r, of "sc_customerId ctx" "[]"] refs pm True
    by (simp add: fresh_def moved_pay asset)
qed

text \<open>The rows of the books between the bookings do not touch the journal.\<close>

lemma strict_shortfall:
  assumes "strict_accounting env" and "settle_shortfall env ctx db = (Inr (), db')"
  shows "same_journal db db'"
  using assms(2) strict_accountingD(1) [OF assms(1)] by (auto simp: settle_shortfall_def Let_def split: if_splits)

lemma no_overuse:
  "se_addedSubscriptionDebtMinor (sc_amounts ctx) = 0 \<Longrightarrow> settle_overuse env ctx db = (Inr (), db)"
  by (simp add: settle_overuse_def)

lemma no_paydown: "se_paydownMinor (sc_amounts ctx) = 0 \<Longrightarrow> settle_paydown_rows env ctx db = (Inr (), db)"
  by (simp add: settle_paydown_rows_def)

lemma settle_writes_account:
  assumes strict: "strict_accounting env" and ok: "accounts_ok db"
    and run: "settle_writes env ctx w db = (Inr (), db')"
    and amounts: "se_totalMinor (sc_amounts ctx) = minor_of (sc_totalPrice ctx)" "fixed4 (sc_totalPrice ctx)"
      "0 \<le> sc_totalPrice ctx" "0 \<le> se_safeTakeMinor (sc_amounts ctx)" "se_paydownMinor (sc_amounts ctx) = 0"
      "0 \<le> se_shortfallMinor (sc_amounts ctx)" "se_addedSubscriptionDebtMinor (sc_amounts ctx) = 0"
      "se_externalCoversShortfall (sc_amounts ctx) \<longleftrightarrow> external_method (sc_method ctx)"
    and fresh: "fresh (settle_refs (sc_orderId ctx) (sc_method ctx) (sc_extra ctx)) db"
  shows "journal_account db' (sc_customerId ctx) =
    shift (0, - (if external_method (sc_method ctx) then amount_of_minor (se_shortfallMinor (sc_amounts ctx)) else 0))
      (shift (- amount_of_minor (se_safeTakeMinor (sc_amounts ctx)), - amount_of_minor (se_safeTakeMinor (sc_amounts ctx)))
        (shift (0, sc_totalPrice ctx) (journal_account db (sc_customerId ctx))))"
  using run
proof (rule settle_steps)
  let ?c = "sc_customerId ctx"
  let ?pay = "''JOURNAL:EXTERNAL_PAYMENT:'' @ sc_orderId ctx @ '':'' @ (case sc_method ctx of None \<Rightarrow> [] | Some m \<Rightarrow> pos_name m) @ '':''
       @ settle_trigger (sc_extra ctx)"
  let ?abs = "''JOURNAL:WALLET_ABSORPTION_V3:'' @ sc_orderId ctx @ '':APPLIED''"
  fix db1 db2 db3 db4 db5 db6 db7 db8
  assume s: "db1 = update_wallet ?c (\<lambda>w. w\<lparr>wl_balance := amount_of_minor (se_newBalanceMinor (sc_amounts ctx)),
       wl_debt := amount_of_minor (se_newDebtMinor (sc_amounts ctx))\<rparr>) db"
    "tag_subscription ctx db1 = (Inr (), db2)" "settle_history env ctx w db2 = (Inr (), db3)"
    "settle_issue env ctx db3 = (Inr (), db4)" "settle_shortfall env ctx db4 = (Inr (), db5)"
    "settle_overuse env ctx db5 = (Inr (), db6)" "settle_absorb env ctx db6 = (Inr (), db7)"
    "settle_external env ctx (settle_mark env ctx db7) = (Inr (), db8)"
    "settle_paydown_rows env ctx db8 = (Inr (), db')"
  have "same_journal db db1" "same_journal db1 db2" "same_journal db2 db3"
    using s(1-3) same_journal_tag [of db1 ctx] same_journal_history [of db2 env ctx w] by simp_all
  then have j: "same_journal db db3" by (meson unread.frame_trans)
  let ?iss = "''JOURNAL:INVOICE_ISSUED:'' @ sc_orderId ctx" and ?link = "paymentLinkReceivableSourceRef (sc_orderId ctx)"
  have f3: "fresh (?iss # [?abs, ?pay, ?link]) db3"
    using fresh same_journal_fresh [OF j] by (simp add: settle_refs_def fresh_def)
  have 1: "journal_account db4 ?c = shift (0, sc_totalPrice ctx) (journal_account db3 ?c) \<and> accounts_ok db4
      \<and> fresh [?abs, ?pay, ?link] db4"
    by (rule issue_step [OF strict _ s(4) amounts(1-3) f3])
      (simp_all add: ok same_journal_reads [OF j] paymentLinkReceivableSourceRef_def PAYMENT_LINK_RECEIVABLE_SOURCE_def)
  have j2: "same_journal db4 db6"
    using strict_shortfall [OF strict s(5)] s(6) amounts(7) by (simp add: no_overuse)
  have f6: "fresh (?abs # [?pay]) db6"
    using 1 same_journal_reads(2) [OF j2] by (simp add: fresh_def)
  have 2: "journal_account db7 ?c = shift (- amount_of_minor (se_safeTakeMinor (sc_amounts ctx)),
        - amount_of_minor (se_safeTakeMinor (sc_amounts ctx))) (journal_account db6 ?c) \<and> accounts_ok db7
      \<and> fresh [?pay] db7"
    by (rule absorb_step [OF strict _ s(7) amounts(4) f6]) (simp_all add: 1 same_journal_reads [OF j2])
  have j3: "same_journal db7 (settle_mark env ctx db7)" by simp
  have 3: "journal_account db8 ?c = shift (0, - (if external_method (sc_method ctx)
      then amount_of_minor (se_shortfallMinor (sc_amounts ctx)) else 0)) (journal_account (settle_mark env ctx db7) ?c)
      \<and> accounts_ok db8"
    by (rule external_step [OF strict _ s(8) amounts(5,6,8)])
      (use 2 same_journal_reads [OF j3] same_journal_fresh [OF j3] in simp_all)
  have "db' = db8" using s(9) amounts(5) by (simp add: no_paydown)
  then show ?thesis
    using 1 2 3 same_journal_account [OF j] same_journal_account [OF j2]
      same_journal_account [OF j3] by simp
qed

lemma settlement_plain:
  assumes "settlement_of env price method w extra = Inr a" and "wallet_ok w" and "0 \<le> minor_of price"
    and undeclared: "debt_settled_str extra = None"
  shows "se_totalMinor a = minor_of price" "0 \<le> se_safeTakeMinor a" "se_safeTakeMinor a \<le> minor_of (wl_balance w)"
    "se_safeTakeMinor a \<le> minor_of price" "se_shortfallMinor a = minor_of price - se_safeTakeMinor a"
    "se_newBalanceMinor a = minor_of (wl_balance w) - se_safeTakeMinor a" "se_paydownMinor a = 0"
    "se_newDebtMinor a = minor_of (wl_debt w) + (if external_method method then 0 else minor_of price - se_safeTakeMinor a)"
    "se_externalCoversShortfall a \<longleftrightarrow> external_method method" "se_addedSubscriptionDebtMinor a = 0"
    "se_safeTakeMinor a = (if method = Some SUBSCRIPTION_WALLET \<or> method = Some DEBT_ON_ACCOUNT
       then min (minor_of (wl_balance w)) (minor_of price) else 0)"
proof -
  have pd: "settle_paydown env extra x y = Inr (u, v) \<longleftrightarrow> u = 0 \<and> v = y" for x y u v
    by (auto simp: settle_paydown_def undeclared)
  show "se_totalMinor a = minor_of price" "0 \<le> se_safeTakeMinor a" "se_safeTakeMinor a \<le> minor_of (wl_balance w)"
    "se_safeTakeMinor a \<le> minor_of price" "se_shortfallMinor a = minor_of price - se_safeTakeMinor a"
    "se_newBalanceMinor a = minor_of (wl_balance w) - se_safeTakeMinor a" "se_paydownMinor a = 0"
    "se_externalCoversShortfall a \<longleftrightarrow> external_method method" "se_addedSubscriptionDebtMinor a = 0"
    "se_safeTakeMinor a = (if method = Some SUBSCRIPTION_WALLET \<or> method = Some DEBT_ON_ACCOUNT
       then min (minor_of (wl_balance w)) (minor_of price) else 0)"
    by (rule settlement_of_cases [OF assms(1-3)], (assumption | simp only: pd))+
  show "se_newDebtMinor a = minor_of (wl_debt w) + (if external_method method then 0 else minor_of price - se_safeTakeMinor a)"
    by (rule settlement_of_cases [OF assms(1-3)], unfold pd) (cases "external_method method"; simp only: if_True if_False simp_thms)
qed

text \<open>
  C4: a settlement refines the account. With true accounting and no write lost, take an order
  that is not settled, whose references are not in the journal, with exact amounts and without
  a declared debt settlement. If before the settlement the journal holds the customer's prepaid
  balance (the wallet liability) and debt (the receivable) that the wallet row shows, then
  afterwards both have gone through the same abstract purchase and still agree. The payment
  method decides: wallet and on-account orders use the prepaid balance and owe the rest, an
  order paid on the spot changes neither.
\<close>

theorem settlement_refines_account:
  assumes strict: "strict_accounting env" and ok: "accounts_ok db" "wallets_ok db" "\<not> settled db i"
    and src: "settle_source i pf db = Some p" "pf_walletSettledAt p = None"
    and exact: "fixed4 (pf_totalPrice p)" "fixed4 (fst (wallet_account db (pf_customerId p)))"
      "fixed4 (snd (wallet_account db (pf_customerId p)))"
    and fresh: "fresh (settle_refs i (pf_posPaymentMethod p) extra) db" and undeclared: "debt_settled_str extra = None"
    and agree: "journal_account db (pf_customerId p) = wallet_account db (pf_customerId p)"
    and run: "applyOrderWalletSettlementForCompletedOrder env i u pf extra db = (Inr (), db')"
  shows "wallet_account db' (pf_customerId p)
      = buy (pf_posPaymentMethod p) (pf_totalPrice p) (wallet_account db (pf_customerId p))
    \<and> journal_account db' (pf_customerId p) = wallet_account db' (pf_customerId p)"
proof (rule settle_course [OF run src ok(3)])
  let ?c = "pf_customerId p" and ?m = "pf_posPaymentMethod p"
  fix ctx b w db2
  assume ctx: "sc_orderId ctx = i" "sc_customerId ctx = ?c" "sc_totalPrice ctx = pf_totalPrice p" "sc_method ctx = ?m"
      "sc_extra ctx = extra" and price: "0 \<le> minor_of (pf_totalPrice p)"
    and g: "getOrCreateWalletTx ?c (ensureCustomerOriginBranchTx ?c b db) = (w, db2)"
    and a: "settlement_of env (pf_totalPrice p) ?m w extra = Inr (sc_amounts ctx)"
    and sw: "settle_writes env ctx w db2 = (Inr (), db')"
  define a where "a = sc_amounts ctx"
  have j: "same_journal db db2"
    using unread.frame_trans [OF same_journal_rows(6) same_journal_create [OF g]] .
  have wd: "find_wallet db2 ?c = Some w" by (rule getOrCreate_props(1) [OF g])
  have acct: "wallet_account db ?c = (wl_balance w, wl_debt w)"
    using g by (cases rule: getOrCreate_cases)
      (simp_all add: wallet_account_def ensureCustomerOriginBranchTx_def new_wallet_def split: if_splits)
  have wok: "wallet_ok w"
    using getOrCreate_props(3) [OF g] ok(2) by (simp add: wallets_ok_def ensureCustomerOriginBranchTx_def)
  obtain P B D where P: "pf_totalPrice p = amount_of_minor P" and B: "wl_balance w = amount_of_minor B"
    and D: "wl_debt w = amount_of_minor D"
    using exact acct unfolding fixed4_iff by auto
  define t where "t = se_safeTakeMinor a"
  have am: "0 \<le> t" "t \<le> B" "t \<le> P" "se_totalMinor a = P" "se_shortfallMinor a = P - t"
    "se_newBalanceMinor a = B - t" "se_paydownMinor a = 0"
    "se_newDebtMinor a = D + (if external_method ?m then 0 else P - t)"
    "se_externalCoversShortfall a \<longleftrightarrow> external_method ?m" "se_addedSubscriptionDebtMinor a = 0"
    "t = (if ?m = Some SUBSCRIPTION_WALLET \<or> ?m = Some DEBT_ON_ACCOUNT then min B P else 0)"
    using settlement_plain [OF a wok price undeclared] by (simp_all add: t_def a_def P B D)
  have "0 \<le> P" using price P by simp
  then have J: "journal_account db' ?c = shift (0, - (if external_method ?m then amount_of_minor (P - t) else 0))
      (shift (- amount_of_minor t, - amount_of_minor t) (shift (0, amount_of_minor P) (journal_account db2 ?c)))"
    using settle_writes_account [OF strict _ sw] ok(1) j am fresh
    by (simp add: same_journal_reads same_journal_fresh ctx P a_def [symmetric] t_def [symmetric])
  obtain h sub where "lgWallets db' = update_row wl_customerId ?c (\<lambda>w. w\<lparr>wl_balance := amount_of_minor (B - t),
       wl_debt := amount_of_minor (se_newDebtMinor a)\<rparr>) (lgWallets db2)"
    using settle_tables [OF sw] am(6) ctx by (auto simp: a_def)
  then have W: "wallet_account db' ?c = (amount_of_minor (B - t), amount_of_minor (D + (if external_method ?m then 0 else P - t)))"
    using wd am(8) by (simp add: wallet_account_def table_simps)
  have J2: "journal_account db2 ?c = (amount_of_minor B, amount_of_minor D)"
    using agree acct B D same_journal_account [OF j] by simp
  show ?thesis
    using am(11) unfolding J W J2 acct B D P
    by (auto simp: buy_def shift_def external_method_def amount_of_minor_min [symmetric] amount_of_minor_add algebra_simps)
qed

definition strict_env :: env where
  "strict_env = example_env\<lparr>V20_3_TRUE_ACCOUNTING := Some ''true'', JOURNAL_FAIL_CLOSED_CRITICAL := Some ''true''\<rparr>"

text \<open>The wallet of the example was funded with 5 KD in cash.\<close>

definition funded_ledger :: ledger_db where
  "funded_ledger = example_ledger\<lparr>journalEntries := [\<lparr>je_id = ''j0'', je_source = ''PROCESS_TRANSACTION'',
     je_sourceRef = ''WALLET_FUNDING:SUBSCRIPTION:s0'', je_actorUserId = ''u1'', je_customerId = Some ''c1'',
     je_orderId = None, je_branchId = None, je_createdAt = 0,
     je_lines = [\<lparr>jl_accountId = ''acc-1100'', jl_debit = 5, jl_credit = 0, jl_meta = None\<rparr>,
       \<lparr>jl_accountId = ''acc-2100'', jl_debit = 0, jl_credit = 5, jl_meta = None\<rparr>]\<rparr>]\<rparr>"

lemma strict_env_ok: "strict_accounting strict_env"
proof -
  have "isV20_3TrueAccountingEnabled strict_env" "isFailClosedCriticalEnabled strict_env" by code_simp+
  then show ?thesis by (simp add: strict_accounting_def no_race_def) (simp add: strict_env_def example_env_def)
qed

lemma funded_ledger_facts:
  "accounts_ok funded_ledger" "wallets_ok funded_ledger" "\<not> settled funded_ledger ''o1''"
  "fresh (settle_refs ''o1'' (Some SUBSCRIPTION_WALLET) None) funded_ledger"
  "journal_account funded_ledger ''c1'' = (5, 0)" "wallet_account funded_ledger ''c1'' = (5, 0)"
  "fst (applyOrderWalletSettlementForCompletedOrder strict_env ''o1'' ''u1'' None None funded_ledger) = Inr ()"
  "settle_source ''o1'' None funded_ledger = Some \<lparr>pf_customerId = ''c1'', pf_totalPrice = 8,
     pf_posPaymentMethod = Some SUBSCRIPTION_WALLET, pf_walletSettledAt = None\<rparr>"
  by code_simp+

theorem settlement_refines_account_witness:
  "\<exists>db'. applyOrderWalletSettlementForCompletedOrder strict_env ''o1'' ''u1'' None None funded_ledger = (Inr (), db')
     \<and> journal_account db' ''c1'' = (0, 3) \<and> wallet_account db' ''c1'' = (0, 3)"
proof -
  obtain db' where run: "applyOrderWalletSettlementForCompletedOrder strict_env ''o1'' ''u1'' None None funded_ledger
      = (Inr (), db')" using funded_ledger_facts(7) by (metis prod.collapse)
  have "fixed4 8" "fixed4 5" "fixed4 0" by (simp_all add: fixed4_def)
  moreover have "debt_settled_str None = None" by (simp add: debt_settled_str_def)
  moreover have "buy (Some SUBSCRIPTION_WALLET) 8 (5, 0) = (0, 3)" by (simp add: buy_def external_method_def)
  ultimately show ?thesis
    using settlement_refines_account [OF strict_env_ok funded_ledger_facts(1-3,8) _ _ _ _ _ _ _ run] funded_ledger_facts(4-6) run
    by simp
qed

end
