(* ===== verification/Customer_Reconcile.thy ===== *)
theory Customer_Reconcile
  imports Customer_Settlement
begin

text \<open>
  The automatic settlement of open invoices from the prepaid balance: which invoices it pays,
  in which order, when it stops and what it costs. The early cancellation of a subscription:
  what is refunded at most. The duplicate guards of the collections.
\<close>

subsection \<open>The queue of open invoices\<close>

definition open_orders :: "ledger_db \<Rightarrow> uuid \<Rightarrow> ledger_order list" where
  "open_orders db c = filter (\<lambda>r. lo_customerId r = c \<and> lo_cashStatus r = UNPAID \<and> lo_status r \<noteq> CANCELED
     \<and> lo_walletSettledAt r = None \<and> lo_posPaymentBundleId r = None) (lgOrders db)"

definition open_queue :: "ledger_db \<Rightarrow> uuid \<Rightarrow> ledger_order list" where
  "open_queue db c = sort_key lo_createdAt (open_orders db c)"

text \<open>The prepaid balance and the debt of a customer, in minor units.\<close>

definition prepaid_minor :: "ledger_db \<Rightarrow> uuid \<Rightarrow> int" where
  "prepaid_minor db c = minor_of (fst (wallet_account db c))"

definition owed_minor :: "ledger_db \<Rightarrow> uuid \<Rightarrow> int" where
  "owed_minor db c = minor_of (snd (wallet_account db c))"

text \<open>Nothing more can be paid: no open invoice, or the oldest one is not covered (or is free).\<close>

definition stuck :: "ledger_db \<Rightarrow> uuid \<Rightarrow> bool" where
  "stuck db c \<longleftrightarrow> prepaid_minor db c \<le> 0 \<or> (case open_queue db c of [] \<Rightarrow> True
     | r # _ \<Rightarrow> minor_of (lo_totalPrice r) \<le> 0 \<or> prepaid_minor db c < minor_of (lo_totalPrice r))"

lemma next_unpaid_queue: "next_unpaid db c = (case open_queue db c of [] \<Rightarrow> None | r # _ \<Rightarrow> Some r)"
  by (simp add: next_unpaid_def open_queue_def open_orders_def)

lemma queue_orders: "lgOrders db' = lgOrders db \<Longrightarrow> open_queue db' c = open_queue db c"
  by (simp add: open_queue_def open_orders_def)

lemma open_orders_update:
  assumes "\<And>r. lo_id (f r) = lo_id r" and "\<And>r. lo_cashStatus (f r) \<noteq> UNPAID"
  shows "filter (\<lambda>r. lo_customerId r = c \<and> lo_cashStatus r = UNPAID \<and> P r) (update_row lo_id i f rs)
    = filter (\<lambda>r. lo_id r \<noteq> i) (filter (\<lambda>r. lo_customerId r = c \<and> lo_cashStatus r = UNPAID \<and> P r) rs)"
  unfolding update_row_def by (induction rs) (use assms in auto)

text \<open>When the head of the queue is closed, the queue is its tail.\<close>

lemma queue_advance:
  assumes "distinct (map lo_id (lgOrders db))" and "open_queue db c = r # rs"
    and "lgOrders db' = update_row lo_id (lo_id r) f (lgOrders db)"
    and "\<And>r. lo_id (f r) = lo_id r" and "\<And>r. lo_cashStatus (f r) \<noteq> UNPAID"
  shows "open_queue db' c = rs"
proof -
  have "open_orders db' c = filter (\<lambda>x. lo_id x \<noteq> lo_id r) (open_orders db c)"
    using open_orders_update [OF assms(4,5)] unfolding open_orders_def assms(3) by simp
  then have "open_queue db' c = filter (\<lambda>x. lo_id x \<noteq> lo_id r) (r # rs)"
    using assms(2) by (simp add: open_queue_def filter_sort [symmetric])
  moreover have "distinct (map lo_id (r # rs))"
  proof -
    have "distinct (map lo_id (open_orders db c))"
      using assms(1) by (simp add: open_orders_def distinct_map_filter)
    moreover have "mset (map lo_id (r # rs)) = mset (map lo_id (open_orders db c))"
      unfolding assms(2) [symmetric] open_queue_def by simp
    ultimately show ?thesis using mset_eq_imp_distinct_iff by blast
  qed
  ultimately show ?thesis by (auto intro!: filter_True) (metis imageI)
qed

subsection \<open>One invoice\<close>

lemma paid_not_unpaid: "cashStatusForPaymentMethod (Some SUBSCRIPTION_WALLET) \<noteq> UNPAID"
  by (simp add: cashStatusForPaymentMethod_def)

lemma reconcile_sale_tables:
  assumes "reconcile_sale env u iv db = (x, db')"
  shows "lgOrders db' = lgOrders db" "lgWallets db' = lgWallets db"
  using assms
  by (auto simp: reconcile_sale_def lift_stock_def Let_def ledger_append_def split: if_splits sum.splits)

lemma reconcile_one_effect:
  assumes run: "reconcile_one env u iv db = (Inr (), db')"
    and ids: "distinct (map lo_id (lgOrders db))" and iv: "iv \<in> set (lgOrders db)" "lo_walletSettledAt iv = None"
    and w: "find_wallet db (lo_customerId iv) = Some w" "wallet_ok w"
    and covered: "minor_of (lo_totalPrice iv) \<le> minor_of (wl_balance w)"
  shows "\<exists>f. lgOrders db' = update_row lo_id (lo_id iv) f (lgOrders db) \<and> (\<forall>r. lo_id (f r) = lo_id r \<and> lo_cashStatus (f r) \<noteq> UNPAID)"
    and "find_wallet db' (lo_customerId iv) = Some (w\<lparr>wl_balance := amount_of_minor (minor_of (wl_balance w) - minor_of (lo_totalPrice iv)),
      wl_debt := amount_of_minor (minor_of (wl_debt w))\<rparr>)"
proof -
  define p where "p = \<lparr>pf_customerId = lo_customerId iv, pf_totalPrice = lo_totalPrice iv,
    pf_posPaymentMethod = Some SUBSCRIPTION_WALLET, pf_walletSettledAt = None\<rparr>"
  define extra where "extra = Some [(''autoReconciledFromPrepaidBalance'', JBool True),
    (''reportingCategory'', JString ''PREPAID_AUTO_RECONCILE'')]"
  define g where "g = (\<lambda>r. r\<lparr>lo_status := ORDER_COMPLETED,
            lo_completedAt := Some (nullish (lo_completedAt iv) (lo_createdAt iv)),
            lo_posPaymentMethod := Some SUBSCRIPTION_WALLET,
            lo_cashStatus := cashStatusForPaymentMethod (Some SUBSCRIPTION_WALLET)\<rparr> :: ledger_order)"
  define db1 where "db1 = update_order (lo_id iv) g db"
  obtain db2 where s: "applyOrderWalletSettlementForCompletedOrder env (lo_id iv) u (Some p) extra db1 = (Inr (), db2)"
    and sale: "reconcile_sale env u iv db2 = (Inr (), db')"
    using run by (auto simp: reconcile_one_def Let_def result_simps db1_def g_def p_def extra_def)
  have "find_ledger_order db (lo_id iv) = Some iv" using find_row_distinct [OF ids iv(1)] .
  then have un: "\<not> settled db1 (lo_id iv)"
    using iv(2) by (simp add: settled_def db1_def update_order_def table_simps g_def)
  have und: "debt_settled_str extra = None" by (simp add: extra_def debt_settled_str_def)
  have src: "settle_source (lo_id iv) (Some p) db1 = Some p" "pf_walletSettledAt p = None"
    by (simp_all add: settle_source_def p_def)
  have "\<exists>f. lgOrders db2 = update_row lo_id (lo_id iv) f (lgOrders db1) \<and> (\<forall>r. lo_id (f r) = lo_id r \<and> lo_cashStatus (f r) = lo_cashStatus r)
     \<and> find_wallet db2 (lo_customerId iv) = Some (w\<lparr>wl_balance := amount_of_minor (minor_of (wl_balance w) - minor_of (lo_totalPrice iv)),
      wl_debt := amount_of_minor (minor_of (wl_debt w))\<rparr>)"
  proof (rule settle_course [OF s src un])
    fix ctx b v db3
    assume ctx: "sc_orderId ctx = lo_id iv" "sc_customerId ctx = pf_customerId p"
      and price: "0 \<le> minor_of (pf_totalPrice p)"
      and g': "getOrCreateWalletTx (pf_customerId p) (ensureCustomerOriginBranchTx (pf_customerId p) b db1) = (v, db3)"
      and a: "settlement_of env (pf_totalPrice p) (pf_posPaymentMethod p) v extra = Inr (sc_amounts ctx)"
      and sw: "settle_writes env ctx v db3 = (Inr (), db2)"
    have f: "find_wallet (ensureCustomerOriginBranchTx (pf_customerId p) b db1) (lo_customerId iv) = Some w"
      using w(1) by (simp add: ensureCustomerOriginBranchTx_def db1_def update_order_def)
    have v: "v = w" "db3 = ensureCustomerOriginBranchTx (pf_customerId p) b db1"
      using g' f by (simp_all add: getOrCreateWalletTx_def p_def)
    have ord: "lgOrders db3 = lgOrders db1" by (simp add: v ensureCustomerOriginBranchTx_def)
    note am = settlement_plain [OF a [unfolded v(1)] w(2) price und]
    have take: "se_safeTakeMinor (sc_amounts ctx) = minor_of (lo_totalPrice iv)"
      using am(11) covered by (simp add: p_def)
    have new: "se_newBalanceMinor (sc_amounts ctx) = minor_of (wl_balance w) - minor_of (lo_totalPrice iv)"
      "se_newDebtMinor (sc_amounts ctx) = minor_of (wl_debt w)"
      using am(6,8) take by (simp_all add: p_def external_method_def)
    from settle_tables [OF sw] show ?thesis
    proof cases
      case (1 h sub)
      have "find_wallet db2 (lo_customerId iv) = Some (w\<lparr>wl_balance := amount_of_minor (minor_of (wl_balance w) - minor_of (lo_totalPrice iv)),
          wl_debt := amount_of_minor (minor_of (wl_debt w))\<rparr>)"
        using f unfolding 1 by (simp add: table_simps v(2) ctx new) (simp add: p_def)
      then show ?thesis using 1(2) ord ctx by (intro exI conjI) auto
    qed
  qed
  then obtain f where f: "lgOrders db2 = update_row lo_id (lo_id iv) f (lgOrders db1)"
    "\<And>r. lo_id (f r) = lo_id r" "\<And>r. lo_cashStatus (f r) = lo_cashStatus r"
    and w2: "find_wallet db2 (lo_customerId iv) = Some (w\<lparr>wl_balance := amount_of_minor (minor_of (wl_balance w) - minor_of (lo_totalPrice iv)),
      wl_debt := amount_of_minor (minor_of (wl_debt w))\<rparr>)" by blast
  show "find_wallet db' (lo_customerId iv) = Some (w\<lparr>wl_balance := amount_of_minor (minor_of (wl_balance w) - minor_of (lo_totalPrice iv)),
      wl_debt := amount_of_minor (minor_of (wl_debt w))\<rparr>)"
    using w2 reconcile_sale_tables(2) [OF sale] by simp
  have "lgOrders db' = update_row lo_id (lo_id iv) (f \<circ> g) (lgOrders db)"
    using f(1) reconcile_sale_tables(1) [OF sale] by (auto simp: db1_def update_order_def update_row_def g_def)
  then show "\<exists>f. lgOrders db' = update_row lo_id (lo_id iv) f (lgOrders db) \<and> (\<forall>r. lo_id (f r) = lo_id r \<and> lo_cashStatus (f r) \<noteq> UNPAID)"
    using f(2,3) paid_not_unpaid by (intro exI [of _ "f \<circ> g"]) (simp add: g_def)
qed

subsection \<open>The passes\<close>

lemma wallet_account_minor:
  "find_wallet db c = Some w \<Longrightarrow> prepaid_minor db c = minor_of (wl_balance w) \<and> owed_minor db c = minor_of (wl_debt w)"
  by (simp add: prepaid_minor_def owed_minor_def wallet_account_def)

lemma create_account:
  assumes "getOrCreateWalletTx c db = (w, db1)"
  shows "prepaid_minor db1 c = prepaid_minor db c" "owed_minor db1 c = owed_minor db c"
    "prepaid_minor db c = minor_of (wl_balance w)" "open_queue db1 c = open_queue db c"
    "lgOrders db1 = lgOrders db" "wallets_ok db \<Longrightarrow> wallets_ok db1"
proof -
  note p = getOrCreate_props [OF assms]
  have "wallet_account db c = (wl_balance w, wl_debt w)"
    using assms by (cases rule: getOrCreate_cases) (simp_all add: wallet_account_def new_wallet_def)
  moreover have "wallet_account db1 c = (wl_balance w, wl_debt w)" using p(1) by (simp add: wallet_account_def)
  ultimately show "prepaid_minor db1 c = prepaid_minor db c" "owed_minor db1 c = owed_minor db c"
    "prepaid_minor db c = minor_of (wl_balance w)" by (simp_all add: prepaid_minor_def owed_minor_def)
  show "open_queue db1 c = open_queue db c" "lgOrders db1 = lgOrders db" using queue_orders [OF p(5)] p(5) by simp_all
  show "wallets_ok db \<Longrightarrow> wallets_ok db1" using keeps_ok [OF p(2)] .
qed

lemma stuck_create: "getOrCreateWalletTx c db = (w, db1) \<Longrightarrow> stuck db1 c = stuck db c"
  by (simp add: stuck_def create_account(1,4) split: list.split)

lemma passes_effect:
  assumes "reconcile_passes n env c u db = (Inr paid, db')" and "wallets_ok db" and "distinct (map lo_id (lgOrders db))"
  shows "length paid \<le> n \<and> length paid \<le> length (open_queue db c)
    \<and> paid = map lo_id (take (length paid) (open_queue db c))
    \<and> open_queue db' c = drop (length paid) (open_queue db c)
    \<and> prepaid_minor db' c = prepaid_minor db c - (\<Sum>r\<leftarrow>take (length paid) (open_queue db c). minor_of (lo_totalPrice r))
    \<and> owed_minor db' c = owed_minor db c \<and> (length paid = n \<or> stuck db' c)"
  using assms
proof (induction n arbitrary: db paid)
  case 0
  then show ?case by simp
next
  case (Suc n)
  obtain w db1 where g: "getOrCreateWalletTx c db = (w, db1)" by fastforce
  note cr = create_account [OF g]
  show ?case
  proof (cases "stuck db c")
    case True
    then have "paid = [] \<and> db' = db1"
      using Suc.prems(1) cr(3,4)
      by (auto simp: g Let_def stuck_def next_unpaid_queue split: list.splits if_splits)
    then show ?thesis using cr True stuck_create [OF g] by simp
  next
    case False
    then obtain r rs where q: "open_queue db c = r # rs" by (auto simp: stuck_def split: list.splits)
    have r: "0 < minor_of (wl_balance w)" "0 < minor_of (lo_totalPrice r)" "minor_of (lo_totalPrice r) \<le> minor_of (wl_balance w)"
      using False cr(3) q by (auto simp: stuck_def)
    have nu: "next_unpaid db1 c = Some r" using cr(4) q by (simp add: next_unpaid_queue)
    note props = next_unpaid_props [OF nu]
    obtain db2 rest where one: "reconcile_one env u r db1 = (Inr (), db2)"
      and more: "reconcile_passes n env c u db2 = (Inr rest, db')" and paid: "paid = lo_id r # rest"
      using Suc.prems(1) r nu by (auto simp: g Let_def result_simps)
    have fw: "find_wallet db1 (lo_customerId r) = Some w" using getOrCreate_props(1) [OF g] props(2) by simp
    have ids: "distinct (map lo_id (lgOrders db1))" using Suc.prems(3) cr(5) by simp
    have wok: "wallet_ok w" using getOrCreate_props(3) [OF g Suc.prems(2)] .
    note eff = reconcile_one_effect [OF one ids props(1,5) fw wok r(3)]
    obtain f where f: "lgOrders db2 = update_row lo_id (lo_id r) f (lgOrders db1)"
      "\<And>x. lo_id (f x) = lo_id x" "\<And>x. lo_cashStatus (f x) \<noteq> UNPAID" using eff(1) by blast
    have q2: "open_queue db2 c = rs" using queue_advance [OF ids _ f] cr(4) q by simp
    have "wallets_ok db2"
      using keeps_ok [of c db1 db2] lawful_reconcile_one [of r db1 env u] one props(2) cr(6) [OF Suc.prems(2)]
      by (simp add: lawful_def)
    moreover have "distinct (map lo_id (lgOrders db2))" using ids f by (simp add: map_update_row)
    ultimately have IH: "length rest \<le> n \<and> length rest \<le> length rs \<and> rest = map lo_id (take (length rest) rs)
        \<and> open_queue db' c = drop (length rest) rs
        \<and> prepaid_minor db' c = prepaid_minor db2 c - (\<Sum>r\<leftarrow>take (length rest) rs. minor_of (lo_totalPrice r))
        \<and> owed_minor db' c = owed_minor db2 c \<and> (length rest = n \<or> stuck db' c)"
      using Suc.IH [OF more] q2 by simp
    have "prepaid_minor db2 c = prepaid_minor db c - minor_of (lo_totalPrice r)" "owed_minor db2 c = owed_minor db c"
      using wallet_account_minor [OF eff(2)] wallet_account_minor [OF fw] cr(1,2) props(2) by simp_all
    then show ?thesis using IH q paid by simp
  qed
qed

text \<open>
  C8: the automatic reconciliation ends because it is done. With unique order identifiers, a
  run for a customer pays the \<open>k\<close> oldest open invoices, oldest first and each of them in full,
  and nothing else: the queue of open invoices loses exactly its first \<open>k\<close>, the prepaid balance
  falls by exactly their prices and the debt stays. It stops only when no open invoice is left,
  when the oldest one is not covered or free of charge, or after 50 passes; with fewer than 50
  open invoices the bound of the loop never cuts it short.
\<close>

theorem reconciliation_completes:
  assumes "runPrepaidAutoReconcileForCustomer env c (Some u) db = (Inr paid, db')" and "u \<noteq> []"
    and "wallets_ok db" and "distinct (map lo_id (lgOrders db))"
  defines "k \<equiv> length paid" and "q \<equiv> open_queue db c"
  shows "paid = map lo_id (take k q) \<and> open_queue db' c = drop k q
    \<and> prepaid_minor db' c = prepaid_minor db c - (\<Sum>r\<leftarrow>take k q. minor_of (lo_totalPrice r))
    \<and> owed_minor db' c = owed_minor db c \<and> k \<le> 50 \<and> (k = 50 \<or> stuck db' c)
    \<and> (length q < 50 \<longrightarrow> stuck db' c)"
proof -
  have "reconcile_passes 50 env c u db = (Inr paid, db')"
    using assms(1,2)
    by (auto simp: runPrepaidAutoReconcileForCustomer_def ledger_transaction_def
        autoReconcileUnpaidInvoicesFromPrepaidBalanceTx_def split: sum.splits) (metis prod.collapse)
  from passes_effect [OF this assms(3,4)] show ?thesis by (auto simp: k_def q_def)
qed

definition queue_ledger :: ledger_db where
  "queue_ledger = example_ledger\<lparr>lgOrders := [example_ledger_order\<lparr>lo_id := ''o2'', lo_totalPrice := 4, lo_createdAt := 9\<rparr>,
     example_ledger_order\<lparr>lo_totalPrice := 2\<rparr>]\<rparr>"

lemma queue_ledger_facts:
  "(case runPrepaidAutoReconcileForCustomer example_env ''c1'' (Some ''u1'') queue_ledger of
      (Inr paid, db') \<Rightarrow> paid = [''o1''] | _ \<Rightarrow> False)"
  "wallets_ok queue_ledger" "distinct (map lo_id (lgOrders queue_ledger))"
  "map lo_id (open_queue queue_ledger ''c1'') = [''o1'', ''o2'']" "prepaid_minor queue_ledger ''c1'' = 50000"
  "map (minor_of \<circ> lo_totalPrice) (open_queue queue_ledger ''c1'') = [20000, 40000]"
  by code_simp+

theorem reconciliation_completes_witness:
  "\<exists>db'. runPrepaidAutoReconcileForCustomer example_env ''c1'' (Some ''u1'') queue_ledger = (Inr [''o1''], db')
     \<and> prepaid_minor db' ''c1'' = 30000 \<and> map lo_id (open_queue db' ''c1'') = [''o2''] \<and> stuck db' ''c1''"
proof -
  obtain db' where run: "runPrepaidAutoReconcileForCustomer example_env ''c1'' (Some ''u1'') queue_ledger = (Inr [''o1''], db')"
    using queue_ledger_facts(1) by (auto split: prod.splits sum.splits)
  obtain x y where q: "open_queue queue_ledger ''c1'' = [x, y]" "lo_id y = ''o2''" "minor_of (lo_totalPrice x) = 20000"
    using queue_ledger_facts(4,6) by (auto simp: map_eq_Cons_conv)
  show ?thesis
    using reconciliation_completes [OF run _ queue_ledger_facts(2,3)] queue_ledger_facts(5) q run by simp
qed

end
