(* ===== verification/Customer_Refunds.thy ===== *)
theory Customer_Refunds
  imports Customer_Reconcile
begin

text \<open>
  Money that leaves or enters beside a sale: the refund of a cancelled subscription, the
  collection of an invoice that was sold on account, and the partial payment with a discount.
  Each theorem says what the wallet row, the receivable and the cash accounts move by, also
  where the two books part.
\<close>

subsection \<open>Cancellation\<close>

lemma bigint_div_bounds:
  assumes "0 \<le> a" "0 \<le> r" "r \<le> t" "0 < (t::int)"
  shows "0 \<le> bigint_div (a * r) t" "bigint_div (a * r) t \<le> a" "bigint_div (a * r) t * t \<le> a * r"
proof -
  have p: "0 \<le> a * r" using assms by simp
  then have d: "bigint_div (a * r) t = a * r div t" by (simp add: bigint_div_def)
  show "0 \<le> bigint_div (a * r) t" using p assms(4) by (simp add: d pos_imp_zdiv_nonneg_iff)
  have "a * r div t \<le> a * t div t" using assms by (intro zdiv_mono1 mult_left_mono) auto
  then show "bigint_div (a * r) t \<le> a" using assms(4) by (simp add: d)
  show "bigint_div (a * r) t * t \<le> a * r"
    using p assms(4) by (simp add: d) (metis mult.commute mult_div_mod_eq le_add_same_cancel1 pos_mod_sign)
qed

lemma cancellation_amount_bounds:
  assumes am: "cancellation_amounts env sub w = (gift, cash)" and w: "wallet_ok w"
    and sale: "0 \<le> minor_of (sb_planSalePriceSnapshot sub)"
    and t: "sb_activatedAt sub \<le> now env" "now env < sb_expiresAt sub"
  shows "0 \<le> gift \<and> 0 \<le> cash \<and> gift + cash \<le> minor_of (wl_balance w)
    \<and> cash * (sb_expiresAt sub - sb_activatedAt sub)
        \<le> minor_of (sb_planSalePriceSnapshot sub) * (sb_expiresAt sub - now env)
    \<and> gift \<le> max 0 (minor_of (sb_planActualBalanceSnapshot sub) - minor_of (sb_planSalePriceSnapshot sub))"
proof -
  define T where "T = sb_expiresAt sub - sb_activatedAt sub"
  define r where "r = sb_expiresAt sub - now env"
  define S where "S = minor_of (sb_planSalePriceSnapshot sub)"
  define G where "G = max 0 (minor_of (sb_planActualBalanceSnapshot sub) - S)"
  define B where "B = minor_of (wl_balance w)"
  have T: "max 1 T = T" "0 < T" "0 \<le> r" "max 0 r = r" "r \<le> T" using t by (auto simp: T_def r_def)
  have G: "(if minor_of (sb_planActualBalanceSnapshot sub) - S < 0 then 0 else minor_of (sb_planActualBalanceSnapshot sub) - S) = G"
    by (auto simp: G_def)
  have gc: "min (bigint_div (G * r) T) B = gift \<and> min (bigint_div (S * r) T) (B - min (bigint_div (G * r) T) B) = cash"
    using am unfolding cancellation_amounts_def Let_def T_def [symmetric] r_def [symmetric] S_def [symmetric]
      B_def [symmetric] G T(1,4) prod.inject .
  have g: "gift = min (bigint_div (G * r) T) B" and c: "cash = min (bigint_div (S * r) T) (B - gift)"
    using gc by metis+
  have S0: "0 \<le> S" "0 \<le> G" using sale by (simp_all add: S_def G_def)
  note bg = bigint_div_bounds [OF S0(2) T(3,5,2)] and bs = bigint_div_bounds [OF S0(1) T(3,5,2)]
  have B: "0 \<le> B" using wallet_ok_minor [OF w] by (simp add: B_def)
  have g0: "0 \<le> gift" "gift \<le> B" "gift \<le> G" using g bg B by auto
  then have c0: "0 \<le> cash" "gift + cash \<le> B" "cash \<le> bigint_div (S * r) T" using c bs by auto
  have "cash * T \<le> S * r"
    by (rule order.trans [OF mult_right_mono [OF c0(3)] bs(3)]) (use T(2) in simp)
  then show ?thesis using g0 c0 by (simp add: B_def G_def S_def T_def r_def)
qed

text \<open>What a refund moves on the accounts of the customer.\<close>

lemma moved_refund:
  assumes "0 \<le> rf_giftRemovalAmount f" "0 \<le> rf_cashRefundAmount f"
  shows "moved (Refund f) = (- (rf_giftRemovalAmount f + rf_cashRefundAmount f), 0)"
    "move_of (Refund f) CASH = - rf_cashRefundAmount f"
  using assms by (auto simp: moved_def move_of_def Journal_Effects.transfer_def account_codes)

lemma refund_step:
  assumes env: "isFailClosedCriticalEnabled env" "no_race env" and ok: "accounts_ok db"
    and run: "run_event env db (Refund f) = (Inr r, db')"
    and fresh: "find_entry_id db (event_ref (Refund f)) = None"
    and nonneg: "0 \<le> rf_giftRemovalAmount f" "0 \<le> rf_cashRefundAmount f"
  shows "journal_account db' (rf_customerId f) =
      shift (- (rf_giftRemovalAmount f + rf_cashRefundAmount f), 0) (journal_account db (rf_customerId f))
    \<and> account_balance db' (rf_customerId f) CASH = account_balance db (rf_customerId f) CASH - rf_cashRefundAmount f"
proof (cases "event_positive (Refund f)")
  case True
  note e = event_booked_effect [OF env True run fresh ok]
  from e(1) moved_refund [OF nonneg] show ?thesis by (auto simp: journal_account_def shift_def moved_def)
next
  case False
  with nonneg have z: "rf_giftRemovalAmount f = 0" "rf_cashRefundAmount f = 0" by auto
  then have "db' = db"
    using run by (auto simp: appendSubscriptionRefundEntrySafe_def appendSubscriptionRefundEntry_def Let_def)
  then show ?thesis by (simp add: z)
qed

lemma cancel_course:
  assumes run: "cancelSubscriptionForCustomer env c u reason db = (Inr s, db')"
    and sub: "subscription_to_cancel db c = Some sub" and w: "find_wallet db c = Some w"
    and am: "cancellation_amounts env sub w = (gift, cash)"
  shows "now env < sb_expiresAt sub \<and> (\<exists>row y db1 subs r.
      add_history env row (cancel_gl_rows env c u (sb_id sub) gift cash db) = (Inr y, db1)
    \<and> run_event env (update_wallet c (\<lambda>x. x\<lparr>wl_balance := amount_of_minor (minor_of (wl_balance w) - gift - cash),
       wl_subscriptionActivatedAt := None, wl_subscriptionExpiresAt := None, wl_subscriptionPlanId := None,
       wl_subscriptionPlanName := None\<rparr>) (db1\<lparr>lgSubscriptions := subs\<rparr>)) (Refund \<lparr>rf_customerId = c,
       rf_subscriptionId = sb_id sub, rf_actorUserId = u, rf_giftRemovalAmount = amount_of_minor gift,
       rf_cashRefundAmount = amount_of_minor cash, rf_reason = cancel_reason reason\<rparr>) = (Inr r, db')
    \<and> cs_refundedCashKd s = minorToAmountString cash \<and> cs_voidedGiftKd s = minorToAmountString gift)"
proof -
  have exp: "now env < sb_expiresAt sub"
    using run sub w by (auto simp: cancelSubscriptionForCustomer_def split: if_splits)
  show ?thesis
    using run exp
    unfolding cancelSubscriptionForCustomer_def sub w am option.case Let_def prod.case run_event.simps bindS_Inr_iff
    by (simp add: not_le [symmetric] bindS_Inr_iff)
      (elim exE conjE, intro exI conjI, assumption, assumption, simp, simp)
qed

lemma history_tables:
  "add_history env row db = (Inr y, db') \<Longrightarrow> lgWallets db' = lgWallets db \<and> same_journal db db'"
  by (auto simp: add_history_def Let_def same_journal_def split: if_splits)

text \<open>
  C9: an early cancellation refunds within the contract. For a subscription that was sold at a
  price of at least zero and has been activated, with no journal write lost and no refund of it
  booked before: the gift that is voided and the cash that is paid out are never negative and
  never exceed the balance together; the cash is at most the price times the share of the term
  that is left, the gift at most the bonus of the plan. The balance falls by exactly both, the
  debt stays, and the journal moves the same: the wallet liability by gift and cash, the cash
  account by the cash.
\<close>

theorem cancellation_refund_bounded:
  assumes env: "isFailClosedCriticalEnabled env" "no_race env" and ok: "accounts_ok db" "wallets_ok db"
    and run: "cancelSubscriptionForCustomer env c u reason db = (Inr s, db')"
    and sub: "subscription_to_cancel db c = Some sub" and w: "find_wallet db c = Some w"
    and am: "cancellation_amounts env sub w = (gift, cash)"
    and contract: "0 \<le> minor_of (sb_planSalePriceSnapshot sub)" "sb_activatedAt sub \<le> now env"
    and fresh: "find_entry_id db (''JOURNAL:SUBSCRIPTION_REFUND:'' @ sb_id sub) = None"
  shows "0 \<le> gift \<and> 0 \<le> cash \<and> gift + cash \<le> prepaid_minor db c
    \<and> cash * (sb_expiresAt sub - sb_activatedAt sub)
        \<le> minor_of (sb_planSalePriceSnapshot sub) * (sb_expiresAt sub - now env)
    \<and> gift \<le> max 0 (minor_of (sb_planActualBalanceSnapshot sub) - minor_of (sb_planSalePriceSnapshot sub))
    \<and> cs_refundedCashKd s = minorToAmountString cash \<and> cs_voidedGiftKd s = minorToAmountString gift
    \<and> prepaid_minor db' c = prepaid_minor db c - gift - cash \<and> owed_minor db' c = owed_minor db c
    \<and> journal_account db' c = shift (- amount_of_minor (gift + cash), 0) (journal_account db c)
    \<and> account_balance db' c CASH = account_balance db c CASH - amount_of_minor cash"
proof -
  let ?f = "\<lparr>rf_customerId = c, rf_subscriptionId = sb_id sub, rf_actorUserId = u,
    rf_giftRemovalAmount = amount_of_minor gift, rf_cashRefundAmount = amount_of_minor cash,
    rf_reason = cancel_reason reason\<rparr>"
  obtain row y db1 db2 subs r where exp: "now env < sb_expiresAt sub"
    and h: "add_history env row (cancel_gl_rows env c u (sb_id sub) gift cash db) = (Inr y, db1)"
    and db2: "db2 = update_wallet c (\<lambda>x. x\<lparr>wl_balance := amount_of_minor (minor_of (wl_balance w) - gift - cash),
       wl_subscriptionActivatedAt := None, wl_subscriptionExpiresAt := None, wl_subscriptionPlanId := None,
       wl_subscriptionPlanName := None\<rparr>) (db1\<lparr>lgSubscriptions := subs\<rparr>)"
    and r: "run_event env db2 (Refund ?f) = (Inr r, db')"
    and s: "cs_refundedCashKd s = minorToAmountString cash" "cs_voidedGiftKd s = minorToAmountString gift"
    using cancel_course [OF run sub w am] by blast
  have wok: "wallet_ok w" using find_wallet_ok [OF ok(2) w] .
  note b = cancellation_amount_bounds [OF am wok contract exp]
  have "same_journal db (cancel_gl_rows env c u (sb_id sub) gift cash db)"
    by (simp add: cancel_gl_rows_def cancel_gl_def Let_def same_journal_def ledger_append_def)
  moreover have "same_journal db1 db2" by (simp add: db2 same_journal_def update_wallet_def)
  ultimately have j: "same_journal db db2"
    using history_tables [OF h] by (meson unread.frame_trans)
  have "lgWallets db1 = lgWallets db"
    using history_tables [OF h] books_onlyD(3) [OF cancel_gl_rows_frame] by simp
  then have "find_wallet db2 c = Some (w\<lparr>wl_balance := amount_of_minor (minor_of (wl_balance w) - gift - cash),
       wl_subscriptionActivatedAt := None, wl_subscriptionExpiresAt := None, wl_subscriptionPlanId := None,
       wl_subscriptionPlanName := None\<rparr>)"
    using w by (simp add: db2 update_wallet_def table_simps)
  moreover have "lgWallets db' = lgWallets db2" using books_onlyD(3) [OF journal_books_only(2)] r by (metis snd_conv)
  ultimately have "prepaid_minor db' c = prepaid_minor db c - gift - cash \<and> owed_minor db' c = owed_minor db c"
    using w by (simp add: prepaid_minor_def owed_minor_def wallet_account_def)
  moreover have "journal_account db' c = shift (- (amount_of_minor gift + amount_of_minor cash), 0) (journal_account db2 c)
      \<and> account_balance db' c CASH = account_balance db2 c CASH - amount_of_minor cash"
    using refund_step [OF env _ r] b ok(1) fresh by (simp add: same_journal_reads [OF j])
  moreover have "prepaid_minor db c = minor_of (wl_balance w)" using wallet_account_minor [OF w] by simp
  ultimately show ?thesis
    using b s by (simp add: same_journal_account [OF j] same_journal_reads [OF j] amount_of_minor_add)
qed

definition example_subscription :: customer_subscription where
  "example_subscription = \<lparr>sb_id = ''s1'', sb_customerId = ''c1'', sb_planId = Some ''p1'', sb_status = SUB_ACTIVE,
     sb_planNameSnapshot = ''Gold'', sb_planSalePriceSnapshot = 20, sb_planActualBalanceSnapshot = 26,
     sb_planValidityDaysSnapshot = 30, sb_carriedBalanceKd = 0, sb_parentSubscriptionId = None,
     sb_activatedAt = 0, sb_expiresAt = 20,
     sb_closedAt = None, sb_closedReason = None, sb_createdAt = 0\<rparr>"

definition early_env :: env where
  "early_env = strict_env\<lparr>now := 10\<rparr>"

definition subscribed_ledger :: ledger_db where
  "subscribed_ledger = example_ledger\<lparr>lgSubscriptions := [example_subscription],
     lgWallets := [example_wallet\<lparr>wl_balance := 25\<rparr>]\<rparr>"

lemma subscribed_ledger_facts:
  "accounts_ok subscribed_ledger"
  "wallets_ok subscribed_ledger"
  "subscription_to_cancel subscribed_ledger ''c1'' = Some example_subscription"
  "find_wallet subscribed_ledger ''c1'' = Some (example_wallet\<lparr>wl_balance := 25\<rparr>)"
  "cancellation_amounts early_env example_subscription (example_wallet\<lparr>wl_balance := 25\<rparr>) = (30000, 100000)"
  "0 \<le> minor_of (sb_planSalePriceSnapshot example_subscription)"
  "sb_activatedAt example_subscription \<le> now early_env"
  "find_entry_id subscribed_ledger (''JOURNAL:SUBSCRIPTION_REFUND:'' @ sb_id example_subscription) = None"
  "(case cancelSubscriptionForCustomer early_env ''c1'' ''u1'' None subscribed_ledger of (Inr _, _) \<Rightarrow> True | _ \<Rightarrow> False)"
  "prepaid_minor subscribed_ledger ''c1'' = 250000"
  "account_balance subscribed_ledger ''c1'' CASH = 0"
  by code_simp+

theorem cancellation_refund_bounded_witness:
  "\<exists>s db'. cancelSubscriptionForCustomer early_env ''c1'' ''u1'' None subscribed_ledger = (Inr s, db')
     \<and> prepaid_minor db' ''c1'' = 120000 \<and> account_balance db' ''c1'' CASH = - 10"
proof -
  have env: "isFailClosedCriticalEnabled early_env" "no_race early_env"
    using strict_accountingD [OF strict_env_ok]
    by (simp_all add: early_env_def isFailClosedCriticalEnabled_def no_race_def)
  obtain s db' where run: "cancelSubscriptionForCustomer early_env ''c1'' ''u1'' None subscribed_ledger = (Inr s, db')"
    using subscribed_ledger_facts(9) by (auto split: prod.splits sum.splits)
  show ?thesis
    using cancellation_refund_bounded [OF env subscribed_ledger_facts(1,2) run
        subscribed_ledger_facts(3-8)] run subscribed_ledger_facts(10,11)
    by (simp add: amount_of_minor_def)
qed

subsection \<open>Collection of an invoice sold on account\<close>

lemma collection_course:
  assumes run: "recordDebtInvoiceCollectedAtCallCenter env p db = (Inr COLLECTION_APPLIED, db')"
    and r: "find_ledger_order db (cp_orderId p) = Some r"
  obtains remaining w db1 where "getOrCreateWalletTx (lo_customerId r) db = (w, db1)"
    "collection_book env p (lo_customerId r) remaining w db1 = (Inr COLLECTION_APPLIED, db')"
proof -
  have "collection_order p db = Inr r"
    using run r by (auto simp: recordDebtInvoiceCollectedAtCallCenter_def collection_order_def throwS_def split: if_splits)
  with run show ?thesis
    by (auto simp: recordDebtInvoiceCollectedAtCallCenter_def Let_def throwS_def
        split: if_splits prod.splits option.splits intro!: that)
qed

lemma collection_book_course:
  assumes "collection_book env p c remaining w db = (Inr k, db')" and "isV20_3TrueAccountingEnabled env"
  defines "paid \<equiv> min remaining (minor_of (wl_debt w))"
  shows "0 < paid \<and> (\<exists>row y db1 f x db2.
      add_history env row (update_wallet c (\<lambda>w'. w'\<lparr>wl_debt := amount_of_minor (minor_of (wl_debt w) - paid)\<rparr>) db) = (Inr y, db1)
    \<and> ep_customerId f = c \<and> ep_amount f = amount_of_minor paid
    \<and> ep_paymentMethod f = pos_name (cp_confirmedMethod p)
    \<and> ep_paymentRef f = cp_orderId p @ '':'' @ pos_name (cp_confirmedMethod p) @ '':CC_DEBT_INVOICE_PHYSICAL''
    \<and> run_event env db1 (Pay f) = (Inr x, db2)
    \<and> same_journal db2 db' \<and> lgWallets db' = lgWallets db2)"
proof (cases "paid \<le> 0")
  case True
  then show ?thesis using assms(1) by (simp add: collection_book_def paid_def)
next
  case False
  define db0 where "db0 = update_wallet c (\<lambda>w'. w'\<lparr>wl_debt := amount_of_minor (minor_of (wl_debt w) - paid)\<rparr>) db"
  have tail: "same_journal s t \<and> lgWallets t = lgWallets s"
    if "t = (if b then mark_collected p (ledger_append env row s) else ledger_append env row s)" for s t b row
    using that by (simp add: same_journal_def mark_collected_def update_order_def ledger_append_def)
  obtain actor where a: "find_actor db0 (cp_performedByUserId p) = Some actor"
    using assms(1) False unfolding collection_book_def Let_def paid_def [symmetric] db0_def [symmetric]
    by (auto split: option.splits)
  from assms(1) False obtain row y db1 x db2 inp glrow b where h: "add_history env row db0 = (Inr y, db1)"
    "appendExternalPaymentEntrySafe env db1 inp = (Inr x, db2)"
    and inp: "ep_customerId inp = c" "ep_amount inp = amount_of_minor paid" "ep_paymentMethod inp = pos_name (cp_confirmedMethod p)"
    "ep_paymentRef inp = cp_orderId p @ '':'' @ pos_name (cp_confirmedMethod p) @ '':CC_DEBT_INVOICE_PHYSICAL''"
    and db': "db' = (if b then mark_collected p (ledger_append env glrow db2) else ledger_append env glrow db2)"
    unfolding collection_book_def Let_def paid_def [symmetric] db0_def [symmetric] a option.case bindS_Inr_iff
      collection_journal_def payment_check_def
    by (simp add: assms(2) bindS_Inr_iff) (elim exE conjE, rule that, assumption, assumption, simp, simp, simp, simp, erule sym)
  have pay: "run_event env db1 (Pay inp) = (Inr x, db2)" using h(2) by simp
  show ?thesis
    by (intro conjI exI) (use False in simp, rule h(1) [unfolded db0_def], rule inp, rule inp, rule inp, rule inp,
      rule pay, rule tail [OF db', THEN conjunct1], rule tail [OF db', THEN conjunct2])
qed

text \<open>
  C10: a collected invoice is booked once per method. With true accounting and no write lost, a
  collection that is carried out takes a positive amount, at most the customer's debt, off the
  wallet's debt. The receivable of the journal falls by the same amount when the reference of
  this order and method is new; when a collection of the order by this method is in the journal
  already, the journal keeps its old entry and books nothing, so that the two books part by the
  amount. The check for an earlier collection does not see these entries.
\<close>

theorem collection_books_once:
  fixes p :: collection_params
  assumes strict: "strict_accounting env" and ok: "accounts_ok db"
    and run: "recordDebtInvoiceCollectedAtCallCenter env p db = (Inr COLLECTION_APPLIED, db')"
    and r: "find_ledger_order db (cp_orderId p) = Some r" and ext: "external_method (Some (cp_confirmedMethod p))"
  defines "ref \<equiv> ''JOURNAL:EXTERNAL_PAYMENT:'' @ cp_orderId p @ '':'' @ pos_name (cp_confirmedMethod p)
      @ '':CC_DEBT_INVOICE_PHYSICAL''"
  shows "\<exists>paid. 0 < paid \<and> paid \<le> owed_minor db (lo_customerId r)
    \<and> owed_minor db' (lo_customerId r) = owed_minor db (lo_customerId r) - paid
    \<and> prepaid_minor db' (lo_customerId r) = prepaid_minor db (lo_customerId r)
    \<and> journal_account db' (lo_customerId r) = shift (0, - (if find_entry_id db ref = None then amount_of_minor paid else 0))
        (journal_account db (lo_customerId r))"
proof -
  let ?c = "lo_customerId r"
  obtain remaining w db1 where g: "getOrCreateWalletTx ?c db = (w, db1)"
    and book: "collection_book env p ?c remaining w db1 = (Inr COLLECTION_APPLIED, db')"
    using collection_course [OF run r] by blast
  define paid where "paid = min remaining (minor_of (wl_debt w))"
  obtain row y db2 f x db3 where pos: "0 < paid"
    and h: "add_history env row (update_wallet ?c (\<lambda>w'. w'\<lparr>wl_debt := amount_of_minor (minor_of (wl_debt w) - paid)\<rparr>) db1) = (Inr y, db2)"
    and f: "ep_customerId f = ?c" "ep_amount f = amount_of_minor paid" "ep_paymentMethod f = pos_name (cp_confirmedMethod p)"
      "ep_paymentRef f = cp_orderId p @ '':'' @ pos_name (cp_confirmedMethod p) @ '':CC_DEBT_INVOICE_PHYSICAL''"
    and pay: "run_event env db2 (Pay f) = (Inr x, db3)" and tail: "same_journal db3 db'" "lgWallets db' = lgWallets db3"
    using collection_book_course [OF book strict_accountingD(1) [OF strict]] unfolding paid_def [symmetric] by blast
  have "same_journal db1 (update_wallet ?c (\<lambda>w'. w'\<lparr>wl_debt := amount_of_minor (minor_of (wl_debt w) - paid)\<rparr>) db1)" by simp
  then have j: "same_journal db db2"
    using history_tables [OF h] same_journal_create [OF g] by (meson unread.frame_trans)
  have "lgWallets db3 = lgWallets db2" using books_onlyD(3) [OF journal_books_only(2)] pay by (metis snd_conv)
  then have "find_wallet db' ?c = Some (w\<lparr>wl_debt := amount_of_minor (minor_of (wl_debt w) - paid)\<rparr>)"
    using history_tables [OF h] getOrCreate_props(1) [OF g] tail(2) by (simp add: update_wallet_def table_simps)
  note after = wallet_account_minor [OF this]
  have acct: "wallet_account db ?c = (wl_balance w, wl_debt w)"
    using g by (cases rule: getOrCreate_cases) (simp_all add: wallet_account_def new_wallet_def)
  then have "owed_minor db' ?c = owed_minor db ?c - paid \<and> prepaid_minor db' ?c = prepaid_minor db ?c
      \<and> paid \<le> owed_minor db ?c"
    using after by (simp add: owed_minor_def prepaid_minor_def paid_def)
  moreover have "journal_account db' ?c = shift (0, - (if find_entry_id db ref = None then amount_of_minor paid else 0))
      (journal_account db ?c)"
  proof -
    obtain asset where "externalPaymentAssetAccount (ep_paymentMethod f) = Inr asset"
      using ext by (cases "cp_confirmedMethod p") (auto simp: f external_method_def externalPaymentAssetAccount_def)
    then have mv: "moved (Pay f) = (0, - amount_of_minor paid)" using moved_pay f(2) by simp
    have ref: "event_ref (Pay f) = ref" by (simp add: f ref_def)
    have pos': "event_positive (Pay f)" using pos by (simp add: f(2))
    have same: "find_entry_id db2 ref = find_entry_id db ref" "accounts_ok db2" "journal_account db2 ?c = journal_account db ?c"
      using same_journal_reads [OF j] same_journal_account [OF j] ok by simp_all
    have s: "db3 = snd (run_event env db2 (Pay f))" using pay by simp
    have "created_row db2 db3 \<longleftrightarrow> find_entry_id db ref = None"
      using event_booked [OF strict_accountingD(2,3) [OF strict] pos' pay] run_event_effect(2) [OF same(2) s]
      unfolding ref same by blast
    then have "journal_account db3 ?c = shift (0, - (if find_entry_id db ref = None then amount_of_minor paid else 0))
        (journal_account db2 ?c)"
      using run_event_effect(1) [OF same(2) s, of ?c] mv f(1)
      by (auto simp: journal_account_def shift_def moved_def simp del: event_ref.simps)
    then show ?thesis using same_journal_account [OF tail(1)] same(3) by simp
  qed
  ultimately show ?thesis using pos by blast
qed

definition final_env :: env where
  "final_env = strict_env\<lparr>V20_4_FINAL_LEDGER := Some ''true''\<rparr>"

lemma final_env_ok: "strict_accounting final_env"
proof -
  have "isV20_3TrueAccountingEnabled final_env" "isFailClosedCriticalEnabled final_env" by code_simp+
  then show ?thesis using strict_accountingD(3) [OF strict_env_ok]
    by (simp add: strict_accounting_def no_race_def final_env_def)
qed

definition example_entry :: "string \<Rightarrow> uuid option \<Rightarrow> string \<Rightarrow> string \<Rightarrow> decimal \<Rightarrow> journal_entry" where
  "example_entry ref order debited credited amount = \<lparr>je_id = ref, je_source = ''EXAMPLE'', je_sourceRef = ref,
     je_actorUserId = ''u1'', je_customerId = Some ''c1'', je_orderId = order, je_branchId = None, je_createdAt = 0,
     je_lines = [\<lparr>jl_accountId = ''acc-'' @ debited, jl_debit = amount, jl_credit = 0, jl_meta = None\<rparr>,
       \<lparr>jl_accountId = ''acc-'' @ credited, jl_debit = 0, jl_credit = amount, jl_meta = None\<rparr>]\<rparr>"

text \<open>An order of 8 KD on account; 3 KD of it were collected in cash; the wallet shows a debt of 2 KD.\<close>

definition collected_ledger :: ledger_db where
  "collected_ledger = example_ledger\<lparr>
     lgOrders := [example_ledger_order\<lparr>lo_posPaymentMethod := Some DEBT_ON_ACCOUNT, lo_walletSettledAt := Some 1\<rparr>],
     lgWallets := [example_wallet\<lparr>wl_balance := 0, wl_debt := 2\<rparr>],
     journalEntries := [example_entry ''JOURNAL:INVOICE_ISSUED:o1'' (Some ''o1'') ACCOUNTS_RECEIVABLE REVENUE 8,
       example_entry ''JOURNAL:EXTERNAL_PAYMENT:o1:CASH:CC_DEBT_INVOICE_PHYSICAL'' (Some ''o1'') CASH ACCOUNTS_RECEIVABLE 3]\<rparr>"

definition example_collection :: collection_params where
  "example_collection = \<lparr>cp_orderId = ''o1'', cp_confirmedMethod = PM_CASH, cp_performedByUserId = ''u1''\<rparr>"

lemma collected_ledger_facts:
  "accounts_ok collected_ledger"
  "(case recordDebtInvoiceCollectedAtCallCenter final_env example_collection collected_ledger of
      (Inr k, _) \<Rightarrow> k = COLLECTION_APPLIED | _ \<Rightarrow> False)"
  "find_entry_id collected_ledger ''JOURNAL:EXTERNAL_PAYMENT:o1:CASH:CC_DEBT_INVOICE_PHYSICAL''
     = Some ''JOURNAL:EXTERNAL_PAYMENT:o1:CASH:CC_DEBT_INVOICE_PHYSICAL''"
  "journal_account collected_ledger ''c1'' = (0, 5)" "owed_minor collected_ledger ''c1'' = 20000"
  by code_simp+

theorem collection_books_once_witness:
  "\<exists>db'. recordDebtInvoiceCollectedAtCallCenter final_env example_collection collected_ledger = (Inr COLLECTION_APPLIED, db')
     \<and> owed_minor db' ''c1'' < 20000 \<and> journal_account db' ''c1'' = (0, 5)"
proof -
  obtain db' where run: "recordDebtInvoiceCollectedAtCallCenter final_env example_collection collected_ledger
      = (Inr COLLECTION_APPLIED, db')"
    using collected_ledger_facts(2) by (auto split: prod.splits sum.splits)
  obtain r where r: "find_ledger_order collected_ledger ''o1'' = Some r" "lo_customerId r = ''c1''"
    by (simp add: collected_ledger_def find_row_def example_ledger_order_def)
  have p: "cp_orderId example_collection = ''o1''" "cp_confirmedMethod example_collection = PM_CASH"
    by (simp_all add: example_collection_def)
  have "external_method (Some PM_CASH)" by (simp add: external_method_def)
  then show ?thesis
    using collection_books_once [OF final_env_ok collected_ledger_facts(1) run, of r] r p
      collected_ledger_facts(3-5) run
    by auto
qed

subsection \<open>A partial payment with a discount\<close>

text \<open>The invoices the allocation considers: known to the map and owing more than the tolerance.\<close>

definition due :: "(uuid \<rightharpoonup> decimal) \<Rightarrow> ledger_order \<Rightarrow> int" where
  "due rem iv = (case rem (lo_id iv) of None \<Rightarrow> 0 | Some r \<Rightarrow>
     if r \<le> 0 \<or> minor_of r \<le> minor_of INVOICE_REMAINING_TOLERANCE_KD then 0 else minor_of r)"

definition eligible :: "(uuid \<rightharpoonup> decimal) \<Rightarrow> ledger_order list \<Rightarrow> ledger_order list" where
  "eligible rem invs = filter (\<lambda>iv. 0 < due rem iv) invs"

lemma tolerance_minor: "minor_of INVOICE_REMAINING_TOLERANCE_KD = 10"
  by code_simp

lemma allocate_fifo_step:
  "allocate_fifo rem m (iv # invs) =
     (if m \<le> 0 then [] else if due rem iv = 0 then allocate_fifo rem m invs
      else (lo_id iv, min (due rem iv) m, due rem iv \<le> m) # allocate_fifo rem (m - min (due rem iv) m) invs)"
  by (auto simp: due_def tolerance_minor min_def Let_def split: option.split)

lemma due_nonneg: "0 \<le> due rem iv"
  by (auto simp: due_def tolerance_minor split: option.split)

lemma eligible_step: "eligible rem (iv # invs) = (if due rem iv = 0 then eligible rem invs else iv # eligible rem invs)"
  using due_nonneg [of rem iv] by (auto simp: eligible_def)

lemma eligible_due: "k < length (eligible rem invs) \<Longrightarrow> 0 < due rem (eligible rem invs ! k)"
  using nth_mem [of k "eligible rem invs"] by (auto simp: eligible_def simp del: nth_mem)

lemma allocate_nothing [simp]: "m \<le> 0 \<Longrightarrow> allocate_fifo rem m invs = []"
  by (induction invs) auto

text \<open>The loop pays invoices in the order in which it is given them.\<close>

lemma allocate_fifo_course:
  assumes "0 \<le> m"
  shows "\<exists>k \<le> length (eligible rem invs). let E = eligible rem invs; used = (\<Sum>iv\<leftarrow>take k E. due rem iv) in
      allocate_fifo rem m invs = map (\<lambda>iv. (lo_id iv, due rem iv, True)) (take k E)
        @ (if k < length E \<and> used < m then [(lo_id (E ! k), m - used, False)] else [])
    \<and> used \<le> m \<and> (k < length E \<longrightarrow> m - used < due rem (E ! k))
    \<and> (\<Sum>a\<leftarrow>allocate_fifo rem m invs. fst (snd a)) = min m (\<Sum>iv\<leftarrow>E. due rem iv)"
  using assms
proof (induction invs arbitrary: m)
  case Nil
  then show ?case by (simp add: eligible_def)
next
  case (Cons iv invs)
  consider "m = 0" | "0 < m" "due rem iv = 0" | "0 < m" "0 < due rem iv" "due rem iv \<le> m" | "0 < m" "m < due rem iv"
    using Cons.prems due_nonneg [of rem iv] by fastforce
  then show ?case
  proof cases
    case 1
    have "0 \<le> (\<Sum>iv\<leftarrow>eligible rem (iv # invs). due rem iv)" by (intro sum_list_nonneg) (auto simp: due_nonneg)
    moreover note eligible_due [of 0 rem "iv # invs"]
    ultimately show ?thesis by (intro exI [of _ 0]) (simp add: 1)
  next
    case 2
    then show ?thesis using Cons.IH [OF Cons.prems] by (simp add: allocate_fifo_step eligible_step del: allocate_fifo.simps)
  next
    case 3
    then obtain k where k: "k \<le> length (eligible rem invs)" and IH: "let E = eligible rem invs; used = (\<Sum>iv\<leftarrow>take k E. due rem iv) in
      allocate_fifo rem (m - due rem iv) invs = map (\<lambda>iv. (lo_id iv, due rem iv, True)) (take k E)
        @ (if k < length E \<and> used < m - due rem iv then [(lo_id (E ! k), m - due rem iv - used, False)] else [])
    \<and> used \<le> m - due rem iv \<and> (k < length E \<longrightarrow> m - due rem iv - used < due rem (E ! k))
    \<and> (\<Sum>a\<leftarrow>allocate_fifo rem (m - due rem iv) invs. fst (snd a)) = min (m - due rem iv) (\<Sum>iv\<leftarrow>E. due rem iv)"
      using Cons.IH [of "m - due rem iv"] by auto
    show ?thesis
      using 3 k IH
      by (intro exI [of _ "Suc k"]) (auto simp: allocate_fifo_step eligible_step Let_def min_def simp del: allocate_fifo.simps)
  next
    case 4
    have "0 \<le> (\<Sum>iv\<leftarrow>eligible rem invs. due rem iv)" by (intro sum_list_nonneg) (auto simp: due_nonneg)
    then show ?thesis using 4
      by (intro exI [of _ 0]) (simp add: allocate_fifo_step eligible_step min_def del: allocate_fifo.simps)
  qed
qed

text \<open>The invoices a payment may go to: open ones of the customer with more due than the tolerance, oldest first.\<close>

definition payable_invoices :: "(uuid \<rightharpoonup> decimal) \<Rightarrow> ledger_db \<Rightarrow> uuid \<Rightarrow> ledger_order list" where
  "payable_invoices rem db c = sort_key lo_createdAt (filter (\<lambda>r. lo_customerId r = c \<and> lo_cashStatus r = UNPAID
     \<and> lo_status r \<noteq> CANCELED \<and> 0 < due rem r) (lgOrders db))"

lemma eligible_open: "eligible rem (open_invoices db c) = payable_invoices rem db c"
  by (simp add: eligible_def open_invoices_def payable_invoices_def filter_sort conj_assoc)

text \<open>
  C11: the allocation of a partial payment over a customer's invoices. The invoices that count are
  the unpaid ones that are not canceled and for which more than the tolerance of 0.001 KD remains,
  in the order of their creation, the oldest first. They are paid in full as long as the money
  lasts, the next one gets what is left, which is less than it needs, and is not closed, and nothing
  is paid on any other; the amounts add up to the payment or, if that is less, to all that is due.
\<close>

theorem fifo_allocation:
  assumes "0 \<le> m"
    and "rem = computeOrderRemainingBalancesBatch env db True (order_rows db) (map lo_id (open_invoices db c))"
    and "E = payable_invoices rem db c"
  shows "sorted (map lo_createdAt E) \<and> (\<exists>k \<le> length E. let used = (\<Sum>iv\<leftarrow>take k E. due rem iv) in
      partial_allocation env db c m = map (\<lambda>iv. (lo_id iv, due rem iv, True)) (take k E)
        @ (if k < length E \<and> used < m then [(lo_id (E ! k), m - used, False)] else [])
    \<and> used \<le> m \<and> (k < length E \<longrightarrow> m - used < due rem (E ! k))
    \<and> (\<Sum>a\<leftarrow>partial_allocation env db c m. fst (snd a)) = min m (\<Sum>iv\<leftarrow>E. due rem iv))"
proof
  show "sorted (map lo_createdAt E)" by (simp add: assms(3) payable_invoices_def)
  have "partial_allocation env db c m = allocate_fifo rem m (open_invoices db c)"
    by (simp add: partial_allocation_def Let_def assms(2))
  then show "\<exists>k \<le> length E. let used = (\<Sum>iv\<leftarrow>take k E. due rem iv) in
      partial_allocation env db c m = map (\<lambda>iv. (lo_id iv, due rem iv, True)) (take k E)
        @ (if k < length E \<and> used < m then [(lo_id (E ! k), m - used, False)] else [])
    \<and> used \<le> m \<and> (k < length E \<longrightarrow> m - used < due rem (E ! k))
    \<and> (\<Sum>a\<leftarrow>partial_allocation env db c m. fst (snd a)) = min m (\<Sum>iv\<leftarrow>E. due rem iv)"
    using allocate_fifo_course [OF assms(1), of rem "open_invoices db c"]
    by (simp only: eligible_open assms(3) Let_def)
qed

text \<open>
  What a partial payment books as received. When a positive amount is paid together with a
  discount, the payment rows that debit the asset account of the method add up to the amount
  or, when the open invoices take more, to what they take of amount plus discount. So a
  discount on a debt that open invoices cover is booked as money received, besides the entry
  of the discount itself.
\<close>

theorem partial_rows_total:
  assumes "0 < amount" and "0 \<le> discount"
    and "allocs = allocate_fifo rem (amount + discount) invs"
  shows "(\<Sum>row\<leftarrow>partial_rows p th amount allocs. mi_amount row)
    = amount_of_minor (max amount (min (amount + discount) (\<Sum>iv\<leftarrow>eligible rem invs. due rem iv)))"
proof -
  have s: "(\<Sum>a\<leftarrow>allocs. fst (snd a)) = min (amount + discount) (\<Sum>iv\<leftarrow>eligible rem invs. due rem iv)"
    using allocate_fifo_course [of "amount + discount" rem invs] assms by (auto simp: Let_def)
  have "(\<Sum>row\<leftarrow>map (\<lambda>(i, m, closes). partial_mirror p th (Some i) i m) xs. mi_amount row)
      = amount_of_minor (\<Sum>a\<leftarrow>xs. fst (snd a))" for xs :: "(uuid \<times> int \<times> bool) list"
    by (induction xs) (auto simp: partial_mirror_def amount_of_minor_add)
  then show ?thesis
    by (simp add: partial_rows_def Let_def s)
      (auto simp: partial_mirror_def amount_of_minor_add max_def)
qed

text \<open>Two invoices, the younger one stored first: 3 KD close the older one and leave 1 KD for the younger.\<close>

definition two_invoices :: ledger_db where
  "two_invoices = example_ledger\<lparr>
     lgOrders := [example_ledger_order\<lparr>lo_id := ''o2'', lo_createdAt := 9\<rparr>, example_ledger_order],
     journalEntries := [example_entry ''JOURNAL:INVOICE_ISSUED:o2'' (Some ''o2'') ACCOUNTS_RECEIVABLE REVENUE 4,
       example_entry ''JOURNAL:INVOICE_ISSUED:o1'' (Some ''o1'') ACCOUNTS_RECEIVABLE REVENUE 2]\<rparr>"

theorem fifo_allocation_witness:
  "partial_allocation journal_env two_invoices ''c1'' 30000 = [(''o1'', 20000, True), (''o2'', 10000, False)]"
proof -
  define rem where "rem = computeOrderRemainingBalancesBatch journal_env two_invoices True (order_rows two_invoices)
    (map lo_id (open_invoices two_invoices ''c1''))"
  have ids: "map lo_id (payable_invoices rem two_invoices ''c1'') = [''o1'', ''o2'']"
    and dues: "map (due rem) (payable_invoices rem two_invoices ''c1'') = [20000, 40000]"
    unfolding rem_def by code_simp+
  obtain x y where E: "payable_invoices rem two_invoices ''c1'' = [x, y]" and xy: "lo_id x = ''o1''" "lo_id y = ''o2''"
    using ids by (auto simp: map_eq_Cons_conv)
  with dues have d: "due rem x = 20000" "due rem y = 40000" by simp_all
  obtain k where k: "k \<le> 2" "partial_allocation journal_env two_invoices ''c1'' 30000
      = map (\<lambda>iv. (lo_id iv, due rem iv, True)) (take k [x, y])
        @ (if k < 2 \<and> (\<Sum>iv\<leftarrow>take k [x, y]. due rem iv) < 30000
           then [(lo_id ([x, y] ! k), 30000 - (\<Sum>iv\<leftarrow>take k [x, y]. due rem iv), False)] else [])"
    "(\<Sum>iv\<leftarrow>take k [x, y]. due rem iv) \<le> 30000"
    "k < 2 \<longrightarrow> 30000 - (\<Sum>iv\<leftarrow>take k [x, y]. due rem iv) < due rem ([x, y] ! k)"
    using fifo_allocation [OF _ rem_def E [symmetric], of 30000] by (auto simp: Let_def numeral_2_eq_2)
  have "k = 1"
  proof -
    consider "k = 0" | "k = 1" | "k = 2" using k(1) by linarith
    then show ?thesis using k(3,4) d by cases simp_all
  qed
  then show ?thesis using k(2) d xy by simp
qed

definition example_payment :: partial_payment where
  "example_payment = \<lparr>pp_customerId = ''c1'', pp_amountKd = 3, pp_discountKd = Some 2, pp_paymentMethod = PM_CASH,
     pp_performedByUserId = ''u1'', pp_note = None\<rparr>"

theorem partial_rows_total_witness:
  "(\<Sum>row\<leftarrow>partial_rows example_payment ''t'' 30000 (allocate_fifo [''o1'' \<mapsto> 5] (30000 + 20000) [example_ledger_order]).
      mi_amount row) = 5"
proof -
  have "(\<Sum>iv\<leftarrow>eligible [''o1'' \<mapsto> 5] [example_ledger_order]. due [''o1'' \<mapsto> 5] iv) = 50000" by code_simp
  then show ?thesis
    using partial_rows_total [of 30000 20000 _ "[''o1'' \<mapsto> 5]" "[example_ledger_order]" example_payment "''t''"]
    by (simp add: amount_of_minor_def)
qed

text \<open>A debt of 5 KD for one invoice on account.\<close>

definition indebted_ledger :: ledger_db where
  "indebted_ledger = example_ledger\<lparr>
     lgOrders := [example_ledger_order\<lparr>lo_totalPrice := 5, lo_posPaymentMethod := Some DEBT_ON_ACCOUNT, lo_walletSettledAt := Some 1\<rparr>],
     lgWallets := [example_wallet\<lparr>wl_balance := 0, wl_debt := 5\<rparr>],
     journalEntries := [example_entry ''JOURNAL:INVOICE_ISSUED:o1'' (Some ''o1'') ACCOUNTS_RECEIVABLE REVENUE 5]\<rparr>"

text \<open>
  Run on this customer, a payment of 3 KD with a discount of 2 KD brings the wallet's debt to
  zero, but the journal shows 5 KD of cash received and a receivable of minus 2 KD.
\<close>

lemma partial_payment_example:
  "(case recordPartialDebtPayment final_env example_payment indebted_ledger of
      (Inr res, db') \<Rightarrow> pr_amountCollectedKd res = ''3.0000'' \<and> owed_minor db' ''c1'' = 0
        \<and> account_balance db' ''c1'' CASH = 5 \<and> account_balance db' ''c1'' ACCOUNTS_RECEIVABLE = - 2
    | (Inl _, _) \<Rightarrow> False)"
  by code_simp

end
