(* ===== verification/Customer_Activation.thy ===== *)
theory Customer_Activation
  imports Customer_Refunds
begin

text \<open>
  The activation of a subscription plan: what it credits to the wallet row and what it books as
  the wallet liability. The rows that settle old debt are booked on the asset account of the
  method although the funding entry has booked the whole price there already.
\<close>

subsection \<open>The liability account\<close>












subsection \<open>The course of an activation\<close>








subsection \<open>An activation that settles debt\<close>













end
