(* ===== verification/Payment_Gateway.thy ===== *)
theory Payment_Gateway
  imports Customer_Subscriptions "HOL-Library.AList"
begin

text \<open>
  The payment gateway: \<open>src/common/services/payments.service.ts\<close> with its pure helpers
  \<open>payments-callback.util.ts\<close> and \<open>upayments-track.util.ts\<close>, and the settlement links over
  several invoices of \<open>src/finance/services/debt.service.ts\<close>.

  The gateway itself is a parameter: \<open>ge_inquire\<close> is its answer to \<open>get-payment-status\<close>,
  \<open>ge_charge\<close> the payment URL and the inquiry identifier (if any) that the answer to \<open>charge\<close>
  gives, \<open>ge_hmac\<close> the keyed hash. The columns of an order that only the gateway uses are kept
  beside the order table, as a function of the identifier. A JavaScript number is the exact decimal
  it denotes; \<open>Number\<close> of a text with an exponent or a radix prefix is not modelled. Identifiers hold
  no character that \<open>encodeURIComponent\<close> changes. Left out: counters, log lines, alerts, customer
  messages, the raw inquiry answer in results and metadata, the time stamps inside stored metadata.
\<close>

subsection \<open>Texts of the gateway\<close>

definition is_hex :: "char \<Rightarrow> bool" where
  "is_hex c \<longleftrightarrow> is_digit c \<or> lower_char c \<in> set ''abcdef''"

definition looksLikeOurOrderUuid :: "string \<Rightarrow> bool" where
  "looksLikeOurOrderUuid s = (let parts = split_on (CHR ''-'') (js_trim s) in
     map length parts = [8, 4, 4, 4, 12] \<and> list_all (list_all is_hex) parts
     \<and> hd (parts ! 2) \<in> set ''12345'' \<and> lower_char (hd (parts ! 3)) \<in> set ''89ab'')"

text \<open>\<open>Number.MAX_SAFE_INTEGER\<close>\<close>

definition MAX_SAFE_INTEGER :: int where "MAX_SAFE_INTEGER = 9007199254740991"

fun coerceStringishTrackValue :: "json \<Rightarrow> string option" where
  "coerceStringishTrackValue (JString v) = (let t = js_trim v in if t = [] then None else Some t)"
| "coerceStringishTrackValue (JDecimal v) =
     (if of_int (floor v) \<noteq> v then None
      else if \<bar>floor v\<bar> > MAX_SAFE_INTEGER then None
      else Some (show_int (floor v)))"
| "coerceStringishTrackValue _ = None"

definition UPAYMENTS_TRACK_LIKE_KEYS :: "string list" where
  "UPAYMENTS_TRACK_LIKE_KEYS = [''trans_id'', ''transId'', ''tran_id'', ''tranId'', ''trackId'', ''TrackID'',
     ''track_id'', ''TrackId'', ''trackID'', ''paymentTrackId'', ''PaymentTrackId'', ''payment_id'',
     ''paymentId'', ''PaymentId'', ''Payment_ID'', ''invoice_id'', ''invoiceId'', ''InvoiceId'',
     ''transaction_id'', ''transactionId'', ''TransactionId'', ''receipt_id'', ''receiptId'', ''receiptid'',
     ''upayment_id'', ''uPaymentId'', ''session_id'', ''sessionId'', ''SessionId'']"

definition UPAYMENTS_MAX_DIGIT_ONLY_INQUIRY_LEN :: nat where
  "UPAYMENTS_MAX_DIGIT_ONLY_INQUIRY_LEN = 32"

definition isPlausibleTrackValue :: "string \<Rightarrow> string \<Rightarrow> bool" where
  "isPlausibleTrackValue s key =
     (if length s < 5 \<or> length s > 128 then False
      else if starts_with s ''http'' \<or> starts_with s ''//'' then False
      else if list_all is_digit s \<and> length s > UPAYMENTS_MAX_DIGIT_ONLY_INQUIRY_LEN then False
      else if looksLikeOurOrderUuid s \<and> (key = ''id'' \<or> key = ''orderId'') then False
      else True)"

definition isValidUpaymentsPaymentStatusInquiryId :: "string \<Rightarrow> bool" where
  "isValidUpaymentsPaymentStatusInquiryId s = isPlausibleTrackValue (js_trim s) ''inquiry''"

definition isSafeUpaymentsChargeInquiryCandidate :: "string \<Rightarrow> bool" where
  "isSafeUpaymentsChargeInquiryCandidate s =
     (isValidUpaymentsPaymentStatusInquiryId (js_trim s) \<and> \<not> looksLikeOurOrderUuid (js_trim s))"

definition track_of_key :: "(string \<times> json) list \<Rightarrow> string \<Rightarrow> string option" where
  "track_of_key r k = (case map_of r k of
       None \<Rightarrow> None
     | Some v \<Rightarrow> (case coerceStringishTrackValue v of
           None \<Rightarrow> None
         | Some s \<Rightarrow> if isPlausibleTrackValue s k then Some s else None))"

text \<open>The first hit among the keys, in the order of the list of keys.\<close>

fun first_some :: "('a \<Rightarrow> 'b option) \<Rightarrow> 'a list \<Rightarrow> 'b option" where
  "first_some f [] = None"
| "first_some f (x # xs) = (case f x of Some y \<Rightarrow> Some y | None \<Rightarrow> first_some f xs)"

fun tryParseTrackIdFromRecord :: "json \<Rightarrow> string option" where
  "tryParseTrackIdFromRecord (JObject r) = first_some (track_of_key r) UPAYMENTS_TRACK_LIKE_KEYS"
| "tryParseTrackIdFromRecord _ = None"

subsection \<open>The status of a callback\<close>

text \<open>Word characters and boundaries of a regular expression (\<open>\b\<close>).\<close>

definition is_word :: "char \<Rightarrow> bool" where
  "is_word c \<longleftrightarrow> is_digit c \<or> lower_char c \<in> set ''abcdefghijklmnopqrstuvwxyz'' \<or> c = CHR ''_''"

definition ends_word :: "string \<Rightarrow> bool" where
  "ends_word s \<longleftrightarrow> s = [] \<or> \<not> is_word (hd s)"

definition at_captured :: "string \<Rightarrow> bool" where
  "at_captured s \<longleftrightarrow> starts_with s ''captured'' \<and> ends_word (drop 8 s)"

definition at_negated :: "string \<Rightarrow> bool" where
  "at_negated s \<longleftrightarrow> list_ex (\<lambda>p. starts_with s p \<and> at_captured (dropWhile is_ws (drop (length p) s)))
     [''not'', ''un'', ''de'', ''pre'']"

text \<open>Some position of the text starts a word there and matches.\<close>

fun some_word :: "(string \<Rightarrow> bool) \<Rightarrow> bool \<Rightarrow> string \<Rightarrow> bool" where
  "some_word P after_word [] = False"
| "some_word P after_word (c # s) = (\<not> after_word \<and> P (c # s) \<or> some_word P (is_word c) s)"

definition normalizeCallbackStatus :: "string \<Rightarrow> bool" where
  "normalizeCallbackStatus status =
     (let raw = js_trim status; s = to_lower raw;
          firstSegment = js_trim (takeWhile (\<lambda>c. c \<notin> set '',;|'') s);
          head = takeWhile (\<lambda>c. \<not> is_ws c) firstSegment
      in if raw = [] then False
         else if head \<in> set [''success'', ''paid'', ''completed'', ''captured'', ''authorized'', ''capture''] then True
         else some_word at_captured False s \<and> \<not> some_word at_negated False s)"

subsection \<open>Amounts\<close>

fun number_of_text :: "string \<Rightarrow> decimal option" where
  "number_of_text [] = Some 0"
| "number_of_text (c # s) = (if c = CHR ''-'' then map_option uminus (unsigned_decimal s)
     else if c = CHR ''+'' then unsigned_decimal s else unsigned_decimal (c # s))"

definition js_number :: "string \<Rightarrow> decimal option" where
  "js_number s = number_of_text (js_trim s)"

datatype gateway_amount = AmountText string | AmountNumber decimal

text \<open>\<open>Math.round\<close> of the amount in thousandths.\<close>

definition js_round :: "decimal \<Rightarrow> int" where
  "js_round x = floor (x + 1 / 2)"

fun parseKwdMinor :: "gateway_amount option \<Rightarrow> int option" where
  "parseKwdMinor None = None"
| "parseKwdMinor (Some (AmountNumber x)) = Some (js_round (x * 1000))"
| "parseKwdMinor (Some (AmountText s)) = map_option (\<lambda>x. js_round (x * 1000)) (js_number s)"

datatype amount_match = Match | Mismatch | Indeterminate

definition compareGatewayAmount :: "gateway_amount option \<Rightarrow> gateway_amount \<Rightarrow> amount_match" where
  "compareGatewayAmount gatewayRaw orderTotal =
     (case parseKwdMinor gatewayRaw of
        None \<Rightarrow> Indeterminate
      | Some g \<Rightarrow> (case parseKwdMinor (Some orderTotal) of
            None \<Rightarrow> Indeterminate
          | Some t \<Rightarrow> if g = t then Match else Mismatch))"

text \<open>\<open>parseKwdMinor\<close> of a stored amount, which the source prints and reads back as the same number.\<close>

definition stored_minor :: "decimal \<Rightarrow> int option" where
  "stored_minor x = parseKwdMinor (Some (AmountNumber x))"

subsection \<open>Metadata of a link\<close>

fun json_fields :: "json option \<Rightarrow> (string \<times> json) list" where
  "json_fields (Some (JObject fs)) = fs"
| "json_fields _ = []"

definition readStoredPaymentLinkChargeKd :: "json option \<Rightarrow> decimal option" where
  "readStoredPaymentLinkChargeKd metadata =
     (case map_of (json_fields (map_of (json_fields metadata) ''charge'')) ''amountKd'' of
        Some (JString raw) \<Rightarrow> if js_trim raw = [] then None
          else (case new_decimal raw of Inl e \<Rightarrow> None | Inr x \<Rightarrow> Some x)
      | Some (JDecimal x) \<Rightarrow> Some x
      | _ \<Rightarrow> None)"

definition paymentLinkChargeMatches :: "decimal \<Rightarrow> decimal \<Rightarrow> decimal \<Rightarrow> bool" where
  "paymentLinkChargeMatches stored current tolerance \<longleftrightarrow> \<bar>stored - current\<bar> \<le> tolerance"

definition mergeGatewayMetadata :: "json option \<Rightarrow> json option \<Rightarrow> json option" where
  "mergeGatewayMetadata existing incoming =
     (case incoming of
        None \<Rightarrow> None
      | Some JNull \<Rightarrow> None
      | Some payload \<Rightarrow> Some (JObject (AList.update ''callback'' (JObject [(''payload'', payload)])
          (json_fields existing))))"

definition isCapturedFinalizeMetadata :: "json option \<Rightarrow> bool" where
  "isCapturedFinalizeMetadata meta = (case map_of (json_fields meta) ''result'' of
     Some (JString r) \<Rightarrow> to_upper (js_trim r) = ''CAPTURED'' | _ \<Rightarrow> False)"

definition extractTrackIdFromFinalizeGatewayMetadata :: "json option \<Rightarrow> string option" where
  "extractTrackIdFromFinalizeGatewayMetadata meta =
     (let m = json_fields meta;
          payload = nullish (map_of (json_fields (map_of m ''callback'')) ''payload'') JNull;
          valid = (\<lambda>c. case c of Some s \<Rightarrow> if isValidUpaymentsPaymentStatusInquiryId s then Some (js_trim s) else None
             | None \<Rightarrow> None);
          legacy = (case map_of m ''trackId'' of
               None \<Rightarrow> map_of m ''TrackID'' | Some JNull \<Rightarrow> map_of m ''TrackID'' | Some v \<Rightarrow> Some v)
      in case first_some valid [tryParseTrackIdFromRecord (JObject m), tryParseTrackIdFromRecord payload] of
           Some s \<Rightarrow> Some s
         | None \<Rightarrow> (case legacy of Some (JString s) \<Rightarrow> valid (Some s) | _ \<Rightarrow> None))"

text \<open>The checks of a payment against what was expected.\<close>

definition track_clash :: "string \<Rightarrow> string \<Rightarrow> bool" where
  "track_clash stored incoming \<longleftrightarrow> stored \<noteq> [] \<and> stored \<noteq> incoming"

definition wrong_amount :: "gateway_amount option \<Rightarrow> decimal \<Rightarrow> bool" where
  "wrong_amount amount expected \<longleftrightarrow> parseKwdMinor amount = None \<or> parseKwdMinor amount \<noteq> stored_minor expected"

definition foreign_currency :: "string \<Rightarrow> bool" where
  "foreign_currency currency \<longleftrightarrow> currency \<noteq> [] \<and> currency \<noteq> ''KWD''"

definition meta_amount :: "(string \<times> json) list \<Rightarrow> gateway_amount option" where
  "meta_amount m = (case map_of m ''amount'' of Some (JString s) \<Rightarrow> Some (AmountText s)
     | Some (JDecimal x) \<Rightarrow> Some (AmountNumber x) | _ \<Rightarrow> None)"

definition meta_currency :: "(string \<times> json) list \<Rightarrow> string" where
  "meta_currency m = (case map_of m ''currency'' of Some (JString s) \<Rightarrow> to_upper (js_trim s) | _ \<Rightarrow> [])"

text \<open>Metadata that is not a gateway answer is not checked.\<close>

definition meta_unchecked :: "(string \<times> json) list \<Rightarrow> bool" where
  "meta_unchecked m \<longleftrightarrow> map_of m ''devMock'' = Some (JBool True)
     \<or> map_of m ''provider'' = Some (JString ''legacy-hmac'') \<or> map_of m ''provider'' \<noteq> Some (JString ''upayments'')"

text \<open>The reason for which the data of a finalisation is refused, if any.\<close>

definition validateFinalizeGatewayMetadata :: "json option \<Rightarrow> decimal \<Rightarrow> string option \<Rightarrow> string option \<Rightarrow> string option" where
  "validateFinalizeGatewayMetadata meta orderTotal storedTrackId incomingTrackId =
     (case meta of
        Some (JObject m) \<Rightarrow>
          if meta_unchecked m then None
          else if js_trim (nullish incomingTrackId []) = [] then Some ''missing_trans_id''
          else if track_clash (js_trim (nullish storedTrackId [])) (js_trim (nullish incomingTrackId []))
          then Some ''trans_mismatch''
          else if wrong_amount (meta_amount m) orderTotal then Some ''amount_mismatch''
          else if foreign_currency (meta_currency m) then Some ''currency_mismatch''
          else None
      | _ \<Rightarrow> None)"

text \<open>\<open>/orderId=([0-9a-fA-F-]{36})/\<close>: the first match of the pattern.\<close>

fun extractOrderIdFromUpaymentsExtraData :: "string \<Rightarrow> string option" where
  "extractOrderIdFromUpaymentsExtraData [] = None"
| "extractOrderIdFromUpaymentsExtraData (c # s) =
     (let rest = drop 8 (c # s); u = take 36 rest in
      if starts_with (c # s) ''orderId='' \<and> length u = 36 \<and> list_all (\<lambda>c. is_hex c \<or> c = CHR ''-'') u
      then Some u else extractOrderIdFromUpaymentsExtraData s)"

subsection \<open>The store and the gateway\<close>

text \<open>The columns of an order that belong to its payment link.\<close>

record link_columns =
  lk_posHostedPaymentUrl :: "string option"
  lk_posGatewayTrackId :: "string option"
  lk_posGatewayMetadata :: "json option"
  lk_ccCollectionPaymentWaLocked :: bool

record payment_bundle =
  pb_id :: uuid
  pb_driverId :: uuid
  pb_totalAmountKd :: decimal
  pb_createdAt :: timestamp

record gateway_db =
  gwLedger :: ledger_db
  gwLinks :: "uuid \<Rightarrow> link_columns"
  gwBundles :: "payment_bundle list"
  gwPhones :: "uuid \<Rightarrow> string option \<times> string option"
  gwPolling :: "string list"

record inquiry_data =
  iq_paymentId :: "string option"
  iq_result :: "string option"
  iq_transactionId :: "string option"
  iq_amount :: "gateway_amount option"
  iq_currency :: "string option"
  iq_customerExtraData :: "string option"
  iq_orderId :: "string option"

text \<open>The answer of \<open>get-payment-status\<close>: the HTTP status, the flag and the data of its body.\<close>

datatype inquiry_reply =
    Unreachable
  | NotJson
  | Answer bool "bool option" "inquiry_data option"

record gateway_env =
  ge_NODE_ENV :: "string option"
  ge_PAYMENTS_MOCK :: "string option"
  ge_apiBase :: string
  ge_apiKey :: string
  ge_secret :: string
  ge_PUBLIC_API_URL :: "string option"
  ge_inquire :: "string \<Rightarrow> inquiry_reply"
  ge_charge :: "string \<Rightarrow> decimal \<Rightarrow> (string \<times> string option) result"
  ge_hmac :: "string \<Rightarrow> string \<Rightarrow> string"

definition empty_inquiry :: inquiry_data where
  "empty_inquiry = \<lparr>iq_paymentId = None, iq_result = None, iq_transactionId = None, iq_amount = None,
     iq_currency = None, iq_customerExtraData = None, iq_orderId = None\<rparr>"

definition on_ledger :: "(ledger_db \<Rightarrow> 'a result \<times> ledger_db) \<Rightarrow> gateway_db \<Rightarrow> 'a result \<times> gateway_db" where
  "on_ledger f db = (let (r, l) = f (gwLedger db) in (r, db\<lparr>gwLedger := l\<rparr>))"

definition update_link :: "uuid \<Rightarrow> (link_columns \<Rightarrow> link_columns) \<Rightarrow> gateway_db \<Rightarrow> gateway_db" where
  "update_link i f db = db\<lparr>gwLinks := (gwLinks db)(i := f (gwLinks db i))\<rparr>"

definition find_order :: "gateway_db \<Rightarrow> uuid \<Rightarrow> ledger_order option" where
  "find_order db i = find_ledger_order (gwLedger db) i"

definition find_bundle :: "gateway_db \<Rightarrow> uuid \<Rightarrow> payment_bundle option" where
  "find_bundle db i = find_row pb_id (gwBundles db) i"

definition bundle_orders :: "gateway_db \<Rightarrow> uuid \<Rightarrow> ledger_order list" where
  "bundle_orders db b = filter (\<lambda>r. lo_posPaymentBundleId r = Some b) (lgOrders (gwLedger db))"

text \<open>\<open>prisma.$transaction\<close>: a throw leaves the store as it was.\<close>

definition gateway_transaction :: "gateway_db \<Rightarrow> 'a result \<times> gateway_db \<Rightarrow> 'a result \<times> gateway_db" where
  "gateway_transaction db m = (case fst m of Inl e \<Rightarrow> (Inl e, db) | Inr x \<Rightarrow> m)"

subsection \<open>Configuration and signatures\<close>

definition paymentsMockExplicit :: "gateway_env \<Rightarrow> bool" where
  "paymentsMockExplicit ge = (case ge_PAYMENTS_MOCK ge of None \<Rightarrow> False
     | Some m \<Rightarrow> to_lower (js_trim m) \<in> set [''1'', ''true'', ''yes''])"

definition usePlaceholderGateway :: "gateway_env \<Rightarrow> bool" where
  "usePlaceholderGateway ge \<longleftrightarrow> js_trim (ge_apiBase ge) = []"

definition isPublicMockCheckoutAvailable :: "gateway_env \<Rightarrow> bool" where
  "isPublicMockCheckoutAvailable ge \<longleftrightarrow> paymentsMockExplicit ge \<or> usePlaceholderGateway ge"

definition allowDevMockCallback :: "gateway_env \<Rightarrow> bool option \<Rightarrow> bool" where
  "allowDevMockCallback ge devMock \<longleftrightarrow> devMock = Some True \<and> isPublicMockCheckoutAvailable ge"

definition onModuleInit :: "gateway_env \<Rightarrow> unit result" where
  "onModuleInit ge = guardE (\<not> (ge_NODE_ENV ge = Some ''production'' \<and> isPublicMockCheckoutAvailable ge))
     (Error ''FATAL: mock payment gateway is active in production. '')"

definition verifyIntegratedCallback :: "gateway_env \<Rightarrow> uuid \<Rightarrow> string \<Rightarrow> string option \<Rightarrow> string option \<Rightarrow> bool" where
  "verifyIntegratedCallback ge orderId status amount signature =
     (if ge_secret ge = [] then ge_NODE_ENV ge \<noteq> Some ''production''
      else if \<not> str_truthy signature then False
      else signature = Some (ge_hmac ge (ge_secret ge) (orderId @ ''|'' @ status @ ''|'' @ nullish amount [])))"

subsection \<open>Payment links\<close>

definition startGatewayStatusPolling :: "string \<Rightarrow> gateway_db \<Rightarrow> gateway_db" where
  "startGatewayStatusPolling transId db = (let pollingKey = js_trim transId in
     if pollingKey \<in> set (gwPolling db) then db else db\<lparr>gwPolling := pollingKey # gwPolling db\<rparr>)"

definition createPaymentLink :: "gateway_env \<Rightarrow> uuid \<Rightarrow> decimal \<Rightarrow> gateway_db \<Rightarrow>
    (string \<times> string option) result \<times> gateway_db" where
  "createPaymentLink ge orderId amount db =
     (if isPublicMockCheckoutAvailable ge
      then (Inr (nullish (ge_PUBLIC_API_URL ge) ''http://localhost:3000'' @ ''/api/payments/mock-checkout?orderId='' @ orderId,
              Some (''mock-'' @ orderId)), db)
      else if ge_apiKey ge = []
      then throwS (ServiceUnavailableException ''Payment link is not configured (PAYMENTS_API_KEY missing)'') db
      else if half_up (amount * 1000) \<le> 0
      then throwS (BadRequestException ''Invalid order amount for payment link'') db
      else case ge_charge ge orderId (of_int (half_up (amount * 1000)) / 1000) of
        Inl e \<Rightarrow> (Inl e, db)
      | Inr (url, track) \<Rightarrow> (Inr (url, track),
          (case track of None \<Rightarrow> db | Some t \<Rightarrow> if t = [] then db else startGatewayStatusPolling t db)))"

definition findOrderByTrackId :: "gateway_db \<Rightarrow> string \<Rightarrow> uuid option" where
  "findOrderByTrackId db trackId = map_option lo_id
     (find (\<lambda>r. lk_posGatewayTrackId (gwLinks db (lo_id r)) = Some trackId) (lgOrders (gwLedger db)))"

definition order_remaining :: "env \<Rightarrow> gateway_db \<Rightarrow> uuid list \<Rightarrow> (uuid \<rightharpoonup> decimal)" where
  "order_remaining env db ids = computeOrderRemainingBalancesBatch env (gwLedger db) True (order_rows (gwLedger db)) ids"

definition charge_amount :: "env \<Rightarrow> gateway_db \<Rightarrow> ledger_order \<Rightarrow> decimal option \<Rightarrow> decimal" where
  "charge_amount env db order chargeAmountKd =
     (case chargeAmountKd of
        Some c \<Rightarrow> c
      | None \<Rightarrow>
          let c = nullish (order_remaining env db [lo_id order] (lo_id order)) 0 in
          if c \<le> INVOICE_REMAINING_TOLERANCE_KD \<and> lo_status order = ORDER_PENDING \<and> lo_cashStatus order = UNPAID
            \<and> lo_walletSettledAt order = None then lo_totalPrice order else c)"

definition charge_metadata :: "json option \<Rightarrow> string \<times> string option \<Rightarrow> decimal \<Rightarrow> json" where
  "charge_metadata existing link amount = JObject (AList.update ''charge''
     (JObject [(''provider'', JString ''upayments''), (''trackId'', json_option (snd link)),
       (''link'', JString (fst link)), (''amountKd'', JString (to_fixed4 amount))]) (json_fields existing))"

definition ensurePaymentLinkForUnpaidOrder :: "env \<Rightarrow> gateway_env \<Rightarrow> uuid \<Rightarrow> decimal option \<Rightarrow> gateway_db \<Rightarrow>
    (string \<times> string option) result \<times> gateway_db" where
  "ensurePaymentLinkForUnpaidOrder env ge orderId chargeAmountKd db =
     (case find_order db orderId of
        None \<Rightarrow> throwS (BadRequestException ''Order not found'') db
      | Some order \<Rightarrow>
          let lk = gwLinks db orderId; amount = charge_amount env db order chargeAmountKd in
          if lo_status order = CANCELED then throwS (BadRequestException ''Order is canceled'') db
          else if amount \<le> INVOICE_REMAINING_TOLERANCE_KD
          then throwS (BadRequestException ''Order is already paid'') db
          else if str_truthy (lk_posHostedPaymentUrl lk) \<and> str_truthy (lk_posGatewayTrackId lk)
            \<and> (case readStoredPaymentLinkChargeKd (lk_posGatewayMetadata lk) of None \<Rightarrow> False
                | Some s \<Rightarrow> paymentLinkChargeMatches s amount INVOICE_REMAINING_TOLERANCE_KD)
          then (Inr (nullish (lk_posHostedPaymentUrl lk) [], lk_posGatewayTrackId lk), db)
          else bindS (createPaymentLink ge orderId amount db) (\<lambda>link db1.
            let db2 = update_link orderId (\<lambda>l. l\<lparr>lk_posHostedPaymentUrl := Some (fst link),
                  lk_posGatewayTrackId := snd link,
                  lk_posGatewayMetadata := Some (charge_metadata (lk_posGatewayMetadata lk) link amount)\<rparr>) db1
            in if \<not> str_truthy (lk_posGatewayTrackId (gwLinks db2 orderId))
               then throwS (InternalServerErrorException
                 ''Failed to persist gateway track id. Check database and Order.posGatewayTrackId column.'') db2
               else returnS link db2))"

subsection \<open>Completing a paid order\<close>

text \<open>The sale on the general ledger and the stock it takes, as both paths of payment write them.\<close>

record sale_note =
  sn_memo :: string
  sn_metadata :: "(string \<times> json) list"
  sn_reference :: string

definition sale_rows :: "env \<Rightarrow> uuid \<Rightarrow> ledger_order \<Rightarrow> sale_note \<Rightarrow> ledger_db \<Rightarrow> unit result \<times> ledger_db" where
  "sale_rows env performer order note db =
     (let db1 = ledger_append env \<lparr>al_entryType = POS_SALE_COMPLETED, al_amount = lo_totalPrice order,
            al_memo = Some (sn_memo note), al_metadata = Some (JObject (sn_metadata note)),
            al_customerId = Some (lo_customerId order), al_orderId = Some (lo_id order), al_expenseId = None,
            al_actorUserId = Some performer\<rparr> db;
          branchId = (case branch_of db1 (lo_driverId order) of Some b \<Rightarrow> Some b
            | None \<Rightarrow> branch_of db1 (Some performer))
      in lift_stock (applyOrderStockDecrement env (lgStock db1) \<lparr>da_orderId = lo_id order,
           da_actorUserId = performer, da_branchId = branchId,
           da_reference = Some (sn_reference note @ take 8 (lo_id order))\<rparr>) db1)"

definition complete_order :: "env \<Rightarrow> pos_payment_method \<Rightarrow> ledger_order \<Rightarrow> ledger_order" where
  "complete_order env method r = r\<lparr>lo_status := ORDER_COMPLETED,
     lo_cashStatus := cashStatusForPaymentMethod (Some method), lo_completedAt := Some (now env),
     lo_posPaymentMethod := Some method, lo_walletSettledAt := None\<rparr>"

definition settle_paid :: "env \<Rightarrow> pos_payment_method \<Rightarrow> uuid \<Rightarrow> ledger_order \<Rightarrow> (string \<times> json) list \<Rightarrow> sale_note \<Rightarrow>
    ledger_db \<Rightarrow> unit result \<times> ledger_db" where
  "settle_paid env method performer order extra note db =
     bindS (applyOrderWalletSettlementForCompletedOrder env (lo_id order) performer
         (Some \<lparr>pf_customerId = lo_customerId order, pf_totalPrice = lo_totalPrice order,
            pf_posPaymentMethod = Some method, pf_walletSettledAt = None\<rparr>) (Some extra) db)
       (\<lambda>_ db1. sale_rows env performer order note db1)"

definition link_settlement :: "ledger_order \<Rightarrow> string option \<Rightarrow> (string \<times> json) list" where
  "link_settlement order trackId = [(''debtSettled'', JString (decimal_string (lo_totalPrice order))),
     (''gatewayConfirmedAmountKd'', JString (decimal_string (lo_totalPrice order))),
     (''debtSettledFlag'', JBool True), (''debtSettlementViaLink'', JBool True),
     (''trackId'', json_option trackId), (''originalPaymentMethod'', method_json (lo_posPaymentMethod order)),
     (''reportingCategory'', JString ''DEBT_COLLECTION_VIA_LINK'')]"

definition order_paid :: "ledger_order \<Rightarrow> bool" where
  "order_paid r \<longleftrightarrow> lo_status r = ORDER_COMPLETED \<or> lo_walletSettledAt r \<noteq> None"

definition performer_of :: "ledger_db \<Rightarrow> ledger_order \<Rightarrow> uuid option" where
  "performer_of db order = (case lo_driverId order of Some d \<Rightarrow> Some d | None \<Rightarrow> resolveFallbackOwnerIdTx db)"

text \<open>The claim: only an order that is neither completed nor settled is taken.\<close>

definition finalize_claim :: "env \<Rightarrow> uuid \<Rightarrow> string option \<Rightarrow> json option \<Rightarrow> gateway_db \<Rightarrow> nat \<times> gateway_db" where
  "finalize_claim env orderId trackId merged db =
     (let hit = (\<lambda>r. lo_id r = orderId \<and> \<not> order_paid r); n = length (filter hit (lgOrders (gwLedger db)));
          l = (gwLedger db)\<lparr>lgOrders := map (\<lambda>r. if hit r then complete_order env PM_ONLINE r else r)
            (lgOrders (gwLedger db))\<rparr>
      in if n = 0 then (0, db)
         else (n, update_link orderId (\<lambda>lk. lk\<lparr>lk_ccCollectionPaymentWaLocked := False,
             lk_posGatewayTrackId := (case trackId of None \<Rightarrow> lk_posGatewayTrackId lk | Some t \<Rightarrow> Some t),
             lk_posGatewayMetadata := (case merged of None \<Rightarrow> lk_posGatewayMetadata lk | Some m \<Rightarrow> Some m)\<rparr>)
             (db\<lparr>gwLedger := l\<rparr>)))"

definition expected_amount :: "gateway_db \<Rightarrow> ledger_order \<Rightarrow> decimal" where
  "expected_amount db order = nullish (case lo_posPaymentBundleId order of None \<Rightarrow> None
     | Some b \<Rightarrow> map_option pb_totalAmountKd (find_bundle db b)) (lo_totalPrice order)"

definition finalize_refused :: "gateway_db \<Rightarrow> ledger_order \<Rightarrow> json option \<Rightarrow> bool" where
  "finalize_refused db order metadata \<longleftrightarrow> validateFinalizeGatewayMetadata metadata (expected_amount db order)
       (lk_posGatewayTrackId (gwLinks db (lo_id order))) (extractTrackIdFromFinalizeGatewayMetadata metadata) \<noteq> None
     \<and> \<not> isCapturedFinalizeMetadata metadata"

text \<open>The writes after the claim, on behalf of the driver or of an owner.\<close>

definition link_sale :: "ledger_order \<Rightarrow> sale_note" where
  "link_sale order = \<lparr>sn_memo = ''POS checkout (hosted link)'',
     sn_metadata = [(''posPaymentMethod'', JString ''ONLINE''),
       (''originalPaymentMethod'', method_json (lo_posPaymentMethod order)), (''source'', JString ''GATEWAY_CALLBACK'')],
     sn_reference = ''GATEWAY-''\<rparr>"

definition finalize_writes :: "env \<Rightarrow> ledger_order \<Rightarrow> string option \<Rightarrow> gateway_db \<Rightarrow> bool result \<times> gateway_db" where
  "finalize_writes env order trackId db =
     (case performer_of (gwLedger db) order of
        None \<Rightarrow> throwS (BadRequestException ''No performer available to attribute the link payment to'') db
      | Some performer \<Rightarrow>
          if performer = []
          then throwS (BadRequestException ''No performer available to attribute the link payment to'') db
          else bindS (on_ledger (settle_paid env PM_ONLINE performer order (link_settlement order trackId)
            (link_sale order)) db) (\<lambda>_. returnS True))"

definition finalize_pending :: "env \<Rightarrow> ledger_order \<Rightarrow> json option \<Rightarrow> string option \<Rightarrow> gateway_db \<Rightarrow> bool result \<times> gateway_db" where
  "finalize_pending env order metadata track db =
     (case finalize_claim env (lo_id order) track
         (mergeGatewayMetadata (lk_posGatewayMetadata (gwLinks db (lo_id order))) metadata) db of
        (n, db1) \<Rightarrow> if n = 0 then (Inr False, db1)
          else finalize_writes env order
            (case track of Some t \<Rightarrow> Some t | None \<Rightarrow> lk_posGatewayTrackId (gwLinks db (lo_id order))) db1)"

definition finalizeSingle_tx :: "env \<Rightarrow> uuid \<Rightarrow> json option \<Rightarrow> gateway_db \<Rightarrow> bool result \<times> gateway_db" where
  "finalizeSingle_tx env orderId metadata db =
     (case find_order db orderId of
        None \<Rightarrow> throwS (BadRequestException ''Order not found'') db
      | Some order \<Rightarrow>
          if order_paid order then (Inr False, db)
          else if lo_status order = CANCELED
          then throwS (BadRequestException (''Order is canceled '' @ em_dash @ '' cannot finalize a link payment for it'')) db
          else if finalize_refused db order metadata then (Inr False, db)
          else finalize_pending env order metadata (extractTrackIdFromFinalizeGatewayMetadata metadata) db)"

definition finalizeSinglePaidOrderFromGateway :: "env \<Rightarrow> uuid \<Rightarrow> json option \<Rightarrow> gateway_db \<Rightarrow> bool result \<times> gateway_db" where
  "finalizeSinglePaidOrderFromGateway env orderId metadata db =
     gateway_transaction db (finalizeSingle_tx env orderId metadata db)"

text \<open>The orders of a bundle, each in its own transaction.\<close>

fun finalize_each :: "env \<Rightarrow> json option \<Rightarrow> uuid list \<Rightarrow> gateway_db \<Rightarrow> bool result \<times> gateway_db" where
  "finalize_each env metadata [] db = (Inr False, db)"
| "finalize_each env metadata (i # ids) db =
     bindS (finalizeSinglePaidOrderFromGateway env i metadata db) (\<lambda>done db1.
     bindS (finalize_each env metadata ids db1) (\<lambda>rest. returnS (done \<or> rest)))"

definition pending_of_bundle :: "gateway_db \<Rightarrow> uuid \<Rightarrow> uuid list" where
  "pending_of_bundle db b = map lo_id (sort_key lo_createdAt
     (filter (\<lambda>r. lo_status r = ORDER_PENDING) (bundle_orders db b)))"

definition finalizePaidOrderFromGateway :: "env \<Rightarrow> uuid \<Rightarrow> json option \<Rightarrow> gateway_db \<Rightarrow> bool result \<times> gateway_db" where
  "finalizePaidOrderFromGateway env referenceId metadata db =
     (if find_bundle db referenceId \<noteq> None \<and> pending_of_bundle db referenceId \<noteq> []
      then finalize_each env metadata (pending_of_bundle db referenceId) db
      else finalizeSinglePaidOrderFromGateway env referenceId metadata db)"

subsection \<open>The inquiry\<close>

definition isGatewayReferencePaid :: "gateway_db \<Rightarrow> uuid \<Rightarrow> bool" where
  "isGatewayReferencePaid db ref = (case find_order db ref of
       Some order \<Rightarrow> order_paid order
     | None \<Rightarrow> find_bundle db ref \<noteq> None \<and> bundle_orders db ref \<noteq> []
         \<and> list_all order_paid (bundle_orders db ref))"

record gateway_reference =
  gr_id :: uuid
  gr_amount :: decimal
  gr_trackId :: "string option"
  gr_isPaid :: bool

definition getGatewayReferenceForFinalize :: "gateway_db \<Rightarrow> uuid \<Rightarrow> gateway_reference option" where
  "getGatewayReferenceForFinalize db ref = (case find_order db ref of
       Some order \<Rightarrow> Some \<lparr>gr_id = lo_id order, gr_amount = lo_totalPrice order,
         gr_trackId = lk_posGatewayTrackId (gwLinks db ref), gr_isPaid = order_paid order\<rparr>
     | None \<Rightarrow> (case find_bundle db ref of
           None \<Rightarrow> None
         | Some b \<Rightarrow> Some \<lparr>gr_id = pb_id b, gr_amount = pb_totalAmountKd b,
             gr_trackId = first_some (\<lambda>r. let t = lk_posGatewayTrackId (gwLinks db (lo_id r)) in
                 if str_truthy t then t else None) (bundle_orders db ref),
             gr_isPaid = bundle_orders db ref \<noteq> [] \<and> list_all order_paid (bundle_orders db ref)\<rparr>))"

record inquiry =
  in_ok :: bool
  in_data :: inquiry_data

definition inquiry_failed :: inquiry where
  "inquiry_failed = \<lparr>in_ok = False, in_data = empty_inquiry\<rparr>"

fun read_reply :: "inquiry_reply \<Rightarrow> inquiry" where
  "read_reply Unreachable = inquiry_failed"
| "read_reply NotJson = inquiry_failed"
| "read_reply (Answer ok status None) = inquiry_failed"
| "read_reply (Answer ok status (Some d)) = \<lparr>in_ok = (ok \<and> status \<noteq> Some False), in_data = d\<rparr>"

definition fetchGatewayStatus :: "gateway_env \<Rightarrow> string \<Rightarrow> inquiry result" where
  "fetchGatewayStatus ge trackId =
     (if js_trim trackId = [] then Inr inquiry_failed
      else if \<not> isValidUpaymentsPaymentStatusInquiryId (js_trim trackId) then Inr inquiry_failed
      else if usePlaceholderGateway ge then Inr inquiry_failed
      else if ge_apiKey ge = []
      then Inl (ServiceUnavailableException ''Payment inquiry is not configured (PAYMENTS_API_KEY missing)'')
      else Inr (read_reply (ge_inquire ge (js_trim trackId))))"

fun amount_text :: "gateway_amount option \<Rightarrow> string" where
  "amount_text None = []"
| "amount_text (Some (AmountText s)) = s"
| "amount_text (Some (AmountNumber x)) = decimal_string x"

definition inquiry_metadata :: "string \<Rightarrow> string \<Rightarrow> inquiry_data \<Rightarrow> json" where
  "inquiry_metadata trackId source d = JObject [(''provider'', JString ''upayments''), (''trackId'', JString trackId),
     (''source'', JString source), (''paymentId'', json_option (iq_paymentId d)),
     (''tranId'', json_option (iq_transactionId d)), (''result'', json_option (iq_result d)),
     (''amount'', JString (amount_text (iq_amount d))),
     (''currency'', json_option (map_option (\<lambda>c. to_upper (js_trim c)) (iq_currency d)))]"

text \<open>The order an answer is about: its own order, else the expected one, else by the inquiry identifier.\<close>

definition nonempty :: "string option \<Rightarrow> string option" where
  "nonempty s = (if str_truthy s then s else None)"

definition inquiry_reference :: "gateway_db \<Rightarrow> string \<Rightarrow> uuid option \<Rightarrow> inquiry_data \<Rightarrow> uuid option" where
  "inquiry_reference db clean expected d = first_some nonempty
     [map_option js_trim (iq_orderId d),
      (case iq_customerExtraData d of None \<Rightarrow> None | Some x \<Rightarrow> extractOrderIdFromUpaymentsExtraData x),
      expected, findOrderByTrackId db clean]"

text \<open>
  The checks between the answer and the finalisation; \<open>None\<close> lets it pass. An answer whose
  result is exactly \<open>CAPTURED\<close> skips them.
\<close>

definition capture_refused :: "string \<Rightarrow> inquiry_data \<Rightarrow> gateway_reference \<Rightarrow> string option" where
  "capture_refused clean d ref =
     (if iq_result d = Some ''CAPTURED'' then None
      else if track_clash (js_trim (nullish (gr_trackId ref) [])) clean then Some ''trans_mismatch''
      else if wrong_amount (iq_amount d) (gr_amount ref) then Some ''amount_mismatch''
      else if foreign_currency (case iq_currency d of None \<Rightarrow> [] | Some c \<Rightarrow> to_upper (js_trim c))
      then Some ''currency_mismatch''
      else None)"

definition check_reference :: "env \<Rightarrow> string \<Rightarrow> string \<Rightarrow> inquiry_data \<Rightarrow> gateway_reference \<Rightarrow> gateway_db \<Rightarrow>
    (bool \<times> string option) result \<times> gateway_db" where
  "check_reference env clean source d ref db =
     (if gr_isPaid ref then (Inr (True, iq_result d), db)
      else if capture_refused clean d ref \<noteq> None then (Inr (False, iq_result d), db)
      else bindS (finalizePaidOrderFromGateway env (gr_id ref) (Some (inquiry_metadata clean source d)) db)
        (\<lambda>finalized. returnS (finalized, iq_result d)))"

definition check_answer :: "env \<Rightarrow> string \<Rightarrow> uuid option \<Rightarrow> string \<Rightarrow> inquiry_data \<Rightarrow> gateway_db \<Rightarrow>
    (bool \<times> string option) result \<times> gateway_db" where
  "check_answer env clean expected source d db =
     (if \<not> normalizeCallbackStatus (nullish (iq_result d) []) then (Inr (False, iq_result d), db)
      else case inquiry_reference db clean expected d of
        None \<Rightarrow> (Inr (False, iq_result d), db)
      | Some referenceId \<Rightarrow>
          if str_truthy expected \<and> Some referenceId \<noteq> expected then (Inr (False, iq_result d), db)
          else (case getGatewayReferenceForFinalize db referenceId of
              None \<Rightarrow> (Inr (False, iq_result d), db)
            | Some ref \<Rightarrow> check_reference env clean source d ref db))"

text \<open>The result is whether the payment counts as finalised, and the gateway's result.\<close>

definition checkPaymentStatus :: "env \<Rightarrow> gateway_env \<Rightarrow> string \<Rightarrow> uuid option \<Rightarrow> string \<Rightarrow> gateway_db \<Rightarrow>
    (bool \<times> string option) result \<times> gateway_db" where
  "checkPaymentStatus env ge transId expected source db =
     (if \<not> isValidUpaymentsPaymentStatusInquiryId (js_trim transId) then (Inr (False, None), db)
      else if str_truthy expected \<and> isGatewayReferencePaid db (nullish expected []) then (Inr (True, None), db)
      else case fetchGatewayStatus ge (js_trim transId) of
        Inl e \<Rightarrow> throwS e db
      | Inr inq \<Rightarrow>
          if \<not> in_ok inq then (Inr (False, iq_result (in_data inq)), db)
          else check_answer env (js_trim transId) expected source (in_data inq) db)"

definition tryFinalizeOrderIfUpaymentsCaptured :: "env \<Rightarrow> gateway_env \<Rightarrow> uuid \<Rightarrow> string \<Rightarrow> string \<Rightarrow> gateway_db \<Rightarrow>
    (bool \<times> string option) result \<times> gateway_db" where
  "tryFinalizeOrderIfUpaymentsCaptured env ge orderId trackId source db =
     (if js_trim trackId = [] then (Inr (False, None), db)
      else checkPaymentStatus env ge (js_trim trackId) (Some orderId) source db)"

definition tryFinalizeOrderFromTrustedUpaymentsReturn :: "env \<Rightarrow> gateway_env \<Rightarrow> uuid \<Rightarrow> string \<Rightarrow> string \<Rightarrow> gateway_db \<Rightarrow>
    bool result \<times> gateway_db" where
  "tryFinalizeOrderFromTrustedUpaymentsReturn env ge orderId trackId source db =
     (if js_trim trackId = [] then (Inr False, db)
      else bindS (checkPaymentStatus env ge (js_trim trackId) (Some orderId) source db) (\<lambda>r. returnS (fst r)))"

text \<open>
  The polling of a link: one attempt for each of the environments, three in the source, until one
  finalises; an exception ends it. Whatever happens the key is released.
\<close>

fun polling_attempts :: "(env \<times> gateway_env) list \<Rightarrow> nat \<Rightarrow> uuid \<Rightarrow> string \<Rightarrow> gateway_db \<Rightarrow> gateway_db" where
  "polling_attempts [] n orderId transId db = db"
| "polling_attempts ((env, ge) # es) n orderId transId db =
     (if isGatewayReferencePaid db orderId then db
      else case checkPaymentStatus env ge transId (Some orderId) (''POLLING_ATTEMPT_'' @ show_nat n) db of
        (Inl e, db1) \<Rightarrow> db1
      | (Inr (finalized, res), db1) \<Rightarrow> if finalized then db1 else polling_attempts es (n + 1) orderId transId db1)"

definition polling_run :: "(env \<times> gateway_env) list \<Rightarrow> uuid \<Rightarrow> string \<Rightarrow> gateway_db \<Rightarrow> gateway_db" where
  "polling_run es orderId transId db = (let db1 = polling_attempts (take 3 es) 1 orderId transId db in
     db1\<lparr>gwPolling := removeAll (js_trim transId) (gwPolling db1)\<rparr>)"

subsection \<open>The call center marks an order as paid\<close>

record manual_result =
  mr_orderId :: uuid
  mr_alreadySettled :: bool
  mr_amountKd :: string
  mr_posPaymentMethod :: pos_payment_method

definition manual_settlement :: "ledger_order \<Rightarrow> pos_payment_method \<Rightarrow> (string \<times> json) list" where
  "manual_settlement order method = [(''debtSettled'', JString (decimal_string (lo_totalPrice order))),
     (''debtSettlementViaCallCenter'', JBool True), (''originalPaymentMethod'', method_json (lo_posPaymentMethod order)),
     (''confirmedPaymentMethod'', JString (pos_name method)), (''reportingCategory'', JString ''DEBT_COLLECTION_MANUAL'')]"

definition manual_tx :: "env \<Rightarrow> uuid \<Rightarrow> pos_payment_method \<Rightarrow> uuid \<Rightarrow> gateway_db \<Rightarrow> manual_result result \<times> gateway_db" where
  "manual_tx env orderId method performedBy db =
     (case find_order db orderId of
        None \<Rightarrow> throwS (BadRequestException ''Order not found'') db
      | Some order \<Rightarrow>
          let awaiting = (lo_walletSettledAt order \<noteq> None \<and> lo_posPaymentMethod order = Some DEBT_ON_ACCOUNT);
              res = (\<lambda>already m. \<lparr>mr_orderId = lo_id order, mr_alreadySettled = already,
                mr_amountKd = to_fixed3 (lo_totalPrice order), mr_posPaymentMethod = m\<rparr>)
          in if lo_status order = CANCELED
             then throwS (BadRequestException (''Order is canceled '' @ em_dash @ '' cannot mark it as paid'')) db
             else if lo_walletSettledAt order \<noteq> None \<and> \<not> awaiting
             then (Inr (res True (nullish (lo_posPaymentMethod order) PM_CASH)), db)
             else if performedBy = [] \<and> awaiting
             then throwS (BadRequestException ''No performer available to attribute the manual settlement to'') db
             else if awaiting
             then bindS (on_ledger (recordDebtInvoiceCollectedAtCallCenter env
                 \<lparr>cp_orderId = orderId, cp_confirmedMethod = method, cp_performedByUserId = performedBy\<rparr>) db)
               (\<lambda>_. returnS (res False method))
             else
               let db1 = update_link orderId (\<lambda>lk. lk\<lparr>lk_ccCollectionPaymentWaLocked := False\<rparr>)
                     (db\<lparr>gwLedger := update_order orderId (complete_order env method) (gwLedger db)\<rparr>)
               in if performedBy = []
                  then throwS (BadRequestException ''No performer available to attribute the manual settlement to'') db1
                  else bindS (on_ledger (settle_paid env method performedBy order (manual_settlement order method)
                      \<lparr>sn_memo = ''POS checkout (call-center manual)'',
                       sn_metadata = [(''posPaymentMethod'', JString (pos_name method)),
                         (''originalPaymentMethod'', method_json (lo_posPaymentMethod order)),
                         (''source'', JString ''CALL_CENTER_MANUAL'')],
                       sn_reference = ''MANUAL-''\<rparr>) db1) (\<lambda>_. returnS (res False method)))"

definition manuallyMarkOrderPaidByMethod :: "env \<Rightarrow> uuid \<Rightarrow> pos_payment_method \<Rightarrow> uuid \<Rightarrow> gateway_db \<Rightarrow>
    manual_result result \<times> gateway_db" where
  "manuallyMarkOrderPaidByMethod env orderId method performedBy db =
     gateway_transaction db (manual_tx env orderId method performedBy db)"

subsection \<open>Settlement links over several invoices\<close>

text \<open>\<open>Array.from(new Set(ids.map(trim).filter(Boolean)))\<close>\<close>

definition distinct_ids :: "string list \<Rightarrow> string list" where
  "distinct_ids ids = rev (remdups (rev (filter (\<lambda>s. s \<noteq> []) (map js_trim ids))))"

definition selected_orders :: "gateway_db \<Rightarrow> uuid list \<Rightarrow> ledger_order list" where
  "selected_orders db ids = filter (\<lambda>r. lo_id r \<in> set ids) (lgOrders (gwLedger db))"

definition settlement_check :: "(uuid \<rightharpoonup> decimal) \<Rightarrow> (uuid \<Rightarrow> link_columns) \<Rightarrow> uuid \<Rightarrow> ledger_order \<Rightarrow> unit result" where
  "settlement_check remaining links customerId r =
     (if lo_customerId r \<noteq> customerId
      then Inl (BadRequestException ''All selected invoiceIds must belong to the provided customerId'')
      else if lo_status r = CANCELED
      then Inl (BadRequestException (''Invoice '' @ lo_id r @ '' is canceled and cannot be settled''))
      else if js_trim (nullish (lk_posHostedPaymentUrl (links (lo_id r))) []) \<noteq> []
      then Inl (BadRequestException (''Invoice '' @ lo_id r @ '' already has an active payment link''))
      else if str_truthy (lo_posPaymentBundleId r)
      then Inl (BadRequestException (''Invoice '' @ lo_id r @ '' is already linked to another settlement bundle''))
      else if nullish (remaining (lo_id r)) 0 \<le> INVOICE_REMAINING_TOLERANCE_KD
      then Inl (BadRequestException (''Invoice '' @ lo_id r @ '' has no remaining balance''))
      else Inr ())"

definition settlement_total :: "env \<Rightarrow> gateway_db \<Rightarrow> uuid list \<Rightarrow> decimal" where
  "settlement_total env db ids = (let rows = selected_orders db ids; rem = order_remaining env db (map lo_id rows) in
     \<Sum>r\<leftarrow>rows. nullish (rem (lo_id r)) 0)"

text \<open>The transaction that creates the bundle and takes every invoice into it, or none.\<close>

definition settlement_claim :: "env \<Rightarrow> uuid \<Rightarrow> uuid list \<Rightarrow> uuid \<Rightarrow> decimal \<Rightarrow> gateway_db \<Rightarrow> uuid result \<times> gateway_db" where
  "settlement_claim env customerId ids actor amount db =
     (let rows = selected_orders db ids; b = new_uuid env (length (gwBundles db));
          hit = (\<lambda>r. lo_id r \<in> set ids \<and> lo_customerId r = customerId \<and> lo_status r \<noteq> CANCELED
            \<and> lk_posHostedPaymentUrl (gwLinks db (lo_id r)) = None \<and> lo_posPaymentBundleId r = None);
          orders = lgOrders (gwLedger db)
      in if length rows \<noteq> length ids
         then throwS (BadRequestException (''Some invoiceIds not found '' @ em_dash @ '' cannot create settlement bundle'')) db
         else if \<not> list_all (\<lambda>r. lo_customerId r = customerId) rows
         then throwS (BadRequestException ''All selected invoiceIds must belong to the provided customerId'') db
         else if b \<in> pb_id ` set (gwBundles db) then throwS unique_violation db
         else if length (filter hit orders) \<noteq> length ids
         then throwS (BadRequestException ''Some invoices changed state during settlement generation; refresh and retry'') db
         else (Inr b, db\<lparr>gwBundles := gwBundles db @ [\<lparr>pb_id = b, pb_driverId = actor, pb_totalAmountKd = amount,
             pb_createdAt = now env\<rparr>],
           gwLedger := (gwLedger db)\<lparr>lgOrders := map (\<lambda>r. if hit r then r\<lparr>lo_posPaymentBundleId := Some b\<rparr> else r) orders\<rparr>\<rparr>))"

definition settlement_release :: "uuid list \<Rightarrow> uuid \<Rightarrow> gateway_db \<Rightarrow> gateway_db" where
  "settlement_release ids b db = db\<lparr>gwBundles := filter (\<lambda>x. pb_id x \<noteq> b) (gwBundles db),
     gwLedger := (gwLedger db)\<lparr>lgOrders := map (\<lambda>r. if lo_id r \<in> set ids \<and> lo_posPaymentBundleId r = Some b
       then r\<lparr>lo_posPaymentBundleId := None\<rparr> else r) (lgOrders (gwLedger db))\<rparr>\<rparr>"

definition bundle_metadata :: "uuid \<Rightarrow> uuid \<Rightarrow> uuid list \<Rightarrow> decimal \<Rightarrow> string \<times> string option \<Rightarrow> json" where
  "bundle_metadata b customerId ids amount link = JObject
     [(''charge'', JObject [(''provider'', JString ''upayments''), (''trackId'', json_option (snd link)),
        (''link'', JString (fst link)), (''source'', JString ''finance.generateSettlementLink'')]),
      (''settlement'', JObject [(''kind'', JString ''multi_invoice''), (''bundleId'', JString b),
        (''customerId'', JString customerId), (''invoiceCount'', JDecimal (of_nat (length ids))),
        (''totalAmountKd'', JString (to_fixed4 amount))])]"

definition settlement_publish :: "uuid \<Rightarrow> uuid list \<Rightarrow> uuid \<Rightarrow> decimal \<Rightarrow> string \<times> string option \<Rightarrow> gateway_db \<Rightarrow> gateway_db" where
  "settlement_publish customerId ids b amount link db = db\<lparr>gwLinks := (\<lambda>i.
     if i \<in> set ids \<and> (case find_order db i of None \<Rightarrow> False | Some r \<Rightarrow> lo_posPaymentBundleId r = Some b)
     then \<lparr>lk_posHostedPaymentUrl = Some (fst link), lk_posGatewayTrackId = snd link,
       lk_posGatewayMetadata = Some (bundle_metadata b customerId ids amount link),
       lk_ccCollectionPaymentWaLocked = True\<rparr>
     else gwLinks db i)\<rparr>"

record settlement_link =
  sl_bundleId :: uuid
  sl_customerId :: uuid
  sl_invoiceIds :: "uuid list"
  sl_totalAmountKd :: string
  sl_paymentUrl :: string
  sl_trackId :: "string option"

definition settlement_checks :: "env \<Rightarrow> gateway_db \<Rightarrow> uuid \<Rightarrow> uuid list \<Rightarrow> unit result" where
  "settlement_checks env db customerId ids =
     (let rows = selected_orders db ids; rem = order_remaining env db (map lo_id rows); (p1, p2) = gwPhones db customerId in
      if customerId = [] then Inl (BadRequestException ''customerId is required'')
      else if ids = [] then Inl (BadRequestException ''invoiceIds must contain at least one id'')
      else if find_row cu_id (lgCustomers (gwLedger db)) customerId = None
      then Inl (BadRequestException ''Customer not found'')
      else if length rows \<noteq> length ids then Inl (BadRequestException ''Some invoiceIds do not exist'')
      else bindE (mapE (settlement_check rem (gwLinks db) customerId) rows) (\<lambda>_.
        if settlement_total env db ids \<le> 0
        then Inl (BadRequestException ''Selected invoice total must be greater than zero'')
        else if js_trim (nullish p1 []) = [] \<and> js_trim (nullish p2 []) = []
        then Inl (BadRequestException ''No customer phone available to send the settlement link'')
        else Inr ()))"

text \<open>The link of the bundle; when the gateway refuses it the bundle is given up.\<close>

definition settlement_charge :: "gateway_env \<Rightarrow> uuid \<Rightarrow> uuid list \<Rightarrow> decimal \<Rightarrow> uuid \<Rightarrow> gateway_db \<Rightarrow>
    settlement_link result \<times> gateway_db" where
  "settlement_charge ge customerId ids amount b db =
     (case createPaymentLink ge b amount db of
        (Inl e, db1) \<Rightarrow> (Inl e, settlement_release ids b db1)
      | (Inr link, db1) \<Rightarrow> (Inr \<lparr>sl_bundleId = b, sl_customerId = customerId, sl_invoiceIds = ids,
            sl_totalAmountKd = to_fixed4 amount, sl_paymentUrl = fst link, sl_trackId = snd link\<rparr>,
          settlement_publish customerId ids b amount link db1))"

definition generateSettlementLink :: "env \<Rightarrow> gateway_env \<Rightarrow> uuid \<Rightarrow> uuid list \<Rightarrow> uuid \<Rightarrow> gateway_db \<Rightarrow>
    settlement_link result \<times> gateway_db" where
  "generateSettlementLink env ge customer invoices actor db =
     (let customerId = js_trim customer; ids = distinct_ids invoices; amount = settlement_total env db ids in
      bindS (settlement_checks env db customerId ids, db) (\<lambda>_ db0.
      bindS (gateway_transaction db0 (settlement_claim env customerId ids actor amount db0)) (\<lambda>b db1.
      settlement_charge ge customerId ids amount b db1)))"

text \<open>Bundles that claimed invoices and never received a link are released.\<close>

definition dead_order :: "gateway_db \<Rightarrow> ledger_order \<Rightarrow> bool" where
  "dead_order db r \<longleftrightarrow> \<not> str_truthy (lk_posHostedPaymentUrl (gwLinks db (lo_id r)))
     \<and> \<not> str_truthy (lk_posGatewayTrackId (gwLinks db (lo_id r)))"

definition dead_bundles :: "gateway_db \<Rightarrow> timestamp \<Rightarrow> payment_bundle list" where
  "dead_bundles db cutoff = filter (\<lambda>b. pb_createdAt b < cutoff
     \<and> list_ex (\<lambda>r. lk_posHostedPaymentUrl (gwLinks db (lo_id r)) = None
         \<and> lk_posGatewayTrackId (gwLinks db (lo_id r)) = None) (bundle_orders db (pb_id b))
     \<and> list_all (dead_order db) (bundle_orders db (pb_id b))) (gwBundles db)"

definition release_bundle :: "payment_bundle \<Rightarrow> gateway_db \<Rightarrow> gateway_db" where
  "release_bundle b db =
     db\<lparr>gwBundles := filter (\<lambda>x. pb_id x \<noteq> pb_id b) (gwBundles db),
        gwLinks := (\<lambda>i. if (case find_order db i of None \<Rightarrow> False | Some r \<Rightarrow> lo_posPaymentBundleId r = Some (pb_id b))
          then (gwLinks db i)\<lparr>lk_ccCollectionPaymentWaLocked := False\<rparr> else gwLinks db i),
        gwLedger := (gwLedger db)\<lparr>lgOrders := map (\<lambda>r. if lo_posPaymentBundleId r = Some (pb_id b)
          then r\<lparr>lo_posPaymentBundleId := None\<rparr> else r) (lgOrders (gwLedger db))\<rparr>\<rparr>"

definition cleanupDeadSettlementBundles :: "env \<Rightarrow> int \<Rightarrow> gateway_db \<Rightarrow> (nat \<times> nat) \<times> gateway_db" where
  "cleanupDeadSettlementBundles env olderThanMinutes db =
     (let bs = dead_bundles db (now env - max 1 olderThanMinutes * 60000) in
      ((length bs, \<Sum>b\<leftarrow>bs. length (bundle_orders db (pb_id b))), fold release_bundle bs db))"

end
