(* ===== verification/Payment_Laws.thy ===== *)
theory Payment_Laws
  imports Payment_Gateway Customer_Settlement
begin

text \<open>
  What the payment gateway guarantees. Callbacks, polls, mock callbacks, manual confirmations and
  the automatic settlement may come in any order and any number of times: an order is sold once.
  What a finalisation checks, what an answer of the gateway can and cannot change, and the life of
  the bundles behind a settlement link.
\<close>

subsection \<open>Sales on the general ledger\<close>

definition sales :: "ledger_db \<Rightarrow> gl_entry list" where
  "sales db = filter (\<lambda>g. gl_entryType g = POS_SALE_COMPLETED) (lgGl db)"

definition sale_count :: "ledger_db \<Rightarrow> uuid \<Rightarrow> nat" where
  "sale_count db i = length (filter (\<lambda>g. gl_orderId g = Some i) (sales db))"

definition same_sales :: "ledger_db \<Rightarrow> ledger_db \<Rightarrow> bool" where
  "same_sales db db' \<longleftrightarrow> sales db' = sales db"

interpretation unsold: frame same_sales
  by unfold_locales (simp_all add: same_sales_def)

lemma same_sales_gl: "lgGl db' = lgGl db \<Longrightarrow> same_sales db db'"
  by (simp add: same_sales_def sales_def)

lemma same_sales_more: "journal_db.more db' = journal_db.more db \<Longrightarrow> same_sales db db'"
  by (cases db; cases db') (simp add: same_sales_def sales_def)

lemma same_sales_count: "same_sales db db' \<Longrightarrow> sale_count db' i = sale_count db i"
  by (simp add: same_sales_def sale_count_def)

lemma same_sales_journal [simp]:
  "same_sales db (snd (appendBalanced env db inp))" "same_sales db (snd (run_event env db ev))"
  "same_sales db (snd (mirrorDebtLedgerEntrySafe env db m))"
  by (simp_all add: same_sales_more appendBalanced_more run_event_more mirror_more)

lemma same_sales_events [simp]:
  "same_sales db (snd (appendInvoiceIssuanceEntrySafe env db i))"
  "same_sales db (snd (appendWalletAbsorptionEntryV3Safe env db i))"
  "same_sales db (snd (appendWalletAbsorptionEntrySafe env db i))"
  "same_sales db (snd (appendExternalPaymentEntrySafe env db e))"
  using same_sales_journal(2) [of db env "Issue i"] same_sales_journal(2) [of db env "AbsorbV3 i"]
    same_sales_journal(2) [of db env "Absorb i"] same_sales_journal(2) [of db env "Pay e"]
  by simp_all

lemma same_sales_append [simp]: "al_entryType row \<noteq> POS_SALE_COMPLETED \<Longrightarrow> same_sales db (ledger_append env row db)"
  by (simp add: same_sales_def sales_def ledger_append_def)

lemma same_sales_tables [simp]:
  "same_sales db (settle_gl env ctx m memo meta db)" "same_sales db (update_wallet c f db)"
  "same_sales db (update_order i g db)" "same_sales db (settle_mark env ctx db)"
  "same_sales db (ensureCustomerOriginBranchTx c b db)" "same_sales db (snd (add_history env row db))"
  "same_sales db (mark_collected p db)"
  by (auto simp: settle_gl_def update_wallet_def update_order_def settle_mark_def ensureCustomerOriginBranchTx_def
      add_history_def Let_def mark_collected_def intro: same_sales_gl)

lemma same_sales_then: "same_sales db db1 \<Longrightarrow> same_sales db1 db2 \<Longrightarrow> same_sales db db2"
  by (rule unsold.frame_trans)

lemma same_sales_create: "getOrCreateWalletTx c db = (w, db1) \<Longrightarrow> same_sales db db1"
  by (rule same_sales_gl) (rule getOrCreate_props)

lemma same_sales_settle_rows [simp]:
  "same_sales db (snd (tag_subscription ctx db))" "same_sales db (snd (settle_history env ctx w db))"
  "same_sales db (snd (settle_issue env ctx db))" "same_sales db (snd (settle_shortfall env ctx db))"
  "same_sales db (snd (settle_overuse env ctx db))" "same_sales db (snd (settle_absorb env ctx db))"
  "same_sales db (snd (settle_external env ctx db))" "same_sales db (snd (settle_paydown_rows env ctx db))"
  by (auto simp: tag_subscription_def settle_history_def settle_issue_def settle_shortfall_def settle_overuse_def
      settle_absorb_def settle_external_def settle_paydown_rows_def Let_def intro!: unsold.frame_bindS split: option.split)

lemma same_sales_writes: "same_sales db (snd (settle_writes env ctx w db))"
proof -
  have e: "same_sales t (snd (settle_external env ctx (settle_mark env ctx t)))" for t
    by (rule same_sales_then [OF same_sales_tables(4) same_sales_settle_rows(7)])
  show ?thesis
    unfolding settle_writes_def Let_def
    by (intro unsold.frame_bindS same_sales_settle_rows e same_sales_then [OF same_sales_tables(2) same_sales_settle_rows(1)])
qed

lemma same_sales_settle:
  "same_sales db (snd (applyOrderWalletSettlementForCompletedOrder env i u pf extra db))"
proof -
  have g: "same_sales db t" if "getOrCreateWalletTx c (ensureCustomerOriginBranchTx c b db) = (w, t)" for c b w t
    using same_sales_then [OF same_sales_tables(5) same_sales_create [OF that]] .
  show ?thesis
    by (auto simp: applyOrderWalletSettlementForCompletedOrder_def Let_def throwS_def
        intro: g same_sales_then [OF g same_sales_writes] split: option.split prod.split sum.split)
qed

lemma same_sales_collect: "same_sales db (snd (recordDebtInvoiceCollectedAtCallCenter env p db))"
proof -
  have b: "same_sales t (snd (collection_book env p c m w t))" for c m w t
  proof -
    have e: "same_sales s (if q then mark_collected p (ledger_append env row s) else ledger_append env row s)"
      if "al_entryType row = DEBT_ADJUSTMENT" for s row q
      using that same_sales_then [OF same_sales_append same_sales_tables(7)] by simp
    have j: "same_sales s (snd (collection_journal env p c k s))" for k s
      by (auto simp: collection_journal_def Let_def)
    have h: "same_sales s (snd (add_history env row (update_wallet c g s)))" for row g s
      by (rule same_sales_then [OF same_sales_tables(2,6)])
    show ?thesis
      unfolding collection_book_def Let_def
      by (auto simp: throwS_def e j h split: option.split intro!: unsold.frame_bindS)
  qed
  show ?thesis
    by (auto simp: recordDebtInvoiceCollectedAtCallCenter_def Let_def throwS_def same_sales_create
        intro: same_sales_then [OF same_sales_create b] split: option.split sum.split prod.split)
qed

subsection \<open>An order is sold once\<close>

definition once :: "ledger_db \<Rightarrow> uuid \<Rightarrow> bool" where
  "once db i \<longleftrightarrow> sale_count db i = 0 \<or> sale_count db i = 1 \<and> settled db i"

definition once_kept :: "ledger_db \<Rightarrow> ledger_db \<Rightarrow> bool" where
  "once_kept db db' \<longleftrightarrow> grows db db' \<and> (\<forall>i. once db i \<longrightarrow> once db' i)"

interpretation tills: frame once_kept
proof unfold_locales
  fix s t u assume "once_kept s t" "once_kept t u"
  then show "once_kept s u"
    unfolding once_kept_def using history.frame_trans by blast
qed (simp add: once_kept_def)

lemma once_kept_same: "same_sales db db' \<Longrightarrow> grows db db' \<Longrightarrow> once_kept db db'"
  using settled_grows [of db db'] by (auto simp: once_kept_def once_def same_sales_count)

lemma sale_rows_count:
  "sale_count (snd (sale_rows env u r nt db)) i = sale_count db i + (if i = lo_id r then 1 else 0)"
  by (auto simp: sale_rows_def Let_def lift_stock_def sale_count_def sales_def ledger_append_def split: sum.split)

lemma sale_rows_grows: "grows db (snd (sale_rows env u r nt db))"
  using lawful_after [OF lawful_append lawful_stock] by (auto simp: sale_rows_def Let_def intro: lawful_grows)

lemma settle_grows: "grows db (snd (applyOrderWalletSettlementForCompletedOrder env i u pf extra db))"
  by (rule lawful_grows) (rule lawful_settle)

lemma settle_paid_once:
  assumes run: "settle_paid env m u r extra nt db = (Inr (), db')" and un: "\<not> settled db (lo_id r)"
  shows "once_kept db db'" "settled db' (lo_id r)"
proof -
  obtain db1 where s: "applyOrderWalletSettlementForCompletedOrder env (lo_id r) u (Some \<lparr>pf_customerId = lo_customerId r,
      pf_totalPrice = lo_totalPrice r, pf_posPaymentMethod = Some m, pf_walletSettledAt = None\<rparr>) (Some extra) db = (Inr (), db1)"
    and d: "db' = snd (sale_rows env u r nt db1)"
    using run by (auto simp: settle_paid_def result_simps)
  have st: "settled db1 (lo_id r)"
    by (rule settle_marks [OF s], simp add: settle_source_def, simp)
  have g: "grows db db1" using settle_grows [of db env "lo_id r" u] s by (metis snd_conv)
  have c: "sale_count db1 i = sale_count db i" for i
    using same_sales_count [OF same_sales_settle [of db env "lo_id r" u]] s by (metis snd_conv)
  have g2: "grows db1 db'" by (simp add: d sale_rows_grows)
  show "settled db' (lo_id r)" by (rule settled_grows [OF g2 st])
  then show "once_kept db db'"
    using un history.frame_trans [OF g g2] settled_grows [OF history.frame_trans [OF g g2]]
    by (auto simp: once_kept_def once_def d sale_rows_count c)
qed

subsection \<open>The operations of the gateway\<close>

definition till_kept :: "gateway_db \<Rightarrow> gateway_db \<Rightarrow> bool" where
  "till_kept db db' \<longleftrightarrow> once_kept (gwLedger db) (gwLedger db')"

interpretation gates: frame till_kept
  by unfold_locales (auto simp: till_kept_def intro: tills.frame_trans)

lemma till_kept_ledger [simp]: "gwLedger db' = gwLedger db \<Longrightarrow> till_kept db db'"
  by (simp add: till_kept_def)

lemma till_kept_then: "till_kept db db1 \<Longrightarrow> till_kept db1 db2 \<Longrightarrow> till_kept db db2"
  by (rule gates.frame_trans)

lemma till_kept_transaction: "till_kept db (snd w) \<Longrightarrow> till_kept db (snd (gateway_transaction db w))"
  by (auto simp: gateway_transaction_def split: sum.split)

lemma once_kept_orders:
  assumes "\<And>r. lo_id (f r) = lo_id r" and "\<And>r. order_kept r (f r)"
  shows "once_kept db (db\<lparr>lgOrders := map f (lgOrders db)\<rparr>)"
  using assms
  by (intro once_kept_same same_sales_gl) (auto simp: grows_def find_row_map wallets_ok_def)

lemma update_link_ledger [simp]: "gwLedger (update_link i f db) = gwLedger db"
  by (simp add: update_link_def)

lemma complete_order_fields [simp]:
  "lo_id (complete_order env m r) = lo_id r" "lo_walletSettledAt (complete_order env m r) = None"
  "lo_status (complete_order env m r) = ORDER_COMPLETED"
  "order_kept r (complete_order env m r) \<longleftrightarrow> lo_walletSettledAt r = None"
  by (auto simp: complete_order_def order_kept_def)

text \<open>The claim takes the order it finds unpaid.\<close>

lemma finalize_claim_ledger:
  assumes "finalize_claim env i track merged db = (n, db1)" and "find_order db i = Some r" and "\<not> order_paid r"
  shows "once_kept (gwLedger db) (gwLedger db1)" "\<not> settled (gwLedger db1) i" "n \<noteq> 0"
    "find_order db1 i = Some (complete_order env PM_ONLINE r)" "gwBundles db1 = gwBundles db"
proof -
  define hit where "hit = (\<lambda>r. lo_id r = i \<and> \<not> order_paid r)"
  have r: "lo_id r = i" "r \<in> set (lgOrders (gwLedger db))"
    using find_row_id [OF assms(2) [unfolded find_order_def]] by auto
  then have "filter hit (lgOrders (gwLedger db)) \<noteq> []"
    using assms(3) by (auto simp: hit_def filter_empty_conv)
  then have d: "n \<noteq> 0" "gwLedger db1 = (gwLedger db)\<lparr>lgOrders := map (\<lambda>r. if hit r then complete_order env PM_ONLINE r else r)
      (lgOrders (gwLedger db))\<rparr>" "gwBundles db1 = gwBundles db"
    using assms(1) by (auto simp: finalize_claim_def Let_def hit_def [symmetric] update_link_def split: if_splits)
  show "once_kept (gwLedger db) (gwLedger db1)"
    unfolding d(2) by (rule once_kept_orders) (auto simp: hit_def order_paid_def)
  have f: "find_ledger_order (gwLedger db1) i = Some (complete_order env PM_ONLINE r)"
    using assms(2,3) r by (simp add: d(2) find_order_def find_row_map) (simp add: hit_def)
  then show "\<not> settled (gwLedger db1) i" "find_order db1 i = Some (complete_order env PM_ONLINE r)"
    by (simp_all add: settled_def find_order_def)
  show "n \<noteq> 0" "gwBundles db1 = gwBundles db" by (rule d)+
qed

lemma finalize_course:
  assumes "finalizeSingle_tx env i md db = (Inr b, db')"
  obtains (left_alone) "\<not> b" "db' = db"
  | (finalised) r u extra nt n db1 where "b" "find_order db i = Some r" "\<not> order_paid r" "lo_status r \<noteq> CANCELED"
      "\<not> finalize_refused db r md"
      "finalize_claim env i (extractTrackIdFromFinalizeGatewayMetadata md)
         (mergeGatewayMetadata (lk_posGatewayMetadata (gwLinks db i)) md) db = (n, db1)"
      "settle_paid env PM_ONLINE u r extra nt (gwLedger db1) = (Inr (), gwLedger db')"
      "gwBundles db' = gwBundles db1" "gwLinks db' = gwLinks db1"
proof (cases "find_order db i")
  case None
  then show ?thesis using assms by (simp add: finalizeSingle_tx_def)
next
  case (Some r)
  have id: "lo_id r = i" using find_row_id [OF Some [unfolded find_order_def]] by simp
  obtain n db1 where c: "finalize_claim env i (extractTrackIdFromFinalizeGatewayMetadata md)
      (mergeGatewayMetadata (lk_posGatewayMetadata (gwLinks db i)) md) db = (n, db1)" by fastforce
  show ?thesis
  proof (cases "order_paid r")
    case True
    then show ?thesis using assms Some left_alone by (auto simp: finalizeSingle_tx_def)
  next
    case False
    then have n: "n \<noteq> 0" by (rule finalize_claim_ledger(3) [OF c Some])
    show ?thesis
      using assms False n Some c left_alone
      by (auto simp: finalizeSingle_tx_def finalize_pending_def finalize_writes_def id on_ledger_def result_simps
          split: if_splits option.splits prod.splits intro!: finalised)
  qed
qed

lemma finalize_kept: "till_kept db (snd (finalizeSinglePaidOrderFromGateway env i md db))"
proof (cases "finalizeSingle_tx env i md db")
  case (Pair x db')
  show ?thesis
  proof (cases x)
    case (Inl e)
    then show ?thesis by (simp add: finalizeSinglePaidOrderFromGateway_def gateway_transaction_def Pair)
  next
    case (Inr b)
    with Pair have run: "finalizeSingle_tx env i md db = (Inr b, db')" by simp
    then have "till_kept db db'"
    proof (cases rule: finalize_course)
      case left_alone
      then show ?thesis by simp
    next
      case (finalised r u extra nt n db1)
      note c = finalize_claim_ledger [OF finalised(6,2,3)]
      have "lo_id r = i" using find_row_id [OF finalised(2) [unfolded find_order_def]] by simp
      then show ?thesis
        using tills.frame_trans [OF c(1) settle_paid_once(1) [OF finalised(7)]] c(2) by (simp add: till_kept_def)
    qed
    then show ?thesis by (simp add: finalizeSinglePaidOrderFromGateway_def gateway_transaction_def Pair Inr)
  qed
qed

lemma finalize_each_kept: "till_kept db (snd (finalize_each env md ids db))"
proof (induction ids arbitrary: db)
  case (Cons i ids)
  have "till_kept t (snd (bindS (finalize_each env md ids t) (\<lambda>rest. returnS (b \<or> rest))))" for b t
    by (rule gates.frame_bindS [OF Cons.IH]) simp
  then show ?case
    unfolding finalize_each.simps by (rule gates.frame_bindS [OF finalize_kept])
qed simp

lemma finalize_paid_kept: "till_kept db (snd (finalizePaidOrderFromGateway env i md db))"
  by (simp add: finalizePaidOrderFromGateway_def finalize_each_kept finalize_kept)

lemma check_kept: "till_kept db (snd (checkPaymentStatus env ge t ex src db))"
  by (auto simp: checkPaymentStatus_def check_answer_def check_reference_def throwS_def finalize_paid_kept
      intro!: gates.frame_bindS split: sum.split option.split)

lemma polling_kept: "till_kept db (polling_run es i t db)"
proof -
  have "till_kept db (polling_attempts xs n i t db)" for xs n
  proof (induction xs arbitrary: n db)
    case (Cons x xs)
    show ?case
      using check_kept [of db "fst x" "snd x" t "Some i" "''POLLING_ATTEMPT_'' @ show_nat n"]
      by (cases x) (auto split: prod.split sum.split intro: till_kept_then [OF _ Cons.IH])
  qed simp
  then show ?thesis by (auto simp: polling_run_def Let_def till_kept_def)
qed

lemma manual_kept: "till_kept db (snd (manuallyMarkOrderPaidByMethod env i m u db))"
proof -
  have collect: "till_kept db (snd (on_ledger (recordDebtInvoiceCollectedAtCallCenter env p) db))" for p
    using once_kept_same [OF same_sales_collect lawful_grows [OF lawful_collect]]
    by (simp add: on_ledger_def till_kept_def split: prod.split) (metis snd_conv)
  have "till_kept db db'" if run: "manual_tx env i m u db = (Inr x, db')" for x db'
  proof -
    from run obtain r where r: "find_order db i = Some r" by (auto simp: manual_tx_def split: option.splits)
    have id: "lo_id r = i" using find_row_id [OF r [unfolded find_order_def]] by simp
    show ?thesis
    proof (cases "lo_walletSettledAt r = None")
      case True
      define l where "l = update_order i (complete_order env m) (gwLedger db)"
      have f: "find_ledger_order l k = (if k = i then Some (complete_order env m r) else find_ledger_order (gwLedger db) k)" for k
        using r by (simp add: l_def update_order_def table_simps find_order_def)
      have l: "once_kept (gwLedger db) l"
        by (rule once_kept_same) (use r True f in \<open>auto simp: grows_def l_def update_order_def wallets_ok_def
            same_sales_def sales_def find_order_def\<close>)
      have un: "\<not> settled l (lo_id r)" using f id by (simp add: settled_def)
      obtain extra nt where "settle_paid env m u r extra nt l = (Inr (), gwLedger db')"
        using run r True
        by (auto simp: manual_tx_def Let_def on_ledger_def result_simps l_def [symmetric] split: if_splits prod.splits)
      then show ?thesis
        using tills.frame_trans [OF l settle_paid_once(1)] un by (simp add: till_kept_def)
    next
      case False
      then show ?thesis
        using run r collect by (auto simp: manual_tx_def Let_def result_simps split: if_splits) (metis snd_conv)+
    qed
  qed
  then show ?thesis
    by (cases "manual_tx env i m u db"; cases "fst (manual_tx env i m u db)")
      (auto simp: manuallyMarkOrderPaidByMethod_def gateway_transaction_def)
qed
subsection \<open>Links and bundles\<close>

lemma createPaymentLink_frame:
  assumes "createPaymentLink ge i amount db = (x, db')"
  shows "gwLedger db' = gwLedger db" "gwBundles db' = gwBundles db" "gwLinks db' = gwLinks db"
    "x = Inl e \<Longrightarrow> db' = db"
  using assms
  by (auto simp: createPaymentLink_def startGatewayStatusPolling_def Let_def throwS_def
      split: if_splits sum.splits prod.splits option.splits)

lemma ensure_kept: "till_kept db (snd (ensurePaymentLinkForUnpaidOrder env ge i c db))"
proof -
  have "till_kept db (snd (createPaymentLink ge i m db))" for m
    using createPaymentLink_frame(1) [of ge i m db] by (cases "createPaymentLink ge i m db") simp
  then show ?thesis
    by (auto simp: ensurePaymentLinkForUnpaidOrder_def Let_def throwS_def returnS_def intro!: gates.frame_bindS
        split: option.split)
qed

text \<open>An operation that moves orders between bundles.\<close>

definition rebundle :: "(ledger_order \<Rightarrow> uuid option) \<Rightarrow> ledger_db \<Rightarrow> ledger_db" where
  "rebundle f db = db\<lparr>lgOrders := map (\<lambda>r. r\<lparr>lo_posPaymentBundleId := f r\<rparr>) (lgOrders db)\<rparr>"

lemma once_kept_rebundle: "once_kept db (rebundle f db)"
  unfolding rebundle_def by (rule once_kept_orders) (simp_all add: order_kept_def)

lemma rebundle_if:
  "map (\<lambda>r. if P r then r\<lparr>lo_posPaymentBundleId := g r\<rparr> else r) rs
    = map (\<lambda>r. r\<lparr>lo_posPaymentBundleId := (if P r then g r else lo_posPaymentBundleId r)\<rparr>) rs"
  by auto

lemma settlement_claim_kept: "till_kept db (snd (settlement_claim env c ids u m db))"
  using once_kept_rebundle [where db = "gwLedger db"]
  by (auto simp: settlement_claim_def Let_def throwS_def till_kept_def rebundle_if rebundle_def)

lemma settlement_release_kept: "till_kept db (settlement_release ids b db)"
  using once_kept_rebundle [where db = "gwLedger db"]
  by (auto simp: settlement_release_def till_kept_def rebundle_if rebundle_def)

lemma settlement_publish_ledger [simp]: "gwLedger (settlement_publish c ids b m link db) = gwLedger db"
  by (simp add: settlement_publish_def)

lemma charge_kept: "till_kept db (snd (settlement_charge ge c ids m b db))"
proof -
  obtain y t where l: "createPaymentLink ge b m db = (y, t)" by fastforce
  then have t: "gwLedger t = gwLedger db" by (rule createPaymentLink_frame)
  have "till_kept db (settlement_release ids b t)"
    using settlement_release_kept [of t ids b] by (simp add: till_kept_def t)
  then show ?thesis by (cases y) (simp_all add: settlement_charge_def l t)
qed

lemma generate_kept: "till_kept db (snd (generateSettlementLink env ge c invoices u db))"
  unfolding generateSettlementLink_def Let_def
  by (intro gates.frame_bindS till_kept_transaction settlement_claim_kept charge_kept) simp

lemma release_bundle_kept: "till_kept db (release_bundle b db)"
  using once_kept_rebundle [where db = "gwLedger db"]
  by (auto simp: release_bundle_def till_kept_def rebundle_if rebundle_def)

lemma cleanup_kept: "till_kept db (snd (cleanupDeadSettlementBundles env m db))"
  unfolding cleanupDeadSettlementBundles_def Let_def snd_conv by (rule gates.frame_fold) (rule release_bundle_kept)

subsection \<open>Histories of the gateway\<close>

text \<open>
  The requests that reach the payments service: the inquiry of a callback, of a return page or of
  a poll; the polling of a link; a callback that is trusted as it is; the call center's button; and
  the creation and clean-up of links.
\<close>

datatype gateway_command =
    Inquire string "uuid option" string
  | PollLink uuid string
  | TrustedCallback uuid "json option"
  | MarkPaid uuid pos_payment_method uuid
  | OfferLink uuid "decimal option"
  | OfferSettlement uuid "uuid list" uuid
  | CleanUp int

fun exec_gateway :: "env \<times> gateway_env \<times> gateway_command \<Rightarrow> gateway_db \<Rightarrow> gateway_db" where
  "exec_gateway (env, ge, Inquire t ex src) db = snd (checkPaymentStatus env ge t ex src db)"
| "exec_gateway (env, ge, PollLink i t) db = polling_run (replicate 3 (env, ge)) i t db"
| "exec_gateway (env, ge, TrustedCallback i md) db = snd (finalizePaidOrderFromGateway env i md db)"
| "exec_gateway (env, ge, MarkPaid i m u) db = snd (manuallyMarkOrderPaidByMethod env i m u db)"
| "exec_gateway (env, ge, OfferLink i c) db = snd (ensurePaymentLinkForUnpaidOrder env ge i c db)"
| "exec_gateway (env, ge, OfferSettlement c ids u) db = snd (generateSettlementLink env ge c ids u db)"
| "exec_gateway (env, ge, CleanUp m) db = snd (cleanupDeadSettlementBundles env m db)"

definition run_gateway :: "(env \<times> gateway_env \<times> gateway_command) list \<Rightarrow> gateway_db \<Rightarrow> gateway_db" where
  "run_gateway = fold exec_gateway"

lemma exec_gateway_kept: "till_kept db (exec_gateway c db)"
  by (cases c rule: prod_cases3; cases "snd (snd c)")
    (simp_all add: check_kept polling_kept finalize_paid_kept manual_kept ensure_kept generate_kept cleanup_kept)

lemma run_gateway_kept: "till_kept db (run_gateway cmds db)"
  unfolding run_gateway_def by (rule gates.frame_fold) (rule exec_gateway_kept)

text \<open>
  C13: an order is sold once. Take an order for which the general ledger holds no sale. After any
  history of inquiries, polls, trusted callbacks, manual confirmations and link operations, in
  any order, with any answers of the gateway and any failures of the journal, the ledger holds at
  most one sale of it, and holds one only if the order is settled against the wallet. Whatever
  happens, no wallet gets a negative balance or debt and no booked row is removed or changed.
\<close>

theorem order_sold_once:
  assumes "sale_count (gwLedger db) i = 0"
  shows "sale_count (gwLedger (run_gateway cmds db)) i \<le> 1
    \<and> (sale_count (gwLedger (run_gateway cmds db)) i = 1 \<longrightarrow> settled (gwLedger (run_gateway cmds db)) i)
    \<and> grows (gwLedger db) (gwLedger (run_gateway cmds db))"
proof -
  have k: "once_kept (gwLedger db) (gwLedger (run_gateway cmds db))"
    using run_gateway_kept by (simp add: till_kept_def)
  moreover have "once (gwLedger db) i" using assms by (simp add: once_def)
  ultimately have "once (gwLedger (run_gateway cmds db)) i" by (simp add: once_kept_def)
  then show ?thesis using k by (auto simp: once_def once_kept_def)
qed

definition example_links :: "uuid \<Rightarrow> link_columns" where
  "example_links = (\<lambda>_. \<lparr>lk_posHostedPaymentUrl = None, lk_posGatewayTrackId = None, lk_posGatewayMetadata = None,
     lk_ccCollectionPaymentWaLocked = False\<rparr>)"

definition example_gateway :: gateway_db where
  "example_gateway = \<lparr>gwLedger = example_ledger\<lparr>lgOrders := [example_ledger_order\<lparr>lo_status := ORDER_PENDING,
     lo_posPaymentMethod := Some PM_ONLINE\<rparr>]\<rparr>, gwLinks = example_links, gwBundles = [],
     gwPhones = (\<lambda>_. (Some ''50000000'', None)), gwPolling = []\<rparr>"

definition example_answer :: inquiry_data where
  "example_answer = empty_inquiry\<lparr>iq_result := Some ''CAPTURED'', iq_orderId := Some ''o1'',
     iq_amount := Some (AmountNumber 8), iq_currency := Some ''KWD''\<rparr>"

definition example_gate :: gateway_env where
  "example_gate = \<lparr>ge_NODE_ENV = Some ''production'', ge_PAYMENTS_MOCK = None, ge_apiBase = ''https://gateway'',
     ge_apiKey = ''key'', ge_secret = ''secret'', ge_PUBLIC_API_URL = None,
     ge_inquire = (\<lambda>_. Answer True (Some True) (Some example_answer)),
     ge_charge = (\<lambda>i a. Inr (''https://pay/'' @ i, Some (''track-'' @ i))), ge_hmac = (\<lambda>k s. s)\<rparr>"


lemma example_runs:
  "fst (checkPaymentStatus example_env example_gate ''track-o1'' (Some ''o1'') ''CALLBACK'' example_gateway)
     = Inr (True, Some ''CAPTURED'')"
  "sale_count (gwLedger (exec_gateway (example_env, example_gate, Inquire ''track-o1'' (Some ''o1'') ''CALLBACK'')
     example_gateway)) ''o1'' = 1"
  by code_simp+

theorem order_sold_once_witness:
  "sale_count (gwLedger (run_gateway [(example_env, example_gate, Inquire ''track-o1'' (Some ''o1'') ''CALLBACK''),
      (example_env, example_gate, MarkPaid ''o1'' PM_CASH ''u1''),
      (example_env, example_gate, TrustedCallback ''o1'' None)] example_gateway)) ''o1'' \<le> 1"
proof -
  have "sale_count (gwLedger example_gateway) ''o1'' = 0" by code_simp
  then show ?thesis by (rule order_sold_once [THEN conjunct1])
qed

end
