(* ===== verification/Payment_Bundles.thy ===== *)
theory Payment_Bundles
  imports Payment_Laws Customer_Refunds
begin

text \<open>
  The bundles behind a settlement link: no payment touches the bundle of an order, every order
  points to an existing bundle in any history of the gateway, a settlement link is created for all
  of its invoices or for none, and what becomes of a payment for invoices that were completed on
  account.
\<close>

subsection \<open>The bundle of an order\<close>

definition claims :: "ledger_db \<Rightarrow> (uuid \<times> uuid option) list" where
  "claims db = map (\<lambda>r. (lo_id r, lo_posPaymentBundleId r)) (lgOrders db)"

definition same_claims :: "ledger_db \<Rightarrow> ledger_db \<Rightarrow> bool" where
  "same_claims db db' \<longleftrightarrow> claims db' = claims db"

interpretation unclaimed: frame same_claims
  by unfold_locales (simp_all add: same_claims_def)

lemma same_claims_then: "same_claims db db1 \<Longrightarrow> same_claims db1 db2 \<Longrightarrow> same_claims db db2"
  by (rule unclaimed.frame_trans)

lemma same_claims_orders: "lgOrders db' = lgOrders db \<Longrightarrow> same_claims db db'"
  by (simp add: same_claims_def claims_def)

lemma same_claims_books [simp]: "books_only db db' \<Longrightarrow> same_claims db db'"
  by (rule same_claims_orders) (rule books_onlyD)

lemma same_claims_map:
  assumes "\<And>r. lo_id (f r) = lo_id r \<and> lo_posPaymentBundleId (f r) = lo_posPaymentBundleId r"
  shows "same_claims db (db\<lparr>lgOrders := map f (lgOrders db)\<rparr>)" "same_claims db (update_order i f db)"
  using assms by (auto simp: same_claims_def claims_def update_order_def update_row_def)

lemma same_claims_tables [simp]:
  "same_claims db (update_wallet c f db)" "same_claims db (ensureCustomerOriginBranchTx c b db)"
  "same_claims db (snd (add_history env row db))" "same_claims db (snd (settle_history env ctx w db))"
  "same_claims db (snd (tag_subscription ctx db))" "same_claims db (settle_mark env ctx db)"
  "same_claims db (mark_collected p db)" "same_claims db (snd (lift_stock r db))"
  unfolding update_wallet_def ensureCustomerOriginBranchTx_def add_history_def settle_history_def Let_def
    tag_subscription_def settle_mark_def mark_collected_def lift_stock_def
  by (auto simp: add_history_def returnS_def Let_def intro: same_claims_orders intro!: same_claims_map unclaimed.frame_then
      split: option.split sum.split)

lemma same_claims_writes: "same_claims db (snd (settle_writes env ctx w db))"
proof -
  have e: "same_claims t (snd (settle_external env ctx (settle_mark env ctx t)))" for t
    by (rule same_claims_then [OF same_claims_tables(6) same_claims_books [OF settle_external_frame]])
  show ?thesis
    unfolding settle_writes_def Let_def
    by (intro unclaimed.frame_bindS same_claims_tables e same_claims_then [OF same_claims_tables(1) same_claims_tables(5)]
        same_claims_books settle_issue_frame settle_shortfall_frame settle_overuse_frame settle_absorb_frame
        settle_paydown_rows_frame)
qed

lemma same_claims_settle:
  "same_claims db (snd (applyOrderWalletSettlementForCompletedOrder env i u pf extra db))"
proof -
  have g: "same_claims db t" if "getOrCreateWalletTx c (ensureCustomerOriginBranchTx c b db) = (w, t)" for c b w t
    using same_claims_then [OF same_claims_tables(2) same_claims_orders [OF getOrCreate_props(5) [OF that]]] .
  show ?thesis
    by (auto simp: applyOrderWalletSettlementForCompletedOrder_def Let_def throwS_def
        intro: g same_claims_then [OF g same_claims_writes] split: option.split prod.split sum.split)
qed

lemma same_claims_collect: "same_claims db (snd (recordDebtInvoiceCollectedAtCallCenter env p db))"
proof -
  have e: "same_claims s (if q then mark_collected p (ledger_append env row s) else ledger_append env row s)" for s row q
    using same_claims_then [OF same_claims_books [OF ledger_append_frame(1)] same_claims_tables(7)] by simp
  have h: "same_claims s (snd (add_history env row (update_wallet c g s)))" for row g s c
    by (rule same_claims_then [OF same_claims_tables(1,3)])
  have b: "same_claims t (snd (collection_book env p c m w t))" for c m w t
    unfolding collection_book_def Let_def
    by (auto simp: throwS_def e h split: option.split intro!: unclaimed.frame_bindS)
  have g: "same_claims db t" if "getOrCreateWalletTx c db = (w, t)" for c w t
    by (rule same_claims_orders) (rule getOrCreate_props(5) [OF that])
  show ?thesis
    by (auto simp: recordDebtInvoiceCollectedAtCallCenter_def Let_def throwS_def g
        intro: same_claims_then [OF g b] split: option.split sum.split prod.split)
qed

lemma same_claims_paid: "same_claims db (snd (settle_paid env m u r extra nt db))"
proof -
  have "same_claims t (snd (sale_rows env u r nt t))" for t
    using same_claims_then [OF same_claims_books [OF ledger_append_frame(1)] same_claims_tables(8)]
    by (simp add: sale_rows_def Let_def)
  then show ?thesis
    unfolding settle_paid_def by (intro unclaimed.frame_bindS same_claims_settle)
qed

text \<open>Operations that leave the bundles and their orders alone.\<close>

definition bundles_alone :: "gateway_db \<Rightarrow> gateway_db \<Rightarrow> bool" where
  "bundles_alone db db' \<longleftrightarrow> same_claims (gwLedger db) (gwLedger db') \<and> gwBundles db' = gwBundles db"

interpretation strapped: frame bundles_alone
  by unfold_locales (auto simp: bundles_alone_def intro: unclaimed.frame_trans)

lemma bundles_alone_tx: "bundles_alone db (snd m) \<Longrightarrow> bundles_alone db (snd (gateway_transaction db m))"
  by (auto simp: gateway_transaction_def split: sum.split)

lemma bundles_alone_same [simp]:
  "gwLedger db' = gwLedger db \<Longrightarrow> gwBundles db' = gwBundles db \<Longrightarrow> bundles_alone db db'"
  by (simp add: bundles_alone_def same_claims_orders)

lemma bundles_alone_link [simp]: "bundles_alone db (update_link i f db)"
  by (simp add: update_link_def)

lemma bundles_alone_on_ledger:
  assumes "\<And>l. same_claims l (snd (f l))"
  shows "bundles_alone db (snd (on_ledger f db))"
  using assms [of "gwLedger db"] by (cases "f (gwLedger db)") (simp add: on_ledger_def bundles_alone_def)

lemma complete_order_bundle [simp]: "lo_posPaymentBundleId (complete_order env m r) = lo_posPaymentBundleId r"
  by (simp add: complete_order_def)

lemma claim_bundles_alone:
  assumes "finalize_claim env i t m db = (n, db1)"
  shows "bundles_alone db db1"
  using assms
  by (auto simp: finalize_claim_def Let_def bundles_alone_def update_link_def same_claims_def claims_def split: if_splits)

lemma finalize_bundles_alone: "bundles_alone db (snd (finalizeSinglePaidOrderFromGateway env i md db))"
proof -
  have w: "bundles_alone t (snd (finalize_writes env r k t))" for r k t
    by (auto simp: finalize_writes_def intro!: strapped.frame_bindS bundles_alone_on_ledger same_claims_paid
        split: option.split)
  have "bundles_alone db (snd (finalize_pending env r md k db))" for r k
    using strapped.frame_trans [OF claim_bundles_alone w] claim_bundles_alone
    by (auto simp: finalize_pending_def split: prod.split)
  then show ?thesis
    unfolding finalizeSinglePaidOrderFromGateway_def
    by (intro bundles_alone_tx) (auto simp: finalizeSingle_tx_def split: option.split)
qed

lemma finalize_paid_bundles_alone: "bundles_alone db (snd (finalizePaidOrderFromGateway env i md db))"
proof -
  have "bundles_alone t (snd (finalize_each env md ids t))" for ids t
    by (induction ids arbitrary: t) (auto intro!: strapped.frame_bindS finalize_bundles_alone)
  then show ?thesis by (simp add: finalizePaidOrderFromGateway_def finalize_bundles_alone)
qed

lemma check_bundles_alone: "bundles_alone db (snd (checkPaymentStatus env ge t ex src db))"
  by (auto simp: checkPaymentStatus_def check_answer_def check_reference_def finalize_paid_bundles_alone
      intro!: strapped.frame_bindS split: sum.split option.split)

lemma polling_bundles_alone: "bundles_alone db (polling_run es i t db)"
proof -
  have "bundles_alone db (polling_attempts xs n i t db)" for xs n
  proof (induction xs arbitrary: n db)
    case (Cons x xs)
    show ?case
      using check_bundles_alone [of db "fst x" "snd x" t "Some i" "''POLLING_ATTEMPT_'' @ show_nat n"]
      by (cases x) (auto split: prod.split sum.split intro: strapped.frame_trans [OF _ Cons.IH])
  qed simp
  then show ?thesis by (auto simp: polling_run_def Let_def bundles_alone_def)
qed

lemma manual_bundles_alone: "bundles_alone db (snd (manuallyMarkOrderPaidByMethod env i m u db))"
proof -
  have t: "bundles_alone db (update_link i f (db\<lparr>gwLedger := update_order i (complete_order env m) (gwLedger db)\<rparr>))" for f
    by (simp add: bundles_alone_def update_link_def same_claims_map)
  have s: "bundles_alone db (snd (on_ledger (settle_paid env m u r extra nt)
      (update_link i f (db\<lparr>gwLedger := update_order i (complete_order env m) (gwLedger db)\<rparr>))))" for f r extra nt
    by (rule strapped.frame_trans [OF t bundles_alone_on_ledger [OF same_claims_paid]])
  have c: "bundles_alone db (snd (on_ledger (recordDebtInvoiceCollectedAtCallCenter env p) db))" for p
    by (intro bundles_alone_on_ledger same_claims_collect)
  show ?thesis
    unfolding manuallyMarkOrderPaidByMethod_def
    by (intro bundles_alone_tx) (auto simp: manual_tx_def Let_def throwS_def t
        intro!: strapped.frame_then [OF s] strapped.frame_then [OF c] split: option.split)
qed

subsection \<open>Keys and references\<close>

text \<open>Order and bundle identifiers are unique and the bundle of an order exists.\<close>

definition bundle_known :: "payment_bundle list \<Rightarrow> uuid option \<Rightarrow> bool" where
  "bundle_known bs b = (case b of None \<Rightarrow> True | Some i \<Rightarrow> i \<in> pb_id ` set bs)"

definition gateway_ok :: "gateway_db \<Rightarrow> bool" where
  "gateway_ok db \<longleftrightarrow> distinct (map lo_id (lgOrders (gwLedger db))) \<and> distinct (map pb_id (gwBundles db))
     \<and> list_all (\<lambda>r. bundle_known (gwBundles db) (lo_posPaymentBundleId r)) (lgOrders (gwLedger db))"

definition ok_kept :: "gateway_db \<Rightarrow> gateway_db \<Rightarrow> bool" where
  "ok_kept db db' \<longleftrightarrow> (gateway_ok db \<longrightarrow> gateway_ok db')"

interpretation keyed: frame ok_kept
  by unfold_locales (auto simp: ok_kept_def)

lemma gateway_ok_claims:
  "gateway_ok db \<longleftrightarrow> distinct (map fst (claims (gwLedger db))) \<and> distinct (map pb_id (gwBundles db))
     \<and> list_all (bundle_known (gwBundles db) \<circ> snd) (claims (gwLedger db))"
  by (simp add: gateway_ok_def claims_def comp_def list_all_iff)

lemma ok_kept_alone: "bundles_alone db db' \<Longrightarrow> ok_kept db db'"
  by (simp add: ok_kept_def gateway_ok_claims bundles_alone_def same_claims_def)

lemma ok_kept_release: "ok_kept db (release_bundle b db)"
proof -
  have "x \<in> pb_id ` set (filter (\<lambda>a. pb_id a \<noteq> k) bs) \<longleftrightarrow> x \<in> pb_id ` set bs \<and> x \<noteq> k" for x k and bs :: "payment_bundle list"
    by auto
  then show ?thesis
    by (auto simp del: set_filter simp: ok_kept_def gateway_ok_def release_bundle_def bundle_known_def list_all_iff
        comp_def distinct_map_filter if_distrib [of lo_id] cong: if_cong split: option.splits)
qed

lemma ok_kept_cleanup: "ok_kept db (snd (cleanupDeadSettlementBundles env m db))"
  unfolding cleanupDeadSettlementBundles_def Let_def snd_conv by (rule keyed.frame_fold) (rule ok_kept_release)

lemma ensure_bundles_alone: "bundles_alone db (snd (ensurePaymentLinkForUnpaidOrder env ge i c db))"
proof -
  have "bundles_alone db (snd (createPaymentLink ge i m db))" for m
    using createPaymentLink_frame [of ge i m db] by (cases "createPaymentLink ge i m db") simp
  then show ?thesis
    by (auto simp: ensurePaymentLinkForUnpaidOrder_def Let_def throwS_def returnS_def intro!: strapped.frame_bindS
        split: option.split)
qed

subsection \<open>The creation of a settlement link\<close>

lemma settlement_claim_shape:
  assumes "settlement_claim env c ids u m db = (Inr b, db1)"
  obtains hit where "hit = (\<lambda>r. lo_id r \<in> set ids \<and> lo_customerId r = c \<and> lo_status r \<noteq> CANCELED
      \<and> lk_posHostedPaymentUrl (gwLinks db (lo_id r)) = None \<and> lo_posPaymentBundleId r = None)"
    "length (filter hit (lgOrders (gwLedger db))) = length ids" "b \<notin> pb_id ` set (gwBundles db)"
    "length (selected_orders db ids) = length ids"
    "db1 = db\<lparr>gwBundles := gwBundles db @ [\<lparr>pb_id = b, pb_driverId = u, pb_totalAmountKd = m, pb_createdAt = now env\<rparr>],
       gwLedger := (gwLedger db)\<lparr>lgOrders := map (\<lambda>r. if hit r then r\<lparr>lo_posPaymentBundleId := Some b\<rparr> else r)
         (lgOrders (gwLedger db))\<rparr>\<rparr>"
proof -
  show ?thesis
    by (rule that [OF refl]) (use assms in \<open>auto simp: settlement_claim_def Let_def throwS_def split: if_splits\<close>)
qed

lemma ok_kept_claim: "ok_kept db (snd (settlement_claim env c ids u m db))"
proof (cases "settlement_claim env c ids u m db")
  case (Pair x db1)
  show ?thesis
  proof (cases x)
    case (Inl e)
    then show ?thesis using Pair by (auto simp: settlement_claim_def Let_def throwS_def split: if_splits)
  next
    case (Inr b)
    from Pair [unfolded Inr] obtain hit where "b \<notin> pb_id ` set (gwBundles db)" "db1 = db\<lparr>gwBundles := gwBundles db @
        [\<lparr>pb_id = b, pb_driverId = u, pb_totalAmountKd = m, pb_createdAt = now env\<rparr>],
       gwLedger := (gwLedger db)\<lparr>lgOrders := map (\<lambda>r. if hit r then r\<lparr>lo_posPaymentBundleId := Some b\<rparr> else r)
         (lgOrders (gwLedger db))\<rparr>\<rparr>"
      by (rule settlement_claim_shape)
    then show ?thesis
      by (auto simp: Pair ok_kept_def gateway_ok_def bundle_known_def list_all_iff comp_def if_distrib [of lo_id]
          cong: if_cong split: option.splits)
  qed
qed

text \<open>Giving up a bundle undoes its claim.\<close>

lemma release_undoes_claim:
  assumes ok: "gateway_ok db" and run: "settlement_claim env c ids u m db = (Inr b, db1)"
  shows "settlement_release ids b db1 = db"
proof -
  obtain hit where hit: "hit = (\<lambda>r. lo_id r \<in> set ids \<and> lo_customerId r = c \<and> lo_status r \<noteq> CANCELED
      \<and> lk_posHostedPaymentUrl (gwLinks db (lo_id r)) = None \<and> lo_posPaymentBundleId r = None)"
    and b: "b \<notin> pb_id ` set (gwBundles db)"
    and db1: "db1 = db\<lparr>gwBundles := gwBundles db @ [\<lparr>pb_id = b, pb_driverId = u, pb_totalAmountKd = m, pb_createdAt = now env\<rparr>],
       gwLedger := (gwLedger db)\<lparr>lgOrders := map (\<lambda>r. if hit r then r\<lparr>lo_posPaymentBundleId := Some b\<rparr> else r)
         (lgOrders (gwLedger db))\<rparr>\<rparr>"
    using run by (rule settlement_claim_shape)
  have bs: "filter (\<lambda>x. pb_id x \<noteq> b) (gwBundles db) = gwBundles db"
    using b by (auto simp: filter_id_conv)
  have "lo_posPaymentBundleId r \<noteq> Some b" if "r \<in> set (lgOrders (gwLedger db))" for r
    using ok that b by (auto simp: gateway_ok_def list_all_iff bundle_known_def split: option.splits)
  moreover have "r\<lparr>lo_posPaymentBundleId := None\<rparr> = r" if "hit r" for r
    using that by (cases r) (simp add: hit)
  ultimately have os: "map ((\<lambda>r. if lo_id r \<in> set ids \<and> lo_posPaymentBundleId r = Some b
         then r\<lparr>lo_posPaymentBundleId := None\<rparr> else r) \<circ> (\<lambda>r. if hit r then r\<lparr>lo_posPaymentBundleId := Some b\<rparr> else r))
       (lgOrders (gwLedger db)) = lgOrders (gwLedger db)"
    by (intro map_idI) (auto simp: hit)
  show ?thesis by (simp add: settlement_release_def db1 bs os)
qed

lemma generate_course:
  assumes "generateSettlementLink env ge c invoices u db = (x, db')"
    and "ids = distinct_ids invoices" and "amount = settlement_total env db ids"
  obtains (refused) e where "x = Inl e" "gateway_ok db \<Longrightarrow> db' = db"
  | (created) b db1 link db2 where "settlement_checks env db (js_trim c) ids = Inr ()"
      "settlement_claim env (js_trim c) ids u amount db = (Inr b, db1)"
      "createPaymentLink ge b amount db1 = (Inr link, db2)"
      "db' = settlement_publish (js_trim c) ids b amount link db2"
      "x = Inr \<lparr>sl_bundleId = b, sl_customerId = js_trim c, sl_invoiceIds = ids, sl_totalAmountKd = to_fixed4 amount,
         sl_paymentUrl = fst link, sl_trackId = snd link\<rparr>"
proof (cases "settlement_checks env db (js_trim c) ids")
  case (Inl e)
  then show ?thesis using assms by (intro refused) (auto simp: generateSettlementLink_def Let_def)
next
  case checks: (Inr v)
  obtain y db1 where claim: "settlement_claim env (js_trim c) ids u amount db = (y, db1)" by fastforce
  have run: "(x, db') = bindS (gateway_transaction db (settlement_claim env (js_trim c) ids u amount db))
      (settlement_charge ge (js_trim c) ids amount)"
    using assms checks by (simp add: generateSettlementLink_def Let_def)
  show ?thesis
  proof (cases y)
    case (Inl e)
    then show ?thesis using run by (intro refused) (auto simp: claim gateway_transaction_def)
  next
    case b: (Inr b)
    obtain z db2 where charge: "createPaymentLink ge b amount db1 = (z, db2)" by fastforce
    have charged: "(x, db') = settlement_charge ge (js_trim c) ids amount b db1"
      using run by (simp add: claim gateway_transaction_def b)
    show ?thesis
    proof (cases z)
      case (Inl e)
      then have "db2 = db1" using createPaymentLink_frame(4) [OF charge] by simp
      then have "x = Inl e" "db' = settlement_release ids b db1"
        using charged Inl by (simp_all add: settlement_charge_def charge)
      then show ?thesis using release_undoes_claim [OF _ claim [unfolded b]] by (intro refused) auto
    next
      case (Inr link)
      then show ?thesis
        using charged claim b charge checks by (intro created) (auto simp: settlement_charge_def)
    qed
  qed
qed

lemma ok_kept_generate: "ok_kept db (snd (generateSettlementLink env ge c invoices u db))"
proof -
  obtain x db' where run: "generateSettlementLink env ge c invoices u db = (x, db')" by fastforce
  from run refl refl show ?thesis
  proof (cases rule: generate_course)
    case refused
    then show ?thesis by (simp add: run ok_kept_def)
  next
    case (created b db1 link db2)
    have "ok_kept db db1" using ok_kept_claim created(2) by (metis snd_conv)
    then show ?thesis
      using createPaymentLink_frame [OF created(3)]
      by (simp add: run created(4) ok_kept_def gateway_ok_def settlement_publish_def)
  qed
qed

lemma exec_gateway_ok: "ok_kept db (exec_gateway c db)"
  by (cases c rule: prod_cases3; cases "snd (snd c)")
    (simp_all add: ok_kept_alone check_bundles_alone polling_bundles_alone finalize_paid_bundles_alone
      manual_bundles_alone ensure_bundles_alone ok_kept_generate ok_kept_cleanup)

text \<open>
  C16: the orders and bundles of the gateway stay well formed. Whatever inquiries, polls, callbacks,
  manual confirmations, links and clean-ups run, with any answers of the gateway: the identifiers
  of orders and of bundles stay unique, and the bundle an order points to exists, although bundles
  are created, given up and cleaned away.
\<close>

theorem bundles_well_formed: "gateway_ok db \<Longrightarrow> gateway_ok (run_gateway cmds db)"
  using keyed.frame_fold [of cmds exec_gateway db] exec_gateway_ok by (simp add: ok_kept_def run_gateway_def)

text \<open>
  C17: a settlement link is created for all of its invoices or nothing happens. When the request is
  refused, by a check, by the transaction that takes the invoices, or by the gateway after they
  were taken, the store afterwards is the store before: no invoice stays claimed by a bundle that
  nobody can pay.
\<close>

theorem settlement_all_or_nothing:
  assumes "gateway_ok db" and "generateSettlementLink env ge c invoices u db = (Inl e, db')"
  shows "db' = db"
  using assms(2) refl refl by (cases rule: generate_course) (use assms(1) in simp_all)

subsection \<open>What a settlement link covers\<close>

lemma distinct_distinct_ids [simp]: "distinct (distinct_ids ids)"
  by (simp add: distinct_ids_def)

lemma mapE_units: "mapE f xs = Inr ys \<Longrightarrow> x \<in> set xs \<Longrightarrow> \<exists>y. f x = Inr y"
  by (auto simp: mapE_Inr_list_all2 list_all2_conv_all_nth in_set_conv_nth)

lemma settlement_checks_rows:
  assumes "settlement_checks env db c ids = Inr ()"
  shows "ids \<noteq> []" "length (selected_orders db ids) = length ids"
    "\<And>r. r \<in> set (selected_orders db ids) \<Longrightarrow>
      INVOICE_REMAINING_TOLERANCE_KD < nullish (order_remaining env db (map lo_id (selected_orders db ids)) (lo_id r)) 0"
proof -
  define rem where "rem = order_remaining env db (map lo_id (selected_orders db ids))"
  have c: "ids \<noteq> []" "length (selected_orders db ids) = length ids"
    "\<exists>ys. mapE (settlement_check rem (gwLinks db) c) (selected_orders db ids) = Inr ys"
    using assms by (auto simp: settlement_checks_def Let_def rem_def result_simps split: if_splits prod.splits)
  show "ids \<noteq> []" "length (selected_orders db ids) = length ids" by (rule c)+
  fix r assume "r \<in> set (selected_orders db ids)"
  with c(3) have "\<exists>y. settlement_check rem (gwLinks db) c r = Inr y" by (auto dest: mapE_units)
  then show "INVOICE_REMAINING_TOLERANCE_KD < nullish (rem (lo_id r)) 0"
    by (auto simp: settlement_check_def split: if_splits)
qed

text \<open>All the selected invoices are taken, each exactly once, and nothing else.\<close>

lemma settlement_claim_takes:
  assumes ok: "gateway_ok db" and run: "settlement_claim env c ids u m db = (Inr b, db1)" and d: "distinct ids"
  shows "bundle_orders db1 b = map (\<lambda>r. r\<lparr>lo_posPaymentBundleId := Some b\<rparr>) (selected_orders db ids)"
    "lo_id ` set (selected_orders db ids) = set ids"
    "\<And>r. r \<in> set (selected_orders db ids) \<Longrightarrow> lo_customerId r = c \<and> lo_status r \<noteq> CANCELED"
    "find_bundle db b = None"
    "find_bundle db1 b = Some \<lparr>pb_id = b, pb_driverId = u, pb_totalAmountKd = m, pb_createdAt = now env\<rparr>"
    "gwLedger db1 = rebundle (\<lambda>r. if lo_id r \<in> set ids then Some b else lo_posPaymentBundleId r) (gwLedger db)"
    "gwLinks db1 = gwLinks db"
proof -
  let ?os = "lgOrders (gwLedger db)"
  obtain hit where hit: "hit = (\<lambda>r. lo_id r \<in> set ids \<and> lo_customerId r = c \<and> lo_status r \<noteq> CANCELED
      \<and> lk_posHostedPaymentUrl (gwLinks db (lo_id r)) = None \<and> lo_posPaymentBundleId r = None)"
    and n: "length (filter hit ?os) = length ids" and b: "b \<notin> pb_id ` set (gwBundles db)"
    and rows: "length (selected_orders db ids) = length ids"
    and db1: "db1 = db\<lparr>gwBundles := gwBundles db @ [\<lparr>pb_id = b, pb_driverId = u, pb_totalAmountKd = m, pb_createdAt = now env\<rparr>],
       gwLedger := (gwLedger db)\<lparr>lgOrders := map (\<lambda>r. if hit r then r\<lparr>lo_posPaymentBundleId := Some b\<rparr> else r) ?os\<rparr>\<rparr>"
    using run by (rule settlement_claim_shape)
  have "filter hit (selected_orders db ids) = filter hit ?os"
    by (auto simp: selected_orders_def hit intro: filter_cong)
  then have "length (filter hit (selected_orders db ids)) = length (selected_orders db ids)"
    using n rows by simp
  then have all: "hit r" if "r \<in> set (selected_orders db ids)" for r
    using that length_filter_less [of r "selected_orders db ids" hit] by auto
  then have eq: "hit r \<longleftrightarrow> lo_id r \<in> set ids" if "r \<in> set ?os" for r
    using that by (auto simp: selected_orders_def hit)
  show "lo_customerId r = c \<and> lo_status r \<noteq> CANCELED" if "r \<in> set (selected_orders db ids)" for r
    using all [OF that] by (simp add: hit)
  have fresh: "lo_posPaymentBundleId r \<noteq> Some b" if "r \<in> set ?os" for r
    using ok that b by (auto simp: gateway_ok_def list_all_iff bundle_known_def split: option.splits)
  have os: "map (\<lambda>r. if hit r then r\<lparr>lo_posPaymentBundleId := Some b\<rparr> else r) ?os
      = map (\<lambda>r. if lo_id r \<in> set ids then r\<lparr>lo_posPaymentBundleId := Some b\<rparr> else r) ?os"
    using eq by auto
  have "filter (\<lambda>r. lo_posPaymentBundleId (if lo_id r \<in> set ids then r\<lparr>lo_posPaymentBundleId := Some b\<rparr> else r) = Some b) ?os
      = filter (\<lambda>r. lo_id r \<in> set ids) ?os"
    using fresh by (intro filter_cong) auto
  then show "bundle_orders db1 b = map (\<lambda>r. r\<lparr>lo_posPaymentBundleId := Some b\<rparr>) (selected_orders db ids)"
    unfolding bundle_orders_def db1 selected_orders_def by (simp add: os filter_map comp_def)
  have "distinct (map lo_id (selected_orders db ids))"
    using ok by (simp add: gateway_ok_def selected_orders_def distinct_map_filter)
  then have "card (lo_id ` set (selected_orders db ids)) = card (set ids)"
    using rows d by (metis distinct_card length_map list.set_map)
  then show "lo_id ` set (selected_orders db ids) = set ids"
    by (intro card_subset_eq) (auto simp: selected_orders_def)
  show "find_bundle db b = None" using b by (simp add: find_bundle_def find_row_None)
  then show "find_bundle db1 b = Some \<lparr>pb_id = b, pb_driverId = u, pb_totalAmountKd = m, pb_createdAt = now env\<rparr>"
    by (simp add: db1 find_bundle_def table_simps)
  show "gwLedger db1 = rebundle (\<lambda>r. if lo_id r \<in> set ids then Some b else lo_posPaymentBundleId r) (gwLedger db)"
    by (simp only: db1 gateway_db.simps rebundle_def os) (simp add: rebundle_if)
  show "gwLinks db1 = gwLinks db" by (simp add: db1)
qed

lemma remaining_rebundle:
  assumes "gwLedger db' = rebundle f (gwLedger db)"
  shows "order_remaining env db' ids = order_remaining env db ids"
proof -
  have "order_rows (gwLedger db') = order_rows (gwLedger db)"
    by (simp add: assms rebundle_def order_rows_def comp_def)
  moreover have "line_on (gwLedger db') = line_on (gwLedger db)"
    by (simp add: assms rebundle_def line_on_def code_of_account_def fun_eq_iff)
  then have "journal_net_by_order (gwLedger db') xs = journal_net_by_order (gwLedger db) xs"
    "credit_by_customer (gwLedger db') xs = credit_by_customer (gwLedger db) xs" for xs
    by (simp_all add: journal_net_by_order_def credit_by_customer_def find_lines_def) (simp_all add: assms rebundle_def)
  ultimately show ?thesis
    by (simp only: order_remaining_def computeOrderRemainingBalancesBatch_def)
qed

lemma settlement_course:
  assumes ok: "gateway_ok db" and run: "generateSettlementLink env ge c invoices u db = (Inr l, db')"
  obtains b ids where "b = sl_bundleId l" "ids = sl_invoiceIds l" "ids = distinct_ids invoices" "ids \<noteq> []"
    "find_bundle db b = None" "find_bundle db' b = Some \<lparr>pb_id = b, pb_driverId = u,
        pb_totalAmountKd = settlement_total env db ids, pb_createdAt = now env\<rparr>"
    "gwLedger db' = rebundle (\<lambda>r. if lo_id r \<in> set ids then Some b else lo_posPaymentBundleId r) (gwLedger db)"
    "bundle_orders db' b = map (\<lambda>r. r\<lparr>lo_posPaymentBundleId := Some b\<rparr>) (selected_orders db ids)"
    "lo_id ` set (selected_orders db ids) = set ids"
    "\<And>r. r \<in> set (selected_orders db ids) \<Longrightarrow> lo_customerId r = js_trim c \<and> lo_status r \<noteq> CANCELED
      \<and> lk_posHostedPaymentUrl (gwLinks db' (lo_id r)) = Some (sl_paymentUrl l)
      \<and> lk_posGatewayTrackId (gwLinks db' (lo_id r)) = sl_trackId l
      \<and> INVOICE_REMAINING_TOLERANCE_KD < nullish (order_remaining env db (map lo_id (selected_orders db ids)) (lo_id r)) 0"
    "\<And>i. i \<notin> set ids \<Longrightarrow> gwLinks db' i = gwLinks db i"
  using run refl refl
proof (cases rule: generate_course)
  case (created b db1 link db2)
  define ids where "ids = distinct_ids invoices"
  note takes = settlement_claim_takes [OF ok created(2) distinct_distinct_ids, folded ids_def]
  note fr = createPaymentLink_frame [OF created(3)]
  have l: "sl_bundleId l = b" "sl_invoiceIds l = ids" "sl_paymentUrl l = fst link" "sl_trackId l = snd link"
    using created(5) by (simp_all add: ids_def)
  have st: "gwLedger db' = gwLedger db1" "gwBundles db' = gwBundles db1"
    by (simp_all add: created(4) settlement_publish_def fr)
  have links: "lk_posHostedPaymentUrl (gwLinks db' (lo_id r)) = Some (fst link)
      \<and> lk_posGatewayTrackId (gwLinks db' (lo_id r)) = snd link" if r: "r \<in> set (selected_orders db ids)" for r
  proof -
    have "distinct (map lo_id (lgOrders (gwLedger db)))" "r \<in> set (lgOrders (gwLedger db))" "lo_id r \<in> set ids"
      using ok r by (auto simp: gateway_ok_def selected_orders_def)
    moreover from this(1,2) have "find_ledger_order (gwLedger db) (lo_id r) = Some r"
      by (rule find_row_distinct)
    ultimately have "find_order db2 (lo_id r) = Some (r\<lparr>lo_posPaymentBundleId := Some b\<rparr>)"
      by (simp add: find_order_def fr takes(6) rebundle_def find_row_map)
    with \<open>lo_id r \<in> set ids\<close> show ?thesis by (simp add: created(4) settlement_publish_def ids_def [symmetric])
  qed
  show ?thesis
  proof (rule that [of b ids])
    fix r assume r: "r \<in> set (selected_orders db ids)"
    show "lo_customerId r = js_trim c \<and> lo_status r \<noteq> CANCELED
      \<and> lk_posHostedPaymentUrl (gwLinks db' (lo_id r)) = Some (sl_paymentUrl l)
      \<and> lk_posGatewayTrackId (gwLinks db' (lo_id r)) = sl_trackId l
      \<and> INVOICE_REMAINING_TOLERANCE_KD < nullish (order_remaining env db (map lo_id (selected_orders db ids)) (lo_id r)) 0"
      using takes(3) [OF r] links [OF r] settlement_checks_rows(3) [OF created(1) [folded ids_def] r] by (simp add: l)
  next
    fix i assume "i \<notin> set ids"
    then show "gwLinks db' i = gwLinks db i"
      by (simp add: created(4) settlement_publish_def ids_def [symmetric] fr takes(7))
  qed (use takes settlement_checks_rows(1) [OF created(1)] st in
      \<open>simp_all add: l ids_def find_bundle_def bundle_orders_def\<close>)
qed simp

text \<open>
  What a settlement link covers. A created link belongs to a bundle that did not exist before
  and whose amount is the sum of what the selected invoices still owe. The orders of the bundle are
  exactly the requested invoices, in their table order, all of the given customer, none canceled,
  each owing more than the tolerance, and each carries the payment URL and the inquiry identifier
  of the link; no other link is touched.
\<close>

theorem settlement_link_covers:
  assumes "gateway_ok db" and "generateSettlementLink env ge c invoices u db = (Inr l, db')"
    and rows: "rows = selected_orders db (sl_invoiceIds l)" and rem: "rem = order_remaining env db (map lo_id rows)"
  shows "sl_invoiceIds l = distinct_ids invoices \<and> find_bundle db (sl_bundleId l) = None
    \<and> map_option pb_totalAmountKd (find_bundle db' (sl_bundleId l)) = Some (\<Sum>r\<leftarrow>rows. nullish (rem (lo_id r)) 0)
    \<and> map lo_id (bundle_orders db' (sl_bundleId l)) = map lo_id rows \<and> lo_id ` set rows = set (sl_invoiceIds l)
    \<and> list_all (\<lambda>r. lo_customerId r = js_trim c \<and> lo_status r \<noteq> CANCELED
        \<and> INVOICE_REMAINING_TOLERANCE_KD < nullish (rem (lo_id r)) 0
        \<and> lk_posHostedPaymentUrl (gwLinks db' (lo_id r)) = Some (sl_paymentUrl l)
        \<and> lk_posGatewayTrackId (gwLinks db' (lo_id r)) = sl_trackId l) rows
    \<and> (\<forall>i. i \<notin> set (sl_invoiceIds l) \<longrightarrow> gwLinks db' i = gwLinks db i)"
  using assms(1,2)
  by (rule settlement_course) (auto simp: rows rem settlement_total_def Let_def list_all_iff comp_def)

subsection \<open>Payments for invoices completed on account\<close>

definition about :: "uuid \<Rightarrow> env \<times> gateway_env \<times> gateway_command \<Rightarrow> bool" where
  "about i c \<longleftrightarrow> (case snd (snd c) of Inquire t ex src \<Rightarrow> ex = Some i | PollLink j t \<Rightarrow> j = i
     | TrustedCallback j md \<Rightarrow> j = i | _ \<Rightarrow> False)"

definition books_same :: "gateway_db \<Rightarrow> gateway_db \<Rightarrow> bool" where
  "books_same db db' \<longleftrightarrow> gwLedger db' = gwLedger db \<and> gwBundles db' = gwBundles db \<and> gwLinks db' = gwLinks db"

interpretation still: frame books_same
  by unfold_locales (auto simp: books_same_def)

lemma books_same_paid: "books_same db db' \<Longrightarrow> isGatewayReferencePaid db' b \<longleftrightarrow> isGatewayReferencePaid db b"
  by (simp add: books_same_def isGatewayReferencePaid_def find_order_def find_bundle_def bundle_orders_def
      cong: option.case_cong)

lemma paid_each_idle:
  assumes "list_all (\<lambda>i. \<exists>r. find_order db i = Some r \<and> order_paid r) ids"
  shows "snd (finalize_each env md ids db) = db"
  using assms
proof (induction ids)
  case (Cons i ids)
  then obtain r where r: "find_order db i = Some r" "order_paid r" by auto
  then have "finalizeSinglePaidOrderFromGateway env i md db = (Inr False, db)"
    by (simp add: finalizeSinglePaidOrderFromGateway_def finalizeSingle_tx_def gateway_transaction_def)
  then show ?case
    using Cons by (cases "finalize_each env md ids db"; cases "fst (finalize_each env md ids db)") (simp_all add: returnS_def)
qed simp

lemma paid_bundle_idle:
  assumes ok: "gateway_ok db" and paid: "isGatewayReferencePaid db b" and b: "find_order db b = None"
  shows "snd (finalizePaidOrderFromGateway env b md db) = db"
proof -
  have all: "list_all order_paid (bundle_orders db b)"
    using paid b by (simp add: isGatewayReferencePaid_def)
  have "find_order db (lo_id r) = Some r" if "r \<in> set (bundle_orders db b)" for r
    using ok that find_row_distinct [of lo_id "lgOrders (gwLedger db)" r]
    by (simp add: gateway_ok_def bundle_orders_def find_order_def)
  with all have "list_all (\<lambda>i. \<exists>r. find_order db i = Some r \<and> order_paid r) (pending_of_bundle db b)"
    by (auto simp: pending_of_bundle_def list_all_iff)
  then show ?thesis
    by (simp add: finalizePaidOrderFromGateway_def paid_each_idle)
      (simp add: finalizeSinglePaidOrderFromGateway_def finalizeSingle_tx_def gateway_transaction_def throwS_def b)
qed

lemma paid_inquiry_idle:
  assumes "isGatewayReferencePaid db b" "b \<noteq> []"
  shows "checkPaymentStatus env ge t (Some b) src db
    = (Inr (isValidUpaymentsPaymentStatusInquiryId (js_trim t), None), db)"
  using assms by (simp add: checkPaymentStatus_def str_truthy_def)

lemma paid_reference_idle:
  assumes ok: "gateway_ok db" and paid: "isGatewayReferencePaid db b" and b: "find_order db b = None" "b \<noteq> []"
    and c: "about b c"
  shows "books_same db (exec_gateway c db)"
proof -
  have p: "polling_attempts xs n b t db = db" for xs n t
    using paid by (cases "(xs, n, b, t, db)" rule: polling_attempts.cases) auto
  show ?thesis
    using c paid_inquiry_idle [OF paid b(2)] paid_bundle_idle [OF ok paid b(1)]
    by (cases c rule: prod_cases3; cases "snd (snd c)")
      (auto simp: about_def books_same_def polling_run_def Let_def p)
qed

lemma paid_reference_history:
  assumes "gateway_ok db" "isGatewayReferencePaid db b" "find_order db b = None" "b \<noteq> []" "list_all (about b) cmds"
  shows "books_same db (run_gateway cmds db)"
  using assms(5)
proof (induction cmds rule: rev_induct)
  case (snoc c cmds)
  then have s: "books_same db (run_gateway cmds db)" by simp
  then have "gateway_ok (run_gateway cmds db)" "isGatewayReferencePaid (run_gateway cmds db) b"
    "find_order (run_gateway cmds db) b = None"
    using assms books_same_paid [OF s] by (simp_all add: books_same_def gateway_ok_def find_order_def)
  from still.frame_trans [OF s paid_reference_idle [OF this assms(4)]] show ?case
    using snoc.prems by (simp add: run_gateway_def)
qed (simp add: run_gateway_def)

text \<open>
  C18: a payment for invoices that were completed on account is reported as done and never booked.
  Let a settlement link be created for invoices that are all completed or settled (the debts of
  the call center are such invoices) and still owe. Whatever inquiries, polls and trusted callbacks
  arrive for the link, with whatever answers of the gateway: no row of the ledger changes, every
  invoice owes as much as before, and each inquiry with a valid identifier answers that the payment
  is finalised.
\<close>

theorem settled_debt_payment_dropped:
  assumes ok: "gateway_ok db" and run: "generateSettlementLink env ge c invoices u db = (Inr l, db1)"
    and paid: "list_all order_paid (selected_orders db (sl_invoiceIds l))"
    and b: "find_order db (sl_bundleId l) = None" "sl_bundleId l \<noteq> []"
    and about: "list_all (about (sl_bundleId l)) cmds"
  shows "gwLedger (run_gateway cmds db1) = gwLedger db1
    \<and> list_all (\<lambda>r. INVOICE_REMAINING_TOLERANCE_KD < nullish (order_remaining env (run_gateway cmds db1)
        (map lo_id (selected_orders db (sl_invoiceIds l))) (lo_id r)) 0) (selected_orders db (sl_invoiceIds l))
    \<and> fst (checkPaymentStatus env' ge' t (Some (sl_bundleId l)) src (run_gateway cmds db1))
      = Inr (isValidUpaymentsPaymentStatusInquiryId (js_trim t), None)"
proof -
  from ok run obtain ids where ids: "ids = sl_invoiceIds l" "ids \<noteq> []"
      "find_bundle db1 (sl_bundleId l) \<noteq> None"
      "gwLedger db1 = rebundle (\<lambda>r. if lo_id r \<in> set ids then Some (sl_bundleId l) else lo_posPaymentBundleId r) (gwLedger db)"
      "bundle_orders db1 (sl_bundleId l)
        = map (\<lambda>r. r\<lparr>lo_posPaymentBundleId := Some (sl_bundleId l)\<rparr>) (selected_orders db ids)"
      "lo_id ` set (selected_orders db ids) = set ids"
      "\<And>r. r \<in> set (selected_orders db ids) \<Longrightarrow> INVOICE_REMAINING_TOLERANCE_KD
        < nullish (order_remaining env db (map lo_id (selected_orders db ids)) (lo_id r)) 0"
    by (rule settlement_course) auto
  have none: "find_order db1 (sl_bundleId l) = None"
    using b(1) by (simp add: ids(4) find_order_def rebundle_def find_row_map)
  have ref: "isGatewayReferencePaid db1 (sl_bundleId l)"
    using paid ids(2,3,6) by (auto simp: isGatewayReferencePaid_def none ids(1,5) list_all_iff order_paid_def)
  have ok1: "gateway_ok db1" using ok_kept_generate [of db env ge c invoices u] ok run by (simp add: ok_kept_def)
  have s: "books_same db1 (run_gateway cmds db1)"
    by (rule paid_reference_history [OF ok1 ref none b(2) about])
  then have l: "gwLedger (run_gateway cmds db1) = gwLedger db1" by (simp add: books_same_def)
  have "isGatewayReferencePaid (run_gateway cmds db1) (sl_bundleId l)"
    using ref books_same_paid [OF s] by simp
  from paid_inquiry_idle [OF this b(2)] show ?thesis
    using ids(7) by (simp add: l list_all_iff ids(1) remaining_rebundle [OF l [unfolded ids(4)]])
qed

subsection \<open>Examples\<close>

text \<open>An order on account of which 5 KD are open, a gateway that gives a link and one that does not.\<close>

definition debt_gateway :: gateway_db where
  "debt_gateway = example_gateway\<lparr>gwLedger := collected_ledger\<rparr>"

definition broken_gate :: gateway_env where
  "broken_gate = example_gate\<lparr>ge_charge := (\<lambda>i a. Inl (Error ''no answer''))\<rparr>"

definition example_link :: settlement_link where
  "example_link = \<lparr>sl_bundleId = ''row-0'', sl_customerId = ''c1'', sl_invoiceIds = [''o1''],
     sl_totalAmountKd = ''5.0000'', sl_paymentUrl = ''https://pay/row-0'', sl_trackId = Some ''track-row-0''\<rparr>"

lemma example_link_created:
  "fst (generateSettlementLink final_env example_gate '' c1 '' [''o1'', '' '', ''o1 ''] ''u1'' debt_gateway) = Inr example_link"
  "fst (generateSettlementLink final_env broken_gate ''c1'' [''o1''] ''u1'' debt_gateway) = Inl (Error ''no answer'')"
  by code_simp+

lemma example_gateways_ok: "gateway_ok example_gateway" "gateway_ok debt_gateway"
  by code_simp+

theorem bundles_well_formed_witness:
  "gateway_ok (run_gateway [(final_env, example_gate, OfferSettlement ''c1'' [''o1''] ''u1''),
     (final_env, broken_gate, OfferSettlement ''c1'' [''o1''] ''u1''), (final_env, example_gate, CleanUp 60)] debt_gateway)"
  by (rule bundles_well_formed [OF example_gateways_ok(2)])

theorem settlement_all_or_nothing_witness:
  "generateSettlementLink final_env broken_gate ''c1'' [''o1''] ''u1'' debt_gateway = (Inl (Error ''no answer''), debt_gateway)"
proof (cases "generateSettlementLink final_env broken_gate ''c1'' [''o1''] ''u1'' debt_gateway")
  case (Pair x db')
  with example_link_created(2) have run: "generateSettlementLink final_env broken_gate ''c1'' [''o1''] ''u1'' debt_gateway
      = (Inl (Error ''no answer''), db')" by simp
  from settlement_all_or_nothing [OF example_gateways_ok(2) run] run show ?thesis by simp
qed

lemma example_link_run:
  obtains db' where
    "generateSettlementLink final_env example_gate '' c1 '' [''o1'', '' '', ''o1 ''] ''u1'' debt_gateway = (Inr example_link, db')"
  using example_link_created(1)
  by (cases "generateSettlementLink final_env example_gate '' c1 '' [''o1'', '' '', ''o1 ''] ''u1'' debt_gateway") simp

theorem settlement_link_covers_witness:
  "\<exists>db'. generateSettlementLink final_env example_gate '' c1 '' [''o1'', '' '', ''o1 ''] ''u1'' debt_gateway
       = (Inr example_link, db') \<and> find_bundle db' ''row-0'' \<noteq> None \<and> set [''o1''] = lo_id ` set (selected_orders debt_gateway [''o1''])"
proof -
  obtain db' where run: "generateSettlementLink final_env example_gate '' c1 '' [''o1'', '' '', ''o1 ''] ''u1'' debt_gateway
      = (Inr example_link, db')" by (rule example_link_run)
  note covers = settlement_link_covers [OF example_gateways_ok(2) run refl refl, THEN conjunct2, THEN conjunct2]
  have "find_bundle db' ''row-0'' \<noteq> None" using covers [THEN conjunct1] by (auto simp: example_link_def)
  moreover have "lo_id ` set (selected_orders debt_gateway [''o1'']) = set [''o1'']"
    using covers [THEN conjunct2, THEN conjunct2, THEN conjunct1] by (simp add: example_link_def)
  ultimately show ?thesis using run by blast
qed

lemma debt_gateway_facts:
  "list_all order_paid (selected_orders debt_gateway [''o1''])" "find_order debt_gateway ''row-0'' = None"
  "isValidUpaymentsPaymentStatusInquiryId (js_trim ''track-row-0'')"
  by code_simp+

theorem settled_debt_payment_dropped_witness:
  "\<exists>db'. generateSettlementLink final_env example_gate '' c1 '' [''o1'', '' '', ''o1 ''] ''u1'' debt_gateway
       = (Inr example_link, db')
     \<and> gwLedger (run_gateway [(final_env, example_gate, Inquire ''track-row-0'' (Some ''row-0'') ''CALLBACK'')] db') = gwLedger db'
     \<and> fst (checkPaymentStatus final_env example_gate ''track-row-0'' (Some ''row-0'') ''CALLBACK''
         (run_gateway [(final_env, example_gate, Inquire ''track-row-0'' (Some ''row-0'') ''CALLBACK'')] db')) = Inr (True, None)"
proof -
  obtain db' where run: "generateSettlementLink final_env example_gate '' c1 '' [''o1'', '' '', ''o1 ''] ''u1'' debt_gateway
      = (Inr example_link, db')" by (rule example_link_run)
  have a: "list_all (about (sl_bundleId example_link)) [(final_env, example_gate, Inquire ''track-row-0'' (Some ''row-0'') ''CALLBACK'')]"
    by (simp add: about_def example_link_def)
  from settled_debt_payment_dropped [OF example_gateways_ok(2) run _ _ _ a, of final_env example_gate "''track-row-0''" "''CALLBACK''"]
  show ?thesis using debt_gateway_facts run by (intro exI [of _ db']) (simp add: example_link_def)
qed

end
