(* ===== verification/Payment_Answers.thy ===== *)
theory Payment_Answers
  imports Payment_Laws
begin

text \<open>
  What an answer of the gateway decides: which checks a payment has passed when its order is sold,
  which parts of an answer cannot matter once its result is \<open>CAPTURED\<close>, and which answers are turned
  away although every check before the finalisation let them pass.
\<close>

fun_cases read_reply_cases: "read_reply r = inq"

lemma read_reply_ok:
  assumes "in_ok (read_reply r)"
  obtains st d where "r = Answer True st (Some d)" "st \<noteq> Some False" "in_data (read_reply r) = d"
  using refl [of "read_reply r"] by (rule read_reply_cases) (use assms in \<open>auto simp: inquiry_failed_def\<close>)

lemma settle_paid_count:
  assumes "settle_paid env m u r extra nt db = (Inr (), db')"
  shows "sale_count db' i = sale_count db i + (if i = lo_id r then 1 else 0)"
proof -
  obtain db1 where s: "applyOrderWalletSettlementForCompletedOrder env (lo_id r) u (Some \<lparr>pf_customerId = lo_customerId r,
      pf_totalPrice = lo_totalPrice r, pf_posPaymentMethod = Some m, pf_walletSettledAt = None\<rparr>) (Some extra) db = (Inr (), db1)"
    and d: "db' = snd (sale_rows env u r nt db1)"
    using assms by (auto simp: settle_paid_def result_simps)
  have "sale_count db1 i = sale_count db i"
    using same_sales_count [OF same_sales_settle [of db env "lo_id r" u]] s by (metis snd_conv)
  then show ?thesis by (simp add: d sale_rows_count)
qed

lemma finalize_claim_sales:
  "finalize_claim env i track merged db = (n, db1) \<Longrightarrow> sale_count (gwLedger db1) j = sale_count (gwLedger db) j"
  by (auto simp: finalize_claim_def Let_def update_link_def sale_count_def sales_def split: if_splits)

lemma single_order_course:
  assumes "find_bundle db i = None" and "finalizePaidOrderFromGateway env i md db = (Inr True, db')"
  obtains r where "find_order db i = Some r" "\<not> order_paid r" "\<not> finalize_refused db r md"
    "settled (gwLedger db') i" "sale_count (gwLedger db') i = sale_count (gwLedger db) i + 1"
proof -
  have "finalizeSingle_tx env i md db = (Inr True, db')"
    using assms by (auto simp: finalizePaidOrderFromGateway_def finalizeSinglePaidOrderFromGateway_def
        gateway_transaction_def split: sum.splits)
  then show ?thesis
  proof (cases rule: finalize_course)
    case (finalised r u extra nt n db1)
    have id: "lo_id r = i" using find_row_id [OF finalised(2) [unfolded find_order_def]] by simp
    have "\<not> settled (gwLedger db1) (lo_id r)"
      using finalize_claim_ledger(2) [OF finalised(6,2,3)] by (simp add: id)
    then have "settled (gwLedger db') i" using settle_paid_once(2) [OF finalised(7)] by (simp add: id)
    moreover have "sale_count (gwLedger db') i = sale_count (gwLedger db) i + 1"
      using settle_paid_count [OF finalised(7), of i] finalize_claim_sales [OF finalised(6)] by (simp add: id)
    ultimately show ?thesis using finalised that by blast
  qed simp
qed

text \<open>
  C14: a payment that is not reported as captured is checked before the order is sold. When an
  inquiry for an unpaid order returns that it is finalised, and the gateway's result is not
  exactly \<open>CAPTURED\<close>, then the gateway answered positively with a status that counts as success,
  its amount reads, in thousandths, as the price of the order, its currency is blank or KWD, the
  inquiry identifier is the stored one when one is stored, and the order is settled with exactly
  one new sale.
\<close>

theorem payment_checked:
  assumes order: "find_order db i = Some r" "\<not> order_paid r" and single: "find_bundle db i = None" "i \<noteq> []"
    and run: "checkPaymentStatus env ge t (Some i) src db = (Inr (True, res), db')" and res: "res \<noteq> Some ''CAPTURED''"
  shows "\<exists>st d. ge_inquire ge (js_trim (js_trim t)) = Answer True st (Some d) \<and> st \<noteq> Some False \<and> iq_result d = res
    \<and> normalizeCallbackStatus (nullish res []) \<and> \<not> wrong_amount (iq_amount d) (lo_totalPrice r)
    \<and> \<not> foreign_currency (nullish (map_option (\<lambda>c. to_upper (js_trim c)) (iq_currency d)) [])
    \<and> \<not> track_clash (js_trim (nullish (lk_posGatewayTrackId (gwLinks db i)) [])) (js_trim t)
    \<and> settled (gwLedger db') i \<and> sale_count (gwLedger db') i = sale_count (gwLedger db) i + 1"
proof -
  define reply where "reply = ge_inquire ge (js_trim (js_trim t))"
  have unpaid: "\<not> isGatewayReferencePaid db i" using order by (simp add: isGatewayReferencePaid_def)
  have ref: "getGatewayReferenceForFinalize db i = Some \<lparr>gr_id = i, gr_amount = lo_totalPrice r,
      gr_trackId = lk_posGatewayTrackId (gwLinks db i), gr_isPaid = False\<rparr>"
    using order find_row_id [OF order(1) [unfolded find_order_def]] by (simp add: getGatewayReferenceForFinalize_def)
  have fetched: "fetchGatewayStatus ge (js_trim t) = Inr (read_reply reply)" "in_ok (read_reply reply)"
    "check_answer env (js_trim t) (Some i) src (in_data (read_reply reply)) db = (Inr (True, res), db')"
    using run unpaid single(2)
    by (auto simp: checkPaymentStatus_def fetchGatewayStatus_def str_truthy_def throwS_def reply_def inquiry_failed_def
        split: if_splits)
  obtain st d where d: "reply = Answer True st (Some d)" "st \<noteq> Some False" "in_data (read_reply reply) = d"
    using fetched(2) by (rule read_reply_ok)
  define cur where "cur = (case iq_currency d of None \<Rightarrow> [] | Some c \<Rightarrow> to_upper (js_trim c))"
  have go: "iq_result d = res" "normalizeCallbackStatus (nullish res [])"
    "capture_refused (js_trim t) d \<lparr>gr_id = i, gr_amount = lo_totalPrice r,
      gr_trackId = lk_posGatewayTrackId (gwLinks db i), gr_isPaid = False\<rparr> = None"
    "finalizePaidOrderFromGateway env i (Some (inquiry_metadata (js_trim t) src d)) db = (Inr True, db')"
    using fetched(3) single(2) ref unfolding d(3)
    by (auto simp: check_answer_def check_reference_def str_truthy_def result_simps returnS_def split: if_splits option.splits)
  have checks: "\<not> wrong_amount (iq_amount d) (lo_totalPrice r)" "\<not> foreign_currency cur"
    "\<not> track_clash (js_trim (nullish (lk_posGatewayTrackId (gwLinks db i)) [])) (js_trim t)"
    using go(1,3) res by (auto simp: capture_refused_def cur_def split: if_splits)
  have "nullish (map_option (\<lambda>c. to_upper (js_trim c)) (iq_currency d)) [] = cur"
    by (simp add: cur_def split: option.split)
  moreover from single_order_course [OF single(1) go(4)]
  have "settled (gwLedger db') i \<and> sale_count (gwLedger db') i = sale_count (gwLedger db) i + 1" by metis
  ultimately show ?thesis using d(1,2) go(1,2) checks unfolding reply_def by auto
qed

subsection \<open>Answers reported as captured\<close>

text \<open>Two stores that differ in the metadata of the links at most.\<close>

definition alike :: "gateway_db \<Rightarrow> gateway_db \<Rightarrow> bool" where
  "alike db db' \<longleftrightarrow> gwLedger db' = gwLedger db \<and> gwBundles db' = gwBundles db
     \<and> (\<forall>i. lk_posGatewayTrackId (gwLinks db' i) = lk_posGatewayTrackId (gwLinks db i))"

definition alike_run :: "'a result \<times> gateway_db \<Rightarrow> 'a result \<times> gateway_db \<Rightarrow> bool" where
  "alike_run m m' \<longleftrightarrow> fst m' = fst m \<and> alike (snd m) (snd m')"

lemma alike_bind:
  assumes "alike_run m m'" and "\<And>x t t'. alike t t' \<Longrightarrow> alike_run (f x t) (g x t')"
  shows "alike_run (bindS m f) (bindS m' g)"
  using assms by (cases m; cases m'; cases "fst m") (auto simp: alike_run_def)

lemma alike_returns [simp]: "alike db db' \<Longrightarrow> alike_run (returnS x db) (returnS x db')"
  "alike db db' \<Longrightarrow> alike_run (throwS e db) (throwS e db')" "alike_run (r, db) (r, db') \<longleftrightarrow> alike db db'"
  by (simp_all add: alike_run_def returnS_def throwS_def)

lemma alike_ledger: "alike db db' \<Longrightarrow> alike_run (on_ledger f db) (on_ledger f db')"
  by (auto simp: on_ledger_def alike_run_def alike_def split: prod.split)

lemma alike_find: "alike db db' \<Longrightarrow> find_order db' = find_order db \<and> find_bundle db' = find_bundle db
    \<and> bundle_orders db' = bundle_orders db"
  by (auto simp: alike_def find_order_def find_bundle_def bundle_orders_def fun_eq_iff)

lemma alike_single:
  assumes a: "alike db db'" and same: "extractTrackIdFromFinalizeGatewayMetadata md' = extractTrackIdFromFinalizeGatewayMetadata md"
    and cap: "isCapturedFinalizeMetadata md" "isCapturedFinalizeMetadata md'"
  shows "alike_run (finalizeSinglePaidOrderFromGateway env i md db) (finalizeSinglePaidOrderFromGateway env i md' db')"
proof -
  note fnd = alike_find [OF a]
  have writes: "alike_run (finalize_writes env r k t) (finalize_writes env r k t')" if "alike t t'" for r k t t'
    using that by (auto simp: finalize_writes_def alike_def [of t] intro!: alike_bind [OF alike_ledger] split: option.split)
  have claim: "\<exists>t'. finalize_claim env i k m' db' = (n, t') \<and> alike t t'"
    if "finalize_claim env i k m db = (n, t)" for k m m' n t
    using a that by (auto simp: finalize_claim_def Let_def alike_def update_link_def split: if_splits option.splits)
  have "alike_run (finalize_pending env r md k db) (finalize_pending env r md' k db')" if id: "lo_id r = i" for r k
  proof -
    obtain n t where c: "finalize_claim env i k (mergeGatewayMetadata (lk_posGatewayMetadata (gwLinks db i)) md) db = (n, t)"
      by fastforce
    from claim [OF this, of "mergeGatewayMetadata (lk_posGatewayMetadata (gwLinks db' i)) md'"]
    obtain t' where c': "finalize_claim env i k (mergeGatewayMetadata (lk_posGatewayMetadata (gwLinks db' i)) md') db' = (n, t')"
      and t: "alike t t'" by blast
    have "(case k of Some x \<Rightarrow> Some x | None \<Rightarrow> lk_posGatewayTrackId (gwLinks db' i))
        = (case k of Some x \<Rightarrow> Some x | None \<Rightarrow> lk_posGatewayTrackId (gwLinks db i))"
      using a by (simp add: alike_def split: option.split)
    then show ?thesis unfolding finalize_pending_def id c c' by (simp add: t writes)
  qed
  then have "alike_run (finalizeSingle_tx env i md db) (finalizeSingle_tx env i md' db')"
    using a cap find_row_id [of lo_id "lgOrders (gwLedger db)" i]
    by (auto simp: finalizeSingle_tx_def fnd finalize_refused_def same find_order_def split: option.split)
  then show ?thesis
    using a by (auto simp: finalizeSinglePaidOrderFromGateway_def gateway_transaction_def alike_run_def split: sum.split)
qed

lemma alike_paid:
  assumes a: "alike db db'" and same: "extractTrackIdFromFinalizeGatewayMetadata md' = extractTrackIdFromFinalizeGatewayMetadata md"
    and cap: "isCapturedFinalizeMetadata md" "isCapturedFinalizeMetadata md'"
  shows "alike_run (finalizePaidOrderFromGateway env i md db) (finalizePaidOrderFromGateway env i md' db')"
proof -
  have "alike_run (finalize_each env md ids t) (finalize_each env md' ids t')" if "alike t t'" for ids t t'
    using that
    by (induction ids arbitrary: t t') (auto intro!: alike_bind alike_single [OF _ same cap])
  then show ?thesis
    using a alike_find [OF a] alike_single [OF a same cap]
    by (simp add: finalizePaidOrderFromGateway_def pending_of_bundle_def)
qed

lemma first_some_cong: "(\<And>k. k \<in> set ks \<Longrightarrow> f k = g k) \<Longrightarrow> first_some f ks = first_some g ks"
  by (induction ks) (auto split: option.split)

lemma extract_track_cong:
  assumes "tryParseTrackIdFromRecord (JObject m') = tryParseTrackIdFromRecord (JObject m)"
    and "map_of m' ''callback'' = map_of m ''callback''" "map_of m' ''trackId'' = map_of m ''trackId''"
    "map_of m' ''TrackID'' = map_of m ''TrackID''"
  shows "extractTrackIdFromFinalizeGatewayMetadata (Some (JObject m'))
    = extractTrackIdFromFinalizeGatewayMetadata (Some (JObject m))"
  by (simp only: extractTrackIdFromFinalizeGatewayMetadata_def json_fields.simps Let_def assms)

lemma extract_track_found:
  assumes "tryParseTrackIdFromRecord (JObject m) = Some x" "isValidUpaymentsPaymentStatusInquiryId x" "js_trim x = x"
  shows "extractTrackIdFromFinalizeGatewayMetadata (Some (JObject m)) = Some x"
  using assms by (simp add: extractTrackIdFromFinalizeGatewayMetadata_def Let_def)

lemma js_trim_idem [simp]: "js_trim (js_trim s) = js_trim s"
proof -
  define u where "u = dropWhile is_ws s"
  define v where "v = rev (dropWhile is_ws (rev u))"
  have "u = v @ rev (takeWhile is_ws (rev u))"
    by (metis v_def rev_append rev_rev_ident takeWhile_dropWhile_id)
  moreover have "u = [] \<or> \<not> is_ws (hd u)" unfolding u_def using hd_dropWhile by blast
  ultimately have "dropWhile is_ws v = v" by (cases v) (auto, metis hd_append2 list.sel(1) list.simps(3))
  moreover have "dropWhile is_ws (rev v) = rev v" by (simp add: v_def)
  ultimately show ?thesis by (simp add: js_trim_def u_def [symmetric] v_def [symmetric])
qed

lemma inquiry_metadata_track:
  "extractTrackIdFromFinalizeGatewayMetadata (Some (inquiry_metadata t src (d\<lparr>iq_amount := a, iq_currency := c\<rparr>)))
     = extractTrackIdFromFinalizeGatewayMetadata (Some (inquiry_metadata t src d))"
  unfolding inquiry_metadata_def
proof (rule extract_track_cong, goal_cases)
  case 1
  show ?case
    unfolding tryParseTrackIdFromRecord.simps
    by (rule first_some_cong) (auto simp: UPAYMENTS_TRACK_LIKE_KEYS_def track_of_key_def)
qed simp_all

lemma inquiry_metadata_captured:
  "iq_result d = Some ''CAPTURED'' \<Longrightarrow> isCapturedFinalizeMetadata (Some (inquiry_metadata t src d))"
proof -
  have "to_upper (js_trim ''CAPTURED'') = ''CAPTURED''" by code_simp
  then show "iq_result d = Some ''CAPTURED'' \<Longrightarrow> ?thesis"
    by (simp add: isCapturedFinalizeMetadata_def inquiry_metadata_def)
qed

text \<open>
  Once the result is exactly \<open>CAPTURED\<close>, neither the amount nor the currency of the answer
  matters, as the comments of the finalisation demand. Two inquiries whose answers agree in everything else, whatever amount (none, or a
  thousandth of the price) and currency the second one states, return the same result and leave
  the same ledger: the order is sold for its full price in both.
\<close>

theorem captured_amount_ignored:
  assumes "iq_result d = Some ''CAPTURED''"
  shows "fst (checkPaymentStatus env (ge\<lparr>ge_inquire := (\<lambda>_. Answer ok st (Some (d\<lparr>iq_amount := a, iq_currency := c\<rparr>)))\<rparr>)
        t expected src db)
      = fst (checkPaymentStatus env (ge\<lparr>ge_inquire := (\<lambda>_. Answer ok st (Some d))\<rparr>) t expected src db)
    \<and> gwLedger (snd (checkPaymentStatus env (ge\<lparr>ge_inquire := (\<lambda>_. Answer ok st (Some (d\<lparr>iq_amount := a, iq_currency := c\<rparr>)))\<rparr>)
        t expected src db))
      = gwLedger (snd (checkPaymentStatus env (ge\<lparr>ge_inquire := (\<lambda>_. Answer ok st (Some d))\<rparr>) t expected src db))"
proof -
  let ?d = "d\<lparr>iq_amount := a, iq_currency := c\<rparr>"
  have r: "alike db db" by (simp add: alike_def)
  have p: "alike_run (finalizePaidOrderFromGateway env i (Some (inquiry_metadata k src d)) db)
      (finalizePaidOrderFromGateway env i (Some (inquiry_metadata k src ?d)) db)" for i k
    by (rule alike_paid [OF r inquiry_metadata_track]) (simp_all add: inquiry_metadata_captured assms)
  have cap: "capture_refused k d ref = None" "capture_refused k ?d ref = None" for k ref
    by (simp_all add: capture_refused_def assms)
  have "alike_run (check_reference env k src d ref db) (check_reference env k src ?d ref db)" for k ref
    by (auto simp: check_reference_def cap r intro!: alike_bind [OF p])
  moreover have "inquiry_reference db k expected ?d = inquiry_reference db k expected d" for k
    by (simp add: inquiry_reference_def)
  ultimately have "alike_run (check_answer env k expected src d db) (check_answer env k expected src ?d db)" for k
    by (auto simp: check_answer_def r split: option.split)
  then have "alike_run (checkPaymentStatus env (ge\<lparr>ge_inquire := (\<lambda>_. Answer ok st (Some d))\<rparr>) t expected src db)
      (checkPaymentStatus env (ge\<lparr>ge_inquire := (\<lambda>_. Answer ok st (Some ?d))\<rparr>) t expected src db)"
    by (auto simp: checkPaymentStatus_def fetchGatewayStatus_def usePlaceholderGateway_def r inquiry_failed_def split: sum.split)
  then show ?thesis by (simp add: alike_run_def alike_def)
qed


subsection \<open>The transaction identifier of an answer\<close>

lemma metadata_track_is_transaction:
  assumes x: "iq_transactionId d = Some x" "isPlausibleTrackValue (js_trim x) ''tranId''"
  shows "extractTrackIdFromFinalizeGatewayMetadata (Some (inquiry_metadata t src d)) = Some (js_trim x)"
  unfolding inquiry_metadata_def
proof (rule extract_track_found, goal_cases)
  have v: "js_trim x \<noteq> []" using x(2) by (auto simp: isPlausibleTrackValue_def)
  case 1
  show ?case
    using x v by (simp add: UPAYMENTS_TRACK_LIKE_KEYS_def track_of_key_def Let_def)
next
  case 2
  show ?case using x(2) by (auto simp: isValidUpaymentsPaymentStatusInquiryId_def isPlausibleTrackValue_def split: if_splits)
qed simp

lemma transaction_refused:
  assumes d: "iq_transactionId d = Some x" "isPlausibleTrackValue (js_trim x) ''tranId''"
    and stored: "lk_posGatewayTrackId (gwLinks db (lo_id r)) = Some s" "js_trim s \<noteq> []" "js_trim s \<noteq> js_trim x"
    and res: "to_upper (js_trim (nullish (iq_result d) [])) \<noteq> ''CAPTURED''"
  shows "finalize_refused db r (Some (inquiry_metadata t src d))"
proof -
  have "js_trim x \<noteq> []" using d(2) by (auto simp: isPlausibleTrackValue_def)
  moreover obtain m where m: "inquiry_metadata t src d = JObject m" "map_of m ''result'' = Some (json_option (iq_result d))"
    "map_of m ''provider'' = Some (JString ''upayments'')" "map_of m ''devMock'' = None"
    by (simp add: inquiry_metadata_def)
  moreover have "\<not> isCapturedFinalizeMetadata (Some (inquiry_metadata t src d))"
    using res by (cases "iq_result d") (simp_all add: isCapturedFinalizeMetadata_def m)
  ultimately show ?thesis
    using stored metadata_track_is_transaction [OF d, of t src]
    by (simp add: finalize_refused_def validateFinalizeGatewayMetadata_def meta_unchecked_def track_clash_def)
qed

text \<open>
  C19: an answer that carries the gateway's own transaction identifier is turned away. Let an
  unpaid order have a stored inquiry identifier, and let the gateway's answer state a transaction
  identifier of a plausible form that differs from it and a result other than \<open>CAPTURED\<close> (the result
  \<open>AUTHORIZED\<close>, say, which counts as success). The finalisation reads the transaction identifier,
  not the inquiry identifier, as the one to compare, so the inquiry is never finalised and the
  store stays as it is, although amount, currency and inquiry identifier may all be right.
\<close>

theorem transaction_identifier_blocks:
  assumes order: "find_order db i = Some r" "\<not> order_paid r" "lo_status r \<noteq> CANCELED" and single: "find_bundle db i = None" "i \<noteq> []"
    and answer: "fetchGatewayStatus ge (js_trim t) = Inr inq"
    and d: "iq_transactionId (in_data inq) = Some x" "isPlausibleTrackValue (js_trim x) ''tranId''"
    and stored: "lk_posGatewayTrackId (gwLinks db i) = Some s" "js_trim s \<noteq> []" "js_trim s \<noteq> js_trim x"
    and res: "to_upper (js_trim (nullish (iq_result (in_data inq)) [])) \<noteq> ''CAPTURED''"
  shows "\<exists>res. checkPaymentStatus env ge t (Some i) src db = (Inr (False, res), db)"
proof -
  have id: "lo_id r = i" using find_row_id [OF order(1) [unfolded find_order_def]] by simp
  have unpaid: "\<not> isGatewayReferencePaid db i" using order by (simp add: isGatewayReferencePaid_def)
  have "finalize_refused db r (Some (inquiry_metadata k src (in_data inq)))" for k
    by (rule transaction_refused [OF d stored [folded id] res])
  then have "finalizePaidOrderFromGateway env i (Some (inquiry_metadata k src (in_data inq))) db = (Inr False, db)" for k
    using order single(1)
    by (simp add: finalizePaidOrderFromGateway_def finalizeSinglePaidOrderFromGateway_def finalizeSingle_tx_def
        gateway_transaction_def)
  moreover have "getGatewayReferenceForFinalize db i = Some \<lparr>gr_id = i, gr_amount = lo_totalPrice r,
      gr_trackId = lk_posGatewayTrackId (gwLinks db i), gr_isPaid = False\<rparr>"
    using order by (simp add: getGatewayReferenceForFinalize_def id)
  ultimately have "\<exists>res. check_answer env k (Some i) src (in_data inq) db = (Inr (False, res), db)" for k
    using single(2) by (auto simp: check_answer_def check_reference_def str_truthy_def returnS_def split: option.split)
  then show ?thesis
    using unpaid answer single(2) by (auto simp: checkPaymentStatus_def str_truthy_def)
qed

subsection \<open>Examples\<close>

text \<open>An unpaid order with a stored inquiry identifier, and the answers of the gateway about it.\<close>

definition linked_gateway :: gateway_db where
  "linked_gateway = update_link ''o1'' (\<lambda>l. l\<lparr>lk_posGatewayTrackId := Some ''track-o1''\<rparr>) example_gateway"

definition answering :: "inquiry_data \<Rightarrow> gateway_env" where
  "answering d = example_gate\<lparr>ge_inquire := (\<lambda>_. Answer True (Some True) (Some d))\<rparr>"

definition authorized_answer :: inquiry_data where
  "authorized_answer = example_answer\<lparr>iq_result := Some ''AUTHORIZED''\<rparr>"

definition unpaid_order :: ledger_order where
  "unpaid_order = example_ledger_order\<lparr>lo_status := ORDER_PENDING, lo_posPaymentMethod := Some PM_ONLINE\<rparr>"

lemma linked_gateway_facts:
  "find_order linked_gateway ''o1'' = Some unpaid_order" "\<not> order_paid unpaid_order" "lo_status unpaid_order \<noteq> CANCELED"
  "find_bundle linked_gateway ''o1'' = None" "lk_posGatewayTrackId (gwLinks linked_gateway ''o1'') = Some ''track-o1''"
  "fst (checkPaymentStatus example_env (answering authorized_answer) ''track-o1'' (Some ''o1'') ''CALLBACK'' linked_gateway)
    = Inr (True, Some ''AUTHORIZED'')"
  by code_simp+

theorem payment_checked_witness:
  "\<exists>db'. checkPaymentStatus example_env (answering authorized_answer) ''track-o1'' (Some ''o1'') ''CALLBACK'' linked_gateway
       = (Inr (True, Some ''AUTHORIZED''), db') \<and> settled (gwLedger db') ''o1''"
proof -
  obtain db' where run: "checkPaymentStatus example_env (answering authorized_answer) ''track-o1'' (Some ''o1'') ''CALLBACK''
      linked_gateway = (Inr (True, Some ''AUTHORIZED''), db')"
    using linked_gateway_facts(6) by (cases "checkPaymentStatus example_env (answering authorized_answer) ''track-o1''
      (Some ''o1'') ''CALLBACK'' linked_gateway") simp
  from payment_checked [OF linked_gateway_facts(1,2,4) _ run] run show ?thesis by auto
qed


theorem captured_amount_ignored_witness:
  "fst (checkPaymentStatus example_env (answering (example_answer\<lparr>iq_amount := Some (AmountNumber (1 / 1000)), iq_currency := Some ''USD''\<rparr>))
      ''track-o1'' (Some ''o1'') ''CALLBACK'' example_gateway)
    = fst (checkPaymentStatus example_env (answering example_answer) ''track-o1'' (Some ''o1'') ''CALLBACK'' example_gateway)"
proof -
  have "iq_result example_answer = Some ''CAPTURED''" by (simp add: example_answer_def)
  from captured_amount_ignored [OF this, THEN conjunct1] show ?thesis by (simp only: answering_def)
qed

text \<open>The same payment with the gateway's transaction identifier in the answer.\<close>

theorem transaction_identifier_blocks_witness:
  "\<exists>res. checkPaymentStatus example_env (answering (authorized_answer\<lparr>iq_transactionId := Some ''778899001''\<rparr>))
     ''track-o1'' (Some ''o1'') ''CALLBACK'' linked_gateway = (Inr (False, res), linked_gateway)"
proof -
  let ?ge = "answering (authorized_answer\<lparr>iq_transactionId := Some ''778899001''\<rparr>)"
  obtain inq where inq: "fetchGatewayStatus ?ge (js_trim ''track-o1'') = Inr inq"
      "iq_transactionId (in_data inq) = Some ''778899001''" "iq_result (in_data inq) = Some ''AUTHORIZED''"
    by (rule that [of "\<lparr>in_ok = True, in_data = authorized_answer\<lparr>iq_transactionId := Some ''778899001''\<rparr>\<rparr>"]) code_simp+
  have t: "isPlausibleTrackValue (js_trim ''778899001'') ''tranId''" "js_trim ''track-o1'' \<noteq> []"
    "js_trim ''track-o1'' \<noteq> js_trim ''778899001''" "to_upper (js_trim (nullish (Some ''AUTHORIZED'') [])) \<noteq> ''CAPTURED''"
    by code_simp+
  show ?thesis
    by (rule transaction_identifier_blocks [OF linked_gateway_facts(1,2,3,4) _ inq(1,2) t(1) linked_gateway_facts(5) t(2,3)])
      (simp, simp only: inq(3), rule t(4))
qed

end
