(* ===== verification/Purchases.thy ===== *)
theory Purchases
  imports Wallet_Store Clock
begin

text \<open>
  Purchase orders: \<open>src/purchase-orders/purchase-orders.service.ts\<close> over the inventory service.
  The stock tables are those of \<open>Inventory\<close>; branches that are administrative are kept as a list
  of identifiers beside them. \<open>tz\<close> is the offset of the server's local time from UTC. A delivery
  is received in three parts, as in the source: the checks on what was read, the transaction on the
  purchase order, and after it one stock receipt per delivery line and the transition of the order.
  The names of suppliers, branches and people and the printed amounts of the rows are left out.
\<close>

datatype purchase_order_status = PO_DRAFT | PO_SENT | PO_PARTIALLY_RECEIVED | PO_RECEIVED | PO_CANCELLED

record purchase_order =
  po_id :: uuid
  po_poNumber :: string
  po_supplierId :: uuid
  po_branchId :: uuid
  po_status :: purchase_order_status
  po_totalKd :: decimal
  po_notes :: "string option"
  po_expectedAt :: "timestamp option"
  po_createdById :: uuid
  po_approvedById :: "uuid option"
  po_approvedAt :: "timestamp option"
  po_cancelledAt :: "timestamp option"
  po_cancelledReason :: "string option"
  po_createdAt :: timestamp

record purchase_line =
  pl_id :: uuid
  pl_purchaseOrderId :: uuid
  pl_stockItemId :: uuid
  pl_quantityOrdered :: decimal
  pl_quantityReceived :: decimal
  pl_unitCost :: decimal
  pl_lineTotal :: decimal

record purchase_receipt =
  rc_id :: uuid
  rc_purchaseOrderId :: uuid
  rc_receivedById :: uuid
  rc_note :: "string option"
  rc_createdAt :: timestamp

record purchase_receipt_line =
  rl_id :: uuid
  rl_receiptId :: uuid
  rl_purchaseOrderLineId :: uuid
  rl_stockItemId :: uuid
  rl_quantityReceived :: decimal
  rl_unitCost :: decimal

record purchase_db =
  puStock :: stock_db
  puAdministrative :: "uuid list"
  puOrders :: "purchase_order list"
  puLines :: "purchase_line list"
  puReceipts :: "purchase_receipt list"
  puReceiptLines :: "purchase_receipt_line list"

abbreviation find_po :: "purchase_db \<Rightarrow> uuid \<Rightarrow> purchase_order option" where
  "find_po db \<equiv> find_row po_id (puOrders db)"

definition lines_of :: "purchase_db \<Rightarrow> uuid \<Rightarrow> purchase_line list" where
  "lines_of db i = filter (\<lambda>l. pl_purchaseOrderId l = i) (puLines db)"

definition update_po :: "uuid \<Rightarrow> (purchase_order \<Rightarrow> purchase_order) \<Rightarrow> purchase_db \<Rightarrow> purchase_db" where
  "update_po i f db = db\<lparr>puOrders := update_row po_id i f (puOrders db)\<rparr>"

definition po_status_name :: "purchase_order_status \<Rightarrow> string" where
  "po_status_name s = (case s of PO_DRAFT \<Rightarrow> ''DRAFT'' | PO_SENT \<Rightarrow> ''SENT''
     | PO_PARTIALLY_RECEIVED \<Rightarrow> ''PARTIALLY_RECEIVED'' | PO_RECEIVED \<Rightarrow> ''RECEIVED'' | PO_CANCELLED \<Rightarrow> ''CANCELLED'')"

text \<open>What \<open>findOne\<close> returns of an order, its lines and its receipts.\<close>

record purchase_detail =
  pd_order :: purchase_order
  pd_lineCount :: nat
  pd_receivedRatio :: decimal
  pd_lines :: "purchase_line list"
  pd_receipts :: "(purchase_receipt \<times> purchase_receipt_line list) list"

definition received_ratio :: "purchase_line list \<Rightarrow> decimal" where
  "received_ratio ls = (let ordered = (\<Sum>l\<leftarrow>ls. pl_quantityOrdered l); received = (\<Sum>l\<leftarrow>ls. pl_quantityReceived l)
     in if ordered = 0 then 0 else dec4 (received / ordered))"

definition purchase_findOne :: "purchase_db \<Rightarrow> uuid \<Rightarrow> purchase_detail result" where
  "purchase_findOne db i = (case find_po db i of
       None \<Rightarrow> Inl (NotFoundException ''Purchase order not found'')
     | Some po \<Rightarrow> Inr \<lparr>pd_order = po, pd_lineCount = length (lines_of db i), pd_receivedRatio = received_ratio (lines_of db i),
         pd_lines = lines_of db i,
         pd_receipts = map (\<lambda>r. (r, filter (\<lambda>x. rl_receiptId x = rc_id r) (puReceiptLines db)))
           (sort_key (\<lambda>r. - rc_createdAt r) (filter (\<lambda>r. rc_purchaseOrderId r = i) (puReceipts db)))\<rparr>)"

record purchase_query =
  pq_status :: "purchase_order_status option"
  pq_supplierId :: "uuid option"
  pq_branchId :: "uuid option"
  pq_from :: "timestamp option"
  pq_to :: "timestamp option"
  pq_limit :: "nat option"
  pq_offset :: "nat option"

definition purchase_matches :: "purchase_query \<Rightarrow> purchase_order \<Rightarrow> bool" where
  "purchase_matches q po \<longleftrightarrow> (pq_status q = None \<or> pq_status q = Some (po_status po))
     \<and> (\<not> str_truthy (pq_supplierId q) \<or> pq_supplierId q = Some (po_supplierId po))
     \<and> (\<not> str_truthy (pq_branchId q) \<or> pq_branchId q = Some (po_branchId po))
     \<and> (case pq_from q of None \<Rightarrow> True | Some t \<Rightarrow> t \<le> po_createdAt po)
     \<and> (case pq_to q of None \<Rightarrow> True | Some t \<Rightarrow> po_createdAt po < t)"

definition purchase_list :: "purchase_db \<Rightarrow> purchase_query \<Rightarrow> (purchase_order \<times> nat \<times> decimal) list \<times> nat" where
  "purchase_list db q = (let rows = sort_key (\<lambda>po. - po_createdAt po) (filter (purchase_matches q) (puOrders db)) in
     (map (\<lambda>po. (po, length (lines_of db (po_id po)), received_ratio (lines_of db (po_id po))))
        (take (nullish (pq_limit q) 50) (drop (nullish (pq_offset q) 0) rows)), length rows))"

subsection \<open>Creation\<close>

record create_purchase_line =
  nl_stockItemId :: uuid
  nl_quantityOrdered :: decimal
  nl_unitCost :: decimal

record create_purchase =
  np_supplierId :: uuid
  np_branchId :: uuid
  np_lines :: "create_purchase_line list"
  np_expectedAt :: "timestamp option"
  np_notes :: "string option"

definition assertBranchOperationalForCommerce :: "purchase_db \<Rightarrow> uuid \<Rightarrow> unit result" where
  "assertBranchOperationalForCommerce db b =
     (if find_branch (puStock db) b = None then Inl (NotFoundException ''Branch not found'')
      else if b \<in> set (puAdministrative db)
      then Inl (BadRequestException ''This branch is administrative-only: sales, purchase orders, and POS are disabled.'')
      else Inr ())"

text \<open>The loop over the lines, with the identifiers seen so far.\<close>

fun duplicate_items :: "uuid list \<Rightarrow> create_purchase_line list \<Rightarrow> unit result" where
  "duplicate_items seen [] = Inr ()"
| "duplicate_items seen (l # ls) = (if nl_stockItemId l \<in> set seen
     then Inl (BadRequestException (''Duplicate stock item in lines: '' @ nl_stockItemId l @ ''. Merge into one line.''))
     else duplicate_items (nl_stockItemId l # seen) ls)"

definition check_items :: "purchase_db \<Rightarrow> create_purchase_line list \<Rightarrow> unit result" where
  "check_items db ls = (let items = filter (\<lambda>i. si_id i \<in> nl_stockItemId ` set ls) (stockItems (puStock db)) in
     if length items \<noteq> length ls then Inl (BadRequestException ''One or more stock items not found'')
     else case find (\<lambda>i. \<not> si_isActive i) items of
         Some it \<Rightarrow> Inl (BadRequestException (''Stock item '' @ si_code it @ '' is inactive''))
       | None \<Rightarrow> Inr ())"

definition nextPoNumber :: "int \<Rightarrow> env \<Rightarrow> purchase_db \<Rightarrow> string" where
  "nextPoNumber tz env db =
     (let local = now env + tz; startOfDay = day_of local * MS_PER_DAY - tz;
          count = length (filter (\<lambda>po. startOfDay \<le> po_createdAt po \<and> po_createdAt po < startOfDay + MS_PER_DAY) (puOrders db))
      in ''PO-'' @ show_int (getUTCFullYear local) @ pad_start 2 (CHR ''0'') (show_int (getUTCMonth local + 1))
         @ pad_start 2 (CHR ''0'') (show_int (getUTCDate local)) @ ''-'' @ pad_start 4 (CHR ''0'') (show_nat (count + 1)))"

definition line_total :: "create_purchase_line \<Rightarrow> decimal" where
  "line_total l = nl_quantityOrdered l * nl_unitCost l"

fun create_lines :: "env \<Rightarrow> uuid \<Rightarrow> create_purchase_line list \<Rightarrow> purchase_line list \<Rightarrow> purchase_line list result" where
  "create_lines env po [] ls = Inr ls"
| "create_lines env po (n # ns) ls = (let i = new_uuid env (length ls) in
     if i \<in> pl_id ` set ls then Inl unique_violation
     else create_lines env po ns (ls @ [\<lparr>pl_id = i, pl_purchaseOrderId = po, pl_stockItemId = nl_stockItemId n,
       pl_quantityOrdered = dec4 (nl_quantityOrdered n), pl_quantityReceived = 0, pl_unitCost = dec4 (nl_unitCost n),
       pl_lineTotal = dec4 (line_total n)\<rparr>]))"

definition insert_purchase :: "int \<Rightarrow> env \<Rightarrow> create_purchase \<Rightarrow> uuid \<Rightarrow> purchase_db \<Rightarrow> (uuid \<times> purchase_db) result" where
  "insert_purchase tz env dto userId db =
     (let i = new_uuid env (length (puOrders db)); number = nextPoNumber tz env db in
      if i \<in> po_id ` set (puOrders db) \<or> number \<in> po_poNumber ` set (puOrders db) then Inl unique_violation
      else bindE (create_lines env i (np_lines dto) (puLines db)) (\<lambda>ls.
        Inr (i, db\<lparr>puLines := ls, puOrders := puOrders db @ [\<lparr>po_id = i, po_poNumber = number,
          po_supplierId = np_supplierId dto, po_branchId = np_branchId dto, po_status = PO_DRAFT,
          po_totalKd = dec4 (\<Sum>l\<leftarrow>np_lines dto. line_total l), po_notes = np_notes dto, po_expectedAt = np_expectedAt dto,
          po_createdById = userId, po_approvedById = None, po_approvedAt = None, po_cancelledAt = None,
          po_cancelledReason = None, po_createdAt = now env\<rparr>]\<rparr>)))"

definition check_purchase :: "create_purchase \<Rightarrow> purchase_db \<Rightarrow> unit result" where
  "check_purchase dto db =
     (case find_row su_id (suppliers (puStock db)) (np_supplierId dto) of
        None \<Rightarrow> Inl (NotFoundException ''Supplier not found or inactive'')
      | Some s \<Rightarrow>
          if \<not> su_isActive s then Inl (NotFoundException ''Supplier not found or inactive'')
          else if find_branch (puStock db) (np_branchId dto) = None then Inl (NotFoundException ''Branch not found'')
          else bindE (assertBranchOperationalForCommerce db (np_branchId dto)) (\<lambda>_.
            bindE (duplicate_items [] (np_lines dto)) (\<lambda>_. check_items db (np_lines dto))))"

definition purchase_create :: "int \<Rightarrow> env \<Rightarrow> create_purchase \<Rightarrow> uuid \<Rightarrow> purchase_db \<Rightarrow> purchase_detail result \<times> purchase_db" where
  "purchase_create tz env dto userId db =
     bindS (check_purchase dto db, db) (\<lambda>_ db0.
     bindS (commit db0 (insert_purchase tz env dto userId db0)) (\<lambda>i db1. (purchase_findOne db1 i, db1)))"

subsection \<open>Sending and cancelling\<close>

definition mustFind :: "purchase_db \<Rightarrow> uuid \<Rightarrow> purchase_order result" where
  "mustFind db i = (case find_po db i of None \<Rightarrow> Inl (NotFoundException ''Purchase order not found'') | Some po \<Rightarrow> Inr po)"

definition purchase_send :: "env \<Rightarrow> uuid \<Rightarrow> uuid \<Rightarrow> purchase_db \<Rightarrow> purchase_detail result \<times> purchase_db" where
  "purchase_send env i userId db = bindS (mustFind db i, db) (\<lambda>po db0.
     if po_status po \<noteq> PO_DRAFT
     then throwS (BadRequestException (''PO '' @ po_poNumber po @ '' is '' @ po_status_name (po_status po)
       @ ''; only DRAFT POs can be sent'')) db0
     else let db1 = update_po i (\<lambda>p. p\<lparr>po_status := PO_SENT, po_approvedById := Some userId,
            po_approvedAt := Some (now env)\<rparr>) db0
       in (purchase_findOne db1 i, db1))"

definition purchase_cancel :: "env \<Rightarrow> uuid \<Rightarrow> string option \<Rightarrow> purchase_db \<Rightarrow> purchase_detail result \<times> purchase_db" where
  "purchase_cancel env i reason db = bindS (mustFind db i, db) (\<lambda>po db0.
     if po_status po = PO_RECEIVED \<or> po_status po = PO_CANCELLED
     then throwS (BadRequestException (''PO '' @ po_poNumber po @ '' is '' @ po_status_name (po_status po)
       @ ''; cannot cancel a terminal PO'')) db0
     else if list_ex (\<lambda>l. 0 < pl_quantityReceived l) (lines_of db0 i)
     then throwS (ForbiddenException ''Cannot cancel a PO with already-received lines. Use a stock adjustment.'') db0
     else let db1 = update_po i (\<lambda>p. p\<lparr>po_status := PO_CANCELLED, po_cancelledAt := Some (now env),
            po_cancelledReason := reason\<rparr>) db0
       in (purchase_findOne db1 i, db1))"

subsection \<open>Receiving a delivery\<close>

record delivery_line =
  rd_purchaseOrderLineId :: uuid
  rd_quantityReceived :: decimal
  rd_unitCost :: "decimal option"

record receive_purchase =
  rd_lines :: "delivery_line list"
  rd_note :: "string option"

definition check_delivery :: "purchase_line list \<Rightarrow> delivery_line \<Rightarrow> unit result" where
  "check_delivery lines d = (case find_row pl_id lines (rd_purchaseOrderLineId d) of
       None \<Rightarrow> Inl (BadRequestException (''PO line '' @ rd_purchaseOrderLineId d @ '' does not belong to this PO''))
     | Some l \<Rightarrow>
         if pl_quantityOrdered l < pl_quantityReceived l + rd_quantityReceived d
         then Inl (BadRequestException (''Line over-receive: '' @ to_fixed3 (pl_quantityReceived l + rd_quantityReceived d)
           @ '' > ordered '' @ to_fixed3 (pl_quantityOrdered l)))
         else Inr ())"

text \<open>The order with its lines as they were read, when the delivery is acceptable.\<close>

definition receive_read :: "uuid \<Rightarrow> receive_purchase \<Rightarrow> purchase_db \<Rightarrow> (purchase_order \<times> purchase_line list) result" where
  "receive_read i dto db = bindE (mustFind db i) (\<lambda>po.
     if po_status po \<noteq> PO_SENT \<and> po_status po \<noteq> PO_PARTIALLY_RECEIVED
     then Inl (BadRequestException (''PO '' @ po_poNumber po @ '' is '' @ po_status_name (po_status po)
       @ ''; only SENT / PARTIALLY_RECEIVED POs can receive stock''))
     else bindE (mapE (check_delivery (lines_of db i)) (rd_lines dto)) (\<lambda>_. Inr (po, lines_of db i)))"

text \<open>\<open>lineById.get(id)!\<close>: every delivery line was checked to have one.\<close>

definition line_read :: "purchase_line list \<Rightarrow> delivery_line \<Rightarrow> purchase_line" where
  "line_read lines d = the (find_row pl_id lines (rd_purchaseOrderLineId d))"

definition delivery_cost :: "purchase_line list \<Rightarrow> delivery_line \<Rightarrow> decimal" where
  "delivery_cost lines d = nullish (rd_unitCost d) (pl_unitCost (line_read lines d))"

definition receive_line :: "env \<Rightarrow> purchase_line list \<Rightarrow> uuid \<Rightarrow> delivery_line \<Rightarrow> purchase_db \<Rightarrow> purchase_db result" where
  "receive_line env lines receipt d db =
     (let i = new_uuid env (length (puReceiptLines db)); l = line_read lines d in
      if i \<in> rl_id ` set (puReceiptLines db) then Inl unique_violation
      else Inr (db\<lparr>puReceiptLines := puReceiptLines db @ [\<lparr>rl_id = i, rl_receiptId = receipt,
             rl_purchaseOrderLineId = pl_id l, rl_stockItemId = pl_stockItemId l,
             rl_quantityReceived = rd_quantityReceived d, rl_unitCost = delivery_cost lines d\<rparr>],
           puLines := update_row pl_id (pl_id l)
             (\<lambda>x. x\<lparr>pl_quantityReceived := pl_quantityReceived l + rd_quantityReceived d\<rparr>) (puLines db)\<rparr>))"

fun receive_lines :: "env \<Rightarrow> purchase_line list \<Rightarrow> uuid \<Rightarrow> delivery_line list \<Rightarrow> purchase_db \<Rightarrow> purchase_db result" where
  "receive_lines env lines receipt [] db = Inr db"
| "receive_lines env lines receipt (d # ds) db =
     bindE (receive_line env lines receipt d db) (receive_lines env lines receipt ds)"

definition receive_tx :: "env \<Rightarrow> purchase_order \<Rightarrow> purchase_line list \<Rightarrow> receive_purchase \<Rightarrow> uuid \<Rightarrow> purchase_db \<Rightarrow>
    (uuid \<times> purchase_db) result" where
  "receive_tx env po lines dto userId db =
     (let i = new_uuid env (length (puReceipts db)) in
      if i \<in> rc_id ` set (puReceipts db) then Inl unique_violation
      else bindE (receive_lines env lines i (rd_lines dto) (db\<lparr>puReceipts := puReceipts db @ [\<lparr>rc_id = i,
          rc_purchaseOrderId = po_id po, rc_receivedById = userId, rc_note = rd_note dto, rc_createdAt = now env\<rparr>]\<rparr>))
        (\<lambda>db1. Inr (i, db1)))"

definition delivery_receipt :: "purchase_order \<Rightarrow> purchase_line list \<Rightarrow> string option \<Rightarrow> delivery_line \<Rightarrow> stock_in" where
  "delivery_receipt po lines note_text d = \<lparr>in_stockItemId = pl_stockItemId (line_read lines d),
     in_branchId = po_branchId po, in_quantity = rd_quantityReceived d, in_unitCost = delivery_cost lines d,
     in_supplierId = Some (po_supplierId po), in_supplierName = None, in_reference = Some (po_poNumber po),
     in_note = Some (nullish note_text (''Receipt against '' @ po_poNumber po)), in_receiptUrl = None\<rparr>"

fun receive_stock :: "env \<Rightarrow> uuid \<Rightarrow> stock_in list \<Rightarrow> stock_db \<Rightarrow> unit result \<times> stock_db" where
  "receive_stock env userId [] db = (Inr (), db)"
| "receive_stock env userId (r # rs) db =
     bindS (stockIn env db r userId) (\<lambda>_ db1. receive_stock env userId rs db1)"

definition line_done :: "purchase_line \<Rightarrow> bool" where
  "line_done l \<longleftrightarrow> pl_quantityOrdered l \<le> pl_quantityReceived l"

definition receive_transition :: "uuid \<Rightarrow> purchase_db \<Rightarrow> purchase_db" where
  "receive_transition i db = update_po i (\<lambda>p. p\<lparr>po_status :=
     (if list_all line_done (lines_of db i) then PO_RECEIVED else PO_PARTIALLY_RECEIVED)\<rparr>) db"

text \<open>The writes of a delivery that was accepted on what was read.\<close>

definition receive_write :: "env \<Rightarrow> purchase_order \<Rightarrow> purchase_line list \<Rightarrow> receive_purchase \<Rightarrow> uuid \<Rightarrow> purchase_db \<Rightarrow>
    purchase_detail result \<times> purchase_db" where
  "receive_write env po lines dto userId db =
     bindS (commit db (receive_tx env po lines dto userId db)) (\<lambda>_ db1.
       case receive_stock env userId (map (delivery_receipt po lines (rd_note dto)) (rd_lines dto)) (puStock db1) of
         (Inl e, s) \<Rightarrow> (Inl e, db1\<lparr>puStock := s\<rparr>)
       | (Inr _, s) \<Rightarrow> (purchase_findOne (receive_transition (po_id po) (db1\<lparr>puStock := s\<rparr>)) (po_id po),
           receive_transition (po_id po) (db1\<lparr>puStock := s\<rparr>)))"

definition purchase_receive :: "env \<Rightarrow> uuid \<Rightarrow> receive_purchase \<Rightarrow> uuid \<Rightarrow> purchase_db \<Rightarrow>
    purchase_detail result \<times> purchase_db" where
  "purchase_receive env i dto userId db = (case receive_read i dto db of
       Inl e \<Rightarrow> (Inl e, db)
     | Inr (po, lines) \<Rightarrow> receive_write env po lines dto userId db)"

end
