(* ===== verification/Purchases_Laws.thy ===== *)
theory Purchases_Laws
  imports Purchases Inventory_Laws Customer_Frames
begin

text \<open>
  What the purchase orders keep: received quantities agree with the receipts and never exceed what
  was ordered as long as deliveries are handled one after the other and name a line once; what a
  delivery records and what it puts on stock; and where the two part, when a delivery names a line
  twice, when two deliveries overlap, and when the stock receipt fails.
\<close>

subsection \<open>The transaction of a delivery\<close>

definition last_for :: "delivery_line list \<Rightarrow> uuid \<Rightarrow> delivery_line option" where
  "last_for ds i = find (\<lambda>d. rd_purchaseOrderLineId d = i) (rev ds)"

definition booked_line :: "purchase_line list \<Rightarrow> delivery_line list \<Rightarrow> purchase_line \<Rightarrow> purchase_line" where
  "booked_line lines ds x = (case last_for ds (pl_id x) of None \<Rightarrow> x
     | Some d \<Rightarrow> x\<lparr>pl_quantityReceived := pl_quantityReceived (line_read lines d) + rd_quantityReceived d\<rparr>)"

definition delivered :: "delivery_line \<Rightarrow> uuid \<times> decimal" where
  "delivered d = (rd_purchaseOrderLineId d, rd_quantityReceived d)"

definition receipt_entry :: "purchase_receipt_line \<Rightarrow> uuid \<times> decimal" where
  "receipt_entry x = (rl_purchaseOrderLineId x, rl_quantityReceived x)"

definition known_lines :: "purchase_line list \<Rightarrow> delivery_line list \<Rightarrow> bool" where
  "known_lines lines ds \<longleftrightarrow> list_all (\<lambda>d. rd_purchaseOrderLineId d \<in> pl_id ` set lines) ds"

lemma line_read_id: "known_lines lines [d] \<Longrightarrow> pl_id (line_read lines d) = rd_purchaseOrderLineId d \<and> line_read lines d \<in> set lines"
proof -
  assume "known_lines lines [d]"
  then obtain l where "find_row pl_id lines (rd_purchaseOrderLineId d) = Some l"
    using find_row_None [of pl_id lines "rd_purchaseOrderLineId d"]
    by (cases "find_row pl_id lines (rd_purchaseOrderLineId d)") (auto simp: known_lines_def)
  with find_row_id [OF this] show ?thesis by (simp add: line_read_def)
qed

lemma booked_line_Nil [simp]: "booked_line lines [] = (\<lambda>x. x)"
  by (simp add: booked_line_def last_for_def fun_eq_iff)

lemma booked_line_id [simp]: "pl_id (booked_line lines ds x) = pl_id x"
  "pl_purchaseOrderId (booked_line lines ds x) = pl_purchaseOrderId x"
  "pl_quantityOrdered (booked_line lines ds x) = pl_quantityOrdered x"
  "pl_stockItemId (booked_line lines ds x) = pl_stockItemId x"
  by (simp_all add: booked_line_def split: option.split)

lemma receive_line_effect:
  assumes "receive_line env lines r d db = Inr db0" and "known_lines lines [d]"
  shows "puLines db0 = map (booked_line lines [d]) (puLines db)"
    "map receipt_entry (puReceiptLines db0) = map receipt_entry (puReceiptLines db) @ [delivered d]"
    "puOrders db0 = puOrders db" "puStock db0 = puStock db" "puReceipts db0 = puReceipts db"
proof -
  have "booked_line lines [d] = (\<lambda>x. if pl_id x = pl_id (line_read lines d)
      then x\<lparr>pl_quantityReceived := pl_quantityReceived (line_read lines d) + rd_quantityReceived d\<rparr> else x)"
    using line_read_id [OF assms(2)] by (auto simp: booked_line_def last_for_def fun_eq_iff)
  then show "puLines db0 = map (booked_line lines [d]) (puLines db)"
    using assms(1) by (auto simp: receive_line_def Let_def update_row_def split: if_splits)
  show "map receipt_entry (puReceiptLines db0) = map receipt_entry (puReceiptLines db) @ [delivered d]"
    "puOrders db0 = puOrders db" "puStock db0 = puStock db" "puReceipts db0 = puReceipts db"
    using assms(1) line_read_id [OF assms(2)]
    by (auto simp: receive_line_def Let_def receipt_entry_def delivered_def split: if_splits)
qed

lemma booked_line_Cons: "booked_line lines ds (booked_line lines [d] x) = booked_line lines (d # ds) x"
  by (auto simp: booked_line_def last_for_def find_append split: option.split)

lemma receive_lines_effect:
  assumes "receive_lines env lines r ds db = Inr db1" and "known_lines lines ds"
  shows "puLines db1 = map (booked_line lines ds) (puLines db)
    \<and> map receipt_entry (puReceiptLines db1) = map receipt_entry (puReceiptLines db) @ map delivered ds
    \<and> puOrders db1 = puOrders db \<and> puStock db1 = puStock db \<and> puReceipts db1 = puReceipts db"
  using assms
proof (induction ds arbitrary: db)
  case (Cons d ds)
  have known: "known_lines lines [d]" "known_lines lines ds" using Cons.prems(2) by (simp_all add: known_lines_def)
  obtain db0 where first: "receive_line env lines r d db = Inr db0" and rest: "receive_lines env lines r ds db0 = Inr db1"
    using Cons.prems(1) by (auto simp: result_simps)
  from Cons.IH [OF rest known(2)] show ?case
    by (simp add: receive_line_effect [OF first known(1)] booked_line_Cons)
qed simp

lemma receive_read_parts:
  assumes "receive_read i dto db = Inr (po, lines)"
  shows "find_po db i = Some po" "po_status po = PO_SENT \<or> po_status po = PO_PARTIALLY_RECEIVED" "lines = lines_of db i"
    "known_lines lines (rd_lines dto)"
    "\<And>d. d \<in> set (rd_lines dto) \<Longrightarrow>
      pl_quantityReceived (line_read lines d) + rd_quantityReceived d \<le> pl_quantityOrdered (line_read lines d)"
proof -
  obtain ys where c: "find_po db i = Some po" "po_status po = PO_SENT \<or> po_status po = PO_PARTIALLY_RECEIVED"
    "lines = lines_of db i" and checks: "mapE (check_delivery lines) (rd_lines dto) = Inr ys"
    using assms by (auto simp: receive_read_def mustFind_def result_simps split: option.splits if_splits)
  show "find_po db i = Some po" "po_status po = PO_SENT \<or> po_status po = PO_PARTIALLY_RECEIVED" "lines = lines_of db i"
    by (rule c)+
  have ok: "check_delivery lines d = Inr ()" if "d \<in> set (rd_lines dto)" for d
    using checks that by (auto simp: mapE_Inr_list_all2 list_all2_conv_all_nth in_set_conv_nth)
  then have found: "\<exists>l. find_row pl_id lines (rd_purchaseOrderLineId d) = Some l
      \<and> pl_quantityReceived l + rd_quantityReceived d \<le> pl_quantityOrdered l" if "d \<in> set (rd_lines dto)" for d
    using that by (fastforce simp: check_delivery_def split: option.splits if_splits)
  have "rd_purchaseOrderLineId d \<in> pl_id ` set lines" if "d \<in> set (rd_lines dto)" for d
    using found [OF that] find_row_None [of pl_id lines "rd_purchaseOrderLineId d"] by auto
  then show "known_lines lines (rd_lines dto)" by (simp add: known_lines_def list_all_iff)
  fix d assume "d \<in> set (rd_lines dto)"
  from found [OF this] show "pl_quantityReceived (line_read lines d) + rd_quantityReceived d \<le> pl_quantityOrdered (line_read lines d)"
    by (auto simp: line_read_def)
qed

text \<open>The stock receipts of a delivery.\<close>

definition stocked :: "stock_in list \<Rightarrow> stock_key \<Rightarrow> decimal" where
  "stocked rs k = (\<Sum>r\<leftarrow>rs. single (in_branchId r, in_stockItemId r) (in_quantity r) k)"

lemma receive_stock_books:
  assumes "receive_stock env u rs db = (Inr x, db')" and "levels_ok db"
  shows "books db db' (stocked rs)"
  using assms
proof (induction rs arbitrary: db)
  case Nil
  then show ?case by (simp add: stocked_def books_refl)
next
  case (Cons r rs)
  then obtain res db1 where first: "stockIn env db r u = (Inr res, db1)" and rest: "receive_stock env u rs db1 = (Inr x, db')"
    by (auto simp: result_simps)
  note b = stockIn_books(1) [OF first Cons.prems(2)]
  show ?case using books_trans [OF b Cons.IH [OF rest books_ok [OF b]]] by (simp add: stocked_def)
qed

text \<open>The movement a stock receipt records, and the movements of a delivery: one each, in their order.\<close>

definition records_receipt :: "stock_in \<Rightarrow> stock_movement \<Rightarrow> bool" where
  "records_receipt r m \<longleftrightarrow> movement_key m = (in_branchId r, in_stockItemId r) \<and> sm_type m = STOCK_IN
     \<and> sm_quantity m = in_quantity r \<and> sm_unitCost m = Some (in_unitCost r)"

lemma stockIn_movement:
  assumes "stockIn env db r u = (Inr res, db')" and "levels_ok db"
  shows "\<exists>m. stockMovements db' = stockMovements db @ [m] \<and> records_receipt r m"
proof -
  have "stockIn_tx env r u db = Inr (res, db')"
    using assms(1) by (auto simp: stockIn_def split: option.splits if_splits)
  then obtain supplierId db1 q avg db2 its m mov where s: "resolve_supplier env r db = Inr (supplierId, db1)"
    and l: "receive_level env r db1 = Inr ((q, avg), db2)"
    and a: "add_movement mov env (db2\<lparr>stockItems := its\<rparr>) = Inr (m, db')" and m: "\<And>i. records_receipt r (mov i)"
    by (fastforce simp: stockIn_tx_def Let_def result_simps records_receipt_def movement_key_def split: if_splits)
  obtain ss where db1: "db1 = db\<lparr>suppliers := ss\<rparr>" using resolve_supplier_tables [OF s] by blast
  have "stockMovements db2 = stockMovements db1"
    by (rule receive_level_spec(3) [OF l]) (use assms(2) in \<open>simp_all add: db1\<close>)
  then show ?thesis using add_movement_spec(1,2) [OF a] m by (simp add: db1)
qed

lemma receive_stock_movements:
  assumes "receive_stock env u rs db = (Inr x, db')" and "levels_ok db"
  shows "\<exists>news. stockMovements db' = stockMovements db @ news \<and> list_all2 records_receipt rs news"
  using assms
proof (induction rs arbitrary: db)
  case (Cons r rs)
  then obtain res db1 where first: "stockIn env db r u = (Inr res, db1)" and rest: "receive_stock env u rs db1 = (Inr x, db')"
    by (auto simp: result_simps)
  obtain m where m: "stockMovements db1 = stockMovements db @ [m]" "records_receipt r m"
    using stockIn_movement [OF first Cons.prems(2)] by blast
  obtain news where "stockMovements db' = stockMovements db1 @ news" "list_all2 records_receipt rs news"
    using Cons.IH [OF rest books_ok [OF stockIn_books(1) [OF first Cons.prems(2)]]] by blast
  with m show ?case by (intro exI [of _ "m # news"]) simp
qed simp

lemma receive_tx_effect:
  assumes "receive_tx env po lines dto u db = Inr (r, db1)" and "known_lines lines (rd_lines dto)"
  shows "puLines db1 = map (booked_line lines (rd_lines dto)) (puLines db)"
    "map receipt_entry (puReceiptLines db1) = map receipt_entry (puReceiptLines db) @ map delivered (rd_lines dto)"
    "puOrders db1 = puOrders db" "puStock db1 = puStock db"
proof -
  obtain db0 where l: "receive_lines env lines r (rd_lines dto) db0 = Inr db1" and
    db0: "puLines db0 = puLines db" "puReceiptLines db0 = puReceiptLines db" "puOrders db0 = puOrders db" "puStock db0 = puStock db"
    using assms(1) by (auto simp: receive_tx_def Let_def result_simps split: if_splits)
  show "puLines db1 = map (booked_line lines (rd_lines dto)) (puLines db)"
    "map receipt_entry (puReceiptLines db1) = map receipt_entry (puReceiptLines db) @ map delivered (rd_lines dto)"
    "puOrders db1 = puOrders db" "puStock db1 = puStock db"
    using receive_lines_effect [OF l assms(2)] by (simp_all add: db0)
qed

lemma find_booked: "find_row pl_id (map (booked_line lines ds) ls) i = map_option (booked_line lines ds) (find_row pl_id ls i)"
  by (induction ls) (auto simp: find_row_def)

lemma receive_write_course:
  assumes run: "receive_write env po lines dto u db = (x, db')" and known: "known_lines lines (rd_lines dto)"
    and po: "po_id po = i" "find_po db i \<noteq> None"
  obtains (refused) e where "x = Inl e" "db' = db"
  | (accepted) r db1 y s where "receive_tx env po lines dto u db = Inr (r, db1)"
      "receive_stock env u (map (delivery_receipt po lines (rd_note dto)) (rd_lines dto)) (puStock db) = (y, s)"
      "puStock db1 = puStock db" "puLines db1 = map (booked_line lines (rd_lines dto)) (puLines db)"
      "map receipt_entry (puReceiptLines db1) = map receipt_entry (puReceiptLines db) @ map delivered (rd_lines dto)"
      "puOrders db1 = puOrders db"
      "case y of Inl e \<Rightarrow> x = Inl e \<and> db' = db1\<lparr>puStock := s\<rparr>
        | Inr v \<Rightarrow> db' = receive_transition i (db1\<lparr>puStock := s\<rparr>) \<and> (\<exists>d. x = Inr d)"
proof (cases "receive_tx env po lines dto u db")
  case (Inl e)
  then show ?thesis using run by (intro refused) (auto simp: receive_write_def commit_def)
next
  case tx: (Inr b)
  obtain r db1 where b: "b = (r, db1)" by fastforce
  obtain y s where st: "receive_stock env u (map (delivery_receipt po lines (rd_note dto)) (rd_lines dto)) (puStock db) = (y, s)"
    by fastforce
  note e = receive_tx_effect [OF tx [unfolded b] known]
  have f: "find_po (receive_transition i (db1\<lparr>puStock := s\<rparr>)) i \<noteq> None"
    using po(2) by (simp add: receive_transition_def update_po_def e(3) table_simps)
  show ?thesis
    by (rule accepted [OF tx [unfolded b] st])
      (use run f in \<open>auto simp: e receive_write_def commit_def tx b st po(1) purchase_findOne_def split: sum.splits\<close>)
qed

lemma receive_course:
  assumes "purchase_receive env i dto u db = (x, db')"
  obtains (refused) e where "x = Inl e" "db' = db"
  | (accepted) po lines r db1 y s where "receive_read i dto db = Inr (po, lines)" "po_id po = i"
      "receive_tx env po lines dto u db = Inr (r, db1)"
      "receive_stock env u (map (delivery_receipt po lines (rd_note dto)) (rd_lines dto)) (puStock db) = (y, s)"
      "puStock db1 = puStock db" "puLines db1 = map (booked_line lines (rd_lines dto)) (puLines db)"
      "map receipt_entry (puReceiptLines db1) = map receipt_entry (puReceiptLines db) @ map delivered (rd_lines dto)"
      "puOrders db1 = puOrders db"
      "case y of Inl e \<Rightarrow> x = Inl e \<and> db' = db1\<lparr>puStock := s\<rparr>
        | Inr v \<Rightarrow> db' = receive_transition i (db1\<lparr>puStock := s\<rparr>) \<and> (\<exists>d. x = Inr d)"
proof (cases "receive_read i dto db")
  case (Inl e)
  then show ?thesis using assms by (intro refused) (auto simp: purchase_receive_def)
next
  case read: (Inr a)
  obtain po lines where a: "a = (po, lines)" by fastforce
  note p = receive_read_parts [OF read [unfolded a]]
  have po: "po_id po = i" "find_po db i \<noteq> None" using p(1) find_row_id [OF p(1)] by simp_all
  have "receive_write env po lines dto u db = (x, db')" using assms read a by (simp add: purchase_receive_def)
  from this p(4) po show ?thesis
  proof (cases rule: receive_write_course)
    case (refused e)
    then show ?thesis by (rule that(1))
  next
    case (accepted r db1 y s)
    then show ?thesis by (rule that(2) [OF read [unfolded a] po(1)])
  qed
qed

subsection \<open>Received and ordered quantities\<close>

definition total_for :: "(uuid \<times> decimal) list \<Rightarrow> uuid \<Rightarrow> decimal" where
  "total_for es i = (\<Sum>e\<leftarrow>es. if fst e = i then snd e else 0)"

definition receipts_total :: "purchase_db \<Rightarrow> uuid \<Rightarrow> decimal" where
  "receipts_total db = total_for (map receipt_entry (puReceiptLines db))"

definition purchase_line_ok :: "purchase_db \<Rightarrow> purchase_line \<Rightarrow> bool" where
  "purchase_line_ok db l \<longleftrightarrow> 0 \<le> pl_quantityReceived l \<and> pl_quantityReceived l \<le> pl_quantityOrdered l
     \<and> pl_quantityReceived l = receipts_total db (pl_id l)"

text \<open>What the status of an order says about its lines.\<close>

definition status_says :: "purchase_order_status \<Rightarrow> purchase_line \<Rightarrow> bool" where
  "status_says s l \<longleftrightarrow> (s = PO_DRAFT \<or> s = PO_CANCELLED \<longrightarrow> pl_quantityReceived l = 0)
     \<and> (s = PO_RECEIVED \<longrightarrow> pl_quantityReceived l = pl_quantityOrdered l)"

definition purchases_ok :: "purchase_db \<Rightarrow> bool" where
  "purchases_ok db \<longleftrightarrow> distinct (map pl_id (puLines db)) \<and> distinct (map po_id (puOrders db))
     \<and> (\<forall>l\<in>set (puLines db). purchase_line_ok db l \<and> pl_purchaseOrderId l \<in> po_id ` set (puOrders db))
     \<and> (\<forall>e\<in>set (map receipt_entry (puReceiptLines db)). fst e \<in> pl_id ` set (puLines db))
     \<and> (\<forall>po\<in>set (puOrders db). \<forall>l\<in>set (puLines db). pl_purchaseOrderId l = po_id po \<longrightarrow> status_says (po_status po) l)"

lemma total_for_simps [simp]: "total_for [] i = 0" "total_for (e # es) i = (if fst e = i then snd e else 0) + total_for es i"
  "total_for (es @ fs) i = total_for es i + total_for fs i"
  by (simp_all add: total_for_def)

lemma total_for_absent: "i \<notin> fst ` set es \<Longrightarrow> total_for es i = 0"
  by (induction es) auto

lemma last_for_simps [simp]: "last_for [] i = None"
  "last_for (d # ds) i = (case last_for ds i of None \<Rightarrow> if rd_purchaseOrderLineId d = i then Some d else None | Some x \<Rightarrow> Some x)"
  by (simp_all add: last_for_def find_append split: option.split)

lemma last_for_None: "last_for ds i = None \<longleftrightarrow> i \<notin> rd_purchaseOrderLineId ` set ds"
  by (induction ds) (auto split: option.split)

lemma last_for_Some: "last_for ds i = Some d \<Longrightarrow> d \<in> set ds \<and> rd_purchaseOrderLineId d = i"
  by (induction ds) (auto split: option.splits if_splits)

text \<open>A delivery that names every line once.\<close>

definition proper_delivery :: "receive_purchase \<Rightarrow> bool" where
  "proper_delivery dto \<longleftrightarrow> distinct (map rd_purchaseOrderLineId (rd_lines dto))
     \<and> list_all (\<lambda>d. 0 < rd_quantityReceived d) (rd_lines dto)"

lemma total_delivered:
  assumes "distinct (map rd_purchaseOrderLineId ds)"
  shows "total_for (map delivered ds) i = (case last_for ds i of None \<Rightarrow> 0 | Some d \<Rightarrow> rd_quantityReceived d)"
  using assms
proof (induction ds)
  case (Cons d ds)
  then have "last_for ds (rd_purchaseOrderLineId d) = None" by (simp add: last_for_None)
  with Cons show ?case by (auto simp: delivered_def split: option.split)
qed simp

lemma unique_line:
  assumes "distinct (map pl_id (puLines db))" "x \<in> set (puLines db)" "y \<in> set (puLines db)" "pl_id x = pl_id y"
  shows "x = y"
  using assms by (auto simp: distinct_map inj_on_def)

lemma line_read_is:
  assumes ok: "distinct (map pl_id (puLines db))" and k: "known_lines (lines_of db i) ds" and d: "d \<in> set ds"
    and x: "x \<in> set (puLines db)" "pl_id x = rd_purchaseOrderLineId d"
  shows "line_read (lines_of db i) d = x" "pl_purchaseOrderId x = i"
proof -
  have "known_lines (lines_of db i) [d]" using k d by (auto simp: known_lines_def list_all_iff)
  from line_read_id [OF this] have r: "pl_id (line_read (lines_of db i) d) = pl_id x" "line_read (lines_of db i) d \<in> set (lines_of db i)"
    using x by auto
  then show "line_read (lines_of db i) d = x" using unique_line [OF ok _ x(1)] by (auto simp: lines_of_def)
  with r show "pl_purchaseOrderId x = i" by (auto simp: lines_of_def)
qed

lemma booked_line_ok:
  assumes ok: "purchases_ok db" and read: "receive_read i dto db = Inr (po, lines)" and dto: "proper_delivery dto"
    and x: "x \<in> set (puLines db)"
    and es: "map receipt_entry (puReceiptLines db1) = map receipt_entry (puReceiptLines db) @ map delivered (rd_lines dto)"
  shows "purchase_line_ok db1 (booked_line lines (rd_lines dto) x)"
    "pl_purchaseOrderId x \<noteq> i \<Longrightarrow> booked_line lines (rd_lines dto) x = x"
proof -
  note p = receive_read_parts [OF read]
  have d: "distinct (map pl_id (puLines db))" using ok by (simp add: purchases_ok_def)
  have xk: "purchase_line_ok db x" using ok x by (simp add: purchases_ok_def)
  have t: "receipts_total db1 (pl_id x) = receipts_total db (pl_id x)
      + (case last_for (rd_lines dto) (pl_id x) of None \<Rightarrow> 0 | Some d \<Rightarrow> rd_quantityReceived d)"
    using total_delivered [of "rd_lines dto"] dto by (simp add: receipts_total_def es proper_delivery_def)
  show "purchase_line_ok db1 (booked_line lines (rd_lines dto) x)"
  proof (cases "last_for (rd_lines dto) (pl_id x)")
    case None
    then show ?thesis using xk t by (simp add: booked_line_def purchase_line_ok_def)
  next
    case (Some e)
    then have e: "e \<in> set (rd_lines dto)" "pl_id x = rd_purchaseOrderLineId e" by (auto dest: last_for_Some)
    have l: "line_read lines e = x" using line_read_is(1) [OF d p(4) [unfolded p(3)] e(1) x e(2)] p(3) by simp
    have "0 < rd_quantityReceived e" using dto e(1) by (auto simp: proper_delivery_def list_all_iff)
    then show ?thesis using xk t p(5) [OF e(1)] Some by (simp add: booked_line_def purchase_line_ok_def l)
  qed
  assume "pl_purchaseOrderId x \<noteq> i"
  then have "last_for (rd_lines dto) (pl_id x) = None"
    using line_read_is(2) [OF d p(4) [unfolded p(3)] _ x] last_for_Some [of "rd_lines dto" "pl_id x"]
    by (cases "last_for (rd_lines dto) (pl_id x)") (force simp: p(3))+
  then show "booked_line lines (rd_lines dto) x = x" by (simp add: booked_line_def)
qed

lemma purchase_line_ok_other [simp]: "purchase_line_ok (db\<lparr>puStock := s\<rparr>) = purchase_line_ok db" "purchase_line_ok (db\<lparr>puOrders := os\<rparr>) = purchase_line_ok db"
  "purchase_line_ok (db\<lparr>puLines := ls\<rparr>) = purchase_line_ok db"
  by (simp_all add: purchase_line_ok_def receipts_total_def fun_eq_iff)

lemma purchases_ok_stock [simp]: "purchases_ok (db\<lparr>puStock := s\<rparr>) \<longleftrightarrow> purchases_ok db"
  by (simp add: purchases_ok_def)

lemma purchases_ok_status:
  assumes ok: "purchases_ok db" and f: "\<And>p. po_id (f p) = po_id p"
    and says: "\<And>p l. p \<in> set (puOrders db) \<Longrightarrow> po_id p = i \<Longrightarrow> l \<in> set (lines_of db i) \<Longrightarrow> status_says (po_status (f p)) l"
  shows "purchases_ok (update_po i f db)"
proof -
  have "map po_id (update_row po_id i f (puOrders db)) = map po_id (puOrders db)"
    by (rule map_update_row) (simp add: f)
  moreover from this have "po_id ` set (update_row po_id i f (puOrders db)) = po_id ` set (puOrders db)"
    by (metis list.set_map)
  moreover have "status_says (po_status q) l" if "q \<in> set (update_row po_id i f (puOrders db))" "l \<in> set (puLines db)"
    "pl_purchaseOrderId l = po_id q" for q l
  proof -
    from that(1) obtain p where p: "p \<in> set (puOrders db)" "q = (if po_id p = i then f p else p)"
      by (auto simp: update_row_def)
    then show ?thesis
      using that(2,3) ok says [OF p(1)] by (cases "po_id p = i") (auto simp: f lines_of_def purchases_ok_def)
  qed
  ultimately show ?thesis
    using ok by (simp add: purchases_ok_def update_po_def)
qed

lemma purchases_ok_receive:
  assumes ok: "purchases_ok db" and dto: "proper_delivery dto"
  shows "purchases_ok (snd (purchase_receive env i dto u db))"
proof -
  obtain x db' where run: "purchase_receive env i dto u db = (x, db')" by fastforce
  then show ?thesis
  proof (cases rule: receive_course)
    case refused
    then show ?thesis using ok run by simp
  next
    case (accepted po lines r db1 y s)
    note p = receive_read_parts [OF accepted(1)]
    note b = booked_line_ok [OF ok accepted(1) dto]
    have d: "distinct (map po_id (puOrders db))" "po \<in> set (puOrders db)" "po_id po = i"
      using ok p(1) find_row_id [OF p(1)] by (auto simp: purchases_ok_def)
    have po: "q = po" if "q \<in> set (puOrders db)" "po_id q = i" for q
      using d that by (auto simp: distinct_map inj_on_def)
    have "status_says (po_status q) (booked_line lines (rd_lines dto) l)"
      if "q \<in> set (puOrders db)" "l \<in> set (puLines db)" "pl_purchaseOrderId l = po_id q" for q l
    proof (cases "po_id q = i")
      case True
      then show ?thesis using po [OF that(1) True] p(2) by (auto simp: status_says_def)
    next
      case False
      then show ?thesis using ok that b(2) [OF that(2) accepted(7)] by (simp add: purchases_ok_def)
    qed
    moreover have "fst e \<in> pl_id ` set (puLines db)" if "e \<in> set (map delivered (rd_lines dto))" for e
      using p(3,4) that by (auto simp: known_lines_def list_all_iff delivered_def lines_of_def)
    then have "\<forall>e\<in>set (map receipt_entry (puReceiptLines db1)). fst e \<in> pl_id ` set (puLines db)"
      unfolding accepted(7) using ok by (simp only: set_append ball_Un purchases_ok_def) blast
    ultimately have ok1: "purchases_ok db1"
      using ok b(1) [OF _ accepted(7)] unfolding purchases_ok_def accepted(6,8) by (simp add: comp_def image_image)
    have "status_says (if list_all line_done (lines_of db1 i) then PO_RECEIVED else PO_PARTIALLY_RECEIVED) l"
      if "l \<in> set (lines_of db1 i)" for l
      using that ok1 by (fastforce simp: status_says_def list_all_iff line_done_def purchases_ok_def purchase_line_ok_def lines_of_def)
    then have "purchases_ok (receive_transition i (db1\<lparr>puStock := s\<rparr>))"
      unfolding receive_transition_def using ok1 by (intro purchases_ok_status) (auto simp: lines_of_def)
    then show ?thesis using accepted(9) ok1 run by (cases y) auto
  qed
qed

subsection \<open>Creation and the other transitions\<close>

lemma create_lines_effect:
  assumes "create_lines env po ns ls = Inr ls'" and "distinct (map pl_id ls)"
  shows "\<exists>new. ls' = ls @ new \<and> distinct (map pl_id ls') \<and> (\<forall>l\<in>set new. pl_purchaseOrderId l = po
    \<and> pl_quantityReceived l = 0 \<and> (\<exists>n\<in>set ns. pl_quantityOrdered l = dec4 (nl_quantityOrdered n)))"
  using assms
proof (induction ns arbitrary: ls)
  case (Cons n ns)
  define l where "l = \<lparr>pl_id = new_uuid env (length ls), pl_purchaseOrderId = po, pl_stockItemId = nl_stockItemId n,
       pl_quantityOrdered = dec4 (nl_quantityOrdered n), pl_quantityReceived = 0, pl_unitCost = dec4 (nl_unitCost n),
       pl_lineTotal = dec4 (line_total n)\<rparr>"
  have rest: "create_lines env po ns (ls @ [l]) = Inr ls'" and fresh: "new_uuid env (length ls) \<notin> pl_id ` set ls"
    using Cons.prems(1) by (auto simp: l_def Let_def split: if_splits)
  have "distinct (map pl_id (ls @ [l]))" using Cons.prems(2) fresh by (simp add: l_def)
  from Cons.IH [OF rest this] obtain new where new: "ls' = (ls @ [l]) @ new" "distinct (map pl_id ls')"
    "\<forall>x\<in>set new. pl_purchaseOrderId x = po \<and> pl_quantityReceived x = 0
      \<and> (\<exists>n\<in>set ns. pl_quantityOrdered x = dec4 (nl_quantityOrdered n))" by blast
  then show ?case by (intro exI [of _ "l # new"]) (auto simp: l_def)
qed auto

lemma insert_purchase_shape:
  assumes "insert_purchase tz env dto u db = Inr (i, db1)"
  shows "\<exists>ls o'. db1 = db\<lparr>puLines := ls, puOrders := puOrders db @ [o']\<rparr> \<and> po_id o' = i \<and> po_status o' = PO_DRAFT
    \<and> create_lines env i (np_lines dto) (puLines db) = Inr ls \<and> i \<notin> po_id ` set (puOrders db)"
proof -
  obtain ls where "create_lines env i (np_lines dto) (puLines db) = Inr ls" "i \<notin> po_id ` set (puOrders db)"
    "db1 = db\<lparr>puLines := ls, puOrders := puOrders db @ [\<lparr>po_id = i, po_poNumber = nextPoNumber tz env db,
       po_supplierId = np_supplierId dto, po_branchId = np_branchId dto, po_status = PO_DRAFT,
       po_totalKd = dec4 (\<Sum>l\<leftarrow>np_lines dto. line_total l), po_notes = np_notes dto, po_expectedAt = np_expectedAt dto,
       po_createdById = u, po_approvedById = None, po_approvedAt = None, po_cancelledAt = None,
       po_cancelledReason = None, po_createdAt = now env\<rparr>]\<rparr>"
    using assms by (auto simp: insert_purchase_def Let_def result_simps split: if_splits)
  then show ?thesis by (intro exI conjI) (assumption | simp)+
qed

lemma purchases_ok_create:
  assumes ok: "purchases_ok db" and pos: "list_all (\<lambda>l. 0 \<le> nl_quantityOrdered l) (np_lines dto)"
  shows "purchases_ok (snd (purchase_create tz env dto u db))"
proof (cases "check_purchase dto db")
  case (Inl e)
  then show ?thesis using ok by (simp add: purchase_create_def)
next
  case c: (Inr v)
  show ?thesis
  proof (cases "insert_purchase tz env dto u db")
    case (Inl e)
    then show ?thesis using ok c by (simp add: purchase_create_def commit_def)
  next
    case (Inr a)
    obtain i db1 where a: "a = (i, db1)" by fastforce
    from insert_purchase_shape [OF Inr [unfolded a]] obtain ls o' where ls: "create_lines env i (np_lines dto) (puLines db) = Inr ls"
      and fresh: "i \<notin> po_id ` set (puOrders db)" and o': "po_id o' = i" "po_status o' = PO_DRAFT"
      and db1: "db1 = db\<lparr>puLines := ls, puOrders := puOrders db @ [o']\<rparr>" by blast
    have d: "distinct (map pl_id (puLines db))" "distinct (map po_id (puOrders db))" using ok by (simp_all add: purchases_ok_def)
    obtain new where new: "ls = puLines db @ new" "distinct (map pl_id ls)" "\<forall>l\<in>set new. pl_purchaseOrderId l = i
        \<and> pl_quantityReceived l = 0 \<and> (\<exists>n\<in>set (np_lines dto). pl_quantityOrdered l = dec4 (nl_quantityOrdered n))"
      using create_lines_effect [OF ls d(1)] by blast
    have "receipts_total db (pl_id l) = 0" if "l \<in> set new" for l
      unfolding receipts_total_def
    proof (rule total_for_absent)
      have "pl_id l \<notin> pl_id ` set (puLines db)" using new(1,2) that by auto
      then show "pl_id l \<notin> fst ` set (map receipt_entry (puReceiptLines db))" using ok by (auto simp: purchases_ok_def)
    qed
    moreover have "0 \<le> pl_quantityOrdered l" if "l \<in> set new" for l
      using new(3) that pos dec4_nonneg by (fastforce simp: list_all_iff)
    ultimately have "\<forall>l\<in>set new. purchase_line_ok db l" using new(3) by (simp add: purchase_line_ok_def)
    moreover have "i \<noteq> po_id q" if "q \<in> set (puOrders db)" for q using fresh that by auto
    moreover have "pl_purchaseOrderId l \<noteq> i" if "l \<in> set (puLines db)" for l
      using ok fresh that by (auto simp: purchases_ok_def)
    ultimately have "purchases_ok db1"
      using ok new fresh unfolding purchases_ok_def db1 by (auto simp: o' status_says_def)
    then show ?thesis using c by (simp add: purchase_create_def commit_def Inr a)
  qed
qed

lemma purchases_ok_send: "purchases_ok db \<Longrightarrow> purchases_ok (snd (purchase_send env i u db))"
  by (auto simp: purchase_send_def mustFind_def Let_def throwS_def status_says_def intro!: purchases_ok_status split: option.split)

lemma purchases_ok_cancel:
  assumes ok: "purchases_ok db"
  shows "purchases_ok (snd (purchase_cancel env i reason db))"
proof -
  have "pl_quantityReceived l = 0" if "l \<in> set (lines_of db i)" "\<not> list_ex (\<lambda>l. 0 < pl_quantityReceived l) (lines_of db i)" for l
  proof -
    have "purchase_line_ok db l" using ok that(1) by (simp add: purchases_ok_def lines_of_def)
    then have "0 \<le> pl_quantityReceived l" unfolding purchase_line_ok_def by blast
    moreover have "\<not> 0 < pl_quantityReceived l" using that by (auto simp: list_ex_iff)
    ultimately show ?thesis by simp
  qed
  then show ?thesis
    using ok by (auto simp: purchase_cancel_def mustFind_def Let_def throwS_def status_says_def intro!: purchases_ok_status split: option.split)
qed

subsection \<open>Histories\<close>

datatype purchase_command =
    CreatePurchase create_purchase uuid
  | SendPurchase uuid uuid
  | CancelPurchase uuid "string option"
  | ReceivePurchase uuid receive_purchase uuid

fun exec_purchase :: "int \<times> env \<times> purchase_command \<Rightarrow> purchase_db \<Rightarrow> purchase_db" where
  "exec_purchase (tz, env, CreatePurchase dto u) db = snd (purchase_create tz env dto u db)"
| "exec_purchase (tz, env, SendPurchase i u) db = snd (purchase_send env i u db)"
| "exec_purchase (tz, env, CancelPurchase i reason) db = snd (purchase_cancel env i reason db)"
| "exec_purchase (tz, env, ReceivePurchase i dto u) db = snd (purchase_receive env i dto u db)"

text \<open>What the DTOs are validated for, and deliveries that name every line once.\<close>

fun proper_purchase :: "purchase_command \<Rightarrow> bool" where
  "proper_purchase (CreatePurchase dto u) \<longleftrightarrow> list_all (\<lambda>l. 0 \<le> nl_quantityOrdered l) (np_lines dto)"
| "proper_purchase (ReceivePurchase i dto u) \<longleftrightarrow> proper_delivery dto"
| "proper_purchase c \<longleftrightarrow> True"

definition run_purchases :: "(int \<times> env \<times> purchase_command) list \<Rightarrow> purchase_db \<Rightarrow> purchase_db" where
  "run_purchases = fold exec_purchase"

lemma purchases_ok_exec: "purchases_ok db \<Longrightarrow> proper_purchase (snd (snd c)) \<Longrightarrow> purchases_ok (exec_purchase c db)"
  by (cases c rule: prod_cases3; cases "snd (snd c)")
    (simp_all add: purchases_ok_create purchases_ok_send purchases_ok_cancel purchases_ok_receive)

text \<open>
  C33: an order never receives more than was ordered. In any history of creations, approvals,
  cancellations and deliveries that are handled one after the other, each delivery naming a line
  at most once with a positive quantity, whatever fails in between: what a line has received is
  the sum of its receipt lines, between zero and what was ordered; a draft or canceled order has
  received nothing and a received order everything.
\<close>

theorem received_within_ordered:
  assumes "purchases_ok db" and "list_all (\<lambda>c. proper_purchase (snd (snd c))) cmds"
  shows "purchases_ok (run_purchases cmds db)"
  using assms
proof (induction cmds arbitrary: db)
  case (Cons c cmds)
  then show ?case using purchases_ok_exec [of db c] by (simp add: run_purchases_def)
qed (simp add: run_purchases_def)

subsection \<open>What a delivery puts on stock\<close>

lemma stocked_delivery:
  "stocked (map (delivery_receipt po lines m) ds) k
    = (\<Sum>d\<leftarrow>ds. single (po_branchId po, pl_stockItemId (line_read lines d)) (rd_quantityReceived d) k)"
  by (simp add: stocked_def delivery_receipt_def comp_def)

text \<open>
  C34: a delivery that goes through puts on stock what it delivers and records the last quantity
  named for each line. The quantity on hand of every item at the order's branch grows by the sum
  of the delivered quantities of that item, with one movement for each delivery line; a line named
  by the delivery has received what it had when the order was read plus the last quantity named
  for it, every other line is as it was; the order is received exactly when every line is complete.
  The movements come in the order of the delivery's lines, each with the item, the quantity and the
  cost of its line (the cost of the order's line when the delivery names none). The stock it starts
  from has one level for each item and branch.
\<close>

theorem delivery_effect:
  assumes run: "purchase_receive env i dto u db = (Inr detail, db')" and ok: "levels_ok (puStock db)"
  shows "\<exists>po lines. receive_read i dto db = Inr (po, lines)
    \<and> (\<forall>k. on_hand (puStock db') k = on_hand (puStock db) k + (\<Sum>d\<leftarrow>rd_lines dto.
        single (po_branchId po, pl_stockItemId (line_read lines d)) (rd_quantityReceived d) k))
    \<and> (\<forall>k. moved (puStock db') k - moved (puStock db) k = on_hand (puStock db') k - on_hand (puStock db) k)
    \<and> (\<exists>news. stockMovements (puStock db') = stockMovements (puStock db) @ news
        \<and> list_all2 (\<lambda>d m. movement_key m = (po_branchId po, pl_stockItemId (line_read lines d)) \<and> sm_type m = STOCK_IN
            \<and> sm_quantity m = rd_quantityReceived d \<and> sm_unitCost m = Some (delivery_cost lines d)) (rd_lines dto) news)
    \<and> puLines db' = map (booked_line lines (rd_lines dto)) (puLines db)
    \<and> map_option po_status (find_po db' i)
      = Some (if list_all line_done (lines_of db' i) then PO_RECEIVED else PO_PARTIALLY_RECEIVED)"
  using run
proof (cases rule: receive_course)
  case (accepted po lines r db1 y s)
  then obtain v where y: "y = Inr v" and db': "db' = receive_transition i (db1\<lparr>puStock := s\<rparr>)" by (cases y) auto
  note b = receive_stock_books [OF accepted(4) [unfolded y] ok]
  have "\<exists>news. stockMovements s = stockMovements (puStock db) @ news
      \<and> list_all2 (\<lambda>d m. movement_key m = (po_branchId po, pl_stockItemId (line_read lines d)) \<and> sm_type m = STOCK_IN
          \<and> sm_quantity m = rd_quantityReceived d \<and> sm_unitCost m = Some (delivery_cost lines d)) (rd_lines dto) news"
    using receive_stock_movements [OF accepted(4) [unfolded y] ok]
    by (auto simp: list_all2_map1 records_receipt_def delivery_receipt_def)
  moreover have f: "find_po db i = Some po" using receive_read_parts(1) [OF accepted(1)] .
  moreover have "map_option po_status (find_po db' i)
      = Some (if list_all line_done (lines_of db' i) then PO_RECEIVED else PO_PARTIALLY_RECEIVED)"
    using f by (simp add: db' receive_transition_def update_po_def accepted(8) table_simps lines_of_def)
  moreover have "puStock db' = s" "puLines db' = map (booked_line lines (rd_lines dto)) (puLines db)"
    by (simp_all add: db' receive_transition_def update_po_def accepted(6))
  ultimately show ?thesis
    using accepted(1) b by (intro exI [of _ po] exI [of _ lines]) (auto simp: books_def stocked_delivery)
qed simp

subsection \<open>Where records and stock part\<close>

lemma single_delivery:
  assumes run: "receive_write env po lines dto u db = (Inr x, db')" and po: "po_id po = i" "find_po db i \<noteq> None"
    and known: "known_lines lines (rd_lines dto)" and levels: "levels_ok (puStock db)"
  shows "puLines db' = map (booked_line lines (rd_lines dto)) (puLines db)"
    "receipts_total db' k = receipts_total db k + total_for (map delivered (rd_lines dto)) k"
    "books (puStock db) (puStock db') (stocked (map (delivery_receipt po lines (rd_note dto)) (rd_lines dto)))"
    "find_po db' i \<noteq> None"
proof -
  obtain r db1 v s where tx: "receive_tx env po lines dto u db = Inr (r, db1)"
    and stock: "receive_stock env u (map (delivery_receipt po lines (rd_note dto)) (rd_lines dto)) (puStock db) = (Inr v, s)"
    and db': "db' = receive_transition i (db1\<lparr>puStock := s\<rparr>)"
    using run known po by (cases rule: receive_write_course) (auto split: sum.splits)
  note e = receive_tx_effect [OF tx known]
  have st: "puLines db' = puLines db1" "puReceiptLines db' = puReceiptLines db1" "puStock db' = s"
    by (simp_all add: db' receive_transition_def update_po_def)
  show "puLines db' = map (booked_line lines (rd_lines dto)) (puLines db)" by (simp add: st e(1))
  show "receipts_total db' k = receipts_total db k + total_for (map delivered (rd_lines dto)) k"
    by (simp add: receipts_total_def st e(2))
  show "books (puStock db) (puStock db') (stocked (map (delivery_receipt po lines (rd_note dto)) (rd_lines dto)))"
    using receive_stock_books [OF stock levels] by (simp add: st)
  show "find_po db' i \<noteq> None"
    using po(2) by (simp add: db' receive_transition_def update_po_def e(3) table_simps)
qed

text \<open>
  C35: a delivery that names a line twice gets past the limit. Both entries are compared with the
  quantity that was read, so two entries of the whole quantity ordered are accepted. The stock and
  the receipts grow by both quantities, but the line records the second one only.
\<close>

theorem repeated_line_overstocks:
  assumes run: "purchase_receive env i dto u db = (Inr detail, db')" and ok: "purchases_ok db" "levels_ok (puStock db)"
    and dto: "rd_lines dto = [a, b]" "rd_purchaseOrderLineId a = pl_id l" "rd_purchaseOrderLineId b = pl_id l"
    and l: "l \<in> set (puLines db)" and po: "find_po db i = Some po"
  shows "map_option pl_quantityReceived (find_row pl_id (puLines db') (pl_id l)) = Some (pl_quantityReceived l + rd_quantityReceived b)
    \<and> receipts_total db' (pl_id l) = pl_quantityReceived l + rd_quantityReceived a + rd_quantityReceived b
    \<and> on_hand (puStock db') (po_branchId po, pl_stockItemId l)
      = on_hand (puStock db) (po_branchId po, pl_stockItemId l) + rd_quantityReceived a + rd_quantityReceived b"
proof -
  have d: "distinct (map pl_id (puLines db))" using ok(1) by (simp add: purchases_ok_def)
  obtain lines where read: "receive_read i dto db = Inr (po, lines)" and put: "receive_write env po lines dto u db = (Inr detail, db')"
    using run po by (auto simp: purchase_receive_def dest: receive_read_parts(1) split: sum.splits prod.splits)
  note p = receive_read_parts [OF read]
  have r: "line_read lines a = l" "line_read lines b = l"
    using line_read_is(1) [OF d p(4) [unfolded p(3)] _ l] dto p(3) by simp_all
  have id: "po_id po = i" "find_po db i \<noteq> None" using find_row_id [OF po] po by simp_all
  note s = single_delivery [OF put id p(4) ok(2)]
  have "find_row pl_id (puLines db) (pl_id l) = Some l" by (rule find_row_distinct [OF d l])
  then have "map_option pl_quantityReceived (find_row pl_id (puLines db') (pl_id l)) = Some (pl_quantityReceived l + rd_quantityReceived b)"
    by (simp add: s(1) find_booked) (simp add: booked_line_def dto r)
  moreover have "receipts_total db (pl_id l) = pl_quantityReceived l"
    using ok(1) l by (simp add: purchases_ok_def purchase_line_ok_def)
  ultimately show ?thesis
    using books_hand [OF s(3), of "(po_branchId po, pl_stockItemId l)"] s(2) [of "pl_id l"]
    by (simp add: stocked_def delivery_receipt_def dto r delivered_def)
qed

text \<open>
  Two deliveries that overlap lose one on the record and keep both on stock. When two requests
  read the order before either writes, each with one line for the same order line, both are
  accepted although together they may exceed what was ordered; both quantities go on stock, and
  the line ends with the second one only.
\<close>

theorem overlapping_deliveries_overstock:
  assumes ok: "purchases_ok db" "levels_ok (puStock db)"
    and read: "receive_read i dto1 db = Inr (po, lines)" "receive_read i dto2 db = Inr (po, lines)"
    and dto: "rd_lines dto1 = [a]" "rd_lines dto2 = [b]" "rd_purchaseOrderLineId a = pl_id l" "rd_purchaseOrderLineId b = pl_id l"
    and put: "receive_write env1 po lines dto1 u1 db = (Inr x1, db1)" "receive_write env2 po lines dto2 u2 db1 = (Inr x2, db2)"
    and l: "l \<in> set (puLines db)"
  shows "map_option pl_quantityReceived (find_row pl_id (puLines db2) (pl_id l)) = Some (pl_quantityReceived l + rd_quantityReceived b)
    \<and> receipts_total db2 (pl_id l) = pl_quantityReceived l + rd_quantityReceived a + rd_quantityReceived b
    \<and> on_hand (puStock db2) (po_branchId po, pl_stockItemId l)
      = on_hand (puStock db) (po_branchId po, pl_stockItemId l) + rd_quantityReceived a + rd_quantityReceived b"
proof -
  have d: "distinct (map pl_id (puLines db))" using ok(1) by (simp add: purchases_ok_def)
  note p = receive_read_parts [OF read(1)] and q = receive_read_parts [OF read(2)]
  have r: "line_read lines a = l" "line_read lines b = l"
    using line_read_is(1) [OF d p(4) [unfolded p(3)] _ l] line_read_is(1) [OF d q(4) [unfolded p(3)] _ l] dto p(3) by simp_all
  have id: "po_id po = i" "find_po db i \<noteq> None" using find_row_id [OF p(1)] p(1) by simp_all
  note s = single_delivery [OF put(1) id p(4) ok(2)]
  have ok1: "levels_ok (puStock db1)" using books_ok [OF s(3)] .
  note t = single_delivery [OF put(2) id(1) s(4) q(4) ok1]
  have "find_row pl_id (puLines db) (pl_id l) = Some l" by (rule find_row_distinct [OF d l])
  then have "map_option pl_quantityReceived (find_row pl_id (puLines db2) (pl_id l)) = Some (pl_quantityReceived l + rd_quantityReceived b)"
    by (simp add: t(1) s(1) find_booked del: map_map) (simp add: booked_line_def dto r)
  moreover have "receipts_total db (pl_id l) = pl_quantityReceived l"
    using ok(1) l by (simp add: purchases_ok_def purchase_line_ok_def)
  ultimately show ?thesis
    using books_hand [OF s(3), of "(po_branchId po, pl_stockItemId l)"] books_hand [OF t(3), of "(po_branchId po, pl_stockItemId l)"]
      s(2) [of "pl_id l"] t(2) [of "pl_id l"]
    by (simp add: stocked_def delivery_receipt_def dto r delivered_def)
qed

text \<open>
  C36: a delivery whose stock receipt fails cannot be made good. Let a delivery be accepted and its
  transaction complete every line of the order, and let the stock receipt after it throw (the item
  was deactivated after the order, say). The lines then count as received while the status is as
  before, and from then on no delivery with a positive quantity, no cancellation and no approval of
  the order is accepted: the order stays open for ever and the goods never reach the stock.
\<close>

theorem failed_stock_receipt_is_final:
  assumes read: "receive_read i dto db = Inr (po, lines)"
    and tx: "receive_tx env po lines dto u db = Inr (r, db1)" and complete: "list_all line_done (lines_of db1 i)"
    and received: "\<exists>l\<in>set (lines_of db1 i). 0 < pl_quantityReceived l"
    and stock: "receive_stock env u (map (delivery_receipt po lines (rd_note dto)) (rd_lines dto)) (puStock db) = (Inl e, s)"
    and next_dto: "rd_lines dto' \<noteq> []" "list_all (\<lambda>d. 0 < rd_quantityReceived d) (rd_lines dto')"
  shows "\<exists>db2. purchase_receive env i dto u db = (Inl e, db2) \<and> find_po db2 i = Some po
    \<and> (\<exists>e'. purchase_receive env' i dto' u' db2 = (Inl e', db2))
    \<and> (\<exists>e'. purchase_cancel env' i reason db2 = (Inl e', db2)) \<and> (\<exists>e'. purchase_send env' i u' db2 = (Inl e', db2))"
proof -
  note p = receive_read_parts [OF read]
  have id: "po_id po = i" "find_po db i \<noteq> None" using find_row_id [OF p(1)] p(1) by simp_all
  define db2 where "db2 = db1\<lparr>puStock := s\<rparr>"
  note t = receive_tx_effect [OF tx p(4)]
  have run: "purchase_receive env i dto u db = (Inl e, db2)"
    using read stock by (simp add: purchase_receive_def receive_write_def commit_def tx t(4) db2_def)
  have po: "find_po db2 i = Some po" using p(1) by (simp add: db2_def t(3))
  have lines: "lines_of db2 i = lines_of db1 i" by (simp add: db2_def lines_of_def)
  obtain d ds where d: "rd_lines dto' = d # ds" "0 < rd_quantityReceived d"
    using next_dto by (cases "rd_lines dto'") auto
  have "\<exists>e'. check_delivery (lines_of db2 i) d = Inl e'"
  proof (cases "find_row pl_id (lines_of db2 i) (rd_purchaseOrderLineId d)")
    case (Some l)
    then have "line_done l" using find_row_id [OF Some] complete lines by (auto simp: list_all_iff)
    then show ?thesis using Some d(2) by (auto simp: check_delivery_def line_done_def)
  qed (simp add: check_delivery_def)
  then have "\<exists>e'. receive_read i dto' db2 = Inl e'" using p(2) by (auto simp: receive_read_def mustFind_def po d(1))
  then have "\<exists>e'. purchase_receive env' i dto' u' db2 = (Inl e', db2)" by (auto simp: purchase_receive_def)
  moreover have "\<exists>e'. purchase_cancel env' i reason db2 = (Inl e', db2)"
    using received p(2) by (auto simp: purchase_cancel_def mustFind_def po lines list_ex_iff throwS_def)
  moreover have "\<exists>e'. purchase_send env' i u' db2 = (Inl e', db2)"
    using p(2) by (auto simp: purchase_send_def mustFind_def po throwS_def)
  ultimately show ?thesis using run po by blast
qed

subsection \<open>Examples\<close>

text \<open>An order of ten hangers at the branch of the stock example, approved and not yet delivered.\<close>

definition example_po :: purchase_order where
  "example_po = \<lparr>po_id = ''po1'', po_poNumber = ''PO-20260305-0001'', po_supplierId = ''s1'', po_branchId = ''b1'',
     po_status = PO_SENT, po_totalKd = 20, po_notes = None, po_expectedAt = None, po_createdById = ''u1'',
     po_approvedById = Some ''u1'', po_approvedAt = Some 0, po_cancelledAt = None, po_cancelledReason = None, po_createdAt = 0\<rparr>"

definition example_po_line :: purchase_line where
  "example_po_line = \<lparr>pl_id = ''l1'', pl_purchaseOrderId = ''po1'', pl_stockItemId = ''i1'', pl_quantityOrdered = 10,
     pl_quantityReceived = 0, pl_unitCost = 2, pl_lineTotal = 20\<rparr>"

definition example_purchases :: purchase_db where
  "example_purchases = \<lparr>puStock = example_stock, puAdministrative = [], puOrders = [example_po], puLines = [example_po_line],
     puReceipts = [], puReceiptLines = []\<rparr>"

definition deliver :: "decimal list \<Rightarrow> receive_purchase" where
  "deliver qs = \<lparr>rd_lines = map (\<lambda>q. \<lparr>rd_purchaseOrderLineId = ''l1'', rd_quantityReceived = q, rd_unitCost = None\<rparr>) qs,
     rd_note = None\<rparr>"

text \<open>The same store after the item was deactivated.\<close>

definition inactive_item :: purchase_db where
  "inactive_item = example_purchases\<lparr>puStock := example_stock\<lparr>stockItems := map (\<lambda>i. i\<lparr>si_isActive := False\<rparr>) (stockItems example_stock)\<rparr>\<rparr>"

lemma example_purchases_ok: "purchases_ok example_purchases" "levels_ok (puStock example_purchases)"
  by (simp_all add: example_purchases_def example_stock_ok(1) purchases_ok_def purchase_line_ok_def receipts_total_def
      status_says_def example_po_def example_po_line_def)

lemma example_deliveries:
  "case purchase_receive example_env ''po1'' (deliver [10, 10]) ''u1'' example_purchases of (Inr d, _) \<Rightarrow> True | _ \<Rightarrow> False"
  "case purchase_receive example_env ''po1'' (deliver [4]) ''u1'' example_purchases of (Inr d, _) \<Rightarrow> True | _ \<Rightarrow> False"
  "find_po example_purchases ''po1'' = Some example_po"
  by code_simp+

theorem received_within_ordered_witness:
  "purchases_ok (run_purchases [(0, example_env, ReceivePurchase ''po1'' (deliver [4]) ''u1''),
     (0, example_env, ReceivePurchase ''po1'' (deliver [7]) ''u1''), (0, example_env, ReceivePurchase ''po1'' (deliver [6]) ''u1'')]
     example_purchases)"
  by (rule received_within_ordered [OF example_purchases_ok(1)]) (simp add: proper_delivery_def deliver_def)

theorem delivery_effect_witness:
  "\<exists>d db'. purchase_receive example_env ''po1'' (deliver [4]) ''u1'' example_purchases = (Inr d, db')
     \<and> on_hand (puStock db') (''b1'', ''i1'') = on_hand example_stock (''b1'', ''i1'') + 4
     \<and> length (stockMovements (puStock db')) = length (stockMovements example_stock) + 1
     \<and> map pl_quantityReceived (puLines db') = [4] \<and> map_option po_status (find_po db' ''po1'') = Some PO_PARTIALLY_RECEIVED"
proof -
  obtain d db' where run: "purchase_receive example_env ''po1'' (deliver [4]) ''u1'' example_purchases = (Inr d, db')"
    using example_deliveries(2) by (auto split: prod.splits sum.splits)
  have read: "receive_read ''po1'' (deliver [4]) example_purchases = Inr (example_po, [example_po_line])"
    by code_simp
  let ?d = "\<lparr>rd_purchaseOrderLineId = ''l1'', rd_quantityReceived = 4, rd_unitCost = None\<rparr>"
  have "rd_lines (deliver [4]) = [?d]" by (simp add: deliver_def)
  moreover have "pl_stockItemId (line_read [example_po_line] ?d) = ''i1''" "po_branchId example_po = ''b1''"
    "map (booked_line [example_po_line] [?d]) (puLines example_purchases) = [example_po_line\<lparr>pl_quantityReceived := 4\<rparr>]"
    "puStock example_purchases = example_stock"
    by (simp_all add: line_read_def find_row_def example_po_line_def example_po_def example_purchases_def booked_line_def last_for_def)
  ultimately have facts: "on_hand (puStock db') (''b1'', ''i1'') = on_hand example_stock (''b1'', ''i1'') + 4"
    "length (stockMovements (puStock db')) = length (stockMovements example_stock) + 1"
    "puLines db' = [example_po_line\<lparr>pl_quantityReceived := 4\<rparr>]"
    "map_option po_status (find_po db' ''po1'')
      = Some (if list_all line_done (lines_of db' ''po1'') then PO_RECEIVED else PO_PARTIALLY_RECEIVED)"
    using delivery_effect [OF run example_purchases_ok(2)] read
    by (auto simp: single_def dest: list_all2_lengthD)
  then have "\<not> list_all line_done (lines_of db' ''po1'')" by (simp add: lines_of_def line_done_def example_po_line_def)
  with facts run show ?thesis by simp
qed

theorem repeated_line_overstocks_witness:
  "\<exists>d db'. purchase_receive example_env ''po1'' (deliver [10, 10]) ''u1'' example_purchases = (Inr d, db')
     \<and> map_option pl_quantityReceived (find_row pl_id (puLines db') ''l1'') = Some 10
     \<and> on_hand (puStock db') (''b1'', ''i1'') = on_hand example_stock (''b1'', ''i1'') + 20"
proof -
  obtain d db' where run: "purchase_receive example_env ''po1'' (deliver [10, 10]) ''u1'' example_purchases = (Inr d, db')"
    using example_deliveries(1) by (auto split: prod.splits sum.splits)
  let ?d = "\<lparr>rd_purchaseOrderLineId = ''l1'', rd_quantityReceived = 10, rd_unitCost = None\<rparr>"
  have "rd_lines (deliver [10, 10]) = [?d, ?d]" "rd_purchaseOrderLineId ?d = pl_id example_po_line"
    "example_po_line \<in> set (puLines example_purchases)"
    by (simp_all add: deliver_def example_po_line_def example_purchases_def)
  from repeated_line_overstocks [OF run example_purchases_ok this(1,2,2,3) example_deliveries(3)]
  have "map_option pl_quantityReceived (find_row pl_id (puLines db') ''l1'') = Some 10"
    "on_hand (puStock db') (''b1'', ''i1'') = on_hand example_stock (''b1'', ''i1'') + 20"
    by (simp_all add: example_po_line_def example_po_def example_purchases_def)
  with run show ?thesis by blast
qed

lemma example_overlap:
  "receive_read ''po1'' (deliver [10]) example_purchases = Inr (example_po, [example_po_line])"
  "case receive_write example_env example_po [example_po_line] (deliver [10]) ''u1'' example_purchases of
     (Inr d, db1) \<Rightarrow> (case receive_write example_env example_po [example_po_line] (deliver [10]) ''u2'' db1 of
       (Inr d, db2) \<Rightarrow> True | _ \<Rightarrow> False) | _ \<Rightarrow> False"
  by code_simp+

theorem overlapping_deliveries_overstock_witness:
  "\<exists>d1 db1 d2 db2. receive_write example_env example_po [example_po_line] (deliver [10]) ''u1'' example_purchases = (Inr d1, db1)
     \<and> receive_write example_env example_po [example_po_line] (deliver [10]) ''u2'' db1 = (Inr d2, db2)
     \<and> on_hand (puStock db2) (''b1'', ''i1'') = on_hand (puStock example_purchases) (''b1'', ''i1'') + 10 + 10"
proof -
  let ?d = "\<lparr>rd_purchaseOrderLineId = ''l1'', rd_quantityReceived = 10, rd_unitCost = None\<rparr>"
  obtain d1 db1 d2 db2 where puts: "receive_write example_env example_po [example_po_line] (deliver [10]) ''u1'' example_purchases = (Inr d1, db1)"
    "receive_write example_env example_po [example_po_line] (deliver [10]) ''u2'' db1 = (Inr d2, db2)"
    using example_overlap(2) by (auto split: prod.splits sum.splits)
  have "rd_lines (deliver [10]) = [?d]" "pl_id example_po_line = rd_purchaseOrderLineId ?d" "example_po_line \<in> set (puLines example_purchases)"
    by (simp_all add: deliver_def example_po_line_def example_purchases_def)
  from overlapping_deliveries_overstock [OF example_purchases_ok example_overlap(1,1) this(1,1) this(2) [symmetric] this(2) [symmetric] puts this(3)]
  have "on_hand (puStock db2) (''b1'', ''i1'') = on_hand (puStock example_purchases) (''b1'', ''i1'') + 10 + 10"
    by (simp add: example_po_def example_po_line_def)
  with puts show ?thesis by blast
qed

lemma example_failure:
  "receive_read ''po1'' (deliver [10]) inactive_item = Inr (example_po, [example_po_line])"
  "case receive_tx example_env example_po [example_po_line] (deliver [10]) ''u1'' inactive_item of
     Inr (r, db1) \<Rightarrow> list_all line_done (lines_of db1 ''po1'') \<and> (case lines_of db1 ''po1'' of l # _ \<Rightarrow> 0 < pl_quantityReceived l | _ \<Rightarrow> False)
   | _ \<Rightarrow> False"
  "case receive_stock example_env ''u1'' (map (delivery_receipt example_po [example_po_line] None) (rd_lines (deliver [10]))) (puStock inactive_item)
   of (Inl e, s) \<Rightarrow> True | _ \<Rightarrow> False"
  by code_simp+

theorem failed_stock_receipt_is_final_witness:
  "\<exists>e db2. purchase_receive example_env ''po1'' (deliver [10]) ''u1'' inactive_item = (Inl e, db2)
     \<and> (\<exists>e'. purchase_receive example_env ''po1'' (deliver [1]) ''u1'' db2 = (Inl e', db2))
     \<and> (\<exists>e'. purchase_cancel example_env ''po1'' None db2 = (Inl e', db2))"
proof -
  obtain r db1 where tx: "receive_tx example_env example_po [example_po_line] (deliver [10]) ''u1'' inactive_item = Inr (r, db1)"
    "list_all line_done (lines_of db1 ''po1'')" "\<exists>l\<in>set (lines_of db1 ''po1''). 0 < pl_quantityReceived l"
    using example_failure(2) by (auto split: sum.splits prod.splits list.splits)
  obtain e s where stock: "receive_stock example_env ''u1''
      (map (delivery_receipt example_po [example_po_line] (rd_note (deliver [10]))) (rd_lines (deliver [10]))) (puStock inactive_item) = (Inl e, s)"
    using example_failure(3) by (auto simp: deliver_def split: sum.splits prod.splits)
  have "rd_lines (deliver [1]) \<noteq> []" "list_all (\<lambda>d. 0 < rd_quantityReceived d) (rd_lines (deliver [1]))"
    by (simp_all add: deliver_def)
  from failed_stock_receipt_is_final [OF example_failure(1) tx stock this, of example_env "''u1''" None] show ?thesis by blast
qed

end
