(* ===== verification/Commissions.thy ===== *)
theory Commissions
  imports Payment_Gateway Loans
begin

text \<open>
  Commissions: the rules (\<open>src/commissions/commission-rules.service.ts\<close>), the payouts that orders
  and journal payments earn and their release (\<open>commission-earning.service.ts\<close>), the periodic scan
  (\<open>commission-earning.cron.ts\<close>) and the payouts' report and settlement
  (\<open>commission-payouts.service.ts\<close>). The store of this theory is shared with the debt holds and the
  payroll. The driver an order was transferred from, a column only commissions and holds use, is
  kept beside the order table. The flag that keeps two scans from overlapping, and the log, are left
  out; rows that a query returns without an order come in table order.
\<close>

datatype commission_mode = CM_SALE | CM_COLLECTION
datatype calculation_base = ORDER_TOTAL | INVOICE_TOTAL | NET_AFTER_KNET | EXCLUDE_SUBSCRIPTIONS
datatype payout_timing = IMMEDIATE | AFTER_COLLECTION | END_OF_MONTH
datatype payout_status = PAYOUT_PENDING | PAYOUT_RELEASED | PAYOUT_PAID | PAYOUT_CANCELLED
datatype knet_rule = HIGHER_OF_FLAT_AND_PERCENT | FLAT_ONLY | PERCENT_ONLY

record commission_rule =
  ru_id :: uuid
  ru_name :: string
  ru_isActive :: bool
  ru_role :: "safari_role option"
  ru_mode :: commission_mode
  ru_calculationBase :: calculation_base
  ru_percentage :: decimal
  ru_minInvoiceAmount :: decimal
  ru_payoutTiming :: payout_timing
  ru_linkedToDebt :: bool
  ru_updatedAt :: timestamp

record commission_payout =
  py_id :: uuid
  py_ruleId :: uuid
  py_earnerUserId :: uuid
  py_mode :: commission_mode
  py_basisAmount :: decimal
  py_percentage :: decimal
  py_amount :: decimal
  py_status :: payout_status
  py_sourceOrderId :: "uuid option"
  py_sourceJournalEntryId :: "uuid option"
  py_payrollId :: "uuid option"
  py_earnedAt :: timestamp
  py_releasedAt :: "timestamp option"
  py_paidAt :: "timestamp option"
  py_cancelledAt :: "timestamp option"
  py_cancelReason :: "string option"

record fee_config =
  fc_knetFlatKd :: decimal
  fc_knetPercentOfGross :: decimal
  fc_knetRule :: knet_rule
  fc_cardPercentOfGross :: decimal

datatype hold_mode = HOLD_FULL | HOLD_FIXED

record hold_policy =
  hp_isActive :: bool
  hp_holdMode :: hold_mode
  hp_fixedAmount :: "decimal option"

record debt_hold =
  dh_id :: uuid
  dh_employeeUserId :: uuid
  dh_payrollId :: "uuid option"
  dh_debtAmount :: decimal
  dh_holdAmount :: decimal
  dh_releasedAmount :: decimal
  dh_released :: bool
  dh_releaseDate :: "timestamp option"
  dh_disbursedAt :: "timestamp option"
  dh_disbursedById :: "uuid option"
  dh_note :: string
  dh_createdAt :: timestamp

record payroll_row =
  pw_id :: uuid
  pw_userId :: uuid
  pw_branchId :: uuid
  pw_basicSalary :: decimal
  pw_allowances :: decimal
  pw_deductions :: decimal
  pw_commissionAmount :: decimal
  pw_debtHoldAmount :: decimal
  pw_debtReleaseAmount :: decimal
  pw_loanDeduction :: decimal
  pw_paymentDate :: timestamp
  pw_paid :: bool

record ad_hoc_line =
  ah_id :: uuid
  ah_branchId :: uuid
  ah_periodYm :: string
  ah_lineSort :: int
  ah_beneficiaryName :: string
  ah_bankName :: "string option"
  ah_bankIban :: "string option"
  ah_basicSalary :: decimal
  ah_allowances :: decimal
  ah_deductions :: decimal
  ah_note :: "string option"
  ah_createdAt :: timestamp

record staff_db =
  sfLedger :: ledger_db
  sfTransferredFrom :: "uuid \<Rightarrow> uuid option"
  sfCommissionEnabled :: bool
  sfFees :: fee_config
  sfRules :: "commission_rule list"
  sfPayouts :: "commission_payout list"
  sfHoldPolicy :: hold_policy
  sfHolds :: "debt_hold list"
  sfLoans :: "loan list"
  sfPayrolls :: "payroll_row list"
  sfAdHoc :: "ad_hoc_line list"

subsection \<open>Rules\<close>

definition assertCanReadRules :: "safari_role \<Rightarrow> unit result" where
  "assertCanReadRules role = guardE (role \<in> {OWNER, GENERAL_MANAGER, ACCOUNTANT}) (ForbiddenException ''Forbidden'')"

definition assertOwnerWrites :: "safari_role \<Rightarrow> unit result" where
  "assertOwnerWrites role = guardE (role = OWNER) (ForbiddenException ''Forbidden'')"

text \<open>\<open>orderBy: [{ isActive: 'desc' }, { updatedAt: 'desc' }]\<close>: the second key is sorted first.\<close>

definition by_activity :: "commission_rule list \<Rightarrow> commission_rule list" where
  "by_activity rs = sort_key (\<lambda>r. \<not> ru_isActive r) (sort_key (\<lambda>r. - ru_updatedAt r) rs)"

definition rules_list :: "safari_role \<Rightarrow> commission_mode option \<Rightarrow> staff_db \<Rightarrow> commission_rule list result" where
  "rules_list role mode db = bindE (assertCanReadRules role) (\<lambda>_.
     Inr (by_activity (filter (\<lambda>r. mode = None \<or> mode = Some (ru_mode r)) (sfRules db))))"

definition rules_findOne :: "safari_role \<Rightarrow> uuid \<Rightarrow> staff_db \<Rightarrow> commission_rule result" where
  "rules_findOne role i db = bindE (assertCanReadRules role) (\<lambda>_. case find_row ru_id (sfRules db) i of
     None \<Rightarrow> Inl (NotFoundException ''Commission rule not found'') | Some r \<Rightarrow> Inr r)"

record rule_dto =
  rd_name :: string
  rd_isActive :: "bool option"
  rd_role :: "safari_role option"
  rd_mode :: commission_mode
  rd_calculationBase :: "calculation_base option"
  rd_percentage :: decimal
  rd_minInvoiceAmount :: "decimal option"
  rd_payoutTiming :: "payout_timing option"
  rd_linkedToDebt :: "bool option"

definition rule_row :: "env \<Rightarrow> uuid \<Rightarrow> rule_dto \<Rightarrow> commission_rule" where
  "rule_row env i dto = \<lparr>ru_id = i, ru_name = rd_name dto, ru_isActive = nullish (rd_isActive dto) True,
     ru_role = rd_role dto, ru_mode = rd_mode dto, ru_calculationBase = nullish (rd_calculationBase dto) ORDER_TOTAL,
     ru_percentage = dec4 (rd_percentage dto), ru_minInvoiceAmount = dec4 (nullish (rd_minInvoiceAmount dto) 0),
     ru_payoutTiming = nullish (rd_payoutTiming dto) IMMEDIATE, ru_linkedToDebt = nullish (rd_linkedToDebt dto) False,
     ru_updatedAt = now env\<rparr>"

definition insert_rule :: "(uuid \<Rightarrow> commission_rule) \<Rightarrow> env \<Rightarrow> staff_db \<Rightarrow> commission_rule result \<times> staff_db" where
  "insert_rule row env db = (let i = new_uuid env (length (sfRules db)) in
     if i \<in> ru_id ` set (sfRules db) then (Inl unique_violation, db)
     else (Inr (row i), db\<lparr>sfRules := sfRules db @ [row i]\<rparr>))"

definition rules_create :: "env \<Rightarrow> safari_role \<Rightarrow> rule_dto \<Rightarrow> staff_db \<Rightarrow> commission_rule result \<times> staff_db" where
  "rules_create env role dto db = bindS (assertOwnerWrites role, db) (\<lambda>_. insert_rule (\<lambda>i. rule_row env i dto) env)"

text \<open>An absent field of the update is \<open>None\<close>; the role may be present and \<open>null\<close>.\<close>

record rule_update =
  uu_name :: "string option"
  uu_isActive :: "bool option"
  uu_role :: "safari_role option option"
  uu_mode :: "commission_mode option"
  uu_calculationBase :: "calculation_base option"
  uu_percentage :: "decimal option"
  uu_minInvoiceAmount :: "decimal option"
  uu_payoutTiming :: "payout_timing option"
  uu_linkedToDebt :: "bool option"

definition updated_rule :: "env \<Rightarrow> rule_update \<Rightarrow> commission_rule \<Rightarrow> commission_rule" where
  "updated_rule env dto r = \<lparr>ru_id = ru_id r, ru_name = nullish (uu_name dto) (ru_name r),
     ru_isActive = nullish (uu_isActive dto) (ru_isActive r), ru_role = nullish (uu_role dto) (ru_role r),
     ru_mode = nullish (uu_mode dto) (ru_mode r), ru_calculationBase = nullish (uu_calculationBase dto) (ru_calculationBase r),
     ru_percentage = nullish (map_option dec4 (uu_percentage dto)) (ru_percentage r),
     ru_minInvoiceAmount = nullish (map_option dec4 (uu_minInvoiceAmount dto)) (ru_minInvoiceAmount r),
     ru_payoutTiming = nullish (uu_payoutTiming dto) (ru_payoutTiming r),
     ru_linkedToDebt = nullish (uu_linkedToDebt dto) (ru_linkedToDebt r), ru_updatedAt = now env\<rparr>"

definition change_rule :: "uuid \<Rightarrow> (commission_rule \<Rightarrow> commission_rule) \<Rightarrow> staff_db \<Rightarrow> staff_db" where
  "change_rule i f db = db\<lparr>sfRules := update_row ru_id i f (sfRules db)\<rparr>"

definition rules_update :: "env \<Rightarrow> safari_role \<Rightarrow> uuid \<Rightarrow> rule_update \<Rightarrow> staff_db \<Rightarrow> commission_rule result \<times> staff_db" where
  "rules_update env role i dto db = bindS (assertOwnerWrites role, db) (\<lambda>_ db0.
     bindS (rules_findOne role i db0, db0) (\<lambda>r db1. returnS (updated_rule env dto r) (change_rule i (updated_rule env dto) db1)))"

definition rules_remove :: "env \<Rightarrow> safari_role \<Rightarrow> uuid \<Rightarrow> staff_db \<Rightarrow> commission_rule result \<times> staff_db" where
  "rules_remove env role i db = bindS (assertOwnerWrites role, db) (\<lambda>_ db0.
     bindS (rules_findOne role i db0, db0) (\<lambda>r db1.
       returnS (r\<lparr>ru_isActive := False, ru_updatedAt := now env\<rparr>)
         (change_rule i (\<lambda>r. r\<lparr>ru_isActive := False, ru_updatedAt := now env\<rparr>) db1)))"

definition default_rule :: "staff_db \<Rightarrow> commission_rule option" where
  "default_rule db = (case by_activity (filter (\<lambda>r. ru_role r = None) (sfRules db)) of [] \<Rightarrow> None | r # _ \<Rightarrow> Some r)"

definition getDefaultRule :: "safari_role \<Rightarrow> staff_db \<Rightarrow> commission_rule option result" where
  "getDefaultRule role db = bindE (assertCanReadRules role) (\<lambda>_. Inr (default_rule db))"

text \<open>\<open>fallback\<close> is the Arabic name of the default rule.\<close>

definition upsertDefaultRule :: "env \<Rightarrow> string \<Rightarrow> safari_role \<Rightarrow> rule_dto \<Rightarrow> staff_db \<Rightarrow> commission_rule result \<times> staff_db" where
  "upsertDefaultRule env fallback role dto db = bindS (assertOwnerWrites role, db) (\<lambda>_ db0.
     let row = (\<lambda>i. (rule_row env i dto)\<lparr>ru_name := (if rd_name dto = [] then fallback else rd_name dto), ru_role := None\<rparr>)
     in case default_rule db0 of
         Some r \<Rightarrow> returnS (row (ru_id r)) (change_rule (ru_id r) (\<lambda>_. row (ru_id r)) db0)
       | None \<Rightarrow> insert_rule row env db0)"

subsection \<open>Earning\<close>

definition computeOrderBankFeeKd :: "decimal \<Rightarrow> pos_payment_method option \<Rightarrow> fee_config \<Rightarrow> decimal" where
  "computeOrderBankFeeKd gross method cfg = (case method of
       None \<Rightarrow> 0
     | Some PM_CASH \<Rightarrow> 0
     | Some SUBSCRIPTION_WALLET \<Rightarrow> 0
     | Some DEBT_ON_ACCOUNT \<Rightarrow> 0
     | Some PM_KNET \<Rightarrow> (case fc_knetRule cfg of
           FLAT_ONLY \<Rightarrow> fc_knetFlatKd cfg
         | PERCENT_ONLY \<Rightarrow> gross * fc_knetPercentOfGross cfg
         | HIGHER_OF_FLAT_AND_PERCENT \<Rightarrow>
             if gross * fc_knetPercentOfGross cfg < fc_knetFlatKd cfg then fc_knetFlatKd cfg
             else gross * fc_knetPercentOfGross cfg)
     | Some PAYMENT_LINK \<Rightarrow> gross * fc_cardPercentOfGross cfg
     | Some PM_ONLINE \<Rightarrow> gross * fc_cardPercentOfGross cfg)"

definition computeBasisForSale :: "decimal \<Rightarrow> pos_payment_method option \<Rightarrow> uuid option \<Rightarrow> calculation_base \<Rightarrow> fee_config \<Rightarrow> decimal" where
  "computeBasisForSale totalPrice method subscriptionId base feeConfig = (case base of
       ORDER_TOTAL \<Rightarrow> totalPrice
     | INVOICE_TOTAL \<Rightarrow> totalPrice
     | NET_AFTER_KNET \<Rightarrow> totalPrice - computeOrderBankFeeKd totalPrice method feeConfig
     | EXCLUDE_SUBSCRIPTIONS \<Rightarrow> if str_truthy subscriptionId then 0 else totalPrice)"

text \<open>The rules of the earner's role, or, when there is none, the rules without a role.\<close>

definition pickActiveRules :: "staff_db \<Rightarrow> commission_mode \<Rightarrow> safari_role \<Rightarrow> commission_rule list" where
  "pickActiveRules db mode role =
     (let active = sort_key (\<lambda>r. - ru_updatedAt r) (filter (\<lambda>r. ru_mode r = mode \<and> ru_isActive r) (sfRules db));
          specific = filter (\<lambda>r. ru_role r = Some role) active
      in if specific \<noteq> [] then specific else filter (\<lambda>r. ru_role r = None) active)"

text \<open>The unique indexes on the source, the rule and the earner; a null source is not compared.\<close>

definition same_source :: "commission_payout \<Rightarrow> commission_payout \<Rightarrow> bool" where
  "same_source p q \<longleftrightarrow> py_ruleId p = py_ruleId q \<and> py_earnerUserId p = py_earnerUserId q
     \<and> (py_sourceOrderId p \<noteq> None \<and> py_sourceOrderId p = py_sourceOrderId q
        \<or> py_sourceJournalEntryId p \<noteq> None \<and> py_sourceJournalEntryId p = py_sourceJournalEntryId q)"

definition create_payout :: "env \<Rightarrow> (uuid \<Rightarrow> commission_payout) \<Rightarrow> staff_db \<Rightarrow> unit result \<times> staff_db" where
  "create_payout env row db = (let p = row (new_uuid env (length (sfPayouts db))) in
     if list_ex (\<lambda>q. py_id q = py_id p \<or> same_source q p) (sfPayouts db) then (Inl unique_violation, db)
     else (Inr (), db\<lparr>sfPayouts := sfPayouts db @ [p]\<rparr>))"

text \<open>\<open>catch\<close>: a violated unique constraint is a replay and is skipped.\<close>

definition skip_replay :: "unit result \<times> staff_db \<Rightarrow> unit result \<times> staff_db" where
  "skip_replay m = (case fst m of Inl (KnownRequestError code msg) \<Rightarrow> if code = ''P2002'' then (Inr (), snd m) else m | _ \<Rightarrow> m)"

definition payout_row :: "env \<Rightarrow> commission_rule \<Rightarrow> uuid \<Rightarrow> commission_mode \<Rightarrow> decimal \<Rightarrow> uuid option \<Rightarrow> uuid option \<Rightarrow>
    uuid \<Rightarrow> commission_payout" where
  "payout_row env rule earner mode basis order entry i = (let releaseNow = (ru_payoutTiming rule = IMMEDIATE) in
     \<lparr>py_id = i, py_ruleId = ru_id rule, py_earnerUserId = earner, py_mode = mode, py_basisAmount = dec4 basis,
      py_percentage = ru_percentage rule, py_amount = dec4 (basis * ru_percentage rule / 100),
      py_status = (if releaseNow then PAYOUT_RELEASED else PAYOUT_PENDING), py_sourceOrderId = order,
      py_sourceJournalEntryId = entry, py_payrollId = None, py_earnedAt = now env,
      py_releasedAt = (if releaseNow then Some (now env) else None), py_paidAt = None, py_cancelledAt = None,
      py_cancelReason = None\<rparr>)"

fun earn_sale_rules :: "env \<Rightarrow> ledger_order \<Rightarrow> uuid \<Rightarrow> commission_rule list \<Rightarrow> staff_db \<Rightarrow> unit result \<times> staff_db" where
  "earn_sale_rules env order earner [] db = (Inr (), db)"
| "earn_sale_rules env order earner (rule # rules) db =
     (let basis = computeBasisForSale (lo_totalPrice order) (lo_posPaymentMethod order) (lo_subscriptionId order)
            (ru_calculationBase rule) (sfFees db) in
      if basis \<le> 0 \<or> basis < ru_minInvoiceAmount rule then earn_sale_rules env order earner rules db
      else bindS (skip_replay (create_payout env (payout_row env rule earner CM_SALE basis (Some (lo_id order)) None) db))
        (\<lambda>_. earn_sale_rules env order earner rules))"

text \<open>The earner: the driver the order was transferred from, else its driver.\<close>

definition earner_of :: "staff_db \<Rightarrow> ledger_order \<Rightarrow> uuid option" where
  "earner_of db order = (case sfTransferredFrom db (lo_id order) of Some u \<Rightarrow> Some u | None \<Rightarrow> lo_driverId order)"

definition earner_row :: "staff_db \<Rightarrow> ledger_order \<Rightarrow> user_row option" where
  "earner_row db order = (case earner_of db order of None \<Rightarrow> None
     | Some u \<Rightarrow> if u = [] then None else find_actor (sfLedger db) u)"

definition earnForOrder :: "env \<Rightarrow> uuid \<Rightarrow> staff_db \<Rightarrow> unit result \<times> staff_db" where
  "earnForOrder env orderId db =
     (if \<not> sfCommissionEnabled db then (Inr (), db)
      else case find_ledger_order (sfLedger db) orderId of
        None \<Rightarrow> (Inr (), db)
      | Some order \<Rightarrow> (case earner_row db order of
          None \<Rightarrow> (Inr (), db)
        | Some earner \<Rightarrow> earn_sale_rules env order (us_id earner) (pickActiveRules db CM_SALE (us_role earner)) db))"

definition entry_row :: "ledger_db \<Rightarrow> uuid \<Rightarrow> journal_entry option" where
  "entry_row db i = find_row je_id (journalEntries db) i"

definition wallet_absorption :: "journal_line \<Rightarrow> bool" where
  "wallet_absorption l = (let m = json_fields (jl_meta l) in
     map_of m ''origin'' = Some (JString ''WALLET_ABSORPTION'') \<or> map_of m ''event'' = Some (JString ''WALLET_ABSORPTION'')
     \<or> map_of m ''event'' = Some (JString ''WALLET_ABSORPTION_V3''))"

definition collection_basis :: "ledger_db \<Rightarrow> journal_entry \<Rightarrow> decimal" where
  "collection_basis db e = (\<Sum>l\<leftarrow>filter (\<lambda>l. \<not> wallet_absorption l) (filter (line_on db ''1300'') (je_lines e)). jl_credit l)"

fun earn_collection_rules :: "env \<Rightarrow> journal_entry \<Rightarrow> decimal \<Rightarrow> uuid \<Rightarrow> commission_rule list \<Rightarrow> staff_db \<Rightarrow> unit result \<times> staff_db" where
  "earn_collection_rules env entry basis earner [] db = (Inr (), db)"
| "earn_collection_rules env entry basis earner (rule # rules) db =
     (if basis < ru_minInvoiceAmount rule then earn_collection_rules env entry basis earner rules db
      else bindS (skip_replay (create_payout env (payout_row env rule earner CM_COLLECTION basis None (Some (je_id entry))) db))
        (\<lambda>_. earn_collection_rules env entry basis earner rules))"

definition earnForJournalPayment :: "env \<Rightarrow> uuid \<Rightarrow> staff_db \<Rightarrow> unit result \<times> staff_db" where
  "earnForJournalPayment env entryId db =
     (if \<not> sfCommissionEnabled db then (Inr (), db)
      else case entry_row (sfLedger db) entryId of
        None \<Rightarrow> (Inr (), db)
      | Some entry \<Rightarrow>
          let basis = collection_basis (sfLedger db) entry in
          if je_source entry \<noteq> ''PAYMENT'' \<or> \<not> str_truthy (je_orderId entry) \<or> basis \<le> 0 then (Inr (), db)
          else (case find_ledger_order (sfLedger db) (nullish (je_orderId entry) []) of
            None \<Rightarrow> (Inr (), db)
          | Some order \<Rightarrow> (case earner_row db order of
              None \<Rightarrow> (Inr (), db)
            | Some earner \<Rightarrow> if je_id entry = [] then (Inr (), db)
                else earn_collection_rules env entry basis (us_id earner)
                  (pickActiveRules db CM_COLLECTION (us_role earner)) db)))"

subsection \<open>Release and cancellation\<close>

definition update_payouts :: "(commission_payout \<Rightarrow> bool) \<Rightarrow> (commission_payout \<Rightarrow> commission_payout) \<Rightarrow> staff_db \<Rightarrow> nat \<times> staff_db" where
  "update_payouts hit f db = (length (filter hit (sfPayouts db)),
     db\<lparr>sfPayouts := map (\<lambda>p. if hit p then f p else p) (sfPayouts db)\<rparr>)"

definition timing_of :: "staff_db \<Rightarrow> commission_payout \<Rightarrow> payout_timing option" where
  "timing_of db p = map_option ru_payoutTiming (find_row ru_id (sfRules db) (py_ruleId p))"

definition release_payout :: "env \<Rightarrow> commission_payout \<Rightarrow> commission_payout" where
  "release_payout env p = p\<lparr>py_status := PAYOUT_RELEASED, py_releasedAt := Some (now env)\<rparr>"

definition releaseAfterCollectionForOrder :: "env \<Rightarrow> uuid \<Rightarrow> staff_db \<Rightarrow> nat \<times> staff_db" where
  "releaseAfterCollectionForOrder env orderId db =
     (if (case find_ledger_order (sfLedger db) orderId of None \<Rightarrow> False | Some r \<Rightarrow> lo_posPaymentMethod r = Some SUBSCRIPTION_WALLET)
      then (0, db)
      else update_payouts (\<lambda>p. py_sourceOrderId p = Some orderId \<and> py_status p = PAYOUT_PENDING
        \<and> timing_of db p = Some AFTER_COLLECTION) (release_payout env) db)"

definition releaseEndOfMonth :: "env \<Rightarrow> timestamp \<Rightarrow> staff_db \<Rightarrow> nat \<times> staff_db" where
  "releaseEndOfMonth env asOf db = update_payouts (\<lambda>p. py_status p = PAYOUT_PENDING \<and> py_earnedAt p \<le> asOf
     \<and> timing_of db p = Some END_OF_MONTH) (release_payout env) db"

definition cancelForOrder :: "env \<Rightarrow> uuid \<Rightarrow> string \<Rightarrow> staff_db \<Rightarrow> nat \<times> staff_db" where
  "cancelForOrder env orderId reason db = update_payouts (\<lambda>p. py_sourceOrderId p = Some orderId \<and> py_status p \<noteq> PAYOUT_PAID)
     (\<lambda>p. p\<lparr>py_status := PAYOUT_CANCELLED, py_cancelledAt := Some (now env), py_cancelReason := Some reason\<rparr>) db"

subsection \<open>The periodic scan\<close>

definition SCAN_MINUTES :: int where "SCAN_MINUTES = 30"

text \<open>One call for each identifier; a failing one is logged and the scan goes on.\<close>

fun scan_each :: "(uuid \<Rightarrow> staff_db \<Rightarrow> unit result \<times> staff_db) \<Rightarrow> uuid list \<Rightarrow> staff_db \<Rightarrow> staff_db" where
  "scan_each earn [] db = db"
| "scan_each earn (i # ids) db = scan_each earn ids (snd (earn i db))"

definition scanCompletedOrders :: "env \<Rightarrow> timestamp \<Rightarrow> staff_db \<Rightarrow> staff_db" where
  "scanCompletedOrders env since db = scan_each (earnForOrder env) (map lo_id (take 500 (filter (\<lambda>r.
     lo_status r = ORDER_COMPLETED \<and> (case lo_completedAt r of None \<Rightarrow> False | Some t \<Rightarrow> since \<le> t)) (lgOrders (sfLedger db))))) db"

definition scanJournalPayments :: "env \<Rightarrow> timestamp \<Rightarrow> staff_db \<Rightarrow> staff_db" where
  "scanJournalPayments env since db = scan_each (earnForJournalPayment env) (map je_id (take 500 (filter (\<lambda>e.
     je_source e = ''PAYMENT'' \<and> je_orderId e \<noteq> None \<and> since \<le> je_createdAt e) (journalEntries (sfLedger db))))) db"

definition order_rest :: "env \<Rightarrow> staff_db \<Rightarrow> uuid \<Rightarrow> decimal" where
  "order_rest env db i = nullish (computeOrderRemainingBalancesBatch env (sfLedger db) True (order_rows (sfLedger db)) [i] i) 0"

definition release_candidates :: "staff_db \<Rightarrow> uuid list" where
  "release_candidates db = take 200 (rev (remdups (rev (List.map_filter (\<lambda>p.
     if py_mode p = CM_SALE \<and> py_status p = PAYOUT_PENDING \<and> timing_of db p = Some AFTER_COLLECTION
     then py_sourceOrderId p else None) (sfPayouts db)))))"

definition release_if_cleared :: "env \<Rightarrow> uuid \<Rightarrow> staff_db \<Rightarrow> staff_db" where
  "release_if_cleared env i db =
     (if i \<noteq> [] \<and> order_rest env db i \<le> 1 / 1000 then snd (releaseAfterCollectionForOrder env i db) else db)"

definition releaseAfterCollection :: "env \<Rightarrow> staff_db \<Rightarrow> staff_db" where
  "releaseAfterCollection env db = fold (release_if_cleared env) (release_candidates db) db"

definition doScan :: "env \<Rightarrow> staff_db \<Rightarrow> staff_db" where
  "doScan env db = (let since = now env - SCAN_MINUTES * 60000 in
     if \<not> sfCommissionEnabled db then db
     else releaseAfterCollection env (scanJournalPayments env since (scanCompletedOrders env since db)))"

definition scanEndOfMonth :: "env \<Rightarrow> staff_db \<Rightarrow> staff_db" where
  "scanEndOfMonth env db = (if sfCommissionEnabled db then snd (releaseEndOfMonth env (now env) db) else db)"

subsection \<open>The report and the settlement of payouts\<close>

record payouts_query =
  yq_earnerUserId :: "uuid option"
  yq_status :: "payout_status option"
  yq_from :: timestamp
  yq_to :: timestamp

record payout_totals =
  yt_pending :: decimal
  yt_released :: decimal
  yt_paid :: decimal
  yt_cancelled :: decimal

definition sum_with :: "payout_status \<Rightarrow> commission_payout list \<Rightarrow> decimal" where
  "sum_with s rows = (\<Sum>p\<leftarrow>filter (\<lambda>p. py_status p = s) rows. py_amount p)"

definition totals_of :: "commission_payout list \<Rightarrow> payout_totals" where
  "totals_of rows = \<lparr>yt_pending = dec4 (sum_with PAYOUT_PENDING rows), yt_released = dec4 (sum_with PAYOUT_RELEASED rows),
     yt_paid = dec4 (sum_with PAYOUT_PAID rows), yt_cancelled = dec4 (sum_with PAYOUT_CANCELLED rows)\<rparr>"

text \<open>Each earner once, in the order of the rows.\<close>

definition earners_of :: "commission_payout list \<Rightarrow> uuid list" where
  "earners_of rows = rev (remdups (rev (map py_earnerUserId rows)))"

definition payout_admin :: "safari_role \<Rightarrow> bool" where
  "payout_admin role \<longleftrightarrow> role \<in> {OWNER, GENERAL_MANAGER, ACCOUNTANT, MANAGER}"

definition payouts_list :: "safari_role \<Rightarrow> uuid \<Rightarrow> payouts_query \<Rightarrow> staff_db \<Rightarrow>
    commission_payout list \<times> (uuid \<times> payout_totals) list \<times> payout_totals" where
  "payouts_list role actor q db =
     (let rows = sort_key (\<lambda>p. - py_earnedAt p) (filter (\<lambda>p. yq_from q \<le> py_earnedAt p \<and> py_earnedAt p \<le> yq_to q
            \<and> (yq_status q = None \<or> yq_status q = Some (py_status p))
            \<and> (if payout_admin role then \<not> str_truthy (yq_earnerUserId q) \<or> yq_earnerUserId q = Some (py_earnerUserId p)
               else py_earnerUserId p = actor)) (sfPayouts db));
          totals = map (\<lambda>u. (u, totals_of (filter (\<lambda>p. py_earnerUserId p = u) rows))) (earners_of rows)
      in (rows, totals, \<lparr>yt_pending = (\<Sum>t\<leftarrow>totals. yt_pending (snd t)), yt_released = (\<Sum>t\<leftarrow>totals. yt_released (snd t)),
            yt_paid = (\<Sum>t\<leftarrow>totals. yt_paid (snd t)), yt_cancelled = (\<Sum>t\<leftarrow>totals. yt_cancelled (snd t))\<rparr>))"

definition released_for :: "uuid \<Rightarrow> timestamp \<Rightarrow> commission_payout \<Rightarrow> bool" where
  "released_for u asOf p \<longleftrightarrow> py_earnerUserId p = u \<and> py_status p = PAYOUT_RELEASED
     \<and> (case py_releasedAt p of None \<Rightarrow> False | Some t \<Rightarrow> t \<le> asOf)"

definition sumReleasedForUser :: "uuid \<Rightarrow> timestamp \<Rightarrow> staff_db \<Rightarrow> decimal \<times> uuid list" where
  "sumReleasedForUser u asOf db = (let rows = filter (released_for u asOf) (sfPayouts db) in
     (dec4 (\<Sum>p\<leftarrow>rows. py_amount p), map py_id rows))"

definition markPaidForPayroll :: "env \<Rightarrow> uuid list \<Rightarrow> uuid \<Rightarrow> staff_db \<Rightarrow> nat \<times> staff_db" where
  "markPaidForPayroll env payoutIds payrollId db =
     (if payoutIds = [] then (0, db)
      else update_payouts (\<lambda>p. py_id p \<in> set payoutIds \<and> py_status p = PAYOUT_RELEASED)
        (\<lambda>p. p\<lparr>py_status := PAYOUT_PAID, py_paidAt := Some (now env), py_payrollId := Some payrollId\<rparr>) db)"

end
