(* ===== verification/Payroll.thy ===== *)
theory Payroll
  imports Commissions Clock "HOL-Library.Char_ord" "HOL-Library.List_Lexorder"
begin

text \<open>
  Debt holds (\<open>src/debt-holds/debt-holds.service.ts\<close>, \<open>debt-holds.summary.ts\<close>) and the payroll
  (\<open>src/payroll/payroll.service.ts\<close>), over the loans, the commissions and the balances of orders.
  A transaction that throws leaves the store as it was. \<open>paymentDate\<close> and the bounds of queries are
  time stamps, already read from their texts. The names of people and branches in the rows are left
  out. Identifiers are compared by their characters, as \<open>localeCompare\<close> does for UUIDs.
\<close>

definition staff_transaction :: "staff_db \<Rightarrow> 'a result \<times> staff_db \<Rightarrow> 'a result \<times> staff_db" where
  "staff_transaction db m = (case fst m of Inl e \<Rightarrow> (Inl e, db) | Inr x \<Rightarrow> m)"

subsection \<open>Debt holds\<close>

definition employee_orders :: "staff_db \<Rightarrow> uuid \<Rightarrow> uuid list" where
  "employee_orders db u = map lo_id (filter (\<lambda>r. lo_driverId r = Some u \<or> sfTransferredFrom db (lo_id r) = Some u)
     (lgOrders (sfLedger db)))"

definition computeOpenDebtForEmployee :: "env \<Rightarrow> uuid \<Rightarrow> staff_db \<Rightarrow> decimal" where
  "computeOpenDebtForEmployee env u db =
     (let ids = employee_orders db u; rem = computeOrderRemainingBalancesBatch env (sfLedger db) True (order_rows (sfLedger db)) ids in
      if ids = [] then 0
      else if isJournalAsSourceEnabled env then (\<Sum>i\<leftarrow>remdups ids. max 0 (nullish (rem i) 0))
      else 0)"

record hold_snapshot =
  hs_debtAmount :: decimal
  hs_holdAmount :: decimal
  hs_holdMode :: hold_mode

definition buildHoldSnapshotForPayroll :: "env \<Rightarrow> uuid \<Rightarrow> staff_db \<Rightarrow> hold_snapshot option" where
  "buildHoldSnapshotForPayroll env u db =
     (let policy = sfHoldPolicy db; debt = computeOpenDebtForEmployee env u db in
      if \<not> hp_isActive policy then None
      else if debt \<le> 0 then None
      else Some \<lparr>hs_debtAmount = debt, hs_holdAmount = (case hp_fixedAmount policy of
             Some cap \<Rightarrow> if hp_holdMode policy = HOLD_FIXED then min debt cap else debt
           | None \<Rightarrow> debt), hs_holdMode = hp_holdMode policy\<rparr>)"

definition insert_hold :: "env \<Rightarrow> uuid \<Rightarrow> uuid option \<Rightarrow> decimal \<Rightarrow> decimal \<Rightarrow> string \<Rightarrow> staff_db \<Rightarrow> debt_hold result \<times> staff_db" where
  "insert_hold env u payroll debt hold text db =
     (let i = new_uuid env (length (sfHolds db));
          h = \<lparr>dh_id = i, dh_employeeUserId = u, dh_payrollId = payroll, dh_debtAmount = dec4 debt, dh_holdAmount = dec4 hold,
            dh_releasedAmount = 0, dh_released = False, dh_releaseDate = None, dh_disbursedAt = None, dh_disbursedById = None,
            dh_note = text, dh_createdAt = now env\<rparr>
      in if i \<in> dh_id ` set (sfHolds db) then (Inl unique_violation, db)
         else (Inr h, db\<lparr>sfHolds := sfHolds db @ [h]\<rparr>))"

definition persistHold :: "env \<Rightarrow> uuid \<Rightarrow> uuid \<Rightarrow> hold_snapshot \<Rightarrow> staff_db \<Rightarrow> debt_hold result \<times> staff_db" where
  "persistHold env u payroll snap db = insert_hold env u (Some payroll) (hs_debtAmount snap) (hs_holdAmount snap)
     (''Auto-hold at payroll cut ('' @ (case hs_holdMode snap of HOLD_FULL \<Rightarrow> ''FULL'' | HOLD_FIXED \<Rightarrow> ''FIXED'') @ '')'') db"

text \<open>
  The loop over the held slips: the debt that is still open covers slips one after the other, and
  what it does not cover is released. The result lists each slip with its new released amount.
\<close>

definition still_held :: "debt_hold \<Rightarrow> decimal" where
  "still_held h = dh_holdAmount h - dh_releasedAmount h"

fun release_plan :: "decimal \<Rightarrow> debt_hold list \<Rightarrow> (uuid \<times> decimal) list" where
  "release_plan leftToCover [] = []"
| "release_plan leftToCover (h # hs) =
     (if still_held h \<le> 0 then release_plan leftToCover hs
      else if still_held h \<le> leftToCover then release_plan (leftToCover - still_held h) hs
      else (dh_id h, dh_releasedAmount h + (still_held h - leftToCover)) # release_plan 0 hs)"

definition release_slip :: "env \<Rightarrow> (uuid \<times> decimal) list \<Rightarrow> debt_hold \<Rightarrow> debt_hold" where
  "release_slip env plan h = (case map_of plan (dh_id h) of None \<Rightarrow> h
     | Some newReleased \<Rightarrow> h\<lparr>dh_releasedAmount := dec4 newReleased, dh_released := (dh_holdAmount h \<le> newReleased),
         dh_releaseDate := (if dh_holdAmount h \<le> newReleased then Some (now env) else None)\<rparr>)"

definition held_slips :: "uuid \<Rightarrow> staff_db \<Rightarrow> debt_hold list" where
  "held_slips u db = sort_key dh_id (filter (\<lambda>h. dh_employeeUserId h = u \<and> \<not> dh_released h) (sfHolds db))"

definition releaseSettledHolds :: "env \<Rightarrow> uuid \<Rightarrow> staff_db \<Rightarrow> uuid list \<times> staff_db" where
  "releaseSettledHolds env u db = (let plan = release_plan (computeOpenDebtForEmployee env u db) (held_slips u db) in
     (map fst plan, db\<lparr>sfHolds := map (release_slip env plan) (sfHolds db)\<rparr>))"

record hold_totals =
  ht_held :: decimal
  ht_pending :: decimal
  ht_disbursed :: decimal

definition hold_sums :: "debt_hold list \<Rightarrow> hold_totals" where
  "hold_sums rows = \<lparr>ht_held = (\<Sum>h\<leftarrow>filter (\<lambda>h. \<not> dh_released h) rows. dh_holdAmount h),
     ht_pending = (\<Sum>h\<leftarrow>filter (\<lambda>h. dh_released h \<and> dh_disbursedAt h = None) rows. dh_releasedAmount h),
     ht_disbursed = (\<Sum>h\<leftarrow>filter (\<lambda>h. dh_released h \<and> dh_disbursedAt h \<noteq> None) rows. dh_releasedAmount h)\<rparr>"

record hold_bucket =
  hb_employeeUserId :: uuid
  hb_totals :: hold_totals
  hb_heldIds :: "uuid list"
  hb_pendingIds :: "uuid list"

definition summariseDebtHolds :: "debt_hold list \<Rightarrow> debt_hold list \<times> hold_totals \<times> hold_bucket list" where
  "summariseDebtHolds rows = (rows, hold_sums rows,
     sort_key (\<lambda>b. - ht_held (hb_totals b)) (map (\<lambda>u. let mine = filter (\<lambda>h. dh_employeeUserId h = u) rows in
       \<lparr>hb_employeeUserId = u, hb_totals = hold_sums mine, hb_heldIds = map dh_id (filter (\<lambda>h. \<not> dh_released h) mine),
        hb_pendingIds = map dh_id (filter (\<lambda>h. dh_released h \<and> dh_disbursedAt h = None) mine)\<rparr>)
       (rev (remdups (rev (map dh_employeeUserId rows))))))"

record holds_query =
  hq_status :: "bool option"
  hq_from :: "timestamp option"
  hq_to :: "timestamp option"
  hq_employeeUserId :: "uuid option"

definition holds_list :: "safari_role \<Rightarrow> uuid \<Rightarrow> holds_query \<Rightarrow> staff_db \<Rightarrow> debt_hold list \<times> hold_totals \<times> hold_bucket list" where
  "holds_list role actor q db = summariseDebtHolds (sort_key (\<lambda>h. - dh_createdAt h) (filter (\<lambda>h.
     (hq_status q = None \<or> hq_status q = Some (dh_released h))
     \<and> (case hq_from q of None \<Rightarrow> True | Some t \<Rightarrow> t \<le> dh_createdAt h) \<and> (case hq_to q of None \<Rightarrow> True | Some t \<Rightarrow> dh_createdAt h \<le> t)
     \<and> (if payout_admin role then \<not> str_truthy (hq_employeeUserId q) \<or> hq_employeeUserId q = Some (dh_employeeUserId h)
        else dh_employeeUserId h = actor)) (sfHolds db)))"

record manual_hold =
  mh_employeeUserId :: uuid
  mh_holdAmount :: decimal
  mh_note :: "string option"
  mh_payrollId :: "uuid option"

definition manual_note :: "manual_hold \<Rightarrow> string" where
  "manual_note dto = nullish (trimmed (mh_note dto)) ''Manual hold (admin-initiated)''"

definition change_payroll :: "uuid \<Rightarrow> (payroll_row \<Rightarrow> payroll_row) \<Rightarrow> staff_db \<Rightarrow> staff_db" where
  "change_payroll i f db = db\<lparr>sfPayrolls := update_row pw_id i f (sfPayrolls db)\<rparr>"

definition linked_hold :: "env \<Rightarrow> manual_hold \<Rightarrow> uuid \<Rightarrow> staff_db \<Rightarrow> debt_hold result \<times> staff_db" where
  "linked_hold env dto payrollId db = (let amount = dec4 (mh_holdAmount dto) in case find_row pw_id (sfPayrolls db) payrollId of
       None \<Rightarrow> throwS (ForbiddenException ''Payroll not found'') db
     | Some payroll \<Rightarrow>
         if pw_userId payroll \<noteq> mh_employeeUserId dto
         then throwS (ForbiddenException ''Payroll does not belong to this employee'') db
         else bindS (insert_hold env (mh_employeeUserId dto) (Some (pw_id payroll)) amount amount (manual_note dto) db)
           (\<lambda>h db1. returnS h (change_payroll (pw_id payroll)
             (\<lambda>r. r\<lparr>pw_debtHoldAmount := dec4 (pw_debtHoldAmount payroll + amount)\<rparr>) db1)))"

definition createManualHold :: "env \<Rightarrow> safari_role \<Rightarrow> manual_hold \<Rightarrow> staff_db \<Rightarrow> debt_hold result \<times> staff_db" where
  "createManualHold env role dto db =
     (if role \<noteq> OWNER then throwS (ForbiddenException ''Only OWNER may create manual holds'') db
      else if mh_holdAmount dto \<le> 0 then throwS (ForbiddenException ''holdAmount must be > 0'') db
      else if \<not> str_truthy (mh_payrollId dto)
      then insert_hold env (mh_employeeUserId dto) None (dec4 (mh_holdAmount dto)) (dec4 (mh_holdAmount dto)) (manual_note dto) db
      else staff_transaction db (linked_hold env dto (nullish (mh_payrollId dto) []) db))"

definition change_hold :: "uuid \<Rightarrow> (debt_hold \<Rightarrow> debt_hold) \<Rightarrow> staff_db \<Rightarrow> staff_db" where
  "change_hold i f db = db\<lparr>sfHolds := update_row dh_id i f (sfHolds db)\<rparr>"

definition releaseManualHold :: "env \<Rightarrow> safari_role \<Rightarrow> uuid \<Rightarrow> staff_db \<Rightarrow> debt_hold result \<times> staff_db" where
  "releaseManualHold env role i db =
     (if role \<noteq> OWNER then throwS (ForbiddenException ''Only OWNER may release holds'') db
      else case find_row dh_id (sfHolds db) i of
        None \<Rightarrow> throwS (ForbiddenException ''Hold not found'') db
      | Some h \<Rightarrow> if dh_released h then (Inr h, db)
          else let f = (\<lambda>x. x\<lparr>dh_released := True, dh_releasedAmount := dh_holdAmount h, dh_releaseDate := Some (now env)\<rparr>)
            in (Inr (f h), change_hold i f db))"

definition markDisbursed :: "env \<Rightarrow> safari_role \<Rightarrow> uuid \<Rightarrow> uuid \<Rightarrow> staff_db \<Rightarrow> debt_hold result \<times> staff_db" where
  "markDisbursed env role actor i db =
     (if role \<noteq> OWNER then throwS (ForbiddenException ''Only OWNER may disburse holds'') db
      else case find_row dh_id (sfHolds db) i of
        None \<Rightarrow> throwS (ForbiddenException ''Hold not found'') db
      | Some h \<Rightarrow> if \<not> dh_released h then throwS (ForbiddenException ''Hold must be RELEASED before it can be disbursed'') db
          else if dh_disbursedAt h \<noteq> None then (Inr h, db)
          else let f = (\<lambda>x. x\<lparr>dh_disbursedAt := Some (now env), dh_disbursedById := Some actor\<rparr>)
            in (Inr (f h), change_hold i f db))"

definition previewForEmployee :: "env \<Rightarrow> safari_role \<Rightarrow> uuid \<Rightarrow> staff_db \<Rightarrow> (bool \<times> decimal \<times> decimal \<times> hold_mode option) result" where
  "previewForEmployee env role u db = bindE (guardE (payout_admin role) (ForbiddenException ''Forbidden'')) (\<lambda>_.
     case buildHoldSnapshotForPayroll env u db of
       None \<Rightarrow> Inr (hp_isActive (sfHoldPolicy db), 0, 0, None)
     | Some s \<Rightarrow> Inr (True, dec4 (hs_debtAmount s), dec4 (hs_holdAmount s), Some (hs_holdMode s)))"

subsection \<open>Payroll\<close>

definition netPay :: "payroll_row \<Rightarrow> decimal" where
  "netPay r = pw_basicSalary r + pw_allowances r + pw_commissionAmount r + pw_debtReleaseAmount r
     - pw_deductions r - pw_debtHoldAmount r - pw_loanDeduction r"

definition yearMonthOf :: "timestamp \<Rightarrow> string" where
  "yearMonthOf t = take 7 (iso_date t)"

definition assertOwnerOrManager :: "safari_role \<Rightarrow> unit result" where
  "assertOwnerOrManager role = guardE (role = OWNER \<or> role = MANAGER) (ForbiddenException ''Forbidden'')"

record create_payroll =
  yp_userId :: uuid
  yp_branchId :: uuid
  yp_basicSalary :: decimal
  yp_allowances :: "decimal option"
  yp_deductions :: "decimal option"
  yp_paymentDate :: timestamp

definition on_loans :: "(loan list \<Rightarrow> 'a result \<times> loan list) \<Rightarrow> staff_db \<Rightarrow> 'a result \<times> staff_db" where
  "on_loans f db = (case f (sfLoans db) of (r, ls) \<Rightarrow> (r, db\<lparr>sfLoans := ls\<rparr>))"

text \<open>The manual slips that no payroll has taken yet.\<close>

definition untied_holds :: "uuid \<Rightarrow> staff_db \<Rightarrow> debt_hold list" where
  "untied_holds u db = filter (\<lambda>h. dh_employeeUserId h = u \<and> \<not> dh_released h \<and> dh_payrollId h = None) (sfHolds db)"

definition auto_hold :: "hold_snapshot option \<Rightarrow> decimal" where
  "auto_hold s = (case s of None \<Rightarrow> 0 | Some s \<Rightarrow> hs_holdAmount s)"

definition payroll_draft :: "create_payroll \<Rightarrow> decimal \<Rightarrow> decimal \<Rightarrow> decimal \<Rightarrow> uuid \<Rightarrow> payroll_row" where
  "payroll_draft dto commission hold loan i = \<lparr>pw_id = i, pw_userId = yp_userId dto, pw_branchId = yp_branchId dto,
     pw_basicSalary = dec4 (yp_basicSalary dto), pw_allowances = dec4 (nullish (yp_allowances dto) 0),
     pw_deductions = dec4 (nullish (yp_deductions dto) 0), pw_commissionAmount = dec4 commission,
     pw_debtHoldAmount = dec4 hold, pw_debtReleaseAmount = 0, pw_loanDeduction = dec4 loan,
     pw_paymentDate = yp_paymentDate dto, pw_paid = False\<rparr>"

definition insert_payroll :: "env \<Rightarrow> (uuid \<Rightarrow> payroll_row) \<Rightarrow> staff_db \<Rightarrow> payroll_row result \<times> staff_db" where
  "insert_payroll env row db = (let i = new_uuid env (length (sfPayrolls db)) in
     if i \<in> pw_id ` set (sfPayrolls db) then (Inl unique_violation, db)
     else (Inr (row i), db\<lparr>sfPayrolls := sfPayrolls db @ [row i]\<rparr>))"

definition tie_holds :: "uuid list \<Rightarrow> uuid \<Rightarrow> staff_db \<Rightarrow> staff_db" where
  "tie_holds ids payroll db = db\<lparr>sfHolds := map (\<lambda>h. if dh_id h \<in> set ids then h\<lparr>dh_payrollId := Some payroll\<rparr> else h) (sfHolds db)\<rparr>"

text \<open>
  The writes of a cut after its reads: the sum and the identifiers of the released payouts and the
  snapshot of the hold, which the source reads outside the transaction.
\<close>

definition payroll_writes :: "env \<Rightarrow> create_payroll \<Rightarrow> decimal \<times> uuid list \<Rightarrow> hold_snapshot option \<Rightarrow> decimal \<Rightarrow> debt_hold list \<Rightarrow>
    staff_db \<Rightarrow> payroll_row result \<times> staff_db" where
  "payroll_writes env dto snapshot hold loan untied db =
     bindS (insert_payroll env (payroll_draft dto (fst snapshot) (auto_hold hold + (\<Sum>h\<leftarrow>untied. dh_holdAmount h)) loan) db)
       (\<lambda>row db1.
         let db2 = snd (markPaidForPayroll env (snd snapshot) (pw_id row) db1) in
         case hold of
           None \<Rightarrow> returnS row (tie_holds (map dh_id untied) (pw_id row) db2)
         | Some s \<Rightarrow> bindS (persistHold env (yp_userId dto) (pw_id row) s db2)
             (\<lambda>_ db3. returnS row (tie_holds (map dh_id untied) (pw_id row) db3)))"

definition payroll_tx :: "env \<Rightarrow> create_payroll \<Rightarrow> decimal \<times> uuid list \<Rightarrow> staff_db \<Rightarrow> payroll_row result \<times> staff_db" where
  "payroll_tx env dto snapshot db =
     bindS (on_loans (\<lambda>ls. bookPayrollInstalmentsFor ls (yp_userId dto) (yearMonthOf (yp_paymentDate dto))) db) (\<lambda>loan db1.
       let db2 = snd (releaseSettledHolds env (yp_userId dto) db1) in
       payroll_writes env dto snapshot (buildHoldSnapshotForPayroll env (yp_userId dto) db) loan
         (untied_holds (yp_userId dto) db2) db2)"

definition payroll_create :: "env \<Rightarrow> safari_role \<Rightarrow> create_payroll \<Rightarrow> staff_db \<Rightarrow> payroll_row result \<times> staff_db" where
  "payroll_create env role dto db = bindS (assertOwnerOrManager role, db) (\<lambda>_ db0.
     staff_transaction db0 (payroll_tx env dto (sumReleasedForUser (yp_userId dto) (yp_paymentDate dto) db0) db0))"

definition recalc_tx :: "uuid \<Rightarrow> staff_db \<Rightarrow> payroll_row result \<times> staff_db" where
  "recalc_tx i db = (case find_row pw_id (sfPayrolls db) i of
       None \<Rightarrow> throwS (NotFoundException ''Payroll not found'') db
     | Some row \<Rightarrow>
         if pw_paid row then throwS (ForbiddenException ''Only PENDING payrolls can be recalculated'') db
         else bindS (on_loans (\<lambda>ls. recalcUnbookedInstalmentsFor ls (pw_userId row) (yearMonthOf (pw_paymentDate row))) db)
           (\<lambda>newly db1. if newly \<le> 0 then returnS row db1
             else let f = (\<lambda>r. r\<lparr>pw_loanDeduction := pw_loanDeduction row + newly\<rparr>) in returnS (f row) (change_payroll i f db1)))"

definition recalcLoanDeduction :: "safari_role \<Rightarrow> uuid \<Rightarrow> staff_db \<Rightarrow> payroll_row result \<times> staff_db" where
  "recalcLoanDeduction role i db = bindS (assertOwnerOrManager role, db) (\<lambda>_ db0. staff_transaction db0 (recalc_tx i db0))"

definition payroll_markPaid :: "env \<Rightarrow> safari_role \<Rightarrow> uuid \<Rightarrow> staff_db \<Rightarrow> payroll_row result \<times> staff_db" where
  "payroll_markPaid env role i db = bindS (assertOwnerOrManager role, db) (\<lambda>_ db0.
     case find_row pw_id (sfPayrolls db0) i of
       None \<Rightarrow> throwS (NotFoundException ''Payroll not found'') db0
     | Some row \<Rightarrow> let f = (\<lambda>r. r\<lparr>pw_paid := True, pw_paymentDate := now env\<rparr>) in returnS (f row) (change_payroll i f db0))"

definition payroll_reader :: "safari_role \<Rightarrow> bool" where
  "payroll_reader role \<longleftrightarrow> role \<in> {OWNER, GENERAL_MANAGER, MANAGER, ACCOUNTANT}"

definition in_branch :: "uuid option \<Rightarrow> uuid \<Rightarrow> bool" where
  "in_branch b x \<longleftrightarrow> \<not> str_truthy b \<or> b = Some x"

definition payroll_list :: "safari_role \<Rightarrow> timestamp \<Rightarrow> timestamp \<Rightarrow> uuid option \<Rightarrow> staff_db \<Rightarrow> payroll_row list result" where
  "payroll_list role from_ts to_ts branch db = bindE (guardE (payroll_reader role) (ForbiddenException ''Forbidden'')) (\<lambda>_.
     Inr (sort_key (\<lambda>r. - pw_paymentDate r) (filter (\<lambda>r. from_ts \<le> pw_paymentDate r \<and> pw_paymentDate r \<le> to_ts
       \<and> in_branch branch (pw_branchId r)) (sfPayrolls db))))"

definition payroll_findOne :: "safari_role \<Rightarrow> uuid \<Rightarrow> uuid \<Rightarrow> staff_db \<Rightarrow> payroll_row result" where
  "payroll_findOne role actor i db = (case find_row pw_id (sfPayrolls db) i of
       None \<Rightarrow> Inl (NotFoundException ''Payroll not found'')
     | Some row \<Rightarrow> if \<not> payroll_reader role \<and> pw_userId row \<noteq> actor then Inl (ForbiddenException ''Forbidden'') else Inr row)"

definition sumPaidNetInRange :: "timestamp \<Rightarrow> timestamp \<Rightarrow> uuid option \<Rightarrow> staff_db \<Rightarrow> decimal" where
  "sumPaidNetInRange from_ts to_ts branch db = dec4 (\<Sum>r\<leftarrow>filter (\<lambda>r. pw_paid r \<and> from_ts \<le> pw_paymentDate r
     \<and> pw_paymentDate r \<le> to_ts \<and> in_branch branch (pw_branchId r)) (sfPayrolls db). netPay r)"

subsection \<open>Lines for outside beneficiaries\<close>

definition listAdHocLines :: "safari_role \<Rightarrow> string \<Rightarrow> uuid option \<Rightarrow> staff_db \<Rightarrow> ad_hoc_line list result" where
  "listAdHocLines role ym branch db = bindE (guardE (payroll_reader role) (ForbiddenException ''Forbidden'')) (\<lambda>_.
     bindE (guardE (is_year_month ym) (BadRequestException ''Invalid ym'')) (\<lambda>_.
     Inr (sort_key ah_branchId (sort_key ah_lineSort (sort_key ah_createdAt
       (filter (\<lambda>a. ah_periodYm a = ym \<and> in_branch branch (ah_branchId a)) (sfAdHoc db)))))))"

record ad_hoc_dto =
  ad_branchId :: uuid
  ad_periodYm :: string
  ad_beneficiaryName :: string
  ad_bankName :: "string option"
  ad_bankIban :: "string option"
  ad_basicSalary :: decimal
  ad_allowances :: "decimal option"
  ad_deductions :: "decimal option"
  ad_lineSort :: "int option"
  ad_note :: "string option"

text \<open>\<open>replace(/\s/g, '').trim()\<close>\<close>

definition clean_iban :: "string option \<Rightarrow> string option" where
  "clean_iban s = trimmed (map_option (filter (\<lambda>c. \<not> is_ws c)) s)"

definition createAdHocLine :: "env \<Rightarrow> safari_role \<Rightarrow> ad_hoc_dto \<Rightarrow> staff_db \<Rightarrow> ad_hoc_line result \<times> staff_db" where
  "createAdHocLine env role dto db = bindS (assertOwnerOrManager role, db) (\<lambda>_ db0.
     let i = new_uuid env (length (sfAdHoc db0));
         row = \<lparr>ah_id = i, ah_branchId = ad_branchId dto, ah_periodYm = ad_periodYm dto, ah_lineSort = nullish (ad_lineSort dto) 0,
           ah_beneficiaryName = js_trim (ad_beneficiaryName dto), ah_bankName = trimmed (ad_bankName dto),
           ah_bankIban = clean_iban (ad_bankIban dto), ah_basicSalary = dec4 (ad_basicSalary dto),
           ah_allowances = dec4 (nullish (ad_allowances dto) 0), ah_deductions = dec4 (nullish (ad_deductions dto) 0),
           ah_note = trimmed (ad_note dto), ah_createdAt = now env\<rparr>
     in if \<not> is_year_month (ad_periodYm dto) then throwS (BadRequestException ''Invalid periodYm'') db0
        else if i \<in> ah_id ` set (sfAdHoc db0) then throwS unique_violation db0
        else (Inr row, db0\<lparr>sfAdHoc := sfAdHoc db0 @ [row]\<rparr>))"

text \<open>An absent field is \<open>None\<close>; a field that may be \<open>null\<close> has a second level.\<close>

record ad_hoc_update =
  au_beneficiaryName :: "string option"
  au_bankName :: "string option option"
  au_bankIban :: "string option option"
  au_basicSalary :: "decimal option"
  au_allowances :: "decimal option"
  au_deductions :: "decimal option"
  au_lineSort :: "int option"
  au_note :: "string option option"

definition updated_line :: "ad_hoc_update \<Rightarrow> ad_hoc_line \<Rightarrow> ad_hoc_line" where
  "updated_line dto a = a\<lparr>ah_beneficiaryName := nullish (map_option js_trim (au_beneficiaryName dto)) (ah_beneficiaryName a),
     ah_bankName := nullish (map_option trimmed (au_bankName dto)) (ah_bankName a),
     ah_bankIban := nullish (map_option clean_iban (au_bankIban dto)) (ah_bankIban a),
     ah_basicSalary := nullish (map_option dec4 (au_basicSalary dto)) (ah_basicSalary a),
     ah_allowances := nullish (map_option dec4 (au_allowances dto)) (ah_allowances a),
     ah_deductions := nullish (map_option dec4 (au_deductions dto)) (ah_deductions a),
     ah_lineSort := nullish (au_lineSort dto) (ah_lineSort a),
     ah_note := nullish (map_option trimmed (au_note dto)) (ah_note a)\<rparr>"

definition updateAdHocLine :: "safari_role \<Rightarrow> uuid \<Rightarrow> ad_hoc_update \<Rightarrow> staff_db \<Rightarrow> ad_hoc_line result \<times> staff_db" where
  "updateAdHocLine role i dto db = bindS (assertOwnerOrManager role, db) (\<lambda>_ db0.
     case find_row ah_id (sfAdHoc db0) i of
       None \<Rightarrow> throwS (NotFoundException ''Ad-hoc line not found'') db0
     | Some a \<Rightarrow> (Inr (updated_line dto a), db0\<lparr>sfAdHoc := update_row ah_id i (updated_line dto) (sfAdHoc db0)\<rparr>))"

definition deleteAdHocLine :: "safari_role \<Rightarrow> uuid \<Rightarrow> staff_db \<Rightarrow> uuid result \<times> staff_db" where
  "deleteAdHocLine role i db = bindS (assertOwnerOrManager role, db) (\<lambda>_ db0.
     if i \<notin> ah_id ` set (sfAdHoc db0) then throwS (NotFoundException ''Ad-hoc line not found'') db0
     else (Inr i, db0\<lparr>sfAdHoc := filter (\<lambda>a. ah_id a \<noteq> i) (sfAdHoc db0)\<rparr>))"

end
