(* ===== verification/Payroll_Laws.thy ===== *)
theory Payroll_Laws
  imports Payroll Customer_Frames Customer_Wallets
begin

text \<open>
  What commissions, holds and payslips keep: every payout belongs to one source, rule and earner and
  is paid by one payslip, whose commission is the sum of its payouts, as long as cuts run one after
  the other; what stays withheld after a cut; and where the code departs from this, when two cuts
  overlap and when a manual hold meets an employee without open debt. The operations on payouts and
  payslips are an instance of the workflow interface, with any change of the ledger in between.
\<close>

subsection \<open>Payouts\<close>

inductive payout_move :: "payout_status \<Rightarrow> payout_status \<Rightarrow> bool" where
  "payout_move PAYOUT_PENDING PAYOUT_RELEASED"
| "payout_move PAYOUT_RELEASED PAYOUT_PAID"
| "payout_move PAYOUT_PENDING PAYOUT_CANCELLED"
| "payout_move PAYOUT_RELEASED PAYOUT_CANCELLED"

inductive_simps payout_move_iff: "payout_move a b"

definition clash :: "commission_payout \<Rightarrow> commission_payout \<Rightarrow> bool" where
  "clash q p \<longleftrightarrow> py_id q = py_id p \<or> same_source q p"

definition payouts_unique :: "commission_payout list \<Rightarrow> bool" where
  "payouts_unique ps = sorted_wrt (\<lambda>q p. \<not> clash q p) ps"

text \<open>What an operation other than a payroll cut may do to a payout, and the payouts it may add.\<close>

definition payout_step :: "commission_payout \<Rightarrow> commission_payout \<Rightarrow> bool" where
  "payout_step p p' \<longleftrightarrow> py_id p' = py_id p \<and> py_ruleId p' = py_ruleId p \<and> py_earnerUserId p' = py_earnerUserId p
     \<and> py_amount p' = py_amount p \<and> py_sourceOrderId p' = py_sourceOrderId p
     \<and> py_sourceJournalEntryId p' = py_sourceJournalEntryId p \<and> py_payrollId p' = py_payrollId p
     \<and> payout_move\<^sup>*\<^sup>* (py_status p) (py_status p') \<and> (py_status p' = PAYOUT_PAID \<longrightarrow> py_status p = PAYOUT_PAID)"

definition payout_unpaid :: "commission_payout \<Rightarrow> bool" where
  "payout_unpaid p \<longleftrightarrow> payout_move\<^sup>*\<^sup>* PAYOUT_PENDING (py_status p) \<and> py_status p \<noteq> PAYOUT_PAID \<and> py_payrollId p = None
     \<and> fixed4 (py_amount p)"

definition payroll_figures :: "staff_db \<Rightarrow> (uuid \<times> decimal) list" where
  "payroll_figures db = map (\<lambda>r. (pw_id r, pw_commissionAmount r)) (sfPayrolls db)"

definition earnings_grow :: "staff_db \<Rightarrow> staff_db \<Rightarrow> bool" where
  "earnings_grow db db' \<longleftrightarrow> payroll_figures db' = payroll_figures db
     \<and> (payouts_unique (sfPayouts db) \<longrightarrow> payouts_unique (sfPayouts db'))
     \<and> (\<exists>f news. sfPayouts db' = map f (sfPayouts db) @ news \<and> (\<forall>p. payout_step p (f p)) \<and> list_all payout_unpaid news)"

lemma payout_step_refl [simp]: "payout_step p p"
  by (simp add: payout_step_def)

lemma payout_step_trans: "payout_step p q \<Longrightarrow> payout_step q r \<Longrightarrow> payout_step p r"
  by (auto simp: payout_step_def)

lemma payout_step_unpaid: "payout_step p q \<Longrightarrow> payout_unpaid p \<Longrightarrow> payout_unpaid q"
  by (auto simp: payout_step_def payout_unpaid_def)

lemma payout_step_clash: "payout_step p p' \<Longrightarrow> payout_step q q' \<Longrightarrow> clash p' q' = clash p q"
  by (simp add: payout_step_def clash_def same_source_def)

lemma payouts_unique_map: "(\<And>p. payout_step p (f p)) \<Longrightarrow> payouts_unique (map f ps) = payouts_unique ps"
proof -
  assume "\<And>p. payout_step p (f p)"
  then have "clash (f p) (f q) = clash p q" for p q using payout_step_clash by blast
  then show ?thesis by (simp add: payouts_unique_def sorted_wrt_map)
qed

lemma earnings_growI:
  assumes "sfPayouts db' = map f (sfPayouts db)" and "\<And>p. payout_step p (f p)" and "payroll_figures db' = payroll_figures db"
  shows "earnings_grow db db'"
  unfolding earnings_grow_def using assms by (auto simp: payouts_unique_map intro!: exI [of _ f] exI [of _ "[]"])

interpretation earnings: frame earnings_grow
proof
  show "earnings_grow s s" for s
    by (rule earnings_growI [of s "\<lambda>p. p"]) simp_all
  show "earnings_grow s u" if st: "earnings_grow s t" and tu: "earnings_grow t u" for s t u
  proof -
    obtain f ns g ms where f: "sfPayouts t = map f (sfPayouts s) @ ns" "\<forall>p. payout_step p (f p)" "list_all payout_unpaid ns"
      and g: "sfPayouts u = map g (sfPayouts t) @ ms" "\<forall>p. payout_step p (g p)" "list_all payout_unpaid ms"
      using st tu unfolding earnings_grow_def by blast
    have "sfPayouts u = map (g \<circ> f) (sfPayouts s) @ (map g ns @ ms)" using f(1) g(1) by simp
    moreover have "\<forall>p. payout_step p ((g \<circ> f) p)" using f(2) g(2) payout_step_trans by (metis comp_apply)
    moreover have "list_all payout_unpaid (map g ns @ ms)"
      using f(3) g(2,3) payout_step_unpaid by (fastforce simp: list_all_iff)
    ultimately show ?thesis using st tu unfolding earnings_grow_def by metis
  qed
qed

lemma earnings_same: "sfPayouts db' = sfPayouts db \<Longrightarrow> payroll_figures db' = payroll_figures db \<Longrightarrow> earnings_grow db db'"
  by (rule earnings_growI [of db' "\<lambda>p. p"]) simp_all

lemma update_payouts_grow: "(\<And>p. hit p \<Longrightarrow> payout_step p (f p)) \<Longrightarrow> earnings_grow db (snd (update_payouts hit f db))"
  by (rule earnings_growI [of _ "\<lambda>p. if hit p then f p else p"]) (auto simp: update_payouts_def payroll_figures_def)

lemma create_payout_grow:
  assumes "\<And>i. payout_unpaid (row i)"
  shows "earnings_grow db (snd (create_payout env row db))"
proof -
  define p where "p = row (new_uuid env (length (sfPayouts db)))"
  have "earnings_grow db (db\<lparr>sfPayouts := sfPayouts db @ [p]\<rparr>)" if "\<not> list_ex (\<lambda>q. clash q p) (sfPayouts db)"
    unfolding earnings_grow_def using assms that
    by (auto simp: payroll_figures_def payouts_unique_def sorted_wrt_append list_ex_iff p_def
        intro!: exI [of _ "\<lambda>p. p"] exI [of _ "[p]"])
  then show ?thesis by (simp add: create_payout_def Let_def p_def clash_def)
qed

lemma payout_row_unpaid: "payout_unpaid (payout_row env rule earner mode basis order entry i)"
  by (auto simp: payout_unpaid_def payout_row_def Let_def payout_move_iff)

lemma skip_replay_state [simp]: "snd (skip_replay m) = snd m"
  by (auto simp: skip_replay_def split: sum.splits error.splits)

lemma earn_sale_rules_grow: "earnings_grow db (snd (earn_sale_rules env order earner rules db))"
  by (induction env order earner rules db rule: earn_sale_rules.induct)
    (auto simp: Let_def intro!: earnings.frame_bindS create_payout_grow payout_row_unpaid)

lemma earn_collection_rules_grow: "earnings_grow db (snd (earn_collection_rules env entry basis earner rules db))"
  by (induction env entry basis earner rules db rule: earn_collection_rules.induct)
    (auto intro!: earnings.frame_bindS create_payout_grow payout_row_unpaid)

lemma earnForOrder_grow: "earnings_grow db (snd (earnForOrder env i db))"
  by (auto simp: earnForOrder_def earn_sale_rules_grow split: option.split)

lemma earnForJournalPayment_grow: "earnings_grow db (snd (earnForJournalPayment env i db))"
  by (auto simp: earnForJournalPayment_def Let_def earn_collection_rules_grow split: option.split)

lemma release_step: "py_status p = PAYOUT_PENDING \<Longrightarrow> payout_step p (release_payout env p)"
  by (auto simp: payout_step_def release_payout_def payout_move_iff)

lemma releases_grow:
  "earnings_grow db (snd (releaseAfterCollectionForOrder env i db))"
  "earnings_grow db (snd (releaseEndOfMonth env t db))"
  by (auto simp: releaseAfterCollectionForOrder_def releaseEndOfMonth_def intro!: update_payouts_grow release_step)

lemma cancelForOrder_grow: "earnings_grow db (snd (cancelForOrder env i reason db))"
  unfolding cancelForOrder_def
proof (rule update_payouts_grow)
  fix p :: commission_payout assume "py_sourceOrderId p = Some i \<and> py_status p \<noteq> PAYOUT_PAID"
  then show "payout_step p (p\<lparr>py_status := PAYOUT_CANCELLED, py_cancelledAt := Some (now env), py_cancelReason := Some reason\<rparr>)"
    by (cases "py_status p") (auto simp: payout_step_def payout_move_iff intro: r_into_rtranclp)
qed

lemma scan_each_grow: "(\<And>i t. earnings_grow t (snd (earn i t))) \<Longrightarrow> earnings_grow db (scan_each earn ids db)"
  by (induction ids arbitrary: db) (auto intro: earnings.frame_trans)

lemma doScan_grow: "earnings_grow db (doScan env db)"
proof -
  have "earnings_grow t (release_if_cleared env i t)" for i t
    by (simp add: release_if_cleared_def releases_grow)
  then have "earnings_grow t (releaseAfterCollection env t)" for t
    by (simp add: releaseAfterCollection_def earnings.frame_fold)
  moreover have "earnings_grow t (scanJournalPayments env s t)" "earnings_grow t (scanCompletedOrders env s t)" for s t
    by (simp_all add: scanJournalPayments_def scanCompletedOrders_def scan_each_grow earnForOrder_grow earnForJournalPayment_grow)
  ultimately have "earnings_grow db (releaseAfterCollection env (scanJournalPayments env s (scanCompletedOrders env s db)))" for s
    using earnings.frame_trans by blast
  then show ?thesis by (simp add: doScan_def Let_def)
qed

lemma scanEndOfMonth_grow: "earnings_grow db (scanEndOfMonth env db)"
  by (simp add: scanEndOfMonth_def releases_grow)

subsection \<open>A payroll cut\<close>

definition paid_payout :: "env \<Rightarrow> uuid \<Rightarrow> commission_payout \<Rightarrow> commission_payout" where
  "paid_payout env i p = p\<lparr>py_status := PAYOUT_PAID, py_paidAt := Some (now env), py_payrollId := Some i\<rparr>"

definition payslip_sum :: "commission_payout list \<Rightarrow> uuid \<Rightarrow> decimal" where
  "payslip_sum ps i = (\<Sum>p\<leftarrow>filter (\<lambda>p. py_payrollId p = Some i) ps. py_amount p)"

definition tied :: "uuid list \<Rightarrow> uuid \<Rightarrow> debt_hold \<Rightarrow> debt_hold" where
  "tied ids i h = (if dh_id h \<in> set ids then h\<lparr>dh_payrollId := Some i\<rparr> else h)"

definition stamp :: "env \<Rightarrow> uuid list \<Rightarrow> uuid \<Rightarrow> commission_payout \<Rightarrow> commission_payout" where
  "stamp env ids i p = (if py_id p \<in> set ids \<and> py_status p = PAYOUT_RELEASED then paid_payout env i p else p)"

lemma markPaid_state: "snd (markPaidForPayroll env ids i db) = db\<lparr>sfPayouts := map (stamp env ids i) (sfPayouts db)\<rparr>"
proof (cases "ids = []")
  case True
  then have "stamp env ids i = (\<lambda>p. p)" by (simp add: stamp_def fun_eq_iff)
  with True show ?thesis by (simp add: markPaidForPayroll_def)
qed (auto simp: markPaidForPayroll_def update_payouts_def stamp_def paid_payout_def intro!: arg_cong [of _ _ "\<lambda>x. sfPayouts_update x db"])

definition booked_hold :: "env \<Rightarrow> uuid \<Rightarrow> hold_snapshot option \<Rightarrow> uuid \<Rightarrow> debt_hold list \<Rightarrow> debt_hold list \<Rightarrow> bool" where
  "booked_hold env u hold i hs news \<longleftrightarrow> (case hold of None \<Rightarrow> news = []
     | Some s \<Rightarrow> \<exists>h. news = [h] \<and> dh_id h \<notin> dh_id ` set hs \<and> dh_employeeUserId h = u \<and> dh_holdAmount h = dec4 (hs_holdAmount s)
         \<and> dh_releasedAmount h = 0 \<and> \<not> dh_released h \<and> dh_payrollId h = Some i)"

lemma insert_payroll_Inr:
  "insert_payroll env row db = (Inr r, db') \<Longrightarrow> (\<And>i. pw_id (row i) = i) \<Longrightarrow>
    r = row (pw_id r) \<and> pw_id r \<notin> pw_id ` set (sfPayrolls db) \<and> db' = db\<lparr>sfPayrolls := sfPayrolls db @ [r]\<rparr>"
  by (auto simp: insert_payroll_def Let_def split: if_splits)

lemma insert_hold_Inr:
  "insert_hold env u i debt hold text db = (Inr h, db') \<Longrightarrow> db' = db\<lparr>sfHolds := sfHolds db @ [h]\<rparr> \<and> dh_id h \<notin> dh_id ` set (sfHolds db)
    \<and> dh_employeeUserId h = u \<and> dh_payrollId h = i \<and> dh_holdAmount h = dec4 hold \<and> dh_releasedAmount h = 0 \<and> \<not> dh_released h"
  by (auto simp: insert_hold_def Let_def split: if_splits)

lemma payroll_writes_Inr:
  assumes "payroll_writes env dto snapshot hold loan untied db = (Inr row, db')"
  obtains news where "row = payroll_draft dto (fst snapshot) (auto_hold hold + (\<Sum>h\<leftarrow>untied. dh_holdAmount h)) loan (pw_id row)"
    "pw_id row \<notin> pw_id ` set (sfPayrolls db)" "booked_hold env (yp_userId dto) hold (pw_id row) (sfHolds db) news"
    "db' = db\<lparr>sfPayrolls := sfPayrolls db @ [row], sfPayouts := map (stamp env (snd snapshot) (pw_id row)) (sfPayouts db),
       sfHolds := map (tied (map dh_id untied) (pw_id row)) (sfHolds db @ news)\<rparr>"
proof -
  obtain db1 where row: "insert_payroll env (payroll_draft dto (fst snapshot) (auto_hold hold + (\<Sum>h\<leftarrow>untied. dh_holdAmount h)) loan) db = (Inr row, db1)"
    and rest: "(case hold of None \<Rightarrow> (Inr row, tie_holds (map dh_id untied) (pw_id row) (snd (markPaidForPayroll env (snd snapshot) (pw_id row) db1)))
      | Some s \<Rightarrow> bindS (persistHold env (yp_userId dto) (pw_id row) s (snd (markPaidForPayroll env (snd snapshot) (pw_id row) db1)))
          (\<lambda>_ db3. (Inr row, tie_holds (map dh_id untied) (pw_id row) db3))) = (Inr row, db')"
    using assms by (auto simp: payroll_writes_def Let_def result_simps returnS_def split: option.splits)
  have draft: "row = payroll_draft dto (fst snapshot) (auto_hold hold + (\<Sum>h\<leftarrow>untied. dh_holdAmount h)) loan (pw_id row)"
    "pw_id row \<notin> pw_id ` set (sfPayrolls db)" "db1 = db\<lparr>sfPayrolls := sfPayrolls db @ [row]\<rparr>"
    using insert_payroll_Inr [OF row] by (auto simp: payroll_draft_def)
  have tie: "tie_holds ids i t = t\<lparr>sfHolds := map (tied ids i) (sfHolds t)\<rparr>" for ids i t
    by (simp add: tie_holds_def tied_def [abs_def])
  show ?thesis
  proof (cases hold)
    case None
    then show ?thesis using rest draft by (intro that [of "[]"]) (auto simp: booked_hold_def tie markPaid_state)
  next
    case (Some s)
    then obtain h db3 where h: "persistHold env (yp_userId dto) (pw_id row) s (snd (markPaidForPayroll env (snd snapshot) (pw_id row) db1)) = (Inr h, db3)"
      and db': "db' = tie_holds (map dh_id untied) (pw_id row) db3"
      using rest by (auto simp: result_simps)
    show ?thesis
      using insert_hold_Inr [OF h [unfolded persistHold_def]] draft Some db'
      by (intro that [of "[h]"]) (auto simp: booked_hold_def tie markPaid_state)
  qed
qed

lemma payroll_writes_tables:
  assumes "payroll_writes env dto snapshot hold loan untied db = (Inr row, db')"
  shows "pw_commissionAmount row = dec4 (fst snapshot)" "pw_loanDeduction row = dec4 loan"
    "pw_debtHoldAmount row = dec4 (auto_hold hold + (\<Sum>h\<leftarrow>untied. dh_holdAmount h))"
    "pw_id row \<notin> pw_id ` set (sfPayrolls db)" "sfPayrolls db' = sfPayrolls db @ [row]"
    "sfPayouts db' = map (stamp env (snd snapshot) (pw_id row)) (sfPayouts db)"
    "sfLedger db' = sfLedger db" "sfTransferredFrom db' = sfTransferredFrom db" "sfHoldPolicy db' = sfHoldPolicy db"
    "\<exists>news. booked_hold env (yp_userId dto) hold (pw_id row) (sfHolds db) news
       \<and> sfHolds db' = map (tied (map dh_id untied) (pw_id row)) (sfHolds db @ news)"
proof -
  obtain news where row: "row = payroll_draft dto (fst snapshot) (auto_hold hold + (\<Sum>h\<leftarrow>untied. dh_holdAmount h)) loan (pw_id row)"
    and new: "pw_id row \<notin> pw_id ` set (sfPayrolls db)" and hold: "booked_hold env (yp_userId dto) hold (pw_id row) (sfHolds db) news"
    and db': "db' = db\<lparr>sfPayrolls := sfPayrolls db @ [row], sfPayouts := map (stamp env (snd snapshot) (pw_id row)) (sfPayouts db),
       sfHolds := map (tied (map dh_id untied) (pw_id row)) (sfHolds db @ news)\<rparr>"
    using payroll_writes_Inr [OF assms] .
  show "pw_commissionAmount row = dec4 (fst snapshot)" "pw_loanDeduction row = dec4 loan"
    "pw_debtHoldAmount row = dec4 (auto_hold hold + (\<Sum>h\<leftarrow>untied. dh_holdAmount h))"
    by (subst row, simp add: payroll_draft_def)+
  show "pw_id row \<notin> pw_id ` set (sfPayrolls db)" by (rule new)
  show "sfPayrolls db' = sfPayrolls db @ [row]" "sfPayouts db' = map (stamp env (snd snapshot) (pw_id row)) (sfPayouts db)"
    "sfLedger db' = sfLedger db" "sfTransferredFrom db' = sfTransferredFrom db" "sfHoldPolicy db' = sfHoldPolicy db"
    by (simp_all add: db')
  show "\<exists>news. booked_hold env (yp_userId dto) hold (pw_id row) (sfHolds db) news
       \<and> sfHolds db' = map (tied (map dh_id untied) (pw_id row)) (sfHolds db @ news)"
    by (intro exI [of _ news]) (simp add: db' hold)
qed

lemma payroll_create_Inr:
  assumes "payroll_create env role dto db = (Inr row, db')"
  obtains loan ls holds where "bookPayrollInstalmentsFor (sfLoans db) (yp_userId dto) (yearMonthOf (yp_paymentDate dto)) = (Inr loan, ls)"
    "holds = sfHolds (snd (releaseSettledHolds env (yp_userId dto) db))"
    "payroll_writes env dto (sumReleasedForUser (yp_userId dto) (yp_paymentDate dto) db)
       (buildHoldSnapshotForPayroll env (yp_userId dto) db) loan
       (untied_holds (yp_userId dto) (db\<lparr>sfHolds := holds\<rparr>)) (db\<lparr>sfLoans := ls, sfHolds := holds\<rparr>) = (Inr row, db')"
proof -
  have "payroll_tx env dto (sumReleasedForUser (yp_userId dto) (yp_paymentDate dto) db) db = (Inr row, db')"
    using assms by (cases "payroll_tx env dto (sumReleasedForUser (yp_userId dto) (yp_paymentDate dto) db) db")
      (auto simp: payroll_create_def assertOwnerOrManager_def guardE_def staff_transaction_def split: if_splits sum.splits)
  then obtain loan db1 where l: "on_loans (\<lambda>ls. bookPayrollInstalmentsFor ls (yp_userId dto) (yearMonthOf (yp_paymentDate dto))) db = (Inr loan, db1)"
    and w: "payroll_writes env dto (sumReleasedForUser (yp_userId dto) (yp_paymentDate dto) db)
       (buildHoldSnapshotForPayroll env (yp_userId dto) db) loan
       (untied_holds (yp_userId dto) (snd (releaseSettledHolds env (yp_userId dto) db1)))
       (snd (releaseSettledHolds env (yp_userId dto) db1)) = (Inr row, db')"
    by (auto simp: payroll_tx_def Let_def result_simps)
  obtain ls where ls: "bookPayrollInstalmentsFor (sfLoans db) (yp_userId dto) (yearMonthOf (yp_paymentDate dto)) = (Inr loan, ls)"
    and db1: "db1 = db\<lparr>sfLoans := ls\<rparr>"
    using l by (cases "bookPayrollInstalmentsFor (sfLoans db) (yp_userId dto) (yearMonthOf (yp_paymentDate dto))") (auto simp: on_loans_def)
  show ?thesis
    using w by (intro that [OF ls refl])
      (simp add: db1 releaseSettledHolds_def Let_def computeOpenDebtForEmployee_def employee_orders_def held_slips_def untied_holds_def)
qed

subsection \<open>Payslips and payouts agree\<close>

definition reconciled :: "(uuid \<times> decimal) list \<Rightarrow> commission_payout list \<Rightarrow> bool" where
  "reconciled figs ps \<longleftrightarrow> payouts_unique ps \<and> distinct (map fst figs)
     \<and> (\<forall>p\<in>set ps. fixed4 (py_amount p) \<and> (py_status p = PAYOUT_PAID \<longleftrightarrow> py_payrollId p \<noteq> None)
          \<and> (\<forall>i. py_payrollId p = Some i \<longrightarrow> i \<in> fst ` set figs))
     \<and> (\<forall>x\<in>set figs. snd x = payslip_sum ps (fst x))"

definition staff_ok :: "staff_db \<Rightarrow> bool" where
  "staff_ok db \<longleftrightarrow> reconciled (payroll_figures db) (sfPayouts db)"

lemma payslip_sum_append [simp]: "payslip_sum (ps @ qs) i = payslip_sum ps i + payslip_sum qs i"
  by (simp add: payslip_sum_def)

lemma payslip_sum_step: "(\<And>p. payout_step p (f p)) \<Longrightarrow> payslip_sum (map f ps) i = payslip_sum ps i"
  by (induction ps) (auto simp: payslip_sum_def payout_step_def)

lemma payslip_sum_unpaid: "list_all payout_unpaid ps \<Longrightarrow> payslip_sum ps i = 0"
  by (induction ps) (auto simp: payslip_sum_def payout_unpaid_def)

lemma payout_final: "payout_move\<^sup>*\<^sup>* PAYOUT_PAID s \<Longrightarrow> s = PAYOUT_PAID"
  by (erule converse_rtranclpE) (auto simp: payout_move_iff)

lemma staff_ok_grow:
  assumes "earnings_grow db db'" and "staff_ok db"
  shows "staff_ok db'"
proof -
  obtain f news where ps: "sfPayouts db' = map f (sfPayouts db) @ news" and f: "\<And>p. payout_step p (f p)"
    and news: "list_all payout_unpaid news" and uniq: "payouts_unique (sfPayouts db')"
    and figs: "payroll_figures db' = payroll_figures db"
    using assms unfolding earnings_grow_def staff_ok_def reconciled_def by blast
  have rows: "\<forall>p\<in>set (sfPayouts db). fixed4 (py_amount p) \<and> (py_status p = PAYOUT_PAID \<longleftrightarrow> py_payrollId p \<noteq> None)
      \<and> (\<forall>i. py_payrollId p = Some i \<longrightarrow> i \<in> fst ` set (payroll_figures db))"
    and sums: "\<forall>x\<in>set (payroll_figures db). snd x = payslip_sum (sfPayouts db) (fst x)"
    and ids: "distinct (map fst (payroll_figures db))"
    using assms(2) by (simp_all add: staff_ok_def reconciled_def)
  have same: "(py_status (f p) = PAYOUT_PAID) = (py_status p = PAYOUT_PAID)" "py_payrollId (f p) = py_payrollId p"
    "py_amount (f p) = py_amount p" for p
    using f [of p] payout_final [of "py_status (f p)"] by (auto simp: payout_step_def)
  have "payslip_sum (sfPayouts db') i = payslip_sum (sfPayouts db) i" for i
    using payslip_sum_step [of f "sfPayouts db" i] f payslip_sum_unpaid [OF news] by (simp add: ps)
  moreover have "\<forall>p\<in>set (map f (sfPayouts db)). fixed4 (py_amount p) \<and> (py_status p = PAYOUT_PAID \<longleftrightarrow> py_payrollId p \<noteq> None)
      \<and> (\<forall>i. py_payrollId p = Some i \<longrightarrow> i \<in> fst ` set (payroll_figures db))"
    using rows by (simp add: same)
  moreover have "\<forall>p\<in>set news. fixed4 (py_amount p) \<and> py_status p \<noteq> PAYOUT_PAID \<and> py_payrollId p = None"
    using news by (auto simp: list_all_iff payout_unpaid_def)
  ultimately show ?thesis
    using uniq sums ids unfolding staff_ok_def reconciled_def figs ps set_append ball_Un by simp
qed

definition stamped :: "env \<Rightarrow> uuid \<Rightarrow> timestamp \<Rightarrow> uuid \<Rightarrow> commission_payout \<Rightarrow> commission_payout" where
  "stamped env u t i p = (if released_for u t p then paid_payout env i p else p)"

lemma payouts_unique_ids: "payouts_unique ps \<Longrightarrow> distinct (map py_id ps)"
  unfolding payouts_unique_def by (induction ps) (auto simp: clash_def)

lemma stamp_snapshot:
  assumes "payouts_unique (sfPayouts db)"
  shows "map (stamp env (snd (sumReleasedForUser u t db)) i) (sfPayouts db) = map (stamped env u t i) (sfPayouts db)"
proof (rule map_cong [OF refl])
  fix p assume p: "p \<in> set (sfPayouts db)"
  have "inj_on py_id (set (sfPayouts db))" using payouts_unique_ids [OF assms] by (simp add: distinct_map)
  then have "py_id p \<in> set (snd (sumReleasedForUser u t db)) \<longleftrightarrow> released_for u t p"
    using p by (auto simp: sumReleasedForUser_def Let_def inj_on_def)
  then show "stamp env (snd (sumReleasedForUser u t db)) i p = stamped env u t i p"
    by (auto simp: stamp_def stamped_def released_for_def)
qed

lemma payslip_sum_stamped:
  assumes "\<forall>p\<in>set ps. py_payrollId p \<noteq> Some i" and "\<forall>p\<in>set ps. py_status p = PAYOUT_RELEASED \<longrightarrow> py_payrollId p = None"
  shows "payslip_sum (map (stamped env u t i) ps) j
    = (if j = i then \<Sum>p\<leftarrow>filter (released_for u t) ps. py_amount p else payslip_sum ps j)"
proof -
  have one: "(if py_payrollId (stamped env u t i p) = Some j then py_amount (stamped env u t i p) else 0)
      = (if j = i then if released_for u t p then py_amount p else 0 else if py_payrollId p = Some j then py_amount p else 0)"
    if "p \<in> set ps" for p
    using assms that by (auto simp: stamped_def paid_payout_def released_for_def)
  have "payslip_sum (map (stamped env u t i) ps) j
      = (\<Sum>p\<leftarrow>ps. if py_payrollId (stamped env u t i p) = Some j then py_amount (stamped env u t i p) else 0)"
    by (simp add: payslip_sum_def sum_list_map_filter' comp_def)
  also have "\<dots> = (\<Sum>p\<leftarrow>ps. if j = i then if released_for u t p then py_amount p else 0
      else if py_payrollId p = Some j then py_amount p else 0)"
    by (intro arg_cong [of _ _ sum_list] map_cong refl one)
  finally show ?thesis by (simp add: payslip_sum_def sum_list_map_filter')
qed

lemma payouts_unique_stamped: "payouts_unique (map (stamped env u t i) ps) = payouts_unique ps"
proof -
  have "clash (stamped env u t i p) (stamped env u t i q) = clash p q" for p q
    by (simp add: clash_def same_source_def stamped_def paid_payout_def)
  then show ?thesis by (simp add: payouts_unique_def sorted_wrt_map)
qed

lemma reconciled_cut:
  assumes ok: "reconciled figs ps" and new: "i \<notin> fst ` set figs"
  shows "reconciled (figs @ [(i, \<Sum>p\<leftarrow>filter (released_for u t) ps. py_amount p)]) (map (stamped env u t i) ps)"
proof -
  have rows: "\<forall>p\<in>set ps. fixed4 (py_amount p) \<and> (py_status p = PAYOUT_PAID \<longleftrightarrow> py_payrollId p \<noteq> None)
      \<and> (\<forall>i. py_payrollId p = Some i \<longrightarrow> i \<in> fst ` set figs)" "\<forall>x\<in>set figs. snd x = payslip_sum ps (fst x)"
    and u: "payouts_unique ps" "distinct (map fst figs)"
    using ok by (simp_all add: reconciled_def)
  have "\<forall>p\<in>set ps. py_payrollId p \<noteq> Some i" "\<forall>p\<in>set ps. py_status p = PAYOUT_RELEASED \<longrightarrow> py_payrollId p = None"
    using rows(1) new by auto
  note sums = payslip_sum_stamped [OF this, of env u t]
  have figures: "snd x = payslip_sum (map (stamped env u t i) ps) (fst x)"
    if "x \<in> set (figs @ [(i, \<Sum>p\<leftarrow>filter (released_for u t) ps. py_amount p)])" for x
    using that rows(2) new unfolding sums by auto
  have "\<forall>q\<in>set (map (stamped env u t i) ps). fixed4 (py_amount q) \<and> (py_status q = PAYOUT_PAID \<longleftrightarrow> py_payrollId q \<noteq> None)
      \<and> (\<forall>j. py_payrollId q = Some j \<longrightarrow> j \<in> insert i (fst ` set figs))"
    using rows(1) by (auto simp: stamped_def paid_payout_def)
  with figures u new show ?thesis by (auto simp: reconciled_def payouts_unique_stamped)
qed

lemma released_sum:
  assumes "reconciled figs (sfPayouts db)"
  shows "fst (sumReleasedForUser u t db) = (\<Sum>p\<leftarrow>filter (released_for u t) (sfPayouts db). py_amount p)"
    and "fixed4 (fst (sumReleasedForUser u t db))"
proof -
  have "fixed4 (\<Sum>p\<leftarrow>filter (released_for u t) (sfPayouts db). py_amount p)"
    using assms by (intro fixed4_sum) (auto simp: reconciled_def list_all_iff)
  then show "fst (sumReleasedForUser u t db) = (\<Sum>p\<leftarrow>filter (released_for u t) (sfPayouts db). py_amount p)"
    "fixed4 (fst (sumReleasedForUser u t db))" by (simp_all add: sumReleasedForUser_def Let_def)
qed

lemma payroll_create_cut:
  assumes "payroll_create env role dto db = (Inr row, db')" and "staff_ok db"
  shows "pw_id row \<notin> fst ` set (payroll_figures db)"
    and "payroll_figures db' = payroll_figures db @ [(pw_id row, \<Sum>p\<leftarrow>filter (released_for (yp_userId dto) (yp_paymentDate dto)) (sfPayouts db). py_amount p)]"
    and "sfPayouts db' = map (stamped env (yp_userId dto) (yp_paymentDate dto) (pw_id row)) (sfPayouts db)"
proof -
  have ok: "reconciled (payroll_figures db) (sfPayouts db)" using assms(2) by (simp add: staff_ok_def)
  obtain loan ls holds where "payroll_writes env dto (sumReleasedForUser (yp_userId dto) (yp_paymentDate dto) db)
       (buildHoldSnapshotForPayroll env (yp_userId dto) db) loan
       (untied_holds (yp_userId dto) (db\<lparr>sfHolds := holds\<rparr>)) (db\<lparr>sfLoans := ls, sfHolds := holds\<rparr>) = (Inr row, db')"
    using payroll_create_Inr [OF assms(1)] .
  note tables = payroll_writes_tables [OF this]
  have rows: "sfPayrolls db' = sfPayrolls db @ [row]" and new: "pw_id row \<notin> pw_id ` set (sfPayrolls db)"
    and ps: "sfPayouts db' = map (stamp env (snd (sumReleasedForUser (yp_userId dto) (yp_paymentDate dto) db)) (pw_id row)) (sfPayouts db)"
    using tables(4-6) by simp_all
  show "pw_id row \<notin> fst ` set (payroll_figures db)" using new by (auto simp: payroll_figures_def)
  have "pw_commissionAmount row = fst (sumReleasedForUser (yp_userId dto) (yp_paymentDate dto) db)"
    using tables(1) released_sum(2) [OF ok] by simp
  then show "payroll_figures db' = payroll_figures db @ [(pw_id row, \<Sum>p\<leftarrow>filter (released_for (yp_userId dto) (yp_paymentDate dto)) (sfPayouts db). py_amount p)]"
    by (simp add: payroll_figures_def rows released_sum(1) [OF ok])
  show "sfPayouts db' = map (stamped env (yp_userId dto) (yp_paymentDate dto) (pw_id row)) (sfPayouts db)"
    using ps stamp_snapshot ok by (simp add: reconciled_def)
qed

subsection \<open>Histories\<close>

text \<open>
  The operations on the staff's tables; the rest of the program may change the ledger, the
  transfers and the settings in any way in between.
\<close>

datatype staff_op =
    EarnForOrder env uuid
  | EarnForPayment env uuid
  | ReleaseForOrder env uuid
  | CancelForOrder env uuid string
  | ScanAll env
  | ScanMonthEnd env
  | CreatePayroll env safari_role create_payroll
  | RecalcLoan safari_role uuid
  | MarkPayrollPaid env safari_role uuid
  | ManualHold env safari_role manual_hold
  | ReleaseHold env safari_role uuid
  | DisburseHold env safari_role uuid uuid
  | CreateRule env safari_role rule_dto
  | UpdateRule env safari_role uuid rule_update
  | RemoveRule env safari_role uuid
  | UpsertDefault env string safari_role rule_dto
  | ElseWhere ledger_db "uuid \<Rightarrow> uuid option" bool fee_config hold_policy "loan list"

fun exec_staff :: "staff_op \<Rightarrow> staff_db \<Rightarrow> staff_db" where
  "exec_staff (EarnForOrder env i) db = snd (earnForOrder env i db)"
| "exec_staff (EarnForPayment env i) db = snd (earnForJournalPayment env i db)"
| "exec_staff (ReleaseForOrder env i) db = snd (releaseAfterCollectionForOrder env i db)"
| "exec_staff (CancelForOrder env i reason) db = snd (cancelForOrder env i reason db)"
| "exec_staff (ScanAll env) db = doScan env db"
| "exec_staff (ScanMonthEnd env) db = scanEndOfMonth env db"
| "exec_staff (CreatePayroll env role dto) db = snd (payroll_create env role dto db)"
| "exec_staff (RecalcLoan role i) db = snd (recalcLoanDeduction role i db)"
| "exec_staff (MarkPayrollPaid env role i) db = snd (payroll_markPaid env role i db)"
| "exec_staff (ManualHold env role dto) db = snd (createManualHold env role dto db)"
| "exec_staff (ReleaseHold env role i) db = snd (releaseManualHold env role i db)"
| "exec_staff (DisburseHold env role u i) db = snd (markDisbursed env role u i db)"
| "exec_staff (CreateRule env role dto) db = snd (rules_create env role dto db)"
| "exec_staff (UpdateRule env role i dto) db = snd (rules_update env role i dto db)"
| "exec_staff (RemoveRule env role i) db = snd (rules_remove env role i db)"
| "exec_staff (UpsertDefault env fallback role dto) db = snd (upsertDefaultRule env fallback role dto db)"
| "exec_staff (ElseWhere ledger from_driver enabled fees policy ls) db = db\<lparr>sfLedger := ledger, sfTransferredFrom := from_driver,
     sfCommissionEnabled := enabled, sfFees := fees, sfHoldPolicy := policy, sfLoans := ls\<rparr>"

lemma guarded_state: "earnings_grow db (snd (f () db)) \<Longrightarrow> earnings_grow db (snd (bindS (guardE ok e, db) f))"
  by (rule earnings.frame_bindS) auto

lemma transaction_grow: "earnings_grow db (snd m) \<Longrightarrow> earnings_grow db (snd (staff_transaction db m))"
  by (simp add: staff_transaction_def split: sum.split)

lemma change_payroll_grow: "(\<And>r. pw_id (f r) = pw_id r \<and> pw_commissionAmount (f r) = pw_commissionAmount r) \<Longrightarrow> earnings_grow db (change_payroll i f db)"
  by (rule earnings_same) (simp_all add: change_payroll_def payroll_figures_def update_row_def)

lemma on_loans_grow: "earnings_grow db (snd (on_loans f db))"
  by (rule earnings_same) (simp_all add: on_loans_def payroll_figures_def split: prod.split)

lemma insert_hold_grow: "earnings_grow db (snd (insert_hold env u i debt hold text db))"
  by (rule earnings_same) (simp_all add: insert_hold_def Let_def payroll_figures_def)

lemma recalc_grow: "earnings_grow db (snd (recalcLoanDeduction role i db))"
  unfolding recalcLoanDeduction_def assertOwnerOrManager_def
  by (intro guarded_state transaction_grow)
    (auto simp: recalc_tx_def Let_def returnS_def intro!: earnings.frame_bindS on_loans_grow change_payroll_grow split: option.split)

lemma markPaid_grow: "earnings_grow db (snd (payroll_markPaid env role i db))"
  unfolding payroll_markPaid_def assertOwnerOrManager_def
  by (intro guarded_state) (auto simp: Let_def returnS_def intro!: change_payroll_grow split: option.split)

lemma manual_grow: "earnings_grow db (snd (createManualHold env role dto db))"
  by (auto simp: createManualHold_def linked_hold_def Let_def returnS_def
      intro!: transaction_grow earnings.frame_bindS insert_hold_grow change_payroll_grow split: option.split)

lemma holds_grow: "earnings_grow db (snd (releaseManualHold env role i db))" "earnings_grow db (snd (markDisbursed env role u i db))"
  by (auto simp: releaseManualHold_def markDisbursed_def Let_def change_hold_def payroll_figures_def
      intro!: earnings_same split: option.split)

lemma rules_same: "earnings_grow db (change_rule i f db)" "earnings_grow db (snd (insert_rule row env db))"
  by (auto simp: change_rule_def insert_rule_def Let_def payroll_figures_def intro!: earnings_same)

lemma rules_grow:
  "earnings_grow db (snd (rules_create env role dto db))" "earnings_grow db (snd (rules_update env role i upd db))"
  "earnings_grow db (snd (rules_remove env role i db))" "earnings_grow db (snd (upsertDefaultRule env fallback role dto db))"
  unfolding rules_create_def rules_update_def rules_remove_def upsertDefaultRule_def assertOwnerWrites_def Let_def
  by (auto intro!: guarded_state earnings.frame_bindS rules_same simp: returnS_def split: option.split)

lemma staff_step:
  assumes "staff_ok db"
  shows "earnings_grow db (exec_staff op db) \<or> (\<exists>env u t i.
     i \<notin> fst ` set (payroll_figures db) \<and> sfPayouts (exec_staff op db) = map (stamped env u t i) (sfPayouts db)
     \<and> payroll_figures (exec_staff op db) = payroll_figures db @ [(i, \<Sum>p\<leftarrow>filter (released_for u t) (sfPayouts db). py_amount p)])"
proof (cases op)
  case (CreatePayroll env role dto)
  show ?thesis
  proof (cases "payroll_create env role dto db")
    case (Pair res db')
    show ?thesis
    proof (cases res)
      case (Inl e)
      have "db' = db" using Pair unfolding Inl payroll_create_def assertOwnerOrManager_def guardE_def staff_transaction_def
        by (auto split: if_splits sum.splits)
      then show ?thesis using CreatePayroll Pair by simp
    next
      case (Inr row)
      show ?thesis using payroll_create_cut [OF Pair [unfolded Inr] assms] CreatePayroll Pair by auto
    qed
  qed
next
  case (ElseWhere ledger from_driver enabled fees policy ls)
  then show ?thesis by (auto simp: payroll_figures_def intro: earnings_same)
qed (simp_all add: earnForOrder_grow earnForJournalPayment_grow releases_grow cancelForOrder_grow doScan_grow
    scanEndOfMonth_grow recalc_grow markPaid_grow manual_grow holds_grow rules_grow)

lemma staff_ok_exec: "staff_ok db \<Longrightarrow> staff_ok (exec_staff op db)"
  using staff_step [of db op] staff_ok_grow reconciled_cut by (fastforce simp: staff_ok_def)

definition payout_status_at :: "staff_db \<Rightarrow> uuid \<Rightarrow> payout_status option" where
  "payout_status_at db i = map_option py_status (find_row py_id (sfPayouts db) i)"

lemma find_row_map_news:
  "(\<And>p. idf (f p) = idf p) \<Longrightarrow> find_row idf (map f ps @ news) i
    = (case find_row idf ps i of Some p \<Rightarrow> Some (f p) | None \<Rightarrow> find_row idf news i)"
  by (induction ps) (auto simp: find_row_def)

lemma stamped_move: "py_id (stamped env u t i p) = py_id p"
  "py_status (stamped env u t i p) = py_status p \<or> payout_move\<^sup>+\<^sup>+ (py_status p) (py_status (stamped env u t i p))"
  by (auto simp: stamped_def paid_payout_def released_for_def payout_move_iff intro: tranclp.r_into_trancl)

lemma exec_staff_rows:
  assumes "staff_ok db"
  obtains f news where "sfPayouts (exec_staff op db) = map f (sfPayouts db) @ news" "list_all payout_unpaid news"
    "\<And>p. py_id (f p) = py_id p \<and> (py_status (f p) = py_status p \<or> payout_move\<^sup>+\<^sup>+ (py_status p) (py_status (f p)))"
  using staff_step [OF assms, of op]
proof
  assume "earnings_grow db (exec_staff op db)"
  then obtain f news where f: "sfPayouts (exec_staff op db) = map f (sfPayouts db) @ news" "list_all payout_unpaid news"
    and step: "\<And>p. payout_step p (f p)"
    unfolding earnings_grow_def by blast
  have "py_id (f p) = py_id p \<and> (py_status (f p) = py_status p \<or> payout_move\<^sup>+\<^sup>+ (py_status p) (py_status (f p)))" for p
    using step [of p] by (auto simp: payout_step_def dest: rtranclpD)
  with f show thesis by (rule that)
next
  assume "\<exists>env u t i. i \<notin> fst ` set (payroll_figures db) \<and> sfPayouts (exec_staff op db) = map (stamped env u t i) (sfPayouts db)
     \<and> payroll_figures (exec_staff op db) = payroll_figures db @ [(i, \<Sum>p\<leftarrow>filter (released_for u t) (sfPayouts db). py_amount p)]"
  then obtain env u t i where "sfPayouts (exec_staff op db) = map (stamped env u t i) (sfPayouts db) @ []" by auto
  then show thesis by (rule that) (simp_all add: stamped_move)
qed

interpretation payouts: workflow staff_ok payout_status_at exec_staff "payout_move\<^sup>+\<^sup>+" PAYOUT_PENDING
proof
  fix db :: staff_db and op i
  assume ok: "staff_ok db"
  show "staff_ok (exec_staff op db)" by (rule staff_ok_exec [OF ok])
  obtain f news where f: "sfPayouts (exec_staff op db) = map f (sfPayouts db) @ news" "list_all payout_unpaid news"
    "\<And>p. py_id (f p) = py_id p \<and> (py_status (f p) = py_status p \<or> payout_move\<^sup>+\<^sup>+ (py_status p) (py_status (f p)))"
    by (rule exec_staff_rows [OF ok, of op]) blast
  have found: "find_row py_id (sfPayouts (exec_staff op db)) i = (case find_row py_id (sfPayouts db) i of
      Some p \<Rightarrow> Some (f p) | None \<Rightarrow> find_row py_id news i)"
    unfolding f(1) by (rule find_row_map_news) (simp add: f(3))
  show "\<exists>b. payout_status_at (exec_staff op db) i = Some b \<and> (b = a \<or> payout_move\<^sup>+\<^sup>+ a b)"
    if "payout_status_at db i = Some a" for a
    using that f(3) by (auto simp: payout_status_at_def found)
  show "payout_status_at (exec_staff op db) i = None
      \<or> (\<exists>b. payout_status_at (exec_staff op db) i = Some b \<and> (payout_move\<^sup>+\<^sup>+)\<^sup>*\<^sup>* PAYOUT_PENDING b)"
    if none: "payout_status_at db i = None"
  proof (cases "find_row py_id news i")
    case (Some p)
    then have "payout_unpaid p" using f(2) find_row_id [OF Some] by (simp add: list_all_iff)
    then show ?thesis using none Some by (auto simp: payout_status_at_def found payout_unpaid_def)
  qed (use none in \<open>auto simp: payout_status_at_def found\<close>)
qed

definition run_staff :: "staff_op list \<Rightarrow> staff_db \<Rightarrow> staff_db" where
  "run_staff ops db = foldl (\<lambda>s op. exec_staff op s) db ops"

lemma run_staff_eq: "run_staff ops db = payouts.run ops db"
  by (simp add: run_staff_def payouts.run_def)

text \<open>
  C37: payslips and payouts agree. Whatever operations run one after the other, from tables that
  agree: a payout is PAID exactly when a payslip has taken it, the commission printed on every
  payslip is the sum of the payouts stamped with it, and one source (an order or a journal payment)
  earns a person at most one payout under a rule.
\<close>

theorem payslips_reconcile:
  assumes "staff_ok db" and "db' = run_staff ops db"
  shows "sorted_wrt (\<lambda>q p. \<not> same_source q p) (sfPayouts db')
    \<and> (\<forall>r\<in>set (sfPayrolls db'). pw_commissionAmount r = (\<Sum>p\<leftarrow>filter (\<lambda>p. py_payrollId p = Some (pw_id r)) (sfPayouts db'). py_amount p))
    \<and> (\<forall>p\<in>set (sfPayouts db'). py_status p = PAYOUT_PAID \<longleftrightarrow> py_payrollId p \<in> Some ` pw_id ` set (sfPayrolls db'))"
proof (intro conjI)
  have ok: "staff_ok db'" unfolding assms(2) run_staff_eq by (rule payouts.run_inv [OF assms(1)])
  then have "sorted_wrt (\<lambda>q p. \<not> clash q p) (sfPayouts db')" by (simp add: staff_ok_def reconciled_def payouts_unique_def)
  then show "sorted_wrt (\<lambda>q p. \<not> same_source q p) (sfPayouts db')"
    by (rule sorted_wrt_mono_rel [rotated]) (simp add: clash_def)
  show "\<forall>r\<in>set (sfPayrolls db'). pw_commissionAmount r = (\<Sum>p\<leftarrow>filter (\<lambda>p. py_payrollId p = Some (pw_id r)) (sfPayouts db'). py_amount p)"
    using ok by (auto simp: staff_ok_def reconciled_def payroll_figures_def payslip_sum_def)
  show "\<forall>p\<in>set (sfPayouts db'). py_status p = PAYOUT_PAID \<longleftrightarrow> py_payrollId p \<in> Some ` pw_id ` set (sfPayrolls db')"
    using ok by (fastforce simp: staff_ok_def reconciled_def payroll_figures_def)
qed

text \<open>
  A payout that was paid or cancelled never changes its status again, whatever runs afterwards:
  a cancelled order leaves what a payslip has paid, and a cancelled payout is never paid.
\<close>

theorem settled_payout_is_final:
  assumes "staff_ok db" and "payout_status_at db i = Some s" and "s = PAYOUT_PAID \<or> s = PAYOUT_CANCELLED"
  shows "payout_status_at (run_staff ops db) i = Some s"
  unfolding run_staff_eq
proof (rule payouts.run_final [OF assms(1,2)])
  show "\<not> payout_move\<^sup>+\<^sup>+ s b" for b
    using assms(3) by (auto simp: payout_move_iff elim: converse_tranclpE)
qed

subsection \<open>Two cuts that overlap\<close>

text \<open>
  C38: two cuts that overlap pay the commission twice. The source reads the released payouts outside
  the transaction and stamps them with an update whose count it ignores, so when both cuts have read
  before either writes, both payslips carry the whole commission, and all payouts are stamped with
  the first.
\<close>

theorem overlapping_cuts_pay_twice:
  assumes "staff_ok db" and "snap = sumReleasedForUser u asOf db"
    and "payroll_writes env1 dto1 snap hold1 loan1 untied1 db = (Inr r1, db1)"
    and "payroll_writes env2 dto2 snap hold2 loan2 untied2 db1 = (Inr r2, db2)"
  shows "pw_commissionAmount r1 = fst snap \<and> pw_commissionAmount r2 = fst snap
    \<and> payslip_sum (sfPayouts db2) (pw_id r1) = fst snap \<and> payslip_sum (sfPayouts db2) (pw_id r2) = 0"
proof -
  have ok: "reconciled (payroll_figures db) (sfPayouts db)" using assms(1) by (simp add: staff_ok_def)
  note w1 = payroll_writes_tables [OF assms(3)] and w2 = payroll_writes_tables [OF assms(4)]
  have ps1: "sfPayouts db1 = map (stamped env1 u asOf (pw_id r1)) (sfPayouts db)"
    using w1(6) stamp_snapshot ok by (simp add: assms(2) reconciled_def)
  have "stamp env2 (snd snap) (pw_id r2) q = q" if q: "q \<in> set (sfPayouts db1)" for q
  proof -
    obtain p where p: "p \<in> set (sfPayouts db)" "q = stamped env1 u asOf (pw_id r1) p" using q by (auto simp: ps1)
    have "py_status q \<noteq> PAYOUT_RELEASED \<or> py_id q \<notin> set (snd snap)"
    proof (cases "released_for u asOf p")
      case False
      have "inj_on py_id (set (sfPayouts db))" using payouts_unique_ids ok by (auto simp: distinct_map reconciled_def)
      then show ?thesis using p False by (auto simp: assms(2) sumReleasedForUser_def Let_def stamped_def inj_on_def)
    qed (simp add: p(2) stamped_def paid_payout_def)
    then show ?thesis by (auto simp: stamp_def)
  qed
  then have ps2: "sfPayouts db2 = sfPayouts db1" using w2(6) by (simp add: map_idI)
  have rows: "\<forall>p\<in>set (sfPayouts db). py_payrollId p \<noteq> Some (pw_id r1)"
    "\<forall>p\<in>set (sfPayouts db). py_status p = PAYOUT_RELEASED \<longrightarrow> py_payrollId p = None"
    using ok w1(4) by (fastforce simp: reconciled_def payroll_figures_def)+
  have r2: "pw_id r2 \<noteq> pw_id r1" "pw_id r2 \<notin> pw_id ` set (sfPayrolls db)" using w2(4) w1(5) by auto
  have "filter (\<lambda>p. py_payrollId p = Some (pw_id r2)) (sfPayouts db) = []"
    using ok r2(2) by (fastforce simp: filter_empty_conv reconciled_def payroll_figures_def)
  then have "payslip_sum (sfPayouts db) (pw_id r2) = 0" by (simp add: payslip_sum_def)
  then show ?thesis
    using w1(1) w2(1) released_sum [OF ok, of u asOf] r2(1)
    by (simp add: ps2 ps1 payslip_sum_stamped [OF rows] assms(2))
qed

subsection \<open>What stays withheld\<close>

definition slip_ok :: "debt_hold \<Rightarrow> bool" where
  "slip_ok h \<longleftrightarrow> fixed4 (dh_holdAmount h) \<and> fixed4 (dh_releasedAmount h) \<and> 0 \<le> dh_releasedAmount h
     \<and> dh_releasedAmount h \<le> dh_holdAmount h"

definition holds_ok :: "debt_hold list \<Rightarrow> bool" where
  "holds_ok hs \<longleftrightarrow> distinct (map dh_id hs) \<and> list_all slip_ok hs"

definition slip_of :: "uuid \<Rightarrow> debt_hold \<Rightarrow> bool" where
  "slip_of u h \<longleftrightarrow> dh_employeeUserId h = u \<and> \<not> dh_released h"

definition withheld :: "uuid \<Rightarrow> debt_hold list \<Rightarrow> decimal" where
  "withheld u hs = (\<Sum>h\<leftarrow>filter (slip_of u) hs. still_held h)"

definition kept :: "debt_hold \<Rightarrow> decimal" where
  "kept h = (if dh_released h then 0 else still_held h)"

lemma release_slip_id [simp]: "dh_id (release_slip env plan h) = dh_id h"
  "dh_employeeUserId (release_slip env plan h) = dh_employeeUserId h" "dh_payrollId (release_slip env plan h) = dh_payrollId h"
  by (simp_all add: release_slip_def split: option.split)

lemma release_slip_none: "dh_id h \<notin> fst ` set plan \<Longrightarrow> release_slip env plan h = h"
  by (auto simp: release_slip_def split: option.split dest: map_of_SomeD intro: rev_image_eqI)

lemma release_plan_id: "x \<in> set (release_plan c hs) \<Longrightarrow> fst x \<in> dh_id ` set hs"
  by (induction c hs rule: release_plan.induct) (auto split: if_splits)

lemma release_plan_ids: "fst ` set (release_plan c hs) \<subseteq> dh_id ` set hs"
  using release_plan_id by blast

lemma release_slip_skip: "dh_id h \<noteq> i \<Longrightarrow> release_slip env ((i, x) # plan) h = release_slip env plan h"
  by (simp add: release_slip_def)

lemma still_held_sum_nonneg: "list_all slip_ok hs \<Longrightarrow> 0 \<le> (\<Sum>h\<leftarrow>hs. still_held h)"
  by (rule sum_list_nonneg_rat) (auto simp: list_all_iff slip_ok_def still_held_def)

text \<open>The loop leaves as much withheld as the open debt covers.\<close>

lemma release_plan_keeps:
  assumes "distinct (map dh_id hs)" and "list_all slip_ok hs" and "list_all (\<lambda>h. \<not> dh_released h) hs" and "fixed4 c" and "0 \<le> c"
  shows "(\<Sum>h\<leftarrow>hs. kept (release_slip env (release_plan c hs) h)) = min c (\<Sum>h\<leftarrow>hs. still_held h)"
  using assms
proof (induction hs arbitrary: c)
  case (Cons h hs)
  have h: "fixed4 (dh_holdAmount h)" "fixed4 (dh_releasedAmount h)" "0 \<le> still_held h" "\<not> dh_released h"
    and fresh: "dh_id h \<notin> dh_id ` set hs" "dh_id h \<notin> fst ` set (release_plan d hs)" for d
    using Cons.prems release_plan_ids [of d hs] by (auto simp: slip_ok_def still_held_def)
  have held: "fixed4 (still_held h)"
    using fixed4_arith h(1,2) by (simp add: still_held_def)
  have rest: "(\<Sum>x\<leftarrow>hs. kept (release_slip env (release_plan d hs) x)) = min d (\<Sum>x\<leftarrow>hs. still_held x)" if "fixed4 d" "0 \<le> d" for d
    using Cons.IH [of d] Cons.prems that by simp
  have S: "0 \<le> (\<Sum>x\<leftarrow>hs. still_held x)" using Cons.prems(2) by (simp add: still_held_sum_nonneg)
  consider "still_held h \<le> 0" | "0 < still_held h" "still_held h \<le> c" | "0 < still_held h" "c < still_held h" by linarith
  then show ?case
  proof cases
    case 1
    then show ?thesis using rest [OF Cons.prems(4,5)] h fresh(2) by (simp add: release_slip_none kept_def)
  next
    case 2
    have "fixed4 (c - still_held h)" using Cons.prems(4) held by (simp add: fixed4_iff) (metis amount_of_minor_def diff_divide_distrib of_int_diff)
    then show ?thesis using rest [of "c - still_held h"] 2 h fresh(2) S by (simp add: release_slip_none kept_def min_def)
  next
    case 3
    define n where "n = dh_releasedAmount h + (still_held h - c)"
    have "fixed4 n"
      using Cons.prems(4) held h(2) unfolding n_def fixed4_iff amount_of_minor_def
      by (metis add_divide_distrib diff_divide_distrib of_int_add of_int_diff)
    moreover have "dh_holdAmount h - n = c" by (simp add: n_def still_held_def)
    moreover have "dh_id x \<noteq> dh_id h" if "x \<in> set hs" for x using fresh(1) that by (metis imageI)
    then have "(\<Sum>x\<leftarrow>hs. kept (release_slip env ((dh_id h, n) # release_plan 0 hs) x))
        = (\<Sum>x\<leftarrow>hs. kept (release_slip env (release_plan 0 hs) x))"
      by (intro arg_cong [of _ _ sum_list] map_cong refl) (simp add: release_slip_skip)
    then have "(\<Sum>x\<leftarrow>hs. kept (release_slip env ((dh_id h, n) # release_plan 0 hs) x)) = 0"
      using rest [of 0] S by (simp add: fixed4_iff amount_of_minor_def exI [of _ 0])
    moreover have "kept (release_slip env ((dh_id h, n) # release_plan 0 hs) h) = c"
      using calculation(1,2) Cons.prems(5) by (simp add: release_slip_def kept_def still_held_def)
    ultimately show ?thesis using 3 S by (simp add: n_def)
  qed
qed simp

lemma open_debt_nonneg: "0 \<le> computeOpenDebtForEmployee env u db"
  by (auto simp: computeOpenDebtForEmployee_def Let_def intro!: sum_list_nonneg_rat)

lemma filter_sum_if: "(\<Sum>x\<leftarrow>filter P xs. f x) = (\<Sum>x\<leftarrow>xs. if P x then f x else 0)" for f :: "'a \<Rightarrow> rat"
  by (induction xs) auto

lemma plan_outside:
  assumes "distinct (map dh_id (sfHolds db))" and "h \<in> set (sfHolds db)" and "\<not> slip_of u h"
  shows "release_slip env (release_plan c (held_slips u db)) h = h"
proof (rule release_slip_none)
  have "inj_on dh_id (set (sfHolds db))" using assms(1) by (simp add: distinct_map)
  then have "dh_id h \<notin> dh_id ` set (held_slips u db)"
    using assms(2,3) by (auto simp: held_slips_def slip_of_def inj_on_def)
  then show "dh_id h \<notin> fst ` set (release_plan c (held_slips u db))"
    using release_plan_ids [of c "held_slips u db"] by blast
qed

lemma held_slips_facts:
  assumes "holds_ok (sfHolds db)"
  shows "distinct (map dh_id (held_slips u db))" "list_all slip_ok (held_slips u db)"
    "list_all (\<lambda>h. \<not> dh_released h) (held_slips u db)" "(\<Sum>h\<leftarrow>held_slips u db. f h) = (\<Sum>h\<leftarrow>filter (slip_of u) (sfHolds db). f h :: rat)"
  using assms by (auto simp: holds_ok_def held_slips_def list_all_iff distinct_map sum_sort_key slip_of_def [abs_def] intro: inj_on_subset)

lemma releaseSettledHolds_withheld:
  assumes "holds_ok (sfHolds db)" and "fixed4 (computeOpenDebtForEmployee env u db)"
  shows "withheld u (sfHolds (snd (releaseSettledHolds env u db)))
    = min (computeOpenDebtForEmployee env u db) (withheld u (sfHolds db))"
proof -
  let ?c = "computeOpenDebtForEmployee env u db"
  let ?slip = "release_slip env (release_plan ?c (held_slips u db))"
  have d: "distinct (map dh_id (sfHolds db))" using assms(1) by (simp add: holds_ok_def)
  have "(if slip_of u (?slip h) then still_held (?slip h) else 0) = (if slip_of u h then kept (?slip h) else 0)"
    if "h \<in> set (sfHolds db)" for h
    using plan_outside [OF d that, of u env ?c] by (auto simp: slip_of_def kept_def)
  then have "withheld u (map ?slip (sfHolds db)) = (\<Sum>h\<leftarrow>sfHolds db. if slip_of u h then kept (?slip h) else 0)"
    unfolding withheld_def filter_sum_if map_map comp_def by (intro arg_cong [of _ _ sum_list] map_cong refl)
  also have "\<dots> = (\<Sum>h\<leftarrow>held_slips u db. kept (?slip h))"
    by (simp add: held_slips_facts(4) [OF assms(1)] filter_sum_if)
  also have "\<dots> = min ?c (withheld u (sfHolds db))"
    unfolding release_plan_keeps [OF held_slips_facts(1-3) [OF assms(1)] assms(2) open_debt_nonneg]
    by (simp add: withheld_def held_slips_facts(4) [OF assms(1)])
  finally show ?thesis by (simp add: releaseSettledHolds_def Let_def)
qed

lemma tied_facts [simp]: "dh_id (tied ids i h) = dh_id h" "slip_of u (tied ids i h) = slip_of u h" "still_held (tied ids i h) = still_held h"
  by (simp_all add: tied_def slip_of_def still_held_def)

lemma withheld_tied [simp]: "withheld u (map (tied ids i) hs) = withheld u hs"
  by (simp add: withheld_def filter_map comp_def)

lemma booked_hold_withheld: "booked_hold env u hold i hs news \<Longrightarrow> withheld u news = dec4 (auto_hold hold)"
proof -
  have "dec4 0 = 0" by (rule dec4_fixed4(1)) (simp add: fixed4_iff amount_of_minor_def exI [of _ 0])
  then show "booked_hold env u hold i hs news \<Longrightarrow> withheld u news = dec4 (auto_hold hold)"
    by (cases hold) (auto simp: booked_hold_def auto_hold_def withheld_def slip_of_def still_held_def)
qed

text \<open>
  C39: what a cut leaves withheld from an employee. Of what was held before, the cut keeps what the
  open debt still covers and releases the rest; on top of it comes the new slip, which the source
  takes from the whole open debt again, so that an open debt that is already held in full is held
  twice after the next cut.
\<close>

theorem withheld_after_cut:
  assumes "payroll_create env role dto db = (Inr row, db')" and "holds_ok (sfHolds db)"
    and "fixed4 (computeOpenDebtForEmployee env (yp_userId dto) db)"
  shows "withheld (yp_userId dto) (sfHolds db')
    = min (computeOpenDebtForEmployee env (yp_userId dto) db) (withheld (yp_userId dto) (sfHolds db))
      + dec4 (auto_hold (buildHoldSnapshotForPayroll env (yp_userId dto) db))"
proof -
  obtain loan ls holds where holds: "holds = sfHolds (snd (releaseSettledHolds env (yp_userId dto) db))"
    and w: "payroll_writes env dto (sumReleasedForUser (yp_userId dto) (yp_paymentDate dto) db)
       (buildHoldSnapshotForPayroll env (yp_userId dto) db) loan
       (untied_holds (yp_userId dto) (db\<lparr>sfHolds := holds\<rparr>)) (db\<lparr>sfLoans := ls, sfHolds := holds\<rparr>) = (Inr row, db')"
    using payroll_create_Inr [OF assms(1)] .
  obtain news ids where "booked_hold env (yp_userId dto) (buildHoldSnapshotForPayroll env (yp_userId dto) db) (pw_id row) holds news"
    and "sfHolds db' = map (tied ids (pw_id row)) (holds @ news)"
    using payroll_writes_tables(10) [OF w] by auto
  then have "withheld (yp_userId dto) (sfHolds db') = withheld (yp_userId dto) holds
      + dec4 (auto_hold (buildHoldSnapshotForPayroll env (yp_userId dto) db))"
    using booked_hold_withheld by (simp del: map_append) (simp add: withheld_def booked_hold_withheld [symmetric])
  then show ?thesis by (simp add: holds releaseSettledHolds_withheld [OF assms(2,3)])
qed

subsection \<open>A manual hold without an open debt\<close>

lemma release_plan_all:
  assumes "distinct (map dh_id hs)" and "h \<in> set hs" and "0 < still_held h"
  shows "map_of (release_plan 0 hs) (dh_id h) = Some (dh_holdAmount h)"
  using assms
proof (induction hs)
  case (Cons x xs)
  show ?case
  proof (cases "h = x")
    case True
    then show ?thesis using Cons.prems(3) by (simp add: still_held_def)
  next
    case False
    then have "map_of (release_plan 0 xs) (dh_id h) = Some (dh_holdAmount h)" using Cons by simp
    moreover have "dh_id h \<noteq> dh_id x" using Cons.prems(1,2) False by (auto intro: rev_image_eqI)
    ultimately show ?thesis by simp
  qed
qed simp

definition fully_released :: "env \<Rightarrow> debt_hold \<Rightarrow> debt_hold" where
  "fully_released env h = h\<lparr>dh_releasedAmount := dh_holdAmount h, dh_released := True, dh_releaseDate := Some (now env)\<rparr>"

lemma release_slip_all:
  assumes "holds_ok (sfHolds db)" and "h \<in> set (sfHolds db)" and "slip_of u h" and "0 < still_held h"
  shows "release_slip env (release_plan 0 (held_slips u db)) h = fully_released env h"
proof -
  have h: "h \<in> set (held_slips u db)" using assms(2,3) by (simp add: held_slips_def slip_of_def)
  moreover have "fixed4 (dh_holdAmount h)" using assms(1,2) by (simp add: holds_ok_def list_all_iff slip_ok_def)
  ultimately show ?thesis
    using release_plan_all [OF held_slips_facts(1) [OF assms(1)] h assms(4)] by (simp add: release_slip_def fully_released_def)
qed

text \<open>
  C40: a manual hold of an employee without open customer debt is never withheld: the next cut
  releases it in full before it looks for the holds to put on the payslip. The payslip deducts
  nothing and the slip may be disbursed: the employee is paid an amount that was never kept back.
\<close>

theorem manual_hold_never_withheld:
  assumes "payroll_create env role dto db = (Inr row, db')" and "holds_ok (sfHolds db)"
    and "computeOpenDebtForEmployee env (yp_userId dto) db = 0"
    and "\<forall>x\<in>set (sfHolds db). slip_of (yp_userId dto) x \<and> dh_payrollId x = None \<longrightarrow> 0 < still_held x"
    and "h \<in> set (sfHolds db)" and "slip_of (yp_userId dto) h" and "dh_payrollId h = None"
  shows "pw_debtHoldAmount row = 0
    \<and> find_row dh_id (sfHolds db') (dh_id h)
        = Some (h\<lparr>dh_releasedAmount := dh_holdAmount h, dh_released := True, dh_releaseDate := Some (now env)\<rparr>)"
proof -
  let ?u = "yp_userId dto"
  let ?slip = "release_slip env (release_plan 0 (held_slips ?u db))"
  have d: "distinct (map dh_id (sfHolds db))" using assms(2) by (simp add: holds_ok_def)
  have none: "buildHoldSnapshotForPayroll env ?u db = None" by (simp add: buildHoldSnapshotForPayroll_def Let_def assms(3))
  obtain loan ls holds where holds: "holds = sfHolds (snd (releaseSettledHolds env ?u db))"
    and w: "payroll_writes env dto (sumReleasedForUser ?u (yp_paymentDate dto) db) (buildHoldSnapshotForPayroll env ?u db) loan
       (untied_holds ?u (db\<lparr>sfHolds := holds\<rparr>)) (db\<lparr>sfLoans := ls, sfHolds := holds\<rparr>) = (Inr row, db')"
    using payroll_create_Inr [OF assms(1)] .
  have hs: "holds = map ?slip (sfHolds db)" by (simp add: holds releaseSettledHolds_def Let_def assms(3))
  have "\<not> (slip_of ?u (?slip x) \<and> dh_payrollId (?slip x) = None)" if x: "x \<in> set (sfHolds db)" for x
  proof (cases "slip_of ?u x \<and> dh_payrollId x = None")
    case True
    then have "?slip x = fully_released env x" using assms(4) x by (intro release_slip_all [OF assms(2) x]) auto
    then show ?thesis by (simp add: fully_released_def slip_of_def)
  next
    case False
    then show ?thesis using plan_outside [OF d x, of ?u env 0] by (cases "slip_of ?u x") auto
  qed
  then have untied: "untied_holds ?u (db\<lparr>sfHolds := holds\<rparr>) = []"
    unfolding untied_holds_def filter_empty_conv hs by (auto simp: slip_of_def)
  have "dec4 0 = 0" by (rule dec4_fixed4(1)) (simp add: fixed4_iff amount_of_minor_def exI [of _ 0])
  then have "pw_debtHoldAmount row = 0"
    using payroll_writes_tables(3) [OF w] by (simp add: untied none auto_hold_def)
  moreover have "sfHolds db' = map (tied [] (pw_id row)) holds"
    using payroll_writes_tables(10) [OF w] by (simp add: untied none booked_hold_def)
  then have "sfHolds db' = map ?slip (sfHolds db)" by (simp add: hs tied_def)
  moreover have "find_row dh_id (sfHolds db) (dh_id h) = Some h" using find_row_distinct [OF d assms(5)] .
  moreover have "?slip h = fully_released env h" using assms(4-7) by (intro release_slip_all [OF assms(2)]) auto
  ultimately show ?thesis
    using find_row_map_news [of dh_id ?slip "sfHolds db" "[]" "dh_id h"] by (simp add: fully_released_def)
qed

subsection \<open>Concrete cuts\<close>

text \<open>
  The driver \<open>d1\<close> has earned 8 KD on order \<open>o1\<close>, has a manual hold of 3 KD and no open debt; the
  manager's payslip of the month is cut.
\<close>

definition example_payout :: commission_payout where
  "example_payout = \<lparr>py_id = ''y1'', py_ruleId = ''r1'', py_earnerUserId = ''d1'', py_mode = CM_SALE, py_basisAmount = 80,
     py_percentage = 10, py_amount = 8, py_status = PAYOUT_RELEASED, py_sourceOrderId = Some ''o1'', py_sourceJournalEntryId = None,
     py_payrollId = None, py_earnedAt = 0, py_releasedAt = Some 1, py_paidAt = None, py_cancelledAt = None, py_cancelReason = None\<rparr>"

definition example_hold :: debt_hold where
  "example_hold = \<lparr>dh_id = ''h1'', dh_employeeUserId = ''d1'', dh_payrollId = None, dh_debtAmount = 3, dh_holdAmount = 3,
     dh_releasedAmount = 0, dh_released = False, dh_releaseDate = None, dh_disbursedAt = None, dh_disbursedById = None,
     dh_note = [], dh_createdAt = 0\<rparr>"

definition example_staff :: staff_db where
  "example_staff = \<lparr>sfLedger = example_ledger, sfTransferredFrom = (\<lambda>_. None), sfCommissionEnabled = True,
     sfFees = \<lparr>fc_knetFlatKd = 0, fc_knetPercentOfGross = 0, fc_knetRule = FLAT_ONLY, fc_cardPercentOfGross = 0\<rparr>,
     sfRules = [], sfPayouts = [example_payout], sfHoldPolicy = \<lparr>hp_isActive = True, hp_holdMode = HOLD_FULL, hp_fixedAmount = None\<rparr>,
     sfHolds = [example_hold], sfLoans = [], sfPayrolls = [], sfAdHoc = []\<rparr>"

definition example_cut :: create_payroll where
  "example_cut = \<lparr>yp_userId = ''d1'', yp_branchId = ''b1'', yp_basicSalary = 100, yp_allowances = None, yp_deductions = None,
     yp_paymentDate = 1772668800000\<rparr>"

definition example_result :: "payroll_row result \<times> staff_db" where
  "example_result = payroll_create example_env OWNER example_cut example_staff"

lemma example_staff_ok: "staff_ok example_staff"
  by (simp add: staff_ok_def reconciled_def payouts_unique_def payroll_figures_def example_staff_def example_payout_def
      fixed4_iff amount_of_minor_def exI [of _ 80000])

lemma example_no_debt: "computeOpenDebtForEmployee example_env ''d1'' example_staff = 0"
  by code_simp

lemma example_cut_succeeds: "payroll_create example_env OWNER example_cut example_staff
    = (Inr (projr (fst example_result)), snd example_result)"
proof -
  have "\<not> isl (fst (payroll_create example_env OWNER example_cut example_staff))" by code_simp
  then show ?thesis unfolding example_result_def by (cases "payroll_create example_env OWNER example_cut example_staff") auto
qed

theorem payslips_reconcile_witness:
  "list_all (\<lambda>r. pw_commissionAmount r = payslip_sum (sfPayouts (snd example_result)) (pw_id r)) (sfPayrolls (snd example_result))
    \<and> map pw_commissionAmount (sfPayrolls (snd example_result)) = [8]"
proof -
  have "map pw_commissionAmount (sfPayrolls (snd example_result)) = [8]" by code_simp
  then show ?thesis
    using payslips_reconcile [OF example_staff_ok, of "snd example_result" "[CreatePayroll example_env OWNER example_cut]"]
    by (simp add: run_staff_def example_result_def list_all_iff payslip_sum_def)
qed

theorem settled_payout_is_final_witness:
  "payout_status_at (run_staff [CancelForOrder example_env ''o1'' ''cancelled'', ScanAll example_env] (snd example_result)) ''y1''
    = Some PAYOUT_PAID"
proof (rule settled_payout_is_final)
  show "staff_ok (snd example_result)"
    using staff_ok_exec [OF example_staff_ok, of "CreatePayroll example_env OWNER example_cut"] by (simp add: example_result_def)
  show "payout_status_at (snd example_result) ''y1'' = Some PAYOUT_PAID" by code_simp
qed simp

definition first_writes :: "payroll_row result \<times> staff_db" where
  "first_writes = payroll_writes example_env example_cut (8, [''y1'']) None 0 [] example_staff"

definition second_writes :: "payroll_row result \<times> staff_db" where
  "second_writes = payroll_writes example_env example_cut (8, [''y1'']) None 0 [] (snd first_writes)"

lemma result_parts: "\<not> isl (fst m) \<Longrightarrow> m = (Inr (projr (fst m)), snd m)"
  by (cases m) auto

theorem overlapping_cuts_pay_twice_witness:
  "pw_commissionAmount (projr (fst first_writes)) = 8 \<and> pw_commissionAmount (projr (fst second_writes)) = 8
    \<and> payslip_sum (sfPayouts (snd second_writes)) (pw_id (projr (fst first_writes))) = 8
    \<and> payslip_sum (sfPayouts (snd second_writes)) (pw_id (projr (fst second_writes))) = 0"
proof -
  have "sumReleasedForUser ''d1'' 1772668800000 example_staff = (8, [''y1''])" by code_simp
  moreover have "\<not> isl (fst first_writes)" "\<not> isl (fst second_writes)" by code_simp+
  ultimately show ?thesis
    using overlapping_cuts_pay_twice [OF example_staff_ok, of "(8, [''y1''])" "''d1''" 1772668800000
        example_env example_cut None 0 "[]" "projr (fst first_writes)" "snd first_writes"
        example_env example_cut None 0 "[]" "projr (fst second_writes)" "snd second_writes"]
      result_parts [of first_writes] result_parts [of second_writes]
    by (simp add: first_writes_def second_writes_def)
qed

lemma example_holds_ok: "holds_ok (sfHolds example_staff)"
  by (simp add: holds_ok_def slip_ok_def example_staff_def example_hold_def fixed4_iff amount_of_minor_def
      exI [of _ 30000] exI [of _ 0])

theorem manual_hold_never_withheld_witness:
  "pw_debtHoldAmount (projr (fst example_result)) = 0
    \<and> find_row dh_id (sfHolds (snd example_result)) ''h1''
        = Some (example_hold\<lparr>dh_releasedAmount := 3, dh_released := True, dh_releaseDate := Some 1772668800000\<rparr>)"
proof -
  have "\<forall>x\<in>set (sfHolds example_staff). slip_of (yp_userId example_cut) x \<and> dh_payrollId x = None \<longrightarrow> 0 < still_held x"
    by (simp add: example_staff_def example_hold_def still_held_def)
  moreover have "example_hold \<in> set (sfHolds example_staff)" "slip_of (yp_userId example_cut) example_hold"
    "dh_payrollId example_hold = None"
    by (simp_all add: example_staff_def example_hold_def slip_of_def example_cut_def)
  ultimately show ?thesis
    using manual_hold_never_withheld [OF example_cut_succeeds example_holds_ok, of example_hold] example_no_debt
    by (simp add: example_cut_def example_hold_def example_env_def)
qed

definition owing_staff :: staff_db where
  "owing_staff = example_staff\<lparr>sfLedger := example_ledger\<lparr>accounts := accounts example_statement_db,
     journalEntries := journalEntries example_statement_db,
     lgOrders := [example_ledger_order\<lparr>lo_driverId := Some ''d1'', lo_totalPrice := 25 / 2\<rparr>]\<rparr>\<rparr>"

definition owing_result :: "payroll_row result \<times> staff_db" where
  "owing_result = payroll_create journal_env OWNER example_cut owing_staff"

lemma payroll_writes_succeeds:
  assumes "new_uuid env (length (sfPayrolls db)) \<notin> pw_id ` set (sfPayrolls db)"
    and "new_uuid env (length (sfHolds db)) \<notin> dh_id ` set (sfHolds db)"
  shows "\<not> isl (fst (payroll_writes env dto snapshot hold loan untied db))"
  using assms by (cases hold) (simp_all add: payroll_writes_def insert_payroll_def persistHold_def insert_hold_def Let_def
      markPaid_state returnS_def)

lemma payroll_create_succeeds:
  assumes "role = OWNER \<or> role = MANAGER"
    and "bookPayrollInstalmentsFor (sfLoans db) (yp_userId dto) (yearMonthOf (yp_paymentDate dto)) = (Inr loan, ls)"
    and "new_uuid env (length (sfPayrolls db)) \<notin> pw_id ` set (sfPayrolls db)"
    and "new_uuid env (length (sfHolds db)) \<notin> dh_id ` set (sfHolds db)"
  shows "\<not> isl (fst (payroll_create env role dto db))"
proof -
  have "\<not> isl (fst (payroll_tx env dto snap db))" for snap
    unfolding payroll_tx_def on_loans_def releaseSettledHolds_def Let_def
    by (simp add: assms(2)) (rule payroll_writes_succeeds; simp add: assms(3,4) image_image)
  from this [of "sumReleasedForUser (yp_userId dto) (yp_paymentDate dto) db"] show ?thesis
    using assms(1) by (cases "fst (payroll_tx env dto (sumReleasedForUser (yp_userId dto) (yp_paymentDate dto) db) db)")
      (auto simp: payroll_create_def assertOwnerOrManager_def guardE_def staff_transaction_def)
qed

theorem withheld_after_cut_witness:
  "withheld ''d1'' (sfHolds (snd owing_result)) = 5"
proof -
  have debt: "computeOpenDebtForEmployee journal_env ''d1'' owing_staff = 5 / 2" by code_simp
  moreover have "\<not> isl (fst owing_result)"
    unfolding owing_result_def
  proof (rule payroll_create_succeeds)
    show "bookPayrollInstalmentsFor (sfLoans owing_staff) (yp_userId example_cut) (yearMonthOf (yp_paymentDate example_cut)) = (Inr 0, [])"
      by code_simp
    show "new_uuid journal_env (length (sfPayrolls owing_staff)) \<notin> pw_id ` set (sfPayrolls owing_staff)"
      "new_uuid journal_env (length (sfHolds owing_staff)) \<notin> dh_id ` set (sfHolds owing_staff)"
      by (simp_all add: owing_staff_def example_staff_def example_hold_def journal_env_def example_env_def)
  qed simp
  note result_parts [OF this, unfolded owing_result_def]
  moreover have "holds_ok (sfHolds owing_staff)" using example_holds_ok by (simp add: owing_staff_def)
  moreover have "fixed4 (5 / 2)" by (simp add: fixed4_iff amount_of_minor_def exI [of _ 25000])
  moreover have "withheld ''d1'' (sfHolds owing_staff) = 3" by code_simp
  moreover have "dec4 (auto_hold (buildHoldSnapshotForPayroll journal_env ''d1'' owing_staff)) = 5 / 2" by code_simp
  moreover have "yp_userId example_cut = ''d1''" by (simp add: example_cut_def)
  ultimately show ?thesis
    using withheld_after_cut [of journal_env OWNER example_cut owing_staff "projr (fst owing_result)" "snd owing_result"]
    by (simp only: owing_result_def)
qed

end
