(* ===== verification/Spec2Isabelle.thy ===== *)
theory Spec2Isabelle
  imports Journal_Reads Transaction_Processor Payment_Methods Order_Balances Loans Leaves
    Transfer_Protocol Custody_Reads Inventory_Laws Customer_Activation
    Payment_Bundles Payment_Answers Purchases_Laws Payroll_Laws
begin

text \<open>
  The financial core of the Safari laundry system (NestJS services over a PostgreSQL database,
  \<open>src/\<close>), translated definition by definition and verified.

  \<^bold>\<open>The program.\<close> Orders are taken by drivers and the call center, priced in Kuwaiti dinars with
  four decimals, and settled in cash, by card, by a hosted payment link, from a prepaid
  subscription wallet, or on account. Three books are kept side by side: the columns of the
  customer's wallet (\<open>balance\<close>, \<open>debt\<close>), the single-entry general ledger (an audit stream) and
  the double-entry journal (accounts, entries, lines), from which balances are read. Cash goes
  from the driver to the branch manager to the bank: a shift is handed over, the manager's
  custody bag is approved, deposited and verified. Around this lie the stock of the branches,
  purchases, employee loans, leave requests, commissions and payslips. Most of the correctness
  questions are about the agreement of the books, about doing a thing once although requests are
  repeated and run concurrently, and about guards that must stop an operation before it writes.

  \<^bold>\<open>Conventions.\<close> A \<open>Prisma.Decimal\<close> is an exact rational (\<open>decimal\<close>); minor units are \<open>int\<close>, as
  they are \<open>bigint\<close> in the source. A time stamp is the number of milliseconds of \<open>Date.getTime\<close>.
  Tables are lists of records in the order of insertion; \<open>findUnique\<close> is \<open>find_row\<close>, \<open>update\<close>
  is \<open>update_row\<close>. What the process reads from outside (the clock, fresh identifiers, the
  environment variables, failures of the database) is a record \<open>env\<close> handed to every operation.
  A thrown exception is the left injection of \<open>'a result\<close>; a statement on a store returns the
  result and the state it leaves, and a transaction that throws is rolled back to the state in
  which it started. A row lock orders transactions and changes no table. Where two requests can
  overlap in the source because a check precedes the transaction, the operation is split at that
  point (a read part and a write part) and the interleavings are explicit sequences of steps.

  \<^bold>\<open>Theories.\<close>
  \<^item> \<open>Prelude\<close>, \<open>Clock\<close>, \<open>Workflow\<close>: exceptions, strings, decimal digits; the calendar of
    JavaScript's \<open>Date\<close>; roles, order states and lookups in tables, the approval workflow.
  \<^item> \<open>Money\<close> (\<open>finance/finance-money.ts\<close>, \<open>finance/utils/round4kd.util.ts\<close>): printing and
    parsing of amounts, minor units, the handover check. Round trips and exact bounds.
  \<^item> \<open>Periods\<close> (\<open>finance/periods/\<close>): closing and reopening a month, the write guard.
  \<^item> \<open>Journal_Store\<close>, \<open>Journal\<close>, \<open>Journal_Effects\<close>
    (\<open>general-ledger/double-entry-journal.service.ts\<close>): the journal's tables; \<open>appendBalanced\<close>,
    the one function that writes an entry, the wrappers of the business events, the failure log and
    the circuit breaker; and what each event moves. The journal stays balanced; a history of
    business events refines a list of moves between accounts; a closed month stops every
    writer; with the fail-closed flag no failure is silent.
  \<^item> \<open>Transaction_Processor\<close> (\<open>general-ledger/financial-transaction-processor.service.ts\<close>):
    funding sources and ledger movement to one balanced entry; wallet funding.
  \<^item> \<open>Journal_Reads\<close> (readers of the journal, \<open>finance/ledger/\<close> helpers), \<open>Payment_Methods\<close>
    (payment vocabulary, origin of payment rows), \<open>Order_Balances\<close>
    (\<open>finance/debt-customer-aggregates.util.ts\<close>, \<open>finance/invoice-payment-status.service.ts\<close>):
    what a customer or an invoice owes, by every reader, and where two readers disagree.
  \<^item> \<open>Wallet_Store\<close>, \<open>Customer_Ledger\<close>, \<open>Customer_Collections\<close>, \<open>Customer_Subscriptions\<close>
    (\<open>customer-ledger/\<close>): the tables of the customer ledger over the journal; the settlement of a
    completed order; collections and partial payments; activation, automatic settlement of open
    invoices and cancellation of a subscription.
  \<^item> \<open>Customer_Frames\<close>, \<open>Customer_Wallets\<close>, \<open>Customer_Settlement\<close>, \<open>Customer_Reconcile\<close>,
    \<open>Customer_Refunds\<close>, \<open>Customer_Activation\<close>: their laws. No history of commands makes a balance
    or a debt negative or rewrites a booked row; an order is settled once; with true accounting
    the wallet row and the journal both follow one abstract account; the automatic settlement
    ends within its passes; refunds are bounded; what a collection, a partial payment and an
    activation book, also where the books part.
  \<^item> \<open>Cash_Store\<close>, \<open>Cash\<close>, \<open>Custody\<close>, \<open>Debt_Transfers\<close>, \<open>Deposits\<close>
    (\<open>finance/services/cash.service.ts\<close>, \<open>manager-custody/\<close>, \<open>debt-transfers/\<close>,
    \<open>finance/bank-deposits.service.ts\<close>): the cash chain. \<open>Cash_Chain\<close> composes them into one
    transition system; \<open>Cash_Conservation\<close>, \<open>Transfer_Protocol\<close> and \<open>Custody_Reads\<close> prove that cash
    is neither lost nor made, that bags are booked once when requests do not overlap and twice
    when they do, the two-signature protocol, and what the reports show.
  \<^item> \<open>Ledger_Projection\<close> (\<open>finance/ledger/ledger-projection.service.ts\<close>): the double-entry view
    computed from the cash tables, and its reconciliation.
  \<^item> \<open>Inventory\<close>, \<open>Inventory_Laws\<close> (\<open>inventory/inventory.service.ts\<close>): stock levels and movements.
  \<^item> \<open>Loans\<close>, \<open>Leaves\<close> (\<open>loans/\<close>, \<open>leaves/\<close>): the workflows and the instalments of a payroll month.
  \<^item> \<open>Purchases\<close>, \<open>Purchases_Laws\<close> (\<open>purchase-orders/purchase-orders.service.ts\<close>,
    \<open>branches/administrative-branch.util.ts\<close>): purchase orders from draft to receipt. Received
    quantities agree with the receipts and stay within what was ordered when deliveries follow one
    another and name a line once; the three ways in which stock and order part.
  \<^item> \<open>Commissions\<close>, \<open>Payroll\<close>, \<open>Payroll_Laws\<close> (\<open>commissions/\<close>, \<open>debt-holds/\<close>, \<open>payroll/\<close>,
    \<open>payment-method-fees/bank-fee.util.ts\<close>): what orders and payments earn, holds for open debt and
    the payslips that take both. Payslips and payouts agree in every history of operations; what a
    cut leaves withheld; two overlapping cuts pay twice, and a manual hold may never be withheld.

  \<^item> \<open>Payment_Gateway\<close> (\<open>common/services/payments.service.ts\<close> with its helpers, the settlement
    links of \<open>finance/services/debt.service.ts\<close>): links, inquiries, callbacks, polling, the manual
    confirmation. The gateway, its charge answer and the keyed hash are parameters.
    \<open>Payment_Laws\<close>: an order is sold once in any history. \<open>Payment_Bundles\<close>: orders point to
    existing bundles, a settlement link takes all of its invoices or none, and payments for
    invoices completed on account are lost. \<open>Payment_Answers\<close>: what a payment has passed when its
    order is sold, and which answers of the gateway cannot matter or are turned away.

  \<^bold>\<open>How the parts interact.\<close> Every writer of the journal goes through \<open>appendBalanced\<close>, so its
  guards (balance, period, duplicate reference) hold for all of them. The settlement of an order
  (\<open>Customer_Ledger\<close>) is called at checkout, by the automatic settlement and by the payment gateway;
  it writes the wallet, the history, the general ledger and up to four journal entries in one
  transaction, and marks the order. The gateway finalises the orders of a bundle one by one, each
  in its own transaction over the customer ledger. Completing a sale also moves stock (\<open>Inventory\<close>),
  and so does a delivery (\<open>Purchases\<close>), after its own transaction. The cash chain and the ledger
  projection share the cash tables. A payslip books the instalments of the loans, takes the released
  commissions and holds back what the journal says the employee's orders still owe.

  \<^bold>\<open>Interfaces.\<close> Contracts that several operations share are locales, interpreted on the model:
  \<open>booked\<close> (a balance and its trail), \<open>frame\<close> (what a sequence of statements leaves alone), the
  \<open>workflow\<close> of rows that change their status (loans, leaves, custody, transfers, payouts), and the
  keepers of invariants of the customer ledger.

  \<^bold>\<open>Bounds and fuel.\<close> Every definition is total. The automatic settlement is a recursion on the
  50 passes of the source's loop; \<open>reconciliation_completes\<close> shows that each pass removes an
  invoice from the queue, so that with at most 50 payable invoices the loop has ended by itself.
  The other loops are structural recursions over lists of rows. No machine integers occur: the
  source uses \<open>bigint\<close> and decimals; the few places that go through a JavaScript number are
  named in the text of the definition.

  \<^bold>\<open>Not modelled.\<close> \<open>web/\<close> (presentation, no rules of its own); controllers, guards, validation
  decorators and module wiring of the framework; logging, metrics, published events and the
  checks that run after a commit and change no table; notification, messaging and export
  services; order intake and the screens of the call center; attendance, expenses and the snapshot
  projections, which are further components of the same kind. Inside the modelled components: locale formatting (\<open>formatKwd\<close> and its relatives),
  Arabic labels, names of branches and people joined to rows, the live map of the drivers and
  the owner's cycle report, the annotations (actor role, recorder, status, event) in the
  metadata of projected entries, and the cron job that stores the low-stock report.
\<close>

end
